(* ===== verification/Prelude.thy ===== *)
theory Prelude
  imports Main "HOL-Library.Sublist"
begin

text \<open>
  Shared vocabulary of the development: identifiers and clocks, the exceptions the server code
  raises, Python calls that may raise (values of a sum type), and the operations on database
  tables (lists of rows) with the facts every component proof uses.
\<close>

named_theorems row_simps \<open>how table operations act on rows\<close>
named_theorems act_inv \<open>invariants are kept by the statement combinators\<close>

section \<open>Identifiers, clocks and exceptions\<close>

text \<open>
  A UUID is its 128-bit value, which is what PostgreSQL and Python order it by. A timestamp is a
  number of microseconds since the epoch, in UTC; a \<open>timedelta\<close> is a number of microseconds.
\<close>

type_synonym uuid = nat
type_synonym timestamp = int
type_synonym timedelta = int

definition seconds :: "int \<Rightarrow> timedelta" where
  "seconds n = n * 1000000"

definition minutes :: "int \<Rightarrow> timedelta" where
  "minutes n = n * 60000000"

definition hours :: "int \<Rightarrow> timedelta" where
  "hours n = n * 3600000000"

lemmas time_units = seconds_def minutes_def hours_def

text \<open>
  The exception classes that the modelled code raises or distinguishes. \<open>OtherError\<close> is any
  other subclass of \<open>Exception\<close>; \<open>KeyboardInterrupt\<close> is the only one that is not an
  \<open>Exception\<close>. \<open>CollectorRuntimeError\<close> carries the value of its reason code.
\<close>

datatype exn =
    KeyboardInterrupt
  | TypeError
  | ValueError
  | LookupError
  | AssertionError
  | RuntimeError
  | OtherError
  | IntegrityError
  | SQLAlchemyError
  | InvalidStateTransition
  | InvalidReelCandidate
  | CollectorRuntimeError string
  | CollectorLimitExceeded
  | CollectorDeadlineExceeded
  | StorageObjectNotFound
  | WorkerCancelled
  | FinalObjectConflict
  | SourceHashMismatch
  | SourceSizeMismatch
  | MediaProbeError
  | MediaDecodeError
  | MediaCompatibilityError
  | MediaNormalizationCommandError
  | LoginSessionError string
  | HTTPException int string
  | RangeNotSatisfiable
  | InvalidVideoCursor
  | VideoNotFound
  | VideoObjectNotFound

text \<open>\<open>except Exception\<close> catches everything but \<open>KeyboardInterrupt\<close>.\<close>

definition is_exception :: "exn \<Rightarrow> bool" where
  "is_exception e \<longleftrightarrow> e \<noteq> KeyboardInterrupt"

lemma is_exception_simps [simp]:
  "is_exception e = (e \<noteq> KeyboardInterrupt)"
  by (simp add: is_exception_def)

section \<open>Calls that may raise\<close>

type_synonym 'a result = "exn + 'a"

fun rbind :: "'a result \<Rightarrow> ('a \<Rightarrow> 'b result) \<Rightarrow> 'b result" where
  "rbind (Inl e) f = Inl e"
| "rbind (Inr x) f = f x"

lemma rbind_eq_Inr [simp]: "rbind r f = Inr y \<longleftrightarrow> (\<exists>x. r = Inr x \<and> f x = Inr y)"
  by (cases r) auto

lemma rbind_eq_Inl: "rbind r f = Inl e \<longleftrightarrow> r = Inl e \<or> (\<exists>x. r = Inr x \<and> f x = Inl e)"
  by (cases r) auto

definition guard :: "exn \<Rightarrow> bool \<Rightarrow> unit result" where
  "guard e b = (if b then Inr () else Inl e)"

lemma guard_eq [simp]: "guard e b = Inr u \<longleftrightarrow> b" "guard e b = Inl e' \<longleftrightarrow> \<not> b \<and> e' = e"
  by (auto simp: guard_def)

text \<open>Reading a value that must be there.\<close>

definition require :: "exn \<Rightarrow> 'a option \<Rightarrow> 'a result" where
  "require e x = (case x of None \<Rightarrow> Inl e | Some v \<Rightarrow> Inr v)"

lemma require_eq [simp]:
  "require e x = Inr v \<longleftrightarrow> x = Some v"
  "require e x = Inl e' \<longleftrightarrow> x = None \<and> e' = e"
  by (auto simp: require_def split: option.splits)

text \<open>A condition on a value that may be NULL.\<close>

definition opt_all :: "('a \<Rightarrow> bool) \<Rightarrow> 'a option \<Rightarrow> bool" where
  "opt_all P x = (case x of None \<Rightarrow> True | Some v \<Rightarrow> P v)"

lemma opt_all_iff [simp]: "opt_all P x \<longleftrightarrow> (\<forall>v. x = Some v \<longrightarrow> P v)"
  by (simp add: opt_all_def split: option.splits)

section \<open>Tables\<close>

text \<open>
  A table is the list of its rows. \<open>lookup_row key k rows\<close> is \<open>session.get\<close>;
  \<open>update_rows\<close> is the effect of assigning to attributes of the loaded row(s).
\<close>

definition lookup_row :: "('r \<Rightarrow> 'k) \<Rightarrow> 'k \<Rightarrow> 'r list \<Rightarrow> 'r option" where
  "lookup_row key k rows = find (\<lambda>r. key r = k) rows"

definition update_rows :: "('r \<Rightarrow> 'k) \<Rightarrow> 'k \<Rightarrow> ('r \<Rightarrow> 'r) \<Rightarrow> 'r list \<Rightarrow> 'r list" where
  "update_rows key k f rows = map (\<lambda>r. if key r = k then f r else r) rows"

lemma lookup_row_Nil [simp]: "lookup_row key k [] = None"
  by (simp add: lookup_row_def)

lemma lookup_row_Cons [simp]:
  "lookup_row key k (r # rs) = (if key r = k then Some r else lookup_row key k rs)"
  by (simp add: lookup_row_def)

lemma lookup_row_SomeD: "lookup_row key k rows = Some r \<Longrightarrow> r \<in> set rows \<and> key r = k"
  by (induction rows) (auto split: if_splits)

lemma lookup_row_None: "lookup_row key k rows = None \<longleftrightarrow> k \<notin> key ` set rows"
  by (induction rows) auto

lemma lookup_row_distinct:
  "distinct (map key rows) \<Longrightarrow> r \<in> set rows \<Longrightarrow> key r = k \<Longrightarrow> lookup_row key k rows = Some r"
  by (induction rows) (auto simp: rev_image_eqI)

lemma lookup_row_unique:
  "distinct (map key rows) \<Longrightarrow> lookup_row key k rows = Some r \<Longrightarrow>
   r' \<in> set rows \<Longrightarrow> key r' = k \<Longrightarrow> r' = r"
  using lookup_row_distinct by fastforce

lemma lookup_row_append [simp]:
  "lookup_row key k (xs @ ys) =
     (case lookup_row key k xs of None \<Rightarrow> lookup_row key k ys | Some r \<Rightarrow> Some r)"
  by (induction xs) auto

lemma update_rows_Nil [simp]: "update_rows key k f [] = []"
  by (simp add: update_rows_def)

lemma update_rows_Cons [simp]:
  "update_rows key k f (r # rs) = (if key r = k then f r else r) # update_rows key k f rs"
  by (simp add: update_rows_def)

lemma update_rows_append [simp]:
  "update_rows key k f (xs @ ys) = update_rows key k f xs @ update_rows key k f ys"
  by (simp add: update_rows_def)

lemma length_update_rows [simp]: "length (update_rows key k f rows) = length rows"
  by (simp add: update_rows_def)

lemma in_update_rows:
  "r \<in> set (update_rows key k f rows) \<longleftrightarrow>
     (\<exists>q \<in> set rows. r = (if key q = k then f q else q))"
  by (induction rows) auto

lemma update_rowsE:
  assumes "r \<in> set (update_rows key k f rows)"
  obtains q where "q \<in> set rows" "key q = k" "r = f q"
        | "r \<in> set rows" "key r \<noteq> k"
  using assms by (auto simp: in_update_rows split: if_splits)

lemma map_update_rows [row_simps]:
  "(\<And>r. key r = k \<Longrightarrow> g (f r) = g r) \<Longrightarrow> map g (update_rows key k f rows) = map g rows"
  by (simp add: update_rows_def)

lemma lookup_update_rows:
  "(\<And>r. key r = k \<Longrightarrow> key (f r) = k) \<Longrightarrow>
   lookup_row key j (update_rows key k f rows) =
     (if j = k then map_option f (lookup_row key k rows) else lookup_row key j rows)"
  by (induction rows) auto

lemma update_rows_absent [simp]:
  "lookup_row key k rows = None \<Longrightarrow> update_rows key k f rows = rows"
  by (induction rows) (auto split: if_splits)

lemma update_rows_id: "(\<And>r. key r = k \<Longrightarrow> f r = r) \<Longrightarrow> update_rows key k f rows = rows"
  by (induction rows) auto

lemma update_rows_cong:
  "(\<And>r. r \<in> set rows \<Longrightarrow> key r = k \<Longrightarrow> f r = g r) \<Longrightarrow> update_rows key k f rows = update_rows key k g rows"
  by (induction rows) auto

lemma all_update_rows:
  "(\<forall>r \<in> set rows. P r) \<Longrightarrow> (\<And>r. r \<in> set rows \<Longrightarrow> key r = k \<Longrightarrow> P r \<Longrightarrow> P (f r)) \<Longrightarrow>
   \<forall>r \<in> set (update_rows key k f rows). P r"
  by (auto simp: in_update_rows)

section \<open>Unique columns\<close>

text \<open>
  A unique index on a nullable column ignores the rows where it is NULL; a partial unique index
  looks at the rows that satisfy its condition only.
\<close>

definition unique_col :: "('r \<Rightarrow> 'k) \<Rightarrow> 'r list \<Rightarrow> bool" where
  "unique_col key rows \<longleftrightarrow> distinct (map key rows)"

definition unique_nullable :: "('r \<Rightarrow> 'k option) \<Rightarrow> 'r list \<Rightarrow> bool" where
  "unique_nullable key rows \<longleftrightarrow> distinct (map key (filter (\<lambda>r. key r \<noteq> None) rows))"

definition unique_where :: "('r \<Rightarrow> bool) \<Rightarrow> ('r \<Rightarrow> 'k) \<Rightarrow> 'r list \<Rightarrow> bool" where
  "unique_where P key rows \<longleftrightarrow> distinct (map key (filter P rows))"

lemma unique_col_Nil [simp]: "unique_col key []"
  by (simp add: unique_col_def)

lemma unique_nullable_Nil [simp]: "unique_nullable key []"
  by (simp add: unique_nullable_def)

lemma unique_where_Nil [simp]: "unique_where P key []"
  by (simp add: unique_where_def)

lemma unique_col_snoc [simp]:
  "unique_col key (rows @ [r]) \<longleftrightarrow> unique_col key rows \<and> key r \<notin> key ` set rows"
  by (auto simp: unique_col_def)

lemma unique_nullable_snoc [simp]:
  "unique_nullable key (rows @ [r]) \<longleftrightarrow>
     unique_nullable key rows \<and> (key r \<noteq> None \<longrightarrow> key r \<notin> key ` set rows)"
  by (force simp: unique_nullable_def)

lemma unique_where_snoc [simp]:
  "unique_where P key (rows @ [r]) \<longleftrightarrow>
     unique_where P key rows \<and> (P r \<longrightarrow> key r \<notin> key ` {q \<in> set rows. P q})"
  by (auto simp: unique_where_def)

lemma unique_colD:
  "unique_col key rows \<Longrightarrow> r \<in> set rows \<Longrightarrow> q \<in> set rows \<Longrightarrow> key r = key q \<Longrightarrow> r = q"
  by (auto simp: unique_col_def distinct_map inj_on_def)

lemma unique_whereD:
  "unique_where P key rows \<Longrightarrow> r \<in> set rows \<Longrightarrow> q \<in> set rows \<Longrightarrow> P r \<Longrightarrow> P q \<Longrightarrow>
   key r = key q \<Longrightarrow> r = q"
  by (auto simp: unique_where_def distinct_map inj_on_def)

lemma unique_nullableD:
  "unique_nullable key rows \<Longrightarrow> r \<in> set rows \<Longrightarrow> q \<in> set rows \<Longrightarrow> key r = Some v \<Longrightarrow>
   key q = Some v \<Longrightarrow> r = q"
  by (auto simp: unique_nullable_def distinct_map inj_on_def)

lemma unique_col_update [row_simps]:
  "(\<And>r. key r = k \<Longrightarrow> g (f r) = g r) \<Longrightarrow>
   unique_col g (update_rows key k f rows) = unique_col g rows"
  by (simp add: unique_col_def map_update_rows)

text \<open>
  Rows leave a partial index freely: the update only has to keep the key of the rows that are
  still in the index, and may not bring a row into it.
\<close>

lemma unique_where_update:
  assumes "unique_where P g rows"
    and "\<And>r. r \<in> set rows \<Longrightarrow> key r = k \<Longrightarrow> P (f r) \<Longrightarrow> P r \<and> g (f r) = g r"
  shows "unique_where P g (update_rows key k f rows)"
  using assms
proof (induction rows)
  case (Cons r rows)
  have IH: "unique_where P g (update_rows key k f rows)"
    using Cons by (auto simp: unique_where_def split: if_splits)
  have sub: "g ` {q \<in> set (update_rows key k f rows). P q} \<subseteq> g ` {q \<in> set rows. P q}"
    using Cons.prems(2) by (force simp: in_update_rows)
  show ?case
    using Cons.prems IH sub
    by (auto simp: unique_where_def subset_iff image_iff split: if_splits)
qed simp

lemma unique_nullable_update:
  "(\<And>r. key r = k \<Longrightarrow> g (f r) = g r) \<Longrightarrow>
   unique_nullable g (update_rows key k f rows) = unique_nullable g rows"
proof -
  assume "\<And>r. key r = k \<Longrightarrow> g (f r) = g r"
  then have "map g (filter (\<lambda>r. g r \<noteq> None) (update_rows key k f rows)) =
      map g (filter (\<lambda>r. g r \<noteq> None) rows)"
    by (induction rows) auto
  then show ?thesis by (simp only: unique_nullable_def)
qed

end
