(* ===== verification/PyText.thy ===== *)
theory PyText
  imports Prelude
begin

text \<open>
  The string functions of Python that the modelled code calls, on strings whose code points are
  below 256 (a HOL \<open>char\<close> is one code point). That is every string an HTTP header can hold,
  since the server decodes header bytes as Latin-1.
\<close>

section \<open>Characters\<close>

definition codepoint :: "char \<Rightarrow> nat" where
  "codepoint c = of_char c"

text \<open>The code points below 256 for which \<open>str.isspace\<close> holds.\<close>

definition is_space :: "char \<Rightarrow> bool" where
  "is_space c \<longleftrightarrow> (let n = codepoint c in (9 \<le> n \<and> n \<le> 13) \<or> (28 \<le> n \<and> n \<le> 32) \<or> n = 133 \<or> n = 160)"

definition is_digit :: "char \<Rightarrow> bool" where
  "is_digit c \<longleftrightarrow> 48 \<le> codepoint c \<and> codepoint c \<le> 57"

definition is_upper :: "char \<Rightarrow> bool" where
  "is_upper c \<longleftrightarrow> 65 \<le> codepoint c \<and> codepoint c \<le> 90"

definition is_lower :: "char \<Rightarrow> bool" where
  "is_lower c \<longleftrightarrow> 97 \<le> codepoint c \<and> codepoint c \<le> 122"

definition is_ascii :: "char \<Rightarrow> bool" where
  "is_ascii c \<longleftrightarrow> codepoint c < 128"

text \<open>\<open>str.lower\<close>: the capital letters of Latin-1 map to the small ones 32 places up.\<close>

definition lower_char :: "char \<Rightarrow> char" where
  "lower_char c = (let n = codepoint c in
     if is_upper c \<or> (192 \<le> n \<and> n \<le> 222 \<and> n \<noteq> 215) then char_of (n + 32) else c)"

definition lower :: "string \<Rightarrow> string" where
  "lower s = map lower_char s"

lemma length_lower [simp]: "length (lower s) = length s"
  by (simp add: lower_def)

lemma codepoint_inj [simp]: "codepoint c = codepoint d \<longleftrightarrow> c = d"
  by (simp add: codepoint_def)

lemma codepoint_char_of: "n < 256 \<Longrightarrow> codepoint (char_of n) = n"
  by (simp add: codepoint_def)

lemma codepoint_less [simp]: "codepoint c < 256"
  by (simp add: codepoint_def)

lemma codepoint_lower:
  "codepoint (lower_char c) =
     (if is_upper c \<or> (192 \<le> codepoint c \<and> codepoint c \<le> 222 \<and> codepoint c \<noteq> 215)
      then codepoint c + 32 else codepoint c)"
  by (auto simp: lower_char_def Let_def is_upper_def codepoint_char_of)

text \<open>A character that is no letter is the lower-case form of itself only.\<close>

lemma lower_char_eq:
  assumes "\<not> is_lower d" "codepoint d < 128"
  shows "lower_char c = d \<longleftrightarrow> c = d \<and> \<not> is_upper c"
proof -
  have "lower_char c = d \<longleftrightarrow> codepoint (lower_char c) = codepoint d" by simp
  also have "\<dots> \<longleftrightarrow> codepoint c = codepoint d \<and> \<not> is_upper c"
    using assms by (auto simp: codepoint_lower is_upper_def is_lower_def)
  finally show ?thesis by simp
qed

lemma in_lower: "\<not> is_lower d \<Longrightarrow> codepoint d < 128 \<Longrightarrow> \<not> is_upper d \<Longrightarrow>
    d \<in> set (lower s) \<longleftrightarrow> d \<in> set s"
  by (induction s) (auto simp: lower_def lower_char_eq eq_commute [of d])

section \<open>Stripping, splitting and searching\<close>

definition lstrip :: "string \<Rightarrow> string" where
  "lstrip s = dropWhile is_space s"

definition strip :: "string \<Rightarrow> string" where
  "strip s = rev (dropWhile is_space (rev (lstrip s)))"

definition startswith :: "string \<Rightarrow> string \<Rightarrow> bool" where
  "startswith s p \<longleftrightarrow> take (length p) s = p"

definition removeprefix :: "string \<Rightarrow> string \<Rightarrow> string" where
  "removeprefix s p = (if startswith s p then drop (length p) s else s)"

text \<open>\<open>s.split(c)\<close> for a one-character separator; never the empty list.\<close>

fun split_on :: "char \<Rightarrow> string \<Rightarrow> string list" where
  "split_on c [] = [[]]"
| "split_on c (x # xs) =
     (if x = c then [] # split_on c xs
      else (case split_on c xs of [] \<Rightarrow> [[x]] | w # ws \<Rightarrow> (x # w) # ws))"

text \<open>
  \<open>s.partition(c)\<close> and \<open>s.rpartition(c)\<close> for a one-character separator: the part before,
  whether the separator was found, the part after. When it is not found, \<open>partition\<close> puts the
  whole string first and \<open>rpartition\<close> puts it last.
\<close>

definition partition :: "char \<Rightarrow> string \<Rightarrow> string \<times> bool \<times> string" where
  "partition c s =
     (if c \<in> set s
      then (takeWhile (\<lambda>x. x \<noteq> c) s, True, drop 1 (dropWhile (\<lambda>x. x \<noteq> c) s))
      else (s, False, []))"

definition rpartition :: "char \<Rightarrow> string \<Rightarrow> string \<times> bool \<times> string" where
  "rpartition c s =
     (if c \<in> set s
      then (rev (drop 1 (dropWhile (\<lambda>x. x \<noteq> c) (rev s))), True,
            rev (takeWhile (\<lambda>x. x \<noteq> c) (rev s)))
      else ([], False, s))"

definition ends_with :: "string \<Rightarrow> string \<Rightarrow> bool" where
  "ends_with s t \<longleftrightarrow> length t \<le> length s \<and> drop (length s - length t) s = t"

fun contains :: "string \<Rightarrow> string \<Rightarrow> bool" where
  "contains p [] \<longleftrightarrow> p = []"
| "contains p (x # xs) \<longleftrightarrow> startswith (x # xs) p \<or> contains p xs"

lemma partition_at [simp]: "c \<notin> set a \<Longrightarrow> partition c (a @ c # b) = (a, True, b)"
proof -
  assume a: "c \<notin> set a"
  then have "takeWhile (\<lambda>x. x \<noteq> c) a = a" "dropWhile (\<lambda>x. x \<noteq> c) a = []"
    by (auto simp: takeWhile_eq_all_conv)
  with a show ?thesis by (simp add: partition_def takeWhile_append dropWhile_append)
qed

lemma partition_absent [simp]: "c \<notin> set s \<Longrightarrow> partition c s = (s, False, [])"
  by (simp add: partition_def)

lemma partition_cases:
  obtains (found) a b where "s = a @ c # b" "c \<notin> set a" "partition c s = (a, True, b)"
        | (absent) "c \<notin> set s" "partition c s = (s, False, [])"
proof (cases "c \<in> set s")
  case True
  then obtain a b where "s = a @ c # b" "c \<notin> set a" by (auto dest: split_list_first)
  then show ?thesis using found by simp
next
  case False
  then show ?thesis using absent by simp
qed

lemma rpartition_absent [simp]: "c \<notin> set s \<Longrightarrow> rpartition c s = ([], False, s)"
  by (simp add: rpartition_def)

lemma startswith_append [simp]: "startswith (p @ s) p"
  by (simp add: startswith_def)

lemma startswithE:
  assumes "startswith s p"
  obtains t where "s = p @ t"
  using assms append_take_drop_id [of "length p" s] unfolding startswith_def by metis

lemma removeprefix_append [simp]: "removeprefix (p @ s) p = s"
  by (simp add: removeprefix_def)

lemma strip_no_space: "(\<forall>c \<in> set s. \<not> is_space c) \<Longrightarrow> strip s = s"
proof -
  assume a: "\<forall>c \<in> set s. \<not> is_space c"
  have keep: "dropWhile is_space t = t" if "\<forall>c \<in> set t. \<not> is_space c" for t
    using that by (cases t) auto
  show ?thesis
    using a by (simp add: strip_def lstrip_def keep)
qed

lemma split_on_neq_Nil [simp]: "split_on c s \<noteq> []"
  by (induction s) (auto split: list.splits)

lemma split_on_absent: "c \<notin> set s \<Longrightarrow> split_on c s = [s]"
  by (induction s) auto

lemma split_on_append: "c \<notin> set a \<Longrightarrow> split_on c (a @ c # b) = a # split_on c b"
  by (induction a) auto

section \<open>Decimal numbers\<close>

text \<open>\<open>str(n)\<close> of an integer.\<close>

fun show_nat :: "nat \<Rightarrow> string" where
  "show_nat n = (if n < 10 then [char_of (48 + n)] else show_nat (n div 10) @ [char_of (48 + n mod 10)])"

declare show_nat.simps [simp del]

definition show_int :: "int \<Rightarrow> string" where
  "show_int i = (if i < 0 then CHR ''-'' # show_nat (nat (- i)) else show_nat (nat i))"

text \<open>
  \<open>int(s)\<close>: surrounding white space, an optional sign, then digits in which a single underscore
  may stand between two digits. Anything else raises \<open>ValueError\<close>, and so does a number of more
  than 4300 digits, the interpreter's default limit.
\<close>

fun digits_ok :: "string \<Rightarrow> bool" where
  "digits_ok [] \<longleftrightarrow> False"
| "digits_ok [d] \<longleftrightarrow> is_digit d"
| "digits_ok (d # CHR ''_'' # ds) \<longleftrightarrow> is_digit d \<and> digits_ok ds"
| "digits_ok (d # ds) \<longleftrightarrow> is_digit d \<and> digits_ok ds"

definition digits_value :: "string \<Rightarrow> int" where
  "digits_value s = foldl (\<lambda>acc c. acc * 10 + (int (codepoint c) - 48)) 0 (filter is_digit s)"

definition max_int_digits :: nat where
  "max_int_digits = 4300"

definition unsigned_int :: "string \<Rightarrow> int result" where
  "unsigned_int s =
     (if digits_ok s \<and> length (filter is_digit s) \<le> max_int_digits
      then Inr (digits_value s) else Inl ValueError)"

definition py_int :: "string \<Rightarrow> int result" where
  "py_int s =
     (case strip s of
        [] \<Rightarrow> Inl ValueError
      | c # cs \<Rightarrow>
          if c = CHR ''-'' then rbind (unsigned_int cs) (\<lambda>n. Inr (- n))
          else if c = CHR ''+'' then unsigned_int cs
          else unsigned_int (c # cs))"

lemma digits_value_nonneg: "0 \<le> digits_value s"
proof -
  have "0 \<le> a \<Longrightarrow> \<forall>c \<in> set t. is_digit c \<Longrightarrow>
      0 \<le> foldl (\<lambda>acc c. acc * 10 + (int (codepoint c) - 48)) a t" for a t
    by (induction t arbitrary: a) (auto simp: is_digit_def)
  then show ?thesis by (simp add: digits_value_def)
qed

lemma unsigned_int_nonneg: "unsigned_int s = Inr n \<Longrightarrow> 0 \<le> n"
  by (auto simp: unsigned_int_def digits_value_nonneg split: if_splits)

text \<open>Only \<open>ValueError\<close> comes out of \<open>int(s)\<close>.\<close>

lemma py_int_error: "py_int s = Inl e \<Longrightarrow> e = ValueError"
  by (auto simp: py_int_def unsigned_int_def rbind_eq_Inl split: list.splits if_splits)

subsection \<open>Printing a number and reading it back\<close>

lemma codepoint_digit: "n < 10 \<Longrightarrow> codepoint (char_of (48 + n)) = 48 + n"
  by (simp add: codepoint_def)

lemma is_digit_show: "\<forall>c \<in> set (show_nat n). is_digit c"
proof (induction n rule: show_nat.induct)
  case (1 n)
  then show ?case
    by (subst show_nat.simps) (auto simp: is_digit_def codepoint_digit)
qed

lemma show_nat_nonempty: "show_nat n \<noteq> []"
  by (subst show_nat.simps) simp

lemma digits_ok_all: "s \<noteq> [] \<Longrightarrow> \<forall>c \<in> set s. is_digit c \<Longrightarrow> digits_ok s"
  by (induction s rule: digits_ok.induct) (auto simp: is_digit_def codepoint_def)

lemma digits_value_snoc:
  "is_digit c \<Longrightarrow> digits_value (s @ [c]) = digits_value s * 10 + (int (codepoint c) - 48)"
  by (simp add: digits_value_def)

lemma digits_value_show: "digits_value (show_nat n) = int n"
proof (induction n rule: show_nat.induct)
  case (1 n)
  show ?case
  proof (cases "n < 10")
    case True
    then show ?thesis
      by (subst show_nat.simps) (simp add: digits_value_def is_digit_def codepoint_digit)
  next
    case False
    have d: "is_digit (char_of (48 + n mod 10))"
      by (simp add: is_digit_def codepoint_digit)
    from False 1 have "digits_value (show_nat (n div 10)) = int (n div 10)" by simp
    moreover have "int (n div 10) * 10 + int (n mod 10) = int n"
      by (simp add: zdiv_int zmod_int)
    ultimately show ?thesis using False d
      by (subst show_nat.simps) (simp add: digits_value_snoc codepoint_digit)
  qed
qed

lemma digit_not_space: "is_digit c \<Longrightarrow> \<not> is_space c"
  by (auto simp: is_digit_def is_space_def Let_def)

lemma digit_not_sign: "is_digit c \<Longrightarrow> c \<noteq> CHR ''-'' \<and> c \<noteq> CHR ''+''"
  by (auto simp: is_digit_def codepoint_def)

lemma py_int_show:
  assumes "length (show_nat n) \<le> max_int_digits"
  shows "py_int (show_nat n) = Inr (int n)"
proof -
  have all: "\<forall>c \<in> set (show_nat n). is_digit c" by (rule is_digit_show)
  then have "strip (show_nat n) = show_nat n"
    using digit_not_space by (intro strip_no_space) blast
  moreover obtain c cs where c: "show_nat n = c # cs"
    using show_nat_nonempty by (cases "show_nat n") auto
  moreover have "filter is_digit (show_nat n) = show_nat n"
    using all by (simp add: filter_id_conv)
  moreover have "digits_ok (show_nat n)"
    by (rule digits_ok_all [OF show_nat_nonempty all])
  moreover have "c \<noteq> CHR ''-''" "c \<noteq> CHR ''+''"
    using all c digit_not_sign by auto
  ultimately show ?thesis
    using assms digits_value_show [of n] by (simp add: py_int_def unsigned_int_def)
qed


lemma length_show_nat: "n < 10 ^ k \<Longrightarrow> 0 < k \<Longrightarrow> length (show_nat n) \<le> k"
proof (induction n arbitrary: k rule: show_nat.induct)
  case (1 n)
  show ?case
  proof (cases "n < 10")
    case True
    with 1 show ?thesis by (subst show_nat.simps) simp
  next
    case False
    obtain j where k: "k = Suc j" using 1 by (cases k) auto
    with False 1 have "0 < j" by (cases j) auto
    moreover have "n div 10 < 10 ^ j" using 1 k by simp
    ultimately have "length (show_nat (n div 10)) \<le> j" using 1 False by blast
    with False k show ?thesis by (subst show_nat.simps) simp
  qed
qed

definition printable :: "nat \<Rightarrow> bool" where
  "printable n \<longleftrightarrow> length (show_nat n) \<le> max_int_digits"

lemma printable_bound: "n < 10 ^ 4300 \<Longrightarrow> printable n"
  unfolding printable_def max_int_digits_def by (erule length_show_nat) (rule zero_less_numeral)

lemma strip_show [simp]: "strip (show_nat n) = show_nat n"
  using is_digit_show digit_not_space by (intro strip_no_space) blast

lemma py_int_printed [simp]: "printable n \<Longrightarrow> py_int (show_nat n) = Inr (int n)"
  by (simp add: py_int_show printable_def)

lemma notin_show [simp]: "\<not> is_digit c \<Longrightarrow> c \<notin> set (show_nat n)"
  using is_digit_show by blast

end
