(* ===== verification/Contracts.thy ===== *)
theory Contracts
  imports PyText
begin

text \<open>
  The value contracts of \<open>apps/api/app/instagram/contracts.py\<close>: the enumerations, each with
  the string its member is stored as, and the shape of a reason code.
\<close>

section \<open>Enumerations\<close>

datatype AccountStatus =
  DISCONNECTED | CONNECTING | CONNECTED | REAUTH_REQUIRED | TEMPORARILY_LIMITED

datatype LoginSessionStatus =
  PENDING | ACTIVE | COMPLETED | EXPIRED | CANCELLED

datatype CollectionRunStatus =
  QUEUED | RUNNING | COMPLETED | CANCELLED | FAILED

datatype CollectionTrigger = MANUAL | AUTOMATIC

datatype ReelPipelineStatus =
  DISCOVERED | DOWNLOADING | SOURCE_READY | NORMALIZING | READY | FAILED

datatype NormalizationJobStatus =
  PENDING | RUNNING | COMPLETED | FAILED

datatype RunItemOutcome =
  SOURCE_COMMITTED | ALREADY_AVAILABLE | FAILED

datatype DownloadAuthMode = SESSION_FIRST

fun account_status_value :: "AccountStatus \<Rightarrow> string" where
  "account_status_value AccountStatus.DISCONNECTED = ''disconnected''"
| "account_status_value AccountStatus.CONNECTING = ''connecting''"
| "account_status_value AccountStatus.CONNECTED = ''connected''"
| "account_status_value AccountStatus.REAUTH_REQUIRED = ''reauth_required''"
| "account_status_value AccountStatus.TEMPORARILY_LIMITED = ''temporarily_limited''"

fun login_status_value :: "LoginSessionStatus \<Rightarrow> string" where
  "login_status_value LoginSessionStatus.PENDING = ''pending''"
| "login_status_value LoginSessionStatus.ACTIVE = ''active''"
| "login_status_value LoginSessionStatus.COMPLETED = ''completed''"
| "login_status_value LoginSessionStatus.EXPIRED = ''expired''"
| "login_status_value LoginSessionStatus.CANCELLED = ''cancelled''"

fun run_status_value :: "CollectionRunStatus \<Rightarrow> string" where
  "run_status_value CollectionRunStatus.QUEUED = ''queued''"
| "run_status_value CollectionRunStatus.RUNNING = ''running''"
| "run_status_value CollectionRunStatus.COMPLETED = ''completed''"
| "run_status_value CollectionRunStatus.CANCELLED = ''cancelled''"
| "run_status_value CollectionRunStatus.FAILED = ''failed''"

fun reel_status_value :: "ReelPipelineStatus \<Rightarrow> string" where
  "reel_status_value ReelPipelineStatus.DISCOVERED = ''discovered''"
| "reel_status_value ReelPipelineStatus.DOWNLOADING = ''downloading''"
| "reel_status_value ReelPipelineStatus.SOURCE_READY = ''source_ready''"
| "reel_status_value ReelPipelineStatus.NORMALIZING = ''normalizing''"
| "reel_status_value ReelPipelineStatus.READY = ''ready''"
| "reel_status_value ReelPipelineStatus.FAILED = ''failed''"

fun job_status_value :: "NormalizationJobStatus \<Rightarrow> string" where
  "job_status_value NormalizationJobStatus.PENDING = ''pending''"
| "job_status_value NormalizationJobStatus.RUNNING = ''running''"
| "job_status_value NormalizationJobStatus.COMPLETED = ''completed''"
| "job_status_value NormalizationJobStatus.FAILED = ''failed''"

fun outcome_value :: "RunItemOutcome \<Rightarrow> string" where
  "outcome_value RunItemOutcome.SOURCE_COMMITTED = ''source_committed''"
| "outcome_value RunItemOutcome.ALREADY_AVAILABLE = ''already_available''"
| "outcome_value RunItemOutcome.FAILED = ''failed''"

section \<open>Reason codes\<close>

datatype ReasonCode =
    AUTH_REQUIRED | CHECKPOINT_REQUIRED | TEMPORARILY_LIMITED | DOWNLOAD_FAILED
  | VALIDATION_FAILED | NORMALIZATION_FAILED | STORAGE_FAILED | CANCELLED_BY_USER
  | LOGIN_EXPIRED | LOGIN_CANCELLED | SOURCE_MISSING | SOURCE_HASH_MISMATCH
  | SOURCE_SIZE_MISMATCH | INVALID_MEDIA | FFPROBE_FAILED | FULL_DECODE_FAILED
  | INCOMPATIBLE_OUTPUT | MINIO_TRANSIENT_FAILURE | FINAL_OBJECT_CONFLICT
  | POSTGRES_COMMIT_FAILURE | WORKER_CANCELLED | STALE_LEASE_RECOVERED | RETRY_EXHAUSTED

fun reason_value :: "ReasonCode \<Rightarrow> string" where
  "reason_value ReasonCode.AUTH_REQUIRED = ''AUTH_REQUIRED''"
| "reason_value ReasonCode.CHECKPOINT_REQUIRED = ''CHECKPOINT_REQUIRED''"
| "reason_value ReasonCode.TEMPORARILY_LIMITED = ''TEMPORARILY_LIMITED''"
| "reason_value ReasonCode.DOWNLOAD_FAILED = ''DOWNLOAD_FAILED''"
| "reason_value ReasonCode.VALIDATION_FAILED = ''VALIDATION_FAILED''"
| "reason_value ReasonCode.NORMALIZATION_FAILED = ''NORMALIZATION_FAILED''"
| "reason_value ReasonCode.STORAGE_FAILED = ''STORAGE_FAILED''"
| "reason_value ReasonCode.CANCELLED_BY_USER = ''CANCELLED_BY_USER''"
| "reason_value ReasonCode.LOGIN_EXPIRED = ''LOGIN_EXPIRED''"
| "reason_value ReasonCode.LOGIN_CANCELLED = ''LOGIN_CANCELLED''"
| "reason_value ReasonCode.SOURCE_MISSING = ''SOURCE_MISSING''"
| "reason_value ReasonCode.SOURCE_HASH_MISMATCH = ''SOURCE_HASH_MISMATCH''"
| "reason_value ReasonCode.SOURCE_SIZE_MISMATCH = ''SOURCE_SIZE_MISMATCH''"
| "reason_value ReasonCode.INVALID_MEDIA = ''INVALID_MEDIA''"
| "reason_value ReasonCode.FFPROBE_FAILED = ''FFPROBE_FAILED''"
| "reason_value ReasonCode.FULL_DECODE_FAILED = ''FULL_DECODE_FAILED''"
| "reason_value ReasonCode.INCOMPATIBLE_OUTPUT = ''INCOMPATIBLE_OUTPUT''"
| "reason_value ReasonCode.MINIO_TRANSIENT_FAILURE = ''MINIO_TRANSIENT_FAILURE''"
| "reason_value ReasonCode.FINAL_OBJECT_CONFLICT = ''FINAL_OBJECT_CONFLICT''"
| "reason_value ReasonCode.POSTGRES_COMMIT_FAILURE = ''POSTGRES_COMMIT_FAILURE''"
| "reason_value ReasonCode.WORKER_CANCELLED = ''WORKER_CANCELLED''"
| "reason_value ReasonCode.STALE_LEASE_RECOVERED = ''STALE_LEASE_RECOVERED''"
| "reason_value ReasonCode.RETRY_EXHAUSTED = ''RETRY_EXHAUSTED''"

definition reason_code_max_length :: nat where
  "reason_code_max_length = 64"

text \<open>\<open>REASON_CODE_PATTERN.fullmatch\<close> of \<open>^[A-Z][A-Z0-9_]{0,63}$\<close>.\<close>

definition reason_code_char :: "char \<Rightarrow> bool" where
  "reason_code_char c \<longleftrightarrow> is_upper c \<or> is_digit c \<or> c = CHR ''_''"

fun reason_code_match :: "string \<Rightarrow> bool" where
  "reason_code_match [] \<longleftrightarrow> False"
| "reason_code_match (c # cs) \<longleftrightarrow> is_upper c \<and> list_all reason_code_char cs \<and> length cs \<le> 63"

definition is_valid_reason_code :: "string option \<Rightarrow> bool" where
  "is_valid_reason_code value =
     (case value of None \<Rightarrow> True | Some v \<Rightarrow> reason_code_match v)"

text \<open>
  Every declared codepoint passes the validator, and whatever passes it fits the reason column of the
  tables: a worker that stores \<open>reason.value\<close> can neither be refused nor truncated.
\<close>

lemma reason_value_valid: "is_valid_reason_code (Some (reason_value r))"
  by (cases r) (simp_all add: is_valid_reason_code_def reason_code_char_def is_upper_def
      is_digit_def codepoint_def)

lemma valid_reason_code_length:
  "is_valid_reason_code (Some v) \<Longrightarrow> 0 < length v \<and> length v \<le> reason_code_max_length"
  by (cases v) (auto simp: is_valid_reason_code_def reason_code_max_length_def)

lemma reason_value_length [simp]: "length (reason_value r) \<le> 64"
  by (cases r) simp_all

lemma reason_value_inj [simp]: "reason_value r = reason_value s \<longleftrightarrow> r = s"
  by (cases r; cases s) simp_all

end
