(* ===== verification/Transitions.thy ===== *)
theory Transitions
  imports Contracts
begin

text \<open>
  The transition policy of \<open>apps/api/app/instagram/transitions.py\<close>: one table per kind of state,
  a test and a guard that raises. A table that is indexed by every member is a total function to
  the list of targets.
\<close>

fun account_transitions :: "AccountStatus \<Rightarrow> AccountStatus list" where
  "account_transitions AccountStatus.DISCONNECTED = [AccountStatus.CONNECTING]"
| "account_transitions AccountStatus.CONNECTING =
     [AccountStatus.CONNECTED, AccountStatus.DISCONNECTED, AccountStatus.REAUTH_REQUIRED,
      AccountStatus.TEMPORARILY_LIMITED]"
| "account_transitions AccountStatus.CONNECTED =
     [AccountStatus.DISCONNECTED, AccountStatus.REAUTH_REQUIRED, AccountStatus.TEMPORARILY_LIMITED]"
| "account_transitions AccountStatus.REAUTH_REQUIRED =
     [AccountStatus.CONNECTING, AccountStatus.DISCONNECTED]"
| "account_transitions AccountStatus.TEMPORARILY_LIMITED =
     [AccountStatus.CONNECTING, AccountStatus.DISCONNECTED]"

fun collection_run_transitions :: "CollectionRunStatus \<Rightarrow> CollectionRunStatus list" where
  "collection_run_transitions CollectionRunStatus.QUEUED =
     [CollectionRunStatus.RUNNING, CollectionRunStatus.CANCELLED, CollectionRunStatus.FAILED]"
| "collection_run_transitions CollectionRunStatus.RUNNING =
     [CollectionRunStatus.COMPLETED, CollectionRunStatus.CANCELLED, CollectionRunStatus.FAILED]"
| "collection_run_transitions CollectionRunStatus.COMPLETED = []"
| "collection_run_transitions CollectionRunStatus.CANCELLED = []"
| "collection_run_transitions CollectionRunStatus.FAILED = []"

fun reel_pipeline_transitions :: "ReelPipelineStatus \<Rightarrow> ReelPipelineStatus list" where
  "reel_pipeline_transitions ReelPipelineStatus.DISCOVERED =
     [ReelPipelineStatus.DOWNLOADING, ReelPipelineStatus.FAILED]"
| "reel_pipeline_transitions ReelPipelineStatus.DOWNLOADING =
     [ReelPipelineStatus.SOURCE_READY, ReelPipelineStatus.FAILED]"
| "reel_pipeline_transitions ReelPipelineStatus.SOURCE_READY =
     [ReelPipelineStatus.NORMALIZING, ReelPipelineStatus.FAILED]"
| "reel_pipeline_transitions ReelPipelineStatus.NORMALIZING =
     [ReelPipelineStatus.SOURCE_READY, ReelPipelineStatus.READY, ReelPipelineStatus.FAILED]"
| "reel_pipeline_transitions ReelPipelineStatus.READY = []"
| "reel_pipeline_transitions ReelPipelineStatus.FAILED = [ReelPipelineStatus.DOWNLOADING]"

fun normalization_job_transitions :: "NormalizationJobStatus \<Rightarrow> NormalizationJobStatus list" where
  "normalization_job_transitions NormalizationJobStatus.PENDING =
     [NormalizationJobStatus.RUNNING, NormalizationJobStatus.FAILED]"
| "normalization_job_transitions NormalizationJobStatus.RUNNING =
     [NormalizationJobStatus.COMPLETED, NormalizationJobStatus.FAILED]"
| "normalization_job_transitions NormalizationJobStatus.COMPLETED = []"
| "normalization_job_transitions NormalizationJobStatus.FAILED = []"

definition is_transition_allowed :: "('s \<Rightarrow> 's list) \<Rightarrow> 's \<Rightarrow> 's \<Rightarrow> bool" where
  "is_transition_allowed policy current target \<longleftrightarrow>
     current \<noteq> target \<and> target \<in> set (policy current)"

definition require_transition :: "('s \<Rightarrow> 's list) \<Rightarrow> 's \<Rightarrow> 's \<Rightarrow> unit result" where
  "require_transition policy current target =
     (if \<not> is_transition_allowed policy current target then Inl InvalidStateTransition else Inr ())"

lemma require_transition_Inr [simp]:
  "require_transition policy a b = Inr u \<longleftrightarrow> is_transition_allowed policy a b"
  by (simp add: require_transition_def)

lemma require_transition_Inl [simp]:
  "require_transition policy a b = Inl e \<longleftrightarrow>
     \<not> is_transition_allowed policy a b \<and> e = InvalidStateTransition"
  by (auto simp: require_transition_def)

text \<open>
  An operation moves a state along a policy when it leaves it alone or takes an allowed step. The
  durable operations of the other theories are shown to stay inside this relation.
\<close>

definition moves :: "('s \<Rightarrow> 's list) \<Rightarrow> 's \<Rightarrow> 's \<Rightarrow> bool" where
  "moves policy a b \<longleftrightarrow> a = b \<or> is_transition_allowed policy a b"

lemma moves_refl [simp]: "moves policy a a"
  by (simp add: moves_def)

lemmas policy_simps = is_transition_allowed_def moves_def

definition terminal :: "('s \<Rightarrow> 's list) \<Rightarrow> 's \<Rightarrow> bool" where
  "terminal policy s \<longleftrightarrow> policy s = []"

lemma terminal_stuck: "terminal policy a \<Longrightarrow> moves policy a b \<Longrightarrow> b = a"
  by (simp add: terminal_def policy_simps)

end
