(* ===== verification/Tables.thy ===== *)
theory Tables
  imports Transitions
begin

text \<open>
  The database: one record per row class of \<open>apps/api/app/db/models/instagram.py\<close> and
  \<open>apps/api/app/db/models/video.py\<close>, one list of rows per table, and the constraints of
  \<open>__table_args__\<close> and of the columns. A status column holds a member of its enumeration, which
  is what its check constraint says. Rows are in insertion order; \<open>created_at\<close> is a column where
  a query orders by it. \<open>updated_at\<close> is never read and is left out.
\<close>

section \<open>Rows\<close>

record account =
  acc_id :: uuid
  acc_status :: AccountStatus
  acc_last_connected_at :: "timestamp option"
  acc_reauth_required_at :: "timestamp option"
  acc_reason_code :: "string option"

record login_session =
  ls_id :: uuid
  ls_account_id :: uuid
  ls_status :: LoginSessionStatus
  ls_prior_account_status :: AccountStatus
  ls_launch_token_hash :: string
  ls_reason_code :: "string option"
  ls_expires_at :: timestamp
  ls_consumed_at :: "timestamp option"
  ls_claimed_at :: "timestamp option"
  ls_closed_at :: "timestamp option"

record reel =
  reel_id :: uuid
  reel_shortcode :: string
  reel_canonical_url :: string
  reel_status :: ReelPipelineStatus
  reel_source_object_key :: "string option"
  reel_source_sha256 :: "string option"
  reel_source_byte_size :: "int option"
  reel_video_id :: "uuid option"
  reel_failure_reason_code :: "string option"
  reel_discovered_at :: "timestamp option"
  reel_source_ready_at :: "timestamp option"
  reel_ready_at :: "timestamp option"
  reel_failed_at :: "timestamp option"
  reel_cleanup_pending :: bool

record reel_view =
  rv_id :: uuid
  rv_account_id :: uuid
  rv_reel_id :: uuid
  rv_device_uuid :: "uuid option"
  rv_viewed_at :: timestamp

record collection_run =
  run_id :: uuid
  run_account_id :: uuid
  run_trigger :: CollectionTrigger
  run_status :: CollectionRunStatus
  run_target_count :: int
  run_source_committed_count :: int
  run_already_available_count :: int
  run_failed_count :: int
  run_stop_reason_code :: "string option"
  run_started_at :: "timestamp option"
  run_completed_at :: "timestamp option"
  run_cancel_requested_at :: "timestamp option"
  run_created_at :: timestamp

record run_item =
  item_run_id :: uuid
  item_reel_id :: uuid
  item_position :: int
  item_outcome :: RunItemOutcome
  item_auth_mode :: "DownloadAuthMode option"
  item_reason_code :: "string option"
  item_completed_at :: "timestamp option"

record norm_job =
  job_id :: uuid
  job_reel_id :: uuid
  job_status :: NormalizationJobStatus
  job_attempt_count :: int
  job_reason_code :: "string option"
  job_completed_at :: "timestamp option"
  job_claimed_at :: "timestamp option"
  job_lease_expires_at :: "timestamp option"
  job_worker_id :: "string option"
  job_staging_prefix :: "string option"
  job_created_at :: timestamp

record video =
  vid_id :: uuid
  vid_title :: string
  vid_object_key :: string
  vid_content_type :: string
  vid_byte_size :: int
  vid_normalization_strategy :: "string option"
  vid_original_video_codec :: "string option"
  vid_normalized_video_codec :: "string option"
  vid_width :: "int option"
  vid_height :: "int option"
  vid_duration_ms :: "int option"
  vid_file_size_bytes :: "int option"
  vid_has_audio :: "bool option"
  vid_normalized_at :: "timestamp option"
  vid_content_sha256 :: "string option"
  vid_created_at :: timestamp

record pairing_challenge =
  pc_id :: uuid
  pc_account_id :: uuid
  pc_secret_hash :: string
  pc_expires_at :: timestamp
  pc_consumed_at :: "timestamp option"

record device_session =
  ds_id :: uuid
  ds_account_id :: uuid
  ds_device_id :: uuid
  ds_session_token_hash :: string
  ds_csrf_token_hash :: string
  ds_expires_at :: timestamp
  ds_revoked_at :: "timestamp option"

record ('body) idempotency_record =
  ir_session_id :: uuid
  ir_operation :: string
  ir_key_hash :: string
  ir_fingerprint :: string
  ir_response_status :: int
  ir_response :: 'body
  ir_expires_at :: timestamp

record collection_settings =
  cs_account_id :: uuid
  cs_enabled :: bool
  cs_target_reserve :: int

record reserve_device =
  rd_account_id :: uuid
  rd_device_uuid :: uuid
  rd_auto_refill_enabled :: bool
  rd_local_completed_count :: int
  rd_desired_count :: int
  rd_low_watermark :: int
  rd_quota_threshold :: int
  rd_reported_at :: timestamp

record rate_limit =
  rl_scope_hash :: string
  rl_window_started_at :: timestamp
  rl_request_count :: int

section \<open>The collection database\<close>

record db =
  accounts :: "account list"
  login_sessions :: "login_session list"
  reels :: "reel list"
  reel_views :: "reel_view list"
  runs :: "collection_run list"
  run_items :: "run_item list"
  jobs :: "norm_job list"
  videos :: "video list"

definition empty_db :: db where
  "empty_db = \<lparr>accounts = [], login_sessions = [], reels = [], reel_views = [], runs = [],
     run_items = [], jobs = [], videos = []\<rparr>"

subsection \<open>Which rows count as active or durable\<close>

definition session_open :: "login_session \<Rightarrow> bool" where
  "session_open s \<longleftrightarrow>
     ls_status s = LoginSessionStatus.PENDING \<or> ls_status s = LoginSessionStatus.ACTIVE"

definition run_active :: "collection_run \<Rightarrow> bool" where
  "run_active r \<longleftrightarrow>
     run_status r = CollectionRunStatus.QUEUED \<or> run_status r = CollectionRunStatus.RUNNING"

definition job_active :: "norm_job \<Rightarrow> bool" where
  "job_active j \<longleftrightarrow>
     job_status j = NormalizationJobStatus.PENDING \<or> job_status j = NormalizationJobStatus.RUNNING"

definition durable_status :: "ReelPipelineStatus \<Rightarrow> bool" where
  "durable_status s \<longleftrightarrow>
     s = ReelPipelineStatus.SOURCE_READY \<or> s = ReelPipelineStatus.NORMALIZING \<or>
     s = ReelPipelineStatus.READY"

lemma durable_status_simps [simp]:
  "durable_status ReelPipelineStatus.SOURCE_READY" "durable_status ReelPipelineStatus.NORMALIZING"
  "durable_status ReelPipelineStatus.READY" "\<not> durable_status ReelPipelineStatus.DISCOVERED"
  "\<not> durable_status ReelPipelineStatus.DOWNLOADING" "\<not> durable_status ReelPipelineStatus.FAILED"
  by (simp_all add: durable_status_def)

section \<open>Constraints\<close>

definition varchar :: "nat \<Rightarrow> string \<Rightarrow> bool" where
  "varchar n s \<longleftrightarrow> length s \<le> n"

definition varchar_null :: "nat \<Rightarrow> string option \<Rightarrow> bool" where
  "varchar_null n s = (case s of None \<Rightarrow> True | Some t \<Rightarrow> varchar n t)"

definition nonblank :: "string \<Rightarrow> bool" where
  "nonblank s \<longleftrightarrow> (\<exists>c \<in> set s. c \<noteq> CHR '' '')"

definition login_session_ok :: "login_session \<Rightarrow> bool" where
  "login_session_ok s \<longleftrightarrow> length (ls_launch_token_hash s) = 64"

definition reel_ok :: "reel \<Rightarrow> bool" where
  "reel_ok r \<longleftrightarrow>
     nonblank (reel_shortcode r) \<and> nonblank (reel_canonical_url r) \<and>
     opt_all nonblank (reel_source_object_key r) \<and>
     opt_all (\<lambda>h. length h = 64) (reel_source_sha256 r) \<and>
     opt_all (\<lambda>n. n > 0) (reel_source_byte_size r) \<and>
     (durable_status (reel_status r) \<longrightarrow>
        reel_source_object_key r \<noteq> None \<and> reel_source_sha256 r \<noteq> None \<and>
        reel_source_byte_size r \<noteq> None) \<and>
     (reel_status r = ReelPipelineStatus.READY \<longrightarrow> reel_video_id r \<noteq> None)"

definition run_ok :: "collection_run \<Rightarrow> bool" where
  "run_ok r \<longleftrightarrow>
     run_target_count r > 0 \<and>
     run_source_committed_count r \<ge> 0 \<and> run_already_available_count r \<ge> 0 \<and>
     run_failed_count r \<ge> 0 \<and>
     run_source_committed_count r + run_already_available_count r + run_failed_count r
       \<le> run_target_count r"

definition item_ok :: "run_item \<Rightarrow> bool" where
  "item_ok i \<longleftrightarrow>
     (item_outcome i = RunItemOutcome.SOURCE_COMMITTED \<longrightarrow> item_auth_mode i \<noteq> None) \<and>
     (item_outcome i = RunItemOutcome.ALREADY_AVAILABLE \<longrightarrow> item_auth_mode i = None) \<and>
     item_position i > 0"

definition job_ok :: "norm_job \<Rightarrow> bool" where
  "job_ok j \<longleftrightarrow> job_attempt_count j \<ge> 0"

definition video_ok :: "video \<Rightarrow> bool" where
  "video_ok v \<longleftrightarrow> vid_byte_size v > 0"

lemmas row_ok_defs = login_session_ok_def reel_ok_def run_ok_def item_ok_def job_ok_def video_ok_def

text \<open>Column widths.\<close>

definition account_fits :: "account \<Rightarrow> bool" where
  "account_fits a \<longleftrightarrow> varchar_null 64 (acc_reason_code a)"

definition login_session_fits :: "login_session \<Rightarrow> bool" where
  "login_session_fits s \<longleftrightarrow> varchar 64 (ls_launch_token_hash s) \<and> varchar_null 64 (ls_reason_code s)"

definition reel_fits :: "reel \<Rightarrow> bool" where
  "reel_fits r \<longleftrightarrow>
     varchar 64 (reel_shortcode r) \<and> varchar 512 (reel_canonical_url r) \<and>
     varchar_null 512 (reel_source_object_key r) \<and> varchar_null 64 (reel_source_sha256 r) \<and>
     varchar_null 64 (reel_failure_reason_code r)"

definition run_fits :: "collection_run \<Rightarrow> bool" where
  "run_fits r \<longleftrightarrow> varchar_null 64 (run_stop_reason_code r)"

definition item_fits :: "run_item \<Rightarrow> bool" where
  "item_fits i \<longleftrightarrow> varchar_null 64 (item_reason_code i)"

definition job_fits :: "norm_job \<Rightarrow> bool" where
  "job_fits j \<longleftrightarrow>
     varchar_null 64 (job_reason_code j) \<and> varchar_null 64 (job_worker_id j) \<and>
     varchar_null 512 (job_staging_prefix j)"

definition video_fits :: "video \<Rightarrow> bool" where
  "video_fits v \<longleftrightarrow>
     varchar 255 (vid_title v) \<and> varchar 512 (vid_object_key v) \<and> varchar 127 (vid_content_type v) \<and>
     varchar_null 16 (vid_normalization_strategy v) \<and>
     varchar_null 64 (vid_original_video_codec v) \<and> varchar_null 64 (vid_normalized_video_codec v) \<and>
     varchar_null 64 (vid_content_sha256 v)"

definition widths_ok :: "db \<Rightarrow> bool" where
  "widths_ok d \<longleftrightarrow>
     list_all account_fits (accounts d) \<and> list_all login_session_fits (login_sessions d) \<and>
     list_all reel_fits (reels d) \<and> list_all run_fits (runs d) \<and> list_all item_fits (run_items d) \<and>
     list_all job_fits (jobs d) \<and> list_all video_fits (videos d)"

text \<open>Foreign keys.\<close>

definition references_ok :: "db \<Rightarrow> bool" where
  "references_ok d \<longleftrightarrow>
     (\<forall>s \<in> set (login_sessions d). ls_account_id s \<in> acc_id ` set (accounts d)) \<and>
     (\<forall>r \<in> set (reels d). opt_all (\<lambda>v. v \<in> vid_id ` set (videos d)) (reel_video_id r)) \<and>
     (\<forall>v \<in> set (reel_views d). rv_account_id v \<in> acc_id ` set (accounts d) \<and>
        rv_reel_id v \<in> reel_id ` set (reels d)) \<and>
     (\<forall>r \<in> set (runs d). run_account_id r \<in> acc_id ` set (accounts d)) \<and>
     (\<forall>i \<in> set (run_items d). item_run_id i \<in> run_id ` set (runs d) \<and>
        item_reel_id i \<in> reel_id ` set (reels d)) \<and>
     (\<forall>j \<in> set (jobs d). job_reel_id j \<in> reel_id ` set (reels d))"

text \<open>Primary keys and unique indexes.\<close>

definition uniques_ok :: "db \<Rightarrow> bool" where
  "uniques_ok d \<longleftrightarrow>
     unique_col acc_id (accounts d) \<and>
     unique_col ls_id (login_sessions d) \<and> unique_col ls_launch_token_hash (login_sessions d) \<and>
     unique_where session_open ls_account_id (login_sessions d) \<and>
     unique_col reel_id (reels d) \<and> unique_col reel_shortcode (reels d) \<and>
     unique_col reel_canonical_url (reels d) \<and>
     unique_nullable reel_source_object_key (reels d) \<and> unique_nullable reel_video_id (reels d) \<and>
     unique_col (\<lambda>v. (rv_account_id v, rv_reel_id v)) (reel_views d) \<and>
     unique_col run_id (runs d) \<and> unique_where run_active run_account_id (runs d) \<and>
     unique_col (\<lambda>i. (item_run_id i, item_position i)) (run_items d) \<and>
     unique_col (\<lambda>i. (item_run_id i, item_reel_id i)) (run_items d) \<and>
     unique_col job_id (jobs d) \<and> unique_where job_active job_reel_id (jobs d) \<and>
     unique_col vid_id (videos d) \<and> unique_col vid_object_key (videos d) \<and>
     unique_nullable vid_content_sha256 (videos d)"

definition rows_ok :: "db \<Rightarrow> bool" where
  "rows_ok d \<longleftrightarrow>
     list_all login_session_ok (login_sessions d) \<and>
     list_all reel_ok (reels d) \<and> list_all run_ok (runs d) \<and> list_all item_ok (run_items d) \<and>
     list_all job_ok (jobs d) \<and> list_all video_ok (videos d)"

definition constraints_ok :: "db \<Rightarrow> bool" where
  "constraints_ok d \<longleftrightarrow> widths_ok d \<and> rows_ok d \<and> references_ok d \<and> uniques_ok d"

lemmas constraint_defs = constraints_ok_def widths_ok_def rows_ok_def references_ok_def uniques_ok_def

lemma constraints_ok_empty [simp]: "constraints_ok empty_db"
  by (simp add: constraint_defs empty_db_def)

section \<open>Transactions\<close>

text \<open>
  The body of \<open>with sessions.begin() as session\<close> works on the database it opened and either
  raises or returns; \<open>transaction\<close> commits what it left when every constraint holds and leaves
  the database as it was when the body raised or a constraint is violated (\<open>IntegrityError\<close>; a
  value too long for its column is another database error).
\<close>

type_synonym 'a body = "db \<Rightarrow> ('a \<times> db) result"

definition transaction :: "'a body \<Rightarrow> db \<Rightarrow> 'a result \<times> db" where
  "transaction f d =
     (case f d of
        Inl e \<Rightarrow> (Inl e, d)
      | Inr (x, d') \<Rightarrow> if constraints_ok d' then (Inr x, d')
                        else (Inl (if widths_ok d' then IntegrityError else SQLAlchemyError), d))"

text \<open>A read-only session.\<close>

definition read_only :: "(db \<Rightarrow> 'a) \<Rightarrow> db \<Rightarrow> 'a result \<times> db" where
  "read_only f d = (Inr (f d), d)"

lemma transaction_constraints:
  "constraints_ok d \<Longrightarrow> constraints_ok (snd (transaction f d))"
  by (auto simp: transaction_def split: sum.splits)

lemma transaction_error_rollback: "fst (transaction f d) = Inl e \<Longrightarrow> snd (transaction f d) = d"
  by (auto simp: transaction_def split: sum.splits if_splits)

lemma transaction_keeps:
  "P d \<Longrightarrow> (\<And>x d'. f d = Inr (x, d') \<Longrightarrow> constraints_ok d' \<Longrightarrow> P d') \<Longrightarrow> P (snd (transaction f d))"
  by (auto simp: transaction_def split: sum.splits)

lemma transaction_InrD:
  "transaction f d = (Inr x, d') \<Longrightarrow> f d = Inr (x, d') \<and> constraints_ok d'"
  by (auto simp: transaction_def split: sum.splits if_splits)

lemma transaction_commits:
  "f d = Inr (x, d') \<Longrightarrow> constraints_ok d' \<Longrightarrow> transaction f d = (Inr x, d')"
  by (simp add: transaction_def)

text \<open>What is known of an operation that is one transaction, whatever its body.\<close>

definition transactional :: "(db \<Rightarrow> 'a result \<times> db) \<Rightarrow> bool" where
  "transactional g \<longleftrightarrow> (\<exists>f. g = transaction f)"

lemma transactionalI: "g = transaction f \<Longrightarrow> transactional g"
  by (auto simp: transactional_def)

lemma transactional_raise: "transactional g \<Longrightarrow> g d = (Inl e, d') \<Longrightarrow> d' = d"
  by (auto simp: transactional_def transaction_def split: sum.splits if_splits)

lemma transactional_return: "transactional g \<Longrightarrow> g d = (Inr x, d') \<Longrightarrow> constraints_ok d'"
  by (auto simp: transactional_def transaction_def split: sum.splits if_splits)

lemma transactional_keeps:
  assumes "transactional g" "P d" "\<And>x d'. g d = (Inr x, d') \<Longrightarrow> constraints_ok d' \<Longrightarrow> P d'"
  shows "P (snd (g d))"
proof (cases "g d")
  case (Pair r d')
  then show ?thesis
    using assms transactional_raise [of g d] transactional_return [of g d] by (cases r) auto
qed

text \<open>Updating one table.\<close>

definition update_reel :: "uuid \<Rightarrow> (reel \<Rightarrow> reel) \<Rightarrow> db \<Rightarrow> db" where
  "update_reel i f d = d\<lparr>reels := update_rows reel_id i f (reels d)\<rparr>"

definition update_run :: "uuid \<Rightarrow> (collection_run \<Rightarrow> collection_run) \<Rightarrow> db \<Rightarrow> db" where
  "update_run i f d = d\<lparr>runs := update_rows run_id i f (runs d)\<rparr>"

definition update_job :: "uuid \<Rightarrow> (norm_job \<Rightarrow> norm_job) \<Rightarrow> db \<Rightarrow> db" where
  "update_job i f d = d\<lparr>jobs := update_rows job_id i f (jobs d)\<rparr>"

definition update_account :: "uuid \<Rightarrow> (account \<Rightarrow> account) \<Rightarrow> db \<Rightarrow> db" where
  "update_account i f d = d\<lparr>accounts := update_rows acc_id i f (accounts d)\<rparr>"

definition update_login :: "uuid \<Rightarrow> (login_session \<Rightarrow> login_session) \<Rightarrow> db \<Rightarrow> db" where
  "update_login i f d = d\<lparr>login_sessions := update_rows ls_id i f (login_sessions d)\<rparr>"

lemmas table_update_defs = update_reel_def update_run_def update_job_def update_account_def
  update_login_def

abbreviation get_reel :: "db \<Rightarrow> uuid \<Rightarrow> reel option" where
  "get_reel d i \<equiv> lookup_row reel_id i (reels d)"

abbreviation get_run :: "db \<Rightarrow> uuid \<Rightarrow> collection_run option" where
  "get_run d i \<equiv> lookup_row run_id i (runs d)"

abbreviation get_job :: "db \<Rightarrow> uuid \<Rightarrow> norm_job option" where
  "get_job d i \<equiv> lookup_row job_id i (jobs d)"

abbreviation get_account :: "db \<Rightarrow> uuid \<Rightarrow> account option" where
  "get_account d i \<equiv> lookup_row acc_id i (accounts d)"

abbreviation get_login :: "db \<Rightarrow> uuid \<Rightarrow> login_session option" where
  "get_login d i \<equiv> lookup_row ls_id i (login_sessions d)"

end
