(* ===== verification/Canonical.thy ===== *)
theory Canonical
  imports Contracts
begin

text \<open>
  \<open>apps/api/app/instagram/collector/canonical.py\<close>: which candidates of the feed are canonical
  Reels, and the object key of a Reel's source. \<open>urlsplit\<close> and the attributes of its result are
  those of \<open>urllib.parse\<close>, on strings of code points below 256.
\<close>

section \<open>Splitting a URL\<close>

definition is_scheme_char :: "char \<Rightarrow> bool" where
  "is_scheme_char c \<longleftrightarrow> is_upper c \<or> is_lower c \<or> is_digit c \<or> c \<in> set ''+-.''"

text \<open>Leading control characters and spaces go first, then every tab, CR and LF.\<close>

definition clean_url :: "string \<Rightarrow> string" where
  "clean_url url =
     filter (\<lambda>c. codepoint c \<noteq> 9 \<and> codepoint c \<noteq> 10 \<and> codepoint c \<noteq> 13) (dropWhile (\<lambda>c. codepoint c \<le> 32) url)"

record split_result =
  scheme :: string
  netloc :: string
  path :: string
  query :: string
  fragment :: string

definition split_scheme :: "string \<Rightarrow> string \<times> string" where
  "split_scheme url =
     (case partition (CHR '':'') url of
        (s, found, rest) \<Rightarrow>
          if found \<and> s \<noteq> [] \<and> (is_upper (hd s) \<or> is_lower (hd s)) \<and> list_all is_scheme_char s
          then (lower s, rest) else ([], url))"

definition split_netloc :: "string \<Rightarrow> string \<times> string" where
  "split_netloc url =
     (if startswith url ''//''
      then (takeWhile (\<lambda>c. c \<notin> set ''/?#'') (drop 2 url),
            dropWhile (\<lambda>c. c \<notin> set ''/?#'') (drop 2 url))
      else ([], url))"

text \<open>
  Where the network location has brackets, its host has to be an IP literal. The test here lets
  through every text that has the \<open>v\<close> of a future address or the colon of an IPv6 one;
  \<open>ipaddress\<close> refuses some of those, and \<open>validate_candidate\<close> below refuses all of them, so
  its result is the same.
\<close>

definition bracketed_host_ok :: "string \<Rightarrow> bool" where
  "bracketed_host_ok h \<longleftrightarrow> startswith h ''v'' \<or> CHR '':'' \<in> set h"

definition bracketed_netloc_ok :: "string \<Rightarrow> bool" where
  "bracketed_netloc_ok nl =
     (case rpartition (CHR ''@'') nl of
        (_, _, host_and_port) \<Rightarrow>
          (case partition (CHR ''['') host_and_port of
             (front, have_open, bracketed) \<Rightarrow>
               if have_open then
                 front = [] \<and>
                 (case partition (CHR '']'') bracketed of
                    (h, _, rest) \<Rightarrow> (rest = [] \<or> startswith rest '':'') \<and> bracketed_host_ok h)
               else bracketed_host_ok (fst (partition (CHR '':'') host_and_port))))"

definition brackets_ok :: "string \<Rightarrow> bool" where
  "brackets_ok nl \<longleftrightarrow>
     (CHR ''['' \<in> set nl \<longleftrightarrow> CHR '']'' \<in> set nl) \<and>
     (CHR ''['' \<in> set nl \<longrightarrow> bracketed_netloc_ok nl)"

definition urlsplit :: "string \<Rightarrow> split_result result" where
  "urlsplit url =
     (case split_scheme (clean_url url) of
        (sch, rest) \<Rightarrow>
          (case split_netloc rest of
             (nl, rest) \<Rightarrow>
               if \<not> brackets_ok nl then Inl ValueError
               else
                 (case partition (CHR ''#'') rest of
                    (rest, _, frag) \<Rightarrow>
                      (case partition (CHR ''?'') rest of
                         (p, _, q) \<Rightarrow>
                           Inr \<lparr>scheme = sch, netloc = nl, path = p, query = q,
                                fragment = frag\<rparr>))))"

definition userinfo :: "split_result \<Rightarrow> (string \<times> string option) option" where
  "userinfo r =
     (case rpartition (CHR ''@'') (netloc r) of
        (info, have_info, _) \<Rightarrow>
          if have_info
          then (case partition (CHR '':'') info of
                  (name, have_password, password) \<Rightarrow>
                    Some (name, if have_password then Some password else None))
          else None)"

definition username :: "split_result \<Rightarrow> string option" where
  "username r = map_option fst (userinfo r)"

definition password :: "split_result \<Rightarrow> string option" where
  "password r = Option.bind (userinfo r) snd"

definition hostinfo :: "split_result \<Rightarrow> string \<times> string option" where
  "hostinfo r =
     (case rpartition (CHR ''@'') (netloc r) of
        (_, _, info) \<Rightarrow>
          (case partition (CHR ''['') info of
             (_, have_open, bracketed) \<Rightarrow>
               (case (if have_open
                      then (case partition (CHR '']'') bracketed of
                              (h, _, rest) \<Rightarrow> (h, snd (snd (partition (CHR '':'') rest))))
                      else (case partition (CHR '':'') info of (h, _, p) \<Rightarrow> (h, p)))
                of (h, p) \<Rightarrow> (h, if p = [] then None else Some p))))"

definition hostname :: "split_result \<Rightarrow> string option" where
  "hostname r =
     (case fst (hostinfo r) of
        [] \<Rightarrow> None
      | c # cs \<Rightarrow>
          (case partition (CHR ''%'') (c # cs) of
             (h, found, zone) \<Rightarrow> Some (lower h @ (if found then CHR ''%'' # zone else []))))"

definition port :: "split_result \<Rightarrow> int option result" where
  "port r =
     (case snd (hostinfo r) of
        None \<Rightarrow> Inr None
      | Some p \<Rightarrow>
          if list_all is_digit p
          then (case py_int p of
                  Inl e \<Rightarrow> Inl e
                | Inr n \<Rightarrow> if 0 \<le> n \<and> n \<le> 65535 then Inr (Some n) else Inl ValueError)
          else Inl ValueError)"

section \<open>Canonical candidates\<close>

record reel_candidate =
  shortcode :: string
  canonical_url :: string

definition shortcode_char :: "char \<Rightarrow> bool" where
  "shortcode_char c \<longleftrightarrow>
     is_upper c \<or> is_lower c \<or> is_digit c \<or> c = CHR ''_'' \<or> c = CHR ''-''"

text \<open>\<open>SHORTCODE.fullmatch\<close> of \<open>^[A-Za-z0-9_-]{1,64}$\<close>.\<close>

definition shortcode_match :: "string \<Rightarrow> bool" where
  "shortcode_match s \<longleftrightarrow> list_all shortcode_char s \<and> 1 \<le> length s \<and> length s \<le> 64"

definition reel_path :: "string \<Rightarrow> string" where
  "reel_path code = ''/reel/'' @ code @ ''/''"

definition validate_candidate :: "reel_candidate \<Rightarrow> reel_candidate result" where
  "validate_candidate candidate =
     (if \<not> shortcode_match (shortcode candidate) then Inl InvalidReelCandidate
      else
        (case urlsplit (canonical_url candidate) of
           Inl _ \<Rightarrow> Inl InvalidReelCandidate
         | Inr parsed \<Rightarrow>
             (case port parsed of
                Inl _ \<Rightarrow> Inl InvalidReelCandidate
              | Inr p \<Rightarrow>
                  if scheme parsed \<noteq> ''https''
                     \<or> hostname parsed \<noteq> Some ''www.instagram.com''
                     \<or> p \<noteq> None
                     \<or> username parsed \<noteq> None
                     \<or> password parsed \<noteq> None
                     \<or> query parsed \<noteq> []
                     \<or> fragment parsed \<noteq> []
                     \<or> path parsed \<noteq> reel_path (shortcode candidate)
                  then Inl InvalidReelCandidate
                  else Inr candidate)))"

definition source_object_key :: "string \<Rightarrow> string result" where
  "source_object_key code =
     (if \<not> shortcode_match code then Inl InvalidReelCandidate
      else Inr (''instagram-sources/'' @ code @ ''.mp4''))"


section \<open>Facts about the parts\<close>

lemma shortcode_char_facts:
  assumes "shortcode_char c"
  shows "codepoint c \<noteq> 9" "codepoint c \<noteq> 10" "codepoint c \<noteq> 13" "\<not> codepoint c \<le> 32"
    "c \<noteq> CHR ''/''" "c \<noteq> CHR ''?''" "c \<noteq> CHR ''#''" "c \<noteq> CHR ''.''"
  using assms
  by (auto simp: shortcode_char_def is_upper_def is_lower_def is_digit_def codepoint_def)

lemma shortcode_match_chars: "shortcode_match s \<Longrightarrow> c \<in> set s \<Longrightarrow> shortcode_char c"
  by (auto simp: shortcode_match_def list_all_iff)

lemma shortcode_avoids:
  assumes "shortcode_match s"
  shows "CHR ''/'' \<notin> set s" "CHR ''?'' \<notin> set s" "CHR ''#'' \<notin> set s" "CHR ''.'' \<notin> set s"
  using assms shortcode_match_chars shortcode_char_facts by blast+

lemma shortcode_nonempty: "shortcode_match s \<Longrightarrow> s \<noteq> []"
  by (auto simp: shortcode_match_def)

text \<open>A network location without user information and brackets is a host and maybe a colon.\<close>

definition plain_netloc :: "string \<Rightarrow> bool" where
  "plain_netloc nl \<longleftrightarrow>
     (\<exists>h colon. nl = h @ colon \<and> lower h = ''www.instagram.com'' \<and> (colon = [] \<or> colon = '':''))"

lemma notin_host:
  assumes "lower h = ''www.instagram.com''" and "\<not> is_lower d" "codepoint d < 128" "\<not> is_upper d"
    and "d \<notin> set ''www.instagram.com''"
  shows "d \<notin> set h"
  using assms in_lower [of d h] by simp

lemma host_text_avoids:
  assumes h: "lower h = ''www.instagram.com''"
  shows "CHR '':'' \<notin> set h" "CHR ''%'' \<notin> set h" "CHR ''@'' \<notin> set h" "CHR ''['' \<notin> set h"
    "CHR '']'' \<notin> set h" "CHR ''/'' \<notin> set h" "CHR ''?'' \<notin> set h" "CHR ''#'' \<notin> set h"
  by (rule notin_host [OF h]; simp add: is_lower_def is_upper_def codepoint_def)+


lemma hostname_nonempty:
  "fst (hostinfo r) \<noteq> [] \<Longrightarrow> hostname r =
     (case partition (CHR ''%'') (fst (hostinfo r)) of
        (h, found, zone) \<Rightarrow> Some (lower h @ (if found then CHR ''%'' # zone else [])))"
  by (cases "fst (hostinfo r)") (simp_all add: hostname_def)

lemma hostname_text:
  assumes "hostname r = Some ''www.instagram.com''"
  shows "lower (fst (hostinfo r)) = ''www.instagram.com''"
proof (cases rule: partition_cases [where c = "CHR ''%''" and s = "fst (hostinfo r)"])
  case (found a b)
  then have "fst (hostinfo r) \<noteq> []" by simp
  with assms found(3) have "lower a @ CHR ''%'' # b = ''www.instagram.com''"
    by (simp add: hostname_nonempty)
  then have "CHR ''%'' \<in> set ''www.instagram.com''"
    by (metis in_set_conv_decomp)
  then show ?thesis by simp
next
  case absent
  with assms show ?thesis by (auto simp: hostname_def split: list.splits)
qed

lemma netloc_cases:
  assumes "brackets_ok nl" "hostname r = Some ''www.instagram.com''" "username r = None"
    and "port r = Inr None" and nl: "netloc r = nl"
  shows "plain_netloc nl"
proof -
  have at: "CHR ''@'' \<notin> set nl"
    using assms(3) nl
    by (auto simp: username_def userinfo_def rpartition_def split: prod.splits if_splits)
  have nobr: "CHR ''['' \<notin> set nl"
  proof
    assume br: "CHR ''['' \<in> set nl"
    then obtain a b where ab: "nl = a @ CHR ''['' # b" "CHR ''['' \<notin> set a"
      by (auto dest: split_list_first)
    with assms(1) br at have ok: "bracketed_netloc_ok nl" by (simp add: brackets_ok_def)
    obtain h x rest where h: "partition (CHR '']'') b = (h, x, rest)"
      by (cases "partition (CHR '']'') b") auto
    from ok ab at h have hok: "bracketed_host_ok h"
      by (simp add: bracketed_netloc_ok_def)
    from assms(2) nl ab at h have host: "hostname r = Some ''www.instagram.com''"
      "fst (hostinfo r) = h"
      by (auto simp: hostinfo_def split: prod.splits)
    then have low: "lower h = ''www.instagram.com''"
      using hostname_text by blast
    then have "CHR '':'' \<notin> set h" by (rule host_text_avoids)
    moreover have "\<not> startswith h ''v''"
      using low by (cases h) (auto simp: startswith_def lower_def lower_char_def is_upper_def
          codepoint_def Let_def)
    ultimately show False using hok by (simp add: bracketed_host_ok_def)
  qed
  obtain h x p where h: "partition (CHR '':'') nl = (h, x, p)"
    by (cases "partition (CHR '':'') nl") auto
  have hi: "hostinfo r = (h, if p = [] then None else Some p)"
    using at nobr nl h by (simp add: hostinfo_def)
  have "p = []"
    using assms(4) hi by (auto simp: port_def split: if_splits sum.splits)
  moreover have "lower h = ''www.instagram.com''"
    using hostname_text [OF assms(2)] hi by simp
  ultimately show ?thesis
    using h unfolding plain_netloc_def
    by (cases rule: partition_cases [where c = "CHR '':''" and s = nl]) auto
qed


lemma urlsplit_InrD:
  assumes "urlsplit url = Inr r"
  obtains sch nl rest q f where
    "split_scheme (clean_url url) = (scheme r, sch)" "split_netloc sch = (netloc r, rest)"
    "brackets_ok (netloc r)"
    "rest = path r @ q @ f" "q = [] \<or> q = CHR ''?'' # query r" "f = [] \<or> f = CHR ''#'' # fragment r"
proof -
  obtain s0 sch where s: "split_scheme (clean_url url) = (s0, sch)" by fastforce
  obtain n0 rest where n: "split_netloc sch = (n0, rest)" by fastforce
  obtain r1 x1 fr where p1: "partition (CHR ''#'') rest = (r1, x1, fr)" using prod_cases3 by blast
  obtain r2 x2 qu where p2: "partition (CHR ''?'') r1 = (r2, x2, qu)" using prod_cases3 by blast
  from assms s n p1 p2 have ok: "brackets_ok n0"
    and r: "r = \<lparr>scheme = s0, netloc = n0, path = r2, query = qu, fragment = fr\<rparr>"
    by (auto simp: urlsplit_def split: if_splits)
  have f: "\<exists>f. rest = r1 @ f \<and> (f = [] \<or> f = CHR ''#'' # fr)"
    using p1 by (cases rule: partition_cases [where c = "CHR ''#''" and s = rest]) auto
  have q: "\<exists>q. r1 = r2 @ q \<and> (q = [] \<or> q = CHR ''?'' # qu)"
    using p2 by (cases rule: partition_cases [where c = "CHR ''?''" and s = r1]) auto
  from f q obtain f q where "rest = r2 @ q @ f"
    "q = [] \<or> q = CHR ''?'' # qu" "f = [] \<or> f = CHR ''#'' # fr"
    by force
  with s n ok r show ?thesis by (intro that [of sch rest q f]) simp_all
qed

text \<open>
  The text of a URL the validator accepts, once cleaned: the scheme and the host in any letter
  case, maybe an empty port, the path of the shortcode, maybe an empty query and fragment.
\<close>

definition canonical_spelling :: "string \<Rightarrow> string \<Rightarrow> bool" where
  "canonical_spelling url code \<longleftrightarrow>
     (\<exists>s h colon q f.
        clean_url url = s @ ''://'' @ h @ colon @ reel_path code @ q @ f \<and>
        lower s = ''https'' \<and> lower h = ''www.instagram.com'' \<and>
        (colon = [] \<or> colon = '':'') \<and> (q = [] \<or> q = ''?'') \<and> (f = [] \<or> f = ''#''))"

lemma split_scheme_https:
  assumes "split_scheme url = (''https'', rest)"
  obtains s where "url = s @ '':'' @ rest" "lower s = ''https''"
proof (cases rule: partition_cases [where c = "CHR '':''" and s = url])
  case (found a b)
  with assms that show ?thesis by (auto simp: split_scheme_def split: if_splits)
next
  case absent
  with assms show ?thesis by (simp add: split_scheme_def)
qed

lemma split_netloc_slashes:
  assumes "split_netloc url = (nl, rest)" "nl \<noteq> []"
  shows "url = ''//'' @ nl @ rest"
proof -
  have "startswith url ''//''" using assms by (auto simp: split_netloc_def split: if_splits)
  then obtain t where "url = ''//'' @ t" by (rule startswithE)
  with assms show ?thesis by (auto simp: split_netloc_def split: if_splits)
qed

lemma validate_candidate_sound:
  assumes "validate_candidate c = Inr c'"
  shows "c' = c" "shortcode_match (shortcode c)" "canonical_spelling (canonical_url c) (shortcode c)"
proof -
  from assms show "c' = c" and m: "shortcode_match (shortcode c)"
    by (auto simp: validate_candidate_def split: if_splits sum.splits)
  from assms obtain r where r: "urlsplit (canonical_url c) = Inr r" "port r = Inr None"
    "scheme r = ''https''" "hostname r = Some ''www.instagram.com''" "username r = None"
    "query r = []" "fragment r = []" "path r = reel_path (shortcode c)"
    by (auto simp: validate_candidate_def split: if_splits sum.splits)
  from r(1) obtain sch rest q f where
    u: "split_scheme (clean_url (canonical_url c)) = (scheme r, sch)"
       "split_netloc sch = (netloc r, rest)" "brackets_ok (netloc r)" "rest = path r @ q @ f"
    and q: "q = [] \<or> q = CHR ''?'' # query r" and f: "f = [] \<or> f = CHR ''#'' # fragment r"
    by (rule urlsplit_InrD)
  obtain h colon where n: "netloc r = h @ colon" "lower h = ''www.instagram.com''"
      "colon = [] \<or> colon = '':''"
    using netloc_cases [OF u(3) r(4) r(5) r(2)] by (auto simp: plain_netloc_def)
  then have ne: "netloc r \<noteq> []" by (auto simp: lower_def)
  obtain s where s: "clean_url (canonical_url c) = s @ '':'' @ sch" "lower s = ''https''"
    using split_scheme_https u(1) r(3) by metis
  moreover have "sch = ''//'' @ h @ colon @ reel_path (shortcode c) @ q @ f"
    using split_netloc_slashes [OF u(2) ne] u(4) n(1) r(8) by simp
  moreover have "q = [] \<or> q = ''?''" "f = [] \<or> f = ''#''"
    using q f r(6,7) by auto
  ultimately show "canonical_spelling (canonical_url c) (shortcode c)"
    using n(2,3) unfolding canonical_spelling_def
    by (intro exI [of _ s] exI [of _ h] exI [of _ colon] exI [of _ q] exI [of _ f]) simp
qed


lemma lower_char_letter: "is_lower (lower_char c) \<Longrightarrow> is_upper c \<or> is_lower c"
  by (auto simp: is_lower_def codepoint_lower is_upper_def split: if_splits)

lemma lower_https:
  assumes "lower s = ''https''"
  shows "s \<noteq> []" "is_upper (hd s) \<or> is_lower (hd s)" "list_all is_scheme_char s"
    "CHR '':'' \<notin> set s"
proof -
  have letters: "\<forall>c \<in> set s. is_upper c \<or> is_lower c"
  proof
    fix c assume "c \<in> set s"
    then have "lower_char c \<in> set (lower s)" by (simp add: lower_def)
    then have "is_lower (lower_char c)"
      using assms by (auto simp: is_lower_def codepoint_def)
    then show "is_upper c \<or> is_lower c" by (rule lower_char_letter)
  qed
  show ne: "s \<noteq> []" using assms by (auto simp: lower_def)
  then show "is_upper (hd s) \<or> is_lower (hd s)" using letters by simp
  show "list_all is_scheme_char s" using letters by (auto simp: list_all_iff is_scheme_char_def)
  show "CHR '':'' \<notin> set s" using letters by (auto simp: is_upper_def is_lower_def codepoint_def)
qed

lemma split_scheme_at:
  "lower s = ''https'' \<Longrightarrow> split_scheme (s @ CHR '':'' # rest) = (''https'', rest)"
  using lower_https [of s] by (simp add: split_scheme_def)

lemma takeWhile_stop: "\<forall>x \<in> set a. P x \<Longrightarrow> \<not> P y \<Longrightarrow> takeWhile P (a @ y # b) = a"
  by (induction a) auto

lemma dropWhile_stop: "\<forall>x \<in> set a. P x \<Longrightarrow> \<not> P y \<Longrightarrow> dropWhile P (a @ y # b) = y # b"
  by (induction a) auto

lemma split_netloc_at:
  assumes "\<forall>c \<in> set nl. c \<notin> set ''/?#''" "rest = CHR ''/'' # t"
  shows "split_netloc (''//'' @ nl @ rest) = (nl, rest)"
  using assms(1) unfolding assms(2)
  by (simp add: split_netloc_def takeWhile_stop dropWhile_stop startswith_def)

lemma plain_netloc_facts:
  assumes "nl = h @ colon" "lower h = ''www.instagram.com''" "colon = [] \<or> colon = '':''"
    and r: "netloc r = nl"
  shows "brackets_ok nl" "\<forall>c \<in> set nl. c \<notin> set ''/?#''" "userinfo r = None"
    "hostname r = Some ''www.instagram.com''" "port r = Inr None"
proof -
  note no = host_text_avoids [OF assms(2)]
  have out: "d \<notin> set nl" if "d \<notin> set h" "d \<noteq> CHR '':''" for d
    using that assms(1,3) by auto
  show "brackets_ok nl" using out no by (simp add: brackets_ok_def)
  show "\<forall>c \<in> set nl. c \<notin> set ''/?#''" using assms(1,3) no by auto
  have at: "rpartition (CHR ''@'') nl = ([], False, nl)" using out no by simp
  with r show "userinfo r = None" by (simp add: userinfo_def)
  have hi: "hostinfo r = (h, None)"
    using at r out no(1,4) assms(1,3) by (auto simp: hostinfo_def)
  then show "port r = Inr None" by (simp add: port_def)
  have "h \<noteq> []" using assms(2) by (auto simp: lower_def)
  then show "hostname r = Some ''www.instagram.com''"
    using hi no(2) assms(2) by (simp add: hostname_nonempty)
qed

lemma reel_path_avoids:
  assumes "shortcode_match code"
  shows "CHR ''?'' \<notin> set (reel_path code)" "CHR ''#'' \<notin> set (reel_path code)"
  using shortcode_avoids [OF assms] by (auto simp: reel_path_def)

lemma validate_candidate_complete:
  assumes m: "shortcode_match (shortcode c)"
    and sp: "canonical_spelling (canonical_url c) (shortcode c)"
  shows "validate_candidate c = Inr c"
proof -
  obtain s h colon q f where
    u: "clean_url (canonical_url c) =
          s @ ''://'' @ h @ colon @ reel_path (shortcode c) @ q @ f"
    and s: "lower s = ''https''" and h: "lower h = ''www.instagram.com''"
    and colon: "colon = [] \<or> colon = '':''"
    and q: "q = [] \<or> q = ''?''" and f: "f = [] \<or> f = ''#''"
    using sp unfolding canonical_spelling_def by blast
  let ?nl = "h @ colon" and ?p = "reel_path (shortcode c)"
  define r where "r = \<lparr>scheme = ''https'', netloc = ?nl, path = ?p, query = [], fragment = []\<rparr>"
  have r: "netloc r = ?nl" by (simp add: r_def)
  note nl = plain_netloc_facts [OF refl h colon r]
  note no = reel_path_avoids [OF m]
  have "split_scheme (clean_url (canonical_url c)) = (''https'', ''//'' @ ?nl @ ?p @ q @ f)"
    using split_scheme_at [OF s, of "''//'' @ ?nl @ ?p @ q @ f"] u by simp
  moreover have "split_netloc (''//'' @ ?nl @ ?p @ q @ f) = (?nl, ?p @ q @ f)"
    by (rule split_netloc_at [OF nl(2)]) (simp add: reel_path_def)
  moreover have "\<exists>x. partition (CHR ''#'') (?p @ q @ f) = (?p @ q, x, [])"
    using f q no partition_at [of "CHR ''#''" "?p @ q" "[]"] by auto
  moreover have "\<exists>x. partition (CHR ''?'') (?p @ q) = (?p, x, [])"
    using q no by auto
  ultimately have "urlsplit (canonical_url c) = Inr r"
    using nl(1) by (auto simp: urlsplit_def r_def)
  then show ?thesis
    using m nl(3,4,5) by (simp add: validate_candidate_def username_def password_def r_def)
qed

text \<open>
  the validator accepts a candidate exactly when its shortcode has the canonical shape and its
  URL, once cleaned as \<open>urlsplit\<close> cleans it, spells the Reel page of that shortcode: https in any
  letter case, the Instagram host in any letter case with at most an empty port, the path of the
  shortcode, and at most an empty query and fragment. An accepted candidate is returned unchanged.
\<close>

theorem validate_candidate_iff:
  "validate_candidate c = Inr c' \<longleftrightarrow>
     c' = c \<and> shortcode_match (shortcode c) \<and>
     canonical_spelling (canonical_url c) (shortcode c)"
  using validate_candidate_sound validate_candidate_complete by blast

lemma validate_candidate_error: "validate_candidate c = Inl e \<Longrightarrow> e = InvalidReelCandidate"
  by (auto simp: validate_candidate_def split: if_splits sum.splits)

section \<open>The URL the collector builds\<close>

definition built_url :: "string \<Rightarrow> string" where
  "built_url code = ''https://www.instagram.com/reel/'' @ code @ ''/''"

lemma built_url_cons: "built_url code = ''https'' @ ''://'' @ ''www.instagram.com'' @ reel_path code"
  by (simp add: built_url_def reel_path_def)

lemma clean_built_url: "shortcode_match code \<Longrightarrow> clean_url (built_url code) = built_url code"
  using shortcode_match_chars shortcode_char_facts(1,2,3)
  by (auto simp: clean_url_def built_url_def codepoint_def filter_id_conv)

lemma lower_literals: "lower ''https'' = ''https''" "lower ''www.instagram.com'' = ''www.instagram.com''"
  by (simp_all add: lower_def lower_char_def is_upper_def codepoint_def)

lemma built_url_spelling:
  assumes "shortcode_match code"
  shows "canonical_spelling (built_url code) code"
proof -
  have e: "clean_url (built_url code) = ''https'' @ ''://'' @ ''www.instagram.com'' @ reel_path code"
    by (rule trans [OF clean_built_url [OF assms] built_url_cons])
  show ?thesis
    unfolding canonical_spelling_def e
    by (rule exI [of _ "''https''"], rule exI [of _ "''www.instagram.com''"], rule exI [of _ "[]"],
        rule exI [of _ "[]"], rule exI [of _ "[]"]) (simp add: lower_literals)
qed

text \<open>
  The candidates that the authenticated feed builds from a shortcode are accepted, and a
  built candidate is refused exactly when its shortcode is malformed.
\<close>

theorem validate_built_url:
  "validate_candidate \<lparr>shortcode = s, canonical_url = built_url s\<rparr> =
     (if shortcode_match s then Inr \<lparr>shortcode = s, canonical_url = built_url s\<rparr>
      else Inl InvalidReelCandidate)"
  using validate_candidate_complete [of "\<lparr>shortcode = s, canonical_url = built_url s\<rparr>"]
  by (simp add: built_url_spelling) (simp add: validate_candidate_def)

text \<open>
  Acceptance does not make the URL canonical: two candidates with one shortcode and different
  URLs both pass, so the stored \<open>canonical_url\<close> need not be the Reel's canonical address.
\<close>

theorem validate_accepts_other_spelling:
  "validate_candidate
     \<lparr>shortcode = ''abc'', canonical_url = ''HTTPS://WWW.Instagram.com:/reel/abc/?#''\<rparr> =
   Inr \<lparr>shortcode = ''abc'', canonical_url = ''HTTPS://WWW.Instagram.com:/reel/abc/?#''\<rparr> \<and>
   built_url ''abc'' \<noteq> ''HTTPS://WWW.Instagram.com:/reel/abc/?#''"
  by code_simp

section \<open>Object keys\<close>

lemma source_object_key_eq:
  "source_object_key s = Inr k \<longleftrightarrow>
     shortcode_match s \<and> k = ''instagram-sources/'' @ s @ ''.mp4''"
  by (auto simp: source_object_key_def)

lemma source_object_key_inj:
  "source_object_key s = Inr k \<Longrightarrow> source_object_key t = Inr k \<Longrightarrow> s = t"
  by (auto simp: source_object_key_eq)

lemma source_object_key_fits: "source_object_key s = Inr k \<Longrightarrow> 0 < length k \<and> length k \<le> 512"
  by (auto simp: source_object_key_eq shortcode_match_def)

end
