(* ===== verification/Persistence.thy ===== *)
theory Persistence
  imports Tables Canonical "HOL-Library.Product_Lexorder"
begin

text \<open>
  \<open>apps/api/app/instagram/collector/persistence.py\<close>: the Collector's transaction boundary. Each
  method of \<open>CollectorPersistence\<close> is one transaction (or one read). A fresh UUID and the current
  time are arguments: \<open>uuid4\<close> and \<open>datetime.now\<close> choose them.
\<close>

section \<open>Values\<close>

record validated_source =
  src_sha256 :: string
  src_byte_size :: int
  src_content_type :: string

datatype CancelRunOutcome = CANCELLED | NOT_FOUND | ALREADY_TERMINAL

record durable_reel_snapshot =
  snap_reel_id :: uuid
  snap_object_key :: string
  snap_sha256 :: string
  snap_byte_size :: int

section \<open>Runs and accounts\<close>

definition new_run :: "uuid \<Rightarrow> uuid \<Rightarrow> CollectionTrigger \<Rightarrow> CollectionRunStatus \<Rightarrow> int \<Rightarrow>
    timestamp option \<Rightarrow> timestamp \<Rightarrow> collection_run" where
  "new_run i account trigger status target started now =
     \<lparr>run_id = i, run_account_id = account, run_trigger = trigger, run_status = status,
      run_target_count = target, run_source_committed_count = 0, run_already_available_count = 0,
      run_failed_count = 0, run_stop_reason_code = None, run_started_at = started,
      run_completed_at = None, run_cancel_requested_at = None, run_created_at = now\<rparr>"

definition create_run :: "uuid \<Rightarrow> CollectionTrigger \<Rightarrow> int \<Rightarrow> uuid \<Rightarrow> timestamp \<Rightarrow>
    db \<Rightarrow> uuid result \<times> db" where
  "create_run account_id trigger target_count fresh now =
     transaction (\<lambda>d. Inr (fresh, d\<lparr>runs := runs d @
       [new_run fresh account_id trigger CollectionRunStatus.RUNNING target_count (Some now) now]\<rparr>))"

text \<open>The first row of a query ordered by \<open>created_at, id\<close>.\<close>

definition first_by :: "('r \<Rightarrow> timestamp \<times> uuid) \<Rightarrow> 'r list \<Rightarrow> 'r option" where
  "first_by key rows = (case sort_key key rows of [] \<Rightarrow> None | r # _ \<Rightarrow> Some r)"

lemma first_by_mem: "first_by key rows = Some r \<Longrightarrow> r \<in> set rows"
proof -
  assume "first_by key rows = Some r"
  then obtain rest where "sort_key key rows = r # rest"
    by (auto simp: first_by_def split: list.splits)
  then have "r \<in> set (sort_key key rows)" by (metis list.set_intros(1))
  then show ?thesis by simp
qed

lemma first_by_min:
  assumes "first_by key rows = Some r" "q \<in> set rows"
  shows "key r \<le> key q"
proof -
  have q: "q \<in> set (sort_key key rows)" using assms(2) by simp
  from assms(1) obtain rest where "sort_key key rows = r # rest"
    by (auto simp: first_by_def split: list.splits)
  with q sorted_sort_key [of key rows] show ?thesis by auto
qed

lemma first_by_None: "first_by key rows = None \<longleftrightarrow> rows = []"
  by (auto simp: first_by_def split: list.splits) (metis length_0_conv length_sort)

definition claim_queued_run :: "uuid \<Rightarrow> timestamp \<Rightarrow> db \<Rightarrow> collection_run option result \<times> db" where
  "claim_queued_run account_id now = transaction (\<lambda>d.
     (case first_by (\<lambda>r. (run_created_at r, run_id r))
         (filter (\<lambda>r. run_account_id r = account_id \<and> run_status r = CollectionRunStatus.QUEUED
                    \<and> run_cancel_requested_at r = None) (runs d)) of
        None \<Rightarrow> Inr (None, d)
      | Some item \<Rightarrow>
          let item' = item\<lparr>run_status := CollectionRunStatus.RUNNING, run_started_at := Some now\<rparr>
          in Inr (Some item', update_run (run_id item) (\<lambda>_. item') d)))"

definition cancellation_requested :: "uuid \<Rightarrow> db \<Rightarrow> bool" where
  "cancellation_requested i d =
     (case get_run d i of None \<Rightarrow> True | Some r \<Rightarrow> run_cancel_requested_at r \<noteq> None)"

definition new_account :: "uuid \<Rightarrow> account" where
  "new_account i = \<lparr>acc_id = i, acc_status = AccountStatus.DISCONNECTED,
     acc_last_connected_at = None, acc_reauth_required_at = None, acc_reason_code = None\<rparr>"

definition ensure_account :: "uuid \<Rightarrow> db \<Rightarrow> unit result \<times> db" where
  "ensure_account account_id = transaction (\<lambda>d.
     (case get_account d account_id of
        None \<Rightarrow> Inr ((), d\<lparr>accounts := accounts d @ [new_account account_id]\<rparr>)
      | Some _ \<Rightarrow> Inr ((), d)))"

definition set_account_status :: "uuid \<Rightarrow> AccountStatus \<Rightarrow> string option \<Rightarrow> timestamp \<Rightarrow>
    db \<Rightarrow> unit result \<times> db" where
  "set_account_status account_id status reason_code now = transaction (\<lambda>d.
     let d1 = (case get_account d account_id of
                 None \<Rightarrow> d\<lparr>accounts := accounts d @ [new_account account_id]\<rparr>
               | Some _ \<Rightarrow> d);
         current = (case get_account d account_id of
                      None \<Rightarrow> AccountStatus.DISCONNECTED | Some a \<Rightarrow> acc_status a)
     in rbind (if current \<noteq> status then require_transition account_transitions current status
               else Inr ()) (\<lambda>_.
        Inr ((), update_account account_id
          (\<lambda>a. a\<lparr>acc_status := status, acc_reason_code := reason_code,
             acc_last_connected_at :=
               (if status = AccountStatus.CONNECTED then Some now else acc_last_connected_at a),
             acc_reauth_required_at :=
               (if status = AccountStatus.REAUTH_REQUIRED then Some now
                else acc_reauth_required_at a)\<rparr>) d1)))"

definition account_status :: "uuid \<Rightarrow> db \<Rightarrow> AccountStatus" where
  "account_status i d =
     (case get_account d i of None \<Rightarrow> AccountStatus.DISCONNECTED | Some a \<Rightarrow> acc_status a)"

definition active_run_exists :: "uuid \<Rightarrow> db \<Rightarrow> bool" where
  "active_run_exists i d = list_ex (\<lambda>r. run_account_id r = i \<and> run_active r) (runs d)"

section \<open>Reels of an account\<close>

definition reel_status_of :: "string \<Rightarrow> db \<Rightarrow> ReelPipelineStatus option" where
  "reel_status_of code d = map_option reel_status (lookup_row reel_shortcode code (reels d))"

definition acquisition_outcome :: "RunItemOutcome \<Rightarrow> bool" where
  "acquisition_outcome o' \<longleftrightarrow>
     o' = RunItemOutcome.SOURCE_COMMITTED \<or> o' = RunItemOutcome.ALREADY_AVAILABLE"

definition reel_durable :: "reel \<Rightarrow> bool" where
  "reel_durable r \<longleftrightarrow>
     durable_status (reel_status r) \<and> reel_source_object_key r \<noteq> None \<and>
     reel_source_sha256 r \<noteq> None \<and> reel_source_byte_size r \<noteq> None"

text \<open>Ownership is run-item history: some acquiring item of some run of the account.\<close>

definition account_acquired :: "db \<Rightarrow> uuid \<Rightarrow> reel \<Rightarrow> bool" where
  "account_acquired d account r \<longleftrightarrow>
     list_ex (\<lambda>i. item_reel_id i = reel_id r \<and> acquisition_outcome (item_outcome i) \<and>
        list_ex (\<lambda>run. run_id run = item_run_id i \<and> run_account_id run = account) (runs d))
       (run_items d)"

definition account_durable_reels :: "db \<Rightarrow> uuid \<Rightarrow> reel list" where
  "account_durable_reels d account =
     filter (\<lambda>r. reel_durable r \<and> account_acquired d account r) (reels d)"

definition account_has_durable_reel :: "uuid \<Rightarrow> string \<Rightarrow> db \<Rightarrow> bool" where
  "account_has_durable_reel account code d =
     list_ex (\<lambda>r. reel_shortcode r = code) (account_durable_reels d account)"

definition account_durable_count :: "uuid \<Rightarrow> db \<Rightarrow> int" where
  "account_durable_count account d =
     int (length (remdups (map reel_id (account_durable_reels d account))))"

definition snapshot_of :: "reel \<Rightarrow> durable_reel_snapshot option" where
  "snapshot_of r =
     (case (reel_source_object_key r, reel_source_sha256 r, reel_source_byte_size r) of
        (Some k, Some h, Some n) \<Rightarrow>
          Some \<lparr>snap_reel_id = reel_id r, snap_object_key = k, snap_sha256 = h, snap_byte_size = n\<rparr>
      | _ \<Rightarrow> None)"

text \<open>Rows are ordered by the object key; \<open>collate\<close> is the sort key of the database's collation.\<close>

definition account_durable_baseline :: "(string \<Rightarrow> nat) \<Rightarrow> uuid \<Rightarrow> db \<Rightarrow>
    durable_reel_snapshot list" where
  "account_durable_baseline collate account d =
     sort_key (\<lambda>s. collate (snap_object_key s))
       (remdups (List.map_filter snapshot_of (account_durable_reels d account)))"

section \<open>Run items\<close>

definition bump_counter :: "RunItemOutcome \<Rightarrow> collection_run \<Rightarrow> collection_run" where
  "bump_counter outcome r =
     (if outcome = RunItemOutcome.SOURCE_COMMITTED
      then r\<lparr>run_source_committed_count := run_source_committed_count r + 1\<rparr>
      else if outcome = RunItemOutcome.ALREADY_AVAILABLE
      then r\<lparr>run_already_available_count := run_already_available_count r + 1\<rparr>
      else r\<lparr>run_failed_count := run_failed_count r + 1\<rparr>)"

definition counter_sum :: "collection_run \<Rightarrow> int" where
  "counter_sum r =
     run_source_committed_count r + run_already_available_count r + run_failed_count r"

definition add_item :: "uuid \<Rightarrow> uuid \<Rightarrow> RunItemOutcome \<Rightarrow> DownloadAuthMode option \<Rightarrow>
    string option \<Rightarrow> timestamp \<Rightarrow> db \<Rightarrow> db result" where
  "add_item run reel outcome auth_mode reason_code now d =
     (case get_run d run of
        None \<Rightarrow> Inl LookupError
      | Some r \<Rightarrow>
          let item = \<lparr>item_run_id = run, item_reel_id = reel, item_position = counter_sum r + 1,
                       item_outcome = outcome, item_auth_mode = auth_mode,
                       item_reason_code = reason_code, item_completed_at = Some now\<rparr>
          in Inr (update_run run (bump_counter outcome) (d\<lparr>run_items := run_items d @ [item]\<rparr>)))"

definition commit_available :: "uuid \<Rightarrow> reel_candidate \<Rightarrow> timestamp \<Rightarrow> db \<Rightarrow> unit result \<times> db" where
  "commit_available run candidate now = transaction (\<lambda>d.
     (case lookup_row reel_shortcode (shortcode candidate) (reels d) of
        None \<Rightarrow> Inl ValueError
      | Some r \<Rightarrow>
          if \<not> durable_status (reel_status r) then Inl ValueError
          else rbind (add_item run (reel_id r) RunItemOutcome.ALREADY_AVAILABLE None None now d)
                 (\<lambda>d. Inr ((), d))))"

definition new_reel :: "uuid \<Rightarrow> reel_candidate \<Rightarrow> timestamp \<Rightarrow> reel" where
  "new_reel i candidate now =
     \<lparr>reel_id = i, reel_shortcode = shortcode candidate,
      reel_canonical_url = canonical_url candidate, reel_status = ReelPipelineStatus.DISCOVERED,
      reel_source_object_key = None, reel_source_sha256 = None, reel_source_byte_size = None,
      reel_video_id = None, reel_failure_reason_code = None, reel_discovered_at = Some now,
      reel_source_ready_at = None, reel_ready_at = None, reel_failed_at = None,
      reel_cleanup_pending = False\<rparr>"

definition new_job :: "uuid \<Rightarrow> uuid \<Rightarrow> int \<Rightarrow> timestamp \<Rightarrow> norm_job" where
  "new_job i reel attempts now =
     \<lparr>job_id = i, job_reel_id = reel, job_status = NormalizationJobStatus.PENDING,
      job_attempt_count = attempts, job_reason_code = None, job_completed_at = None,
      job_claimed_at = None, job_lease_expires_at = None, job_worker_id = None,
      job_staging_prefix = None, job_created_at = now\<rparr>"

text \<open>The Reel of a shortcode, added as discovered when it is new.\<close>

definition find_or_discover :: "reel_candidate \<Rightarrow> uuid \<Rightarrow> timestamp \<Rightarrow> db \<Rightarrow> reel \<times> db" where
  "find_or_discover candidate fresh now d =
     (case lookup_row reel_shortcode (shortcode candidate) (reels d) of
        Some r \<Rightarrow> (r, d)
      | None \<Rightarrow>
          let r = new_reel fresh candidate now in (r, d\<lparr>reels := reels d @ [r]\<rparr>))"

definition to_downloading :: "ReelPipelineStatus \<Rightarrow> ReelPipelineStatus result" where
  "to_downloading s =
     (if s = ReelPipelineStatus.FAILED then
        rbind (require_transition reel_pipeline_transitions
                 ReelPipelineStatus.FAILED ReelPipelineStatus.DOWNLOADING)
          (\<lambda>_. Inr ReelPipelineStatus.DOWNLOADING)
      else if s = ReelPipelineStatus.DISCOVERED then
        rbind (require_transition reel_pipeline_transitions
                 ReelPipelineStatus.DISCOVERED ReelPipelineStatus.DOWNLOADING)
          (\<lambda>_. Inr ReelPipelineStatus.DOWNLOADING)
      else if s \<noteq> ReelPipelineStatus.DOWNLOADING then Inl ValueError
      else Inr s)"

definition commit_source :: "uuid \<Rightarrow> reel_candidate \<Rightarrow> validated_source \<Rightarrow> string \<Rightarrow> uuid \<Rightarrow> uuid \<Rightarrow>
    timestamp \<Rightarrow> db \<Rightarrow> unit result \<times> db" where
  "commit_source run candidate source object_key fresh_reel fresh_job now = transaction (\<lambda>d.
     (case find_or_discover candidate fresh_reel now d of
        (r, d) \<Rightarrow>
          rbind (to_downloading (reel_status r)) (\<lambda>_.
          rbind (require_transition reel_pipeline_transitions
                   ReelPipelineStatus.DOWNLOADING ReelPipelineStatus.SOURCE_READY) (\<lambda>_.
          let d1 = update_reel (reel_id r)
                (\<lambda>r. r\<lparr>reel_status := ReelPipelineStatus.SOURCE_READY,
                   reel_source_object_key := Some object_key,
                   reel_source_sha256 := Some (src_sha256 source),
                   reel_source_byte_size := Some (src_byte_size source),
                   reel_source_ready_at := Some now, reel_failure_reason_code := None\<rparr>) d;
              d2 = d1\<lparr>jobs := jobs d1 @ [new_job fresh_job (reel_id r) 0 now]\<rparr>
          in rbind (add_item run (reel_id r) RunItemOutcome.SOURCE_COMMITTED
                      (Some DownloadAuthMode.SESSION_FIRST) None now d2)
               (\<lambda>d. Inr ((), d))))))"

definition record_failure :: "uuid \<Rightarrow> reel_candidate \<Rightarrow> string \<Rightarrow> bool \<Rightarrow> uuid \<Rightarrow> timestamp \<Rightarrow>
    db \<Rightarrow> unit result \<times> db" where
  "record_failure run candidate reason_code download_attempted fresh_reel now = transaction (\<lambda>d.
     (case find_or_discover candidate fresh_reel now d of
        (r, d) \<Rightarrow>
          let d1 = (if reel_status r = ReelPipelineStatus.DISCOVERED
                       \<or> reel_status r = ReelPipelineStatus.DOWNLOADING
                    then update_reel (reel_id r)
                           (\<lambda>r. r\<lparr>reel_status := ReelPipelineStatus.FAILED,
                              reel_failed_at := Some now,
                              reel_failure_reason_code := Some reason_code\<rparr>) d
                    else d)
          in rbind (add_item run (reel_id r) RunItemOutcome.FAILED
                      (if download_attempted then Some DownloadAuthMode.SESSION_FIRST else None)
                      (Some reason_code) now d1)
               (\<lambda>d. Inr ((), d))))"

section \<open>Ending a run\<close>

definition end_run :: "CollectionRunStatus \<Rightarrow> string option \<Rightarrow> timestamp \<Rightarrow> collection_run \<Rightarrow>
    collection_run" where
  "end_run status reason now r =
     r\<lparr>run_status := status,
       run_stop_reason_code := (case reason of None \<Rightarrow> run_stop_reason_code r | Some c \<Rightarrow> Some c),
       run_completed_at := Some now\<rparr>"

definition fail_run :: "uuid \<Rightarrow> string \<Rightarrow> timestamp \<Rightarrow> db \<Rightarrow> unit result \<times> db" where
  "fail_run i reason_code now = transaction (\<lambda>d.
     (case get_run d i of
        None \<Rightarrow> Inr ((), d)
      | Some r \<Rightarrow>
          if run_status r = CollectionRunStatus.RUNNING
          then Inr ((), update_run i (end_run CollectionRunStatus.FAILED (Some reason_code) now) d)
          else Inr ((), d)))"

definition cancel_run :: "uuid \<Rightarrow> string \<Rightarrow> timestamp \<Rightarrow> db \<Rightarrow> CancelRunOutcome result \<times> db" where
  "cancel_run i reason_code now = transaction (\<lambda>d.
     (case get_run d i of
        None \<Rightarrow> Inr (CancelRunOutcome.NOT_FOUND, d)
      | Some r \<Rightarrow>
          if \<not> run_active r then Inr (CancelRunOutcome.ALREADY_TERMINAL, d)
          else Inr (CancelRunOutcome.CANCELLED,
                 update_run i (end_run CollectionRunStatus.CANCELLED (Some reason_code) now) d)))"

definition complete_run :: "uuid \<Rightarrow> timestamp \<Rightarrow> db \<Rightarrow> unit result \<times> db" where
  "complete_run i now = transaction (\<lambda>d.
     (case get_run d i of
        None \<Rightarrow> Inr ((), d)
      | Some r \<Rightarrow> Inr ((), update_run i (end_run CollectionRunStatus.COMPLETED None now) d)))"

definition complete_if_account_durable_total :: "uuid \<Rightarrow> int \<Rightarrow> timestamp \<Rightarrow> db \<Rightarrow>
    bool result \<times> db" where
  "complete_if_account_durable_total i desired_total now = transaction (\<lambda>d.
     (case get_run d i of
        None \<Rightarrow> Inr (False, d)
      | Some r \<Rightarrow>
          if run_status r \<noteq> CollectionRunStatus.RUNNING then Inr (False, d)
          else if account_durable_count (run_account_id r) d \<noteq> desired_total then Inr (False, d)
          else Inr (True, update_run i (end_run CollectionRunStatus.COMPLETED None now) d)))"

definition run_summary :: "uuid \<Rightarrow> db \<Rightarrow> (int \<times> int \<times> int \<times> CollectionRunStatus) result" where
  "run_summary i d =
     (case get_run d i of
        None \<Rightarrow> Inl LookupError
      | Some r \<Rightarrow> Inr (run_source_committed_count r, run_already_available_count r,
                      run_failed_count r, run_status r))"

end
