(* ===== verification/Actions.thy ===== *)
theory Actions
  imports Prelude
begin

text \<open>
  Statements with effects, exceptions and control transfer. A statement maps a state to the state
  it leaves and either a value or a signal: an exception in flight, a \<open>break\<close>, a \<open>return\<close>, or,
  for a loop that was given too little fuel, \<open>OutOfFuel\<close>. State changes made before a signal
  stay, as they do in the program.
\<close>

datatype 'r signal = Raise exn | Break | Return 'r | OutOfFuel

type_synonym ('s, 'r, 'a) act = "'s \<Rightarrow> ('r signal + 'a) \<times> 's"

section \<open>Combinators\<close>

definition ret :: "'a \<Rightarrow> ('s, 'r, 'a) act" where
  "ret x = (\<lambda>s. (Inr x, s))"

definition stop :: "'r signal \<Rightarrow> ('s, 'r, 'a) act" where
  "stop g = (\<lambda>s. (Inl g, s))"

abbreviation raise :: "exn \<Rightarrow> ('s, 'r, 'a) act" where
  "raise e \<equiv> stop (Raise e)"

definition bind :: "('s, 'r, 'a) act \<Rightarrow> ('a \<Rightarrow> ('s, 'r, 'b) act) \<Rightarrow> ('s, 'r, 'b) act" where
  "bind m f = (\<lambda>s. case m s of (Inl g, t) \<Rightarrow> (Inl g, t) | (Inr x, t) \<Rightarrow> f x t)"

definition modify :: "('s \<Rightarrow> 's) \<Rightarrow> ('s, 'r, unit) act" where
  "modify f = (\<lambda>s. (Inr (), f s))"

text \<open>\<open>with_state f\<close> runs the statement that \<open>f\<close> builds from the current state.\<close>

definition with_state :: "('s \<Rightarrow> ('s, 'r, 'a) act) \<Rightarrow> ('s, 'r, 'a) act" where
  "with_state f = (\<lambda>s. f s s)"

definition branch :: "('s \<Rightarrow> bool) \<Rightarrow> ('s, 'r, 'a) act \<Rightarrow> ('s, 'r, 'a) act \<Rightarrow> ('s, 'r, 'a) act" where
  "branch c a b = (\<lambda>s. if c s then a s else b s)"

abbreviation "when" :: "('s \<Rightarrow> bool) \<Rightarrow> ('s, 'r, unit) act \<Rightarrow> ('s, 'r, unit) act" where
  "when c a \<equiv> branch c a (ret ())"

text \<open>A suite of statements.\<close>

fun block :: "('s, 'r, unit) act list \<Rightarrow> ('s, 'r, unit) act" where
  "block [] = ret ()"
| "block (a # as) = bind a (\<lambda>_. block as)"

text \<open>\<open>try ... except\<close>: the handler gets the exception and re-raises what it does not handle.\<close>

definition try_except :: "('s, 'r, 'a) act \<Rightarrow> (exn \<Rightarrow> ('s, 'r, 'a) act) \<Rightarrow> ('s, 'r, 'a) act" where
  "try_except m h = (\<lambda>s. case m s of
     (Inl (Raise e), t) \<Rightarrow> h e t
   | (r, t) \<Rightarrow> (r, t))"

text \<open>\<open>try: a except Exception: pass\<close>.\<close>

definition attempt :: "('s, 'r, unit) act \<Rightarrow> ('s, 'r, unit) act" where
  "attempt a = try_except a (\<lambda>e. if is_exception e then ret () else raise e)"

text \<open>\<open>try ... finally\<close>: a signal of the last suite replaces the one in flight.\<close>

definition finally_do :: "('s, 'r, 'a) act \<Rightarrow> ('s, 'r, unit) act \<Rightarrow> ('s, 'r, 'a) act" where
  "finally_do m f = (\<lambda>s. case m s of
     (r, t) \<Rightarrow> (case f t of (Inl g, u) \<Rightarrow> (Inl g, u) | (Inr _, u) \<Rightarrow> (r, u)))"

text \<open>\<open>for x in xs: body x\<close> without a \<open>break\<close>, and a call that returns or raises.\<close>

fun for_each :: "('a \<Rightarrow> ('s, 'r, unit) act) \<Rightarrow> 'a list \<Rightarrow> ('s, 'r, unit) act" where
  "for_each body [] = ret ()"
| "for_each body (x # xs) = bind (body x) (\<lambda>_. for_each body xs)"

definition call :: "'a result \<Rightarrow> ('s, 'r, 'a) act" where
  "call r = (case r of Inl e \<Rightarrow> raise e | Inr x \<Rightarrow> ret x)"

text \<open>
  \<open>while True: body\<close>, with a bound on the number of rounds; the enclosing loop absorbs a
  \<open>break\<close>.
\<close>

fun rounds :: "nat \<Rightarrow> ('s, 'r, unit) act \<Rightarrow> ('s, 'r, unit) act" where
  "rounds 0 body = stop OutOfFuel"
| "rounds (Suc n) body = bind body (\<lambda>_. rounds n body)"

definition while_true :: "nat \<Rightarrow> ('s, 'r, unit) act \<Rightarrow> ('s, 'r, unit) act" where
  "while_true n body = (\<lambda>s. case rounds n body s of
     (Inl Break, t) \<Rightarrow> (Inr (), t)
   | (r, t) \<Rightarrow> (r, t))"

text \<open>The body of a function: a \<open>return\<close> ends it with its value.\<close>

definition function_body :: "('s, 'r, 'r) act \<Rightarrow> ('s, 'q, 'r) act" where
  "function_body a = (\<lambda>s. case a s of
     (Inr x, t) \<Rightarrow> (Inr x, t)
   | (Inl (Return x), t) \<Rightarrow> (Inr x, t)
   | (Inl (Raise e), t) \<Rightarrow> (Inl (Raise e), t)
   | (Inl Break, t) \<Rightarrow> (Inl Break, t)
   | (Inl OutOfFuel, t) \<Rightarrow> (Inl OutOfFuel, t))"

lemmas act_defs = function_body_def call_def ret_def stop_def bind_def modify_def with_state_def branch_def try_except_def
  attempt_def finally_do_def while_true_def

lemma bind_assoc: "bind (bind m f) g = bind m (\<lambda>x. bind (f x) g)"
  by (rule ext) (simp add: bind_def split: prod.splits sum.splits)

section \<open>Weakest preconditions\<close>

text \<open>\<open>wp a Q s\<close>: run from \<open>s\<close>, the statement ends in an outcome and a state that satisfy \<open>Q\<close>.\<close>

definition wp :: "('s, 'r, 'a) act \<Rightarrow> ('r signal + 'a \<Rightarrow> 's \<Rightarrow> bool) \<Rightarrow> 's \<Rightarrow> bool" where
  "wp a Q s \<longleftrightarrow> (case a s of (r, t) \<Rightarrow> Q r t)"

named_theorems wp_rules \<open>weakest preconditions of the combinators\<close>

lemma wp_ret [wp_rules]: "wp (ret x) Q s \<longleftrightarrow> Q (Inr x) s"
  by (simp add: wp_def ret_def)

lemma wp_stop [wp_rules]: "wp (stop g) Q s \<longleftrightarrow> Q (Inl g) s"
  by (simp add: wp_def stop_def)

lemma wp_bind [wp_rules]:
  "wp (bind m f) Q s \<longleftrightarrow>
     wp m (\<lambda>r t. case r of Inl g \<Rightarrow> Q (Inl g) t | Inr x \<Rightarrow> wp (f x) Q t) s"
  by (auto simp: wp_def bind_def split: prod.splits sum.splits)

lemma wp_modify [wp_rules]: "wp (modify f) Q s \<longleftrightarrow> Q (Inr ()) (f s)"
  by (simp add: wp_def modify_def)

lemma wp_with_state [wp_rules]: "wp (with_state f) Q s \<longleftrightarrow> wp (f s) Q s"
  by (simp add: wp_def with_state_def)

lemma wp_branch [wp_rules]: "wp (branch c a b) Q s \<longleftrightarrow> (if c s then wp a Q s else wp b Q s)"
  by (simp add: wp_def branch_def)

lemma wp_try_except [wp_rules]:
  "wp (try_except m h) Q s \<longleftrightarrow>
     wp m (\<lambda>r t. case r of Inl (Raise e) \<Rightarrow> wp (h e) Q t | _ \<Rightarrow> Q r t) s"
  by (auto simp: wp_def try_except_def split: prod.splits sum.splits signal.splits)

lemma wp_finally_do [wp_rules]:
  "wp (finally_do m f) Q s \<longleftrightarrow>
     wp m (\<lambda>r t. wp f (\<lambda>r' u. case r' of Inl g \<Rightarrow> Q (Inl g) u | Inr _ \<Rightarrow> Q r u) t) s"
  by (auto simp: wp_def finally_do_def split: prod.splits sum.splits)

lemma wp_call [wp_rules]:
  "wp (call c) Q s \<longleftrightarrow> (case c of Inl e \<Rightarrow> Q (Inl (Raise e)) s | Inr x \<Rightarrow> Q (Inr x) s)"
  by (simp add: call_def wp_rules split: sum.splits)

lemma wp_function_body [wp_rules]:
  "wp (function_body a) Q s \<longleftrightarrow> wp a (\<lambda>r t. case r of
     Inr x \<Rightarrow> Q (Inr x) t
   | Inl (Return x) \<Rightarrow> Q (Inr x) t
   | Inl (Raise e) \<Rightarrow> Q (Inl (Raise e)) t
   | Inl Break \<Rightarrow> Q (Inl Break) t
   | Inl OutOfFuel \<Rightarrow> Q (Inl OutOfFuel) t) s"
  by (auto simp: wp_def function_body_def split: prod.splits sum.splits signal.splits)

lemma wp_mono:
  "wp a Q s \<Longrightarrow> (\<And>r t. a s = (r, t) \<Longrightarrow> Q r t \<Longrightarrow> R r t) \<Longrightarrow> wp a R s"
  by (auto simp: wp_def split: prod.splits)

lemma wpD: "wp a Q s \<Longrightarrow> a s = (r, t) \<Longrightarrow> Q r t"
  by (simp add: wp_def)

lemma wp_conj: "wp a (\<lambda>r t. Q r t \<and> R r t) s \<longleftrightarrow> wp a Q s \<and> wp a R s"
  by (auto simp: wp_def split: prod.splits)

section \<open>Invariants\<close>

text \<open>A statement keeps \<open>P\<close> when it ends in \<open>P\<close> from \<open>P\<close>, whatever its outcome.\<close>

definition keeps :: "('s \<Rightarrow> bool) \<Rightarrow> ('s, 'r, 'a) act \<Rightarrow> bool" where
  "keeps P a \<longleftrightarrow> (\<forall>s. P s \<longrightarrow> wp a (\<lambda>_. P) s)"

lemma keepsI: "(\<And>s r t. P s \<Longrightarrow> a s = (r, t) \<Longrightarrow> P t) \<Longrightarrow> keeps P a"
  by (auto simp: keeps_def wp_def split: prod.splits)

lemma keepsD: "keeps P a \<Longrightarrow> P s \<Longrightarrow> a s = (r, t) \<Longrightarrow> P t"
  by (force simp: keeps_def wp_def)

lemma keeps_ret [act_inv]: "keeps P (ret x)"
  by (simp add: keeps_def wp_rules)

lemma keeps_stop [act_inv]: "keeps P (stop g)"
  by (simp add: keeps_def wp_rules)

lemma keeps_bind [act_inv]: "keeps P m \<Longrightarrow> (\<And>x. keeps P (f x)) \<Longrightarrow> keeps P (bind m f)"
  by (rule keepsI) (auto simp: bind_def split: prod.splits sum.splits dest: keepsD)

lemma keeps_modify: "(\<And>s. P s \<Longrightarrow> P (f s)) \<Longrightarrow> keeps P (modify f)"
  by (simp add: keeps_def wp_rules)

lemma keeps_with_state [act_inv]: "(\<And>s. keeps P (f s)) \<Longrightarrow> keeps P (with_state f)"
  by (simp add: keeps_def wp_rules)

lemma keeps_branch [act_inv]: "keeps P a \<Longrightarrow> keeps P b \<Longrightarrow> keeps P (branch c a b)"
  by (simp add: keeps_def wp_rules)

lemma keeps_try_except [act_inv]:
  "keeps P m \<Longrightarrow> (\<And>e. keeps P (h e)) \<Longrightarrow> keeps P (try_except m h)"
  by (rule keepsI)
    (auto simp: try_except_def split: prod.splits sum.splits signal.splits dest: keepsD)

lemma keeps_attempt [act_inv]: "keeps P a \<Longrightarrow> keeps P (attempt a)"
  by (auto simp: attempt_def intro!: act_inv)

lemma keeps_finally_do [act_inv]: "keeps P m \<Longrightarrow> keeps P f \<Longrightarrow> keeps P (finally_do m f)"
proof (rule keepsI)
  fix s r t assume k: "keeps P m" "keeps P f" "P s" "finally_do m f s = (r, t)"
  obtain r1 t1 where m: "m s = (r1, t1)" by fastforce
  obtain r2 t2 where f: "f t1 = (r2, t2)" by fastforce
  from k(1,3) m have "P t1" by (rule keepsD)
  with k(2) have "P t2" using f by (rule keepsD)
  moreover have "t = t2" using k(4) m f by (auto simp: finally_do_def split: sum.splits)
  ultimately show "P t" by simp
qed

lemma keeps_block [act_inv]: "(\<And>a. a \<in> set as \<Longrightarrow> keeps P a) \<Longrightarrow> keeps P (block as)"
  by (induction as) (auto intro!: act_inv)

lemma keeps_rounds [act_inv]: "keeps P body \<Longrightarrow> keeps P (rounds n body)"
  by (induction n) (auto intro!: act_inv)

lemma keeps_while_true [act_inv]: "keeps P body \<Longrightarrow> keeps P (while_true n body)"
  by (rule keepsI)
    (auto simp: while_true_def split: prod.splits sum.splits signal.splits
      dest: keepsD [OF keeps_rounds])

lemma keeps_for_each [act_inv]: "(\<And>x. x \<in> set xs \<Longrightarrow> keeps P (body x)) \<Longrightarrow> keeps P (for_each body xs)"
  by (induction xs) (auto intro!: act_inv)

lemma keeps_call [act_inv]: "keeps P (call r)"
  by (auto simp: call_def split: sum.splits intro: act_inv)

lemma keeps_function_body [act_inv]: "keeps P a \<Longrightarrow> keeps P (function_body a)"
  by (rule keepsI)
    (auto simp: function_body_def split: prod.splits sum.splits signal.splits dest: keepsD)

text \<open>
  \<open>estab I P a Q\<close>: from a state of the invariant \<open>I\<close> with \<open>P\<close>, the statement keeps \<open>I\<close> whatever
  its outcome, and when it returns it has established \<open>Q\<close> for the value.
\<close>

definition estab :: "('s \<Rightarrow> bool) \<Rightarrow> ('s \<Rightarrow> bool) \<Rightarrow> ('s, 'r, 'a) act \<Rightarrow> ('a \<Rightarrow> 's \<Rightarrow> bool) \<Rightarrow> bool" where
  "estab I P a Q \<longleftrightarrow>
     (\<forall>s. I s \<longrightarrow> P s \<longrightarrow> (case a s of (r, t) \<Rightarrow> I t \<and> (\<forall>x. r = Inr x \<longrightarrow> Q x t)))"

lemma estabI:
  "(\<And>s r t. I s \<Longrightarrow> P s \<Longrightarrow> a s = (r, t) \<Longrightarrow> I t \<and> (\<forall>x. r = Inr x \<longrightarrow> Q x t)) \<Longrightarrow> estab I P a Q"
  by (auto simp: estab_def)

lemma estabD: "estab I P a Q \<Longrightarrow> I s \<Longrightarrow> P s \<Longrightarrow> a s = (r, t) \<Longrightarrow> I t \<and> (\<forall>x. r = Inr x \<longrightarrow> Q x t)"
  by (force simp: estab_def)

lemma estab_bind: "estab I P m Q \<Longrightarrow> (\<And>x. estab I (Q x) (f x) R) \<Longrightarrow> estab I P (bind m f) R"
proof (rule estabI)
  fix s r t assume a: "estab I P m Q" "\<And>x. estab I (Q x) (f x) R" "I s" "P s" "bind m f s = (r, t)"
  obtain r1 t1 where m: "m s = (r1, t1)" by fastforce
  note step = estabD [OF a(1,3,4) m]
  show "I t \<and> (\<forall>x. r = Inr x \<longrightarrow> R x t)"
  proof (cases r1)
    case (Inl g)
    then show ?thesis using step a(5) m by (auto simp: bind_def)
  next
    case (Inr x)
    then have "f x t1 = (r, t)" using a(5) m by (simp add: bind_def)
    then show ?thesis using estabD [OF a(2), of t1 x r t] step Inr by blast
  qed
qed

lemma estab_keeps: "keeps I a \<Longrightarrow> estab I P a (\<lambda>_ _. True)"
  by (auto intro!: estabI dest: keepsD)

lemma estab_frame: "keeps (\<lambda>s. I s \<and> P s) a \<Longrightarrow> estab I P a (\<lambda>_. P)"
  by (rule estabI) (blast dest: keepsD [where P = "\<lambda>s. I s \<and> P s"])

lemma estab_pre: "estab I P a Q \<Longrightarrow> (\<And>s. I s \<Longrightarrow> R s \<Longrightarrow> P s) \<Longrightarrow> estab I R a Q"
  by (auto simp: estab_def)

lemma estab_post: "estab I P a Q \<Longrightarrow> (\<And>x s. I s \<Longrightarrow> Q x s \<Longrightarrow> R x s) \<Longrightarrow> estab I P a R"
  by (fastforce simp: estab_def)

lemma estab_conj: "estab I P a Q \<Longrightarrow> estab I P' a Q' \<Longrightarrow> estab I (\<lambda>s. P s \<and> P' s) a (\<lambda>x s. Q x s \<and> Q' x s)"
  by (fastforce simp: estab_def)

lemma estab_ret: "(\<And>s. I s \<Longrightarrow> P s \<Longrightarrow> Q x s) \<Longrightarrow> estab I P (ret x) Q"
  by (auto simp: estab_def ret_def)

lemma estab_stop: "estab I P (stop g) Q"
  by (auto simp: estab_def stop_def)

lemma estab_with_state: "(\<And>s. estab I (\<lambda>t. P t \<and> t = s) (f s) Q) \<Longrightarrow> estab I P (with_state f) Q"
  by (auto simp: estab_def with_state_def)

lemma estab_call: "(\<And>x s. c = Inr x \<Longrightarrow> I s \<Longrightarrow> P s \<Longrightarrow> Q x s) \<Longrightarrow> estab I P (call c) Q"
  by (auto simp: estab_def call_def ret_def stop_def split: sum.splits)

lemma estab_try:
  "estab I P m Q \<Longrightarrow> (\<And>e. estab I (\<lambda>_. True) (h e) Q) \<Longrightarrow> estab I P (try_except m h) Q"
proof (rule estabI)
  fix s r t
  assume a: "estab I P m Q" "\<And>e. estab I (\<lambda>_. True) (h e) Q" "I s" "P s" "try_except m h s = (r, t)"
  obtain r1 t1 where m: "m s = (r1, t1)" by fastforce
  note step = estabD [OF a(1,3,4) m]
  show "I t \<and> (\<forall>x. r = Inr x \<longrightarrow> Q x t)"
  proof (cases "\<exists>e. r1 = Inl (Raise e)")
    case True
    then obtain e where "h e t1 = (r, t)" using a(5) m by (auto simp: try_except_def)
    then show ?thesis using estabD [OF a(2)] step by blast
  next
    case False
    then have "r1 = r \<and> t1 = t"
      using a(5) m by (auto simp: try_except_def split: sum.splits signal.splits)
    then show ?thesis using step by simp
  qed
qed

lemma keeps_estab: "estab I (\<lambda>_. True) a Q \<Longrightarrow> keeps I a"
  by (rule keepsI) (blast dest: estabD)

text \<open>\<open>leads P a Q\<close>: from \<open>P\<close>, every outcome of the statement is in a state with \<open>Q\<close>.\<close>

definition leads :: "('s \<Rightarrow> bool) \<Rightarrow> ('s, 'r, 'a) act \<Rightarrow> ('s \<Rightarrow> bool) \<Rightarrow> bool" where
  "leads P a Q \<longleftrightarrow> (\<forall>s. P s \<longrightarrow> wp a (\<lambda>_. Q) s)"

lemma leadsD: "leads P a Q \<Longrightarrow> P s \<Longrightarrow> a s = (r, t) \<Longrightarrow> Q t"
  by (force simp: leads_def wp_def)

lemma leads_keeps: "keeps P a \<Longrightarrow> leads P a P"
  by (simp add: leads_def keeps_def)

lemma keeps_leads: "leads P a P \<Longrightarrow> keeps P a"
  by (simp add: leads_def keeps_def)

lemma leads_weaken:
  "leads P a Q \<Longrightarrow> (\<And>s. P' s \<Longrightarrow> P s) \<Longrightarrow> (\<And>s. Q s \<Longrightarrow> Q' s) \<Longrightarrow> leads P' a Q'"
  unfolding leads_def by (metis (mono_tags, lifting) wp_mono)

lemma leads_bind:
  assumes "leads P m P'" "\<And>x. leads P' (f x) Q" "\<And>s. P' s \<Longrightarrow> Q s"
  shows "leads P (bind m f) Q"
  using assms by (auto simp: leads_def wp_rules elim!: wp_mono split: sum.splits)

lemma leads_try_except:
  assumes "leads P m P'" "\<And>e. leads P' (h e) Q" "\<And>s. P' s \<Longrightarrow> Q s"
  shows "leads P (try_except m h) Q"
  using assms by (auto simp: leads_def wp_rules elim!: wp_mono split: sum.splits signal.splits)

lemma leads_finally_do: "leads P m P' \<Longrightarrow> leads P' f Q \<Longrightarrow> leads P (finally_do m f) Q"
  by (auto simp: leads_def wp_rules elim!: wp_mono split: sum.splits)

lemma estab_leads: "estab I P a Q \<Longrightarrow> leads (\<lambda>s. I s \<and> P s) a I"
  by (auto simp: leads_def wp_def dest: estabD split: prod.splits)

lemma leads_bind_estab:
  assumes "estab I P m Q" "\<And>x. leads (\<lambda>s. I s \<and> Q x s) (f x) I"
  shows "leads (\<lambda>s. I s \<and> P s) (bind m f) I"
  unfolding leads_def wp_bind
proof (intro allI impI)
  fix s assume s: "I s \<and> P s"
  obtain r t where run: "m s = (r, t)" by fastforce
  from estabD [OF assms(1) _ _ run] s have t: "I t" "\<And>x. r = Inr x \<Longrightarrow> Q x t" by auto
  then show "wp m (\<lambda>r t. case r of Inl g \<Rightarrow> I t | Inr x \<Rightarrow> wp (f x) (\<lambda>_. I) t) s"
    using run assms(2) by (auto simp: wp_def [of m] leads_def split: sum.splits)
qed

section \<open>Relations between the states before and after\<close>

text \<open>
  A statement stays inside a relation when every outcome is related to the state it started from.
  For a preorder the combinators do so when their parts do: the interface that a component fills
  in with what its statements may change.
\<close>

definition stays :: "('s \<Rightarrow> 's \<Rightarrow> bool) \<Rightarrow> ('s, 'r, 'a) act \<Rightarrow> bool" where
  "stays R a \<longleftrightarrow> (\<forall>s. wp a (\<lambda>_ t. R s t) s)"

lemma staysI: "(\<And>s r t. a s = (r, t) \<Longrightarrow> R s t) \<Longrightarrow> stays R a"
  by (auto simp: stays_def wp_def split: prod.splits)

lemma staysD: "stays R a \<Longrightarrow> a s = (r, t) \<Longrightarrow> R s t"
  unfolding stays_def by (drule spec, drule (1) wpD)

locale state_relation =
  fixes R :: "'s \<Rightarrow> 's \<Rightarrow> bool"
  assumes refl: "R s s" and trans: "R s t \<Longrightarrow> R t u \<Longrightarrow> R s u"
begin

lemma stays_ret: "stays R (ret x)"
  by (simp add: stays_def wp_rules refl)

lemma stays_stop: "stays R (stop g)"
  by (simp add: stays_def wp_rules refl)

lemma stays_call: "stays R (call c)"
  by (auto simp: stays_def wp_rules refl split: sum.splits)

lemma stays_modify: "(\<And>s. R s (f s)) \<Longrightarrow> stays R (modify f)"
  by (simp add: stays_def wp_rules)

lemma stays_with_state: "(\<And>s. stays R (f s)) \<Longrightarrow> stays R (with_state f)"
  by (simp add: stays_def wp_rules)

lemma stays_branch: "stays R a \<Longrightarrow> stays R b \<Longrightarrow> stays R (branch c a b)"
  by (simp add: stays_def wp_rules)

lemma stays_bind: "stays R m \<Longrightarrow> (\<And>x. stays R (f x)) \<Longrightarrow> stays R (bind m f)"
  by (rule staysI) (auto simp: bind_def split: prod.splits sum.splits dest: staysD intro: trans)

lemma stays_try_except: "stays R m \<Longrightarrow> (\<And>e. stays R (h e)) \<Longrightarrow> stays R (try_except m h)"
  by (rule staysI)
    (auto simp: try_except_def split: prod.splits sum.splits signal.splits dest: staysD intro: trans)

lemma stays_attempt: "stays R a \<Longrightarrow> stays R (attempt a)"
  unfolding attempt_def by (auto intro!: stays_try_except stays_ret stays_stop)

lemma stays_finally_do: "stays R m \<Longrightarrow> stays R f \<Longrightarrow> stays R (finally_do m f)"
  by (rule staysI) (auto simp: finally_do_def split: prod.splits sum.splits dest: staysD intro: trans)

lemma stays_block: "(\<And>a. a \<in> set as \<Longrightarrow> stays R a) \<Longrightarrow> stays R (block as)"
  by (induction as) (auto intro!: stays_ret stays_bind)

lemmas stays_rules = stays_ret stays_stop stays_call stays_with_state stays_branch stays_bind
  stays_try_except stays_attempt stays_finally_do stays_block

text \<open>A statement that stays keeps what the relation carries along.\<close>

lemma stays_keeps: "stays R a \<Longrightarrow> (\<And>s t. R s t \<Longrightarrow> P s \<Longrightarrow> P t) \<Longrightarrow> keeps P a"
  by (rule keepsI) (blast dest: staysD)

end

section \<open>Loops\<close>

text \<open>
  With an invariant of the loop head and a bound on the rounds that are left, which the body
  lowers whenever it goes on, the loop never runs out of fuel and every way out of it comes from
  some round.
\<close>

lemma wp_rounds:
  assumes body: "\<And>s. I s \<Longrightarrow> wp body (\<lambda>r t. case r of
        Inl g \<Rightarrow> g \<noteq> OutOfFuel \<and> Q (Inl g) t
      | Inr _ \<Rightarrow> I t \<and> (0::nat) < left s \<and> left t < left s) s"
    and "I s" "left s < n"
  shows "wp (rounds n body) (\<lambda>r t. r \<noteq> Inl OutOfFuel \<and> Q r t \<and> (\<exists>g. r = Inl g)) s"
  using assms(2,3)
proof (induction n arbitrary: s)
  case (Suc n)
  have "wp body (\<lambda>r t. case r of
        Inl g \<Rightarrow> g \<noteq> OutOfFuel \<and> Q (Inl g) t
      | Inr _ \<Rightarrow> I t \<and> 0 < left s \<and> left t < left s) s"
    using Suc.prems(1) by (rule body)
  then show ?case
    unfolding rounds.simps wp_bind
    by (rule wp_mono) (use Suc in \<open>auto split: sum.splits\<close>)
qed simp

lemma wp_while_true:
  assumes "\<And>s. I s \<Longrightarrow> wp body (\<lambda>r t. case r of
        Inl Break \<Rightarrow> Q (Inr ()) t
      | Inl g \<Rightarrow> g \<noteq> OutOfFuel \<and> Q (Inl g) t
      | Inr _ \<Rightarrow> I t \<and> (0::nat) < left s \<and> left t < left s) s"
    and "I s" "left s < n"
  shows "wp (while_true n body) (\<lambda>r t. r \<noteq> Inl OutOfFuel \<and> Q r t) s"
proof -
  have "wp (rounds n body)
      (\<lambda>r t. r \<noteq> Inl OutOfFuel \<and> (case r of Inl Break \<Rightarrow> Q (Inr ()) t | _ \<Rightarrow> Q r t) \<and>
         (\<exists>g. r = Inl g)) s"
  proof (rule wp_rounds [where I = I and left = left])
    fix s assume "I s"
    from assms(1) [OF this] show "wp body (\<lambda>r t. case r of
        Inl g \<Rightarrow> g \<noteq> OutOfFuel \<and> (case Inl g of Inl Break \<Rightarrow> Q (Inr ()) t | _ \<Rightarrow> Q (Inl g) t)
      | Inr _ \<Rightarrow> I t \<and> 0 < left s \<and> left t < left s) s"
      by (rule wp_mono) (auto split: sum.splits signal.splits)
  qed fact+
  then show ?thesis
    by (auto simp: wp_def while_true_def split: prod.splits sum.splits signal.splits)
qed

end
