(* ===== verification/Uuid.thy ===== *)
theory Uuid
  imports PyText
begin

text \<open>
  The text of a UUID: \<open>str(uuid)\<close> prints the 128-bit value as 32 hexadecimal digits in groups of
  8, 4, 4, 4 and 12. Object keys and cursors are built from it.
\<close>

definition hex_char :: "nat \<Rightarrow> char" where
  "hex_char n = (if n < 10 then char_of (48 + n) else char_of (87 + n))"

fun hex_fixed :: "nat \<Rightarrow> nat \<Rightarrow> string" where
  "hex_fixed 0 n = []"
| "hex_fixed (Suc w) n = hex_fixed w (n div 16) @ [hex_char (n mod 16)]"

definition uuid_str :: "uuid \<Rightarrow> string" where
  "uuid_str u =
     (let h = hex_fixed 32 u in
      take 8 h @ ''-'' @ take 4 (drop 8 h) @ ''-'' @ take 4 (drop 12 h) @ ''-'' @
      take 4 (drop 16 h) @ ''-'' @ drop 20 h)"

lemma length_hex_fixed [simp]: "length (hex_fixed w n) = w"
  by (induction w arbitrary: n) auto

lemma length_uuid_str [simp]: "length (uuid_str u) = 36"
  by (simp add: uuid_str_def Let_def)

definition hex_value :: "char \<Rightarrow> nat" where
  "hex_value c = (if codepoint c < 58 then codepoint c - 48 else codepoint c - 87)"

definition hex_number :: "string \<Rightarrow> nat" where
  "hex_number s = foldl (\<lambda>acc c. acc * 16 + hex_value c) 0 s"

lemma hex_value_char: "n < 16 \<Longrightarrow> hex_value (hex_char n) = n"
  by (simp add: hex_value_def hex_char_def codepoint_def)

lemma hex_number_fixed: "n < 16 ^ w \<Longrightarrow> hex_number (hex_fixed w n) = n"
proof (induction w arbitrary: n)
  case 0
  then show ?case by (simp add: hex_number_def)
next
  case (Suc w)
  then have "n div 16 < 16 ^ w" by simp
  then have "hex_number (hex_fixed w (n div 16)) = n div 16" by (rule Suc.IH)
  moreover have "hex_number (s @ [c]) = hex_number s * 16 + hex_value c" for s c
    by (simp add: hex_number_def)
  ultimately show ?case by (simp add: hex_value_char)
qed

text \<open>Two UUIDs with the same text are the same.\<close>

lemma uuid_str_inj:
  assumes "uuid_str u = uuid_str v" "u < 16 ^ 32" "v < 16 ^ 32"
  shows "u = v"
proof -
  let ?h = "hex_fixed 32 u" and ?k = "hex_fixed 32 v"
  have cut: "h = take 8 h @ take 4 (drop 8 h) @ take 4 (drop 12 h) @ take 4 (drop 16 h) @ drop 20 h"
    for h :: string
  proof -
    have "drop 16 h = take 4 (drop 16 h) @ drop 20 h"
      using append_take_drop_id [of 4 "drop 16 h"] by simp
    moreover have "drop 12 h = take 4 (drop 12 h) @ drop 16 h"
      using append_take_drop_id [of 4 "drop 12 h"] by simp
    moreover have "drop 8 h = take 4 (drop 8 h) @ drop 12 h"
      using append_take_drop_id [of 4 "drop 8 h"] by simp
    ultimately show ?thesis using append_take_drop_id [of 8 h] by simp
  qed
  have "take 8 ?h = take 8 ?k \<and> take 4 (drop 8 ?h) = take 4 (drop 8 ?k) \<and>
      take 4 (drop 12 ?h) = take 4 (drop 12 ?k) \<and> take 4 (drop 16 ?h) = take 4 (drop 16 ?k) \<and>
      drop 20 ?h = drop 20 ?k"
    using assms(1) by (simp add: uuid_str_def Let_def)
  then have "?h = ?k" using cut [of ?h] cut [of ?k] by simp
  then show ?thesis using hex_number_fixed assms(2,3) by metis
qed

end
