(* ===== verification/World.thy ===== *)
theory World
  imports Persistence Actions Uuid
begin

text \<open>
  What the worker processes act on: the database, the object store, the clock and \<open>uuid4\<close>, and
  the failures and the cancellation that reach them from outside. \<open>w_faults\<close> says of each call to
  PostgreSQL or MinIO in turn whether it fails before it takes effect, \<open>w_cancel\<close> what each test
  of the cancellation flag sees, \<open>w_clock\<close> and \<open>w_uuids\<close> what the clock and \<open>uuid4\<close> return.
  A statement about every world is therefore one about every schedule of failures.
\<close>

record stored_object =
  obj_content :: string
  obj_content_type :: string

type_synonym store = "(string \<times> stored_object) list"

definition store_put :: "string \<Rightarrow> stored_object \<Rightarrow> store \<Rightarrow> store" where
  "store_put k obj st = (k, obj) # filter (\<lambda>e. fst e \<noteq> k) st"

definition store_remove :: "string \<Rightarrow> store \<Rightarrow> store" where
  "store_remove k st = filter (\<lambda>e. fst e \<noteq> k) st"

definition store_get :: "store \<Rightarrow> string \<Rightarrow> stored_object option" where
  "store_get st k = map_of st k"

lemma store_get_remove [simp]:
  "store_get (store_remove k st) j = (if j = k then None else store_get st j)"
  by (induction st) (auto simp: store_get_def store_remove_def)

lemma store_get_put [simp]:
  "store_get (store_put k obj st) j = (if j = k then Some obj else store_get st j)"
proof -
  have "map_of (filter (\<lambda>e. fst e \<noteq> k) st) j = (if j = k then None else map_of st j)"
    using store_get_remove [of k st j] by (simp add: store_get_def store_remove_def)
  then show ?thesis by (simp add: store_get_def store_put_def)
qed

record world =
  w_db :: db
  w_store :: store
  w_faults :: "bool list"
  w_cancel :: "bool list"
  w_clock :: "timestamp list"
  w_uuids :: "uuid list"
  w_events :: "(string \<times> ReasonCode option) list"

section \<open>The environment\<close>

definition pop :: "'a \<Rightarrow> 'a list \<Rightarrow> 'a" where
  "pop dflt xs = (case xs of [] \<Rightarrow> dflt | x # _ \<Rightarrow> x)"

definition datetime_now :: "('w world_scheme, 'r, timestamp) act" where
  "datetime_now = with_state (\<lambda>s.
     bind (modify (\<lambda>s. s\<lparr>w_clock := tl (w_clock s)\<rparr>)) (\<lambda>_. ret (pop 0 (w_clock s))))"

definition uuid4 :: "('w world_scheme, 'r, uuid) act" where
  "uuid4 = with_state (\<lambda>s.
     bind (modify (\<lambda>s. s\<lparr>w_uuids := tl (w_uuids s)\<rparr>)) (\<lambda>_. ret (pop 0 (w_uuids s))))"

definition uuid4s :: "nat \<Rightarrow> ('w world_scheme, 'r, uuid list) act" where
  "uuid4s n = with_state (\<lambda>s.
     bind (modify (\<lambda>s. s\<lparr>w_uuids := drop n (w_uuids s)\<rparr>)) (\<lambda>_. ret (take n (w_uuids s))))"

text \<open>The cancellation flag is never cleared.\<close>

definition cancel_is_set :: "('w world_scheme, 'r, bool) act" where
  "cancel_is_set = with_state (\<lambda>s.
     if pop False (w_cancel s) then ret True
     else bind (modify (\<lambda>s. s\<lparr>w_cancel := tl (w_cancel s)\<rparr>)) (\<lambda>_. ret False))"

text \<open>An external call that fails raises \<open>e\<close> and has no effect.\<close>

definition may_fail :: "exn \<Rightarrow> ('w world_scheme, 'r, 'a) act \<Rightarrow> ('w world_scheme, 'r, 'a) act" where
  "may_fail e a = with_state (\<lambda>s.
     bind (modify (\<lambda>s. s\<lparr>w_faults := tl (w_faults s)\<rparr>))
       (\<lambda>_. if pop False (w_faults s) then raise e else a))"

section \<open>PostgreSQL\<close>

definition db_call :: "(db \<Rightarrow> 'a result \<times> db) \<Rightarrow> ('w world_scheme, 'r, 'a) act" where
  "db_call f = may_fail SQLAlchemyError (with_state (\<lambda>s.
     case f (w_db s) of
       (Inl e, d) \<Rightarrow> bind (modify (\<lambda>s. s\<lparr>w_db := d\<rparr>)) (\<lambda>_. raise e)
     | (Inr x, d) \<Rightarrow> bind (modify (\<lambda>s. s\<lparr>w_db := d\<rparr>)) (\<lambda>_. ret x)))"

definition db_read :: "(db \<Rightarrow> 'a) \<Rightarrow> ('w world_scheme, 'r, 'a) act" where
  "db_read f = db_call (read_only f)"

section \<open>MinIO\<close>

text \<open>
  \<open>apps/api/app/storage/minio.py\<close>: a missing key is \<open>StorageObjectNotFound\<close>, any other failure
  is what the client raises; removing a missing key succeeds.
\<close>

definition storage_stat :: "string \<Rightarrow> ('w world_scheme, 'r, int) act" where
  "storage_stat key = may_fail OtherError (with_state (\<lambda>s.
     case store_get (w_store s) key of
       None \<Rightarrow> raise StorageObjectNotFound
     | Some obj \<Rightarrow> ret (int (length (obj_content obj)))))"

definition storage_upload_file :: "string \<Rightarrow> string \<Rightarrow> string \<Rightarrow> ('w world_scheme, 'r, unit) act" where
  "storage_upload_file key content content_type = may_fail OtherError
     (modify (\<lambda>s. s\<lparr>w_store := store_put key
        \<lparr>obj_content = content, obj_content_type = content_type\<rparr> (w_store s)\<rparr>))"

definition storage_download_file :: "string \<Rightarrow> ('w world_scheme, 'r, string) act" where
  "storage_download_file key = may_fail OtherError (with_state (\<lambda>s.
     case store_get (w_store s) key of
       None \<Rightarrow> raise StorageObjectNotFound
     | Some obj \<Rightarrow> ret (obj_content obj)))"

definition storage_copy :: "string \<Rightarrow> string \<Rightarrow> ('w world_scheme, 'r, unit) act" where
  "storage_copy source destination = may_fail OtherError (with_state (\<lambda>s.
     case store_get (w_store s) source of
       None \<Rightarrow> raise StorageObjectNotFound
     | Some obj \<Rightarrow> modify (\<lambda>s. s\<lparr>w_store := store_put destination obj (w_store s)\<rparr>)))"

definition storage_list_prefix :: "string \<Rightarrow> ('w world_scheme, 'r, string list) act" where
  "storage_list_prefix pre = may_fail OtherError (with_state (\<lambda>s.
     ret (filter (\<lambda>k. startswith k pre) (map fst (w_store s)))))"

definition storage_remove :: "string \<Rightarrow> ('w world_scheme, 'r, unit) act" where
  "storage_remove key = may_fail OtherError
     (modify (\<lambda>s. s\<lparr>w_store := store_remove key (w_store s)\<rparr>))"

lemmas storage_defs = storage_stat_def storage_upload_file_def storage_download_file_def
  storage_copy_def storage_list_prefix_def storage_remove_def

section \<open>What each call touches\<close>

text \<open>Statements about the database and the store that the environment cannot disturb.\<close>

definition env_closed :: "('w world_scheme \<Rightarrow> bool) \<Rightarrow> bool" where
  "env_closed P \<longleftrightarrow>
     (\<forall>s. P s \<longrightarrow> (\<forall>x. P (s\<lparr>w_faults := x\<rparr>)) \<and> (\<forall>x. P (s\<lparr>w_cancel := x\<rparr>)) \<and>
        (\<forall>x. P (s\<lparr>w_clock := x\<rparr>)) \<and> (\<forall>x. P (s\<lparr>w_uuids := x\<rparr>)) \<and> (\<forall>x. P (s\<lparr>w_events := x\<rparr>)))"

lemma env_closedD:
  assumes "env_closed P" "P s"
  shows "P (s\<lparr>w_faults := x1\<rparr>)" "P (s\<lparr>w_cancel := x2\<rparr>)" "P (s\<lparr>w_clock := x3\<rparr>)"
    "P (s\<lparr>w_uuids := x4\<rparr>)" "P (s\<lparr>w_events := x5\<rparr>)"
  using assms by (simp_all add: env_closed_def)

lemma keeps_datetime_now: "env_closed P \<Longrightarrow> keeps P datetime_now"
  by (simp add: keeps_def datetime_now_def wp_rules env_closedD)

lemma keeps_uuid4: "env_closed P \<Longrightarrow> keeps P uuid4"
  by (simp add: keeps_def uuid4_def wp_rules env_closedD)

lemma keeps_uuid4s: "env_closed P \<Longrightarrow> keeps P (uuid4s n)"
  by (simp add: keeps_def uuid4s_def wp_rules env_closedD)

lemma keeps_cancel_is_set: "env_closed P \<Longrightarrow> keeps P cancel_is_set"
  by (simp add: keeps_def cancel_is_set_def wp_rules env_closedD)

lemma keeps_may_fail: "env_closed P \<Longrightarrow> keeps P a \<Longrightarrow> keeps P (may_fail e a)"
  unfolding may_fail_def
  by (intro keeps_with_state keeps_bind keeps_modify)
    (auto simp: env_closedD intro: keeps_stop)

text \<open>A database call keeps what every outcome of its transaction keeps.\<close>

lemma keeps_db_call:
  assumes "env_closed P" "\<And>s. P s \<Longrightarrow> P (s\<lparr>w_db := snd (f (w_db s))\<rparr>)"
  shows "keeps P (db_call f)"
  unfolding db_call_def
proof (rule keeps_may_fail [OF assms(1)], rule keepsI)
  fix s r t assume "P s"
    and "with_state (\<lambda>s. case f (w_db s) of
       (Inl e, d) \<Rightarrow> bind (modify (\<lambda>s. s\<lparr>w_db := d\<rparr>)) (\<lambda>_. raise e)
     | (Inr x, d) \<Rightarrow> bind (modify (\<lambda>s. s\<lparr>w_db := d\<rparr>)) (\<lambda>_. ret x)) s = (r, t)"
  moreover from assms(2) [OF \<open>P s\<close>] have "P (s\<lparr>w_db := snd (f (w_db s))\<rparr>)" .
  ultimately show "P t"
    by (auto simp: act_defs split: prod.splits sum.splits)
qed

lemma keeps_db_read: "env_closed P \<Longrightarrow> keeps P (db_read f)"
  unfolding db_read_def by (rule keeps_db_call) (simp_all add: read_only_def)

lemma keeps_storage_reads:
  assumes "env_closed P"
  shows "keeps P (storage_stat k)" "keeps P (storage_download_file k)"
    "keeps P (storage_list_prefix p)"
  unfolding storage_defs
  by (rule keeps_may_fail [OF assms], rule keepsI, auto simp: act_defs split: option.splits)+

lemma keeps_storage_write:
  assumes "env_closed P" "\<And>s st. P s \<Longrightarrow> P (s\<lparr>w_store := st\<rparr>)"
  shows "keeps P (storage_upload_file k c t)" "keeps P (storage_copy a b)"
    "keeps P (storage_remove k)"
  unfolding storage_defs
  by (rule keeps_may_fail [OF assms(1)], rule keepsI,
      auto simp: act_defs assms(2) split: option.splits)+

end
