(* ===== verification/Json.thy ===== *)
theory Json
  imports PyText
begin

text \<open>
  The values \<open>json.loads\<close> returns, as the code that walks them sees them. An object keeps its
  entries in the order of the document, each key once.
\<close>

datatype json =
    JNull
  | JBool bool
  | JInt int
  | JFloat
  | JStr string
  | JList "json list"
  | JObj "(string \<times> json) list"

text \<open>\<open>value.get(key)\<close> of a dict.\<close>

definition dict_get :: "(string \<times> json) list \<Rightarrow> string \<Rightarrow> json option" where
  "dict_get entries key = map_of entries key"

fun as_string :: "json option \<Rightarrow> string option" where
  "as_string (Some (JStr s)) = Some s"
| "as_string _ = None"

lemma as_string_Some [simp]: "as_string v = Some s \<longleftrightarrow> v = Some (JStr s)"
  by (cases v rule: as_string.cases) auto

text \<open>The number of objects, lists and leaves of a document.\<close>

fun nodes :: "json \<Rightarrow> nat" where
  "nodes (JList xs) = Suc (sum_list (map nodes xs))"
| "nodes (JObj es) = Suc (sum_list (map (\<lambda>e. nodes (snd e)) es))"
| "nodes _ = 1"

lemma nodes_pos [simp]: "0 < nodes j"
  by (cases j) auto

end
