(* ===== verification/Media.thy ===== *)
theory Media
  imports Json Complex_Main
begin

text \<open>
  Media descriptions and the choice of a normalization strategy:
  \<open>apps/api/app/media/models.py\<close>, \<open>compatibility.py\<close>, the parsing half of \<open>probe.py\<close> and the
  worker's acceptance test. The duration is the exact value of the float \<open>ffprobe\<close> printed; the
  reading of that text as a float is the parameter \<open>float_of\<close>, \<open>None\<close> where \<open>float\<close> raises
  or the value is not finite.
\<close>

datatype NormalizationStrategy = PASSTHROUGH | REMUX | TRANSCODE

fun strategy_value :: "NormalizationStrategy \<Rightarrow> string" where
  "strategy_value PASSTHROUGH = ''passthrough''"
| "strategy_value REMUX = ''remux''"
| "strategy_value TRANSCODE = ''transcode''"

record media_probe =
  video_codec :: string
  pixel_format :: "string option"
  audio_codecs :: "string list"
  duration_seconds :: "rat option"
  width :: "int option"
  height :: "int option"
  video_profile :: "string option"
  video_level :: "int option"
  container_formats :: "string list"

section \<open>Strategy\<close>

definition positive_option :: "int option \<Rightarrow> bool" where
  "positive_option x = (case x of None \<Rightarrow> False | Some n \<Rightarrow> 0 < n)"

definition validate_required_video_metadata :: "media_probe \<Rightarrow> unit result" where
  "validate_required_video_metadata probe =
     (if video_codec probe = [] then Inl MediaCompatibilityError
      else if (case duration_seconds probe of None \<Rightarrow> True | Some d \<Rightarrow> d \<le> 0)
        then Inl MediaCompatibilityError
      else if \<not> positive_option (width probe) \<or> \<not> positive_option (height probe)
        then Inl MediaCompatibilityError
      else Inr ())"

definition select_normalization_strategy :: "media_probe \<Rightarrow> NormalizationStrategy result" where
  "select_normalization_strategy probe =
     rbind (validate_required_video_metadata probe) (\<lambda>_.
       if lower (video_codec probe) = ''h264''
          \<and> pixel_format probe = Some ''yuv420p''
          \<and> list_all (\<lambda>c. lower c = ''aac'') (audio_codecs probe)
       then
         (if ''mov'' \<in> set (container_formats probe) \<or> ''mp4'' \<in> set (container_formats probe)
          then Inr PASSTHROUGH else Inr REMUX)
       else Inr TRANSCODE)"

definition is_canonical_media :: "media_probe \<Rightarrow> bool" where
  "is_canonical_media probe =
     (case select_normalization_strategy probe of
        Inl _ \<Rightarrow> False
      | Inr s \<Rightarrow> s = PASSTHROUGH \<or> s = REMUX)"

definition is_worker_canonical :: "media_probe \<Rightarrow> bool" where
  "is_worker_canonical probe \<longleftrightarrow> audio_codecs probe \<noteq> [] \<and> is_canonical_media probe"

lemma select_strategy_error:
  "select_normalization_strategy probe = Inl e \<Longrightarrow> e = MediaCompatibilityError"
  by (auto simp: select_normalization_strategy_def validate_required_video_metadata_def
      rbind_eq_Inl split: if_splits)

text \<open>
  What the worker publishes. A probe is accepted exactly when it describes a playable H.264
  yuv420p picture of positive size and duration and has at least one audio stream, every one of
  them AAC; the container does not matter, because a remux rewrites it.
\<close>

theorem is_worker_canonical_iff:
  "is_worker_canonical p \<longleftrightarrow>
     (\<exists>d w h. duration_seconds p = Some d \<and> 0 < d \<and> width p = Some w \<and> 0 < w \<and>
        height p = Some h \<and> 0 < h) \<and>
     lower (video_codec p) = ''h264'' \<and> pixel_format p = Some ''yuv420p'' \<and>
     audio_codecs p \<noteq> [] \<and> list_all (\<lambda>c. lower c = ''aac'') (audio_codecs p)"
  by (auto simp: is_worker_canonical_def is_canonical_media_def select_normalization_strategy_def
      validate_required_video_metadata_def positive_option_def list_all_iff lower_def
      split: option.splits sum.splits if_splits)

section \<open>Reading a probe\<close>

definition optional_string :: "(string \<times> json) list \<Rightarrow> string \<Rightarrow> string option" where
  "optional_string value key =
     (case dict_get value key of
        Some (JStr s) \<Rightarrow> if s = [] then None else Some s
      | _ \<Rightarrow> None)"

definition required_string :: "(string \<times> json) list \<Rightarrow> string \<Rightarrow> string result" where
  "required_string value key = require MediaProbeError (optional_string value key)"

fun optional_duration :: "(string \<Rightarrow> rat option) \<Rightarrow> json option \<Rightarrow> rat option" where
  "optional_duration float_of (Some (JStr s)) = float_of s"
| "optional_duration float_of _ = None"

fun container_formats_of :: "json option \<Rightarrow> string list" where
  "container_formats_of (Some (JStr s)) =
     map (\<lambda>part. lower (strip part)) (filter (\<lambda>part. strip part \<noteq> []) (split_on (CHR '','') s))"
| "container_formats_of _ = []"

fun optional_positive_integer :: "json option \<Rightarrow> int option" where
  "optional_positive_integer (Some (JInt n)) = (if n > 0 then Some n else None)"
| "optional_positive_integer _ = None"

fun optional_nonnegative_integer :: "json option \<Rightarrow> int option" where
  "optional_nonnegative_integer (Some (JInt n)) = (if n \<ge> 0 then Some n else None)"
| "optional_nonnegative_integer _ = None"

fun stream_of_type :: "string \<Rightarrow> json \<Rightarrow> (string \<times> json) list option" where
  "stream_of_type kind (JObj es) =
     (if dict_get es ''codec_type'' = Some (JStr kind) then Some es else None)"
| "stream_of_type kind _ = None"

text \<open>
  \<open>_parse_probe_output\<close> after \<open>json.loads\<close>; \<open>None\<close> stands for a document that did not parse.
\<close>

definition parse_probe_output :: "(string \<Rightarrow> rat option) \<Rightarrow> json option \<Rightarrow> media_probe result" where
  "parse_probe_output float_of output =
     (case output of
        Some (JObj payload) \<Rightarrow>
          (case dict_get payload ''streams'' of
             Some (JList streams) \<Rightarrow>
               (case List.map_filter (stream_of_type ''video'') streams of
                  [] \<Rightarrow> Inl MediaProbeError
                | video_stream # _ \<Rightarrow>
                    rbind (required_string video_stream ''codec_name'') (\<lambda>codec.
                      let audio = map (\<lambda>s. case optional_string s ''codec_name'' of
                                             None \<Rightarrow> [] | Some c \<Rightarrow> c)
                                    (List.map_filter (stream_of_type ''audio'') streams);
                          format_info = dict_get payload ''format''
                      in Inr \<lparr>video_codec = codec,
                           pixel_format = optional_string video_stream ''pix_fmt'',
                           audio_codecs = audio,
                           duration_seconds =
                             (case format_info of
                                Some (JObj f) \<Rightarrow> optional_duration float_of (dict_get f ''duration'')
                              | _ \<Rightarrow> None),
                           width = optional_positive_integer (dict_get video_stream ''width''),
                           height = optional_positive_integer (dict_get video_stream ''height''),
                           video_profile = optional_string video_stream ''profile'',
                           video_level =
                             optional_nonnegative_integer (dict_get video_stream ''level''),
                           container_formats =
                             (case format_info of
                                Some (JObj f) \<Rightarrow> container_formats_of (dict_get f ''format_name'')
                              | _ \<Rightarrow> [])\<rparr>))
           | _ \<Rightarrow> Inl MediaProbeError)
      | _ \<Rightarrow> Inl MediaProbeError)"

lemma optional_positive_integer_pos: "optional_positive_integer v = Some n \<Longrightarrow> 0 < n"
  by (cases v rule: optional_positive_integer.cases) (auto split: if_splits)

lemma optional_string_nonempty: "optional_string v k = Some s \<Longrightarrow> s \<noteq> []"
  by (auto simp: optional_string_def split: option.splits json.splits if_splits)

text \<open>
  A parsed probe has a codec and only positive dimensions, so the strategy is refused exactly
  when a dimension is missing or the duration is missing or not positive.
\<close>

theorem parsed_probe_strategy:
  assumes "parse_probe_output float_of out = Inr p"
  shows "video_codec p \<noteq> [] \<and>
    ((\<exists>e. select_normalization_strategy p = Inl e) \<longleftrightarrow>
       width p = None \<or> height p = None \<or> duration_seconds p = None \<or>
       (\<exists>d. duration_seconds p = Some d \<and> d \<le> 0))"
proof -
  from assms have c: "video_codec p \<noteq> []"
    and w: "\<forall>n. width p = Some n \<longrightarrow> 0 < n" and h: "\<forall>n. height p = Some n \<longrightarrow> 0 < n"
    by (auto simp: parse_probe_output_def required_string_def Let_def
        split: option.splits json.splits list.splits
        dest: optional_string_nonempty optional_positive_integer_pos)
  then show ?thesis
    by (cases "width p"; cases "height p"; cases "duration_seconds p")
      (auto simp: select_normalization_strategy_def validate_required_video_metadata_def
        positive_option_def rbind_eq_Inl)
qed

text \<open>A document of one H.264 stream without a duration, for the witness.\<close>

definition sample_probe_document :: json where
  "sample_probe_document =
     JObj [(''streams'',
       JList [JObj [(''codec_type'', JStr ''video''), (''codec_name'', JStr ''h264''),
                    (''width'', JInt 640), (''height'', JInt 0)]])]"

theorem parsed_probe_strategy_witness:
  "\<exists>p. parse_probe_output (\<lambda>_. None) (Some sample_probe_document) = Inr p \<and>
       height p = None \<and> (\<exists>e. select_normalization_strategy p = Inl e)"
proof -
  have "\<exists>p. parse_probe_output (\<lambda>_. None) (Some sample_probe_document) = Inr p \<and> height p = None"
    by (simp add: parse_probe_output_def sample_probe_document_def dict_get_def map_filter_simps
        required_string_def require_def optional_string_def)
  then obtain p where p: "parse_probe_output (\<lambda>_. None) (Some sample_probe_document) = Inr p"
    "height p = None" by blast
  then show ?thesis using parsed_probe_strategy [OF p(1)] by blast
qed

end
