(* ===== verification/Lifecycle.thy ===== *)
theory Lifecycle
  imports Transitions
begin

text \<open>
  Rows with a status that moves along a transition policy: what a table of such rows may become
  when operations run, and the interface through which the components that share the database
  promise it. A provider names its steps, the invariant they keep, the table, the columns that
  never change and the policy, and shows the two laws for one step; the lemmas then hold of every
  history.
\<close>

definition policy_path :: "('s \<Rightarrow> 's list) \<Rightarrow> 's \<Rightarrow> 's \<Rightarrow> bool" where
  "policy_path policy = (is_transition_allowed policy)\<^sup>*\<^sup>*"

lemma policy_path_refl [simp]: "policy_path p a a"
  by (simp add: policy_path_def)

lemma policy_path_step: "is_transition_allowed p a b \<Longrightarrow> policy_path p a b"
  by (simp add: policy_path_def)

lemma policy_path_trans: "policy_path p a b \<Longrightarrow> policy_path p b c \<Longrightarrow> policy_path p a c"
  by (simp add: policy_path_def)

lemma policy_path_terminal:
  assumes "policy_path p a b" "terminal p a" shows "b = a"
  using assms unfolding policy_path_def
  by (induction rule: converse_rtranclp_induct)
    (auto simp: terminal_def is_transition_allowed_def)

section \<open>Tables\<close>

text \<open>Every row is still there, with the same constant columns, further along the policy.\<close>

definition rows_follow :: "('r \<Rightarrow> 'k) \<Rightarrow> ('r \<Rightarrow> 's) \<Rightarrow> ('s \<Rightarrow> 's list) \<Rightarrow> 'r list \<Rightarrow> 'r list \<Rightarrow> bool" where
  "rows_follow ident status policy rs rs' \<longleftrightarrow>
     (\<forall>r \<in> set rs. \<exists>r' \<in> set rs'. ident r' = ident r \<and> policy_path policy (status r) (status r'))"

lemma rows_follow_refl [simp]: "rows_follow ident status policy rs rs"
  by (auto simp: rows_follow_def)

lemma rows_follow_append [simp]: "rows_follow ident status policy rs (rs @ new)"
  by (auto simp: rows_follow_def)

lemma rows_follow_trans:
  "rows_follow ident status policy rs rs' \<Longrightarrow> rows_follow ident status policy rs' rs'' \<Longrightarrow>
   rows_follow ident status policy rs rs''"
  unfolding rows_follow_def by (metis policy_path_trans)

lemma rows_follow_update:
  assumes "\<And>r. r \<in> set rs \<Longrightarrow> key r = k \<Longrightarrow>
      ident (f r) = ident r \<and> policy_path policy (status r) (status (f r))"
  shows "rows_follow ident status policy rs (update_rows key k f rs)"
  unfolding rows_follow_def
proof
  fix r assume r: "r \<in> set rs"
  then have "(if key r = k then f r else r) \<in> set (update_rows key k f rs)"
    by (auto simp: in_update_rows)
  with r assms show "\<exists>r' \<in> set (update_rows key k f rs).
      ident r' = ident r \<and> policy_path policy (status r) (status r')"
    by (intro bexI [of _ "if key r = k then f r else r"]) auto
qed

section \<open>The interface\<close>

locale lifecycle =
  fixes inv :: "'d \<Rightarrow> bool" and step :: "'d \<Rightarrow> 'd \<Rightarrow> bool"
    and rows :: "'d \<Rightarrow> 'r list" and ident :: "'r \<Rightarrow> 'k" and status :: "'r \<Rightarrow> 's"
    and policy :: "'s \<Rightarrow> 's list"
  assumes step_inv: "inv d \<Longrightarrow> step d d' \<Longrightarrow> inv d'"
    and step_follows: "inv d \<Longrightarrow> step d d' \<Longrightarrow> rows_follow ident status policy (rows d) (rows d')"
begin

lemma history_inv: "step\<^sup>*\<^sup>* d d' \<Longrightarrow> inv d \<Longrightarrow> inv d'"
  by (induction rule: rtranclp_induct) (auto intro: step_inv)

lemma history_follows:
  "step\<^sup>*\<^sup>* d d' \<Longrightarrow> inv d \<Longrightarrow> rows_follow ident status policy (rows d) (rows d')"
proof (induction rule: rtranclp_induct)
  case (step d1 d2)
  then have "inv d1" using history_inv by blast
  then show ?case using step rows_follow_trans step_follows by metis
qed simp

text \<open>A row in a terminal status stays what it is.\<close>

lemma history_terminal:
  assumes "step\<^sup>*\<^sup>* d d'" "inv d" "r \<in> set (rows d)" "terminal policy (status r)"
  shows "\<exists>r' \<in> set (rows d'). ident r' = ident r \<and> status r' = status r"
  using history_follows [OF assms(1,2)] assms(3,4) policy_path_terminal
  unfolding rows_follow_def by metis

text \<open>A row never gets back to a status that the policy does not lead to.\<close>

lemma history_never:
  assumes "step\<^sup>*\<^sup>* d d'" "inv d" "r \<in> set (rows d)" "\<not> policy_path policy (status r) s"
    "unique_col ident (rows d')" "q \<in> set (rows d')" "ident q = ident r"
  shows "status q \<noteq> s"
proof -
  obtain r' where "r' \<in> set (rows d')" "ident r' = ident r" "policy_path policy (status r) (status r')"
    using history_follows [OF assms(1,2)] assms(3) unfolding rows_follow_def by blast
  moreover from this have "r' = q" using unique_colD [OF assms(5)] assms(6,7) by metis
  ultimately show ?thesis using assms(4) by auto
qed

end

end
