(* ===== verification/Pipeline.thy ===== *)
theory Pipeline
  imports Lifecycle Persistence
begin

text \<open>
  What the Collector and the normalizer keep true of the Reels and of their normalization jobs:
  which job a Reel of each status has, how the status moves, and which key names which object.
  The persistence operations of the Collector are shown to keep it.
\<close>

section \<open>The active jobs of a Reel\<close>

definition active_jobs :: "db \<Rightarrow> uuid \<Rightarrow> norm_job list" where
  "active_jobs d i = filter (\<lambda>j. job_reel_id j = i \<and> job_active j) (jobs d)"

definition max_normalization_attempts :: int where
  "max_normalization_attempts = 3"

definition pending_job_ok :: "norm_job \<Rightarrow> bool" where
  "pending_job_ok j \<longleftrightarrow>
     job_status j = NormalizationJobStatus.PENDING \<and>
     0 \<le> job_attempt_count j \<and> job_attempt_count j < max_normalization_attempts"

definition running_job_ok :: "norm_job \<Rightarrow> bool" where
  "running_job_ok j \<longleftrightarrow>
     job_status j = NormalizationJobStatus.RUNNING \<and>
     1 \<le> job_attempt_count j \<and> job_attempt_count j \<le> max_normalization_attempts \<and>
     job_lease_expires_at j \<noteq> None \<and> job_worker_id j \<noteq> None \<and> job_staging_prefix j \<noteq> None"

text \<open>A Reel waits with one pending job, is worked on by one running job, and has none otherwise.\<close>

fun slot_ok :: "ReelPipelineStatus \<Rightarrow> norm_job list \<Rightarrow> bool" where
  "slot_ok ReelPipelineStatus.SOURCE_READY js \<longleftrightarrow> (case js of [j] \<Rightarrow> pending_job_ok j | _ \<Rightarrow> False)"
| "slot_ok ReelPipelineStatus.NORMALIZING js \<longleftrightarrow> (case js of [j] \<Rightarrow> running_job_ok j | _ \<Rightarrow> False)"
| "slot_ok _ js \<longleftrightarrow> js = []"

definition pipeline_ok :: "db \<Rightarrow> bool" where
  "pipeline_ok d \<longleftrightarrow> (\<forall>r \<in> set (reels d). slot_ok (reel_status r) (active_jobs d (reel_id r)))"

lemma slot_source_ready:
  "slot_ok ReelPipelineStatus.SOURCE_READY js \<Longrightarrow> \<exists>j. js = [j] \<and> pending_job_ok j"
  by (auto split: list.splits)

lemma slot_normalizing:
  "slot_ok ReelPipelineStatus.NORMALIZING js \<Longrightarrow> \<exists>j. js = [j] \<and> running_job_ok j"
  by (auto split: list.splits)

lemma slot_other:
  "slot_ok s js \<Longrightarrow> s \<noteq> ReelPipelineStatus.SOURCE_READY \<Longrightarrow> s \<noteq> ReelPipelineStatus.NORMALIZING \<Longrightarrow>
   js = []"
  by (cases s) auto

lemma job_active_simps [simp]:
  "job_status j = NormalizationJobStatus.PENDING \<Longrightarrow> job_active j"
  "job_status j = NormalizationJobStatus.RUNNING \<Longrightarrow> job_active j"
  "job_status j = NormalizationJobStatus.COMPLETED \<Longrightarrow> \<not> job_active j"
  "job_status j = NormalizationJobStatus.FAILED \<Longrightarrow> \<not> job_active j"
  by (simp_all add: job_active_def)

subsection \<open>One row at a time\<close>

lemma filter_update_other:
  "(\<And>q. q \<in> set rows \<Longrightarrow> key q = k \<Longrightarrow> \<not> A q \<and> \<not> A (g q)) \<Longrightarrow>
   filter A (update_rows key k g rows) = filter A rows"
  by (induction rows) auto

lemma filter_update_single:
  assumes "distinct (map key rows)" "filter A rows = [j]"
  shows "filter A (update_rows key (key j) g rows) = filter A [g j]"
  using assms
proof (induction rows)
  case (Cons q rows)
  show ?case
  proof (cases "q = j")
    case True
    have "A q"
    proof -
      have "j \<in> set (filter A (q # rows))" unfolding Cons.prems(2) by simp
      then show ?thesis using True unfolding set_filter by blast
    qed
    with True Cons.prems have "key j \<notin> key ` set rows" "filter A rows = []"
      by (auto split: if_splits)
    moreover then have "update_rows key (key j) g rows = rows"
      by (simp add: lookup_row_None)
    ultimately show ?thesis using True by simp
  next
    case False
    with Cons.prems have j: "filter A rows = [j]" "\<not> A q"
      by (auto split: if_splits)
    then have "j \<in> set rows" by (metis list.set_intros(1) filter_is_subset subsetD)
    then have "key q \<noteq> key j" using Cons.prems(1) by auto
    with Cons j show ?thesis by simp
  qed
qed simp

lemma active_jobs_update_other:
  assumes "\<And>j. j \<in> set (jobs d) \<Longrightarrow> job_id j = k \<Longrightarrow> job_reel_id j \<noteq> i \<and> job_reel_id (g j) \<noteq> i"
  shows "active_jobs (update_job k g d) i = active_jobs d i"
  unfolding active_jobs_def update_job_def using assms
  by (auto intro!: filter_update_other)

lemma active_jobs_update:
  assumes "unique_col job_id (jobs d)" "active_jobs d i = [j]" "job_reel_id (g j) = i"
  shows "active_jobs (update_job (job_id j) g d) i = (if job_active (g j) then [g j] else [])"
  using filter_update_single [of job_id "jobs d" "\<lambda>j. job_reel_id j = i \<and> job_active j" j g] assms
  by (simp add: active_jobs_def update_job_def unique_col_def)

lemma active_jobs_append [simp]:
  "active_jobs (d\<lparr>jobs := jobs d @ [j]\<rparr>) i =
     active_jobs d i @ (if job_reel_id j = i \<and> job_active j then [j] else [])"
  by (simp add: active_jobs_def)

lemma active_jobs_mem:
  "active_jobs d i = [j] \<Longrightarrow> j \<in> set (jobs d) \<and> job_reel_id j = i \<and> job_active j"
proof -
  assume "active_jobs d i = [j]"
  then have "j \<in> set (active_jobs d i)" by simp
  then show ?thesis by (simp add: active_jobs_def)
qed

lemma active_jobs_cong: "jobs d = jobs e \<Longrightarrow> active_jobs d i = active_jobs e i"
  by (simp add: active_jobs_def)

lemma pipeline_cong: "reels d = reels e \<Longrightarrow> jobs d = jobs e \<Longrightarrow> pipeline_ok d = pipeline_ok e"
  by (simp add: pipeline_ok_def active_jobs_def)

text \<open>A change of one Reel and of its jobs only.\<close>

lemma pipeline_step:
  assumes "pipeline_ok d"
    and "\<And>r. r \<in> set (reels d') \<Longrightarrow> reel_id r \<noteq> i \<Longrightarrow> r \<in> set (reels d)"
    and "\<And>k. k \<noteq> i \<Longrightarrow> active_jobs d' k = active_jobs d k"
    and "\<And>r. r \<in> set (reels d') \<Longrightarrow> reel_id r = i \<Longrightarrow> slot_ok (reel_status r) (active_jobs d' i)"
  shows "pipeline_ok d'"
  using assms unfolding pipeline_ok_def by metis

lemma reels_update_other:
  "r \<in> set (reels (update_reel i f d)) \<Longrightarrow> (\<And>r. reel_id r = i \<Longrightarrow> reel_id (f r) = i) \<Longrightarrow>
   reel_id r \<noteq> i \<Longrightarrow> r \<in> set (reels d)"
  by (auto simp: update_reel_def in_update_rows split: if_splits)

lemma reels_update_same:
  "r \<in> set (reels (update_reel i f d)) \<Longrightarrow> reel_id r = i \<Longrightarrow>
   (\<And>r. reel_id r = i \<Longrightarrow> reel_id (f r) = i) \<Longrightarrow> \<exists>q \<in> set (reels d). reel_id q = i \<and> r = f q"
  by (auto simp: update_reel_def in_update_rows split: if_splits)

section \<open>Statuses move along the policy\<close>

text \<open>Every Reel is still there, under the same id, shortcode and URL, further along the policy.\<close>

definition reels_follow :: "db \<Rightarrow> db \<Rightarrow> bool" where
  "reels_follow d d' \<longleftrightarrow>
     (\<forall>r \<in> set (reels d). \<exists>r' \<in> set (reels d').
        reel_id r' = reel_id r \<and> reel_shortcode r' = reel_shortcode r \<and>
        reel_canonical_url r' = reel_canonical_url r \<and>
        policy_path reel_pipeline_transitions (reel_status r) (reel_status r'))"

lemma reels_follow_refl [simp]: "reels_follow d d"
  by (auto simp: reels_follow_def)

lemma reels_follow_same: "reels d' = reels d \<Longrightarrow> reels_follow d d'"
  by (auto simp: reels_follow_def)

lemma reels_follow_trans: "reels_follow d d' \<Longrightarrow> reels_follow d' d'' \<Longrightarrow> reels_follow d d''"
  unfolding reels_follow_def by (metis policy_path_trans)

lemma reels_follow_append: "reels d' = reels d @ rs \<Longrightarrow> reels_follow d d'"
  by (auto simp: reels_follow_def)

lemma reels_follow_update:
  assumes "\<And>r. r \<in> set (reels d) \<Longrightarrow> reel_id r = i \<Longrightarrow>
      reel_id (f r) = i \<and> reel_shortcode (f r) = reel_shortcode r \<and>
      reel_canonical_url (f r) = reel_canonical_url r \<and>
      policy_path reel_pipeline_transitions (reel_status r) (reel_status (f r))"
  shows "reels_follow d (update_reel i f d)"
  unfolding reels_follow_def
proof
  fix r assume r: "r \<in> set (reels d)"
  then have "(if reel_id r = i then f r else r) \<in> set (reels (update_reel i f d))"
    by (auto simp: update_reel_def in_update_rows)
  with r assms show "\<exists>r' \<in> set (reels (update_reel i f d)).
        reel_id r' = reel_id r \<and> reel_shortcode r' = reel_shortcode r \<and>
        reel_canonical_url r' = reel_canonical_url r \<and>
        policy_path reel_pipeline_transitions (reel_status r) (reel_status r')"
    by (intro bexI [of _ "if reel_id r = i then f r else r"]) auto
qed

lemma path_to_source_ready:
  "s \<noteq> ReelPipelineStatus.READY \<Longrightarrow>
   policy_path reel_pipeline_transitions s ReelPipelineStatus.SOURCE_READY"
proof -
  have step: "policy_path reel_pipeline_transitions a b"
    if "a \<noteq> b" "b \<in> set (reel_pipeline_transitions a)" for a b
    using that by (intro policy_path_step) (simp add: is_transition_allowed_def)
  have d: "policy_path reel_pipeline_transitions ReelPipelineStatus.DOWNLOADING
      ReelPipelineStatus.SOURCE_READY"
    by (rule step) simp_all
  assume "s \<noteq> ReelPipelineStatus.READY"
  then consider "s = ReelPipelineStatus.SOURCE_READY" | "s = ReelPipelineStatus.DOWNLOADING"
    | "s = ReelPipelineStatus.NORMALIZING"
    | "s \<in> {ReelPipelineStatus.DISCOVERED, ReelPipelineStatus.FAILED}"
    by (cases s) auto
  then show ?thesis
  proof cases
    case 3
    then show ?thesis by (auto intro!: step)
  next
    case 4
    then show ?thesis by (intro policy_path_trans [OF step d]) auto
  qed (use d in auto)
qed

end
