(* ===== verification/CollectorStore.thy ===== *)
theory CollectorStore
  imports Pipeline
begin

text \<open>
  What the persistence operations of the Collector do on every branch, and that each of them keeps
  the pipeline of \<open>Pipeline\<close>: the facts the Collector's engine relies on.
\<close>

section \<open>The durable invariant\<close>

definition source_prefix :: string where
  "source_prefix = ''instagram-sources/''"

definition final_prefix :: string where
  "final_prefix = ''videos/''"

definition staging_root :: string where
  "staging_root = ''instagram-normalizer-staging/''"

text \<open>Sources, published videos and staging objects live under different prefixes.\<close>

definition keys_ok :: "db \<Rightarrow> bool" where
  "keys_ok d \<longleftrightarrow>
     (\<forall>r \<in> set (reels d). opt_all (\<lambda>k. startswith k source_prefix) (reel_source_object_key r)) \<and>
     (\<forall>v \<in> set (videos d). startswith (vid_object_key v) final_prefix) \<and>
     (\<forall>j \<in> set (jobs d). opt_all (\<lambda>p. startswith p staging_root) (job_staging_prefix j))"

lemma keys_ok_iff:
  "keys_ok d \<longleftrightarrow>
     (\<forall>r \<in> set (reels d). \<forall>k. reel_source_object_key r = Some k \<longrightarrow> startswith k source_prefix) \<and>
     (\<forall>v \<in> set (videos d). startswith (vid_object_key v) final_prefix) \<and>
     (\<forall>j \<in> set (jobs d). \<forall>p. job_staging_prefix j = Some p \<longrightarrow> startswith p staging_root)"
  by (simp add: keys_ok_def)

definition durable_inv :: "db \<Rightarrow> bool" where
  "durable_inv d \<longleftrightarrow> constraints_ok d \<and> pipeline_ok d \<and> keys_ok d"

lemma durable_inv_empty [simp]: "durable_inv empty_db"
  by (simp add: durable_inv_def pipeline_ok_def keys_ok_def) (simp add: empty_db_def)

lemma durable_invI:
  "constraints_ok d \<Longrightarrow> pipeline_ok d \<Longrightarrow> keys_ok d \<Longrightarrow> durable_inv d"
  by (simp add: durable_inv_def)

lemma durable_invD:
  assumes "durable_inv d"
  shows "constraints_ok d" "pipeline_ok d" "keys_ok d" "unique_col reel_id (reels d)"
    "unique_col job_id (jobs d)" "unique_col reel_shortcode (reels d)"
    "unique_where job_active job_reel_id (jobs d)" "unique_nullable reel_source_object_key (reels d)"
    "unique_col vid_id (videos d)" "unique_col vid_object_key (videos d)"
    "unique_col run_id (runs d)" "unique_where run_active run_account_id (runs d)"
  using assms by (simp_all add: durable_inv_def constraint_defs)

text \<open>An operation that touches neither Reels nor jobs nor videos.\<close>

lemma durable_inv_cong:
  assumes "durable_inv d" "constraints_ok d'" "reels d' = reels d" "jobs d' = jobs d"
    "videos d' = videos d"
  shows "durable_inv d'"
  using assms pipeline_cong [of d' d] by (simp add: durable_inv_def keys_ok_def)

lemma transaction_durable:
  assumes "durable_inv d"
    and "\<And>x d'. f d = Inr (x, d') \<Longrightarrow> constraints_ok d' \<Longrightarrow> pipeline_ok d' \<and> keys_ok d'"
  shows "durable_inv (snd (transaction f d))"
  using assms by (intro transaction_keeps [where P = durable_inv]) (auto simp: durable_inv_def)

section \<open>Adding a run item\<close>

lemma add_item_InrD:
  assumes "add_item run i outcome mode reason now d = Inr d'"
  shows "\<exists>r. get_run d run = Some r \<and>
     d' = d\<lparr>run_items := run_items d @ [\<lparr>item_run_id = run, item_reel_id = i,
              item_position = counter_sum r + 1, item_outcome = outcome, item_auth_mode = mode,
              item_reason_code = reason, item_completed_at = Some now\<rparr>],
            runs := update_rows run_id run (bump_counter outcome) (runs d)\<rparr>"
  using assms by (auto simp: add_item_def update_run_def Let_def split: option.splits)

lemma add_item_frame:
  assumes "add_item run i outcome mode reason now d = Inr d'"
  shows "reels d' = reels d" "jobs d' = jobs d" "videos d' = videos d" "accounts d' = accounts d"
    "login_sessions d' = login_sessions d" "reel_views d' = reel_views d"
  using add_item_InrD [OF assms] by auto

lemma counter_sum_bump [simp]: "counter_sum (bump_counter outcome r) = counter_sum r + 1"
  by (simp add: counter_sum_def bump_counter_def)

lemma bump_counter_frame [simp]:
  "run_id (bump_counter outcome r) = run_id r"
  "run_status (bump_counter outcome r) = run_status r"
  "run_account_id (bump_counter outcome r) = run_account_id r"
  "run_target_count (bump_counter outcome r) = run_target_count r"
  by (simp_all add: bump_counter_def)

section \<open>The Reel of a candidate\<close>

lemma find_or_discover_reel:
  assumes "find_or_discover c fresh now d = (r, d')"
  shows "r \<in> set (reels d')" "reel_shortcode r = shortcode c"
    "jobs d' = jobs d" "videos d' = videos d" "runs d' = runs d" "run_items d' = run_items d"
    "reels d' = reels d \<or> reels d' = reels d @ [new_reel fresh c now] \<and> r = new_reel fresh c now"
    "r \<in> set (reels d) \<or> r = new_reel fresh c now"
  using assms
  by (auto simp: find_or_discover_def new_reel_def Let_def split: option.splits
      dest: lookup_row_SomeD)

lemma find_or_discover_follow:
  "find_or_discover c fresh now d = (r, d') \<Longrightarrow> reels_follow d d'"
  using find_or_discover_reel(7) [of c fresh now d r d']
  by (auto intro: reels_follow_same reels_follow_append)

text \<open>
  When the ids of the Reels after the operation are distinct, as the primary key makes them, a
  discovered Reel is new to the jobs, and the pipeline still holds.
\<close>

lemma find_or_discover_pipeline:
  assumes "pipeline_ok d" "references_ok d" "find_or_discover c fresh now d = (r, d')"
    "unique_col reel_id (reels d')"
  shows "pipeline_ok d'"
proof (cases "reels d' = reels d")
  case True
  then show ?thesis using assms(1,3) find_or_discover_reel(3) [OF assms(3)] pipeline_cong by blast
next
  case False
  then have d': "reels d' = reels d @ [new_reel fresh c now]" "jobs d' = jobs d"
    using find_or_discover_reel [OF assms(3)] by auto
  have fresh: "fresh \<notin> reel_id ` set (reels d)"
    using assms(4) d'(1) by (simp add: new_reel_def)
  then have "active_jobs d' fresh = []"
    using assms(2) d'(2) by (auto simp: active_jobs_def references_ok_def filter_empty_conv)
  moreover have "active_jobs d' i = active_jobs d i" for i
    using d'(2) by (rule active_jobs_cong)
  ultimately show ?thesis
    using assms(1) by (auto simp: pipeline_ok_def d'(1)) (auto simp: new_reel_def)
qed

lemma find_or_discover_keys:
  "keys_ok d \<Longrightarrow> find_or_discover c fresh now d = (r, d') \<Longrightarrow> keys_ok d'"
  using find_or_discover_reel [of c fresh now d r d']
  by (auto simp: keys_ok_def new_reel_def)

lemma to_downloading_Inr:
  "to_downloading s = Inr t \<Longrightarrow>
     t = ReelPipelineStatus.DOWNLOADING \<and>
     s \<in> {ReelPipelineStatus.FAILED, ReelPipelineStatus.DISCOVERED, ReelPipelineStatus.DOWNLOADING}"
  by (auto simp: to_downloading_def split: if_splits)

section \<open>Committing a source\<close>

definition source_committed_reel :: "validated_source \<Rightarrow> string \<Rightarrow> timestamp \<Rightarrow> reel \<Rightarrow> reel" where
  "source_committed_reel source key now r =
     r\<lparr>reel_status := ReelPipelineStatus.SOURCE_READY, reel_source_object_key := Some key,
       reel_source_sha256 := Some (src_sha256 source),
       reel_source_byte_size := Some (src_byte_size source),
       reel_source_ready_at := Some now, reel_failure_reason_code := None\<rparr>"

lemma source_committed_reel_simps [simp]:
  "reel_id (source_committed_reel source key now r) = reel_id r"
  "reel_shortcode (source_committed_reel source key now r) = reel_shortcode r"
  "reel_canonical_url (source_committed_reel source key now r) = reel_canonical_url r"
  "reel_status (source_committed_reel source key now r) = ReelPipelineStatus.SOURCE_READY"
  "reel_source_object_key (source_committed_reel source key now r) = Some key"
  "reel_source_sha256 (source_committed_reel source key now r) = Some (src_sha256 source)"
  "reel_source_byte_size (source_committed_reel source key now r) = Some (src_byte_size source)"
  by (simp_all add: source_committed_reel_def)

lemma commit_source_InrD:
  assumes "commit_source run c source key fresh fresh_job now d = (Inr (), d')"
  obtains r d0 where "find_or_discover c fresh now d = (r, d0)"
    "reel_status r \<in> {ReelPipelineStatus.FAILED, ReelPipelineStatus.DISCOVERED,
       ReelPipelineStatus.DOWNLOADING}"
    "reels d' = update_rows reel_id (reel_id r) (source_committed_reel source key now) (reels d0)"
    "jobs d' = jobs d @ [new_job fresh_job (reel_id r) 0 now]"
    "videos d' = videos d" "constraints_ok d'"
    "add_item run (reel_id r) RunItemOutcome.SOURCE_COMMITTED (Some DownloadAuthMode.SESSION_FIRST)
       None now (update_reel (reel_id r) (source_committed_reel source key now) d0
         \<lparr>jobs := jobs d @ [new_job fresh_job (reel_id r) 0 now]\<rparr>) = Inr d'"
proof -
  obtain r d0 where f: "find_or_discover c fresh now d = (r, d0)" by fastforce
  note fd = find_or_discover_reel [OF f]
  from transaction_InrD [OF assms [unfolded commit_source_def]]
  have ok: "constraints_ok d'"
    and down: "\<exists>s. to_downloading (reel_status r) = Inr s"
    and item: "add_item run (reel_id r) RunItemOutcome.SOURCE_COMMITTED
        (Some DownloadAuthMode.SESSION_FIRST) None now
        (update_reel (reel_id r) (source_committed_reel source key now) d0
           \<lparr>jobs := jobs d @ [new_job fresh_job (reel_id r) 0 now]\<rparr>) = Inr d'"
    by (auto simp: f Let_def update_reel_def fd(3) source_committed_reel_def [abs_def])
  then show thesis
    using that [OF f _ _ _ _ ok item] add_item_frame [OF item] to_downloading_Inr fd(4)
    by (fastforce simp: update_reel_def)
qed

lemma commit_source_step:
  assumes "durable_inv d" "commit_source run c source key fresh fresh_job now d = (Inr (), d')"
    "startswith key source_prefix"
  shows "pipeline_ok d' \<and> keys_ok d' \<and> reels_follow d d' \<and>
     (\<exists>r \<in> set (reels d'). reel_shortcode r = shortcode c \<and>
        reel_status r = ReelPipelineStatus.SOURCE_READY \<and> reel_source_object_key r = Some key \<and>
        reel_source_sha256 r = Some (src_sha256 source) \<and>
        reel_source_byte_size r = Some (src_byte_size source) \<and>
        active_jobs d' (reel_id r) = [new_job fresh_job (reel_id r) 0 now])"
proof -
  from commit_source_InrD [OF assms(2)] obtain r d0 where
    f: "find_or_discover c fresh now d = (r, d0)"
    and st: "reel_status r \<in> {ReelPipelineStatus.FAILED, ReelPipelineStatus.DISCOVERED,
       ReelPipelineStatus.DOWNLOADING}"
    and rs: "reels d' = update_rows reel_id (reel_id r) (source_committed_reel source key now)
       (reels d0)"
    and js: "jobs d' = jobs d @ [new_job fresh_job (reel_id r) 0 now]"
    and vs: "videos d' = videos d" and ok: "constraints_ok d'"
    by metis
  note fd = find_or_discover_reel [OF f]
  have u: "unique_col reel_id (reels d0)"
    using ok rs by (simp add: constraint_defs unique_col_update)
  have p0: "pipeline_ok d0" and k0: "keys_ok d0"
    using assms(1) f u find_or_discover_pipeline find_or_discover_keys
    by (auto simp: durable_inv_def constraints_ok_def)
  have r': "source_committed_reel source key now r \<in> set (reels d')"
    using fd(1) by (auto simp: rs in_update_rows)
  have only: "q = source_committed_reel source key now r"
    if "q \<in> set (reels d')" "reel_id q = reel_id r" for q
    using that fd(1) u unique_colD [OF u _ fd(1)] by (auto simp: rs in_update_rows split: if_splits)
  have jobs0: "active_jobs d0 i = active_jobs d i" for i
    using fd(3) by (rule active_jobs_cong)
  have "active_jobs d (reel_id r) = []"
    using p0 fd(1) st slot_other [of "reel_status r"] jobs0 by (fastforce simp: pipeline_ok_def)
  then have mine: "active_jobs d' (reel_id r) = [new_job fresh_job (reel_id r) 0 now]"
    by (simp add: active_jobs_def js new_job_def)
  have "pipeline_ok d'"
  proof (rule pipeline_step [OF p0, where i = "reel_id r"])
    show "q \<in> set (reels d0)" if "q \<in> set (reels d')" "reel_id q \<noteq> reel_id r" for q
      using that by (auto simp: rs in_update_rows split: if_splits)
    show "active_jobs d' k = active_jobs d0 k" if "k \<noteq> reel_id r" for k
      using that by (simp add: active_jobs_def js fd(3) new_job_def)
    show "slot_ok (reel_status q) (active_jobs d' (reel_id r))"
      if "q \<in> set (reels d')" "reel_id q = reel_id r" for q
      using only [OF that] mine
      by (simp add: pending_job_ok_def new_job_def max_normalization_attempts_def)
  qed
  moreover have "keys_ok d'"
    using k0 assms(3) by (auto simp: keys_ok_def rs js vs fd(3,4) in_update_rows new_job_def
        split: if_splits)
  moreover have "reels_follow d0 d'"
  proof -
    have "reels_follow d0 (update_reel (reel_id r) (source_committed_reel source key now) d0)"
    proof (rule reels_follow_update)
      fix q assume "q \<in> set (reels d0)" "reel_id q = reel_id r"
      then have "q = r" using unique_colD [OF u _ fd(1)] by blast
      with st path_to_source_ready [of "reel_status r"]
      show "reel_id (source_committed_reel source key now q) = reel_id r \<and>
        reel_shortcode (source_committed_reel source key now q) = reel_shortcode q \<and>
        reel_canonical_url (source_committed_reel source key now q) = reel_canonical_url q \<and>
        policy_path reel_pipeline_transitions (reel_status q)
          (reel_status (source_committed_reel source key now q))"
        by auto
    qed
    then show ?thesis by (simp add: reels_follow_def rs update_reel_def)
  qed
  then have "reels_follow d d'" using find_or_discover_follow [OF f] reels_follow_trans by blast
  ultimately show ?thesis using r' mine fd(2)
    by (intro conjI bexI [of _ "source_committed_reel source key now r"]) auto
qed

lemma commit_source_keeps:
  assumes "durable_inv d" "startswith key source_prefix"
  shows "durable_inv (snd (commit_source run c source key fresh fresh_job now d))"
proof (rule transactional_keeps [where P = durable_inv, OF transactionalI [OF commit_source_def] assms(1)])
  fix x d' assume "commit_source run c source key fresh fresh_job now d = (Inr x, d')" "constraints_ok d'"
  then show "durable_inv d'"
    using commit_source_step [OF assms(1) _ assms(2)] by (simp add: durable_inv_def)
qed

section \<open>The other outcomes of a candidate\<close>

lemma commit_available_keeps:
  assumes "durable_inv d"
  shows "durable_inv (snd (commit_available run c now d))"
  unfolding commit_available_def
proof (rule transaction_durable [OF assms])
  fix x d' assume "(case lookup_row reel_shortcode (shortcode c) (reels d) of
        None \<Rightarrow> Inl ValueError
      | Some r \<Rightarrow>
          if \<not> durable_status (reel_status r) then Inl ValueError
          else rbind (add_item run (reel_id r) RunItemOutcome.ALREADY_AVAILABLE None None now d)
                 (\<lambda>d. Inr ((), d))) = Inr (x, d')"
  then obtain i where item: "add_item run i RunItemOutcome.ALREADY_AVAILABLE None None now d = Inr d'"
    by (auto split: option.splits if_splits)
  show "pipeline_ok d' \<and> keys_ok d'"
    using assms add_item_frame [OF item] pipeline_cong [of d' d]
    by (simp add: durable_inv_def keys_ok_def)
qed

definition failed_reel :: "string \<Rightarrow> timestamp \<Rightarrow> reel \<Rightarrow> reel" where
  "failed_reel reason_code now r =
     r\<lparr>reel_status := ReelPipelineStatus.FAILED, reel_failed_at := Some now,
       reel_failure_reason_code := Some reason_code\<rparr>"

lemma failed_reel_simps [simp]:
  "reel_id (failed_reel reason now r) = reel_id r"
  "reel_shortcode (failed_reel reason now r) = reel_shortcode r"
  "reel_canonical_url (failed_reel reason now r) = reel_canonical_url r"
  "reel_status (failed_reel reason now r) = ReelPipelineStatus.FAILED"
  "reel_source_object_key (failed_reel reason now r) = reel_source_object_key r"
  "reel_failure_reason_code (failed_reel reason now r) = Some reason"
  by (simp_all add: failed_reel_def)

lemma record_failure_InrD:
  assumes "record_failure run c reason attempted fresh now d = (Inr (), d')"
  obtains r d0 where "find_or_discover c fresh now d = (r, d0)"
    "reels d' = (if reel_status r \<in> {ReelPipelineStatus.DISCOVERED, ReelPipelineStatus.DOWNLOADING}
       then update_rows reel_id (reel_id r) (failed_reel reason now) (reels d0) else reels d0)"
    "jobs d' = jobs d" "videos d' = videos d" "constraints_ok d'"
    "\<exists>d1. runs d1 = runs d \<and> run_items d1 = run_items d \<and>
       add_item run (reel_id r) RunItemOutcome.FAILED
         (if attempted then Some DownloadAuthMode.SESSION_FIRST else None) (Some reason) now d1
       = Inr d'"
proof -
  obtain r d0 where f: "find_or_discover c fresh now d = (r, d0)" by fastforce
  let ?d1 = "if reel_status r = ReelPipelineStatus.DISCOVERED
                 \<or> reel_status r = ReelPipelineStatus.DOWNLOADING
              then update_reel (reel_id r) (failed_reel reason now) d0 else d0"
  from transaction_InrD [OF assms [unfolded record_failure_def]]
  have ok: "constraints_ok d'"
    and item: "add_item run (reel_id r) RunItemOutcome.FAILED
       (if attempted then Some DownloadAuthMode.SESSION_FIRST else None) (Some reason) now ?d1
       = Inr d'"
    by (auto simp: f Let_def failed_reel_def [abs_def])
  show thesis
  proof (rule that [OF f _ _ _ ok])
    show "\<exists>d1. runs d1 = runs d \<and> run_items d1 = run_items d \<and>
       add_item run (reel_id r) RunItemOutcome.FAILED
         (if attempted then Some DownloadAuthMode.SESSION_FIRST else None) (Some reason) now d1
       = Inr d'"
      using item find_or_discover_reel [OF f] by (intro exI [of _ ?d1]) (simp add: update_reel_def)
  qed (use add_item_frame [OF item] find_or_discover_reel [OF f] in \<open>auto simp: update_reel_def\<close>)
qed

lemma record_failure_step:
  assumes "durable_inv d" "record_failure run c reason attempted fresh now d = (Inr (), d')"
  shows "pipeline_ok d' \<and> keys_ok d' \<and> reels_follow d d'"
proof -
  from record_failure_InrD [OF assms(2)] obtain r d0 where
    f: "find_or_discover c fresh now d = (r, d0)"
    and rs: "reels d' = (if reel_status r \<in> {ReelPipelineStatus.DISCOVERED, ReelPipelineStatus.DOWNLOADING}
       then update_rows reel_id (reel_id r) (failed_reel reason now) (reels d0) else reels d0)"
    and js: "jobs d' = jobs d" and vs: "videos d' = videos d" and ok: "constraints_ok d'"
    by metis
  note fd = find_or_discover_reel [OF f]
  have u: "unique_col reel_id (reels d0)"
    using ok rs by (simp add: constraint_defs unique_col_update split: if_splits)
  have p0: "pipeline_ok d0" and k0: "keys_ok d0"
    using assms(1) f u find_or_discover_pipeline find_or_discover_keys
    by (auto simp: durable_inv_def constraints_ok_def)
  have jobs0: "active_jobs d' i = active_jobs d0 i" for i
    using js fd(3) by (intro active_jobs_cong) simp
  show ?thesis
  proof (cases "reel_status r \<in> {ReelPipelineStatus.DISCOVERED, ReelPipelineStatus.DOWNLOADING}")
    case False
    then show ?thesis
      using rs p0 k0 jobs0 vs js fd(3,4) reels_follow_trans [OF find_or_discover_follow [OF f]]
        reels_follow_same [of d' d0]
      by (simp add: pipeline_ok_def keys_ok_def)
  next
    case True
    then have st: "reel_status r \<in> {ReelPipelineStatus.DISCOVERED, ReelPipelineStatus.DOWNLOADING}" .
    with rs have rs': "reels d' = update_rows reel_id (reel_id r) (failed_reel reason now) (reels d0)"
      by simp
    have none: "active_jobs d0 (reel_id r) = []"
      using p0 fd(1) st slot_other [of "reel_status r"] by (fastforce simp: pipeline_ok_def)
    have "pipeline_ok d'"
    proof (rule pipeline_step [OF p0, where i = "reel_id r"])
      show "q \<in> set (reels d0)" if "q \<in> set (reels d')" "reel_id q \<noteq> reel_id r" for q
        using that by (auto simp: rs' in_update_rows split: if_splits)
      show "slot_ok (reel_status q) (active_jobs d' (reel_id r))"
        if "q \<in> set (reels d')" "reel_id q = reel_id r" for q
      proof -
        from that have "reel_status q = ReelPipelineStatus.FAILED"
          unfolding rs' by (elim update_rowsE) (simp_all only: failed_reel_simps)
        then show ?thesis using jobs0 none by simp
      qed
    qed (simp add: jobs0)
    moreover have "keys_ok d'"
      using k0 by (auto simp: keys_ok_def rs' js vs fd(3,4) in_update_rows split: if_splits)
    moreover have "reels_follow d0 (update_reel (reel_id r) (failed_reel reason now) d0)"
    proof (rule reels_follow_update)
      fix q assume "q \<in> set (reels d0)" "reel_id q = reel_id r"
      then have "q = r" using unique_colD [OF u _ fd(1)] by blast
      with st show "reel_id (failed_reel reason now q) = reel_id r \<and>
        reel_shortcode (failed_reel reason now q) = reel_shortcode q \<and>
        reel_canonical_url (failed_reel reason now q) = reel_canonical_url q \<and>
        policy_path reel_pipeline_transitions (reel_status q) (reel_status (failed_reel reason now q))"
        by (auto intro!: policy_path_step simp: is_transition_allowed_def)
    qed
    then have "reels_follow d0 d'" by (simp add: reels_follow_def rs' update_reel_def)
    ultimately show ?thesis using find_or_discover_follow [OF f] reels_follow_trans by blast
  qed
qed

lemma record_failure_keeps:
  assumes "durable_inv d"
  shows "durable_inv (snd (record_failure run c reason attempted fresh now d))"
proof (rule transactional_keeps [where P = durable_inv, OF transactionalI [OF record_failure_def] assms])
  fix x d' assume "record_failure run c reason attempted fresh now d = (Inr x, d')" "constraints_ok d'"
  then show "durable_inv d'"
    using record_failure_step [OF assms] by (simp add: durable_inv_def)
qed

end
