(* ===== verification/VideoStore.thy ===== *)
theory VideoStore
  imports Tables
begin

text \<open>
  \<open>apps/api/app/repositories/videos.py\<close>: the rows of the published videos. \<open>upsert\<close> inserts a
  row unless one with the object key is there already, and returns the row of that key. No other
  transaction runs between its two statements, so the row it then reads is always found.
\<close>

definition video_by_key :: "string \<Rightarrow> db \<Rightarrow> video option" where
  "video_by_key key d = lookup_row vid_object_key key (videos d)"

definition video_upsert :: "video \<Rightarrow> db \<Rightarrow> (video \<times> bool) \<times> db" where
  "video_upsert row d =
     (case video_by_key (vid_object_key row) d of
        None \<Rightarrow> ((row, True), d\<lparr>videos := videos d @ [row]\<rparr>)
      | Some existing \<Rightarrow> ((existing, False), d))"

lemma video_upsert_row:
  assumes "video_upsert row d = ((v, created), d')"
  shows "v \<in> set (videos d')" "vid_object_key v = vid_object_key row"
    "reels d' = reels d" "jobs d' = jobs d"
    "videos d' = videos d \<or> videos d' = videos d @ [row] \<and> v = row"
    "created \<longrightarrow> v = row"
  using assms by (auto simp: video_upsert_def video_by_key_def split: option.splits
      dest: lookup_row_SomeD)

end
