(* ===== verification/Normalizer.thy ===== *)
theory Normalizer
  imports World Media CollectorStore VideoStore
begin

text \<open>
  \<open>apps/api/app/instagram/normalizer/worker.py\<close>, with the part of \<open>apps/api/app/media/normalize.py\<close>
  it calls: a worker claims one pending job, downloads and verifies the source, normalizes it,
  publishes the result under its digest, commits, and removes the source. Local files are their
  contents. \<open>ffprobe\<close>, \<open>ffmpeg\<close>, SHA-256 and the rounding of a duration to milliseconds are
  fields of \<open>tools\<close>; a tool that cannot start or times out is a fault of the world.
\<close>

record tools =
  t_probe :: "string \<Rightarrow> media_probe result"
  t_decode :: "string \<Rightarrow> bool"
  t_normalize :: "NormalizationStrategy \<Rightarrow> string \<Rightarrow> string option"
  t_sha256 :: "string \<Rightarrow> string"
  t_milliseconds :: "rat \<Rightarrow> int"

record claimed_job =
  cj_job_id :: uuid
  cj_reel_id :: uuid
  cj_shortcode :: string
  cj_source_object_key :: string
  cj_source_sha256 :: string
  cj_source_byte_size :: int
  cj_attempt_count :: int
  cj_staging_prefix :: string

record worker_status =
  ws_pending :: nat
  ws_running :: nat
  ws_completed :: nat
  ws_failed :: nat
  ws_source_ready :: nat
  ws_normalizing :: nat
  ws_ready :: nat
  ws_cleanup_pending :: nat

type_synonym 'a worker_act = "(world, unit, 'a) act"

section \<open>Media tools\<close>

definition probe_media :: "tools \<Rightarrow> string \<Rightarrow> media_probe worker_act" where
  "probe_media tools content = may_fail MediaProbeError (call (t_probe tools content))"

definition validate_decode :: "tools \<Rightarrow> string \<Rightarrow> unit worker_act" where
  "validate_decode tools content = may_fail MediaDecodeError
     (if t_decode tools content then ret () else raise MediaDecodeError)"

definition run_normalization :: "tools \<Rightarrow> NormalizationStrategy \<Rightarrow> string \<Rightarrow> string worker_act" where
  "run_normalization tools strategy content = may_fail MediaNormalizationCommandError
     (call (require MediaNormalizationCommandError (t_normalize tools strategy content)))"

record normalized_media =
  nm_output :: string
  nm_strategy :: NormalizationStrategy
  nm_original_probe :: media_probe
  nm_probe :: media_probe

text \<open>
  \<open>_normalize_to_output\<close> for a source that exists and a fresh \<open>.mp4\<close> path in a directory of its
  own, which is how \<open>normalize_video\<close> calls it.
\<close>

definition normalize_to_output :: "tools \<Rightarrow> string \<Rightarrow> normalized_media worker_act" where
  "normalize_to_output tools source =
     bind (probe_media tools source) (\<lambda>source_probe.
     bind (validate_decode tools source) (\<lambda>_.
     bind (call (select_normalization_strategy source_probe)) (\<lambda>strategy.
     bind (if strategy = PASSTHROUGH then ret source
           else run_normalization tools strategy source) (\<lambda>output.
     bind (probe_media tools output) (\<lambda>normalized_probe.
     bind (validate_decode tools output) (\<lambda>_.
     if \<not> is_canonical_media normalized_probe then raise MediaCompatibilityError
     else if output = [] then raise MediaNormalizationCommandError
     else ret \<lparr>nm_output = output, nm_strategy = strategy, nm_original_probe = source_probe,
                nm_probe = normalized_probe\<rparr>))))))"

section \<open>Claiming\<close>

definition next_job :: "db \<Rightarrow> (norm_job \<times> reel) option" where
  "next_job d = first_by (\<lambda>(j, r). (job_created_at j, job_id j))
     (concat (map (\<lambda>j. map (Pair j)
        (filter (\<lambda>r. reel_id r = job_reel_id j \<and> reel_status r = ReelPipelineStatus.SOURCE_READY)
           (reels d)))
        (filter (\<lambda>j. job_status j = NormalizationJobStatus.PENDING) (jobs d))))"

definition staging_prefix_of :: "uuid \<Rightarrow> int \<Rightarrow> string" where
  "staging_prefix_of job n = ''instagram-normalizer-staging/'' @ uuid_str job @ ''/'' @ show_int n"

definition claim_tx :: "string \<Rightarrow> int \<Rightarrow> timestamp \<Rightarrow> db \<Rightarrow> claimed_job option result \<times> db" where
  "claim_tx worker lease_seconds now = transaction (\<lambda>d.
     (case next_job d of
        None \<Rightarrow> Inr (None, d)
      | Some (job, reel) \<Rightarrow>
          let next_attempt = job_attempt_count job + 1 in
          if next_attempt > max_normalization_attempts then
            Inr (None,
              update_reel (reel_id reel)
                (\<lambda>r. r\<lparr>reel_status := ReelPipelineStatus.FAILED,
                   reel_failure_reason_code := Some (reason_value ReasonCode.RETRY_EXHAUSTED),
                   reel_failed_at := Some now\<rparr>)
              (update_job (job_id job)
                (\<lambda>j. j\<lparr>job_status := NormalizationJobStatus.FAILED,
                   job_reason_code := Some (reason_value ReasonCode.RETRY_EXHAUSTED),
                   job_completed_at := Some now\<rparr>) d))
          else
            let staging = staging_prefix_of (job_id job) next_attempt in
            rbind (require ValueError (reel_source_object_key reel)) (\<lambda>source_key.
            rbind (require ValueError (reel_source_sha256 reel)) (\<lambda>source_sha.
            rbind (require ValueError (reel_source_byte_size reel)) (\<lambda>source_size.
            Inr (Some \<lparr>cj_job_id = job_id job, cj_reel_id = reel_id reel,
                   cj_shortcode = reel_shortcode reel, cj_source_object_key = source_key,
                   cj_source_sha256 = source_sha, cj_source_byte_size = source_size,
                   cj_attempt_count = next_attempt, cj_staging_prefix = staging\<rparr>,
              update_reel (reel_id reel) (\<lambda>r. r\<lparr>reel_status := ReelPipelineStatus.NORMALIZING\<rparr>)
              (update_job (job_id job)
                (\<lambda>j. j\<lparr>job_status := NormalizationJobStatus.RUNNING,
                   job_attempt_count := next_attempt, job_claimed_at := Some now,
                   job_lease_expires_at := Some (now + seconds lease_seconds),
                   job_worker_id := Some worker, job_staging_prefix := Some staging\<rparr>) d)))))))"

definition raise_if_cancelled :: "unit worker_act" where
  "raise_if_cancelled = bind cancel_is_set (\<lambda>c. if c then raise WorkerCancelled else ret ())"

definition claim :: "string \<Rightarrow> int \<Rightarrow> claimed_job option worker_act" where
  "claim worker lease_seconds =
     bind raise_if_cancelled (\<lambda>_.
     bind datetime_now (\<lambda>now. db_call (claim_tx worker lease_seconds now)))"

definition emit :: "string \<Rightarrow> ReasonCode option \<Rightarrow> unit worker_act" where
  "emit event reason = modify (\<lambda>s. s\<lparr>w_events := w_events s @ [(event, reason)]\<rparr>)"

section \<open>Cleaning up\<close>

definition cleanup_staging :: "string \<Rightarrow> unit worker_act" where
  "cleanup_staging pre = attempt
     (bind (storage_list_prefix (pre @ ''/'')) (\<lambda>keys. for_each storage_remove keys))"

definition compensate_final_if_unreferenced :: "string \<Rightarrow> bool \<Rightarrow> unit worker_act" where
  "compensate_final_if_unreferenced final_key created_final =
     (if \<not> created_final then ret ()
      else attempt (bind (db_read (video_by_key final_key)) (\<lambda>referenced.
             if referenced = None then storage_remove final_key else ret ())))"

text \<open>Removing an object that may be gone already: did it go well?\<close>

definition remove_quietly :: "string \<Rightarrow> bool worker_act" where
  "remove_quietly key = try_except (bind (storage_remove key) (\<lambda>_. ret True))
     (\<lambda>e. if e = StorageObjectNotFound then ret True
          else if is_exception e then ret False else raise e)"

definition source_removed_tx :: "uuid \<Rightarrow> db \<Rightarrow> unit result \<times> db" where
  "source_removed_tx reel = transaction (\<lambda>d.
     (case get_reel d reel of
        None \<Rightarrow> Inr ((), d)
      | Some r \<Rightarrow> if reel_status r = ReelPipelineStatus.READY
                  then Inr ((), update_reel reel (\<lambda>r. r\<lparr>reel_cleanup_pending := False\<rparr>) d)
                  else Inr ((), d)))"

definition cleanup_source_after_commit :: "claimed_job \<Rightarrow> unit worker_act" where
  "cleanup_source_after_commit claimed =
     bind (remove_quietly (cj_source_object_key claimed)) (\<lambda>removed.
     if removed then db_call (source_removed_tx (cj_reel_id claimed)) else ret ())"

section \<open>Publishing\<close>

definition hash_file :: "tools \<Rightarrow> string \<Rightarrow> string \<times> int" where
  "hash_file tools content = (t_sha256 tools content, int (length content))"

definition verify_final :: "tools \<Rightarrow> string \<Rightarrow> string \<Rightarrow> int \<Rightarrow> unit worker_act" where
  "verify_final tools final_key expected_sha256 expected_size =
     bind (storage_download_file final_key) (\<lambda>candidate.
     if hash_file tools candidate \<noteq> (expected_sha256, expected_size) then raise FinalObjectConflict
     else bind (probe_media tools candidate) (\<lambda>probe.
          bind (validate_decode tools candidate) (\<lambda>_.
          if \<not> is_worker_canonical probe then raise FinalObjectConflict else ret ())))"

definition publish_final :: "tools \<Rightarrow> string \<Rightarrow> string \<Rightarrow> string \<Rightarrow> bool worker_act" where
  "publish_final tools staging_key final_key output =
     (let (output_sha256, output_size) = hash_file tools output in
      bind (try_except (bind (storage_stat final_key) (\<lambda>stored_size. ret (Some stored_size)))
              (\<lambda>e. if e = StorageObjectNotFound then ret None else raise e)) (\<lambda>existing.
      case existing of
        None \<Rightarrow>
          bind (storage_copy staging_key final_key) (\<lambda>_.
          bind (try_except (verify_final tools final_key output_sha256 output_size)
                  (\<lambda>e. if is_exception e
                       then bind (compensate_final_if_unreferenced final_key True) (\<lambda>_. raise e)
                       else raise e)) (\<lambda>_. ret True))
      | Some stored_size \<Rightarrow>
          if stored_size \<noteq> output_size then raise FinalObjectConflict
          else bind (verify_final tools final_key output_sha256 output_size) (\<lambda>_. ret False)))"

definition final_object_key :: "string \<Rightarrow> string" where
  "final_object_key sha = ''videos/'' @ sha @ ''.mp4''"

definition is_owned_running :: "string \<Rightarrow> norm_job \<Rightarrow> bool" where
  "is_owned_running worker j \<longleftrightarrow>
     job_status j = NormalizationJobStatus.RUNNING \<and> job_worker_id j = Some worker"

definition published_video :: "tools \<Rightarrow> claimed_job \<Rightarrow> string \<Rightarrow> string \<Rightarrow> int \<Rightarrow> string \<Rightarrow> string \<Rightarrow>
    media_probe \<Rightarrow> rat \<Rightarrow> uuid \<Rightarrow> timestamp \<Rightarrow> video" where
  "published_video tools claimed final_key output_sha256 output_size strategy original_codec
       probe duration fresh now =
     \<lparr>vid_id = fresh, vid_title = ''Instagram Reel '' @ cj_shortcode claimed,
      vid_object_key = final_key, vid_content_type = ''video/mp4'', vid_byte_size = output_size,
      vid_normalization_strategy = Some strategy,
      vid_original_video_codec = Some (lower original_codec),
      vid_normalized_video_codec = Some (lower (video_codec probe)),
      vid_width = width probe, vid_height = height probe,
      vid_duration_ms = Some (t_milliseconds tools duration),
      vid_file_size_bytes = Some output_size, vid_has_audio = Some (audio_codecs probe \<noteq> []),
      vid_normalized_at = Some now, vid_content_sha256 = Some output_sha256,
      vid_created_at = now\<rparr>"

definition commit_ready_tx :: "tools \<Rightarrow> string \<Rightarrow> claimed_job \<Rightarrow> string \<Rightarrow> string \<Rightarrow> int \<Rightarrow> string \<Rightarrow>
    string \<Rightarrow> media_probe \<Rightarrow> uuid \<Rightarrow> timestamp \<Rightarrow> db \<Rightarrow> unit result \<times> db" where
  "commit_ready_tx tools worker claimed final_key output_sha256 output_size strategy original_codec
       probe fresh now = transaction (\<lambda>d.
     (case (get_job d (cj_job_id claimed), get_reel d (cj_reel_id claimed)) of
        (Some job, Some reel) \<Rightarrow>
          if \<not> is_owned_running worker job then Inl WorkerCancelled
          else rbind (require ValueError (duration_seconds probe)) (\<lambda>duration.
            (case video_upsert (published_video tools claimed final_key output_sha256 output_size
                    strategy original_codec probe duration fresh now) d of
               ((v, _), d1) \<Rightarrow>
                 if (vid_content_sha256 v \<noteq> None \<and> vid_content_sha256 v \<noteq> Some output_sha256)
                    \<or> vid_byte_size v \<noteq> output_size
                 then Inl FinalObjectConflict
                 else Inr ((),
                   update_job (cj_job_id claimed)
                     (\<lambda>j. j\<lparr>job_status := NormalizationJobStatus.COMPLETED, job_reason_code := None,
                        job_completed_at := Some now, job_lease_expires_at := None,
                        job_worker_id := None\<rparr>)
                   (update_reel (cj_reel_id claimed)
                     (\<lambda>r. r\<lparr>reel_video_id := Some (vid_id v),
                        reel_status := ReelPipelineStatus.READY, reel_ready_at := Some now,
                        reel_failure_reason_code := None, reel_cleanup_pending := True\<rparr>) d1))))
      | _ \<Rightarrow> Inl WorkerCancelled))"

definition commit_ready :: "tools \<Rightarrow> string \<Rightarrow> claimed_job \<Rightarrow> string \<Rightarrow> string \<Rightarrow> int \<Rightarrow> string \<Rightarrow>
    string \<Rightarrow> media_probe \<Rightarrow> unit worker_act" where
  "commit_ready tools worker claimed final_key output_sha256 output_size strategy original_codec
       probe =
     bind datetime_now (\<lambda>now. bind uuid4 (\<lambda>fresh.
       db_call (commit_ready_tx tools worker claimed final_key output_sha256 output_size strategy
         original_codec probe fresh now)))"

section \<open>Processing a job\<close>

definition download_and_verify_source :: "tools \<Rightarrow> claimed_job \<Rightarrow> string worker_act" where
  "download_and_verify_source tools claimed =
     bind (storage_stat (cj_source_object_key claimed)) (\<lambda>size.
     if size \<noteq> cj_source_byte_size claimed then raise SourceSizeMismatch
     else bind (storage_download_file (cj_source_object_key claimed)) (\<lambda>source.
       let (actual_sha256, actual_size) = hash_file tools source in
       if actual_size \<noteq> cj_source_byte_size claimed then raise SourceSizeMismatch
       else if actual_sha256 \<noteq> cj_source_sha256 claimed then raise SourceHashMismatch
       else bind (probe_media tools source) (\<lambda>_. ret source)))"

definition process :: "tools \<Rightarrow> string \<Rightarrow> claimed_job \<Rightarrow> unit worker_act" where
  "process tools worker claimed =
     bind raise_if_cancelled (\<lambda>_.
     bind (download_and_verify_source tools claimed) (\<lambda>source.
     bind (emit ''source_verified'' None) (\<lambda>_.
     bind raise_if_cancelled (\<lambda>_.
     bind (normalize_to_output tools source) (\<lambda>normalized.
     bind (emit (strategy_value (nm_strategy normalized)) None) (\<lambda>_.
     bind raise_if_cancelled (\<lambda>_.
     if \<not> is_worker_canonical (nm_probe normalized) then raise MediaCompatibilityError
     else
       let (output_sha256, output_size) = hash_file tools (nm_output normalized);
           staging_key = cj_staging_prefix claimed @ ''/canonical.mp4'';
           final_key = final_object_key output_sha256
       in
       bind (storage_upload_file staging_key (nm_output normalized) ''video/mp4'') (\<lambda>_.
       bind (emit ''normalized'' None) (\<lambda>_.
       bind (publish_final tools staging_key final_key (nm_output normalized)) (\<lambda>created_final.
       bind (emit ''final_published'' None) (\<lambda>_.
       bind raise_if_cancelled (\<lambda>_.
       bind (try_except
               (commit_ready tools worker claimed final_key output_sha256 output_size
                  (strategy_value (nm_strategy normalized))
                  (video_codec (nm_original_probe normalized)) (nm_probe normalized))
               (\<lambda>e. if is_exception e
                    then bind (compensate_final_if_unreferenced final_key created_final)
                           (\<lambda>_. raise e)
                    else raise e)) (\<lambda>_.
       bind (emit ''db_committed'' None) (\<lambda>_.
       bind (cleanup_source_after_commit claimed) (\<lambda>_.
       emit ''completed'' None)))))))))))))))"

section \<open>Failure\<close>

definition is_sqlalchemy_error :: "exn \<Rightarrow> bool" where
  "is_sqlalchemy_error e \<longleftrightarrow> e = SQLAlchemyError \<or> e = IntegrityError"

text \<open>The timeouts of the media tools are subclasses of the errors that are listed.\<close>

definition classify_error :: "exn \<Rightarrow> ReasonCode \<times> bool" where
  "classify_error e =
     (if e = StorageObjectNotFound then (ReasonCode.SOURCE_MISSING, True)
      else if e = SourceHashMismatch then (ReasonCode.SOURCE_HASH_MISMATCH, False)
      else if e = SourceSizeMismatch then (ReasonCode.SOURCE_SIZE_MISMATCH, False)
      else if e = MediaProbeError then (ReasonCode.FFPROBE_FAILED, False)
      else if e = MediaDecodeError then (ReasonCode.FULL_DECODE_FAILED, False)
      else if e = MediaCompatibilityError then (ReasonCode.INCOMPATIBLE_OUTPUT, False)
      else if e = MediaNormalizationCommandError then (ReasonCode.NORMALIZATION_FAILED, False)
      else if e = exn.FinalObjectConflict then (ReasonCode.FINAL_OBJECT_CONFLICT, False)
      else if is_sqlalchemy_error e then (ReasonCode.POSTGRES_COMMIT_FAILURE, True)
      else if e = exn.WorkerCancelled then (ReasonCode.WORKER_CANCELLED, True)
      else (ReasonCode.MINIO_TRANSIENT_FAILURE, True))"

text \<open>The job and the Reel after a failed attempt; \<open>fresh\<close> is the id of the retry.\<close>

definition fail_job :: "ReasonCode \<Rightarrow> timestamp \<Rightarrow> norm_job \<Rightarrow> norm_job" where
  "fail_job reason now j =
     j\<lparr>job_status := NormalizationJobStatus.FAILED, job_reason_code := Some (reason_value reason),
       job_completed_at := Some now, job_lease_expires_at := None, job_worker_id := None\<rparr>"

definition finish_failure_tx :: "string \<Rightarrow> claimed_job \<Rightarrow> ReasonCode \<Rightarrow> bool \<Rightarrow> uuid \<Rightarrow> timestamp \<Rightarrow>
    db \<Rightarrow> unit result \<times> db" where
  "finish_failure_tx worker claimed reason retryable fresh now = transaction (\<lambda>d.
     (case (get_job d (cj_job_id claimed), get_reel d (cj_reel_id claimed)) of
        (Some job, Some reel) \<Rightarrow>
          if \<not> is_owned_running worker job then Inr ((), d)
          else
            let d1 = update_job (cj_job_id claimed) (fail_job reason now) d in
            if retryable \<and> job_attempt_count job < max_normalization_attempts then
              let d2 = update_reel (cj_reel_id claimed)
                    (\<lambda>r. r\<lparr>reel_status := ReelPipelineStatus.SOURCE_READY,
                       reel_failure_reason_code := Some (reason_value reason)\<rparr>) d1
              in Inr ((), d2\<lparr>jobs := jobs d2 @
                            [new_job fresh (reel_id reel) (job_attempt_count job) now]\<rparr>)
            else
              Inr ((), update_reel (cj_reel_id claimed)
                    (\<lambda>r. r\<lparr>reel_status := ReelPipelineStatus.FAILED,
                       reel_failure_reason_code := Some (reason_value
                         (if retryable then ReasonCode.RETRY_EXHAUSTED else reason)),
                       reel_failed_at := Some now\<rparr>) d1)
      | _ \<Rightarrow> Inr ((), d)))"

definition finish_failure :: "string \<Rightarrow> claimed_job \<Rightarrow> ReasonCode \<Rightarrow> bool \<Rightarrow> unit worker_act" where
  "finish_failure worker claimed reason retryable =
     bind datetime_now (\<lambda>now. bind uuid4 (\<lambda>fresh.
       try_except (db_call (finish_failure_tx worker claimed reason retryable fresh now))
         (\<lambda>e. if is_sqlalchemy_error e then ret () else raise e)))"

definition handle_failure :: "string \<Rightarrow> claimed_job \<Rightarrow> exn \<Rightarrow> unit worker_act" where
  "handle_failure worker claimed e =
     (if e = exn.WorkerCancelled then
        bind (finish_failure worker claimed ReasonCode.WORKER_CANCELLED True)
          (\<lambda>_. emit ''failed'' (Some ReasonCode.WORKER_CANCELLED))
      else if is_exception e then
        (case classify_error e of (reason, retryable) \<Rightarrow>
           bind (finish_failure worker claimed reason retryable)
             (\<lambda>_. emit ''failed'' (Some reason)))
      else raise e)"

definition run_once :: "tools \<Rightarrow> string \<Rightarrow> int \<Rightarrow> bool worker_act" where
  "run_once tools worker lease_seconds =
     bind cancel_is_set (\<lambda>c. if c then ret False else
     bind (claim worker lease_seconds) (\<lambda>claimed.
     case claimed of
       None \<Rightarrow> ret False
     | Some claimed \<Rightarrow>
         bind (emit ''claimed'' None) (\<lambda>_.
         bind (finally_do
                 (try_except (process tools worker claimed) (handle_failure worker claimed))
                 (cleanup_staging (cj_staging_prefix claimed))) (\<lambda>_.
         ret True))))"

section \<open>Reconciliation\<close>

definition stale_job :: "timestamp \<Rightarrow> norm_job \<Rightarrow> bool" where
  "stale_job now j \<longleftrightarrow>
     job_status j = NormalizationJobStatus.RUNNING \<and>
     (case job_lease_expires_at j of None \<Rightarrow> False | Some t \<Rightarrow> t < now)"

definition recover_job :: "timestamp \<Rightarrow> uuid \<Rightarrow> norm_job \<Rightarrow> db \<Rightarrow> db" where
  "recover_job now fresh job d =
     (let d1 = update_job (job_id job) (fail_job ReasonCode.STALE_LEASE_RECOVERED now) d in
      if job_attempt_count job < max_normalization_attempts then
        let d2 = update_reel (job_reel_id job)
              (\<lambda>r. r\<lparr>reel_status := ReelPipelineStatus.SOURCE_READY\<rparr>) d1
        in d2\<lparr>jobs := jobs d2 @ [new_job fresh (job_reel_id job) (job_attempt_count job) now]\<rparr>
      else update_reel (job_reel_id job)
             (\<lambda>r. r\<lparr>reel_status := ReelPipelineStatus.FAILED,
                reel_failure_reason_code := Some (reason_value ReasonCode.RETRY_EXHAUSTED),
                reel_failed_at := Some now\<rparr>) d1)"

text \<open>The stale jobs one after the other; a job whose Reel is gone is skipped.\<close>

fun recover_jobs :: "timestamp \<Rightarrow> uuid list \<Rightarrow> norm_job list \<Rightarrow> db \<Rightarrow> string list \<times> int \<times> db" where
  "recover_jobs now fresh [] d = ([], 0, d)"
| "recover_jobs now fresh (job # js) d =
     (if get_reel d (job_reel_id job) = None then recover_jobs now (tl fresh) js d
      else case recover_jobs now (tl fresh) js (recover_job now (pop 0 fresh) job d) of
             (stale_prefixes, recovered, d') \<Rightarrow>
               ((case job_staging_prefix job of
                   None \<Rightarrow> stale_prefixes
                 | Some p \<Rightarrow> if p = [] then stale_prefixes else p # stale_prefixes), recovered + 1, d'))"

definition recover_tx :: "timestamp \<Rightarrow> uuid list \<Rightarrow> db \<Rightarrow> (string list \<times> int) result \<times> db" where
  "recover_tx now fresh = transaction (\<lambda>d.
     (case recover_jobs now fresh (filter (stale_job now) (jobs d)) d of
        (stale_prefixes, recovered, d') \<Rightarrow> Inr ((stale_prefixes, recovered), d')))"

definition cleaned_tx :: "uuid \<Rightarrow> db \<Rightarrow> bool result \<times> db" where
  "cleaned_tx reel = transaction (\<lambda>d.
     (case get_reel d reel of
        None \<Rightarrow> Inr (False, d)
      | Some current \<Rightarrow>
          if reel_cleanup_pending current
          then Inr (True, update_reel reel (\<lambda>r. r\<lparr>reel_cleanup_pending := False\<rparr>) d)
          else Inr (False, d)))"

fun clean_sources :: "reel list \<Rightarrow> int \<Rightarrow> int worker_act" where
  "clean_sources [] cleaned = ret cleaned"
| "clean_sources (r # rs) cleaned =
     (case reel_source_object_key r of
        None \<Rightarrow> clean_sources rs cleaned
      | Some key \<Rightarrow>
          if key = [] then clean_sources rs cleaned
          else bind (remove_quietly key) (\<lambda>removed.
            if \<not> removed then clean_sources rs cleaned
            else bind (db_call (cleaned_tx (reel_id r))) (\<lambda>flag.
              clean_sources rs (if flag then cleaned + 1 else cleaned))))"

definition reconcile_source_cleanup :: "int worker_act" where
  "reconcile_source_cleanup =
     bind (db_read (\<lambda>d. filter (\<lambda>r. reel_status r = ReelPipelineStatus.READY \<and>
                                  reel_cleanup_pending r) (reels d)))
       (\<lambda>rows. clean_sources rows 0)"

definition reconcile :: "(int \<times> int) worker_act" where
  "reconcile =
     bind datetime_now (\<lambda>now.
     bind (with_state (\<lambda>s. uuid4s (length (jobs (w_db s))))) (\<lambda>fresh.
     bind (db_call (recover_tx now fresh)) (\<lambda>(stale_prefixes, recovered).
     bind (for_each cleanup_staging stale_prefixes) (\<lambda>_.
     bind reconcile_source_cleanup (\<lambda>cleaned. ret (recovered, cleaned))))))"

section \<open>Reports\<close>

definition count_jobs :: "NormalizationJobStatus \<Rightarrow> db \<Rightarrow> nat" where
  "count_jobs st d = length (filter (\<lambda>j. job_status j = st) (jobs d))"

definition count_reels :: "ReelPipelineStatus \<Rightarrow> db \<Rightarrow> nat" where
  "count_reels st d = length (filter (\<lambda>r. reel_status r = st) (reels d))"

definition worker_status_of :: "db \<Rightarrow> worker_status" where
  "worker_status_of d =
     \<lparr>ws_pending = count_jobs NormalizationJobStatus.PENDING d,
      ws_running = count_jobs NormalizationJobStatus.RUNNING d,
      ws_completed = count_jobs NormalizationJobStatus.COMPLETED d,
      ws_failed = count_jobs NormalizationJobStatus.FAILED d,
      ws_source_ready = count_reels ReelPipelineStatus.SOURCE_READY d,
      ws_normalizing = count_reels ReelPipelineStatus.NORMALIZING d,
      ws_ready = count_reels ReelPipelineStatus.READY d,
      ws_cleanup_pending = length (filter reel_cleanup_pending (reels d))\<rparr>"

end
