(* ===== verification/SourceStorage.thy ===== *)
theory SourceStorage
  imports Normalizer
begin

text \<open>
  The Collector's side of the object store: \<open>runtime/minio_storage.py\<close>, \<open>runtime/validator.py\<close>
  and \<open>runtime/errors.py\<close> of \<open>apps/api/app/instagram/collector/\<close>. A resolved path is the list of its
  components; the regular files are a map from paths to contents, no symbolic links among them.
  The feed and the downloader are ports: what their calls return, and what a download leaves on
  the disk, are lists of the world, so that a statement about every world is one about every feed
  and every download.
\<close>

type_synonym path = "string list"

record collector = world +
  c_files :: "(path \<times> string) list"
  c_feed :: "(exn + reel_candidate option) list"
  c_downloads :: "(string option \<times> exn option) list"
  c_monotonic :: "rat list"
  c_recorded :: "(int \<times> string) list"

record published_source =
  pub_object_key :: string
  pub_created_by_attempt :: bool

record storage_config =
  sc_workspace_root :: path
  sc_maximum_bytes :: int

definition storage_failed :: exn where
  "storage_failed = CollectorRuntimeError ''STORAGE_FAILED''"

definition validation_failed :: exn where
  "validation_failed = CollectorRuntimeError ''VALIDATION_FAILED''"

text \<open>\<open>except Exception as error: raise CollectorRuntimeError(code) from error\<close>.\<close>

definition translating :: "exn \<Rightarrow> ('s, 'r, 'a) act \<Rightarrow> ('s, 'r, 'a) act" where
  "translating e' a = try_except a (\<lambda>e. if is_exception e then raise e' else raise e)"

section \<open>Paths and keys\<close>

text \<open>\<open>Path(p).name\<close> and \<open>Path(p).stem\<close> of a POSIX path.\<close>

definition path_name :: "string \<Rightarrow> string" where
  "path_name p =
     (case rev (filter (\<lambda>w. w \<noteq> [] \<and> w \<noteq> ''.'') (split_on (CHR ''/'') p)) of
        [] \<Rightarrow> []
      | w # _ \<Rightarrow> w)"

definition path_stem :: "string \<Rightarrow> string" where
  "path_stem p =
     (let name = path_name p in
      case rpartition (CHR ''.'') name of
        (stem, found, ext) \<Rightarrow> if found \<and> stem \<noteq> [] \<and> ext \<noteq> [] then stem else name)"

definition validated_key :: "string \<Rightarrow> string result" where
  "validated_key key =
     (if \<not> startswith key ''instagram-sources/'' then Inl storage_failed
      else rbind (source_object_key (path_stem key)) (\<lambda>expected.
        if key \<noteq> expected then Inl storage_failed else Inr key))"

definition temporary_root :: "storage_config \<Rightarrow> path" where
  "temporary_root cfg = sc_workspace_root cfg @ [''temporary'']"

definition temporary_path :: "storage_config \<Rightarrow> string \<Rightarrow> path result" where
  "temporary_path cfg code =
     rbind (source_object_key code) (\<lambda>key.
       Inr (temporary_root cfg @ [path_stem key @ ''.part'']))"

definition is_parent :: "path \<Rightarrow> path \<Rightarrow> bool" where
  "is_parent base p \<longleftrightarrow> length base < length p \<and> take (length base) p = base"

definition validated_temporary_path :: "storage_config \<Rightarrow> path \<Rightarrow> path result" where
  "validated_temporary_path cfg p =
     (if \<not> is_parent (sc_workspace_root cfg) p \<or> \<not> is_parent (temporary_root cfg) p
      then Inl storage_failed else Inr p)"

section \<open>Files\<close>

definition read_file :: "path \<Rightarrow> ('c collector_scheme, 'r, string) act" where
  "read_file p = with_state (\<lambda>s.
     case map_of (c_files s) p of None \<Rightarrow> raise OtherError | Some content \<Rightarrow> ret content)"

definition write_file :: "path \<Rightarrow> string \<Rightarrow> ('c collector_scheme, 'r, unit) act" where
  "write_file p content = modify (\<lambda>s. s\<lparr>c_files := (p, content) # c_files s\<rparr>)"

definition unlink :: "path \<Rightarrow> ('c collector_scheme, 'r, unit) act" where
  "unlink p = modify (\<lambda>s. s\<lparr>c_files := filter (\<lambda>e. fst e \<noteq> p) (c_files s)\<rparr>)"

section \<open>Source storage\<close>

text \<open>\<open>stat_object\<close>, \<open>None\<close> where the client says that there is no such key.\<close>

definition stat_source :: "string \<Rightarrow> ('c collector_scheme, 'r, stored_object option) act" where
  "stat_source key = translating storage_failed
     (may_fail OtherError (with_state (\<lambda>s. ret (store_get (w_store s) key))))"

definition existing_matches :: "tools \<Rightarrow> string \<Rightarrow> string \<Rightarrow> stored_object \<Rightarrow>
    ('c collector_scheme, 'r, bool) act" where
  "existing_matches tools key content stat =
     (if length (obj_content stat) \<noteq> length content then ret False
      else if obj_content_type stat \<noteq> ''video/mp4'' then ret False
      else translating storage_failed
        (bind (storage_download_file key) (\<lambda>remote.
           ret (t_sha256 tools remote = t_sha256 tools content))))"

definition publish_source :: "tools \<Rightarrow> storage_config \<Rightarrow> path \<Rightarrow> string \<Rightarrow>
    ('c collector_scheme, 'r, published_source) act" where
  "publish_source tools cfg temporary object_key =
     bind (call (validated_key object_key)) (\<lambda>key.
     bind (call (validated_temporary_path cfg temporary)) (\<lambda>p.
     bind (read_file p) (\<lambda>content.
     if int (length content) \<le> 0 \<or> int (length content) > sc_maximum_bytes cfg
     then raise storage_failed
     else
       bind (stat_source key) (\<lambda>stat.
       case stat of
         Some stat \<Rightarrow>
           bind (existing_matches tools key content stat) (\<lambda>same.
           if \<not> same then raise (CollectorRuntimeError ''STORAGE_OBJECT_CONFLICT'')
           else ret \<lparr>pub_object_key = key, pub_created_by_attempt = False\<rparr>)
       | None \<Rightarrow>
           bind (translating storage_failed (storage_upload_file key content ''video/mp4'')) (\<lambda>_.
           ret \<lparr>pub_object_key = key, pub_created_by_attempt = True\<rparr>)))))"

definition source_exists :: "string \<Rightarrow> ('c collector_scheme, 'r, bool) act" where
  "source_exists object_key =
     bind (call (validated_key object_key)) (\<lambda>key.
     bind (stat_source key) (\<lambda>stat. ret (stat \<noteq> None)))"

definition delete_source :: "string \<Rightarrow> ('c collector_scheme, 'r, unit) act" where
  "delete_source object_key =
     bind (call (validated_key object_key)) (\<lambda>key.
       translating storage_failed (storage_remove key))"

definition cleanup_temporary_file :: "storage_config \<Rightarrow> path \<Rightarrow> ('c collector_scheme, 'r, unit) act" where
  "cleanup_temporary_file cfg temporary =
     bind (call (validated_temporary_path cfg temporary)) unlink"

section \<open>Source validation\<close>

definition acceptable_source :: "media_probe \<Rightarrow> bool" where
  "acceptable_source probe \<longleftrightarrow>
     \<not> (''mp4'' \<notin> set (container_formats probe) \<or> audio_codecs probe = [] \<or>
        (case duration_seconds probe of None \<Rightarrow> True | Some d \<Rightarrow> d \<le> 0) \<or>
        (case width probe of None \<Rightarrow> True | Some n \<Rightarrow> n \<le> 0) \<or>
        (case height probe of None \<Rightarrow> True | Some n \<Rightarrow> n \<le> 0))"

definition validate_source :: "tools \<Rightarrow> storage_config \<Rightarrow> path \<Rightarrow>
    ('c collector_scheme, 'r, validated_source) act" where
  "validate_source tools cfg temporary = with_state (\<lambda>s.
     case (if is_parent (sc_workspace_root cfg) temporary then map_of (c_files s) temporary
           else None) of
       None \<Rightarrow> raise validation_failed
     | Some content \<Rightarrow>
         if int (length content) \<le> 0 \<or> int (length content) > sc_maximum_bytes cfg
         then raise validation_failed
         else
           bind (translating validation_failed (may_fail MediaProbeError (call (t_probe tools content))))
             (\<lambda>probe.
             if \<not> acceptable_source probe then raise validation_failed
             else ret \<lparr>src_sha256 = t_sha256 tools content, src_byte_size = int (length content),
                        src_content_type = ''video/mp4''\<rparr>))"

end
