(* ===== verification/Engine.thy ===== *)
theory Engine
  imports SourceStorage
begin

text \<open>
  \<open>apps/api/app/instagram/collector/service.py\<close>: \<open>CollectorEngine.collect\<close> observes the current
  Reel of a feed, acquires it unless it is durable already, and moves on only after the outcome is
  committed. The local variables of \<open>collect\<close> are fields of the state. The persistence port is
  \<open>CollectorPersistence\<close>, the storage and validator ports are those of \<open>SourceStorage\<close>; the feed
  and the downloader are the lists of the world. What a recorder does with an event cannot reach
  the engine, which catches what it raises: events are appended to \<open>c_recorded\<close>. The diagnostic
  counters of a transition are never read by the engine and are left out. A clock reading is
  exact.
\<close>

record limits =
  max_target :: int
  max_advances :: int
  max_transition_operations :: "int option"
  max_scroll_actions :: "int option"
  max_run_bytes :: "int option"
  cooldown_seconds :: rat
  deadline_seconds :: "rat option"
  max_observations :: "int option"

record collector_summary =
  cs_run_id :: uuid
  cs_status :: string
  cs_target_count :: int
  cs_source_committed_count :: int
  cs_already_available_count :: int
  cs_failed_count :: int
  cs_confirmed_advances :: int
  cs_stop_reason_code :: "string option"
  cs_observations :: int
  cs_duplicate_skipped_count :: int

text \<open>The engine's collaborators and the arguments of \<open>collect\<close>.\<close>

record engine_config =
  ec_tools :: tools
  ec_storage :: storage_config
  ec_limits :: limits
  ec_authenticated_feed :: bool
  ec_account_id :: uuid
  ec_trigger :: CollectionTrigger
  ec_target_count :: int
  ec_desired_account_total :: "int option"
  ec_claimed_run_id :: "uuid option"

record engine = collector +
  l_confirmed_advances :: int
  l_transition_operations :: int
  l_scroll_actions :: int
  l_committed_bytes :: int
  l_seen :: "string list"
  l_duplicate_skipped_count :: int
  l_observations :: int
  l_reason :: "string option"
  l_position :: int
  l_candidate :: reel_candidate
  l_published :: "published_source option"
  l_stage :: string
  l_download_attempted :: bool
  l_db_committed :: bool

type_synonym 'a engine_act = "(engine, collector_summary, 'a) act"

section \<open>Small steps\<close>

definition clock_reading :: "rat engine_act" where
  "clock_reading = with_state (\<lambda>s.
     bind (modify (\<lambda>s. s\<lparr>c_monotonic := tl (c_monotonic s)\<rparr>)) (\<lambda>_. ret (pop 0 (c_monotonic s))))"

definition deadline_expired :: "rat option \<Rightarrow> bool engine_act" where
  "deadline_expired deadline =
     (case deadline of None \<Rightarrow> ret False | Some t \<Rightarrow> bind clock_reading (\<lambda>now. ret (now \<ge> t)))"

definition require_deadline :: "rat option \<Rightarrow> unit engine_act" where
  "require_deadline deadline =
     bind (deadline_expired deadline) (\<lambda>e. if e then raise CollectorDeadlineExceeded else ret ())"

definition record_event :: "string \<Rightarrow> unit engine_act" where
  "record_event event =
     modify (\<lambda>s. s\<lparr>c_recorded := c_recorded s @ [(l_position s, event)]\<rparr>)"

definition set_reason :: "string \<Rightarrow> unit engine_act" where
  "set_reason reason = modify (\<lambda>s. s\<lparr>l_reason := Some reason\<rparr>)"

definition break_with :: "string \<Rightarrow> unit engine_act" where
  "break_with reason = bind (set_reason reason) (\<lambda>_. stop Break)"

definition break_if_expired :: "rat option \<Rightarrow> unit engine_act" where
  "break_if_expired deadline =
     bind (deadline_expired deadline)
       (\<lambda>e. if e then break_with ''TOTAL_TIMEOUT_REACHED'' else ret ())"

text \<open>A read whose result may be an exception.\<close>

definition db_query :: "(db \<Rightarrow> 'x result) \<Rightarrow> 'x engine_act" where
  "db_query f = bind (db_read f) call"

text \<open>
  The management API may have asked for the cancellation of the run since the last test: it sets
  \<open>cancel_requested_at\<close> of the row.
\<close>

definition request_cancel :: "uuid \<Rightarrow> timestamp \<Rightarrow> db \<Rightarrow> db" where
  "request_cancel run now d = update_run run (\<lambda>r. r\<lparr>run_cancel_requested_at := Some now\<rparr>) d"

definition others_may_cancel :: "uuid \<Rightarrow> unit engine_act" where
  "others_may_cancel run = with_state (\<lambda>s.
     bind (modify (\<lambda>s. s\<lparr>w_cancel := tl (w_cancel s)\<rparr>)) (\<lambda>_.
     if pop False (w_cancel s)
     then bind datetime_now (\<lambda>now. modify (\<lambda>s. s\<lparr>w_db := request_cancel run now (w_db s)\<rparr>))
     else ret ()))"

definition raise_if_cancel_requested :: "uuid \<Rightarrow> unit engine_act" where
  "raise_if_cancel_requested run =
     bind (others_may_cancel run) (\<lambda>_.
     bind (db_read (cancellation_requested run)) (\<lambda>c.
     if c then raise KeyboardInterrupt else ret ()))"

fun safe_exception_code :: "exn \<Rightarrow> string option" where
  "safe_exception_code (CollectorRuntimeError code) = Some code"
| "safe_exception_code _ = None"

definition safe_fail_run :: "uuid \<Rightarrow> string \<Rightarrow> unit engine_act" where
  "safe_fail_run run reason =
     attempt (bind datetime_now (\<lambda>now. db_call (fail_run run reason now)))"

definition safe_cancel_run :: "uuid \<Rightarrow> unit engine_act" where
  "safe_cancel_run run =
     attempt (bind datetime_now (\<lambda>now.
       bind (db_call (cancel_run run ''CANCELLED_BY_USER'' now)) (\<lambda>_. ret ())))"

definition summarize :: "engine_config \<Rightarrow> uuid \<Rightarrow> string option \<Rightarrow> string \<Rightarrow> collector_summary engine_act" where
  "summarize cfg run reason expected_status =
     bind (try_except
             (bind (db_query (run_summary run)) (\<lambda>(committed, available, failed, _).
                ret (committed, available, failed)))
             (\<lambda>e. if is_exception e then ret (0, 0, 0) else raise e))
       (\<lambda>(committed, available, failed). with_state (\<lambda>s.
          ret \<lparr>cs_run_id = run, cs_status = expected_status, cs_target_count = ec_target_count cfg,
               cs_source_committed_count = committed, cs_already_available_count = available,
               cs_failed_count = failed, cs_confirmed_advances = l_confirmed_advances s,
               cs_stop_reason_code = reason, cs_observations = l_observations s,
               cs_duplicate_skipped_count = l_duplicate_skipped_count s\<rparr>))"

text \<open>\<open>return self._summary(...)\<close>.\<close>

definition return_summary :: "engine_config \<Rightarrow> uuid \<Rightarrow> string option \<Rightarrow> string \<Rightarrow> unit engine_act" where
  "return_summary cfg run reason status =
     bind (summarize cfg run reason status) (\<lambda>s. stop (Return s))"

definition fail_and_return :: "engine_config \<Rightarrow> uuid \<Rightarrow> string \<Rightarrow> string option \<Rightarrow> unit engine_act" where
  "fail_and_return cfg run recorded reason =
     bind (safe_fail_run run recorded) (\<lambda>_. return_summary cfg run reason ''failed'')"

definition cancel_and_return :: "engine_config \<Rightarrow> uuid \<Rightarrow> string \<Rightarrow> unit engine_act" where
  "cancel_and_return cfg run reason =
     bind (safe_cancel_run run) (\<lambda>_. return_summary cfg run (Some reason) ''cancelled'')"

section \<open>The feed\<close>

definition feed_response :: "reel_candidate option engine_act" where
  "feed_response = with_state (\<lambda>s.
     bind (modify (\<lambda>s. s\<lparr>c_feed := tl (c_feed s)\<rparr>)) (\<lambda>_.
     call (pop (Inl OtherError) (c_feed s))))"

text \<open>\<open>feed.current()\<close>; validating \<open>None\<close> raises an \<open>AttributeError\<close>.\<close>

definition feed_current :: "reel_candidate engine_act" where
  "feed_current = bind feed_response (\<lambda>c. call (require OtherError c))"

definition with_type_error_fallback :: "'x engine_act \<Rightarrow> 'x engine_act" where
  "with_type_error_fallback a = try_except a (\<lambda>e. if e = TypeError then a else raise e)"

definition wait_for_next :: "reel_candidate option engine_act" where
  "wait_for_next = with_type_error_fallback feed_response"

type_synonym transition = "reel_candidate option \<times> int \<times> string option"

text \<open>One wheel of \<open>_confirm_transition\<close>; \<open>None\<close> goes on to the next.\<close>

definition transition_attempt :: "rat option \<Rightarrow> int option \<Rightarrow> int \<Rightarrow> transition option engine_act" where
  "transition_attempt deadline remaining n =
     (if (case remaining of None \<Rightarrow> False | Some r \<Rightarrow> n > r)
      then ret (Some (None, n - 1, Some ''ADVANCE_LIMIT_REACHED''))
      else
        bind (try_except
                (bind (require_deadline deadline) (\<lambda>_. bind feed_response (\<lambda>_. ret None)))
                (\<lambda>e. if e = CollectorDeadlineExceeded
                     then ret (Some (None, n - 1, Some ''TOTAL_TIMEOUT_REACHED''))
                     else raise e))
          (\<lambda>stopped. case stopped of
             Some r \<Rightarrow> ret (Some r)
           | None \<Rightarrow>
               bind (record_event (if n = 1 then ''advance'' else ''advance_retry'')) (\<lambda>_.
               bind wait_for_next (\<lambda>next. case next of
                 Some c \<Rightarrow> ret (Some (Some c, n, None))
               | None \<Rightarrow>
                   bind (deadline_expired deadline) (\<lambda>e.
                   ret (if e then Some (None, n, Some ''TOTAL_TIMEOUT_REACHED'') else None))))))"

definition confirm_transition :: "engine_config \<Rightarrow> rat option \<Rightarrow> int option \<Rightarrow> transition engine_act" where
  "confirm_transition cfg deadline remaining =
     (if ec_authenticated_feed cfg then
        bind (with_type_error_fallback feed_response) (\<lambda>next. case next of
          Some c \<Rightarrow> bind (record_event ''feed_source_advance'') (\<lambda>_. ret (Some c, 0, None))
        | None \<Rightarrow> ret (None, 0, Some ''AUTHENTICATED_FEED_EXHAUSTED''))
      else
        bind (transition_attempt deadline remaining 1) (\<lambda>first. case first of
          Some r \<Rightarrow> ret r
        | None \<Rightarrow>
            bind (transition_attempt deadline remaining 2) (\<lambda>second. case second of
              Some r \<Rightarrow> ret r
            | None \<Rightarrow> ret (None, 2, Some ''TRANSITION_FAILED''))))"

section \<open>Acquiring one Reel\<close>

text \<open>What a download leaves behind, and whether it raises.\<close>

definition download :: "path \<Rightarrow> unit engine_act" where
  "download temporary = with_state (\<lambda>s.
     case pop (None, None) (c_downloads s) of (content, failure) \<Rightarrow>
       bind (modify (\<lambda>s. s\<lparr>c_downloads := tl (c_downloads s)\<rparr>)) (\<lambda>_.
       bind (case content of None \<Rightarrow> ret () | Some text \<Rightarrow> write_file temporary text) (\<lambda>_.
       case failure of None \<Rightarrow> ret () | Some e \<Rightarrow> raise e)))"

definition set_stage :: "string \<Rightarrow> unit engine_act" where
  "set_stage stage = modify (\<lambda>s. s\<lparr>l_stage := stage\<rparr>)"

definition check_run_bytes :: "limits \<Rightarrow> validated_source \<Rightarrow> unit engine_act" where
  "check_run_bytes lims validated = when
     (\<lambda>s. case max_run_bytes lims of None \<Rightarrow> False
          | Some n \<Rightarrow> l_committed_bytes s + src_byte_size validated > n)
     (bind (set_reason ''RUN_BYTE_LIMIT_EXCEEDED'') (\<lambda>_. raise CollectorLimitExceeded))"

definition commit_acquired :: "uuid \<Rightarrow> validated_source \<Rightarrow> published_source \<Rightarrow> unit engine_act" where
  "commit_acquired run validated published = with_state (\<lambda>s.
     bind datetime_now (\<lambda>now. bind uuid4 (\<lambda>fresh_reel. bind uuid4 (\<lambda>fresh_job.
     bind (db_call (commit_source run (l_candidate s) validated (pub_object_key published)
       fresh_reel fresh_job now)) (\<lambda>_.
     modify (\<lambda>s. s\<lparr>l_db_committed := True,
       l_committed_bytes := l_committed_bytes s + src_byte_size validated\<rparr>))))))"

text \<open>The suite of the inner \<open>try\<close>.\<close>

definition acquire_body :: "engine_config \<Rightarrow> uuid \<Rightarrow> rat option \<Rightarrow> path \<Rightarrow> unit engine_act" where
  "acquire_body cfg run deadline temporary =
     bind (block [
       raise_if_cancel_requested run,
       require_deadline deadline,
       modify (\<lambda>s. s\<lparr>l_download_attempted := True\<rparr>),
       download temporary,
       record_event ''download'',
       require_deadline deadline,
       set_stage ''validation'']) (\<lambda>_.
     bind (validate_source (ec_tools cfg) (ec_storage cfg) temporary) (\<lambda>validated.
     bind (block [
       record_event ''validation'',
       require_deadline deadline,
       check_run_bytes (ec_limits cfg) validated,
       set_stage ''publication'',
       raise_if_cancel_requested run,
       require_deadline deadline]) (\<lambda>_.
     bind (with_state (\<lambda>s. call (source_object_key (shortcode (l_candidate s))))) (\<lambda>key.
     bind (publish_source (ec_tools cfg) (ec_storage cfg) temporary key) (\<lambda>published.
     block [
       modify (\<lambda>s. s\<lparr>l_published := Some published\<rparr>),
       record_event ''publication'',
       require_deadline deadline,
       set_stage ''database'',
       commit_acquired run validated published,
       record_event ''db_commit'',
       require_deadline deadline])))))"

text \<open>
  Deleting the object of an attempt that did not commit; the result says that the deletion failed.
\<close>

definition compensate :: "bool engine_act" where
  "compensate = with_state (\<lambda>s.
     case l_published s of
       None \<Rightarrow> ret False
     | Some published \<Rightarrow>
         if \<not> l_db_committed s \<and> pub_created_by_attempt published then
           try_except (bind (delete_source (pub_object_key published)) (\<lambda>_. ret False))
             (\<lambda>e. if is_exception e then ret True else raise e)
         else ret False)"

definition failure_reason :: "exn \<Rightarrow> bool \<Rightarrow> engine \<Rightarrow> string option" where
  "failure_reason error compensation_failed s =
     (if error = CollectorDeadlineExceeded then Some ''TOTAL_TIMEOUT_REACHED''
      else if l_reason s = Some ''RUN_BYTE_LIMIT_EXCEEDED'' then l_reason s
      else if safe_exception_code error \<noteq> None then safe_exception_code error
      else if l_published s \<noteq> None then
        Some (if compensation_failed then ''DATABASE_WRITE_FAILED_COMPENSATION_FAILED''
              else ''DATABASE_WRITE_FAILED'')
      else if l_stage s = ''validation'' then Some ''VALIDATION_FAILED''
      else if l_stage s = ''publication'' then Some ''STORAGE_FAILED''
      else Some ''DOWNLOAD_FAILED'')"

definition record_acquire_failure :: "uuid \<Rightarrow> unit engine_act" where
  "record_acquire_failure run = with_state (\<lambda>s.
     if l_db_committed s then ret ()
     else attempt (bind datetime_now (\<lambda>now. bind uuid4 (\<lambda>fresh.
       db_call (record_failure run (l_candidate s)
         (case l_reason s of None \<Rightarrow> [] | Some r \<Rightarrow> r) (l_download_attempted s) fresh now)))))"

definition acquire_failed :: "uuid \<Rightarrow> exn \<Rightarrow> unit engine_act" where
  "acquire_failed run error =
     (if error = exn.KeyboardInterrupt then
        bind compensate (\<lambda>_. raise error)
      else if is_exception error then
        bind compensate (\<lambda>compensation_failed.
        bind (modify (\<lambda>s. s\<lparr>l_reason := failure_reason error compensation_failed s\<rparr>)) (\<lambda>_.
        bind (record_acquire_failure run) (\<lambda>_.
        stop Break)))
      else raise error)"

definition acquire :: "engine_config \<Rightarrow> uuid \<Rightarrow> rat option \<Rightarrow> unit engine_act" where
  "acquire cfg run deadline =
     bind (with_state (\<lambda>s. call (temporary_path (ec_storage cfg) (shortcode (l_candidate s)))))
       (\<lambda>temporary.
     bind (modify (\<lambda>s. s\<lparr>l_published := None, l_stage := ''download'',
             l_download_attempted := False, l_db_committed := False\<rparr>)) (\<lambda>_.
     finally_do
       (try_except (acquire_body cfg run deadline temporary) (acquire_failed run))
       (attempt (cleanup_temporary_file (ec_storage cfg) temporary))))"

section \<open>One observation\<close>

text \<open>The head of the loop: the limits, and whether this Reel is the account's already.\<close>

definition account_owned :: "engine_config \<Rightarrow> bool engine_act" where
  "account_owned cfg = with_state (\<lambda>s.
     if ec_desired_account_total cfg \<noteq> None
     then db_read (account_has_durable_reel (ec_account_id cfg) (shortcode (l_candidate s)))
     else if shortcode (l_candidate s) \<in> set (l_seen s)
     then bind (break_with ''DUPLICATE_REEL'') (\<lambda>_. ret False)
     else ret False)"

definition observe :: "engine_config \<Rightarrow> uuid \<Rightarrow> rat option \<Rightarrow> bool engine_act" where
  "observe cfg run deadline =
     bind (block [
       raise_if_cancel_requested run,
       break_if_expired deadline,
       when (\<lambda>s. case max_observations (ec_limits cfg) of None \<Rightarrow> False
                 | Some n \<Rightarrow> l_observations s \<ge> n)
         (break_with ''OBSERVATION_LIMIT_REACHED''),
       modify (\<lambda>s. s\<lparr>l_observations := l_observations s + 1\<rparr>)]) (\<lambda>_.
     bind (account_owned cfg) (\<lambda>owned.
     bind (block [
       modify (\<lambda>s. s\<lparr>l_seen := shortcode (l_candidate s) # l_seen s\<rparr>),
       record_event ''detect'',
       bind feed_response (\<lambda>_. ret ()),
       record_event ''pause'']) (\<lambda>_. ret owned)))"

definition commit_known :: "uuid \<Rightarrow> unit engine_act" where
  "commit_known run =
     bind (try_except
             (with_state (\<lambda>s. bind datetime_now (\<lambda>now.
                db_call (commit_available run (l_candidate s) now))))
             (\<lambda>e. if is_exception e then break_with ''DATABASE_WRITE_FAILED'' else raise e))
       (\<lambda>_. record_event ''db_commit'')"

definition take_candidate :: "engine_config \<Rightarrow> uuid \<Rightarrow> rat option \<Rightarrow> bool \<Rightarrow> unit engine_act" where
  "take_candidate cfg run deadline owned =
     bind (with_state (\<lambda>s. db_read (reel_status_of (shortcode (l_candidate s))))) (\<lambda>status.
     if owned then
       bind (modify (\<lambda>s. s\<lparr>l_duplicate_skipped_count := l_duplicate_skipped_count s + 1\<rparr>))
         (\<lambda>_. record_event ''duplicate_skipped'')
     else if (case status of None \<Rightarrow> False | Some st \<Rightarrow> durable_status st) then commit_known run
     else acquire cfg run deadline)"

section \<open>The target\<close>

definition complete :: "engine_config \<Rightarrow> uuid \<Rightarrow> bool engine_act" where
  "complete cfg run =
     bind datetime_now (\<lambda>now.
     case ec_desired_account_total cfg of
       Some desired \<Rightarrow> db_call (complete_if_account_durable_total run desired now)
     | None \<Rightarrow> bind (db_call (complete_run run now)) (\<lambda>_. ret True))"

definition ensure_completed :: "engine_config \<Rightarrow> uuid \<Rightarrow> unit engine_act" where
  "ensure_completed cfg run =
     bind (complete cfg run) (\<lambda>completed.
     if \<not> completed then
       bind (set_reason ''FINAL_DURABLE_TOTAL_MISMATCH'') (\<lambda>_. raise RuntimeError)
     else ret ())"

definition completion_failed :: "engine_config \<Rightarrow> uuid \<Rightarrow> exn \<Rightarrow> unit engine_act" where
  "completion_failed cfg run error =
     (if is_exception error then
        bind (modify (\<lambda>s. s\<lparr>l_reason :=
                Some (case l_reason s of None \<Rightarrow> ''DATABASE_WRITE_FAILED'' | Some r \<Rightarrow> r)\<rparr>))
          (\<lambda>_. with_state (\<lambda>s. fail_and_return cfg run (the (l_reason s)) (l_reason s)))
      else raise error)"

definition check_target :: "engine_config \<Rightarrow> uuid \<Rightarrow> unit engine_act" where
  "check_target cfg run =
     bind (db_query (run_summary run)) (\<lambda>(committed, available, _).
     if committed + available \<ge> ec_target_count cfg then
       bind (try_except (ensure_completed cfg run) (completion_failed cfg run))
         (\<lambda>_. return_summary cfg run None ''completed'')
     else ret ())"

section \<open>Moving on\<close>

text \<open>The limits, the cooldown and the cancellation test before a transition.\<close>

definition before_transition :: "engine_config \<Rightarrow> uuid \<Rightarrow> rat option \<Rightarrow> unit engine_act" where
  "before_transition cfg run deadline = block [
     break_if_expired deadline,
     when (\<lambda>s. l_confirmed_advances s \<ge> max_advances (ec_limits cfg))
       (break_with ''ADVANCE_LIMIT_REACHED''),
     when (\<lambda>s. case max_transition_operations (ec_limits cfg) of None \<Rightarrow> False
               | Some n \<Rightarrow> l_transition_operations s \<ge> n)
       (break_with ''ADVANCE_LIMIT_REACHED''),
     when (\<lambda>_. cooldown_seconds (ec_limits cfg) \<noteq> 0)
       (bind (require_deadline deadline) (\<lambda>_. record_event ''cooldown'')),
     break_if_expired deadline,
     modify (\<lambda>s. s\<lparr>l_transition_operations := l_transition_operations s + 1\<rparr>),
     raise_if_cancel_requested run]"

text \<open>The new Reel becomes the current one.\<close>

definition move_to :: "engine_config \<Rightarrow> reel_candidate \<Rightarrow> unit engine_act" where
  "move_to cfg c = block [
     modify (\<lambda>s. s\<lparr>l_candidate := c\<rparr>),
     when (\<lambda>s. ec_desired_account_total cfg = None \<and> shortcode c \<in> set (l_seen s))
       (break_with ''DUPLICATE_REEL''),
     modify (\<lambda>s. s\<lparr>l_confirmed_advances := l_confirmed_advances s + 1\<rparr>),
     record_event ''transition_confirmed'',
     modify (\<lambda>s. s\<lparr>l_position := l_position s + 1\<rparr>)]"

definition next_reel :: "engine_config \<Rightarrow> uuid \<Rightarrow> rat option \<Rightarrow> unit engine_act" where
  "next_reel cfg run deadline =
     bind (before_transition cfg run deadline) (\<lambda>_.
     bind (with_state (\<lambda>s. confirm_transition cfg deadline
             (map_option (\<lambda>n. n - l_scroll_actions s) (max_scroll_actions (ec_limits cfg)))))
       (\<lambda>(candidate, scrolls, reason).
     bind (modify (\<lambda>s. s\<lparr>l_scroll_actions := l_scroll_actions s + scrolls\<rparr>)) (\<lambda>_.
     case candidate of
       None \<Rightarrow>
         (case reason of
            Some r \<Rightarrow> break_with r
          | None \<Rightarrow> bind (deadline_expired deadline) (\<lambda>e.
              break_with (if e then ''TOTAL_TIMEOUT_REACHED'' else ''TRANSITION_FAILED'')))
     | Some c \<Rightarrow>
         bind (try_except (call (validate_candidate c))
                 (\<lambda>e. if e = exn.InvalidReelCandidate
                      then bind (break_with ''INVALID_REEL_CANDIDATE'') (\<lambda>_. ret c) else raise e))
           (move_to cfg))))"

section \<open>The run\<close>

definition loop_round :: "engine_config \<Rightarrow> uuid \<Rightarrow> rat option \<Rightarrow> unit engine_act" where
  "loop_round cfg run deadline =
     bind (observe cfg run deadline) (\<lambda>owned.
     block [take_candidate cfg run deadline owned, check_target cfg run, next_reel cfg run deadline])"

text \<open>Every round that goes on counts an advance, and the limit on advances ends the loop.\<close>

definition round_bound :: "limits \<Rightarrow> nat" where
  "round_bound lims = nat (max_advances lims) + 1"

definition collect_body :: "engine_config \<Rightarrow> uuid \<Rightarrow> rat option \<Rightarrow> unit engine_act" where
  "collect_body cfg run deadline =
     bind (raise_if_cancel_requested run) (\<lambda>_.
     bind (bind feed_current (\<lambda>c. call (validate_candidate c))) (\<lambda>candidate.
     bind (modify (\<lambda>s. s\<lparr>l_candidate := candidate\<rparr>)) (\<lambda>_.
     bind (while_true (round_bound (ec_limits cfg)) (loop_round cfg run deadline)) (\<lambda>_.
     with_state (\<lambda>s. fail_and_return cfg run
       (case l_reason s of None \<Rightarrow> ''COLLECTOR_FAILED'' | Some r \<Rightarrow> r) (l_reason s))))))"

definition collect_failed :: "engine_config \<Rightarrow> uuid \<Rightarrow> exn \<Rightarrow> unit engine_act" where
  "collect_failed cfg run error =
     (if error = exn.InvalidReelCandidate then
        fail_and_return cfg run ''INVALID_REEL_CANDIDATE'' (Some ''INVALID_REEL_CANDIDATE'')
      else if error = exn.KeyboardInterrupt then cancel_and_return cfg run ''CANCELLED_BY_USER''
      else
        let safe_reason = (case safe_exception_code error of None \<Rightarrow> ''COLLECTOR_FAILED'' | Some c \<Rightarrow> c)
        in if safe_reason = ''BROWSER_CLOSED'' then cancel_and_return cfg run safe_reason
           else fail_and_return cfg run safe_reason (Some safe_reason))"

definition feed_close :: "unit engine_act" where
  "feed_close = attempt (bind feed_response (\<lambda>_. ret ()))"

definition arguments_ok :: "engine_config \<Rightarrow> bool" where
  "arguments_ok cfg \<longleftrightarrow>
     (let lims = ec_limits cfg; positive = (\<lambda>x. case x of None \<Rightarrow> True | Some n \<Rightarrow> \<not> n < 1) in
      \<not> (ec_target_count cfg < 1 \<or> ec_target_count cfg > max_target lims) \<and>
      positive (max_run_bytes lims) \<and> \<not> cooldown_seconds lims < 0 \<and>
      positive (max_transition_operations lims) \<and> positive (max_scroll_actions lims) \<and>
      (case deadline_seconds lims of None \<Rightarrow> True | Some t \<Rightarrow> \<not> t \<le> 0) \<and>
      positive (max_observations lims) \<and>
      (case ec_desired_account_total cfg of None \<Rightarrow> True | Some n \<Rightarrow> \<not> n < ec_target_count cfg))"

definition start_run :: "engine_config \<Rightarrow> uuid engine_act" where
  "start_run cfg =
     (case ec_claimed_run_id cfg of
        Some run \<Rightarrow> ret run
      | None \<Rightarrow> bind datetime_now (\<lambda>now. bind uuid4 (\<lambda>fresh.
          db_call (create_run (ec_account_id cfg) (ec_trigger cfg) (ec_target_count cfg) fresh now))))"

definition reset_locals :: "unit engine_act" where
  "reset_locals = modify (\<lambda>s. s\<lparr>l_confirmed_advances := 0, l_transition_operations := 0,
     l_scroll_actions := 0, l_committed_bytes := 0, l_seen := [], l_duplicate_skipped_count := 0,
     l_observations := 0, l_reason := None, l_position := 1\<rparr>)"

text \<open>\<open>collect_body\<close> and its handler leave by a \<open>return\<close> or an exception; nothing follows them.\<close>

definition collect :: "engine_config \<Rightarrow> collector_summary engine_act" where
  "collect cfg = function_body
     (if \<not> arguments_ok cfg then raise ValueError
      else
        bind (start_run cfg) (\<lambda>run.
        bind (case deadline_seconds (ec_limits cfg) of
                None \<Rightarrow> ret None
              | Some t \<Rightarrow> bind clock_reading (\<lambda>now. ret (Some (now + t)))) (\<lambda>deadline.
        bind reset_locals (\<lambda>_.
        bind (finally_do
                (try_except (collect_body cfg run deadline) (collect_failed cfg run))
                feed_close) (\<lambda>_. stop Break)))))"

end
