(* ===== verification/NormalizerStore.thy ===== *)
theory NormalizerStore
  imports Normalizer
begin

text \<open>
  The transactions of the normalizer: each keeps the durable invariant, moves Reels along the
  pipeline policy, and changes no more of the Reels than the object store can answer for.
\<close>

section \<open>One job and its Reel\<close>

text \<open>The part of the invariant that holds between the statements of a transaction too.\<close>

definition core_inv :: "db \<Rightarrow> bool" where
  "core_inv d \<longleftrightarrow>
     pipeline_ok d \<and> keys_ok d \<and> unique_col reel_id (reels d) \<and> unique_col job_id (jobs d) \<and>
     (\<forall>j \<in> set (jobs d). job_reel_id j \<in> reel_id ` set (reels d))"

lemma durable_core: "durable_inv d \<Longrightarrow> core_inv d"
  by (simp add: core_inv_def durable_inv_def constraint_defs)

lemma core_invD:
  assumes "core_inv d"
  shows "pipeline_ok d" "keys_ok d" "unique_col reel_id (reels d)" "unique_col job_id (jobs d)"
  using assms by (simp_all add: core_inv_def)

lemma active_job_slot:
  assumes "core_inv d" "j \<in> set (jobs d)" "job_active j"
  shows "\<exists>r. r \<in> set (reels d) \<and> reel_id r = job_reel_id j \<and> active_jobs d (job_reel_id j) = [j] \<and>
    (reel_status r = ReelPipelineStatus.SOURCE_READY \<and> pending_job_ok j \<or>
     reel_status r = ReelPipelineStatus.NORMALIZING \<and> running_job_ok j)"
proof -
  have "job_reel_id j \<in> reel_id ` set (reels d)"
    using assms(1,2) by (auto simp: core_inv_def)
  then obtain r where r: "r \<in> set (reels d)" "reel_id r = job_reel_id j" by auto
  have mem: "j \<in> set (active_jobs d (job_reel_id j))"
    using assms(2,3) by (simp add: active_jobs_def)
  have slot: "slot_ok (reel_status r) (active_jobs d (job_reel_id j))"
    using core_invD(1) [OF assms(1)] r by (auto simp: pipeline_ok_def)
  then have "active_jobs d (job_reel_id j) = [j] \<and>
    (reel_status r = ReelPipelineStatus.SOURCE_READY \<and> pending_job_ok j \<or>
     reel_status r = ReelPipelineStatus.NORMALIZING \<and> running_job_ok j)"
  proof (cases "reel_status r = ReelPipelineStatus.SOURCE_READY")
    case True
    then obtain k where "active_jobs d (job_reel_id j) = [k]" "pending_job_ok k"
      using slot slot_source_ready by metis
    with mem True show ?thesis by simp
  next
    case False
    with slot mem have "reel_status r = ReelPipelineStatus.NORMALIZING"
      using slot_other by fastforce
    moreover then obtain k where "active_jobs d (job_reel_id j) = [k]" "running_job_ok k"
      using slot slot_normalizing by metis
    ultimately show ?thesis using mem by simp
  qed
  with r show ?thesis by blast
qed

lemma reel_at:
  "durable_inv d \<Longrightarrow> r \<in> set (reels d) \<Longrightarrow> reel_id r = i \<Longrightarrow> get_reel d i = Some r"
  using durable_invD(4) lookup_row_distinct by (fastforce simp: unique_col_def)

lemma job_at:
  "durable_inv d \<Longrightarrow> j \<in> set (jobs d) \<Longrightarrow> job_id j = i \<Longrightarrow> get_job d i = Some j"
  using durable_invD(5) lookup_row_distinct by (fastforce simp: unique_col_def)

text \<open>The job and the Reel change together; jobs of the same Reel may be added.\<close>

lemma pipeline_slot_move:
  assumes inv: "core_inv d" and j: "j \<in> set (jobs d)" "job_active j"
    and d': "reels d' = update_rows reel_id (job_reel_id j) f (reels d)"
      "jobs d' = update_rows job_id (job_id j) g (jobs d) @ extra"
    and f: "\<And>r. reel_id (f r) = reel_id r" and g: "job_reel_id (g j) = job_reel_id j"
    and extra: "\<And>k. k \<in> set extra \<Longrightarrow> job_reel_id k = job_reel_id j"
    and slot: "\<And>r. r \<in> set (reels d) \<Longrightarrow> reel_id r = job_reel_id j \<Longrightarrow>
      slot_ok (reel_status (f r)) ((if job_active (g j) then [g j] else []) @ filter job_active extra)"
  shows "pipeline_ok d'"
proof (rule pipeline_step [OF core_invD(1) [OF inv], where i = "job_reel_id j"])
  have single: "active_jobs d (job_reel_id j) = [j]"
    using active_job_slot [OF inv j] by blast
  have split: "active_jobs d' k =
      active_jobs (update_job (job_id j) g d) k @ filter (\<lambda>x. job_reel_id x = k \<and> job_active x) extra"
    for k by (simp add: active_jobs_def d'(2) update_job_def)
  have only: "q = j" if "q \<in> set (jobs d)" "job_id q = job_id j" for q
    using unique_colD [OF core_invD(4) [OF inv] that(1) j(1) that(2)] .
  show "r \<in> set (reels d)" if "r \<in> set (reels d')" "reel_id r \<noteq> job_reel_id j" for r
    using that f by (auto simp: d'(1) in_update_rows split: if_splits)
  show "active_jobs d' k = active_jobs d k" if "k \<noteq> job_reel_id j" for k
  proof -
    have "active_jobs (update_job (job_id j) g d) k = active_jobs d k"
      by (rule active_jobs_update_other) (use only g that in auto)
    moreover have "filter (\<lambda>x. job_reel_id x = k \<and> job_active x) extra = []"
      using extra that by (auto simp: filter_empty_conv)
    ultimately show ?thesis using split by simp
  qed
  show "slot_ok (reel_status r) (active_jobs d' (job_reel_id j))"
    if r: "r \<in> set (reels d')" "reel_id r = job_reel_id j" for r
  proof -
    have "active_jobs (update_job (job_id j) g d) (job_reel_id j) =
        (if job_active (g j) then [g j] else [])"
      using active_jobs_update [of d "job_reel_id j" j g, OF core_invD(4) [OF inv] single g] .
    moreover have "filter (\<lambda>x. job_reel_id x = job_reel_id j \<and> job_active x) extra =
        filter job_active extra"
      using extra by (intro filter_cong) auto
    ultimately have jobs: "active_jobs d' (job_reel_id j) =
        (if job_active (g j) then [g j] else []) @ filter job_active extra"
      using split by simp
    from r(1) obtain q where q: "q \<in> set (reels d)"
        "r = (if reel_id q = job_reel_id j then f q else q)"
      unfolding d'(1) in_update_rows by blast
    with r(2) f have "reel_id q = job_reel_id j" "r = f q" by (auto split: if_splits)
    with slot [OF q(1)] jobs show ?thesis by simp
  qed
qed

section \<open>What the store must hold for the database\<close>

text \<open>A Reel whose source is still needed, and the objects the rows rely on.\<close>

definition needs_source :: "reel \<Rightarrow> bool" where
  "needs_source r \<longleftrightarrow> reel_status r = ReelPipelineStatus.SOURCE_READY
     \<or> reel_status r = ReelPipelineStatus.NORMALIZING"

definition source_stored :: "tools \<Rightarrow> store \<Rightarrow> reel \<Rightarrow> bool" where
  "source_stored tools st r \<longleftrightarrow>
     (\<exists>key obj. reel_source_object_key r = Some key \<and> store_get st key = Some obj \<and>
        reel_source_sha256 r = Some (t_sha256 tools (obj_content obj)) \<and>
        reel_source_byte_size r = Some (int (length (obj_content obj))))"

definition playable :: "tools \<Rightarrow> string \<Rightarrow> bool" where
  "playable tools content \<longleftrightarrow>
     (case t_probe tools content of Inl _ \<Rightarrow> False | Inr p \<Rightarrow> is_worker_canonical p) \<and>
     t_decode tools content"

definition final_key_of :: "tools \<Rightarrow> string \<Rightarrow> string" where
  "final_key_of tools content = final_object_key (t_sha256 tools content)"

definition video_stored :: "tools \<Rightarrow> store \<Rightarrow> video \<Rightarrow> bool" where
  "video_stored tools st v \<longleftrightarrow>
     (\<exists>obj. store_get st (vid_object_key v) = Some obj \<and>
        vid_object_key v = final_key_of tools (obj_content obj) \<and>
        vid_byte_size v = int (length (obj_content obj)) \<and> playable tools (obj_content obj))"

definition media_ok :: "tools \<Rightarrow> db \<Rightarrow> store \<Rightarrow> bool" where
  "media_ok tools d st \<longleftrightarrow>
     (\<forall>r \<in> set (reels d). needs_source r \<longrightarrow> source_stored tools st r) \<and>
     (\<forall>v \<in> set (videos d). video_stored tools st v)"

definition world_inv :: "tools \<Rightarrow> 'w world_scheme \<Rightarrow> bool" where
  "world_inv tools w \<longleftrightarrow> durable_inv (w_db w) \<and> media_ok tools (w_db w) (w_store w)"

lemma source_stored_cong:
  "reel_source_object_key r = reel_source_object_key q \<Longrightarrow> reel_source_sha256 r = reel_source_sha256 q \<Longrightarrow>
   reel_source_byte_size r = reel_source_byte_size q \<Longrightarrow>
   source_stored tools st r = source_stored tools st q"
  by (simp add: source_stored_def)

text \<open>An update of one Reel that asks for no object it did not need before.\<close>

lemma media_ok_rows:
  assumes "media_ok tools d st" "reels d' = update_rows reel_id i f (reels d)"
    and vs: "\<And>v. v \<in> set (videos d') \<Longrightarrow> v \<in> set (videos d) \<or> video_stored tools st v"
    and f: "\<And>r. r \<in> set (reels d) \<Longrightarrow> reel_id r = i \<Longrightarrow> needs_source (f r) \<Longrightarrow>
      needs_source r \<and> reel_source_object_key (f r) = reel_source_object_key r \<and>
      reel_source_sha256 (f r) = reel_source_sha256 r \<and>
      reel_source_byte_size (f r) = reel_source_byte_size r"
  shows "media_ok tools d' st"
proof -
  have "source_stored tools st r" if r: "r \<in> set (reels d')" "needs_source r" for r
  proof -
    from r(1) have "r \<in> set (update_rows reel_id i f (reels d))" by (simp add: assms(2))
    then show ?thesis
    proof (cases rule: update_rowsE)
      case (1 q)
      then show ?thesis
        using assms(1) f r(2) source_stored_cong [of r q] by (auto simp: media_ok_def)
    next
      case 2
      then show ?thesis using assms(1) r(2) by (simp add: media_ok_def)
    qed
  qed
  then show ?thesis using assms(1) vs by (auto simp: media_ok_def)
qed

lemma media_ok_update:
  assumes "media_ok tools d st" "reels d' = update_rows reel_id i f (reels d)" "videos d' = videos d"
    and "\<And>r. r \<in> set (reels d) \<Longrightarrow> reel_id r = i \<Longrightarrow> needs_source (f r) \<Longrightarrow>
      needs_source r \<and> reel_source_object_key (f r) = reel_source_object_key r \<and>
      reel_source_sha256 (f r) = reel_source_sha256 r \<and>
      reel_source_byte_size (f r) = reel_source_byte_size r"
  shows "media_ok tools d' st"
  by (rule media_ok_rows [OF assms(1,2)]) (use assms(3,4) in auto)

section \<open>Claiming\<close>

lemma next_job_mem:
  assumes "next_job d = Some (j, r)"
  shows "j \<in> set (jobs d)" "job_status j = NormalizationJobStatus.PENDING"
    "r \<in> set (reels d)" "reel_id r = job_reel_id j" "reel_status r = ReelPipelineStatus.SOURCE_READY"
  using first_by_mem [OF assms [unfolded next_job_def]] by auto

lemma next_job_None:
  "next_job d = None \<longleftrightarrow>
     (\<forall>j \<in> set (jobs d). \<forall>r \<in> set (reels d). \<not> (job_status j = NormalizationJobStatus.PENDING \<and>
        reel_id r = job_reel_id j \<and> reel_status r = ReelPipelineStatus.SOURCE_READY))"
  by (auto simp: next_job_def first_by_None filter_empty_conv)

definition claimed_job_row :: "string \<Rightarrow> int \<Rightarrow> timestamp \<Rightarrow> norm_job \<Rightarrow> norm_job" where
  "claimed_job_row worker lease now j =
     j\<lparr>job_status := NormalizationJobStatus.RUNNING, job_attempt_count := job_attempt_count j + 1,
       job_claimed_at := Some now, job_lease_expires_at := Some (now + seconds lease),
       job_worker_id := Some worker,
       job_staging_prefix := Some (staging_prefix_of (job_id j) (job_attempt_count j + 1))\<rparr>"

lemma claimed_job_row_simps [simp]:
  "job_id (claimed_job_row worker lease now j) = job_id j"
  "job_reel_id (claimed_job_row worker lease now j) = job_reel_id j"
  "job_status (claimed_job_row worker lease now j) = NormalizationJobStatus.RUNNING"
  "job_attempt_count (claimed_job_row worker lease now j) = job_attempt_count j + 1"
  "job_worker_id (claimed_job_row worker lease now j) = Some worker"
  "job_lease_expires_at (claimed_job_row worker lease now j) = Some (now + seconds lease)"
  "job_staging_prefix (claimed_job_row worker lease now j) =
     Some (staging_prefix_of (job_id j) (job_attempt_count j + 1))"
  by (simp_all add: claimed_job_row_def)

lemma staging_prefix_root [simp]: "startswith (staging_prefix_of i n) staging_root"
  unfolding staging_prefix_of_def staging_root_def by (rule startswith_append)

text \<open>The transaction, branch by branch.\<close>

definition normalizing_reel :: "reel \<Rightarrow> reel" where
  "normalizing_reel r = r\<lparr>reel_status := ReelPipelineStatus.NORMALIZING\<rparr>"

lemma normalizing_reel_simps [simp]:
  "reel_id (normalizing_reel r) = reel_id r" "reel_shortcode (normalizing_reel r) = reel_shortcode r"
  "reel_status (normalizing_reel r) = ReelPipelineStatus.NORMALIZING"
  "reel_source_object_key (normalizing_reel r) = reel_source_object_key r"
  "reel_source_sha256 (normalizing_reel r) = reel_source_sha256 r"
  "reel_source_byte_size (normalizing_reel r) = reel_source_byte_size r"
  "reel_canonical_url (normalizing_reel r) = reel_canonical_url r"
  by (simp_all add: normalizing_reel_def)

definition claimed_of :: "norm_job \<Rightarrow> reel \<Rightarrow> string \<Rightarrow> string \<Rightarrow> int \<Rightarrow> claimed_job" where
  "claimed_of j r key sha n =
     \<lparr>cj_job_id = job_id j, cj_reel_id = reel_id r, cj_shortcode = reel_shortcode r,
      cj_source_object_key = key, cj_source_sha256 = sha, cj_source_byte_size = n,
      cj_attempt_count = job_attempt_count j + 1,
      cj_staging_prefix = staging_prefix_of (job_id j) (job_attempt_count j + 1)\<rparr>"

lemma claim_tx_InrD:
  assumes inv: "durable_inv d" and tx: "claim_tx worker lease now d = (Inr c, d')"
  obtains "c = None" "d' = d" "next_job d = None"
  | j r key sha n where "next_job d = Some (j, r)" "j \<in> set (jobs d)" "pending_job_ok j"
      "r \<in> set (reels d)" "reel_id r = job_reel_id j"
      "reel_status r = ReelPipelineStatus.SOURCE_READY"
      "reel_source_object_key r = Some key" "reel_source_sha256 r = Some sha"
      "reel_source_byte_size r = Some n" "c = Some (claimed_of j r key sha n)"
      "reels d' = update_rows reel_id (reel_id r) normalizing_reel (reels d)"
      "jobs d' = update_rows job_id (job_id j) (claimed_job_row worker lease now) (jobs d)"
      "videos d' = videos d" "constraints_ok d'"
proof (cases "next_job d")
  case None
  then show thesis
    using that(1) tx by (auto simp: claim_tx_def transaction_def split: if_splits)
next
  case (Some p)
  obtain j r where nj: "next_job d = Some (j, r)" using Some by (cases p) auto
  note mem = next_job_mem [OF nj]
  from active_job_slot [OF durable_core [OF inv] mem(1)] mem(2)
  have ok: "pending_job_ok j" by (auto simp: running_job_ok_def)
  then have few: "\<not> job_attempt_count j + 1 > max_normalization_attempts"
    by (simp add: pending_job_ok_def)
  from transaction_InrD [OF tx [unfolded claim_tx_def]] obtain key sha n where
    ks: "reel_source_object_key r = Some key" "reel_source_sha256 r = Some sha"
      "reel_source_byte_size r = Some n"
    and c: "c = Some (claimed_of j r key sha n)" and con: "constraints_ok d'"
    and d': "d' = update_reel (reel_id r) (\<lambda>r. r\<lparr>reel_status := ReelPipelineStatus.NORMALIZING\<rparr>)
              (update_job (job_id j)
                (\<lambda>k. k\<lparr>job_status := NormalizationJobStatus.RUNNING,
                   job_attempt_count := job_attempt_count j + 1, job_claimed_at := Some now,
                   job_lease_expires_at := Some (now + seconds lease),
                   job_worker_id := Some worker,
                   job_staging_prefix :=
                     Some (staging_prefix_of (job_id j) (job_attempt_count j + 1))\<rparr>) d)"
    using few by (auto simp: nj Let_def claimed_of_def)
  have only: "k = j" if "k \<in> set (jobs d)" "job_id k = job_id j" for k
    using unique_colD [OF durable_invD(5) [OF inv] that(1) mem(1) that(2)] .
  have jobs: "jobs d' = update_rows job_id (job_id j) (claimed_job_row worker lease now) (jobs d)"
    unfolding d'
    by (auto simp: update_reel_def update_job_def claimed_job_row_def intro!: update_rows_cong
        dest!: only)
  show thesis
    by (rule that(2) [OF nj mem(1) ok mem(3,4,5) ks c _ jobs _ con])
      (simp_all add: d' update_reel_def update_job_def normalizing_reel_def [abs_def])
qed

text \<open>Rows that moved: what a transaction of the normalizer means for Reels and objects.\<close>

definition core_step :: "tools \<Rightarrow> store \<Rightarrow> db \<Rightarrow> db \<Rightarrow> bool" where
  "core_step tools st d d' \<longleftrightarrow>
     pipeline_ok d' \<and> keys_ok d' \<and> reels_follow d d' \<and> (media_ok tools d st \<longrightarrow> media_ok tools d' st)"

lemma core_step_refl: "core_inv d \<Longrightarrow> core_step tools st d d"
  by (simp add: core_step_def core_inv_def)

lemma core_step_trans: "core_step tools st d d1 \<Longrightarrow> core_step tools st d1 d2 \<Longrightarrow> core_step tools st d d2"
  by (auto simp: core_step_def intro: reels_follow_trans)

definition norm_step :: "tools \<Rightarrow> store \<Rightarrow> db \<Rightarrow> db \<Rightarrow> bool" where
  "norm_step tools st d d' \<longleftrightarrow>
     durable_inv d' \<and> reels_follow d d' \<and> (media_ok tools d st \<longrightarrow> media_ok tools d' st)"

lemma norm_stepI: "core_step tools st d d' \<Longrightarrow> constraints_ok d' \<Longrightarrow> norm_step tools st d d'"
  by (simp add: core_step_def norm_step_def durable_inv_def)

lemma keys_ok_rows:
  assumes "keys_ok d" "reels d' = update_rows reel_id i f (reels d)"
    "jobs d' = update_rows job_id k g (jobs d) @ extra"
    "\<And>v. v \<in> set (videos d') \<Longrightarrow> v \<in> set (videos d) \<or> startswith (vid_object_key v) final_prefix"
    "\<And>r. reel_source_object_key (f r) = reel_source_object_key r"
    "\<And>j p. job_staging_prefix (g j) = Some p \<Longrightarrow> job_staging_prefix j = Some p \<or> startswith p staging_root"
    "\<And>j. j \<in> set extra \<Longrightarrow> job_staging_prefix j = None"
  shows "keys_ok d'"
  unfolding keys_ok_iff
proof (intro conjI ballI allI impI)
  fix r key assume "r \<in> set (reels d')" "reel_source_object_key r = Some key"
  then show "startswith key source_prefix"
    using assms(1,5) unfolding assms(2) in_update_rows keys_ok_iff by (metis (full_types))
next
  fix v assume "v \<in> set (videos d')"
  then show "startswith (vid_object_key v) final_prefix" using assms(1,4) by (auto simp: keys_ok_iff)
next
  fix j p assume j: "j \<in> set (jobs d')" "job_staging_prefix j = Some p"
  then consider "j \<in> set extra" | q where "q \<in> set (jobs d)" "j = (if job_id q = k then g q else q)"
    unfolding assms(3) set_append Un_iff in_update_rows by blast
  then show "startswith p staging_root"
  proof cases
    case 1
    then show ?thesis using assms(7) j(2) by auto
  next
    case 2
    then have "job_staging_prefix q = Some p \<or> startswith p staging_root"
      using assms(6) [of q p] j(2) by (auto split: if_splits)
    then show ?thesis using assms(1) 2(1) by (auto simp: keys_ok_iff)
  qed
qed

lemma keys_ok_update:
  assumes "keys_ok d" "reels d' = update_rows reel_id i f (reels d)"
    "jobs d' = update_rows job_id k g (jobs d) @ extra" "videos d' = videos d"
    "\<And>r. reel_source_object_key (f r) = reel_source_object_key r"
    "\<And>j p. job_staging_prefix (g j) = Some p \<Longrightarrow> job_staging_prefix j = Some p \<or> startswith p staging_root"
    "\<And>j. j \<in> set extra \<Longrightarrow> job_staging_prefix j = None"
  shows "keys_ok d'"
  by (rule keys_ok_rows [OF assms(1,2,3) _ assms(5,6,7)]) (simp_all add: assms(4))

lemma reels_follow_rows:
  assumes "reels d' = update_rows reel_id i f (reels d)"
    "\<And>r. r \<in> set (reels d) \<Longrightarrow> reel_id r = i \<Longrightarrow>
      reel_id (f r) = i \<and> reel_shortcode (f r) = reel_shortcode r \<and>
      reel_canonical_url (f r) = reel_canonical_url r \<and>
      moves reel_pipeline_transitions (reel_status r) (reel_status (f r))"
  shows "reels_follow d d'"
proof -
  have "reels_follow d (update_reel i f d)"
    by (rule reels_follow_update) (use assms(2) policy_path_step in \<open>fastforce simp: moves_def\<close>)
  then show ?thesis by (simp add: reels_follow_def assms(1) update_reel_def)
qed

lemma claim_tx_step:
  assumes inv: "durable_inv d" and tx: "claim_tx worker lease now d = (Inr c, d')"
  shows "norm_step tools st d d'"
  using assms
proof (cases rule: claim_tx_InrD)
  case 1
  then show ?thesis using inv by (simp add: norm_step_def)
next
  case (2 j r key sha n)
  have act: "job_active j" using 2 by (simp add: pending_job_ok_def)
  have only: "q = r" if "q \<in> set (reels d)" "reel_id q = reel_id r" for q
    using unique_colD [OF durable_invD(4) [OF inv] that(1) 2(4) that(2)] .
  have "pipeline_ok d'"
    by (rule pipeline_slot_move [OF durable_core [OF inv] 2(2) act, where f = normalizing_reel
          and g = "claimed_job_row worker lease now" and extra = "[]"])
      (use 2 in \<open>auto simp: running_job_ok_def pending_job_ok_def max_normalization_attempts_def\<close>)
  moreover have "keys_ok d'"
    by (rule keys_ok_update [OF durable_invD(3) [OF inv] 2(11) _ 2(13),
          where g = "claimed_job_row worker lease now" and extra = "[]" and k = "job_id j"])
      (use 2 in auto)
  moreover have "reels_follow d d'"
    by (rule reels_follow_rows [OF 2(11)])
      (use 2(6) in \<open>auto simp: policy_simps dest!: only\<close>)
  moreover have "media_ok tools d st \<longrightarrow> media_ok tools d' st"
    using media_ok_update [OF _ 2(11,13), of tools st] only 2(6) by (auto simp: needs_source_def)
  ultimately show ?thesis using 2(14) by (simp add: norm_step_def durable_inv_def)
qed

section \<open>Ending an attempt\<close>

lemma fail_job_simps [simp]:
  "job_id (fail_job reason now j) = job_id j" "job_reel_id (fail_job reason now j) = job_reel_id j"
  "job_status (fail_job reason now j) = NormalizationJobStatus.FAILED"
  "job_attempt_count (fail_job reason now j) = job_attempt_count j"
  "job_staging_prefix (fail_job reason now j) = job_staging_prefix j"
  by (simp_all add: fail_job_def)

lemma new_job_simps [simp]:
  "job_id (new_job i reel n now) = i" "job_reel_id (new_job i reel n now) = reel"
  "job_status (new_job i reel n now) = NormalizationJobStatus.PENDING"
  "job_attempt_count (new_job i reel n now) = n" "job_staging_prefix (new_job i reel n now) = None"
  by (simp_all add: new_job_def)

text \<open>
  What a failed attempt does to the rows: the job fails; the Reel goes back to \<open>SOURCE_READY\<close> with
  a new pending job when it may be tried again, and fails otherwise.
\<close>

definition attempt_ended :: "norm_job \<Rightarrow> (reel \<Rightarrow> reel) \<Rightarrow> ReasonCode \<Rightarrow> timestamp \<Rightarrow> bool \<Rightarrow> uuid \<Rightarrow>
    db \<Rightarrow> db \<Rightarrow> bool" where
  "attempt_ended j f reason now again fresh d d' \<longleftrightarrow>
     reels d' = update_rows reel_id (job_reel_id j) f (reels d) \<and>
     jobs d' = update_rows job_id (job_id j) (fail_job reason now) (jobs d) @
       (if again then [new_job fresh (job_reel_id j) (job_attempt_count j) now] else []) \<and>
     videos d' = videos d"

text \<open>The Reel keeps its identity and its source.\<close>

definition same_source :: "(reel \<Rightarrow> reel) \<Rightarrow> bool" where
  "same_source f \<longleftrightarrow>
     (\<forall>r. reel_id (f r) = reel_id r \<and> reel_shortcode (f r) = reel_shortcode r \<and>
        reel_canonical_url (f r) = reel_canonical_url r \<and>
        reel_source_object_key (f r) = reel_source_object_key r \<and>
        reel_source_sha256 (f r) = reel_source_sha256 r \<and>
        reel_source_byte_size (f r) = reel_source_byte_size r)"

lemma same_sourceD:
  assumes "same_source f"
  shows "reel_id (f r) = reel_id r" "reel_shortcode (f r) = reel_shortcode r"
    "reel_canonical_url (f r) = reel_canonical_url r"
    "reel_source_object_key (f r) = reel_source_object_key r"
    "reel_source_sha256 (f r) = reel_source_sha256 r"
    "reel_source_byte_size (f r) = reel_source_byte_size r"
  using assms by (simp_all add: same_source_def)

lemma attempt_ended_step:
  assumes inv: "core_inv d" and j: "j \<in> set (jobs d)" "job_status j = NormalizationJobStatus.RUNNING"
    and ended: "attempt_ended j f reason now again fresh d d'"
    and f: "same_source f"
      "\<And>r. reel_status (f r) = (if again then ReelPipelineStatus.SOURCE_READY else ReelPipelineStatus.FAILED)"
    and again: "again \<longrightarrow> job_attempt_count j < max_normalization_attempts"
  shows "core_step tools st d d'"
proof -
  have act: "job_active j" using j(2) by simp
  obtain r where r: "r \<in> set (reels d)" "reel_id r = job_reel_id j"
      "reel_status r = ReelPipelineStatus.NORMALIZING" "running_job_ok j"
    using active_job_slot [OF inv j(1) act] j(2) by (auto simp: pending_job_ok_def)
  have only: "q = r" if "q \<in> set (reels d)" "reel_id q = job_reel_id j" for q
    using unique_colD [OF core_invD(3) [OF inv] that(1) r(1)] that(2) r(2) by simp
  note rows = ended [unfolded attempt_ended_def]
  have "pipeline_ok d'"
    by (rule pipeline_slot_move [OF inv j(1) act, where f = f and g = "fail_job reason now"
          and extra = "if again then [new_job fresh (job_reel_id j) (job_attempt_count j) now] else []"])
      (use rows f r(4) again same_sourceD [OF f(1)]
        in \<open>auto simp: running_job_ok_def pending_job_ok_def split: if_splits\<close>)
  moreover have "keys_ok d'"
    by (rule keys_ok_update [OF core_invD(2) [OF inv], where f = f and g = "fail_job reason now"
          and extra = "if again then [new_job fresh (job_reel_id j) (job_attempt_count j) now] else []"])
      (use rows same_sourceD [OF f(1)] in \<open>auto split: if_splits\<close>)
  moreover have "reels_follow d d'"
    by (rule reels_follow_rows [OF conjunct1 [OF rows]])
      (use r(2,3) f(2) same_sourceD [OF f(1)] in \<open>auto simp: policy_simps dest!: only\<close>)
  moreover have "media_ok tools d st \<longrightarrow> media_ok tools d' st"
    using media_ok_update [OF _ conjunct1 [OF rows], of tools st] rows r(3) same_sourceD [OF f(1)]
    by (auto simp: needs_source_def dest!: only)
  ultimately show ?thesis by (simp add: core_step_def)
qed

text \<open>The Reel of a claim: what the worker knows of the rows while it processes a job.\<close>

definition claim_holds :: "claimed_job \<Rightarrow> db \<Rightarrow> bool" where
  "claim_holds claimed d \<longleftrightarrow>
     (\<exists>j r. get_job d (cj_job_id claimed) = Some j \<and> job_reel_id j = cj_reel_id claimed \<and>
        get_reel d (cj_reel_id claimed) = Some r \<and>
        reel_source_object_key r = Some (cj_source_object_key claimed)) \<and>
     startswith (cj_staging_prefix claimed) staging_root"

definition retry_reel :: "ReasonCode \<Rightarrow> reel \<Rightarrow> reel" where
  "retry_reel reason r =
     r\<lparr>reel_status := ReelPipelineStatus.SOURCE_READY,
       reel_failure_reason_code := Some (reason_value reason)\<rparr>"

lemma same_source_simps [simp]:
  "same_source (retry_reel reason)" "same_source (failed_reel code now)"
  "same_source normalizing_reel"
  "same_source (\<lambda>r. r\<lparr>reel_status := s\<rparr>)" "same_source (\<lambda>r. r\<lparr>reel_cleanup_pending := b\<rparr>)"
  by (simp_all add: same_source_def retry_reel_def failed_reel_def normalizing_reel_def)

lemma retry_reel_status [simp]: "reel_status (retry_reel reason r) = ReelPipelineStatus.SOURCE_READY"
  by (simp add: retry_reel_def)

lemma failed_reel_alt:
  "failed_reel code now = (\<lambda>r. r\<lparr>reel_status := ReelPipelineStatus.FAILED,
     reel_failure_reason_code := Some code, reel_failed_at := Some now\<rparr>)"
  by (rule ext) (simp add: failed_reel_def)

lemma finish_failure_owned:
  assumes "finish_failure_tx worker claimed reason retryable fresh now d = (Inr (), d')"
    "claim_holds claimed d" "get_job d (cj_job_id claimed) = Some j" "is_owned_running worker j"
  shows "constraints_ok d' \<and>
     (let again = (retryable \<and> job_attempt_count j < max_normalization_attempts) in
      attempt_ended j
        (if again then retry_reel reason
         else failed_reel (reason_value
                (if retryable then ReasonCode.RETRY_EXHAUSTED else reason)) now)
        reason now again fresh d d')"
proof -
  obtain r where h: "job_reel_id j = cj_reel_id claimed" "get_reel d (cj_reel_id claimed) = Some r"
    using assms(2,3) by (auto simp: claim_holds_def)
  have ids: "job_id j = cj_job_id claimed" "reel_id r = cj_reel_id claimed"
    using lookup_row_SomeD [OF assms(3)] lookup_row_SomeD [OF h(2)] by auto
  from transaction_InrD [OF assms(1) [unfolded finish_failure_tx_def]]
  show ?thesis
    using h ids assms(3,4)
    by (auto simp: attempt_ended_def Let_def update_job_def update_reel_def
        retry_reel_def [abs_def] failed_reel_alt split: if_splits)
qed

lemma finish_failure_InrD:
  assumes "finish_failure_tx worker claimed reason retryable fresh now d = (Inr (), d')"
    "claim_holds claimed d"
  shows "d' = d \<or> (\<exists>j. get_job d (cj_job_id claimed) = Some j \<and> is_owned_running worker j \<and>
     constraints_ok d' \<and>
     (let again = (retryable \<and> job_attempt_count j < max_normalization_attempts) in
      attempt_ended j
        (if again then retry_reel reason
         else failed_reel (reason_value
                (if retryable then ReasonCode.RETRY_EXHAUSTED else reason)) now)
        reason now again fresh d d'))"
proof -
  obtain j r where h: "get_job d (cj_job_id claimed) = Some j"
      "get_reel d (cj_reel_id claimed) = Some r"
    using assms(2) by (auto simp: claim_holds_def)
  show ?thesis
  proof (cases "is_owned_running worker j")
    case True
    with finish_failure_owned [OF assms h(1)] h(1) show ?thesis by blast
  next
    case False
    with transaction_InrD [OF assms(1) [unfolded finish_failure_tx_def]] h show ?thesis by auto
  qed
qed

lemma finish_failure_step:
  assumes "durable_inv d" "claim_holds claimed d"
    "finish_failure_tx worker claimed reason retryable fresh now d = (Inr (), d')"
  shows "norm_step tools st d d'"
proof -
  from finish_failure_InrD [OF assms(3,2)] show ?thesis
  proof (elim disjE exE)
    assume "d' = d" then show ?thesis using assms(1) by (simp add: norm_step_def)
  next
    fix j assume a: "get_job d (cj_job_id claimed) = Some j \<and> is_owned_running worker j \<and>
     constraints_ok d' \<and>
     (let again = (retryable \<and> job_attempt_count j < max_normalization_attempts) in
      attempt_ended j
        (if again then retry_reel reason
         else failed_reel (reason_value
                (if retryable then ReasonCode.RETRY_EXHAUSTED else reason)) now)
        reason now again fresh d d')"
    then have "j \<in> set (jobs d)" "job_status j = NormalizationJobStatus.RUNNING"
      by (auto dest: lookup_row_SomeD simp: is_owned_running_def)
    with a show ?thesis
      by (auto simp: Let_def split: if_splits intro!: norm_stepI attempt_ended_step [OF durable_core [OF assms(1)]])
  qed
qed

section \<open>Recovering stale claims\<close>

lemma recover_job_ended:
  "attempt_ended j
     (if job_attempt_count j < max_normalization_attempts
      then (\<lambda>r. r\<lparr>reel_status := ReelPipelineStatus.SOURCE_READY\<rparr>)
      else failed_reel (reason_value ReasonCode.RETRY_EXHAUSTED) now)
     ReasonCode.STALE_LEASE_RECOVERED now (job_attempt_count j < max_normalization_attempts) fresh
     d (recover_job now fresh j d)"
  by (simp add: attempt_ended_def recover_job_def Let_def update_job_def update_reel_def
      failed_reel_alt)

lemma recover_job_step:
  assumes "core_inv d" "j \<in> set (jobs d)" "job_status j = NormalizationJobStatus.RUNNING"
  shows "core_step tools st d (recover_job now fresh j d)"
  by (rule attempt_ended_step [OF assms recover_job_ended]) auto

lemma recover_job_frame:
  "map job_id (jobs (recover_job now fresh j d)) =
     map job_id (jobs d) @ (if job_attempt_count j < max_normalization_attempts then [fresh] else [])"
  "map reel_id (reels (recover_job now fresh j d)) = map reel_id (reels d)"
  "\<forall>k \<in> set (jobs d). job_reel_id k \<in> R \<Longrightarrow> job_reel_id j \<in> R \<Longrightarrow>
     \<forall>k \<in> set (jobs (recover_job now fresh j d)). job_reel_id k \<in> R"
proof -
  note rows = recover_job_ended [of j now fresh d, unfolded attempt_ended_def]
  show "map job_id (jobs (recover_job now fresh j d)) =
     map job_id (jobs d) @ (if job_attempt_count j < max_normalization_attempts then [fresh] else [])"
    using rows by (simp add: map_update_rows)
  show "map reel_id (reels (recover_job now fresh j d)) = map reel_id (reels d)"
    using rows by (simp add: map_update_rows failed_reel_def)
  assume R: "\<forall>k \<in> set (jobs d). job_reel_id k \<in> R" "job_reel_id j \<in> R"
  have "\<forall>k \<in> set (update_rows job_id (job_id j) (fail_job ReasonCode.STALE_LEASE_RECOVERED now) (jobs d)).
      job_reel_id k \<in> R"
    by (rule all_update_rows [OF R(1)]) simp
  then show "\<forall>k \<in> set (jobs (recover_job now fresh j d)). job_reel_id k \<in> R"
    using rows R(2) by auto
qed

lemma reel_ids_eq: "map reel_id (reels d) = map reel_id (reels e) \<Longrightarrow>
    reel_id ` set (reels d) = reel_id ` set (reels e)"
  by (metis set_map)

text \<open>New jobs only lengthen the list of ids, so that distinct ids at the end were distinct before.\<close>

lemma recover_jobs_ids:
  "recover_jobs now fresh js d = (ps, n, d') \<Longrightarrow> \<exists>is. map job_id (jobs d') = map job_id (jobs d) @ is"
proof (induction now fresh js d arbitrary: ps n d' rule: recover_jobs.induct)
  case (2 now fresh job js d)
  show ?case
  proof (cases "get_reel d (job_reel_id job) = None")
    case True
    with 2 show ?thesis by auto
  next
    case False
    obtain ps1 n1 where "recover_jobs now (tl fresh) js (recover_job now (pop 0 fresh) job d) = (ps1, n1, d')"
      using 2(3) False by (auto split: prod.splits)
    from 2(2) [OF False this] recover_job_frame(1) [of now "pop 0 fresh" job d]
    show ?thesis by (auto split: if_splits)
  qed
qed auto

lemma recover_jobs_step:
  assumes "core_inv d" "recover_jobs now fresh js d = (ps, n, d')" "unique_col job_id (jobs d')"
    "\<forall>j \<in> set js. j \<in> set (jobs d) \<and> job_status j = NormalizationJobStatus.RUNNING"
    "distinct (map job_id js)"
  shows "core_step tools st d d'"
  using assms
proof (induction now fresh js d arbitrary: ps n d' rule: recover_jobs.induct)
  case (1 now fresh d)
  then show ?case by (simp add: core_step_refl)
next
  case (2 now fresh job js d)
  have "job_reel_id job \<in> reel_id ` set (reels d)"
    using 2(3,6) by (auto simp: core_inv_def)
  then have some: "\<not> get_reel d (job_reel_id job) = None" by (simp add: lookup_row_None)
  let ?d1 = "recover_job now (pop 0 fresh) job d"
  obtain ps1 n1 where r: "recover_jobs now (tl fresh) js ?d1 = (ps1, n1, d')"
    using 2(4) some by (auto split: prod.splits)
  have step: "core_step tools st d ?d1" using recover_job_step 2(3,6) by simp
  obtain is1 where "map job_id (jobs d') = map job_id (jobs ?d1) @ is1"
    using recover_jobs_ids [OF r] by blast
  then have u: "unique_col job_id (jobs ?d1)" using 2(5) by (simp add: unique_col_def)
  have fk: "\<forall>k \<in> set (jobs ?d1). job_reel_id k \<in> reel_id ` set (reels ?d1)"
    using recover_job_frame(3) [of d "reel_id ` set (reels d)" job] 2(3)
      \<open>job_reel_id job \<in> _\<close> reel_ids_eq [OF recover_job_frame(2)]
    by (simp add: core_inv_def)
  have "unique_col reel_id (reels ?d1)"
    using recover_job_frame(2) [of now _ job d] core_invD(3) [OF 2(3)] by (simp add: unique_col_def)
  then have core: "core_inv ?d1" using step u fk by (simp add: core_inv_def core_step_def)
  have rest: "\<forall>j \<in> set js. j \<in> set (jobs ?d1) \<and> job_status j = NormalizationJobStatus.RUNNING"
  proof
    fix j assume "j \<in> set js"
    then have "j \<in> set (jobs d)" "job_status j = NormalizationJobStatus.RUNNING" "job_id j \<noteq> job_id job"
      using 2(6,7) by (auto simp: image_iff)
    then show "j \<in> set (jobs ?d1) \<and> job_status j = NormalizationJobStatus.RUNNING"
      using recover_job_ended [of job now "pop 0 fresh" d, unfolded attempt_ended_def]
      by (auto simp: in_update_rows)
  qed
  have "core_step tools st ?d1 d'"
    using 2(2) [OF some core r 2(5) rest] 2(7) by simp
  with step show ?case by (rule core_step_trans)
qed

lemma recover_tx_step:
  assumes "durable_inv d" "recover_tx now fresh d = (Inr (ps, n), d')"
  shows "norm_step tools st d d'"
proof -
  from transaction_InrD [OF assms(2) [unfolded recover_tx_def]]
  have r: "recover_jobs now fresh (filter (stale_job now) (jobs d)) d = (ps, n, d')"
    and con: "constraints_ok d'"
    by (auto split: prod.splits)
  have "distinct (map job_id (filter (stale_job now) (jobs d)))"
    using durable_invD(5) [OF assms(1)] by (simp add: unique_col_def distinct_map_filter)
  then show ?thesis
    using recover_jobs_step [OF durable_core [OF assms(1)] r] con
    by (intro norm_stepI) (auto simp: stale_job_def constraint_defs)
qed

section \<open>Committing the result\<close>

definition ready_reel :: "uuid \<Rightarrow> timestamp \<Rightarrow> reel \<Rightarrow> reel" where
  "ready_reel v now r =
     r\<lparr>reel_video_id := Some v, reel_status := ReelPipelineStatus.READY, reel_ready_at := Some now,
       reel_failure_reason_code := None, reel_cleanup_pending := True\<rparr>"

lemma ready_reel_simps [simp]:
  "same_source (ready_reel v now)" "reel_status (ready_reel v now r) = ReelPipelineStatus.READY"
  "reel_video_id (ready_reel v now r) = Some v" "reel_cleanup_pending (ready_reel v now r)"
  by (simp_all add: ready_reel_def same_source_def)

definition completed_job :: "timestamp \<Rightarrow> norm_job \<Rightarrow> norm_job" where
  "completed_job now j =
     j\<lparr>job_status := NormalizationJobStatus.COMPLETED, job_reason_code := None,
       job_completed_at := Some now, job_lease_expires_at := None, job_worker_id := None\<rparr>"

lemma completed_job_simps [simp]:
  "job_id (completed_job now j) = job_id j" "job_reel_id (completed_job now j) = job_reel_id j"
  "job_status (completed_job now j) = NormalizationJobStatus.COMPLETED"
  "job_staging_prefix (completed_job now j) = job_staging_prefix j"
  by (simp_all add: completed_job_def)

text \<open>The object that the published row will name.\<close>

definition final_stored :: "tools \<Rightarrow> string \<Rightarrow> int \<Rightarrow> store \<Rightarrow> bool" where
  "final_stored tools sha n st \<longleftrightarrow>
     (\<exists>obj. store_get st (final_object_key sha) = Some obj \<and>
        t_sha256 tools (obj_content obj) = sha \<and> int (length (obj_content obj)) = n \<and>
        playable tools (obj_content obj))"

lemma commit_ready_InrD:
  assumes "commit_ready_tx tools worker claimed key sha n strategy codec probe fresh now d = (Inr (), d')"
  obtains j r v created d1 row where "get_job d (cj_job_id claimed) = Some j"
    "get_reel d (cj_reel_id claimed) = Some r" "is_owned_running worker j"
    "vid_object_key row = key" "vid_byte_size row = n" "vid_content_sha256 row = Some sha"
    "vid_id row = fresh"
    "video_upsert row d = ((v, created), d1)" "vid_byte_size v = n"
    "vid_content_sha256 v = None \<or> vid_content_sha256 v = Some sha"
    "reels d' = update_rows reel_id (cj_reel_id claimed) (ready_reel (vid_id v) now) (reels d)"
    "jobs d' = update_rows job_id (cj_job_id claimed) (completed_job now) (jobs d)"
    "videos d' = videos d1" "constraints_ok d'"
proof -
  note tx = transaction_InrD [OF assms [unfolded commit_ready_tx_def]]
  from tx obtain j r duration where h: "get_job d (cj_job_id claimed) = Some j"
    "get_reel d (cj_reel_id claimed) = Some r" "is_owned_running worker j"
    "duration_seconds probe = Some duration"
    by (auto split: option.splits if_splits)
  let ?row = "published_video tools claimed key sha n strategy codec probe duration fresh now"
  obtain v created d1 where u: "video_upsert ?row d = ((v, created), d1)"
    by (metis surj_pair)
  have row: "vid_object_key ?row = key" "vid_byte_size ?row = n" "vid_content_sha256 ?row = Some sha"
    "vid_id ?row = fresh"
    by (simp_all add: published_video_def)
  note frame = video_upsert_row [OF u]
  have require: "require ValueError (duration_seconds probe) = Inr duration" using h(4) by simp
  from tx have con: "constraints_ok d'" by blast
  from tx have v: "vid_byte_size v = n" "vid_content_sha256 v = None \<or> vid_content_sha256 v = Some sha"
    and d': "d' = update_job (cj_job_id claimed) (completed_job now)
              (update_reel (cj_reel_id claimed) (ready_reel (vid_id v) now) d1)"
    by (auto simp: h(1-3) require u completed_job_def [abs_def] ready_reel_def [abs_def]
        split: if_splits)
  show thesis
    by (rule that [OF h(1-3) row u v _ _ _ con])
      (simp_all add: d' update_job_def update_reel_def frame)
qed

lemma commit_ready_step:
  assumes inv: "durable_inv d" and media: "media_ok tools d st" and claim: "claim_holds claimed d"
    and tx: "commit_ready_tx tools worker claimed (final_object_key sha) sha n strategy codec
      probe fresh now d = (Inr (), d')"
    and final: "final_stored tools sha n st"
  shows "norm_step tools st d d' \<and> claim_holds claimed d' \<and>
    (\<exists>r. get_reel d' (cj_reel_id claimed) = Some r \<and> reel_status r = ReelPipelineStatus.READY \<and>
       reel_source_object_key r = Some (cj_source_object_key claimed))"
  using tx
proof (cases rule: commit_ready_InrD)
  case (1 j r v created d1 row)
  have j: "j \<in> set (jobs d)" "job_id j = cj_job_id claimed" "job_status j = NormalizationJobStatus.RUNNING"
    "job_reel_id j = cj_reel_id claimed"
    using lookup_row_SomeD [OF 1(1)] 1(1,3) claim by (auto simp: is_owned_running_def claim_holds_def)
  have r: "r \<in> set (reels d)" "reel_id r = cj_reel_id claimed"
    "reel_source_object_key r = Some (cj_source_object_key claimed)"
    using lookup_row_SomeD [OF 1(2)] 1(2) claim by (auto simp: claim_holds_def)
  have only: "q = r" if "q \<in> set (reels d)" "reel_id q = cj_reel_id claimed" for q
    using unique_colD [OF durable_invD(4) [OF inv] that(1) r(1)] that(2) r(2) by simp
  have act: "job_active j" using j(3) by simp
  have st: "reel_status r = ReelPipelineStatus.NORMALIZING"
    using active_job_slot [OF durable_core [OF inv] j(1) act] j(3,4) only
    by (auto simp: pending_job_ok_def)
  note frame = video_upsert_row [OF 1(8)]
  let ?key = "final_object_key sha"
  have row: "video_stored tools st row"
    using final 1(4,5) by (auto simp: video_stored_def final_stored_def final_key_of_def)
  have pre: "startswith (vid_object_key row) final_prefix"
    by (simp add: 1(4) final_prefix_def startswith_def final_object_key_def)
  have new: "w \<in> set (videos d) \<or> w = row" if "w \<in> set (videos d')" for w
    using that 1(13) frame(5) by auto
  note same = same_sourceD [OF ready_reel_simps(1) [of "vid_id v" now]]
  have "pipeline_ok d'"
    by (rule pipeline_slot_move [OF durable_core [OF inv] j(1) act, where f = "ready_reel (vid_id v) now"
          and g = "completed_job now" and extra = "[]"])
      (use 1(11,12) j same in auto)
  moreover have "keys_ok d'"
    by (rule keys_ok_rows [OF durable_invD(3) [OF inv] 1(11), where g = "completed_job now"
          and extra = "[]" and k = "cj_job_id claimed"])
      (use 1(12) new pre same in auto)
  moreover have "reels_follow d d'"
    by (rule reels_follow_rows [OF 1(11)]) (use r(2) st same in \<open>auto simp: policy_simps dest!: only\<close>)
  moreover have "media_ok tools d' st"
    by (rule media_ok_rows [OF media 1(11)]) (use new row in \<open>auto simp: needs_source_def\<close>)
  moreover have "get_reel d' (cj_reel_id claimed) = Some (ready_reel (vid_id v) now r)"
    using lookup_update_rows [of reel_id "cj_reel_id claimed" "ready_reel (vid_id v) now"] 1(2,11) same
    by simp
  moreover have "get_job d' (cj_job_id claimed) = Some (completed_job now j)"
    using lookup_update_rows [of job_id "cj_job_id claimed" "completed_job now"] 1(1,12) by simp
  ultimately show ?thesis
    using claim 1(14) r(3) j(4) same by (simp add: norm_step_def durable_inv_def claim_holds_def)
qed

section \<open>Forgetting the source\<close>

text \<open>Only the flag of a Reel changes.\<close>

lemma flag_step:
  assumes "durable_inv d" "constraints_ok (update_reel i (\<lambda>r. r\<lparr>reel_cleanup_pending := b\<rparr>) d)"
  shows "norm_step tools st d (update_reel i (\<lambda>r. r\<lparr>reel_cleanup_pending := b\<rparr>) d)"
proof -
  let ?f = "\<lambda>r. r\<lparr>reel_cleanup_pending := b\<rparr>"
  let ?d = "update_reel i ?f d"
  have rs: "reels ?d = update_rows reel_id i ?f (reels d)" "jobs ?d = jobs d" "videos ?d = videos d"
    by (simp_all add: update_reel_def)
  have jobs: "active_jobs ?d k = active_jobs d k" for k using rs(2) by (rule active_jobs_cong)
  have "pipeline_ok ?d"
    using durable_invD(2) [OF assms(1)] unfolding pipeline_ok_def jobs rs(1)
    by (intro all_update_rows) auto
  moreover have "keys_ok ?d"
    by (rule keys_ok_update [OF durable_invD(3) [OF assms(1)] rs(1), where g = "\<lambda>j. j" and extra = "[]"])
      (simp_all add: rs update_rows_def)
  moreover have "reels_follow d ?d" by (rule reels_follow_rows [OF rs(1)]) simp
  moreover have "media_ok tools d st \<longrightarrow> media_ok tools ?d st"
    using media_ok_update [OF _ rs(1,3)] by (auto simp: needs_source_def)
  ultimately show ?thesis using assms(2) by (simp add: norm_step_def durable_inv_def)
qed

lemma norm_step_refl: "durable_inv d \<Longrightarrow> norm_step tools st d d"
  by (simp add: norm_step_def)

lemma source_removed_step:
  assumes "durable_inv d" "source_removed_tx i d = (Inr x, d')"
  shows "norm_step tools st d d'"
  using transaction_InrD [OF assms(2) [unfolded source_removed_tx_def]] assms(1)
  by (auto split: option.splits if_splits intro: norm_step_refl flag_step)

lemma cleaned_step:
  assumes "durable_inv d" "cleaned_tx i d = (Inr b, d')"
  shows "norm_step tools st d d'"
  using transaction_InrD [OF assms(2) [unfolded cleaned_tx_def]] assms(1)
  by (auto split: option.splits if_splits intro: norm_step_refl flag_step)

end
