(* ===== verification/NormalizerSafety.thy ===== *)
theory NormalizerSafety
  imports NormalizerStore
begin

text \<open>
  The worker never breaks what the database and the object store say of each other: from a world
  where every source that is still needed and every published video is in the store with the
  recorded digest and size, each operation of the worker ends in such a world, wherever it fails.
\<close>

section \<open>Objects nobody needs\<close>

definition unused :: "string \<Rightarrow> db \<Rightarrow> bool" where
  "unused key d \<longleftrightarrow>
     (\<forall>r \<in> set (reels d). needs_source r \<longrightarrow> reel_source_object_key r \<noteq> Some key) \<and>
     (\<forall>v \<in> set (videos d). vid_object_key v \<noteq> key)"

lemma prefixes_disjoint:
  "startswith k source_prefix \<Longrightarrow> \<not> startswith k final_prefix"
  "startswith k source_prefix \<Longrightarrow> \<not> startswith k staging_root"
  "startswith k final_prefix \<Longrightarrow> \<not> startswith k staging_root"
  by (auto simp: source_prefix_def final_prefix_def staging_root_def elim!: startswithE)

lemma unused_staging:
  assumes "durable_inv d" "startswith key staging_root" shows "unused key d"
  using durable_invD(3) [OF assms(1)] assms(2) prefixes_disjoint
  unfolding unused_def keys_ok_iff by blast

lemma media_ok_store:
  assumes "media_ok tools d st" "unused key d" "\<And>k. k \<noteq> key \<Longrightarrow> store_get st' k = store_get st k"
  shows "media_ok tools d st'"
  unfolding media_ok_def
proof (intro conjI ballI impI)
  fix r assume r: "r \<in> set (reels d)" "needs_source r"
  then have "source_stored tools st r" "reel_source_object_key r \<noteq> Some key"
    using assms(1,2) by (auto simp: media_ok_def unused_def)
  then show "source_stored tools st' r" using assms(3) by (auto simp: source_stored_def)
next
  fix v assume "v \<in> set (videos d)"
  then have "video_stored tools st v" "vid_object_key v \<noteq> key"
    using assms(1,2) by (auto simp: media_ok_def unused_def)
  then show "video_stored tools st' v" using assms(3) by (simp add: video_stored_def)
qed

lemma absent_unused:
  "media_ok tools d st \<Longrightarrow> store_get st key = None \<Longrightarrow> unused key d"
  by (auto simp: media_ok_def unused_def source_stored_def video_stored_def)

section \<open>The invariant while a job is processed\<close>

definition job_inv :: "tools \<Rightarrow> claimed_job \<Rightarrow> world \<Rightarrow> bool" where
  "job_inv tools claimed w \<longleftrightarrow> world_inv tools w \<and> claim_holds claimed (w_db w)"

lemma env_world_inv [intro]: "env_closed (world_inv tools)"
  by (simp add: env_closed_def world_inv_def)

lemma env_job_inv [intro]: "env_closed (job_inv tools claimed)"
  by (simp add: env_closed_def job_inv_def world_inv_def)

lemma env_closed_conj [intro]: "env_closed P \<Longrightarrow> env_closed Q \<Longrightarrow> env_closed (\<lambda>w. P w \<and> Q w)"
  by (simp add: env_closed_def)

lemma env_closed_db [intro]: "env_closed (\<lambda>w. Q (w_db w))" "env_closed (\<lambda>w. R (w_store w))"
  by (simp_all add: env_closed_def)

lemma job_invD:
  assumes "job_inv tools claimed w"
  shows "durable_inv (w_db w)" "media_ok tools (w_db w) (w_store w)" "claim_holds claimed (w_db w)"
  using assms by (simp_all add: job_inv_def world_inv_def)

lemma job_inv_store:
  assumes "job_inv tools claimed w" "unused key (w_db w)"
    "\<And>k. k \<noteq> key \<Longrightarrow> store_get st' k = store_get (w_store w) k"
  shows "job_inv tools claimed (w\<lparr>w_store := st'\<rparr>)"
  using assms media_ok_store by (fastforce simp: job_inv_def world_inv_def)

lemma world_inv_store:
  assumes "world_inv tools w" "unused key (w_db w)"
    "\<And>k. k \<noteq> key \<Longrightarrow> store_get st' k = store_get (w_store w) k"
  shows "world_inv tools (w\<lparr>w_store := st'\<rparr>)"
  using assms media_ok_store by (fastforce simp: world_inv_def)

text \<open>Writing or removing the object of one key.\<close>

lemma keeps_write_at:
  assumes "env_closed P"
    and "\<And>w st'. P w \<Longrightarrow> (\<And>k. k \<noteq> key \<Longrightarrow> store_get st' k = store_get (w_store w) k) \<Longrightarrow>
      P (w\<lparr>w_store := st'\<rparr>)"
  shows "keeps P (storage_upload_file key c t)" "keeps P (storage_copy a key)"
    "keeps P (storage_remove key)"
  unfolding storage_defs
  by (rule keeps_may_fail [OF assms(1)], rule keepsI,
      auto simp: act_defs split: option.splits intro!: assms(2))+

lemma keeps_write_unused:
  shows "keeps (\<lambda>w. job_inv tools claimed w \<and> unused key (w_db w)) (storage_upload_file key c t)"
    and "keeps (\<lambda>w. job_inv tools claimed w \<and> unused key (w_db w)) (storage_copy a key)"
    and "keeps (\<lambda>w. job_inv tools claimed w \<and> unused key (w_db w)) (storage_remove key)"
  by (rule keeps_write_at; auto intro: job_inv_store)+

lemma keeps_write_staging:
  assumes "startswith key staging_root"
  shows "keeps (world_inv tools) (storage_remove key :: unit worker_act)"
    and "keeps (job_inv tools claimed) (storage_upload_file key c t)"
proof -
  have "unused key (w_db w)" if "world_inv tools w" for w :: world
    using that assms unused_staging by (auto simp: world_inv_def)
  note unused = this
  show "keeps (world_inv tools) (storage_remove key :: unit worker_act)"
    by (rule keeps_write_at(3) [OF env_world_inv]) (rule world_inv_store [OF _ unused])
  show "keeps (job_inv tools claimed) (storage_upload_file key c t)"
  proof (rule keeps_write_at(1) [OF env_job_inv])
    fix w :: world and st' assume w: "job_inv tools claimed w"
      "\<And>k. k \<noteq> key \<Longrightarrow> store_get st' k = store_get (w_store w) k"
    have "unused key (w_db w)" by (rule unused) (use w(1) in \<open>simp add: job_inv_def\<close>)
    from job_inv_store [OF w(1) this w(2)] show "job_inv tools claimed (w\<lparr>w_store := st'\<rparr>)" .
  qed
qed

lemma keeps_bind_val:
  assumes "estab I (\<lambda>_. True) m (\<lambda>x _. Q x)" "\<And>x. Q x \<Longrightarrow> keeps I (f x)"
  shows "keeps I (bind m f)"
proof (rule keeps_estab [where Q = "\<lambda>_ _. True"], rule estab_bind [OF assms(1)])
  fix x show "estab I (\<lambda>_. Q x) (f x) (\<lambda>_ _. True)"
    using assms(2) by (auto intro!: estabI dest: keepsD)
qed

lemma cleanup_staging_keeps:
  assumes "startswith pre staging_root"
  shows "keeps (world_inv tools) (cleanup_staging pre)"
  unfolding cleanup_staging_def
proof (intro keeps_attempt keeps_bind_val)
  show "estab (world_inv tools) (\<lambda>_. True) (storage_list_prefix (pre @ ''/''))
      (\<lambda>keys _. \<forall>k \<in> set keys. startswith k (pre @ ''/''))"
    using env_closedD [OF env_world_inv]
    by (auto intro!: estabI simp: storage_list_prefix_def may_fail_def act_defs split: if_splits)
  fix keys assume keys: "\<forall>k \<in> set keys. startswith k (pre @ ''/'')"
  show "keeps (world_inv tools) (for_each storage_remove keys :: unit worker_act)"
  proof (rule keeps_for_each)
    fix k assume "k \<in> set keys"
    then have "startswith k (pre @ ''/'')" using keys by blast
    then obtain rest where "k = (pre @ ''/'') @ rest" by (rule startswithE)
    moreover obtain rest' where "pre = staging_root @ rest'" using assms by (auto elim: startswithE)
    ultimately have "startswith k staging_root" by simp
    then show "keeps (world_inv tools) (storage_remove k :: unit worker_act)" by (rule keeps_write_staging)
  qed
qed

section \<open>Database calls\<close>

lemma keeps_world_tx:
  assumes tx: "transactional f" and step: "\<And>d x d' st. durable_inv d \<Longrightarrow> f d = (Inr x, d') \<Longrightarrow> norm_step tools st d d'"
  shows "keeps (world_inv tools) (db_call f :: ('w world_scheme, 'r, 'x) act)"
proof (rule keeps_db_call [OF env_world_inv])
  fix s :: "'w world_scheme" assume s: "world_inv tools s"
  let ?P = "\<lambda>d. durable_inv d \<and> media_ok tools d (w_store s)"
  have "?P (snd (f (w_db s)))"
    by (rule transactional_keeps [where P = ?P, OF tx])
      (use s step [where st = "w_store s"] in \<open>auto simp: world_inv_def norm_step_def\<close>)
  then show "world_inv tools (s\<lparr>w_db := snd (f (w_db s))\<rparr>)" by (simp add: world_inv_def)
qed

lemmas worker_tx = transactionalI [OF claim_tx_def] transactionalI [OF finish_failure_tx_def]
  transactionalI [OF commit_ready_tx_def] transactionalI [OF recover_tx_def]
  transactionalI [OF source_removed_tx_def] transactionalI [OF cleaned_tx_def]

lemma keeps_claim_holds_tx:
  assumes tx: "transactional f"
    and step: "\<And>d x d' st. durable_inv d \<Longrightarrow> f d = (Inr x, d') \<Longrightarrow> norm_step tools st d d'"
    and rows: "\<And>d x d'. claim_holds claimed d \<Longrightarrow> f d = (Inr x, d') \<Longrightarrow> claim_holds claimed d'"
  shows "keeps (job_inv tools claimed) (db_call f :: 'x worker_act)"
proof (rule keeps_db_call [OF env_job_inv])
  fix s :: world assume s: "job_inv tools claimed s"
  let ?P = "\<lambda>d. durable_inv d \<and> media_ok tools d (w_store s) \<and> claim_holds claimed d"
  have "?P (snd (f (w_db s)))"
    by (rule transactional_keeps [where P = ?P, OF tx])
      (use s step [where st = "w_store s"] rows
        in \<open>auto simp: job_inv_def world_inv_def norm_step_def\<close>)
  then show "job_inv tools claimed (s\<lparr>w_db := snd (f (w_db s))\<rparr>)"
    by (simp add: job_inv_def world_inv_def)
qed

section \<open>The steps of a job\<close>

text \<open>Steps that only consult the environment.\<close>

lemma keeps_env_steps:
  assumes "env_closed P"
  shows "keeps P (probe_media tools c)" "keeps P (validate_decode tools c)"
    "keeps P (run_normalization tools st c)" "keeps P raise_if_cancelled" "keeps P (emit e r)"
proof -
  show "keeps P (probe_media tools c)"
    unfolding probe_media_def by (intro keeps_may_fail [OF assms] act_inv)
  show "keeps P (validate_decode tools c)"
    unfolding validate_decode_def by (rule keeps_may_fail [OF assms]) (simp add: act_inv)
  show "keeps P (run_normalization tools st c)"
    unfolding run_normalization_def by (intro keeps_may_fail [OF assms] act_inv)
  show "keeps P raise_if_cancelled"
    unfolding raise_if_cancelled_def
    by (intro keeps_bind keeps_cancel_is_set [OF assms]) (simp add: act_inv)
  show "keeps P (emit e r)"
    unfolding emit_def by (rule keeps_modify) (rule env_closedD(5) [OF assms])
qed

lemma keeps_normalize:
  assumes "env_closed P" shows "keeps P (normalize_to_output tools c)"
  unfolding normalize_to_output_def
  by (intro keeps_bind keeps_env_steps [OF assms] act_inv)
    (auto intro: keeps_env_steps [OF assms] act_inv)

lemma keeps_download:
  assumes "env_closed P" shows "keeps P (download_and_verify_source tools claimed)"
  unfolding download_and_verify_source_def hash_file_def Let_def
  by (auto intro!: keeps_bind keeps_storage_reads [OF assms] keeps_env_steps [OF assms] act_inv)

lemma estab_may_fail:
  assumes "env_closed (\<lambda>w. I w \<and> P w)" "estab I P a Q"
  shows "estab I P (may_fail e a) Q"
proof (rule estabI)
  fix s r t assume s: "I s" "P s" "may_fail e a s = (r, t)"
  let ?s = "s\<lparr>w_faults := tl (w_faults s)\<rparr>"
  have "I ?s \<and> P ?s" using env_closedD(1) [OF assms(1)] s(1,2) by blast
  moreover have "(r, t) = (if pop False (w_faults s) then (Inl (Raise e), ?s) else a ?s)"
    using s(3) by (auto simp: may_fail_def act_defs)
  ultimately show "I t \<and> (\<forall>x. r = Inr x \<longrightarrow> Q x t)"
    using estabD [OF assms(2), of ?s r t] by (auto split: if_splits)
qed

text \<open>A transaction that returns establishes what its rows establish.\<close>

lemma estab_db_call:
  assumes env: "env_closed (\<lambda>w. I w \<and> P w)" and tx: "transactional f"
    and step: "\<And>s x d'. I s \<Longrightarrow> P s \<Longrightarrow> f (w_db s) = (Inr x, d') \<Longrightarrow>
      I (s\<lparr>w_db := d'\<rparr>) \<and> Q x (s\<lparr>w_db := d'\<rparr>)"
  shows "estab I P (db_call f) Q"
  unfolding db_call_def
proof (rule estab_may_fail [OF env], rule estabI)
  fix s r t assume s: "I s" "P s" and run: "with_state (\<lambda>s. case f (w_db s) of
      (Inl e, d) \<Rightarrow> bind (modify (\<lambda>s. s\<lparr>w_db := d\<rparr>)) (\<lambda>_. raise e)
    | (Inr x, d) \<Rightarrow> bind (modify (\<lambda>s. s\<lparr>w_db := d\<rparr>)) (\<lambda>_. ret x)) s = (r, t)"
  obtain c d' where f: "f (w_db s) = (c, d')" by fastforce
  show "I t \<and> (\<forall>x. r = Inr x \<longrightarrow> Q x t)"
  proof (cases c)
    case (Inl e)
    with f have "d' = w_db s" using transactional_raise [OF tx] by blast
    then have "t = s \<and> r = Inl (Raise e)" using run f Inl by (auto simp: act_defs)
    then show ?thesis using s(1) by simp
  next
    case (Inr x)
    with f run have "t = s\<lparr>w_db := d'\<rparr> \<and> r = Inr x" by (auto simp: act_defs)
    then show ?thesis using step [OF s] f Inr by auto
  qed
qed

text \<open>Verifying the published object: what it found is what is stored.\<close>

lemma verify_final_estab:
  fixes I :: "world \<Rightarrow> bool"
  assumes I: "env_closed I"
  shows "estab I (\<lambda>_. True) (verify_final tools (final_object_key sha) sha n)
    (\<lambda>_ w. final_stored tools sha n (w_store w))"
proof -
  let ?key = "final_object_key sha"
  let ?at = "\<lambda>c w. \<exists>obj. store_get (w_store (w :: world)) ?key = Some obj \<and> obj_content obj = c"
  have env: "env_closed (\<lambda>w. I w \<and> ?at c w)" for c
    using I by (intro env_closed_conj env_closed_db)
  have down: "estab I (\<lambda>_. True) (storage_download_file ?key) ?at"
    unfolding storage_download_file_def
    by (rule estab_may_fail) (use I in \<open>auto simp: estab_def act_defs split: option.splits\<close>)
  have probe: "estab I (?at c) (probe_media tools c) (\<lambda>p w. ?at c w \<and> t_probe tools c = Inr p)" for c
    unfolding probe_media_def by (intro estab_may_fail env estab_call) auto
  have decode: "estab I (\<lambda>w. ?at c w \<and> t_probe tools c = Inr p) (validate_decode tools c)
      (\<lambda>_ w. ?at c w \<and> t_probe tools c = Inr p \<and> t_decode tools c)" for c p
    unfolding validate_decode_def
    by (rule estab_may_fail) (use env in \<open>auto simp: estab_def act_defs env_closed_def\<close>)
  show ?thesis
    unfolding verify_final_def hash_file_def
  proof (rule estab_bind [OF down])
    fix c
    have tail: "estab I (?at c) (bind (probe_media tools c) (\<lambda>p. bind (validate_decode tools c) (\<lambda>_.
        if \<not> is_worker_canonical p then raise FinalObjectConflict else ret ())))
      (\<lambda>_ w. final_stored tools sha n (w_store w))"
      if "t_sha256 tools c = sha" "int (length c) = n"
      by (rule estab_bind [OF probe], rule estab_bind [OF decode])
        (use that in \<open>auto intro!: estab_ret estab_stop simp: final_stored_def playable_def\<close>)
    then show "estab I (?at c)
       (if (t_sha256 tools c, int (length c)) \<noteq> (sha, n) then raise FinalObjectConflict
        else bind (probe_media tools c) (\<lambda>p. bind (validate_decode tools c) (\<lambda>_.
          if \<not> is_worker_canonical p then raise FinalObjectConflict else ret ())))
       (\<lambda>_ w. final_stored tools sha n (w_store w))"
      by (auto intro: estab_stop)
  qed
qed

section \<open>Publishing and committing\<close>

lemma compensate_keeps:
  assumes "startswith key final_prefix"
  shows "keeps (job_inv tools claimed) (compensate_final_if_unreferenced key b)"
proof -
  let ?I = "job_inv tools claimed"
  have unused: "unused key (w_db w)" if "?I w" "video_by_key key (w_db w) = None" for w
  proof -
    have "\<forall>v \<in> set (videos (w_db w)). vid_object_key v \<noteq> key"
      using that(2) by (auto simp: video_by_key_def lookup_row_None)
    moreover have "reel_source_object_key r \<noteq> Some key" if "r \<in> set (reels (w_db w))" for r
      using durable_invD(3) [OF job_invD(1) [OF \<open>?I w\<close>]] prefixes_disjoint(1) assms that
      unfolding keys_ok_iff by blast
    ultimately show ?thesis by (simp add: unused_def)
  qed
  have read: "estab ?I (\<lambda>_. True) (db_read (video_by_key key))
      (\<lambda>referenced w. referenced = video_by_key key (w_db w))"
    unfolding db_read_def db_call_def
    by (rule estab_may_fail)
      (use env_job_inv in \<open>auto simp: estab_def act_defs read_only_def\<close>)
  have "estab ?I (\<lambda>_. True) (bind (db_read (video_by_key key)) (\<lambda>referenced.
       if referenced = None then storage_remove key else ret ())) (\<lambda>_ _. True)"
  proof (rule estab_bind [OF read])
    fix referenced
    have "estab ?I (\<lambda>w. unused key (w_db w)) (storage_remove key) (\<lambda>_ _. True)"
      by (rule estab_post [OF estab_frame [OF keeps_write_unused(3)]]) simp
    then have "estab ?I (\<lambda>w. None = video_by_key key (w_db w)) (storage_remove key) (\<lambda>_ _. True)"
      by (rule estab_pre) (use unused in auto)
    then show "estab ?I (\<lambda>w. referenced = video_by_key key (w_db w))
        (if referenced = None then storage_remove key else ret ()) (\<lambda>_ _. True)"
      by (auto intro: estab_ret)
  qed
  then have "keeps ?I (bind (db_read (video_by_key key)) (\<lambda>referenced.
       if referenced = None then storage_remove key else ret ()))"
    by (rule keeps_estab)
  then show ?thesis
    unfolding compensate_final_if_unreferenced_def by (auto intro: keeps_ret keeps_attempt)
qed

lemma final_key_prefix [simp]: "startswith (final_object_key sha) final_prefix"
  unfolding final_object_key_def final_prefix_def by (rule startswith_append)

lemma publish_final_estab:
  assumes "sha = t_sha256 tools output" "n = int (length output)"
  shows "estab (job_inv tools claimed) (\<lambda>_. True)
    (publish_final tools staging (final_object_key sha) output)
    (\<lambda>_ w. final_stored tools sha n (w_store w))"
proof -
  let ?I = "job_inv tools claimed" and ?key = "final_object_key sha"
  let ?Q = "\<lambda>_ w. final_stored tools sha n (w_store w)"
  have stat: "estab ?I (\<lambda>_. True)
      (try_except (bind (storage_stat ?key) (\<lambda>size. ret (Some size)))
         (\<lambda>e. if e = StorageObjectNotFound then ret None else raise e))
      (\<lambda>existing w. existing = None \<longrightarrow> unused ?key (w_db w))"
    using env_closedD(1) [OF env_job_inv] absent_unused job_invD(2)
    by (auto simp: estab_def act_defs storage_stat_def may_fail_def split: option.splits if_splits)
      (metis job_invD(2) absent_unused select_convs surjective update_convs)+
  have verify: "estab ?I P (verify_final tools ?key sha n) ?Q" for P
    by (rule estab_pre [OF verify_final_estab [OF env_job_inv]]) simp
  have copy: "estab ?I (\<lambda>w. unused ?key (w_db w)) (storage_copy staging ?key)
      (\<lambda>_ w. unused ?key (w_db w))"
    by (rule estab_frame [OF keeps_write_unused(2)])
  have checked: "estab ?I P (try_except (verify_final tools ?key sha n)
      (\<lambda>e. if is_exception e
          then bind (compensate_final_if_unreferenced ?key True) (\<lambda>_. raise e) else raise e)) ?Q" for P
    by (rule estab_try [OF verify])
      (auto intro!: estab_stop estab_bind [OF estab_keeps [OF compensate_keeps]])
  show ?thesis
    unfolding publish_final_def hash_file_def Let_def assms(1,2) [symmetric] prod.case
  proof (rule estab_bind [OF stat], goal_cases)
    case (1 existing)
    show ?case
    proof (cases existing)
      case None
      have "estab ?I (\<lambda>w. unused ?key (w_db w))
         (bind (storage_copy staging ?key) (\<lambda>_. bind (try_except (verify_final tools ?key sha n)
            (\<lambda>e. if is_exception e
               then bind (compensate_final_if_unreferenced ?key True) (\<lambda>_. raise e) else raise e))
            (\<lambda>_. ret True))) ?Q"
        by (rule estab_bind [OF copy], rule estab_bind [OF checked], rule estab_ret)
      then show ?thesis using None by (auto elim: estab_pre)
    next
      case (Some stored_size)
      have "estab ?I P (bind (verify_final tools ?key sha n) (\<lambda>_. ret False)) ?Q" for P
        by (rule estab_bind [OF verify], rule estab_ret)
      then show ?thesis using Some by (auto intro: estab_stop)
    qed
  qed
qed

text \<open>The Reel of the job is published, so that its source is not needed any more.\<close>

definition reel_done :: "claimed_job \<Rightarrow> db \<Rightarrow> bool" where
  "reel_done claimed d \<longleftrightarrow>
     (\<exists>r. get_reel d (cj_reel_id claimed) = Some r \<and> reel_status r = ReelPipelineStatus.READY \<and>
        reel_source_object_key r = Some (cj_source_object_key claimed))"

definition done_key :: "string \<Rightarrow> db \<Rightarrow> bool" where
  "done_key key d \<longleftrightarrow>
     (\<exists>r \<in> set (reels d). reel_status r = ReelPipelineStatus.READY \<and> reel_source_object_key r = Some key)"

lemma reel_done_key: "reel_done claimed d \<Longrightarrow> done_key (cj_source_object_key claimed) d"
  by (auto simp: reel_done_def done_key_def dest: lookup_row_SomeD)

lemma done_unused:
  assumes "durable_inv d" "done_key key d"
  shows "unused key d"
proof -
  obtain r where r: "r \<in> set (reels d)" "reel_status r = ReelPipelineStatus.READY"
      "reel_source_object_key r = Some key"
    using assms(2) by (auto simp: done_key_def)
  have "q = r" if "q \<in> set (reels d)" "reel_source_object_key q = Some key" for q
    using unique_nullableD [OF durable_invD(8) [OF assms(1)] that(1) r(1) that(2) r(3)] .
  then have reels: "\<forall>q \<in> set (reels d). needs_source q \<longrightarrow> reel_source_object_key q \<noteq> Some key"
    using r(2) by (auto simp: needs_source_def)
  have "startswith key source_prefix"
    using durable_invD(3) [OF assms(1)] r by (auto simp: keys_ok_iff)
  from prefixes_disjoint(1) [OF this]
  have "\<forall>v \<in> set (videos d). vid_object_key v \<noteq> key"
    using durable_invD(3) [OF assms(1)] by (auto simp: keys_ok_iff)
  with reels show ?thesis by (simp add: unused_def)
qed

lemma commit_ready_estab:
  "estab (job_inv tools claimed) (\<lambda>w. final_stored tools sha n (w_store w))
     (commit_ready tools worker claimed (final_object_key sha) sha n strategy codec probe)
     (\<lambda>_ w. reel_done claimed (w_db w))"
proof -
  let ?I = "job_inv tools claimed" and ?P = "\<lambda>w. final_stored tools sha n (w_store w)"
  have env: "env_closed (\<lambda>w. ?I w \<and> ?P w)" by (intro env_closed_conj env_job_inv env_closed_db)
  have tx: "estab ?I ?P (db_call (commit_ready_tx tools worker claimed (final_object_key sha) sha n
      strategy codec probe fresh now)) (\<lambda>_ w. reel_done claimed (w_db w))" for fresh now
  proof (rule estab_db_call [OF env worker_tx(3)])
    fix s x d' assume s: "?I s" "?P s"
      and f: "commit_ready_tx tools worker claimed (final_object_key sha) sha n strategy codec
        probe fresh now (w_db s) = (Inr x, d')"
    from f have "commit_ready_tx tools worker claimed (final_object_key sha) sha n strategy codec
        probe fresh now (w_db s) = (Inr (), d')" by simp
    from commit_ready_step [OF job_invD [OF s(1)] this s(2)]
    have "norm_step tools (w_store s) (w_db s) d'" "claim_holds claimed d'" "reel_done claimed d'"
      by (auto simp: reel_done_def)
    then show "?I (s\<lparr>w_db := d'\<rparr>) \<and> reel_done claimed (w_db (s\<lparr>w_db := d'\<rparr>))"
      using job_invD(2) [OF s(1)] by (simp add: job_inv_def world_inv_def norm_step_def)
  qed
  show ?thesis
    unfolding commit_ready_def
    by (rule estab_bind [OF estab_frame [OF keeps_datetime_now [OF env]]],
        rule estab_bind [OF estab_frame [OF keeps_uuid4 [OF env]]], rule tx)
qed

lemma remove_quietly_keeps:
  assumes "keeps P (storage_remove key :: unit worker_act)"
  shows "keeps P (remove_quietly key)"
  unfolding remove_quietly_def
  by (intro keeps_try_except keeps_bind assms) (auto intro: act_inv)

text \<open>Between claim and end, the ids of a job and of its Reel and the key of its source stay.\<close>

lemma claim_holds_same:
  assumes "claim_holds claimed d"
    "\<And>i j. get_job d i = Some j \<Longrightarrow> \<exists>j'. get_job d' i = Some j' \<and> job_reel_id j' = job_reel_id j"
    "\<And>i r. get_reel d i = Some r \<Longrightarrow>
       \<exists>r'. get_reel d' i = Some r' \<and> reel_source_object_key r' = reel_source_object_key r"
  shows "claim_holds claimed d'"
  using assms unfolding claim_holds_def by metis

lemma get_reel_updated:
  assumes "get_reel d i = Some r" "reels d' = update_rows reel_id k f (reels d)" "same_source f"
  shows "\<exists>r'. get_reel d' i = Some r' \<and> reel_source_object_key r' = reel_source_object_key r"
  using lookup_update_rows [of reel_id k f i "reels d"] assms same_sourceD [OF assms(3)]
  by (cases "i = k") auto

lemma get_job_updated:
  assumes "get_job d i = Some j" "jobs d' = update_rows job_id k g (jobs d) @ extra"
    "\<And>j. job_id (g j) = job_id j \<and> job_reel_id (g j) = job_reel_id j"
  shows "\<exists>j'. get_job d' i = Some j' \<and> job_reel_id j' = job_reel_id j"
  using lookup_update_rows [of job_id k g i "jobs d"] assms by (cases "i = k") auto

lemma claim_holds_ended:
  assumes "claim_holds claimed d" "attempt_ended j f reason now again fresh d d'" "same_source f"
  shows "claim_holds claimed d'"
  by (rule claim_holds_same [OF assms(1)])
    (use assms(2,3) get_reel_updated get_job_updated in \<open>fastforce simp: attempt_ended_def\<close>)+

lemma source_removed_claim:
  assumes "claim_holds claimed d" "source_removed_tx i d = (Inr x, d')"
  shows "claim_holds claimed d'"
proof -
  have "d' = d \<or> d' = update_reel i (\<lambda>r. r\<lparr>reel_cleanup_pending := False\<rparr>) d"
    using transaction_InrD [OF assms(2) [unfolded source_removed_tx_def]]
    by (auto split: option.splits if_splits)
  then show ?thesis
  proof
    assume d': "d' = update_reel i (\<lambda>r. r\<lparr>reel_cleanup_pending := False\<rparr>) d"
    show ?thesis
    proof (rule claim_holds_same [OF assms(1)])
      show "\<exists>r'. get_reel d' k = Some r' \<and> reel_source_object_key r' = reel_source_object_key r"
        if "get_reel d k = Some r" for k r
        by (rule get_reel_updated [OF that, where f = "\<lambda>r. r\<lparr>reel_cleanup_pending := False\<rparr>" and k = i])
          (simp_all add: d' update_reel_def)
    qed (simp add: d' update_reel_def)
  qed (use assms(1) in simp)
qed

lemma finish_failure_claim:
  assumes "claim_holds claimed d"
    "finish_failure_tx worker claimed reason retryable fresh now d = (Inr x, d')"
  shows "claim_holds claimed d'"
proof -
  from assms(2) have "finish_failure_tx worker claimed reason retryable fresh now d = (Inr (), d')"
    by simp
  from finish_failure_InrD [OF this assms(1)] assms(1) show ?thesis
    by (auto simp: Let_def intro: claim_holds_ended [OF assms(1)] split: if_splits)
qed

section \<open>The worker\<close>

lemma cleanup_source_keeps:
  "estab (job_inv tools claimed) (\<lambda>w. reel_done claimed (w_db w)) (cleanup_source_after_commit claimed)
     (\<lambda>_ _. True)"
proof -
  let ?I = "job_inv tools claimed" and ?u = "\<lambda>w. unused (cj_source_object_key claimed) (w_db (w :: world))"
  have "keeps (\<lambda>w. ?I w \<and> ?u w) (remove_quietly (cj_source_object_key claimed))"
    by (rule remove_quietly_keeps [OF keeps_write_unused(3)])
  then have rem: "estab ?I ?u (remove_quietly (cj_source_object_key claimed)) (\<lambda>_. ?u)"
    by (rule estab_frame)
  have call: "keeps ?I (db_call (source_removed_tx (cj_reel_id claimed)) :: unit worker_act)"
    by (rule keeps_claim_holds_tx [OF worker_tx(5) source_removed_step source_removed_claim])
  have "estab ?I ?u (cleanup_source_after_commit claimed) (\<lambda>_ _. True)"
    unfolding cleanup_source_after_commit_def
    by (rule estab_bind [OF rem]) (auto intro: estab_ret estab_keeps [OF call])
  then show ?thesis
    by (rule estab_pre) (use done_unused reel_done_key job_invD(1) in blast)
qed

lemma process_keeps: "keeps (job_inv tools claimed) (process tools worker claimed)"
proof -
  let ?I = "job_inv tools claimed"
  note env = env_job_inv [of tools claimed]
  have emit: "estab ?I P (emit e r) (\<lambda>_. P)" if "env_closed P" for P e r
    by (rule estab_frame) (intro keeps_env_steps env_closed_conj env that)
  have cancel: "estab ?I P raise_if_cancelled (\<lambda>_. P)" if "env_closed P" for P
    by (rule estab_frame) (intro keeps_env_steps env_closed_conj env that)
  have staging: "keeps ?I (storage_upload_file (cj_staging_prefix claimed @ rest) c t)" for rest c t
  proof (rule keepsI)
    fix s r w assume s: "?I s" "storage_upload_file (cj_staging_prefix claimed @ rest) c t s = (r, w)"
    obtain p where "cj_staging_prefix claimed = staging_root @ p"
      using job_invD(3) [OF s(1)] by (auto simp: claim_holds_def elim: startswithE)
    then have "startswith (cj_staging_prefix claimed @ rest) staging_root" by simp
    from keepsD [OF keeps_write_staging(2) [OF this] s] show "?I w" .
  qed
  have commit: "estab ?I (\<lambda>w. final_stored tools sha n (w_store w))
      (try_except (commit_ready tools worker claimed (final_object_key sha) sha n strategy codec probe)
        (\<lambda>e. if is_exception e
             then bind (compensate_final_if_unreferenced (final_object_key sha) created) (\<lambda>_. raise e)
             else raise e))
      (\<lambda>_ w. reel_done claimed (w_db w))" for sha n strategy codec probe created
    by (rule estab_try [OF commit_ready_estab])
      (auto intro!: estab_stop estab_bind [OF estab_keeps [OF compensate_keeps]])
  have tail: "keeps ?I (bind (publish_final tools staging (final_object_key sha) out) (\<lambda>created.
      bind (emit ''final_published'' None) (\<lambda>_. bind raise_if_cancelled (\<lambda>_.
      bind (try_except (commit_ready tools worker claimed (final_object_key sha) sha n strategy codec probe)
        (\<lambda>e. if is_exception e
             then bind (compensate_final_if_unreferenced (final_object_key sha) created) (\<lambda>_. raise e)
             else raise e)) (\<lambda>_.
      bind (emit ''db_committed'' None) (\<lambda>_.
      bind (cleanup_source_after_commit claimed) (\<lambda>_. emit ''completed'' None)))))))"
    if "sha = t_sha256 tools out" "n = int (length out)"
    for staging sha n out strategy codec probe
    by (rule keeps_estab [where Q = "\<lambda>_ _. True"], rule estab_bind [OF publish_final_estab [OF that]],
        rule estab_bind [OF emit], rule env_closed_db, rule estab_bind [OF cancel], rule env_closed_db,
        rule estab_bind [OF commit], rule estab_bind [OF emit], rule env_closed_db,
        rule estab_bind [OF cleanup_source_keeps], rule estab_keeps, rule keeps_env_steps [OF env])
  show ?thesis
    unfolding process_def hash_file_def Let_def prod.case
    by (intro keeps_bind keeps_env_steps [OF env] keeps_download [OF env] keeps_normalize [OF env])
      (auto simp del: is_exception_simps
        intro!: keeps_stop keeps_bind [OF staging] keeps_bind [OF keeps_env_steps(5) [OF env]] tail)
qed

lemma finish_failure_keeps:
  "keeps (job_inv tools claimed) (finish_failure worker claimed reason retryable)"
  unfolding finish_failure_def
proof (intro keeps_bind keeps_try_except keeps_datetime_now [OF env_job_inv] keeps_uuid4 [OF env_job_inv])
  fix now fresh
  show "keeps (job_inv tools claimed)
      (db_call (finish_failure_tx worker claimed reason retryable fresh now) :: unit worker_act)"
  proof (rule keeps_db_call [OF env_job_inv])
    fix s :: world assume s: "job_inv tools claimed s"
    let ?f = "finish_failure_tx worker claimed reason retryable fresh now"
    let ?P = "\<lambda>d. durable_inv d \<and> media_ok tools d (w_store s) \<and> claim_holds claimed d"
    have "?P (snd (?f (w_db s)))"
    proof (rule transactional_keeps [where P = ?P, OF worker_tx(2)])
      show "?P (w_db s)" using job_invD [OF s] by simp
      fix x d' assume "?f (w_db s) = (Inr x, d')"
      then show "?P d'"
        using finish_failure_step [OF job_invD(1,3) [OF s], where st = "w_store s" and tools = tools]
          finish_failure_claim [OF job_invD(3) [OF s]] job_invD(2) [OF s]
        by (auto simp: norm_step_def)
    qed
    then show "job_inv tools claimed (s\<lparr>w_db := snd (?f (w_db s))\<rparr>)"
      by (simp add: job_inv_def world_inv_def)
  qed
qed (auto intro: act_inv)

lemma claim_estab:
  "estab (world_inv tools) (\<lambda>_. True) (claim worker lease)
     (\<lambda>c w. case c of None \<Rightarrow> True | Some claimed \<Rightarrow> claim_holds claimed (w_db w))"
proof -
  let ?I = "world_inv tools"
  let ?Q = "\<lambda>c w. case c of None \<Rightarrow> True | Some claimed \<Rightarrow> claim_holds claimed (w_db w)"
  have tx: "estab ?I (\<lambda>_. True) (db_call (claim_tx worker lease now) :: claimed_job option worker_act) ?Q" for now
  proof (rule estab_db_call [OF _ worker_tx(1)])
    show "env_closed (\<lambda>w :: world. ?I w \<and> True)" using env_world_inv by simp
    fix s x d' assume s: "?I s" and f: "claim_tx worker lease now (w_db s) = (Inr x, d')"
    have inv: "durable_inv (w_db s)" using s by (simp add: world_inv_def)
    have "?I (s\<lparr>w_db := d'\<rparr>)"
      using claim_tx_step [OF inv f, where tools = tools and st = "w_store s"] s
      by (simp add: world_inv_def norm_step_def)
    moreover have "?Q x (s\<lparr>w_db := d'\<rparr>)"
      using inv f
    proof (cases rule: claim_tx_InrD)
      case 1
      then show ?thesis by simp
    next
      case (2 j q key sha n)
      have "get_job d' (job_id j) = Some (claimed_job_row worker lease now j)"
        using lookup_update_rows [of job_id "job_id j" "claimed_job_row worker lease now" "job_id j"]
          job_at [OF inv 2(2) refl] 2(12) by simp
      moreover have "get_reel d' (reel_id q) = Some (normalizing_reel q)"
        using lookup_update_rows [of reel_id "reel_id q" normalizing_reel "reel_id q"]
          reel_at [OF inv 2(4) refl] 2(11) by simp
      ultimately show ?thesis
        using 2 by (simp add: claim_holds_def claimed_of_def)
    qed
    ultimately show "?I (s\<lparr>w_db := d'\<rparr>) \<and> ?Q x (s\<lparr>w_db := d'\<rparr>)" ..
  qed
  show ?thesis
    unfolding claim_def
    by (rule estab_bind [OF estab_keeps [OF keeps_env_steps(4) [OF env_world_inv]]],
        rule estab_bind [OF estab_keeps [OF keeps_datetime_now [OF env_world_inv]]], rule tx)
qed

lemma run_once_keeps: "keeps (world_inv tools) (run_once tools worker lease)"
proof -
  let ?I = "world_inv tools"
  have job: "estab ?I (\<lambda>w. claim_holds claimed (w_db w))
     (bind (emit ''claimed'' None) (\<lambda>_.
      bind (finally_do (try_except (process tools worker claimed) (handle_failure worker claimed))
              (cleanup_staging (cj_staging_prefix claimed))) (\<lambda>_. ret True))) (\<lambda>_ _. True)" for claimed
  proof (rule estabI)
    let ?J = "job_inv tools claimed"
    fix s r t assume s: "?I s" "claim_holds claimed (w_db s)"
      and run: "bind (emit ''claimed'' None) (\<lambda>_.
      bind (finally_do (try_except (process tools worker claimed) (handle_failure worker claimed))
              (cleanup_staging (cj_staging_prefix claimed))) (\<lambda>_. ret True)) s = (r, t)"
    have J: "?J s" using s by (simp add: job_inv_def)
    have pre: "startswith (cj_staging_prefix claimed) staging_root"
      using s(2) by (simp add: claim_holds_def)
    have "keeps ?J (handle_failure worker claimed e)" for e
      unfolding handle_failure_def
      by (auto split: prod.splits intro!: keeps_bind finish_failure_keeps keeps_env_steps env_job_inv
          keeps_stop)
    then have main: "keeps ?J (try_except (process tools worker claimed) (handle_failure worker claimed))"
      by (intro keeps_try_except process_keeps)
    have emit: "keeps ?J (emit ''claimed'' None)" by (intro keeps_env_steps env_job_inv)
    obtain s1 where s1: "emit ''claimed'' None s = (Inr (), s1)"
      by (simp add: emit_def modify_def)
    have J1: "?J s1" by (rule keepsD [OF emit J s1])
    obtain r2 s2 where s2: "try_except (process tools worker claimed) (handle_failure worker claimed) s1
        = (r2, s2)" by fastforce
    have I2: "?I s2" using keepsD [OF main J1 s2] by (simp add: job_inv_def)
    obtain r3 s3 where s3: "cleanup_staging (cj_staging_prefix claimed) s2 = (r3, s3)"
      by fastforce
    have "?I s3" by (rule keepsD [OF cleanup_staging_keeps [OF pre] I2 s3])
    moreover have "t = s3"
      using run s1 s2 s3 by (auto simp: bind_def finally_do_def ret_def split: sum.splits)
    ultimately show "?I t \<and> (\<forall>x. r = Inr x \<longrightarrow> True)" by simp
  qed
  have "keeps ?I (bind (claim worker lease) (\<lambda>claimed. case claimed of None \<Rightarrow> ret False
     | Some claimed \<Rightarrow> bind (emit ''claimed'' None) (\<lambda>_.
      bind (finally_do (try_except (process tools worker claimed) (handle_failure worker claimed))
              (cleanup_staging (cj_staging_prefix claimed))) (\<lambda>_. ret True))))"
  proof (rule keeps_estab [where Q = "\<lambda>_ _. True"], rule estab_bind [OF claim_estab])
    fix c
    show "estab ?I (\<lambda>w. case c of None \<Rightarrow> True | Some claimed \<Rightarrow> claim_holds claimed (w_db w))
       (case c of None \<Rightarrow> ret False
        | Some claimed \<Rightarrow> bind (emit ''claimed'' None) (\<lambda>_.
            bind (finally_do (try_except (process tools worker claimed) (handle_failure worker claimed))
              (cleanup_staging (cj_staging_prefix claimed))) (\<lambda>_. ret True))) (\<lambda>_ _. True)"
      using job by (cases c) (auto intro: estab_ret)
  qed
  note rest = this
  show ?thesis
    unfolding run_once_def
  proof (rule keeps_bind [OF keeps_cancel_is_set [OF env_world_inv]])
    fix c
    show "keeps ?I (if c then ret False else
      bind (claim worker lease) (\<lambda>claimed. case claimed of None \<Rightarrow> ret False
       | Some claimed \<Rightarrow> bind (emit ''claimed'' None) (\<lambda>_.
        bind (finally_do (try_except (process tools worker claimed) (handle_failure worker claimed))
              (cleanup_staging (cj_staging_prefix claimed))) (\<lambda>_. ret True))))"
      using rest by (cases c) (simp_all add: keeps_ret)
  qed
qed

section \<open>Reconciliation\<close>

lemma recover_jobs_prefixes:
  "recover_jobs now fresh js d = (ps, n, d') \<Longrightarrow> p \<in> set ps \<Longrightarrow> \<exists>j \<in> set js. job_staging_prefix j = Some p"
proof (induction now fresh js d arbitrary: ps n d' rule: recover_jobs.induct)
  case (2 now fresh job js d)
  show ?case
  proof (cases "get_reel d (job_reel_id job) = None")
    case True
    with 2 show ?thesis by auto
  next
    case False
    obtain ps1 n1 where r: "recover_jobs now (tl fresh) js (recover_job now (pop 0 fresh) job d) = (ps1, n1, d')"
      using 2(3) False by (auto split: prod.splits)
    have "p \<in> set ps1 \<or> job_staging_prefix job = Some p"
      using 2(3,4) False r by (auto split: option.splits if_splits)
    with 2(2) [OF False r] show ?thesis by auto
  qed
qed auto

lemma recover_estab:
  "estab (world_inv tools) (\<lambda>_. True) (db_call (recover_tx now fresh) :: (string list \<times> int) worker_act)
     (\<lambda>(ps, n) _. \<forall>p \<in> set ps. startswith p staging_root)"
proof (rule estab_db_call [OF _ worker_tx(4)])
  show "env_closed (\<lambda>w :: world. world_inv tools w \<and> True)" using env_world_inv by simp
  fix s :: world and x d'
  assume s: "world_inv tools s" and f: "recover_tx now fresh (w_db s) = (Inr x, d')"
  obtain ps n where x: "x = (ps, n)" by fastforce
  have inv: "durable_inv (w_db s)" using s by (simp add: world_inv_def)
  have "world_inv tools (s\<lparr>w_db := d'\<rparr>)"
    using recover_tx_step [OF inv f [unfolded x], where tools = tools and st = "w_store s"] s
    by (simp add: world_inv_def norm_step_def)
  moreover from transaction_InrD [OF f [unfolded recover_tx_def x]]
  have "recover_jobs now fresh (filter (stale_job now) (jobs (w_db s))) (w_db s) = (ps, n, d')"
    by (auto split: prod.splits)
  then have "\<forall>p \<in> set ps. startswith p staging_root"
    using recover_jobs_prefixes durable_invD(3) [OF inv] by (fastforce simp: keys_ok_iff)
  ultimately show "world_inv tools (s\<lparr>w_db := d'\<rparr>) \<and>
      (case x of (ps, n) \<Rightarrow> \<lambda>_. \<forall>p \<in> set ps. startswith p staging_root) (s\<lparr>w_db := d'\<rparr>)"
    by (simp add: x)
qed

text \<open>The rows of the loop stay published while their sources are removed.\<close>

definition rows_done :: "reel list \<Rightarrow> world \<Rightarrow> bool" where
  "rows_done rs w \<longleftrightarrow> (\<forall>r \<in> set rs. \<forall>key. reel_source_object_key r = Some key \<longrightarrow> done_key key (w_db w))"

lemma env_rows_done [intro]: "env_closed (rows_done rs)"
  by (simp add: env_closed_def rows_done_def)

lemma cleaned_done:
  assumes "done_key key d" "cleaned_tx i d = (Inr b, d')"
  shows "done_key key d'"
proof -
  have "d' = d \<or> d' = update_reel i (\<lambda>r. r\<lparr>reel_cleanup_pending := False\<rparr>) d"
    using transaction_InrD [OF assms(2) [unfolded cleaned_tx_def]]
    by (auto split: option.splits if_splits)
  then show ?thesis
  proof
    assume d': "d' = update_reel i (\<lambda>r. r\<lparr>reel_cleanup_pending := False\<rparr>) d"
    obtain r where r: "r \<in> set (reels d)" "reel_status r = ReelPipelineStatus.READY"
      "reel_source_object_key r = Some key" using assms(1) by (auto simp: done_key_def)
    let ?r = "if reel_id r = i then r\<lparr>reel_cleanup_pending := False\<rparr> else r"
    have "?r \<in> set (reels d')" using r(1) by (auto simp: d' update_reel_def in_update_rows)
    then show ?thesis using r(2,3) unfolding done_key_def by (intro bexI [of _ ?r]) auto
  qed (use assms(1) in simp)
qed

lemma clean_sources_keeps:
  "estab (world_inv tools) (rows_done rs) (clean_sources rs n) (\<lambda>_ _. True)"
proof (induction rs arbitrary: n)
  case Nil
  then show ?case by (auto intro: estab_ret)
next
  case (Cons r rs)
  let ?I = "world_inv tools"
  have rest: "estab ?I (rows_done (r # rs)) (clean_sources rs n) (\<lambda>_ _. True)" for n
    by (rule estab_pre [OF Cons.IH]) (simp add: rows_done_def)
  have env: "env_closed (\<lambda>w. ?I w \<and> rows_done rs w)" by (intro env_closed_conj env_world_inv env_rows_done)
  have tx: "estab ?I (rows_done rs) (db_call (cleaned_tx (reel_id r))) (\<lambda>_. rows_done rs)"
  proof (rule estab_db_call [OF env worker_tx(6)])
    fix s :: world and x d'
    assume s: "?I s" "rows_done rs s" and f: "cleaned_tx (reel_id r) (w_db s) = (Inr x, d')"
    have inv: "durable_inv (w_db s)" using s by (simp add: world_inv_def)
    have "?I (s\<lparr>w_db := d'\<rparr>)"
      using cleaned_step [OF inv f, where tools = tools and st = "w_store s"] s
      by (simp add: world_inv_def norm_step_def)
    then show "?I (s\<lparr>w_db := d'\<rparr>) \<and> rows_done rs (s\<lparr>w_db := d'\<rparr>)"
      using s(2) cleaned_done [OF _ f] by (simp add: rows_done_def)
  qed
  have remove: "estab ?I (rows_done (r # rs)) (remove_quietly key) (\<lambda>_. rows_done rs)"
    if "reel_source_object_key r = Some key" for key
  proof -
    let ?P = "\<lambda>w. ?I w \<and> (rows_done rs w \<and> unused key (w_db w))"
    have "keeps ?P (storage_remove key :: unit worker_act)"
    proof (rule keeps_write_at(3))
      show "env_closed ?P" by (intro env_closed_conj env_world_inv env_rows_done env_closed_db)
      show "?P (w\<lparr>w_store := st'\<rparr>)" if "?P w" "\<And>k. k \<noteq> key \<Longrightarrow> store_get st' k = store_get (w_store w) k"
        for w :: world and st'
        using world_inv_store [of tools w key st'] that by (simp add: rows_done_def)
    qed
    then have "keeps ?P (remove_quietly key)" by (rule remove_quietly_keeps)
    then have "estab ?I (\<lambda>w. rows_done rs w \<and> unused key (w_db w)) (remove_quietly key)
        (\<lambda>_ w. rows_done rs w \<and> unused key (w_db w))"
      by (rule estab_frame)
    then have "estab ?I (\<lambda>w. rows_done rs w \<and> unused key (w_db w)) (remove_quietly key) (\<lambda>_. rows_done rs)"
      by (rule estab_post) simp
    then show ?thesis
      by (rule estab_pre)
        (use that done_unused in \<open>auto simp: rows_done_def world_inv_def\<close>)
  qed
  show ?case
  proof (cases "reel_source_object_key r")
    case None
    then show ?thesis using rest by simp
  next
    case (Some key)
    have "estab ?I (rows_done (r # rs)) (bind (remove_quietly key) (\<lambda>removed.
            if \<not> removed then clean_sources rs n
            else bind (db_call (cleaned_tx (reel_id r))) (\<lambda>flag.
              clean_sources rs (if flag then n + 1 else n)))) (\<lambda>_ _. True)"
    proof (rule estab_bind [OF remove [OF Some]])
      fix removed
      show "estab ?I (rows_done rs) (if \<not> removed then clean_sources rs n
            else bind (db_call (cleaned_tx (reel_id r))) (\<lambda>flag.
              clean_sources rs (if flag then n + 1 else n))) (\<lambda>_ _. True)"
        using estab_bind [OF tx Cons.IH] Cons.IH by simp
    qed
    then show ?thesis using Some rest by simp
  qed
qed

lemma reconcile_cleanup_keeps: "keeps (world_inv tools) reconcile_source_cleanup"
proof -
  have read: "estab (world_inv tools) (\<lambda>_. True)
      (db_read (\<lambda>d. filter (\<lambda>r. reel_status r = ReelPipelineStatus.READY \<and> reel_cleanup_pending r) (reels d)))
      rows_done"
    unfolding db_read_def db_call_def
  proof (rule estab_may_fail)
    show "env_closed (\<lambda>w :: world. world_inv tools w \<and> True)" using env_world_inv by simp
  qed (auto simp: estab_def act_defs read_only_def rows_done_def done_key_def)
  show ?thesis
    unfolding reconcile_source_cleanup_def
    by (rule keeps_estab, rule estab_bind [OF read], rule clean_sources_keeps)
qed

lemma reconcile_keeps: "keeps (world_inv tools) reconcile"
proof -
  let ?I = "world_inv tools"
  have tail: "keeps ?I (bind (db_call (recover_tx now fresh) :: (string list \<times> int) worker_act) (\<lambda>(ps, n).
     bind (for_each cleanup_staging ps) (\<lambda>_.
     bind reconcile_source_cleanup (\<lambda>cleaned. ret (n, cleaned)))))" for now fresh
  proof (rule keeps_bind_val)
    show "estab ?I (\<lambda>_. True) (db_call (recover_tx now fresh) :: (string list \<times> int) worker_act)
        (\<lambda>x _. \<forall>p \<in> set (fst x). startswith p staging_root)"
      by (rule estab_post [OF recover_estab]) auto
    fix x :: "string list \<times> int" assume "\<forall>p \<in> set (fst x). startswith p staging_root"
    then show "keeps ?I (case x of (ps, n) \<Rightarrow> bind (for_each cleanup_staging ps) (\<lambda>_.
        bind reconcile_source_cleanup (\<lambda>cleaned. ret (n, cleaned))))"
      by (cases x) (auto intro!: keeps_bind keeps_for_each cleanup_staging_keeps
          reconcile_cleanup_keeps keeps_ret)
  qed
  show ?thesis
    unfolding reconcile_def
    by (intro keeps_bind keeps_datetime_now [OF env_world_inv] keeps_with_state
        keeps_uuid4s [OF env_world_inv] tail)
qed

end
