(* ===== verification/RunLedger.thy ===== *)
theory RunLedger
  imports CollectorStore
begin

text \<open>
  The bookkeeping of collection runs: the counters of a run are the counts of its items, items are
  numbered without gaps, statuses follow the policy, and the operations that end a run.
\<close>

section \<open>Counters and items\<close>

definition items_of :: "db \<Rightarrow> uuid \<Rightarrow> run_item list" where
  "items_of d i = filter (\<lambda>x. item_run_id x = i) (run_items d)"

definition outcome_count :: "RunItemOutcome \<Rightarrow> run_item list \<Rightarrow> int" where
  "outcome_count outcome items = int (length (filter (\<lambda>x. item_outcome x = outcome) items))"

definition run_ledger :: "run_item list \<Rightarrow> collection_run \<Rightarrow> bool" where
  "run_ledger items r \<longleftrightarrow>
     map item_position items = [1..counter_sum r] \<and>
     run_source_committed_count r = outcome_count RunItemOutcome.SOURCE_COMMITTED items \<and>
     run_already_available_count r = outcome_count RunItemOutcome.ALREADY_AVAILABLE items \<and>
     run_failed_count r = outcome_count RunItemOutcome.FAILED items"

definition ledger_ok :: "db \<Rightarrow> bool" where
  "ledger_ok d \<longleftrightarrow> (\<forall>r \<in> set (runs d). run_ledger (items_of d (run_id r)) r)"

lemma ledger_ok_empty [simp]: "ledger_ok empty_db"
  by (simp add: ledger_ok_def empty_db_def)

lemma counter_sum_nonneg: "run_ok r \<Longrightarrow> 0 \<le> counter_sum r \<and> counter_sum r \<le> run_target_count r"
  by (simp add: run_ok_def counter_sum_def)

text \<open>Operations that leave the items alone and change no counter.\<close>

definition same_counters :: "collection_run \<Rightarrow> collection_run \<Rightarrow> bool" where
  "same_counters r q \<longleftrightarrow>
     run_id r = run_id q \<and> run_source_committed_count r = run_source_committed_count q \<and>
     run_already_available_count r = run_already_available_count q \<and>
     run_failed_count r = run_failed_count q"

lemma same_counters_refl [simp]: "same_counters r r"
  by (simp add: same_counters_def)

lemma run_ledger_same: "same_counters r q \<Longrightarrow> run_ledger items r = run_ledger items q"
  by (simp add: run_ledger_def same_counters_def counter_sum_def)

lemma ledger_keep:
  assumes "ledger_ok d" "run_items d' = run_items d"
    "\<And>r. r \<in> set (runs d') \<Longrightarrow> \<exists>q \<in> set (runs d). same_counters r q"
  shows "ledger_ok d'"
  unfolding ledger_ok_def
proof
  fix r assume "r \<in> set (runs d')"
  then obtain q where q: "q \<in> set (runs d)" "same_counters r q" using assms(3) by blast
  then have "run_ledger (items_of d (run_id q)) q" using assms(1) by (simp add: ledger_ok_def)
  with q(2) show "run_ledger (items_of d' (run_id r)) r"
    using assms(2) run_ledger_same [OF q(2)] by (simp add: items_of_def same_counters_def)
qed

lemma run_ledger_snoc:
  assumes "run_ledger items r" "0 \<le> counter_sum r" "item_position x = counter_sum r + 1"
  shows "run_ledger (items @ [x]) (bump_counter (item_outcome x) r)"
proof -
  have "[1..counter_sum r + 1] = [1..counter_sum r] @ [counter_sum r + 1]"
    using assms(2) upto_rec2 [of 1 "counter_sum r + 1"] by simp
  moreover have "counter_sum (bump_counter (item_outcome x) r) = counter_sum r + 1"
    by (simp add: counter_sum_def bump_counter_def)
  ultimately have "map item_position (items @ [x]) =
      [1..counter_sum (bump_counter (item_outcome x) r)]"
    using assms by (simp add: run_ledger_def)
  then show ?thesis using assms(1)
    unfolding run_ledger_def
    by (cases "item_outcome x") (simp_all add: outcome_count_def bump_counter_def)
qed

lemma add_item_ledger:
  assumes "ledger_ok d" "list_all run_ok (runs d)" "unique_col run_id (runs d)"
    "add_item run i outcome mode reason now d = Inr d'"
  shows "ledger_ok d'"
proof -
  from add_item_InrD [OF assms(4)] obtain r where r: "get_run d run = Some r"
    and d': "d' = d\<lparr>run_items := run_items d @ [\<lparr>item_run_id = run, item_reel_id = i,
              item_position = counter_sum r + 1, item_outcome = outcome, item_auth_mode = mode,
              item_reason_code = reason, item_completed_at = Some now\<rparr>],
            runs := update_rows run_id run (bump_counter outcome) (runs d)\<rparr>"
    by blast
  let ?x = "\<lparr>item_run_id = run, item_reel_id = i, item_position = counter_sum r + 1,
      item_outcome = outcome, item_auth_mode = mode, item_reason_code = reason,
      item_completed_at = Some now\<rparr>"
  note mem = lookup_row_SomeD [OF r]
  have items: "items_of d' k = items_of d k @ (if k = run then [?x] else [])" for k
    by (simp add: items_of_def d')
  show ?thesis
    unfolding ledger_ok_def
  proof
    fix q assume "q \<in> set (runs d')"
    then have "q \<in> set (update_rows run_id run (bump_counter outcome) (runs d))"
      by (simp add: d')
    then show "run_ledger (items_of d' (run_id q)) q"
    proof (cases rule: update_rowsE)
      case (1 p)
      then have "p = r" using unique_colD [OF assms(3) _ conjunct1 [OF mem]] mem by simp
      have "run_ledger (items_of d run) r" "0 \<le> counter_sum r"
        using assms(1,2) mem counter_sum_nonneg [of r]
        by (auto simp: ledger_ok_def list_all_iff)
      then show ?thesis using run_ledger_snoc [of "items_of d run" r ?x] 1 items \<open>p = r\<close> by simp
    next
      case 2
      then show ?thesis using assms(1) items by (simp add: ledger_ok_def)
    qed
  qed
qed

definition run_books :: "db \<Rightarrow> bool" where
  "run_books d \<longleftrightarrow> constraints_ok d \<and> ledger_ok d"

lemma run_booksD: "run_books d \<Longrightarrow> list_all run_ok (runs d) \<and> unique_col run_id (runs d)"
  by (simp add: run_books_def constraint_defs)

lemma books_via_item:
  assumes "run_books d" "runs d1 = runs d" "run_items d1 = run_items d"
    "add_item run i outcome mode reason now d1 = Inr d'"
  shows "ledger_ok d'"
proof (rule add_item_ledger [OF _ _ _ assms(4)])
  show "ledger_ok d1" by (rule ledger_keep [of d]) (use assms in \<open>auto simp: run_books_def same_counters_def\<close>)
qed (use run_booksD [OF assms(1)] assms(2) in auto)

lemma books_commit_source:
  assumes "run_books d"
  shows "run_books (snd (commit_source run c source key fresh fresh_job now d))"
proof (rule transactional_keeps [where P = run_books, OF transactionalI [OF commit_source_def] assms])
  fix x d' assume c: "commit_source run c source key fresh fresh_job now d = (Inr x, d')"
    and ok: "constraints_ok d'"
  from c have "commit_source run c source key fresh fresh_job now d = (Inr (), d')" by simp
  from commit_source_InrD [OF this] obtain r d0 where f: "find_or_discover c fresh now d = (r, d0)"
    and item: "add_item run (reel_id r) RunItemOutcome.SOURCE_COMMITTED
       (Some DownloadAuthMode.SESSION_FIRST) None now
       (update_reel (reel_id r) (source_committed_reel source key now) d0
         \<lparr>jobs := jobs d @ [new_job fresh_job (reel_id r) 0 now]\<rparr>) = Inr d'"
    by metis
  show "run_books d'"
    using books_via_item [OF assms _ _ item] ok find_or_discover_reel [OF f]
    by (simp add: run_books_def update_reel_def)
qed

lemma books_commit_available:
  assumes "run_books d"
  shows "run_books (snd (commit_available run c now d))"
  unfolding commit_available_def
proof (rule transaction_keeps [where P = run_books, OF assms])
  fix x d' assume "(case lookup_row reel_shortcode (shortcode c) (reels d) of
        None \<Rightarrow> Inl ValueError
      | Some r \<Rightarrow>
          if \<not> durable_status (reel_status r) then Inl ValueError
          else rbind (add_item run (reel_id r) RunItemOutcome.ALREADY_AVAILABLE None None now d)
                 (\<lambda>d. Inr ((), d))) = Inr (x, d')" and ok: "constraints_ok d'"
  then obtain i where "add_item run i RunItemOutcome.ALREADY_AVAILABLE None None now d = Inr d'"
    by (auto split: option.splits if_splits)
  from books_via_item [OF assms refl refl this] ok show "run_books d'"
    by (simp add: run_books_def)
qed

lemma books_record_failure:
  assumes "run_books d"
  shows "run_books (snd (record_failure run c reason attempted fresh now d))"
proof (rule transactional_keeps [where P = run_books, OF transactionalI [OF record_failure_def] assms])
  fix x d' assume c: "record_failure run c reason attempted fresh now d = (Inr x, d')"
    and ok: "constraints_ok d'"
  from c have "record_failure run c reason attempted fresh now d = (Inr (), d')" by simp
  from record_failure_InrD [OF this] obtain i mode d1 where
    d1: "runs d1 = runs d" "run_items d1 = run_items d"
    and item: "add_item run i RunItemOutcome.FAILED mode (Some reason) now d1 = Inr d'"
    by metis
  from books_via_item [OF assms d1 item] ok show "run_books d'"
    by (simp add: run_books_def)
qed

section \<open>Opening and ending runs\<close>

lemma update_run_frame [simp]:
  "reels (update_run i f d) = reels d" "jobs (update_run i f d) = jobs d"
  "videos (update_run i f d) = videos d" "run_items (update_run i f d) = run_items d"
  "accounts (update_run i f d) = accounts d"
  "login_sessions (update_run i f d) = login_sessions d"
  "reel_views (update_run i f d) = reel_views d"
  "runs (update_run i f d) = update_rows run_id i f (runs d)"
  by (simp_all add: update_run_def)

lemma end_run_frame [simp]:
  "run_id (end_run st reason now r) = run_id r" "run_status (end_run st reason now r) = st"
  "run_account_id (end_run st reason now r) = run_account_id r"
  "counter_sum (end_run st reason now r) = counter_sum r"
  "same_counters (end_run st reason now r) r"
  by (simp_all add: end_run_def counter_sum_def same_counters_def)

lemma ledger_update_run:
  assumes "ledger_ok d" "\<And>r. r \<in> set (runs d) \<Longrightarrow> run_id r = i \<Longrightarrow> same_counters (f r) r"
  shows "ledger_ok (update_run i f d)"
proof (rule ledger_keep [OF assms(1)])
  fix r assume "r \<in> set (runs (update_run i f d))"
  then have "r \<in> set (update_rows run_id i f (runs d))" by simp
  then show "\<exists>q \<in> set (runs d). same_counters r q"
    by (cases rule: update_rowsE) (use assms(2) same_counters_refl in blast)+
qed simp

lemma books_create_run:
  assumes "run_books d"
  shows "run_books (snd (create_run account trigger target fresh now d))"
  unfolding create_run_def
proof (rule transaction_keeps [where P = run_books, OF assms])
  let ?r = "new_run fresh account trigger CollectionRunStatus.RUNNING target (Some now) now"
  fix x d' assume d': "Inr (fresh, d\<lparr>runs := runs d @ [?r]\<rparr>) = Inr (x, d')" and ok: "constraints_ok d'"
  then have "run_id ?r \<notin> run_id ` set (runs d)" by (auto simp: constraint_defs)
  then have fresh: "fresh \<notin> run_id ` set (runs d)" by (simp add: new_run_def)
  have "references_ok d" using assms by (simp add: run_books_def constraints_ok_def)
  with fresh have "items_of d fresh = []"
    by (auto simp: items_of_def references_ok_def filter_empty_conv)
  then have "run_ledger (items_of d (run_id ?r)) ?r"
    by (simp add: run_ledger_def new_run_def counter_sum_def outcome_count_def)
  then show "run_books d'"
    using assms d' ok by (auto simp: run_books_def ledger_ok_def items_of_def)
qed

text \<open>Every run keeps its account and moves along the policy.\<close>

definition runs_follow :: "db \<Rightarrow> db \<Rightarrow> bool" where
  "runs_follow d d' \<longleftrightarrow>
     (\<forall>r \<in> set (runs d). \<exists>r' \<in> set (runs d').
        run_id r' = run_id r \<and> run_account_id r' = run_account_id r \<and>
        moves collection_run_transitions (run_status r) (run_status r'))"

lemma runs_follow_same: "runs d' = runs d \<Longrightarrow> runs_follow d d'"
  by (auto simp: runs_follow_def)

lemma runs_follow_append: "runs d' = runs d @ rs \<Longrightarrow> runs_follow d d'"
  by (auto simp: runs_follow_def)

lemma runs_follow_update:
  assumes "\<And>r. r \<in> set (runs d) \<Longrightarrow> run_id r = i \<Longrightarrow>
      run_id (f r) = i \<and> run_account_id (f r) = run_account_id r \<and>
      moves collection_run_transitions (run_status r) (run_status (f r))"
  shows "runs_follow d (update_run i f d)"
  unfolding runs_follow_def
proof
  fix r assume r: "r \<in> set (runs d)"
  then have "(if run_id r = i then f r else r) \<in> set (runs (update_run i f d))"
    by (auto simp: in_update_rows)
  with r assms show "\<exists>r' \<in> set (runs (update_run i f d)).
        run_id r' = run_id r \<and> run_account_id r' = run_account_id r \<and>
        moves collection_run_transitions (run_status r) (run_status r')"
    by (intro bexI [of _ "if run_id r = i then f r else r"]) auto
qed

lemma run_policy_simps:
  "moves collection_run_transitions CollectionRunStatus.RUNNING CollectionRunStatus.FAILED"
  "moves collection_run_transitions CollectionRunStatus.RUNNING CollectionRunStatus.COMPLETED"
  "moves collection_run_transitions CollectionRunStatus.QUEUED CollectionRunStatus.RUNNING"
  "run_active r \<Longrightarrow> moves collection_run_transitions (run_status r) CollectionRunStatus.CANCELLED"
  by (auto simp: policy_simps run_active_def)

text \<open>When the constraints hold, changing a run within its own constraints commits.\<close>

lemma constraints_update_run:
  assumes "constraints_ok d"
    and f: "\<And>r. r \<in> set (runs d) \<Longrightarrow> run_id r = i \<Longrightarrow>
       run_id (f r) = i \<and> run_account_id (f r) = run_account_id r \<and> run_ok (f r) \<and> run_fits (f r) \<and>
       (run_active (f r) \<longrightarrow> run_active r)"
  shows "constraints_ok (update_run i f d)"
proof -
  have ids: "map run_id (update_rows run_id i f (runs d)) = map run_id (runs d)"
    "map run_account_id (update_rows run_id i f (runs d)) = map run_account_id (runs d)"
    using f by (auto simp: update_rows_def)
  have "set (map run_id (update_rows run_id i f (runs d))) = run_id ` set (runs d)"
    "set (map run_account_id (update_rows run_id i f (runs d))) = run_account_id ` set (runs d)"
    by (simp_all only: ids set_map)
  then have sets: "run_id ` set (update_rows run_id i f (runs d)) = run_id ` set (runs d)"
    "run_account_id ` set (update_rows run_id i f (runs d)) = run_account_id ` set (runs d)"
    by simp_all
  have "\<forall>q \<in> set (runs d). run_account_id q \<in> acc_id ` set (accounts d)"
    using assms(1) by (simp add: constraints_ok_def references_ok_def)
  then have "run_account_id ` set (runs d) \<subseteq> acc_id ` set (accounts d)" by blast
  then have "run_account_id ` set (update_rows run_id i f (runs d)) \<subseteq> acc_id ` set (accounts d)"
    by (simp only: sets(2))
  then have refs: "\<forall>r \<in> set (update_rows run_id i f (runs d)). run_account_id r \<in> acc_id ` set (accounts d)"
    by blast
  have "\<forall>r \<in> set (runs d). run_ok r" "\<forall>r \<in> set (runs d). run_fits r"
    using assms(1) by (simp_all add: constraints_ok_def rows_ok_def widths_ok_def list_all_iff)
  then have rows: "list_all run_ok (update_rows run_id i f (runs d))"
    "list_all run_fits (update_rows run_id i f (runs d))"
    unfolding list_all_iff using f by (intro all_update_rows; blast)+
  have uw: "unique_where run_active run_account_id (update_rows run_id i f (runs d))"
  proof (rule unique_where_update)
    show "unique_where run_active run_account_id (runs d)"
      using assms(1) by (simp add: constraints_ok_def uniques_ok_def)
  qed (use f in blast)
  have uc: "unique_col run_id (update_rows run_id i f (runs d))"
    using assms(1) by (simp add: constraints_ok_def uniques_ok_def unique_col_def ids)
  show ?thesis
    unfolding constraints_ok_def
  proof (intro conjI)
    show "widths_ok (update_run i f d)"
      using assms(1) rows(2) by (simp add: constraints_ok_def widths_ok_def)
    show "rows_ok (update_run i f d)"
      using assms(1) rows(1) by (simp add: constraints_ok_def rows_ok_def)
    show "references_ok (update_run i f d)"
      using assms(1) refs sets(1) by (simp add: constraints_ok_def references_ok_def)
    show "uniques_ok (update_run i f d)"
      using assms(1) uw uc by (simp add: constraints_ok_def uniques_ok_def)
  qed
qed

lemma constraints_end_run:
  assumes "constraints_ok d" "\<not> (st = CollectionRunStatus.QUEUED \<or> st = CollectionRunStatus.RUNNING)"
    "varchar_null 64 reason"
  shows "constraints_ok (update_run i (end_run st reason now) d)"
proof (rule constraints_update_run [OF assms(1)])
  fix r assume r: "r \<in> set (runs d)" "run_id r = i"
  then have "run_ok r" "run_fits r" using assms(1) by (auto simp: constraint_defs list_all_iff)
  then show "run_id (end_run st reason now r) = i \<and>
      run_account_id (end_run st reason now r) = run_account_id r \<and>
      run_ok (end_run st reason now r) \<and> run_fits (end_run st reason now r) \<and>
      (run_active (end_run st reason now r) \<longrightarrow> run_active r)"
    using assms(2,3) r
    by (auto simp: end_run_def run_ok_def run_fits_def run_active_def split: option.splits)
qed

lemma varchar_reason [simp]: "varchar_null 64 (Some (reason_value r))" "varchar_null n None"
  by (simp_all add: varchar_null_def varchar_def)

lemma get_run_update:
  "(\<And>r. run_id r = i \<Longrightarrow> run_id (f r) = i) \<Longrightarrow>
   get_run (update_run i f d) j = (if j = i then map_option f (get_run d i) else get_run d j)"
  by (simp add: lookup_update_rows)

subsection \<open>What each of them does\<close>

lemma fail_run_eq:
  assumes "constraints_ok d" "varchar_null 64 (Some reason)"
  shows "fail_run i reason now d =
     (Inr (), case get_run d i of
        None \<Rightarrow> d
      | Some r \<Rightarrow> if run_status r = CollectionRunStatus.RUNNING
                  then update_run i (end_run CollectionRunStatus.FAILED (Some reason) now) d else d)"
  using assms constraints_end_run [OF assms(1), of CollectionRunStatus.FAILED "Some reason" i now]
  by (auto simp: fail_run_def transaction_def split: option.splits)

lemma cancel_run_eq:
  assumes "constraints_ok d" "varchar_null 64 (Some reason)"
  shows "cancel_run i reason now d =
     (case get_run d i of
        None \<Rightarrow> (Inr CancelRunOutcome.NOT_FOUND, d)
      | Some r \<Rightarrow> if run_active r
                  then (Inr CancelRunOutcome.CANCELLED,
                        update_run i (end_run CollectionRunStatus.CANCELLED (Some reason) now) d)
                  else (Inr CancelRunOutcome.ALREADY_TERMINAL, d))"
  using assms constraints_end_run [OF assms(1), of CollectionRunStatus.CANCELLED "Some reason" i now]
  by (auto simp: cancel_run_def transaction_def split: option.splits)

lemma complete_run_eq:
  assumes "constraints_ok d"
  shows "complete_run i now d =
     (Inr (), if get_run d i = None then d
              else update_run i (end_run CollectionRunStatus.COMPLETED None now) d)"
  using assms constraints_end_run [OF assms(1), of CollectionRunStatus.COMPLETED None i now]
  by (auto simp: complete_run_def transaction_def split: option.splits)

lemma complete_if_eq:
  assumes "constraints_ok d"
  shows "complete_if_account_durable_total i desired now d =
     (case get_run d i of
        None \<Rightarrow> (Inr False, d)
      | Some r \<Rightarrow>
          if run_status r = CollectionRunStatus.RUNNING \<and>
             account_durable_count (run_account_id r) d = desired
          then (Inr True, update_run i (end_run CollectionRunStatus.COMPLETED None now) d)
          else (Inr False, d))"
  using assms constraints_end_run [OF assms(1), of CollectionRunStatus.COMPLETED None i now]
  by (auto simp: complete_if_account_durable_total_def transaction_def split: option.splits)

lemma claim_queued_run_eq:
  assumes "constraints_ok d"
  shows "claim_queued_run account now d =
     (case first_by (\<lambda>r. (run_created_at r, run_id r))
         (filter (\<lambda>r. run_account_id r = account \<and> run_status r = CollectionRunStatus.QUEUED
                    \<and> run_cancel_requested_at r = None) (runs d)) of
        None \<Rightarrow> (Inr None, d)
      | Some r \<Rightarrow>
          let r' = r\<lparr>run_status := CollectionRunStatus.RUNNING, run_started_at := Some now\<rparr>
          in (Inr (Some r'), update_run (run_id r) (\<lambda>_. r') d))"
proof -
  let ?q = "filter (\<lambda>r. run_account_id r = account \<and> run_status r = CollectionRunStatus.QUEUED
                    \<and> run_cancel_requested_at r = None) (runs d)"
  have "constraints_ok (update_run (run_id r) (\<lambda>_. r\<lparr>run_status := CollectionRunStatus.RUNNING,
      run_started_at := Some now\<rparr>) d)"
    if "first_by (\<lambda>r. (run_created_at r, run_id r)) ?q = Some r" for r
  proof (rule constraints_update_run [OF assms])
    from first_by_mem [OF that] have r: "r \<in> set (runs d)" "run_status r = CollectionRunStatus.QUEUED"
      by auto
    fix q assume "q \<in> set (runs d)" "run_id q = run_id r"
    then have "q = r" using r assms by (auto simp: constraint_defs dest: unique_colD)
    moreover have "run_ok r" "run_fits r"
      using r assms by (auto simp: constraint_defs list_all_iff)
    ultimately show "run_id (r\<lparr>run_status := CollectionRunStatus.RUNNING,
          run_started_at := Some now\<rparr>) = run_id r \<and>
        run_account_id (r\<lparr>run_status := CollectionRunStatus.RUNNING,
          run_started_at := Some now\<rparr>) = run_account_id q \<and>
        run_ok (r\<lparr>run_status := CollectionRunStatus.RUNNING, run_started_at := Some now\<rparr>) \<and>
        run_fits (r\<lparr>run_status := CollectionRunStatus.RUNNING, run_started_at := Some now\<rparr>) \<and>
        (run_active (r\<lparr>run_status := CollectionRunStatus.RUNNING, run_started_at := Some now\<rparr>)
          \<longrightarrow> run_active q)"
      using r by (simp add: run_ok_def run_fits_def run_active_def)
  qed
  then show ?thesis
    using assms by (simp add: claim_queued_run_def transaction_def Let_def split: option.splits)
qed

lemmas run_end_eqs = fail_run_eq cancel_run_eq complete_run_eq complete_if_eq

text \<open>They keep the durable invariant and the books, whatever the outcome.\<close>

lemma books_update_run:
  assumes "durable_inv d" "ledger_ok d" "constraints_ok (update_run i f d)"
    "\<And>r. r \<in> set (runs d) \<Longrightarrow> run_id r = i \<Longrightarrow> same_counters (f r) r"
  shows "durable_inv (update_run i f d) \<and> ledger_ok (update_run i f d)"
  using durable_inv_cong [OF assms(1,3)] ledger_update_run [OF assms(2,4)] by simp

lemma books_end_run:
  assumes "durable_inv d" "ledger_ok d"
    "\<not> (st = CollectionRunStatus.QUEUED \<or> st = CollectionRunStatus.RUNNING)" "varchar_null 64 reason"
  shows "durable_inv (update_run i (end_run st reason now) d) \<and>
    ledger_ok (update_run i (end_run st reason now) d)"
  using assms constraints_end_run durable_invD(1) by (intro books_update_run) auto

section \<open>Properties\<close>

text \<open>
  C21: committing a source. When \<open>commit_source\<close> returns, the candidate's Reel waits as
  \<open>SOURCE_READY\<close> with the key, digest and size of the object and with exactly one active
  normalization job, a pending one at attempt zero; every other Reel is as it was, and every Reel
  has moved along the pipeline policy.
\<close>

theorem commit_source_effect:
  assumes "durable_inv d" "startswith key source_prefix"
    "commit_source run c source key fresh fresh_job now d = (Inr (), d')"
  shows "reels_follow d d' \<and>
    (\<exists>r \<in> set (reels d'). reel_shortcode r = shortcode c \<and>
       reel_status r = ReelPipelineStatus.SOURCE_READY \<and> reel_source_object_key r = Some key \<and>
       reel_source_sha256 r = Some (src_sha256 source) \<and>
       reel_source_byte_size r = Some (src_byte_size source) \<and>
       active_jobs d' (reel_id r) = [new_job fresh_job (reel_id r) 0 now])"
  using commit_source_step [OF assms(1,3,2)] by blast

text \<open>An account with a running collection, and a candidate of its feed.\<close>

definition running_db :: db where
  "running_db = empty_db
     \<lparr>accounts := [new_account 1],
      runs := [new_run 7 1 CollectionTrigger.MANUAL CollectionRunStatus.RUNNING 3 (Some 4) 4]\<rparr>"

definition sample_candidate :: reel_candidate where
  "sample_candidate = \<lparr>shortcode = ''Cabc'', canonical_url = ''https://www.instagram.com/reel/Cabc/''\<rparr>"

definition sample_source :: validated_source where
  "sample_source = \<lparr>src_sha256 = replicate 64 (CHR ''a''), src_byte_size = 5,
     src_content_type = ''video/mp4''\<rparr>"

lemmas row_check = constraint_defs row_ok_defs account_fits_def login_session_fits_def reel_fits_def
  run_fits_def item_fits_def job_fits_def video_fits_def varchar_null_def varchar_def nonblank_def
  unique_col_def unique_where_def unique_nullable_def run_active_def job_active_def session_open_def
  new_account_def new_run_def new_reel_def new_job_def empty_db_def

lemma running_db_ok: "durable_inv running_db"
  by (simp add: durable_inv_def pipeline_ok_def keys_ok_def running_db_def row_check)

lemma running_db_commits:
  "\<exists>d'. commit_source 7 sample_candidate sample_source ''instagram-sources/Cabc.mp4'' 21 31 9 running_db
     = (Inr (), d')"
proof -
  have "find_or_discover sample_candidate 21 9 running_db =
     (new_reel 21 sample_candidate 9, running_db\<lparr>reels := [new_reel 21 sample_candidate 9]\<rparr>)"
    by (simp add: find_or_discover_def running_db_def empty_db_def Let_def)
  then show ?thesis
    by (simp add: commit_source_def transaction_def running_db_def
        sample_candidate_def sample_source_def to_downloading_def require_transition_def
        is_transition_allowed_def add_item_def Let_def table_update_defs counter_sum_def
        bump_counter_def row_check)
qed

theorem commit_source_effect_witness:
  "\<exists>d' r. commit_source 7 sample_candidate sample_source ''instagram-sources/Cabc.mp4'' 21 31 9 running_db
     = (Inr (), d') \<and> r \<in> set (reels d') \<and> reel_status r = ReelPipelineStatus.SOURCE_READY"
proof -
  obtain d' where d': "commit_source 7 sample_candidate sample_source
      ''instagram-sources/Cabc.mp4'' 21 31 9 running_db = (Inr (), d')"
    using running_db_commits by blast
  have "startswith ''instagram-sources/Cabc.mp4'' source_prefix"
    by (simp add: startswith_def source_prefix_def)
  from commit_source_effect [OF running_db_ok this d'] d' show ?thesis by blast
qed

text \<open>
  \<open>complete_run\<close> does not look at the status it overwrites. It turns any run, one that
  was cancelled or has failed included, into a completed one and keeps the reason it was stopped
  for, although the transition policy lets nothing follow a terminal status.
\<close>

theorem complete_run_overwrites_terminal:
  assumes "constraints_ok d" "get_run d i = Some r"
    "terminal collection_run_transitions (run_status r)"
  shows "\<exists>d'. complete_run i now d = (Inr (), d') \<and>
     get_run d' i = Some (r\<lparr>run_status := CollectionRunStatus.COMPLETED,
                           run_completed_at := Some now\<rparr>) \<and>
     (run_status r \<noteq> CollectionRunStatus.COMPLETED \<longrightarrow>
        require_transition collection_run_transitions (run_status r) CollectionRunStatus.COMPLETED
          = Inl InvalidStateTransition)"
proof -
  let ?f = "end_run CollectionRunStatus.COMPLETED None now"
  have "complete_run i now d = (Inr (), update_run i ?f d)"
    using complete_run_eq [OF assms(1)] assms(2) by simp
  moreover have "get_run (update_run i ?f d) i = Some (?f r)"
    using assms(2) lookup_update_rows [of run_id i ?f i "runs d"] by simp
  moreover have "?f r = r\<lparr>run_status := CollectionRunStatus.COMPLETED, run_completed_at := Some now\<rparr>"
    by (simp add: end_run_def)
  ultimately show ?thesis
    using assms(3) by (auto simp: terminal_def is_transition_allowed_def require_transition_def)
qed

text \<open>A database with one cancelled run.\<close>

definition cancelled_run_db :: db where
  "cancelled_run_db = empty_db
     \<lparr>accounts := [new_account 1],
      runs := [(new_run 7 1 CollectionTrigger.MANUAL CollectionRunStatus.CANCELLED 3 None 0)
        \<lparr>run_stop_reason_code := Some ''CANCELLED_BY_USER''\<rparr>]\<rparr>"

lemma cancelled_run_db_ok: "constraints_ok cancelled_run_db"
  by (simp add: constraint_defs cancelled_run_db_def empty_db_def new_account_def new_run_def
      account_fits_def run_fits_def run_ok_def varchar_null_def varchar_def unique_col_def
      unique_where_def unique_nullable_def run_active_def)

theorem complete_run_overwrites_terminal_witness:
  "\<exists>d'. complete_run 7 5 cancelled_run_db = (Inr (), d') \<and>
     map_option run_status (get_run d' 7) = Some CollectionRunStatus.COMPLETED \<and>
     map_option run_status (get_run cancelled_run_db 7) = Some CollectionRunStatus.CANCELLED"
  using complete_run_overwrites_terminal [OF cancelled_run_db_ok, of 7 _ 5]
  by (auto simp: cancelled_run_db_def new_run_def terminal_def)

text \<open>
  \<open>claim_queued_run\<close> serves the oldest queued run of the account that nobody asked to
  cancel, leaves it running, and touches no other run; when it returns nothing there is none.
\<close>

theorem claim_queued_run_oldest:
  assumes "constraints_ok d"
  shows "(case claim_queued_run account now d of
      (Inr (Some r'), d') \<Rightarrow>
        \<exists>r \<in> set (runs d). run_account_id r = account \<and> run_status r = CollectionRunStatus.QUEUED \<and>
          run_cancel_requested_at r = None \<and>
          r' = r\<lparr>run_status := CollectionRunStatus.RUNNING, run_started_at := Some now\<rparr> \<and>
          d' = d\<lparr>runs := map (\<lambda>q. if run_id q = run_id r then r' else q) (runs d)\<rparr> \<and>
          (\<forall>q \<in> set (runs d). run_account_id q = account \<and>
             run_status q = CollectionRunStatus.QUEUED \<and> run_cancel_requested_at q = None \<longrightarrow>
             (run_created_at r, run_id r) \<le> (run_created_at q, run_id q))
    | (Inr None, d') \<Rightarrow> d' = d \<and>
        (\<forall>q \<in> set (runs d). \<not> (run_account_id q = account \<and>
             run_status q = CollectionRunStatus.QUEUED \<and> run_cancel_requested_at q = None))
    | (Inl e, d') \<Rightarrow> False)"
proof -
  let ?q = "filter (\<lambda>r. run_account_id r = account \<and> run_status r = CollectionRunStatus.QUEUED
                    \<and> run_cancel_requested_at r = None) (runs d)"
  let ?key = "\<lambda>r. (run_created_at r, run_id r)"
  show ?thesis
  proof (cases "first_by ?key ?q")
    case None
    then have "?q = []" by (simp add: first_by_None)
    then show ?thesis
      using None by (simp add: claim_queued_run_eq [OF assms] filter_empty_conv)
  next
    case (Some r)
    have r: "r \<in> set ?q" using first_by_mem [OF Some] .
    have least: "?key r \<le> ?key q" if "q \<in> set ?q" for q
      using first_by_min [OF Some that] .
    show ?thesis
      using Some r least
      by (auto simp: claim_queued_run_eq [OF assms] Let_def update_run_def update_rows_def
          intro!: bexI [of _ r])
  qed
qed

definition queued_runs_db :: db where
  "queued_runs_db = empty_db
     \<lparr>accounts := [new_account 1],
      runs := [new_run 7 1 CollectionTrigger.MANUAL CollectionRunStatus.QUEUED 3 None 4]\<rparr>"

lemma queued_runs_db_ok: "constraints_ok queued_runs_db"
  by (simp add: constraint_defs queued_runs_db_def empty_db_def new_account_def new_run_def
      account_fits_def run_fits_def run_ok_def varchar_null_def varchar_def unique_col_def
      unique_where_def unique_nullable_def run_active_def)

theorem claim_queued_run_oldest_witness:
  "fst (claim_queued_run 2 9 queued_runs_db) = Inr None \<and> constraints_ok queued_runs_db"
proof -
  have "first_by (\<lambda>r. (run_created_at r, run_id r))
      (filter (\<lambda>r. run_account_id r = 2 \<and> run_status r = CollectionRunStatus.QUEUED
         \<and> run_cancel_requested_at r = None) (runs queued_runs_db)) = None"
    by (simp add: queued_runs_db_def new_run_def first_by_def)
  then have "claim_queued_run 2 9 queued_runs_db = (Inr None, queued_runs_db)"
    by (simp add: claim_queued_run_eq [OF queued_runs_db_ok])
  then show ?thesis
    using claim_queued_run_oldest [OF queued_runs_db_ok, of 2 9] queued_runs_db_ok by simp
qed

end
