(* ===== verification/EngineStore.thy ===== *)
theory EngineStore
  imports Engine NormalizerSafety RunLedger
begin

text \<open>
  The database operations of the engine and the calls to its ports: which of them leave database,
  store and files alone, and what the others keep of the agreement between database and store.
\<close>

section \<open>Database operations\<close>

lemma frame_step:
  assumes "durable_inv d" "constraints_ok d'" "reels d' = reels d" "jobs d' = jobs d"
    "videos d' = videos d"
  shows "norm_step tools st d d'"
  using durable_inv_cong [OF assms] assms(3-5) reels_follow_same [OF assms(3)]
  by (simp add: norm_step_def media_ok_def)

lemma run_ops_step:
  assumes "durable_inv d"
  shows "fail_run i reason now d = (Inr x, d') \<Longrightarrow> norm_step tools st d d'"
    and "cancel_run i reason now d = (Inr y, d') \<Longrightarrow> norm_step tools st d d'"
    and "complete_run i now d = (Inr x, d') \<Longrightarrow> norm_step tools st d d'"
    and "complete_if_account_durable_total i n now d = (Inr b, d') \<Longrightarrow> norm_step tools st d d'"
    and "create_run i trigger n fresh now d = (Inr u, d') \<Longrightarrow> norm_step tools st d d'"
  using assms
  by (auto simp: fail_run_def cancel_run_def complete_run_def complete_if_account_durable_total_def
      create_run_def update_run_def intro!: frame_step dest!: transaction_InrD
      split: option.splits if_splits)

lemma commit_available_step:
  assumes "durable_inv d" "commit_available run c now d = (Inr x, d')"
  shows "norm_step tools st d d'"
proof -
  from transaction_InrD [OF assms(2) [unfolded commit_available_def]]
  obtain i where item: "add_item run i RunItemOutcome.ALREADY_AVAILABLE None None now d = Inr d'"
    and "constraints_ok d'"
    by (auto split: option.splits if_splits)
  then show ?thesis using add_item_frame [OF item] by (intro frame_step [OF assms(1)]) auto
qed

lemma media_discover:
  assumes "find_or_discover c fresh now d = (r, d0)" "media_ok tools d st"
  shows "media_ok tools d0 st"
  using find_or_discover_reel(4,7) [OF assms(1)] assms(2)
  by (auto simp: media_ok_def needs_source_def new_reel_def)

lemma record_failure_norm_step:
  assumes "durable_inv d" "record_failure run c reason attempted fresh now d = (Inr x, d')"
  shows "norm_step tools st d d'"
proof -
  have run: "record_failure run c reason attempted fresh now d = (Inr (), d')" using assms(2) by simp
  from record_failure_InrD [OF run] obtain r d0 where
    f: "find_or_discover c fresh now d = (r, d0)"
    and rs: "reels d' = (if reel_status r \<in> {ReelPipelineStatus.DISCOVERED, ReelPipelineStatus.DOWNLOADING}
       then update_rows reel_id (reel_id r) (failed_reel reason now) (reels d0) else reels d0)"
    and vs: "videos d' = videos d" and c: "constraints_ok d'"
    by metis
  have "media_ok tools d' st" if "media_ok tools d st"
  proof -
    have m0: "media_ok tools d0 st" by (rule media_discover [OF f that])
    show ?thesis
    proof (cases "reel_status r \<in> {ReelPipelineStatus.DISCOVERED, ReelPipelineStatus.DOWNLOADING}")
      case True
      with rs have "reels d' = update_rows reel_id (reel_id r) (failed_reel reason now) (reels d0)"
        by simp
      then show ?thesis
        by (rule media_ok_update [OF m0])
          (use vs find_or_discover_reel(4) [OF f] in \<open>auto simp: needs_source_def\<close>)
    next
      case False
      with rs vs m0 find_or_discover_reel(4) [OF f] show ?thesis by (simp add: media_ok_def)
    qed
  qed
  then show ?thesis
    using record_failure_step [OF assms(1) run] c by (simp add: norm_step_def durable_inv_def)
qed

text \<open>A commit needs the object it names to be there, with the digest and size it records.\<close>

definition source_at :: "tools \<Rightarrow> string \<Rightarrow> validated_source \<Rightarrow> store \<Rightarrow> bool" where
  "source_at tools key source st \<longleftrightarrow>
     (\<exists>obj. store_get st key = Some obj \<and> src_sha256 source = t_sha256 tools (obj_content obj) \<and>
        src_byte_size source = int (length (obj_content obj)))"

lemma commit_source_norm_step:
  assumes "durable_inv d" "commit_source run c source key fresh fresh_job now d = (Inr x, d')"
    "startswith key source_prefix" "source_at tools key source st"
  shows "norm_step tools st d d'"
proof -
  have run: "commit_source run c source key fresh fresh_job now d = (Inr (), d')" using assms(2) by simp
  from commit_source_InrD [OF run] obtain r d0 where
    f: "find_or_discover c fresh now d = (r, d0)"
    and rs: "reels d' = update_rows reel_id (reel_id r) (source_committed_reel source key now) (reels d0)"
    and vs: "videos d' = videos d" and c: "constraints_ok d'"
    by metis
  have "media_ok tools d' st" if "media_ok tools d st"
  proof -
    note m0 = media_discover [OF f that]
    have "source_stored tools st q" if "q \<in> set (reels d')" "needs_source q" for q
      using that m0 assms(4)
      by (auto simp: rs in_update_rows media_ok_def source_stored_def source_at_def split: if_splits)
    then show ?thesis using m0 vs find_or_discover_reel(4) [OF f] by (auto simp: media_ok_def)
  qed
  then show ?thesis
    using commit_source_step [OF assms(1) run assms(3)] c by (simp add: norm_step_def durable_inv_def)
qed

lemma request_cancel_step:
  assumes "durable_inv d"
  shows "norm_step tools st d (request_cancel run now d)"
proof (rule frame_step [OF assms])
  show "constraints_ok (request_cancel run now d)"
    unfolding request_cancel_def
  proof (rule constraints_update_run [OF durable_invD(1) [OF assms]])
    fix r assume "r \<in> set (runs d)" "run_id r = run"
    then show "run_id (r\<lparr>run_cancel_requested_at := Some now\<rparr>) = run \<and>
       run_account_id (r\<lparr>run_cancel_requested_at := Some now\<rparr>) = run_account_id r \<and>
       run_ok (r\<lparr>run_cancel_requested_at := Some now\<rparr>) \<and>
       run_fits (r\<lparr>run_cancel_requested_at := Some now\<rparr>) \<and>
       (run_active (r\<lparr>run_cancel_requested_at := Some now\<rparr>) \<longrightarrow> run_active r)"
      using durable_invD(1) [OF assms]
      by (auto simp: constraint_defs list_all_iff run_ok_def run_fits_def run_active_def)
  qed
qed (simp_all add: request_cancel_def update_run_def)

section \<open>Quiet statements\<close>

text \<open>What the rest of the engine depends on; a quiet statement leaves it as it is.\<close>

definition view :: "engine \<Rightarrow> db \<times> store \<times> (path \<times> string) list \<times> published_source option \<times> bool \<times> reel_candidate" where
  "view s = (w_db s, w_store s, c_files s, l_published s, l_db_committed s, l_candidate s)"

definition quiet :: "'a engine_act \<Rightarrow> bool" where
  "quiet a \<longleftrightarrow> (\<forall>v. keeps (\<lambda>s. view s = v) a)"

lemma quietI: "(\<And>v. keeps (\<lambda>s. view s = v) a) \<Longrightarrow> quiet a"
  by (simp add: quiet_def)

lemma quietD: "quiet a \<Longrightarrow> a s = (r, t) \<Longrightarrow> view t = view s"
  unfolding quiet_def by (erule allE [of _ "view s"], erule keepsD) simp_all

named_theorems quiet_rules \<open>statements that leave the view alone\<close>

lemma quiet_combinators [quiet_rules]:
  "quiet (ret x)" "quiet (stop g)" "quiet (call c)"
  "quiet m \<Longrightarrow> (\<And>x. quiet (f x)) \<Longrightarrow> quiet (bind m f)"
  "(\<And>s. quiet (g' s)) \<Longrightarrow> quiet (with_state g')"
  "quiet m \<Longrightarrow> quiet n \<Longrightarrow> quiet (branch b m n)"
  "quiet m \<Longrightarrow> (\<And>e. quiet (h e)) \<Longrightarrow> quiet (try_except m h)"
  "quiet u \<Longrightarrow> quiet (attempt u)"
  "(\<And>a. a \<in> set as \<Longrightarrow> quiet a) \<Longrightarrow> quiet (block as)"
  unfolding quiet_def by (intro allI act_inv; blast)+

lemma quiet_modify: "(\<And>s. view (f s) = view s) \<Longrightarrow> quiet (modify f)"
  by (auto intro!: quietI keeps_modify)

lemma env_view: "env_closed (\<lambda>s. view s = v)"
  by (simp add: env_closed_def view_def)

lemma quiet_env [quiet_rules]: "quiet datetime_now" "quiet uuid4" "quiet (db_read f)"
  by (auto intro!: quietI keeps_datetime_now keeps_uuid4 keeps_db_read env_view)

lemma quiet_clock_reading [quiet_rules]: "quiet clock_reading"
  unfolding clock_reading_def by (intro quiet_rules quiet_modify) (simp add: view_def)

lemma quiet_deadline_expired [quiet_rules]: "quiet (deadline_expired dl)"
  unfolding deadline_expired_def by (cases dl) (auto intro!: quiet_rules)

lemma quiet_require_deadline [quiet_rules]: "quiet (require_deadline dl)"
  unfolding require_deadline_def by (auto intro!: quiet_rules)

lemma quiet_record_event [quiet_rules]: "quiet (record_event e)"
  unfolding record_event_def by (rule quiet_modify) (simp add: view_def)

lemma quiet_set_reason [quiet_rules]: "quiet (set_reason r)"
  unfolding set_reason_def by (rule quiet_modify) (simp add: view_def)

lemma quiet_break_with [quiet_rules]: "quiet (break_with r)"
  unfolding break_with_def by (intro quiet_rules)

lemma quiet_break_if_expired [quiet_rules]: "quiet (break_if_expired dl)"
  unfolding break_if_expired_def by (auto intro!: quiet_rules)

lemma quiet_db_query [quiet_rules]: "quiet (db_query f)"
  unfolding db_query_def by (intro quiet_rules)

lemma quiet_set_stage [quiet_rules]: "quiet (set_stage x)"
  unfolding set_stage_def by (rule quiet_modify) (simp add: view_def)

lemma quiet_check_run_bytes [quiet_rules]: "quiet (check_run_bytes lims v)"
  unfolding check_run_bytes_def by (intro quiet_rules)

lemma quiet_summarize [quiet_rules]: "quiet (summarize cfg run reason status)"
  unfolding summarize_def by (auto intro!: quiet_rules)

lemma quiet_return_summary [quiet_rules]: "quiet (return_summary cfg run reason status)"
  unfolding return_summary_def by (intro quiet_rules)

lemma quiet_feed_response [quiet_rules]: "quiet feed_response"
  unfolding feed_response_def by (intro quiet_rules quiet_modify) (simp add: view_def)

lemma quiet_feed_current [quiet_rules]: "quiet feed_current"
  unfolding feed_current_def by (intro quiet_rules)

lemma quiet_fallback [quiet_rules]: "quiet a \<Longrightarrow> quiet (with_type_error_fallback a)"
  unfolding with_type_error_fallback_def by (auto intro!: quiet_rules)

lemma quiet_wait_for_next [quiet_rules]: "quiet wait_for_next"
  unfolding wait_for_next_def by (intro quiet_rules)

lemma quiet_transition_attempt [quiet_rules]: "quiet (transition_attempt dl rem n)"
  unfolding transition_attempt_def by (auto intro!: quiet_rules split: option.splits)

lemma quiet_confirm_transition [quiet_rules]: "quiet (confirm_transition cfg dl rem)"
  unfolding confirm_transition_def by (auto intro!: quiet_rules split: option.splits)

lemma quiet_feed_close [quiet_rules]: "quiet feed_close"
  unfolding feed_close_def by (intro quiet_rules)

lemma keeps_quiet: "quiet a \<Longrightarrow> (\<And>s t. view t = view s \<Longrightarrow> P s \<Longrightarrow> P t) \<Longrightarrow> keeps P a"
  by (rule keepsI) (blast dest: quietD)

end
