(* ===== verification/EngineSafety.thy ===== *)
theory EngineSafety
  imports EngineStore
begin

text \<open>
  The engine keeps the agreement of database and store, on every branch and wherever a call fails:
  it publishes only under keys that nothing is stored under, commits only what it has published or
  found there with the same content, and deletes only what it published itself and did not commit.
\<close>

section \<open>What keeps the agreement\<close>

named_theorems safe_rules \<open>statements that keep the agreement of database and store\<close>

lemma world_inv_view: "view t = view s \<Longrightarrow> world_inv tools s \<Longrightarrow> world_inv tools t"
  by (simp add: world_inv_def view_def)

lemma safe_quiet: "quiet a \<Longrightarrow> keeps (world_inv tools) a"
  by (rule keeps_quiet) (auto intro: world_inv_view)

lemma env_world_inv_engine: "env_closed (world_inv tools :: engine \<Rightarrow> bool)"
  by (rule env_world_inv)

lemma others_may_cancel_step:
  assumes "world_inv tools s" "others_may_cancel run s = (r, t)"
  shows "world_inv tools t \<and> c_files t = c_files s \<and> l_published t = l_published s \<and>
    l_db_committed t = l_db_committed s \<and> l_candidate t = l_candidate s \<and> w_store t = w_store s \<and>
    reels (w_db t) = reels (w_db s) \<and> videos (w_db t) = videos (w_db s)"
  using assms request_cancel_step [of "w_db s" tools "w_store s" run]
  by (auto simp: others_may_cancel_def act_defs datetime_now_def world_inv_def norm_step_def
      request_cancel_def update_run_def split: if_splits)

text \<open>What a test of the cancellation flag may change.\<close>

lemma raise_if_cancel_requested_keeps:
  assumes "\<And>s t. P s \<Longrightarrow> view t = view s \<Longrightarrow> P t" "\<And>s r t. P s \<Longrightarrow> others_may_cancel run s = (r, t) \<Longrightarrow> P t"
  shows "keeps P (raise_if_cancel_requested run)"
  unfolding raise_if_cancel_requested_def
  by (intro keeps_bind keeps_quiet [OF _ assms(1)] keepsI [OF assms(2)])
    (auto intro!: quiet_rules split: if_splits)

lemma safe_raise_if_cancel_requested [safe_rules]:
  "keeps (world_inv tools) (raise_if_cancel_requested run)"
  by (rule raise_if_cancel_requested_keeps) (auto intro: world_inv_view dest: others_may_cancel_step)

lemma safe_tx:
  assumes "transactional f" "\<And>d x d' st. durable_inv d \<Longrightarrow> f d = (Inr x, d') \<Longrightarrow> norm_step tools st d d'"
  shows "keeps (world_inv tools) (db_call f :: 'x engine_act)"
  using assms by (rule keeps_world_tx)

lemma safe_run_calls [safe_rules]:
  "keeps (world_inv tools) (db_call (fail_run i reason now) :: unit engine_act)"
  "keeps (world_inv tools) (db_call (cancel_run i reason now) :: CancelRunOutcome engine_act)"
  "keeps (world_inv tools) (db_call (complete_run i now) :: unit engine_act)"
  "keeps (world_inv tools) (db_call (complete_if_account_durable_total i n now) :: bool engine_act)"
  "keeps (world_inv tools) (db_call (create_run a trigger n fresh now) :: uuid engine_act)"
  "keeps (world_inv tools) (db_call (commit_available i c now) :: unit engine_act)"
  "keeps (world_inv tools) (db_call (record_failure i c reason attempted fresh now) :: unit engine_act)"
  by (rule safe_tx [OF transactionalI [OF fail_run_def]], erule (1) run_ops_step,
      rule safe_tx [OF transactionalI [OF cancel_run_def]], erule (1) run_ops_step,
      rule safe_tx [OF transactionalI [OF complete_run_def]], erule (1) run_ops_step,
      rule safe_tx [OF transactionalI [OF complete_if_account_durable_total_def]], erule (1) run_ops_step,
      rule safe_tx [OF transactionalI [OF create_run_def]], erule (1) run_ops_step,
      rule safe_tx [OF transactionalI [OF commit_available_def]], erule (1) commit_available_step,
      rule safe_tx [OF transactionalI [OF record_failure_def]], erule (1) record_failure_norm_step)

lemma safe_env [safe_rules]:
  "keeps (world_inv tools) (datetime_now :: timestamp engine_act)"
  "keeps (world_inv tools) (uuid4 :: uuid engine_act)"
  by (auto intro!: keeps_datetime_now keeps_uuid4 env_world_inv)

lemma safe_safe_fail_run [safe_rules]: "keeps (world_inv tools) (safe_fail_run run reason)"
  unfolding safe_fail_run_def by (intro act_inv safe_rules)

lemma safe_safe_cancel_run [safe_rules]: "keeps (world_inv tools) (safe_cancel_run run)"
  unfolding safe_cancel_run_def by (intro act_inv safe_rules)

lemma safe_fail_and_return [safe_rules]: "keeps (world_inv tools) (fail_and_return cfg run rec reason)"
  unfolding fail_and_return_def by (intro act_inv safe_rules safe_quiet quiet_rules)

lemma safe_cancel_and_return [safe_rules]: "keeps (world_inv tools) (cancel_and_return cfg run reason)"
  unfolding cancel_and_return_def by (intro act_inv safe_rules safe_quiet quiet_rules)

lemma safe_modify: "(\<And>s. w_db (f s) = w_db s) \<Longrightarrow> (\<And>s. w_store (f s) = w_store s) \<Longrightarrow>
   keeps (world_inv tools) (modify f :: unit engine_act)"
  by (rule keeps_modify) (simp add: world_inv_def)

section \<open>Acquiring a Reel\<close>

text \<open>An object that this attempt created and did not commit is not needed by any row.\<close>

definition pending_ok :: "engine \<Rightarrow> bool" where
  "pending_ok s \<longleftrightarrow>
     opt_all (\<lambda>p. pub_created_by_attempt p \<and> \<not> l_db_committed s \<longrightarrow>
        unused (pub_object_key p) (w_db s)) (l_published s)"

definition acquire_inv :: "tools \<Rightarrow> engine \<Rightarrow> bool" where
  "acquire_inv tools s \<longleftrightarrow> world_inv tools s \<and> pending_ok s"

abbreviation unpublished :: "engine \<Rightarrow> bool" where
  "unpublished s \<equiv> l_published s = None"

definition read_from :: "tools \<Rightarrow> path \<Rightarrow> validated_source \<Rightarrow> engine \<Rightarrow> bool" where
  "read_from tools p v s \<longleftrightarrow>
     (\<exists>content. map_of (c_files s) p = Some content \<and> src_sha256 v = t_sha256 tools content \<and>
        src_byte_size v = int (length content))"

definition published_at :: "tools \<Rightarrow> validated_source \<Rightarrow> published_source \<Rightarrow> engine \<Rightarrow> bool" where
  "published_at tools v p s \<longleftrightarrow>
     startswith (pub_object_key p) source_prefix \<and> source_at tools (pub_object_key p) v (w_store s) \<and>
     (pub_created_by_attempt p \<longrightarrow> unused (pub_object_key p) (w_db s))"

lemma unpublished_pending [simp]: "unpublished s \<Longrightarrow> pending_ok s"
  by (simp add: pending_ok_def)

lemma acquire_inv_view: "view t = view s \<Longrightarrow> acquire_inv tools s \<Longrightarrow> acquire_inv tools t"
  by (auto simp: acquire_inv_def world_inv_def pending_ok_def view_def split: option.splits)

lemma viewD:
  assumes "view t = view s"
  shows "w_db t = w_db s" "w_store t = w_store s" "c_files t = c_files s"
    "l_published t = l_published s" "l_db_committed t = l_db_committed s" "l_candidate t = l_candidate s"
  using assms by (simp_all add: view_def)

lemma unused_cong: "reels d' = reels d \<Longrightarrow> videos d' = videos d \<Longrightarrow> unused k d' = unused k d"
  by (simp add: unused_def)

lemma cancel_keeps_acquire:
  "keeps (\<lambda>s. acquire_inv tools s \<and> unpublished s \<and> Q (c_files s)) (raise_if_cancel_requested run)"
proof (rule raise_if_cancel_requested_keeps)
  fix s t assume "acquire_inv tools s \<and> unpublished s \<and> Q (c_files s)" "view t = view s"
  then show "acquire_inv tools t \<and> unpublished t \<and> Q (c_files t)"
    using acquire_inv_view [of t s] viewD [of t s] by simp
next
  fix s r t
  assume "acquire_inv tools s \<and> unpublished s \<and> Q (c_files s)" "others_may_cancel run s = (r, t)"
  then show "acquire_inv tools t \<and> unpublished t \<and> Q (c_files t)"
    using others_may_cancel_step [of tools s run r t] by (simp add: acquire_inv_def)
qed

lemma quiet_keeps_acquire:
  assumes "quiet a"
  shows "keeps (\<lambda>s. acquire_inv tools s \<and> unpublished s \<and> Q (c_files s)) a"
    "keeps (\<lambda>s. acquire_inv tools s \<and> l_published s = Some p \<and> published_at tools v p s) a"
proof -
  show "keeps (\<lambda>s. acquire_inv tools s \<and> unpublished s \<and> Q (c_files s)) a"
  proof (rule keeps_quiet [OF assms])
    fix s t assume "view t = view s" "acquire_inv tools s \<and> unpublished s \<and> Q (c_files s)"
    then show "acquire_inv tools t \<and> unpublished t \<and> Q (c_files t)"
      using acquire_inv_view [of t s] viewD [of t s] by simp
  qed
  show "keeps (\<lambda>s. acquire_inv tools s \<and> l_published s = Some p \<and> published_at tools v p s) a"
  proof (rule keeps_quiet [OF assms])
    fix s t
    assume "view t = view s" "acquire_inv tools s \<and> l_published s = Some p \<and> published_at tools v p s"
    then show "acquire_inv tools t \<and> l_published t = Some p \<and> published_at tools v p t"
      using acquire_inv_view [of t s] viewD [of t s] by (simp add: published_at_def)
  qed
qed

lemma download_keeps:
  "keeps (\<lambda>s. acquire_inv tools s \<and> unpublished s) (download p)"
proof -
  have w: "keeps (\<lambda>s. acquire_inv tools s \<and> unpublished s) (write_file p content)" for content
    unfolding write_file_def by (rule keeps_modify) (auto simp: acquire_inv_def world_inv_def pending_ok_def)
  have m: "keeps (\<lambda>s. acquire_inv tools s \<and> unpublished s) (modify (\<lambda>s. s\<lparr>c_downloads := x s\<rparr>))" for x
    by (rule keeps_modify) (auto simp: acquire_inv_def world_inv_def pending_ok_def)
  show ?thesis
    unfolding download_def
    by (intro keeps_with_state) (auto split: prod.splits option.splits intro!: act_inv w m)
qed

lemma validate_source_estab:
  "estab (acquire_inv tools) unpublished (validate_source tools cfg p)
     (\<lambda>v s. unpublished s \<and> read_from tools p v s)"
proof (rule estabI)
  fix s r t assume s: "acquire_inv tools s" "unpublished s" and run: "validate_source tools cfg p s = (r, t)"
  have "wp (validate_source tools cfg p) (\<lambda>r t. view t = view s \<and>
      (\<forall>v. r = Inr v \<longrightarrow> read_from tools p v s)) s"
    unfolding validate_source_def translating_def may_fail_def
    by (auto simp: wp_rules view_def read_from_def split: option.splits sum.splits)
  from wpD [OF this run] have v: "view t = view s" "\<forall>v. r = Inr v \<longrightarrow> read_from tools p v s"
    by blast+
  show "acquire_inv tools t \<and> (\<forall>v. r = Inr v \<longrightarrow> unpublished t \<and> read_from tools p v t)"
    using acquire_inv_view [OF v(1) s(1)] viewD [OF v(1)] v(2) s(2) by (simp add: read_from_def)
qed

lemma validated_key_Inr: "validated_key key = Inr k \<Longrightarrow> k = key \<and> startswith key source_prefix"
  by (auto simp: validated_key_def source_prefix_def split: if_splits)

lemma publish_source_estab:
  "estab (acquire_inv tools) (\<lambda>s. unpublished s \<and> read_from tools p v s) (publish_source tools cfg p key)
     (\<lambda>pub s. unpublished s \<and> published_at tools v pub s)"
proof (rule estabI)
  fix s r t assume s: "acquire_inv tools s" "unpublished s \<and> read_from tools p v s"
    and run: "publish_source tools cfg p key s = (r, t)"
  obtain content where content: "map_of (c_files s) p = Some content"
      "src_sha256 v = t_sha256 tools content" "src_byte_size v = int (length content)"
    using s(2) by (auto simp: read_from_def)
  have "wp (publish_source tools cfg p key) (\<lambda>r t.
      (w_db t = w_db s \<and> l_published t = l_published s) \<and>
      (w_store t = w_store s \<or> validated_key key = Inr key \<and> store_get (w_store s) key = None \<and>
         w_store t = store_put key \<lparr>obj_content = content, obj_content_type = ''video/mp4''\<rparr> (w_store s)) \<and>
      (\<forall>pub. r = Inr pub \<longrightarrow> validated_key key = Inr (pub_object_key pub) \<and>
         (pub_created_by_attempt pub \<longrightarrow> store_get (w_store s) key = None) \<and>
         source_at tools (pub_object_key pub) v (w_store t))) s"
    unfolding publish_source_def translating_def may_fail_def read_file_def stat_source_def
      existing_matches_def storage_defs
    using content
    by (auto simp: wp_rules validated_temporary_path_def source_at_def dest: validated_key_Inr
        split: option.splits sum.splits if_splits)
  note outcome = wpD [OF this run]
  then have post: "w_db t = w_db s" "l_published t = l_published s"
      "w_store t = w_store s \<or> validated_key key = Inr key \<and> store_get (w_store s) key = None \<and>
         w_store t = store_put key \<lparr>obj_content = content, obj_content_type = ''video/mp4''\<rparr> (w_store s)"
      "\<And>pub. r = Inr pub \<Longrightarrow> validated_key key = Inr (pub_object_key pub) \<and>
         (pub_created_by_attempt pub \<longrightarrow> store_get (w_store s) key = None) \<and>
         source_at tools (pub_object_key pub) v (w_store t)"
    by blast+
  have media: "media_ok tools (w_db s) (w_store s)" "durable_inv (w_db s)"
    using s(1) by (simp_all add: acquire_inv_def world_inv_def)
  have "media_ok tools (w_db s) (w_store t)"
    using post(3)
  proof (elim disjE conjE)
    assume put: "store_get (w_store s) key = None"
      "w_store t = store_put key \<lparr>obj_content = content, obj_content_type = ''video/mp4''\<rparr> (w_store s)"
    show ?thesis by (rule media_ok_store [OF media(1) absent_unused [OF media(1) put(1)]]) (simp add: put(2))
  qed (use media in simp)
  then have "world_inv tools t" using media(2) post(1) by (simp add: world_inv_def)
  moreover have "published_at tools v pub t" if "r = Inr pub" for pub
    using post(4) [OF that] absent_unused [OF media(1)] validated_key_Inr [of key] post(1)
    by (auto simp: published_at_def)
  ultimately show "acquire_inv tools t \<and> (\<forall>pub. r = Inr pub \<longrightarrow> unpublished t \<and> published_at tools v pub t)"
    using s(2) post(2) by (simp add: acquire_inv_def)
qed

text \<open>The commit and its flag are one step: either both happen or neither.\<close>

lemma commit_call_cases:
  assumes "(db_call (commit_source run c v key f g now) :: unit engine_act) s = (r, t)"
  shows "w_store t = w_store s \<and> l_published t = l_published s \<and> l_db_committed t = l_db_committed s \<and>
    ((\<exists>e. r = Inl (Raise e)) \<and> w_db t = w_db s \<or>
     r = Inr () \<and> commit_source run c v key f g now (w_db s) = (Inr (), w_db t))"
proof (cases "commit_source run c v key f g now (w_db s)")
  case (Pair q d)
  moreover from this have "\<exists>e. q = Inl e \<Longrightarrow> d = w_db s"
    using transactional_raise [OF transactionalI [OF commit_source_def]] by blast
  ultimately show ?thesis
    using assms by (auto simp: db_call_def may_fail_def act_defs split: if_splits sum.splits)
qed

lemma keeps_leads_with_state: "(\<And>s. leads P (f s) Q) \<Longrightarrow> leads P (with_state f) Q"
  by (simp add: leads_def wp_rules)

lemma commit_acquired_leads:
  "leads (\<lambda>s. acquire_inv tools s \<and> l_published s = Some p \<and> published_at tools v p s)
     (commit_acquired run v p) (acquire_inv tools)"
proof -
  let ?P = "\<lambda>s. acquire_inv tools s \<and> l_published s = Some p \<and> published_at tools v p s"
  have call: "leads ?P (bind (db_call (commit_source run c v (pub_object_key p) f g now) :: unit engine_act)
      (\<lambda>_. modify (\<lambda>s. s\<lparr>l_db_committed := True,
         l_committed_bytes := l_committed_bytes s + src_byte_size v\<rparr>))) (acquire_inv tools)" for c f g now
    unfolding leads_def
  proof (intro allI impI)
    fix s assume s: "?P s"
    obtain r t where run: "(db_call (commit_source run c v (pub_object_key p) f g now) :: unit engine_act) s = (r, t)"
      by fastforce
    from commit_call_cases [OF run]
    have same: "w_store t = w_store s" "l_published t = l_published s" "l_db_committed t = l_db_committed s"
      and out: "(\<exists>e. r = Inl (Raise e)) \<and> w_db t = w_db s \<or>
        r = Inr () \<and> commit_source run c v (pub_object_key p) f g now (w_db s) = (Inr (), w_db t)"
      by blast+
    from out show "wp (bind (db_call (commit_source run c v (pub_object_key p) f g now) :: unit engine_act)
      (\<lambda>_. modify (\<lambda>s. s\<lparr>l_db_committed := True,
         l_committed_bytes := l_committed_bytes s + src_byte_size v\<rparr>))) (\<lambda>_. acquire_inv tools) s"
    proof (elim disjE conjE exE)
      fix e assume "r = Inl (Raise e)" "w_db t = w_db s"
      then show ?thesis
        using s run same by (auto simp: wp_def bind_def acquire_inv_def world_inv_def pending_ok_def)
    next
      assume r: "r = Inr ()" "commit_source run c v (pub_object_key p) f g now (w_db s) = (Inr (), w_db t)"
      have "norm_step tools (w_store s) (w_db s) (w_db t)"
        by (rule commit_source_norm_step [OF _ r(2)])
          (use s in \<open>auto simp: acquire_inv_def world_inv_def published_at_def\<close>)
      then have "world_inv tools t"
        using s same by (simp add: acquire_inv_def world_inv_def norm_step_def)
      then show ?thesis
        using r(1) run by (auto simp: wp_def bind_def modify_def acquire_inv_def world_inv_def pending_ok_def
            split: option.splits)
    qed
  qed
  have env: "env_closed ?P"
    by (auto simp: env_closed_def acquire_inv_def world_inv_def pending_ok_def published_at_def)
  show ?thesis
    unfolding commit_acquired_def
  proof (rule keeps_leads_with_state)
    fix s
    note now = leads_keeps [OF keeps_datetime_now [OF env]]
    note fresh = leads_keeps [OF keeps_uuid4 [OF env]]
    show "leads ?P (bind datetime_now (\<lambda>now. bind uuid4 (\<lambda>f. bind uuid4 (\<lambda>g.
      bind (db_call (commit_source run (l_candidate s) v (pub_object_key p) f g now)) (\<lambda>_.
      modify (\<lambda>s. s\<lparr>l_db_committed := True,
        l_committed_bytes := l_committed_bytes s + src_byte_size v\<rparr>))))) :: unit engine_act)
      (acquire_inv tools)"
      by (rule leads_bind [OF now], rule leads_bind [OF fresh], rule leads_bind [OF fresh], rule call) auto
  qed
qed

subsection \<open>The suite, its handlers and its last word\<close>

lemma acquire_body_leads:
  assumes "tools = ec_tools cfg"
  shows "leads (\<lambda>s. acquire_inv tools s \<and> unpublished s) (acquire_body cfg run dl p) (acquire_inv tools)"
proof -
  let ?U = "\<lambda>s. acquire_inv tools s \<and> unpublished s"
  let ?V = "\<lambda>v s. acquire_inv tools s \<and> unpublished s \<and> read_from tools p v s"
  let ?W = "\<lambda>v pub s. acquire_inv tools s \<and> l_published s = Some pub \<and> published_at tools v pub s"
  have q: "keeps ?U a" if "quiet a" for a :: "'x engine_act"
    using quiet_keeps_acquire(1) [OF that, of tools "\<lambda>_. True"] by simp
  have first: "keeps ?U (block [raise_if_cancel_requested run, require_deadline dl,
      modify (\<lambda>s. s\<lparr>l_download_attempted := True\<rparr>), download p, record_event ''download'',
      require_deadline dl, set_stage ''validation''])"
    unfolding block.simps
    by (intro keeps_bind keeps_ret download_keeps q [OF quiet_require_deadline]
          q [OF quiet_record_event] q [OF quiet_set_stage] q [OF quiet_modify]
          cancel_keeps_acquire [of tools "\<lambda>_. True" run, simplified]) (simp add: view_def)
  have second: "keeps (?V v) (block [record_event ''validation'', require_deadline dl,
      check_run_bytes (ec_limits cfg) v, set_stage ''publication'', raise_if_cancel_requested run,
      require_deadline dl])" for v
    unfolding read_from_def block.simps
    by (intro keeps_bind keeps_ret cancel_keeps_acquire quiet_keeps_acquire(1) [OF quiet_require_deadline]
          quiet_keeps_acquire(1) [OF quiet_record_event] quiet_keeps_acquire(1) [OF quiet_set_stage]
          quiet_keeps_acquire(1) [OF quiet_check_run_bytes])
  have key: "keeps (?V v) (with_state (\<lambda>s. call (source_object_key (shortcode (l_candidate s)))) :: string engine_act)" for v
    unfolding read_from_def by (rule quiet_keeps_acquire(1)) (intro quiet_rules)
  have last: "leads (\<lambda>s. acquire_inv tools s \<and> unpublished s \<and> published_at tools v pub s)
      (block [modify (\<lambda>s. s\<lparr>l_published := Some pub\<rparr>), record_event ''publication'',
        require_deadline dl, set_stage ''database'', commit_acquired run v pub,
        record_event ''db_commit'', require_deadline dl]) (acquire_inv tools)" for v pub
  proof -
    have mark: "leads (\<lambda>s. acquire_inv tools s \<and> unpublished s \<and> published_at tools v pub s)
        (modify (\<lambda>s. s\<lparr>l_published := Some pub\<rparr>) :: unit engine_act) (?W v pub)"
      by (auto simp: leads_def wp_rules acquire_inv_def world_inv_def pending_ok_def published_at_def)
    have w: "leads (?W v pub) a (?W v pub)" if "quiet a" for a :: "unit engine_act"
      by (rule leads_keeps, rule quiet_keeps_acquire(2) [OF that])
    have i: "leads (acquire_inv tools) a (acquire_inv tools)" if "quiet a" for a :: "unit engine_act"
      by (rule leads_keeps, rule keeps_quiet [OF that]) (rule acquire_inv_view)
    show ?thesis
      unfolding block.simps
      by (rule leads_bind [OF mark], rule leads_bind [OF w], (rule quiet_rules)+,
          rule leads_bind [OF w], (rule quiet_rules)+, rule leads_bind [OF w], (rule quiet_rules)+,
          rule leads_bind [OF commit_acquired_leads], rule i) (auto intro!: quiet_rules)
  qed
  have val: "leads ?U (bind (validate_source tools cf p) f) (acquire_inv tools)"
    if "\<And>v. leads (?V v) (f v) (acquire_inv tools)" for cf and f :: "validated_source \<Rightarrow> 'x engine_act"
    by (rule leads_bind_estab [OF validate_source_estab]) (rule leads_weaken [OF that], auto)
  have pub: "leads (?V v) (bind (publish_source tools cf p k) f) (acquire_inv tools)"
    if "\<And>b. leads (\<lambda>s. acquire_inv tools s \<and> unpublished s \<and> published_at tools v b s) (f b) (acquire_inv tools)"
    for v k cf and f :: "published_source \<Rightarrow> 'x engine_act"
    by (rule leads_weaken [OF leads_bind_estab [OF publish_source_estab]]) (use that in auto)
  show ?thesis
    unfolding acquire_body_def assms [symmetric]
    by (rule leads_bind [OF leads_keeps [OF first] val], rule leads_bind [OF leads_keeps [OF second]],
        rule leads_bind [OF leads_keeps [OF key]], rule pub, rule last) auto
qed

lemma translating_keeps [act_inv]: "keeps P a \<Longrightarrow> keeps P (translating e a)"
  unfolding translating_def by (auto intro!: act_inv)

lemma remove_unused_keeps:
  "keeps (\<lambda>s. acquire_inv tools s \<and> unused k (w_db s)) (storage_remove k :: unit engine_act)"
proof (rule keeps_write_at(3))
  show "env_closed (\<lambda>s. acquire_inv tools s \<and> unused k (w_db s))"
    by (simp add: env_closed_def acquire_inv_def world_inv_def pending_ok_def)
next
  fix s :: engine and st'
  assume s: "acquire_inv tools s \<and> unused k (w_db s)"
    "\<And>j. j \<noteq> k \<Longrightarrow> store_get st' j = store_get (w_store s) j"
  then have "media_ok tools (w_db s) st'"
    using media_ok_store [of tools "w_db s" "w_store s" k st'] by (simp add: acquire_inv_def world_inv_def)
  with s show "acquire_inv tools (s\<lparr>w_store := st'\<rparr>) \<and> unused k (w_db (s\<lparr>w_store := st'\<rparr>))"
    by (simp add: acquire_inv_def world_inv_def pending_ok_def)
qed

lemma delete_unused_keeps:
  "keeps (\<lambda>s. acquire_inv tools s \<and> unused k (w_db s)) (delete_source k :: unit engine_act)"
proof (cases "validated_key k")
  case (Inl e)
  then have "delete_source k = (raise e :: unit engine_act)"
    by (simp add: delete_source_def call_def bind_def stop_def)
  then show ?thesis by (simp add: keeps_stop)
next
  case (Inr j)
  then have "delete_source k = (translating storage_failed (storage_remove k) :: unit engine_act)"
    using validated_key_Inr [OF Inr] by (simp add: delete_source_def call_def bind_def ret_def)
  then show ?thesis by (simp add: translating_keeps remove_unused_keeps)
qed

lemma compensate_leads: "leads (acquire_inv tools) compensate (acquire_inv tools)"
proof -
  have del: "leads (\<lambda>s. acquire_inv tools s \<and> unused k (w_db s))
      (try_except (bind (delete_source k) (\<lambda>_. ret False))
         (\<lambda>e. if is_exception e then ret True else raise e) :: bool engine_act) (acquire_inv tools)" for k
    by (rule leads_weaken [OF leads_keeps [OF keeps_try_except [OF keeps_bind [OF delete_unused_keeps]]]])
      (auto intro!: act_inv)
  show ?thesis
    unfolding leads_def
  proof (intro allI impI)
    fix s assume s: "acquire_inv tools s"
    have "unused (pub_object_key p) (w_db s)"
      if "l_published s = Some p" "\<not> l_db_committed s" "pub_created_by_attempt p" for p
      using s that by (simp add: acquire_inv_def pending_ok_def)
    then show "wp compensate (\<lambda>_. acquire_inv tools) s"
      using s del unfolding compensate_def leads_def
      by (simp add: wp_with_state wp_ret split: option.split)
  qed
qed

lemma acquire_inv_world: "acquire_inv tools s \<Longrightarrow> world_inv tools s"
  by (simp add: acquire_inv_def)

lemma leads_world: "keeps (world_inv tools) a \<Longrightarrow> leads (acquire_inv tools) a (world_inv tools)"
  by (rule leads_weaken [OF leads_keeps acquire_inv_world])

lemma safe_record_acquire_failure [safe_rules]:
  "keeps (world_inv tools) (record_acquire_failure run)"
  unfolding record_acquire_failure_def by (auto intro!: act_inv safe_rules)

lemma acquire_failed_leads: "leads (acquire_inv tools) (acquire_failed run e) (world_inv tools)"
proof -
  have rest: "leads (acquire_inv tools)
      (bind (modify (\<lambda>s. s\<lparr>l_reason := failure_reason e b s\<rparr>)) (\<lambda>_.
       bind (record_acquire_failure run) (\<lambda>_. stop Break)) :: unit engine_act) (world_inv tools)" for b
    by (rule leads_world) (intro act_inv safe_rules safe_modify; simp)
  have "leads (acquire_inv tools) (bind compensate (\<lambda>_. raise e) :: unit engine_act) (world_inv tools)"
    by (rule leads_bind [OF compensate_leads]) (auto intro: leads_world keeps_stop acquire_inv_world)
  moreover have "leads (acquire_inv tools) (bind compensate (\<lambda>b.
      bind (modify (\<lambda>s. s\<lparr>l_reason := failure_reason e b s\<rparr>)) (\<lambda>_.
      bind (record_acquire_failure run) (\<lambda>_. stop Break))) :: unit engine_act) (world_inv tools)"
    by (rule leads_bind [OF compensate_leads rest acquire_inv_world])
  moreover have "leads (acquire_inv tools) (raise e :: unit engine_act) (world_inv tools)"
    by (rule leads_world [OF keeps_stop])
  ultimately show ?thesis unfolding acquire_failed_def by (auto split: if_splits)
qed

lemma safe_acquire [safe_rules]:
  assumes "tools = ec_tools cfg"
  shows "keeps (world_inv tools) (acquire cfg run dl)"
proof -
  have start: "leads (world_inv tools) (modify (\<lambda>s. s\<lparr>l_published := None, l_stage := st,
      l_download_attempted := False, l_db_committed := False\<rparr>) :: unit engine_act)
      (\<lambda>s. acquire_inv tools s \<and> unpublished s)" for st
    by (auto simp: leads_def wp_rules acquire_inv_def world_inv_def)
  have clean: "keeps (world_inv tools) (cleanup_temporary_file sc p :: unit engine_act)" for sc p
    unfolding cleanup_temporary_file_def unlink_def by (intro act_inv safe_modify) simp_all
  have tail: "leads (\<lambda>s. acquire_inv tools s \<and> unpublished s)
      (finally_do (try_except (acquire_body cfg run dl p) (acquire_failed run))
        (attempt (cleanup_temporary_file (ec_storage cfg) p))) (world_inv tools)" for p
    by (rule leads_finally_do, rule leads_try_except [OF acquire_body_leads [OF assms] acquire_failed_leads])
      (auto intro: acquire_inv_world intro!: leads_keeps act_inv clean)
  show ?thesis
    unfolding acquire_def
    by (rule keeps_bind, rule keeps_with_state, rule keeps_call, rule keeps_leads,
        rule leads_bind [OF start tail]) (simp add: acquire_inv_def)
qed

section \<open>The whole run\<close>

lemma safe_account_owned [safe_rules]: "keeps (world_inv tools) (account_owned cfg)"
  unfolding account_owned_def by (intro safe_quiet quiet_rules) (auto intro!: quiet_rules)

lemma safe_observe [safe_rules]: "keeps (world_inv tools) (observe cfg run dl)"
  unfolding observe_def block.simps
  by (intro act_inv safe_rules safe_modify safe_quiet [OF quiet_break_if_expired]
      safe_quiet [OF quiet_break_with] safe_quiet [OF quiet_record_event]
      safe_quiet [OF quiet_feed_response]; simp)

lemma safe_commit_known [safe_rules]: "keeps (world_inv tools) (commit_known run)"
  unfolding commit_known_def
  by (auto intro!: act_inv safe_rules safe_quiet [OF quiet_break_with] safe_quiet [OF quiet_record_event])

lemma safe_take_candidate [safe_rules]:
  "tools = ec_tools cfg \<Longrightarrow> keeps (world_inv tools) (take_candidate cfg run dl owned)"
  unfolding take_candidate_def
  by (auto intro!: act_inv safe_rules safe_modify keeps_db_read env_world_inv
      safe_quiet [OF quiet_record_event])

lemma safe_complete [safe_rules]: "keeps (world_inv tools) (complete cfg run)"
  unfolding complete_def by (auto intro!: act_inv safe_rules split: option.splits)

lemma safe_check_target [safe_rules]: "keeps (world_inv tools) (check_target cfg run)"
  unfolding check_target_def ensure_completed_def completion_failed_def
  by (auto intro!: act_inv safe_rules safe_modify safe_quiet [OF quiet_db_query]
      safe_quiet [OF quiet_set_reason] safe_quiet [OF quiet_return_summary])

lemma safe_next_reel [safe_rules]: "keeps (world_inv tools) (next_reel cfg run dl)"
  unfolding next_reel_def before_transition_def move_to_def block.simps
  by (auto intro!: act_inv safe_rules safe_modify safe_quiet [OF quiet_break_if_expired]
      safe_quiet [OF quiet_break_with] safe_quiet [OF quiet_record_event]
      safe_quiet [OF quiet_require_deadline] safe_quiet [OF quiet_confirm_transition]
      safe_quiet [OF quiet_deadline_expired] split: option.splits)

lemma safe_loop_round [safe_rules]:
  "tools = ec_tools cfg \<Longrightarrow> keeps (world_inv tools) (loop_round cfg run dl)"
  unfolding loop_round_def block.simps by (intro act_inv safe_rules)

lemma safe_collect:
  assumes "tools = ec_tools cfg"
  shows "keeps (world_inv tools) (collect cfg)"
proof -
  have start: "keeps (world_inv tools) (start_run cfg)"
    unfolding start_run_def by (auto intro!: act_inv safe_rules split: option.splits)
  have failed: "keeps (world_inv tools) (collect_failed cfg run e)" for run e
    unfolding collect_failed_def by (auto simp: Let_def intro!: act_inv safe_rules)
  have body: "keeps (world_inv tools) (collect_body cfg run dl)" for run dl
    unfolding collect_body_def
    by (intro act_inv safe_rules assms safe_modify safe_quiet [OF quiet_feed_current]; simp)
  show ?thesis
    unfolding collect_def reset_locals_def
    by (auto intro!: act_inv start failed body safe_modify safe_quiet [OF quiet_clock_reading]
        safe_quiet [OF quiet_feed_close] split: option.splits)
qed

end
