(* ===== verification/EngineRuns.thy ===== *)
theory EngineRuns
  imports EngineSafety
begin

text \<open>
  How a run of the engine ends: it never goes on for ever, every way out of the loop has a reason,
  and the status of the summary agrees with the reason and with the row of the run.
\<close>

section \<open>Good endings\<close>

definition run_completed :: "engine_config \<Rightarrow> uuid \<Rightarrow> db \<Rightarrow> bool" where
  "run_completed cfg i d \<longleftrightarrow>
     (\<exists>r. get_run d i = Some r \<and> run_status r = CollectionRunStatus.COMPLETED \<and>
        ec_target_count cfg \<le> run_source_committed_count r + run_already_available_count r)"

definition summary_ok :: "engine_config \<Rightarrow> collector_summary \<Rightarrow> db \<Rightarrow> bool" where
  "summary_ok cfg sm d \<longleftrightarrow>
     (if cs_status sm = ''completed''
      then cs_stop_reason_code sm = None \<and> run_completed cfg (cs_run_id sm) d
      else (cs_status sm = ''failed'' \<or> cs_status sm = ''cancelled'') \<and> cs_stop_reason_code sm \<noteq> None)"

text \<open>
  How a statement inside the loop may end: a \<open>break\<close> leaves a reason, a \<open>return\<close> a good summary.
\<close>

fun good_end :: "engine_config \<Rightarrow> collector_summary signal \<Rightarrow> engine \<Rightarrow> bool" where
  "good_end cfg (Raise e) s \<longleftrightarrow> True"
| "good_end cfg Break s \<longleftrightarrow> l_reason s \<noteq> None"
| "good_end cfg (Return sm) s \<longleftrightarrow> summary_ok cfg sm (w_db s)"
| "good_end cfg OutOfFuel s \<longleftrightarrow> False"

definition ends_well :: "engine_config \<Rightarrow> 'a engine_act \<Rightarrow> bool" where
  "ends_well cfg a \<longleftrightarrow>
     (\<forall>s. wp a (\<lambda>r t. l_confirmed_advances t = l_confirmed_advances s \<and>
        (\<forall>g. r = Inl g \<longrightarrow> good_end cfg g t)) s)"

named_theorems end_rules \<open>statements that end well\<close>

lemma ends_wellI:
  "(\<And>s r t. a s = (r, t) \<Longrightarrow> l_confirmed_advances t = l_confirmed_advances s \<and>
      (\<forall>g. r = Inl g \<longrightarrow> good_end cfg g t)) \<Longrightarrow> ends_well cfg a"
  by (auto simp: ends_well_def wp_def split: prod.splits)

lemma ends_wellD:
  "ends_well cfg a \<Longrightarrow> a s = (r, t) \<Longrightarrow>
   l_confirmed_advances t = l_confirmed_advances s \<and> (\<forall>g. r = Inl g \<longrightarrow> good_end cfg g t)"
  unfolding ends_well_def by (drule spec, drule (1) wpD)

lemma ends_ret [end_rules]: "ends_well cfg (ret x)"
  by (simp add: ends_well_def wp_rules)

lemma ends_raise [end_rules]: "ends_well cfg (raise e)"
  by (simp add: ends_well_def wp_rules)

lemma ends_call [end_rules]: "ends_well cfg (call c)"
  by (auto simp: ends_well_def wp_rules split: sum.splits)

lemma ends_bind [end_rules]:
  assumes "ends_well cfg m" "\<And>x. ends_well cfg (f x)" shows "ends_well cfg (bind m f)"
proof (rule ends_wellI)
  fix s r t assume run: "bind m f s = (r, t)"
  obtain r1 t1 where m: "m s = (r1, t1)" by fastforce
  note one = ends_wellD [OF assms(1) m]
  show "l_confirmed_advances t = l_confirmed_advances s \<and> (\<forall>g. r = Inl g \<longrightarrow> good_end cfg g t)"
  proof (cases r1)
    case (Inl g)
    then show ?thesis using run m one by (auto simp: bind_def)
  next
    case (Inr x)
    then have "f x t1 = (r, t)" using run m by (simp add: bind_def)
    from ends_wellD [OF assms(2) this] one show ?thesis by simp
  qed
qed

lemma ends_with_state [end_rules]: "(\<And>s. ends_well cfg (f s)) \<Longrightarrow> ends_well cfg (with_state f)"
  by (simp add: ends_well_def wp_rules)

lemma ends_branch [end_rules]:
  "ends_well cfg a \<Longrightarrow> ends_well cfg b \<Longrightarrow> ends_well cfg (branch c a b)"
  by (simp add: ends_well_def wp_rules)

lemma ends_try_except [end_rules]:
  assumes "ends_well cfg m" "\<And>e. ends_well cfg (h e)" shows "ends_well cfg (try_except m h)"
proof (rule ends_wellI)
  fix s r t assume run: "try_except m h s = (r, t)"
  obtain r1 t1 where m: "m s = (r1, t1)" by fastforce
  note one = ends_wellD [OF assms(1) m]
  show "l_confirmed_advances t = l_confirmed_advances s \<and> (\<forall>g. r = Inl g \<longrightarrow> good_end cfg g t)"
  proof (cases "\<exists>e. r1 = Inl (Raise e)")
    case True
    then obtain e where "h e t1 = (r, t)" using run m by (auto simp: try_except_def)
    from ends_wellD [OF assms(2) this] one show ?thesis by simp
  next
    case False
    then have "r = r1 \<and> t = t1" using run m by (auto simp: try_except_def split: sum.splits signal.splits)
    then show ?thesis using one by simp
  qed
qed

lemma ends_attempt [end_rules]: "ends_well cfg a \<Longrightarrow> ends_well cfg (attempt a)"
  unfolding attempt_def by (auto intro!: end_rules)

lemma ends_block [end_rules]: "(\<And>a. a \<in> set as \<Longrightarrow> ends_well cfg a) \<Longrightarrow> ends_well cfg (block as)"
  by (induction as) (auto intro!: end_rules)

text \<open>A last suite that only changes the files does not disturb the ending.\<close>

lemma ends_finally_do:
  assumes "ends_well cfg m"
    and "\<And>s r t. f s = (r, t) \<Longrightarrow> l_reason t = l_reason s \<and> w_db t = w_db s \<and>
      l_confirmed_advances t = l_confirmed_advances s \<and> (\<forall>g. r = Inl g \<longrightarrow> (\<exists>e. g = Raise e))"
  shows "ends_well cfg (finally_do m f)"
proof (rule ends_wellI)
  fix s r t assume run: "finally_do m f s = (r, t)"
  obtain r1 t1 where m: "m s = (r1, t1)" by fastforce
  obtain r2 t2 where f: "f t1 = (r2, t2)" by fastforce
  note one = ends_wellD [OF assms(1) m] and two = assms(2) [OF f]
  have "t = t2 \<and> (r = r1 \<or> (\<exists>g. r2 = Inl g \<and> r = Inl g))"
    using run m f by (auto simp: finally_do_def split: sum.splits)
  moreover have "good_end cfg g t2" if "r1 = Inl g" for g
    using one two that by (cases g) auto
  ultimately show "l_confirmed_advances t = l_confirmed_advances s \<and> (\<forall>g. r = Inl g \<longrightarrow> good_end cfg g t)"
    using one two by auto
qed

lemma ends_modify [end_rules]:
  "(\<And>s. l_confirmed_advances (f s) = l_confirmed_advances s) \<Longrightarrow> ends_well cfg (modify f)"
  by (simp add: ends_well_def wp_rules)

section \<open>Statements that end well\<close>

lemma ends_env [end_rules]:
  "ends_well cfg datetime_now" "ends_well cfg uuid4"
  unfolding datetime_now_def uuid4_def by (intro end_rules; simp)+

lemma ends_may_fail [end_rules]: "ends_well cfg a \<Longrightarrow> ends_well cfg (may_fail e a)"
  unfolding may_fail_def by (auto intro!: end_rules)

lemma ends_db_call [end_rules]: "ends_well cfg (db_call f)"
  unfolding db_call_def by (auto intro!: end_rules split: prod.splits sum.splits)

lemma ends_db_read [end_rules]: "ends_well cfg (db_read f)"
  unfolding db_read_def by (rule end_rules)

lemma ends_storage [end_rules]:
  "ends_well cfg (storage_upload_file k c ct)" "ends_well cfg (storage_download_file k)"
  "ends_well cfg (storage_remove k)"
  unfolding storage_defs by (auto intro!: end_rules split: option.splits)

lemma ends_translating [end_rules]: "ends_well cfg a \<Longrightarrow> ends_well cfg (translating e a)"
  unfolding translating_def by (auto intro!: end_rules)

lemma ends_files [end_rules]:
  "ends_well cfg (read_file p)" "ends_well cfg (write_file p c)" "ends_well cfg (unlink p)"
  unfolding read_file_def write_file_def unlink_def by (auto intro!: end_rules split: option.splits)

lemma ends_source_storage [end_rules]:
  "ends_well cfg (stat_source k)" "ends_well cfg (existing_matches tools k c stat)"
  "ends_well cfg (publish_source tools sc p k)" "ends_well cfg (delete_source k)"
  "ends_well cfg (cleanup_temporary_file sc p)" "ends_well cfg (validate_source tools sc p)"
  unfolding stat_source_def existing_matches_def publish_source_def delete_source_def
    cleanup_temporary_file_def validate_source_def
  by (auto intro!: end_rules split: option.splits)

lemma ends_clock [end_rules]:
  "ends_well cfg clock_reading" "ends_well cfg (deadline_expired dl)" "ends_well cfg (require_deadline dl)"
  unfolding require_deadline_def deadline_expired_def clock_reading_def
  by (auto intro!: end_rules split: option.splits)

lemma ends_record_event [end_rules]: "ends_well cfg (record_event e)"
  unfolding record_event_def by (intro end_rules) simp

lemma ends_set_reason [end_rules]: "ends_well cfg (set_reason r)"
  unfolding set_reason_def by (intro end_rules) simp

lemma ends_break_with [end_rules]: "ends_well cfg (break_with r)"
  by (simp add: ends_well_def break_with_def set_reason_def wp_rules)

lemma ends_break_if_expired [end_rules]: "ends_well cfg (break_if_expired dl)"
  unfolding break_if_expired_def by (auto intro!: end_rules)

lemma ends_cancel [end_rules]: "ends_well cfg (raise_if_cancel_requested run)"
  unfolding raise_if_cancel_requested_def others_may_cancel_def by (auto intro!: end_rules)

lemma ends_safe_ends [end_rules]:
  "ends_well cfg (safe_fail_run run reason)" "ends_well cfg (safe_cancel_run run)"
  unfolding safe_fail_run_def safe_cancel_run_def by (intro end_rules)+

lemma ends_db_query [end_rules]: "ends_well cfg (db_query f)"
  unfolding db_query_def by (intro end_rules)

lemma ends_feed [end_rules]:
  "ends_well cfg feed_response" "ends_well cfg feed_current" "ends_well cfg wait_for_next"
  unfolding feed_current_def wait_for_next_def with_type_error_fallback_def feed_response_def
  by (auto intro!: end_rules)

lemma ends_confirm_transition [end_rules]:
  "ends_well cfg (transition_attempt dl rem n)" "ends_well cfg (confirm_transition cfg' dl rem)"
  unfolding confirm_transition_def transition_attempt_def with_type_error_fallback_def
  by (auto intro!: end_rules split: option.splits)

section \<open>Returning a summary\<close>

lemma summarize_outcome:
  "wp (summarize cfg run reason status) (\<lambda>r t. w_db t = w_db s \<and>
     l_confirmed_advances t = l_confirmed_advances s \<and> l_reason t = l_reason s \<and>
     (\<exists>sm. r = Inr sm \<and> cs_run_id sm = run \<and> cs_status sm = status \<and> cs_stop_reason_code sm = reason)
     ) s"
  unfolding summarize_def db_query_def db_read_def db_call_def may_fail_def read_only_def run_summary_def
  by (auto simp: wp_rules split: option.splits prod.splits)

lemma ends_return_summary [end_rules]:
  assumes "status = ''failed'' \<or> status = ''cancelled''" "reason \<noteq> None"
  shows "ends_well cfg (return_summary cfg run reason status)"
  unfolding ends_well_def return_summary_def wp_bind
  by (intro allI wp_mono [OF summarize_outcome]) (use assms in \<open>auto simp: wp_rules summary_ok_def\<close>)

lemma ends_fail_and_return [end_rules]:
  "reason \<noteq> None \<Longrightarrow> ends_well cfg (fail_and_return cfg run rec reason)"
  unfolding fail_and_return_def by (intro end_rules) auto

lemma ends_cancel_and_return [end_rules]: "ends_well cfg (cancel_and_return cfg run reason)"
  unfolding cancel_and_return_def by (intro end_rules) auto

section \<open>Acquiring\<close>

lemma ends_acquire_body [end_rules]: "ends_well cfg (acquire_body cfg' run dl p)"
  unfolding acquire_body_def download_def set_stage_def check_run_bytes_def commit_acquired_def block.simps
  by (auto intro!: end_rules split: option.splits prod.splits)

lemma ends_compensate [end_rules]: "ends_well cfg compensate"
  unfolding compensate_def by (auto intro!: end_rules split: option.splits)

lemma failure_reason_some: "failure_reason e b s \<noteq> None"
  by (simp add: failure_reason_def)

lemma record_acquire_failure_outcome:
  "wp (record_acquire_failure run) (\<lambda>r t. l_reason t = l_reason s \<and>
     l_confirmed_advances t = l_confirmed_advances s \<and> (\<forall>g. r = Inl g \<longrightarrow> (\<exists>e. g = Raise e))) s"
  unfolding record_acquire_failure_def attempt_def datetime_now_def uuid4_def db_call_def may_fail_def
  by (auto simp: wp_rules split: prod.splits sum.splits)

lemma ends_acquire_failed [end_rules]: "ends_well cfg (acquire_failed run e)"
proof -
  have "ends_well cfg (bind (modify (\<lambda>s. s\<lparr>l_reason := failure_reason e b s\<rparr>)) (\<lambda>_.
      bind (record_acquire_failure run) (\<lambda>_. stop Break)) :: unit engine_act)" for b
    unfolding ends_well_def wp_bind wp_modify
    by (intro allI, simp only: sum.case, rule wp_mono [OF record_acquire_failure_outcome])
      (use failure_reason_some in \<open>auto simp: wp_rules split: sum.splits\<close>)
  note good = this
  have "ends_well cfg (bind compensate (\<lambda>b. bind (modify (\<lambda>s. s\<lparr>l_reason := failure_reason e b s\<rparr>)) (\<lambda>_.
      bind (record_acquire_failure run) (\<lambda>_. stop Break))) :: unit engine_act)"
    by (rule ends_bind [OF ends_compensate good])
  moreover have "ends_well cfg (bind compensate (\<lambda>_. raise e) :: unit engine_act)"
    by (intro end_rules)
  ultimately show ?thesis unfolding acquire_failed_def by (auto intro: ends_raise)
qed

lemma cleanup_outcome:
  assumes "attempt (cleanup_temporary_file sc p) s = (r, t)"
  shows "l_reason t = l_reason s \<and> w_db t = w_db s \<and> l_confirmed_advances t = l_confirmed_advances s \<and>
    (\<forall>g. r = Inl g \<longrightarrow> (\<exists>e. g = Raise e))"
  using assms
  by (auto simp: cleanup_temporary_file_def unlink_def act_defs split: sum.splits if_splits)

lemma ends_acquire [end_rules]: "ends_well cfg (acquire cfg' run dl)"
  unfolding acquire_def
  by (intro end_rules ends_finally_do cleanup_outcome) simp_all

section \<open>The rounds of the loop\<close>

lemma ends_observe [end_rules]: "ends_well cfg (observe cfg' run dl)"
  unfolding observe_def account_owned_def block.simps by (auto intro!: end_rules)

lemma ends_take_candidate [end_rules]: "ends_well cfg (take_candidate cfg' run dl owned)"
  unfolding take_candidate_def commit_known_def by (auto intro!: end_rules)

lemma complete_run_done:
  assumes "get_run d i = Some row" "complete_run i now d = (Inr (), d')"
    "ec_target_count cfg \<le> run_source_committed_count row + run_already_available_count row"
  shows "run_completed cfg i d'"
proof -
  from transaction_InrD [OF assms(2) [unfolded complete_run_def]] assms(1)
  have "d' = update_run i (end_run CollectionRunStatus.COMPLETED None now) d" by auto
  with assms(1,3) show ?thesis
    by (auto simp: run_completed_def update_run_def lookup_update_rows end_run_def)
qed

lemma complete_if_done:
  assumes "get_run d i = Some row" "complete_if_account_durable_total i n now d = (Inr True, d')"
    "ec_target_count cfg \<le> run_source_committed_count row + run_already_available_count row"
  shows "run_completed cfg i d'"
proof -
  from transaction_InrD [OF assms(2) [unfolded complete_if_account_durable_total_def]] assms(1)
  have "d' = update_run i (end_run CollectionRunStatus.COMPLETED None now) d"
    by (auto split: if_splits)
  with assms(1,3) show ?thesis
    by (auto simp: run_completed_def update_run_def lookup_update_rows end_run_def)
qed

lemma complete_outcome:
  assumes "get_run (w_db s) run = Some row"
    "ec_target_count cfg \<le> run_source_committed_count row + run_already_available_count row"
  shows "wp (complete cfg run) (\<lambda>r t. l_confirmed_advances t = l_confirmed_advances s \<and>
     (\<forall>g. r = Inl g \<longrightarrow> (\<exists>e. g = Raise e)) \<and> (r = Inr True \<longrightarrow> run_completed cfg run (w_db t))) s"
  using complete_run_done [OF assms(1) _ assms(2)] complete_if_done [OF assms(1) _ assms(2)]
  by (auto simp: complete_def datetime_now_def db_call_def may_fail_def wp_rules
      split: option.splits prod.splits sum.splits)

lemma fail_and_return_outcome:
  "wp (fail_and_return cfg run rec (Some reason)) (\<lambda>r t. l_confirmed_advances t = l_confirmed_advances s \<and>
     (\<exists>g. r = Inl g \<and> good_end cfg g t)) s"
proof -
  have "wp (fail_and_return cfg run rec (Some reason)) (\<lambda>r t. r \<noteq> Inr ()) s"
    unfolding fail_and_return_def return_summary_def
    by (auto simp: wp_def bind_def stop_def split: prod.splits sum.splits)
  moreover have "ends_well cfg (fail_and_return cfg run rec (Some reason))" by (intro end_rules) simp
  ultimately show ?thesis
    by (auto simp: ends_well_def wp_def split: prod.splits) (metis sumE unit.exhaust)
qed

lemma completion_failed_outcome:
  "wp (completion_failed cfg run e) (\<lambda>r t. l_confirmed_advances t = l_confirmed_advances s \<and>
     (\<exists>g. r = Inl g \<and> good_end cfg g t)) s"
  using fail_and_return_outcome [where s = "s\<lparr>l_reason :=
      Some (case l_reason s of None \<Rightarrow> ''DATABASE_WRITE_FAILED'' | Some r \<Rightarrow> r)\<rparr>"]
  by (auto simp: completion_failed_def wp_rules)

lemma ensured_outcome:
  assumes "get_run (w_db s) run = Some row"
    "ec_target_count cfg \<le> run_source_committed_count row + run_already_available_count row"
  shows "wp (try_except (ensure_completed cfg run) (completion_failed cfg run))
     (\<lambda>r t. l_confirmed_advances t = l_confirmed_advances s \<and>
        (case r of Inl g \<Rightarrow> good_end cfg g t | Inr _ \<Rightarrow> run_completed cfg run (w_db t))) s"
  unfolding wp_try_except ensure_completed_def wp_bind
proof (rule wp_mono [OF complete_outcome [OF assms]], goal_cases)
  case (1 r t)
  then show ?case
    by (auto simp: wp_rules set_reason_def split: sum.splits intro!: wp_mono [OF completion_failed_outcome])
qed

lemma ends_check_target [end_rules]: "ends_well cfg (check_target cfg run)"
proof -
  let ?tried = "try_except (ensure_completed cfg run) (completion_failed cfg run)"
  have good_return: "wp (return_summary cfg run None ''completed'') (\<lambda>r t.
      l_confirmed_advances t = l_confirmed_advances s \<and> (\<forall>g. r = Inl g \<longrightarrow> good_end cfg g t)) s"
    if "run_completed cfg run (w_db s)" for s
    unfolding return_summary_def wp_bind
    by (rule wp_mono [OF summarize_outcome]) (use that in \<open>auto simp: wp_rules summary_ok_def\<close>)
  show ?thesis
    unfolding ends_well_def
  proof
    fix s
    have query: "wp (db_query (run_summary run)) (\<lambda>r t. w_db t = w_db s \<and>
        l_confirmed_advances t = l_confirmed_advances s \<and> (\<forall>g. r = Inl g \<longrightarrow> (\<exists>e. g = Raise e)) \<and>
        (\<forall>c a x. r = Inr (c, a, x) \<longrightarrow> (\<exists>row. get_run (w_db s) run = Some row \<and>
           c = run_source_committed_count row \<and> a = run_already_available_count row))) s"
      unfolding db_query_def db_read_def db_call_def may_fail_def read_only_def run_summary_def
      by (auto simp: wp_rules split: option.splits)
    show "wp (check_target cfg run) (\<lambda>r t. l_confirmed_advances t = l_confirmed_advances s \<and>
        (\<forall>g. r = Inl g \<longrightarrow> good_end cfg g t)) s"
      unfolding check_target_def wp_bind [of "db_query (run_summary run)"]
    proof (rule wp_mono [OF query], goal_cases)
      case (1 r t)
      show ?case
      proof (cases r)
        case (Inl g)
        with 1 show ?thesis by auto
      next
        case (Inr v)
        obtain c a x where v: "v = (c, a, x)" by (cases v) auto
        then obtain row where row: "get_run (w_db t) run = Some row"
            "c = run_source_committed_count row" "a = run_already_available_count row"
          using 1 Inr by auto
        show ?thesis
        proof (cases "ec_target_count cfg \<le> c + a")
          case False
          with 1 Inr v show ?thesis by (auto simp: wp_rules)
        next
          case True
          note ensured_outcome [OF row(1), of cfg]
          then have "wp (bind ?tried (\<lambda>_. return_summary cfg run None ''completed''))
              (\<lambda>r u. l_confirmed_advances u = l_confirmed_advances t \<and> (\<forall>g. r = Inl g \<longrightarrow> good_end cfg g u)) t"
            unfolding wp_bind [of ?tried]
            by (rule wp_mono)
              (use True row good_return in \<open>auto split: sum.splits elim!: wp_mono [OF good_return]\<close>)
          with 1 Inr v True show ?thesis by simp
        qed
      qed
    qed
  qed
qed

subsection \<open>Moving on\<close>

text \<open>A round that goes on has counted one advance, below the limit.\<close>

definition goes_on :: "engine_config \<Rightarrow> int \<Rightarrow> collector_summary signal + 'a \<Rightarrow> engine \<Rightarrow> bool" where
  "goes_on cfg n r t \<longleftrightarrow>
     (case r of
        Inl g \<Rightarrow> good_end cfg g t
      | Inr _ \<Rightarrow> l_confirmed_advances t = n + 1 \<and> n < max_advances (ec_limits cfg))"

lemma wp_ends:
  assumes "ends_well cfg a"
    "\<And>r t. l_confirmed_advances t = l_confirmed_advances s \<Longrightarrow> (\<forall>g. r = Inl g \<longrightarrow> good_end cfg g t) \<Longrightarrow> Q r t"
  shows "wp a Q s"
proof -
  obtain r t where "a s = (r, t)" by fastforce
  with ends_wellD [OF assms(1) this] assms(2) show ?thesis by (simp add: wp_def)
qed

lemma wp_bind_goes_on:
  assumes "ends_well cfg m" "\<And>x t. l_confirmed_advances t = l_confirmed_advances s \<Longrightarrow> wp (f x) (goes_on cfg n) t"
  shows "wp (bind m f) (goes_on cfg n) s"
  unfolding wp_bind
  by (rule wp_ends [OF assms(1)]) (use assms(2) in \<open>auto simp: goes_on_def split: sum.splits\<close>)

lemma ends_before_transition [end_rules]: "ends_well cfg (before_transition cfg' run dl)"
  unfolding before_transition_def block.simps by (intro end_rules; simp)

lemma before_transition_below:
  "wp (before_transition cfg run dl) (\<lambda>r t. r = Inr () \<longrightarrow> l_confirmed_advances s < max_advances (ec_limits cfg)) s"
  unfolding before_transition_def block.simps wp_bind [of "break_if_expired dl"]
proof (rule wp_ends [OF ends_break_if_expired [of cfg]], goal_cases)
  case (1 r t)
  show ?case
  proof (cases r)
    case (Inr u)
    show ?thesis
    proof (cases "max_advances (ec_limits cfg) \<le> l_confirmed_advances s")
      case True
      with Inr 1 show ?thesis by (simp add: wp_bind wp_branch break_with_def set_reason_def wp_modify wp_stop)
    next
      case False
      with Inr show ?thesis by (simp add: wp_def split: prod.splits)
    qed
  qed simp
qed

lemma move_to_outcome: "n < max_advances (ec_limits cfg) \<Longrightarrow> l_confirmed_advances s = n \<Longrightarrow>
    wp (move_to cfg c) (goes_on cfg n) s"
  unfolding move_to_def by (auto simp: wp_rules goes_on_def break_with_def set_reason_def record_event_def)

lemma next_reel_outcome: "wp (next_reel cfg run dl) (goes_on cfg (l_confirmed_advances s)) s"
proof -
  let ?n = "l_confirmed_advances s"
  have tail: "wp (bind (try_except (call (validate_candidate c))
        (\<lambda>e. if e = exn.InvalidReelCandidate
             then bind (break_with ''INVALID_REEL_CANDIDATE'') (\<lambda>_. ret c) else raise e)) (move_to cfg))
      (goes_on cfg ?n) t"
    if "?n < max_advances (ec_limits cfg)" "l_confirmed_advances t = ?n" for c t
    by (rule wp_bind_goes_on) (use that move_to_outcome in \<open>auto intro!: end_rules\<close>)
  have breaks: "wp (break_with r) (goes_on cfg ?n) t" for r and t :: engine
    by (simp add: wp_rules break_with_def set_reason_def goes_on_def)
  have before: "wp (before_transition cfg run dl) (\<lambda>r t. l_confirmed_advances t = ?n \<and>
      (\<forall>g. r = Inl g \<longrightarrow> good_end cfg g t)) s"
    by (rule wp_ends [OF ends_before_transition [of cfg]]) simp
  show ?thesis
    unfolding next_reel_def wp_bind [of "before_transition cfg run dl"]
  proof (rule wp_mono [OF wp_conj [THEN iffD2, OF conjI, OF before before_transition_below]], goal_cases)
    case (1 r t)
    show ?case
    proof (cases r)
      case (Inl g)
      with 1 show ?thesis by (auto simp: goes_on_def)
    next
      case (Inr u)
      with 1 have below: "?n < max_advances (ec_limits cfg)" and t: "l_confirmed_advances t = ?n" by auto
      have "wp (bind (with_state (\<lambda>s. confirm_transition cfg dl
             (map_option (\<lambda>n. n - l_scroll_actions s) (max_scroll_actions (ec_limits cfg)))))
       (\<lambda>(candidate, scrolls, reason).
          bind (modify (\<lambda>s. s\<lparr>l_scroll_actions := l_scroll_actions s + scrolls\<rparr>)) (\<lambda>_.
          case candidate of
            None \<Rightarrow> (case reason of Some r \<Rightarrow> break_with r
              | None \<Rightarrow> bind (deadline_expired dl) (\<lambda>e.
                  break_with (if e then ''TOTAL_TIMEOUT_REACHED'' else ''TRANSITION_FAILED'')))
          | Some c \<Rightarrow> bind (try_except (call (validate_candidate c))
                 (\<lambda>e. if e = exn.InvalidReelCandidate
                      then bind (break_with ''INVALID_REEL_CANDIDATE'') (\<lambda>_. ret c) else raise e))
              (move_to cfg)))) (goes_on cfg ?n) t"
        by (rule wp_bind_goes_on)
          (auto intro!: end_rules wp_bind_goes_on tail breaks below simp: t split: option.splits)
      with Inr show ?thesis by simp
    qed
  qed
qed

lemma loop_round_outcome: "wp (loop_round cfg run dl) (goes_on cfg (l_confirmed_advances s)) s"
proof -
  have step: "wp (next_reel cfg run dl) (goes_on cfg (l_confirmed_advances s)) t"
    if "l_confirmed_advances t = l_confirmed_advances s" for t
    using next_reel_outcome [of cfg run dl t] that by simp
  have last: "wp (bind (next_reel cfg run dl) (\<lambda>_. block [])) (goes_on cfg (l_confirmed_advances s)) t"
    if "l_confirmed_advances t = l_confirmed_advances s" for t
    unfolding wp_bind
    by (rule wp_mono [OF step [OF that]]) (auto simp: wp_rules goes_on_def split: sum.splits)
  show ?thesis
    unfolding loop_round_def block.simps(2)
    by (rule wp_bind_goes_on [OF ends_observe], rule wp_bind_goes_on [OF ends_take_candidate],
        rule wp_bind_goes_on [OF ends_check_target], rule last) simp
qed

section \<open>The whole run\<close>

lemma loop_outcome:
  assumes "l_confirmed_advances s = 0"
  shows "wp (while_true (round_bound (ec_limits cfg)) (loop_round cfg run dl))
     (\<lambda>r t. r \<noteq> Inl OutOfFuel \<and> (case r of
        Inr _ \<Rightarrow> l_reason t \<noteq> None
      | Inl g \<Rightarrow> g \<noteq> Break \<and> good_end cfg g t)) s"
proof -
  let ?left = "\<lambda>s. nat (max_advances (ec_limits cfg) - l_confirmed_advances s)"
  show ?thesis
  proof (rule wp_while_true [where I = "\<lambda>_. True" and left = ?left])
    fix s :: engine
    show "wp (loop_round cfg run dl) (\<lambda>r t. case r of
        Inl Break \<Rightarrow> (case Inr () of Inr _ \<Rightarrow> l_reason t \<noteq> None | Inl g \<Rightarrow> g \<noteq> Break \<and> good_end cfg g t)
      | Inl g \<Rightarrow> g \<noteq> OutOfFuel \<and> (case Inl g of Inr _ \<Rightarrow> l_reason t \<noteq> None
          | Inl g \<Rightarrow> g \<noteq> Break \<and> good_end cfg g t)
      | Inr _ \<Rightarrow> True \<and> 0 < ?left s \<and> ?left t < ?left s) s"
      by (rule wp_mono [OF loop_round_outcome])
        (auto simp: goes_on_def split: sum.splits signal.splits)
  qed (use assms in \<open>simp_all add: round_bound_def\<close>)
qed

lemma cancel_outcome:
  "wp (raise_if_cancel_requested run) (\<lambda>r t. l_confirmed_advances t = l_confirmed_advances s \<and>
     (\<forall>g. r = Inl g \<longrightarrow> (\<exists>e. g = Raise e))) s"
  unfolding raise_if_cancel_requested_def others_may_cancel_def datetime_now_def db_read_def db_call_def
    may_fail_def read_only_def
  by (auto simp: wp_rules)

lemma current_outcome:
  "wp (bind feed_current (\<lambda>c. call (validate_candidate c))) (\<lambda>r t.
     l_confirmed_advances t = l_confirmed_advances s \<and> (\<forall>g. r = Inl g \<longrightarrow> (\<exists>e. g = Raise e))) s"
  unfolding feed_current_def feed_response_def by (auto simp: wp_rules split: sum.splits)

text \<open>The end of a run is recorded whatever the database does, and the summary is returned.\<close>

definition returns_ok :: "engine_config \<Rightarrow> collector_summary signal + unit \<Rightarrow> engine \<Rightarrow> bool" where
  "returns_ok cfg r t \<longleftrightarrow> (\<exists>sm. r = Inl (Return sm) \<and> summary_ok cfg sm (w_db t))"

lemma ending_calls_exceptions:
  "fail_run i reason now d = (Inl e, d') \<Longrightarrow> is_exception e"
  "cancel_run i reason now d = (Inl e, d') \<Longrightarrow> is_exception e"
  by (auto simp: fail_run_def cancel_run_def transaction_def split: option.splits if_splits)

lemma safe_ends_outcome:
  "wp (safe_fail_run run reason) (\<lambda>r t. r = Inr ()) s"
  "wp (safe_cancel_run run) (\<lambda>r t. r = Inr ()) s"
  using ending_calls_exceptions
  unfolding safe_fail_run_def safe_cancel_run_def attempt_def datetime_now_def db_call_def may_fail_def
  by (auto simp: wp_rules split: prod.splits sum.splits)

lemma return_summary_outcome:
  assumes "status = ''failed'' \<or> status = ''cancelled''" "reason \<noteq> None"
  shows "wp (return_summary cfg run reason status) (returns_ok cfg) s"
  unfolding return_summary_def wp_bind
  by (rule wp_mono [OF summarize_outcome]) (use assms in \<open>auto simp: wp_rules summary_ok_def returns_ok_def\<close>)

lemma fail_and_return_returns:
  "reason \<noteq> None \<Longrightarrow> wp (fail_and_return cfg run rec reason) (returns_ok cfg) s"
  unfolding fail_and_return_def wp_bind
  by (rule wp_mono [OF safe_ends_outcome(1)]) (auto intro!: return_summary_outcome)

lemma cancel_and_return_returns: "wp (cancel_and_return cfg run c) (returns_ok cfg) s"
  unfolding cancel_and_return_def wp_bind
  by (rule wp_mono [OF safe_ends_outcome(2)]) (auto intro!: return_summary_outcome)

lemma collect_failed_returns: "wp (collect_failed cfg run e) (returns_ok cfg) s"
  unfolding collect_failed_def Let_def
  by (auto intro!: fail_and_return_returns cancel_and_return_returns)

lemma collect_body_outcome:
  assumes "l_confirmed_advances s = 0"
  shows "wp (collect_body cfg run dl) (\<lambda>r t. returns_ok cfg r t \<or> (\<exists>e. r = Inl (Raise e))) s"
proof -
  have finish: "wp (with_state (\<lambda>s. fail_and_return cfg run
       (case l_reason s of None \<Rightarrow> ''COLLECTOR_FAILED'' | Some r \<Rightarrow> r) (l_reason s)))
      (\<lambda>r t. returns_ok cfg r t \<or> (\<exists>e. r = Inl (Raise e))) t" if "l_reason t \<noteq> None" for t
    unfolding wp_with_state using that by (intro wp_mono [OF fail_and_return_returns]) auto
  have loop: "wp (bind (while_true (round_bound (ec_limits cfg)) (loop_round cfg run dl)) (\<lambda>_.
      with_state (\<lambda>s. fail_and_return cfg run
       (case l_reason s of None \<Rightarrow> ''COLLECTOR_FAILED'' | Some r \<Rightarrow> r) (l_reason s))))
      (\<lambda>r t. returns_ok cfg r t \<or> (\<exists>e. r = Inl (Raise e))) t" if "l_confirmed_advances t = 0" for t
    unfolding wp_bind
  proof (rule wp_mono [OF loop_outcome [OF that]], goal_cases)
    case (1 r u)
    show ?case
    proof (cases r)
      case (Inl g)
      with 1 show ?thesis by (cases g) (auto simp: returns_ok_def)
    next
      case (Inr x)
      with 1 finish show ?thesis by simp
    qed
  qed
  have after: "wp (bind (bind feed_current (\<lambda>c. call (validate_candidate c))) (\<lambda>candidate.
      bind (modify (\<lambda>s. s\<lparr>l_candidate := candidate\<rparr>)) (\<lambda>_.
      bind (while_true (round_bound (ec_limits cfg)) (loop_round cfg run dl)) (\<lambda>_.
      with_state (\<lambda>s. fail_and_return cfg run
       (case l_reason s of None \<Rightarrow> ''COLLECTOR_FAILED'' | Some r \<Rightarrow> r) (l_reason s))))))
      (\<lambda>r t. returns_ok cfg r t \<or> (\<exists>e. r = Inl (Raise e))) t" if "l_confirmed_advances t = 0" for t
    unfolding wp_bind [of "bind feed_current _"] wp_bind [of "modify _"] wp_modify
  proof (rule wp_mono [OF current_outcome], goal_cases)
    case (1 r u)
    then show ?case using that loop by (cases r) auto
  qed
  show ?thesis
    unfolding collect_body_def wp_bind [of "raise_if_cancel_requested run"]
  proof (rule wp_mono [OF cancel_outcome], goal_cases)
    case (1 r t)
    then show ?case using assms after by (cases r) auto
  qed
qed

text \<open>Closing the feed leaves the database alone and lets only an interrupt through.\<close>

lemma feed_close_outcome:
  "wp feed_close (\<lambda>r t. w_db t = w_db s \<and> (r = Inr () \<or> r = Inl (Raise exn.KeyboardInterrupt))) s"
  unfolding feed_close_def attempt_def feed_response_def
  by (auto simp: wp_rules split: sum.splits)

definition collect_ok :: "engine_config \<Rightarrow> (exn \<Rightarrow> bool) \<Rightarrow>
    collector_summary signal + collector_summary \<Rightarrow> engine \<Rightarrow> bool" where
  "collect_ok cfg allowed r t \<longleftrightarrow>
     (case r of
        Inr sm \<Rightarrow> summary_ok cfg sm (w_db t)
      | Inl (Raise e) \<Rightarrow> allowed e
      | Inl _ \<Rightarrow> False)"

lemma supervised_outcome:
  assumes "l_confirmed_advances s = 0" "allowed exn.KeyboardInterrupt"
  shows "wp (function_body (bind (finally_do
            (try_except (collect_body cfg run dl) (collect_failed cfg run)) feed_close) (\<lambda>_. stop Break)))
     (collect_ok cfg allowed) s"
  unfolding wp_function_body wp_bind wp_finally_do wp_try_except wp_stop
proof (rule wp_mono [OF collect_body_outcome [OF assms(1)]], goal_cases)
  case (1 r t)
  have closed: "wp feed_close (\<lambda>r' u.
      case (case r' of Inl g \<Rightarrow> Inl g | Inr _ \<Rightarrow> q) of
        Inl (Return x) \<Rightarrow> collect_ok cfg allowed (Inr x) u
      | Inl (Raise e) \<Rightarrow> collect_ok cfg allowed (Inl (Raise e)) u
      | _ \<Rightarrow> False) v" if "returns_ok cfg q v" for q v
    by (rule wp_mono [OF feed_close_outcome])
      (use that assms(2) in \<open>auto simp: returns_ok_def collect_ok_def\<close>)
  show ?case
  proof (cases "\<exists>e. r = Inl (Raise e)")
    case True
    then obtain e where "r = Inl (Raise e)" by blast
    then show ?thesis
      by simp (rule wp_mono [OF collect_failed_returns], frule closed,
        auto simp: returns_ok_def elim!: wp_mono split: sum.splits signal.splits)
  next
    case False
    with 1 have "returns_ok cfg r t" by blast
    from closed [OF this] this show ?thesis
      by (auto simp: returns_ok_def elim!: wp_mono split: sum.splits signal.splits)
  qed
qed

lemma wp_function_bind:
  "wp (function_body (bind m f)) Q s \<longleftrightarrow> wp m (\<lambda>r t. case r of
     Inl g \<Rightarrow> wp (function_body (stop g)) Q t
   | Inr x \<Rightarrow> wp (function_body (f x)) Q t) s"
  unfolding wp_function_body wp_bind wp_stop by (simp cong: sum.case_cong)

lemma start_run_outcome:
  "wp (start_run cfg) (\<lambda>r t. (\<exists>run. r = Inr run) \<or>
     (\<exists>e. r = Inl (Raise e) \<and> ec_claimed_run_id cfg = None \<and> safe_exception_code e = None)) s"
  unfolding start_run_def datetime_now_def uuid4_def db_call_def may_fail_def create_run_def transaction_def
  by (auto simp: wp_rules split: option.splits prod.splits sum.splits)

lemma deadline_outcome:
  "wp (case deadline_seconds lims of
         None \<Rightarrow> ret None
       | Some t \<Rightarrow> bind clock_reading (\<lambda>now. ret (Some (now + t)))) (\<lambda>r t. \<exists>dl. r = Inr dl) s"
  unfolding clock_reading_def by (auto simp: wp_rules split: option.splits)

lemma wp_function_after:
  assumes "wp m M s" "\<And>r t. M r t \<Longrightarrow> case r of
     Inl g \<Rightarrow> wp (function_body (stop g)) Q t
   | Inr x \<Rightarrow> wp (function_body (f x)) Q t"
  shows "wp (function_body (bind m f)) Q s"
  by (rule wp_function_bind [THEN iffD2], rule wp_mono [OF assms(1)]) (rule assms(2))

lemma collect_outcome:
  assumes "allowed exn.KeyboardInterrupt" "\<not> arguments_ok cfg \<Longrightarrow> allowed ValueError"
    "\<And>e. ec_claimed_run_id cfg = None \<Longrightarrow> safe_exception_code e = None \<Longrightarrow> allowed e"
  shows "wp (collect cfg) (collect_ok cfg allowed) s"
proof (cases "arguments_ok cfg")
  case False
  then show ?thesis
    using assms(2) by (simp add: collect_def wp_function_body wp_stop collect_ok_def)
next
  case True
  let ?body = "\<lambda>run dl. bind (finally_do
      (try_except (collect_body cfg run dl) (collect_failed cfg run)) feed_close) (\<lambda>_. stop Break)"
  have reset: "wp (reset_locals :: unit engine_act) (\<lambda>r t. r = Inr () \<and> l_confirmed_advances t = 0) t" for t
    by (simp add: reset_locals_def wp_modify)
  have "wp (function_body (bind reset_locals (\<lambda>_. ?body run dl))) (collect_ok cfg allowed) t" for run dl t
    by (rule wp_function_after [OF reset]) (simp add: supervised_outcome assms(1))
  then have "wp (function_body (bind (case deadline_seconds (ec_limits cfg) of
                None \<Rightarrow> ret None
              | Some t \<Rightarrow> bind clock_reading (\<lambda>now. ret (Some (now + t))))
      (\<lambda>dl. bind reset_locals (\<lambda>_. ?body run dl)))) (collect_ok cfg allowed) t" for run t
    by (intro wp_function_after [OF deadline_outcome]) (elim exE, simp only: sum.case)
  then have "wp (function_body (bind (start_run cfg) (\<lambda>run. bind (case deadline_seconds (ec_limits cfg) of
                None \<Rightarrow> ret None
              | Some t \<Rightarrow> bind clock_reading (\<lambda>now. ret (Some (now + t))))
      (\<lambda>dl. bind reset_locals (\<lambda>_. ?body run dl))))) (collect_ok cfg allowed) s"
    by (intro wp_function_after [OF start_run_outcome])
      (elim disjE exE conjE, simp_all only: sum.case wp_function_body wp_stop collect_ok_def signal.case assms(3))
  then show ?thesis using True by (simp only: collect_def not_True_eq_False if_False)
qed

end
