(* ===== verification/EngineTrace.thy ===== *)
theory EngineTrace
  imports EngineRuns
begin

text \<open>
  What a Collector run records, and what it leaves in the bucket: the engine moves on from a Reel
  only after the outcome of that Reel was committed, and it never touches an object that was
  there before it.
\<close>

section \<open>Statements that stay inside a relation\<close>

text \<open>
  A relation that leaves the position, the records, the bucket and the pending publication alone
  to a statement that leaves them alone, and that lets events be recorded, is kept by every
  statement of the engine but those that write to the bucket or count a confirmed transition.
\<close>

named_theorems rec_rules \<open>statements that stay inside a relation\<close>

locale engine_relation = state_relation R for R :: "engine \<Rightarrow> engine \<Rightarrow> bool" +
  assumes apart: "l_position t = l_position s \<Longrightarrow> c_recorded t = c_recorded s \<Longrightarrow>
      w_store t = w_store s \<Longrightarrow> l_published t = l_published s \<Longrightarrow> R s t"
    and event: "e \<noteq> ''transition_confirmed'' \<Longrightarrow>
      R s (s\<lparr>c_recorded := c_recorded s @ [(l_position s, e)]\<rparr>)"
begin

lemmas rec_combinators [rec_rules] = stays_rules

lemma rec_modify [rec_rules]:
  "(\<And>s. l_position (f s) = l_position s) \<Longrightarrow> (\<And>s. c_recorded (f s) = c_recorded s) \<Longrightarrow>
   (\<And>s. w_store (f s) = w_store s) \<Longrightarrow> (\<And>s. l_published (f s) = l_published s) \<Longrightarrow>
   stays R (modify f)"
  by (rule stays_modify) (simp add: apart)

lemma rec_env [rec_rules]: "stays R datetime_now" "stays R uuid4"
  unfolding datetime_now_def uuid4_def by (intro rec_rules; simp)+

lemma rec_may_fail [rec_rules]: "stays R a \<Longrightarrow> stays R (may_fail e a)"
  unfolding may_fail_def by (auto intro!: rec_rules)

lemma rec_db [rec_rules]: "stays R (db_call f)" "stays R (db_read g)"
  unfolding db_read_def db_call_def by (auto intro!: rec_rules split: prod.splits sum.splits)

lemma rec_translating [rec_rules]: "stays R a \<Longrightarrow> stays R (translating e a)"
  unfolding translating_def by (auto intro!: rec_rules)

lemma rec_files [rec_rules]:
  "stays R (cleanup_temporary_file sc p)" "stays R (validate_source tools sc p)"
  "stays R (storage_download_file k)" "stays R (read_file p)"
  unfolding storage_defs read_file_def cleanup_temporary_file_def validate_source_def unlink_def
  by (auto intro!: rec_rules split: option.splits)

lemma rec_clock [rec_rules]:
  "stays R clock_reading" "stays R (deadline_expired dl)" "stays R (require_deadline dl)"
  unfolding require_deadline_def deadline_expired_def clock_reading_def
  by (auto intro!: rec_rules split: option.splits)

lemma rec_break [rec_rules]: "stays R (break_with r)" "stays R (break_if_expired dl)"
  unfolding break_if_expired_def break_with_def set_reason_def by (auto intro!: rec_rules)

lemma rec_event [rec_rules]: "e \<noteq> ''transition_confirmed'' \<Longrightarrow> stays R (record_event e)"
  unfolding record_event_def by (rule stays_modify) (rule event)

lemma rec_cancel [rec_rules]: "stays R (raise_if_cancel_requested run)"
  unfolding raise_if_cancel_requested_def others_may_cancel_def by (auto intro!: rec_rules)

lemma rec_returns [rec_rules]:
  "stays R (fail_and_return cfg run c reason)" "stays R (return_summary cfg run reason st)"
  "stays R (cancel_and_return cfg run c)"
  unfolding fail_and_return_def return_summary_def summarize_def safe_fail_run_def db_query_def
    cancel_and_return_def safe_cancel_run_def
  by (auto intro!: rec_rules)

lemma rec_feed [rec_rules]:
  "stays R feed_response" "stays R feed_current" "stays R feed_close" "stays R (confirm_transition cfg dl rem)"
  unfolding confirm_transition_def transition_attempt_def wait_for_next_def feed_close_def
    with_type_error_fallback_def feed_response_def feed_current_def
  by (auto intro!: rec_rules split: option.splits)

lemma rec_parts [rec_rules]:
  "stays R (set_stage st)" "stays R (set_reason reason)"
  "stays R (download p)" "stays R (check_run_bytes lims v)"
  "stays R (commit_acquired run v published)"
  unfolding set_stage_def set_reason_def download_def write_file_def check_run_bytes_def commit_acquired_def
  by (auto intro!: rec_rules split: prod.splits option.splits)

lemma rec_record_acquire_failure [rec_rules]: "stays R (record_acquire_failure run)"
  unfolding record_acquire_failure_def by (auto intro!: rec_rules split: option.splits)

lemma rec_commit_known [rec_rules]: "stays R (commit_known run)"
  unfolding commit_known_def by (auto intro!: rec_rules)

lemma rec_observe [rec_rules]: "stays R (observe cfg run dl)"
  unfolding observe_def account_owned_def block.simps by (auto intro!: rec_rules)

lemma rec_check_target [rec_rules]: "stays R (check_target cfg run)"
  unfolding check_target_def ensure_completed_def complete_def completion_failed_def db_query_def
  by (auto intro!: rec_rules split: option.splits)

lemma rec_before_transition [rec_rules]: "stays R (before_transition cfg run dl)"
  unfolding before_transition_def block.simps by (intro rec_rules; simp)

lemma rec_valid_candidate [rec_rules]: "stays R (try_except (call (validate_candidate c))
    (\<lambda>e. if e = exn.InvalidReelCandidate
         then bind (break_with ''INVALID_REEL_CANDIDATE'') (\<lambda>_. ret c) else raise e))"
  by (auto intro!: rec_rules)

lemma rec_collect_failed [rec_rules]: "stays R (collect_failed cfg run e)"
  unfolding collect_failed_def Let_def by (auto intro!: rec_rules)

lemma rec_start [rec_rules]: "stays R (start_run cfg)"
  unfolding start_run_def by (auto intro!: rec_rules split: option.splits)

end

text \<open>What the parts of \<open>collect\<close> keep, \<open>collect\<close> keeps.\<close>

lemma keeps_collect:
  assumes "keeps P (start_run cfg)" "keeps P clock_reading" "keeps P reset_locals"
    "\<And>run dl. keeps P (collect_body cfg run dl)" "\<And>run e. keeps P (collect_failed cfg run e)"
    "keeps P feed_close"
  shows "keeps P (collect cfg)"
  unfolding collect_def using assms
  by (auto intro!: keeps_function_body keeps_bind keeps_finally_do keeps_try_except keeps_ret keeps_stop
      split: option.splits)

section \<open>Records\<close>

text \<open>Statements that only add records, none of them a confirmed transition.\<close>

definition records_more :: "engine \<Rightarrow> engine \<Rightarrow> bool" where
  "records_more s t \<longleftrightarrow> l_position t = l_position s \<and>
     (\<exists>new. c_recorded t = c_recorded s @ new \<and> (\<forall>e \<in> set new. snd e \<noteq> ''transition_confirmed''))"

interpretation records: engine_relation records_more
proof
  fix s t u assume st: "records_more s t" and tu: "records_more t u"
  from st obtain new1 where "c_recorded t = c_recorded s @ new1"
    "\<forall>e \<in> set new1. snd e \<noteq> ''transition_confirmed''" by (auto simp: records_more_def)
  moreover from tu obtain new2 where "c_recorded u = c_recorded t @ new2"
    "\<forall>e \<in> set new2. snd e \<noteq> ''transition_confirmed''" by (auto simp: records_more_def)
  moreover have "l_position u = l_position s" using st tu by (simp add: records_more_def)
  ultimately show "records_more s u" unfolding records_more_def
    by (intro conjI exI [of _ "new1 @ new2"]) auto
qed (simp_all add: records_more_def)

lemma rec_bucket [rec_rules]:
  "stays records_more (publish_source tools sc p k)" "stays records_more (delete_source k)"
proof -
  have storage: "stays records_more (storage_upload_file k c ct)" "stays records_more (storage_remove k)"
    "stays records_more (modify (\<lambda>s. s\<lparr>w_store := g s\<rparr>))" for k c ct g
    unfolding storage_defs
    by (auto intro!: rec_rules records.stays_modify simp: records_more_def split: option.splits)
  then show "stays records_more (publish_source tools sc p k)" "stays records_more (delete_source k)"
    unfolding stat_source_def existing_matches_def publish_source_def delete_source_def
    by (auto intro!: rec_rules split: option.splits)
qed

lemma rec_pending [rec_rules]: "stays records_more (modify (\<lambda>s. s\<lparr>l_published := g s\<rparr>))"
  "stays records_more (modify (\<lambda>s. s\<lparr>l_published := None, l_stage := st,
     l_download_attempted := False, l_db_committed := False\<rparr>))"
  by (auto intro!: records.stays_modify simp: records_more_def)

lemma rec_acquire_body [rec_rules]: "stays records_more (acquire_body cfg run dl p)"
  unfolding acquire_body_def block.simps by (intro rec_rules) simp_all

lemma rec_acquire_failed [rec_rules]: "stays records_more (acquire_failed run e)"
  unfolding acquire_failed_def compensate_def by (auto intro!: rec_rules split: option.splits)

lemma rec_acquire [rec_rules]: "stays records_more (acquire cfg run dl)"
  unfolding acquire_def
  by (intro records.stays_rules rec_pending records.rec_files rec_acquire_body rec_acquire_failed)

lemma rec_take_candidate [rec_rules]: "stays records_more (take_candidate cfg run dl owned)"
  unfolding take_candidate_def by (auto intro!: rec_rules split: option.splits)

text \<open>A Reel is settled when its row is committed or it was skipped as the account's already.\<close>

definition settled_at :: "int \<Rightarrow> engine \<Rightarrow> bool" where
  "settled_at p s \<longleftrightarrow>
     (p, ''db_commit'') \<in> set (c_recorded s) \<or> (p, ''duplicate_skipped'') \<in> set (c_recorded s)"

abbreviation settled :: "engine \<Rightarrow> bool" where
  "settled s \<equiv> settled_at (l_position s) s"

definition moves_when_settled :: "engine \<Rightarrow> bool" where
  "moves_when_settled s \<longleftrightarrow> (\<forall>(p, e) \<in> set (c_recorded s). e = ''transition_confirmed'' \<longrightarrow> settled_at p s)"

lemma records_more_settled: "records_more s t \<Longrightarrow> settled s \<Longrightarrow> settled t"
  by (auto simp: records_more_def settled_at_def)

lemma records_more_moves: "records_more s t \<Longrightarrow> moves_when_settled s \<Longrightarrow> moves_when_settled t"
  by (fastforce simp: records_more_def moves_when_settled_def settled_at_def)

lemma rec_keeps: "stays records_more a \<Longrightarrow> keeps moves_when_settled a"
  by (rule records.stays_keeps) (auto intro: records_more_moves)

lemma rec_frame: "stays records_more a \<Longrightarrow> estab moves_when_settled settled a (\<lambda>_. settled)"
  by (rule estab_frame, rule records.stays_keeps) (auto intro: records_more_moves records_more_settled)

lemma rec_estab: "stays records_more a \<Longrightarrow> estab moves_when_settled P a (\<lambda>_ _. True)"
  by (rule estab_keeps [OF rec_keeps])

lemma record_event_settles:
  "e = ''db_commit'' \<or> e = ''duplicate_skipped'' \<Longrightarrow>
   estab moves_when_settled P (record_event e) (\<lambda>_. settled)"
  by (rule estabI) (auto simp: record_event_def modify_def moves_when_settled_def settled_at_def)

lemma never_returns: "(\<And>s r t. a s = (r, t) \<Longrightarrow> \<exists>g. r = Inl g) \<Longrightarrow> stays records_more a \<Longrightarrow>
  estab moves_when_settled P a Q"
  by (rule estabI) (fastforce dest: keepsD [OF rec_keeps])

lemma acquire_failed_signals: "acquire_failed run e s = (r, t) \<Longrightarrow> \<exists>g. r = Inl g"
  by (auto simp: acquire_failed_def bind_def stop_def split: if_splits prod.splits sum.splits)

text \<open>First anything that only adds records, then the rest; and the commit, then such a rest.\<close>

lemma settles_later:
  "stays records_more m \<Longrightarrow> (\<And>x. estab moves_when_settled (\<lambda>_. True) (f x) Q) \<Longrightarrow>
   estab moves_when_settled P (bind m f) Q"
  by (rule estab_bind [OF rec_estab])

lemma settles_now:
  "e = ''db_commit'' \<or> e = ''duplicate_skipped'' \<Longrightarrow> (\<And>x. stays records_more (f x)) \<Longrightarrow>
   estab moves_when_settled P (bind (record_event e) f) (\<lambda>_. settled)"
  by (rule estab_bind [OF record_event_settles rec_frame])

lemma acquire_body_settles: "estab moves_when_settled P (acquire_body cfg run dl p) (\<lambda>_. settled)"
  unfolding acquire_body_def block.simps
  by (intro settles_now settles_later rec_rules) (simp_all | intro rec_rules, simp_all)+

lemma acquire_settles: "estab moves_when_settled P (acquire cfg run dl) (\<lambda>_. settled)"
proof -
  have body: "estab moves_when_settled Q
      (try_except (acquire_body cfg run dl p) (acquire_failed run)) (\<lambda>_. settled)" for Q p
    by (rule estab_try [OF acquire_body_settles])
      (blast intro: never_returns acquire_failed_signals rec_acquire_failed)
  have fin: "estab moves_when_settled Q
      (finally_do (try_except (acquire_body cfg run dl p) (acquire_failed run)) f) (\<lambda>_. settled)"
    if f: "stays records_more f" for Q p and f :: "unit engine_act"
  proof (rule estabI)
    fix s r t assume s: "moves_when_settled s" "Q s"
      and run: "finally_do (try_except (acquire_body cfg run dl p) (acquire_failed run)) f s = (r, t)"
    obtain r1 t1 where m: "try_except (acquire_body cfg run dl p) (acquire_failed run) s = (r1, t1)"
      by fastforce
    obtain r2 t2 where c: "f t1 = (r2, t2)" by fastforce
    note mid = estabD [OF body [of "\<lambda>_. True"] s(1) TrueI m] and last = staysD [OF f c]
    show "moves_when_settled t \<and> (\<forall>x. r = Inr x \<longrightarrow> settled t)"
      using run m c mid records_more_moves [OF last] records_more_settled [OF last]
      by (auto simp: finally_do_def split: sum.splits)
  qed
  show ?thesis
    unfolding acquire_def
    by (intro settles_later fin records.stays_rules rec_pending records.rec_files)
qed

lemma take_candidate_settles:
  "estab moves_when_settled P (take_candidate cfg run dl owned) (\<lambda>_. settled)"
proof -
  have known: "estab moves_when_settled Q (commit_known run) (\<lambda>_. settled)" for Q
    unfolding commit_known_def
    by (intro settles_later record_event_settles) (auto intro!: rec_rules)
  show ?thesis
    unfolding take_candidate_def
    by (auto intro!: settles_later record_event_settles known acquire_settles rec_rules split: option.splits)
qed

lemma move_to_moves: "leads (\<lambda>s. moves_when_settled s \<and> settled s) (move_to cfg c) moves_when_settled"
  unfolding leads_def wp_def move_to_def break_with_def set_reason_def record_event_def
  by (auto simp: act_defs moves_when_settled_def settled_at_def split: if_splits)

abbreviation (input) at_settled :: "engine \<Rightarrow> bool" where
  "at_settled s \<equiv> moves_when_settled s \<and> settled s"

lemma moves_later: "stays records_more m \<Longrightarrow> (\<And>x. leads at_settled (f x) moves_when_settled) \<Longrightarrow>
  leads at_settled (bind m f) moves_when_settled"
  by (rule leads_bind_estab [OF rec_frame])

lemma moves_rest: "stays records_more a \<Longrightarrow> leads at_settled a moves_when_settled"
  by (rule leads_weaken [OF leads_keeps [OF rec_keeps]]) auto

lemma next_reel_moves: "leads at_settled (next_reel cfg run dl) moves_when_settled"
proof -
  have expired: "stays records_more (bind (deadline_expired dl) (\<lambda>e.
      break_with (if e then ''TOTAL_TIMEOUT_REACHED'' else ''TRANSITION_FAILED'')))"
    by (intro rec_rules)
  show ?thesis
    unfolding next_reel_def
    by (intro moves_later records.rec_before_transition records.rec_feed rec_rules)
      (auto split: option.splits intro!: moves_later [OF records.rec_modify] moves_later [OF records.rec_valid_candidate] move_to_moves
        moves_rest [OF records.rec_break(1)] moves_rest [OF expired] records.rec_feed rec_rules)
qed

lemma loop_round_moves: "keeps moves_when_settled (loop_round cfg run dl)"
proof -
  have tail: "leads at_settled (block [check_target cfg run, next_reel cfg run dl]) moves_when_settled"
    unfolding block.simps
    by (intro moves_later records.rec_check_target leads_bind [OF next_reel_moves] leads_keeps keeps_ret)
  have "leads (\<lambda>s. moves_when_settled s \<and> True)
      (block [take_candidate cfg run dl owned, check_target cfg run, next_reel cfg run dl])
      moves_when_settled" for owned
    using tail by (subst block.simps) (rule leads_bind_estab [OF take_candidate_settles])
  then have "leads (\<lambda>s. moves_when_settled s \<and> True) (loop_round cfg run dl) moves_when_settled"
    unfolding loop_round_def by (rule leads_bind_estab [OF rec_estab [OF records.rec_observe]])
  then show ?thesis by (simp add: keeps_leads)
qed

lemma collect_body_moves: "keeps moves_when_settled (collect_body cfg run dl)"
  unfolding collect_body_def
  by (intro keeps_bind keeps_while_true loop_round_moves rec_keeps rec_rules) simp_all

lemma collect_moves: "keeps moves_when_settled (collect cfg)"
proof -
  have reset: "keeps moves_when_settled reset_locals"
    unfolding reset_locals_def by (rule keeps_modify) (simp add: moves_when_settled_def settled_at_def)
  show ?thesis
    by (rule keeps_collect [OF _ _ reset collect_body_moves]) (intro rec_keeps rec_rules)+
qed

section \<open>Objects of others\<close>

text \<open>Statements that leave the bucket and the pending publication alone.\<close>

definition bucket_alone :: "engine \<Rightarrow> engine \<Rightarrow> bool" where
  "bucket_alone s t \<longleftrightarrow> w_store t = w_store s \<and> l_published t = l_published s"

interpretation bucket: engine_relation bucket_alone
  by unfold_locales (simp_all add: bucket_alone_def)

text \<open>An object is somebody else's while no publication of the run created it.\<close>

definition untouched :: "string \<Rightarrow> stored_object \<Rightarrow> engine \<Rightarrow> bool" where
  "untouched k obj s \<longleftrightarrow> store_get (w_store s) k = Some obj \<and>
     opt_all (\<lambda>p. pub_created_by_attempt p \<longrightarrow> pub_object_key p \<noteq> k) (l_published s)"

named_theorems bucket_rules \<open>statements that leave the objects of others untouched\<close>

lemma untouched_alone: "stays bucket_alone a \<Longrightarrow> keeps (untouched k obj) a"
  by (rule bucket.stays_keeps) (auto simp: bucket_alone_def untouched_def)

lemma publish_source_untouched:
  "estab (untouched k obj) (\<lambda>_. True) (publish_source tools sc p key)
     (\<lambda>pub _. pub_created_by_attempt pub \<longrightarrow> pub_object_key pub \<noteq> k)"
proof (rule estabI)
  fix s r t assume s: "untouched k obj s" and run: "publish_source tools sc p key s = (r, t)"
  have "wp (publish_source tools sc p key) (\<lambda>r t. l_published t = l_published s \<and>
      (w_store t = w_store s \<or> (\<exists>j x. store_get (w_store s) j = None \<and> w_store t = store_put j x (w_store s))) \<and>
      (\<forall>pub. r = Inr pub \<longrightarrow> pub_created_by_attempt pub \<longrightarrow>
         store_get (w_store s) (pub_object_key pub) = None)) s"
    unfolding publish_source_def translating_def may_fail_def read_file_def stat_source_def
      existing_matches_def storage_defs
    by (auto simp: wp_rules split: option.splits sum.splits if_splits)
  from wpD [OF this run] s
  show "untouched k obj t \<and>
      (\<forall>pub. r = Inr pub \<longrightarrow> pub_created_by_attempt pub \<longrightarrow> pub_object_key pub \<noteq> k)"
    by (auto simp: untouched_def)
qed

lemma pending_untouched:
  "estab (untouched k obj) (\<lambda>_. pub_created_by_attempt pub \<longrightarrow> pub_object_key pub \<noteq> k)
     (modify (\<lambda>s. s\<lparr>l_published := Some pub\<rparr>)) (\<lambda>_ _. True)"
  by (rule estabI) (auto simp: modify_def untouched_def)

lemma acquire_body_untouched: "keeps (untouched k obj) (acquire_body cfg run dl p)"
proof -
  have tail: "leads (\<lambda>s. untouched k obj s \<and> (pub_created_by_attempt published \<longrightarrow> pub_object_key published \<noteq> k))
      (block [modify (\<lambda>s. s\<lparr>l_published := Some published\<rparr>), record_event ''publication'',
        require_deadline dl, set_stage ''database'', commit_acquired run validated published,
        record_event ''db_commit'', require_deadline dl]) (untouched k obj)" for published validated
    unfolding block.simps
    by (rule leads_bind_estab [OF pending_untouched], rule leads_weaken [OF leads_keeps [OF untouched_alone]])
      ((intro rec_rules; simp)+, simp_all)
  have fin: "keeps (untouched k obj) (bind (publish_source (ec_tools cfg) (ec_storage cfg) p key) (\<lambda>published.
      block [modify (\<lambda>s. s\<lparr>l_published := Some published\<rparr>), record_event ''publication'',
        require_deadline dl, set_stage ''database'', commit_acquired run validated published,
        record_event ''db_commit'', require_deadline dl]))" for key validated
    using leads_bind_estab [OF publish_source_untouched tail] by (simp add: keeps_leads)
  note after = keeps_bind [OF untouched_alone]
  show ?thesis
    unfolding acquire_body_def
    by (rule after [OF _ after [OF _ after [OF _ after [OF _ fin]]]]) (auto intro!: rec_rules)
qed

lemma storage_remove_untouched:
  "j \<noteq> k \<Longrightarrow> keeps (untouched k obj) (storage_remove j :: unit engine_act)"
  unfolding storage_remove_def may_fail_def
  by (intro keeps_with_state keeps_bind) (auto intro!: keeps_modify keeps_stop simp: untouched_def)

lemma delete_source_untouched:
  "j \<noteq> k \<Longrightarrow> keeps (untouched k obj) (delete_source j :: unit engine_act)"
proof (cases "validated_key j")
  case (Inr i)
  assume "j \<noteq> k"
  moreover have "delete_source j = (translating storage_failed (storage_remove j) :: unit engine_act)"
    using validated_key_Inr [OF Inr] Inr by (simp add: delete_source_def call_def bind_def ret_def)
  ultimately show ?thesis by (simp add: translating_keeps storage_remove_untouched)
next
  case (Inl e)
  then have "delete_source j = (raise e :: unit engine_act)"
    by (simp add: delete_source_def call_def bind_def stop_def)
  then show ?thesis by (simp add: keeps_stop)
qed

lemma compensate_untouched: "keeps (untouched k obj) compensate"
  unfolding keeps_def
proof (intro allI impI)
  fix s assume s: "untouched k obj s"
  have "pub_object_key p \<noteq> k" if "l_published s = Some p" "pub_created_by_attempt p" for p
    using s that by (simp add: untouched_def)
  moreover have "keeps (untouched k obj) (try_except (bind (delete_source j) (\<lambda>_. ret False))
      (\<lambda>e. if is_exception e then ret True else raise e) :: bool engine_act)" if "j \<noteq> k" for j
    using that by (auto intro!: keeps_try_except keeps_bind delete_source_untouched keeps_ret keeps_stop)
  ultimately show "wp compensate (\<lambda>_. untouched k obj) s"
    using s unfolding compensate_def keeps_def
    by (simp add: wp_with_state wp_ret split: option.split)
qed

lemma acquire_failed_untouched: "keeps (untouched k obj) (acquire_failed run e)"
  unfolding acquire_failed_def
  by (auto intro!: keeps_bind compensate_untouched keeps_stop untouched_alone [OF bucket.rec_modify]
      untouched_alone [OF bucket.rec_record_acquire_failure])

lemma acquire_untouched: "keeps (untouched k obj) (acquire cfg run dl)"
proof -
  have start: "keeps (untouched k obj) (modify (\<lambda>s. s\<lparr>l_published := None, l_stage := ''download'',
      l_download_attempted := False, l_db_committed := False\<rparr>))"
    by (rule keeps_modify) (simp add: untouched_def)
  show ?thesis
    unfolding acquire_def
    by (intro keeps_bind keeps_with_state keeps_call start keeps_finally_do keeps_try_except
        acquire_body_untouched acquire_failed_untouched keeps_attempt untouched_alone bucket.rec_files)
qed

lemma collect_untouched: "keeps (untouched k obj) (collect cfg)"
proof -
  have take: "keeps (untouched k obj) (take_candidate cfg run dl owned)" for run dl owned
    unfolding take_candidate_def
    by (intro keeps_bind keeps_with_state untouched_alone [OF bucket.rec_db(2)])
      (simp add: acquire_untouched untouched_alone [OF bucket.rec_commit_known] keeps_bind
        untouched_alone [OF bucket.rec_event] untouched_alone [OF bucket.rec_modify] split: option.split)
  have move: "keeps (untouched k obj) (move_to cfg c)" for c
    unfolding move_to_def record_event_def
    by (auto intro!: keeps_bind keeps_branch keeps_modify keeps_ret untouched_alone [OF bucket.rec_break(1)]
        simp: untouched_def)
  note alone = untouched_alone [OF bucket.rec_before_transition] untouched_alone [OF bucket.rec_feed(4)]
    untouched_alone [OF bucket.rec_valid_candidate] untouched_alone [OF bucket.rec_break(1)]
    untouched_alone [OF bucket.rec_clock(2)] untouched_alone [OF bucket.rec_observe]
    untouched_alone [OF bucket.rec_check_target]
  have "keeps (untouched k obj) (next_reel cfg run dl)" for run dl
    unfolding next_reel_def
    by (intro keeps_bind) (auto intro!: keeps_bind keeps_with_state keeps_modify move alone
        simp: untouched_def split: option.splits)
  then have round: "keeps (untouched k obj) (loop_round cfg run dl)" for run dl
    unfolding loop_round_def block.simps by (intro keeps_bind take alone keeps_ret)
  have body: "keeps (untouched k obj) (collect_body cfg run dl)" for run dl
    unfolding collect_body_def
    by (intro keeps_bind keeps_while_true round untouched_alone rec_rules) simp_all
  have reset: "keeps (untouched k obj) reset_locals"
    unfolding reset_locals_def by (rule keeps_modify) (simp add: untouched_def)
  show ?thesis
    by (rule keeps_collect [OF _ _ reset body]) (intro untouched_alone rec_rules)+
qed

end
