(* ===== verification/NormalizerRun.thy ===== *)
theory NormalizerRun
  imports NormalizerSafety RunLedger
begin

text \<open>
  A run of the worker that nothing disturbs: no call fails and nobody cancels. Each operation is
  computed, and their composition is the path from a claimed job to a published video.
\<close>

section \<open>Undisturbed operations\<close>


lemma calm_rules:
  "w_faults s = [] \<Longrightarrow> may_fail e a s = a s"
  "w_cancel s = [] \<Longrightarrow> cancel_is_set s = (Inr False, s)"
  by (cases s; simp add: may_fail_def cancel_is_set_def act_defs pop_def)+

lemma calm_raise: "w_cancel s = [] \<Longrightarrow> raise_if_cancelled s = (Inr (), s)"
  by (simp add: raise_if_cancelled_def bind_def calm_rules ret_def)

lemma calm_db: "w_faults s = [] \<Longrightarrow> f (w_db s) = (Inr x, d) \<Longrightarrow> db_call f s = (Inr x, s\<lparr>w_db := d\<rparr>)"
  by (simp add: db_call_def calm_rules act_defs)

lemma calm_source:
  assumes "w_faults s = []" "store_get (w_store s) (cj_source_object_key c) = Some obj"
    "cj_source_byte_size c = int (length (obj_content obj))"
    "cj_source_sha256 c = t_sha256 tools (obj_content obj)"
    "t_probe tools (obj_content obj) = Inr p"
  shows "download_and_verify_source tools c s = (Inr (obj_content obj), s)"
  using assms by (simp add: download_and_verify_source_def bind_def storage_stat_def storage_download_file_def
      calm_rules with_state_def ret_def hash_file_def probe_media_def call_def Let_def)

lemma calm_normalize:
  assumes "w_faults s = []" "t_probe tools src = Inr p" "t_decode tools src"
    "select_normalization_strategy p = Inr st"
    "out = (if st = PASSTHROUGH then src else nrm)" "st \<noteq> PASSTHROUGH \<longrightarrow> t_normalize tools st src = Some nrm"
    "t_probe tools out = Inr q" "t_decode tools out" "is_canonical_media q" "out \<noteq> []"
  shows "normalize_to_output tools src s =
    (Inr \<lparr>nm_output = out, nm_strategy = st, nm_original_probe = p, nm_probe = q\<rparr>, s)"
  using assms by (simp add: normalize_to_output_def bind_def 
      calm_rules  ret_def probe_media_def validate_decode_def run_normalization_def call_def require_def split: if_splits)

lemma calm_verify:
  assumes "w_faults s = []" "store_get (w_store s) key = Some obj" "obj_content obj = out"
    "t_probe tools out = Inr q" "t_decode tools out" "is_worker_canonical q"
  shows "verify_final tools key (t_sha256 tools out) (int (length out)) s = (Inr (), s)"
  using assms by (simp add: verify_final_def bind_def storage_download_file_def calm_rules with_state_def
      ret_def hash_file_def probe_media_def validate_decode_def call_def)

lemma calm_publish:
  assumes "w_faults s = []" "store_get (w_store s) key = None" "store_get (w_store s) staging = Some obj"
     "obj_content obj = out"
    "t_probe tools out = Inr q" "t_decode tools out" "is_worker_canonical q"
  shows "publish_final tools staging key out s = (Inr True, s\<lparr>w_store := store_put key obj (w_store s)\<rparr>)"
proof -
  let ?s = "s\<lparr>w_store := store_put key obj (w_store s)\<rparr>"
  have "verify_final tools key (t_sha256 tools out) (int (length out)) ?s = (Inr (), ?s)"
    by (rule calm_verify) (use assms in auto)
  then show ?thesis using assms(1-3)
    by (simp add: publish_final_def bind_def storage_stat_def storage_copy_def calm_rules with_state_def
      ret_def stop_def hash_file_def try_except_def modify_def)
qed

section \<open>Cleaning up undisturbed\<close>

lemma constraints_flag:
  assumes "constraints_ok d"
  shows "constraints_ok (update_reel i (\<lambda>r. r\<lparr>reel_cleanup_pending := b\<rparr>) d)"
proof -
  let ?f = "\<lambda>r. r\<lparr>reel_cleanup_pending := b\<rparr>"
  let ?rs = "update_rows reel_id i ?f (reels d)"
  have maps: "map g ?rs = map g (reels d)" if "\<And>r. g (?f r) = g r" for g :: "reel \<Rightarrow> 'k"
    using that by (simp add: map_update_rows)
  have sets: "g ` set ?rs = g ` set (reels d)" if "\<And>r. g (?f r) = g r" for g :: "reel \<Rightarrow> 'k"
    using maps [of g] that by (metis set_map)
  have ok: "list_all reel_ok ?rs" "list_all reel_fits ?rs"
    using assms all_update_rows [of "reels d" reel_ok reel_id i ?f]
      all_update_rows [of "reels d" reel_fits reel_id i ?f]
    by (simp_all add: constraints_ok_def rows_ok_def widths_ok_def list_all_iff reel_ok_def reel_fits_def)
  have ids: "reel_id ` set ?rs = reel_id ` set (reels d)" by (rule sets) simp
  have vids: "\<forall>r \<in> set ?rs. opt_all (\<lambda>v. v \<in> vid_id ` set (videos d)) (reel_video_id r)"
    using assms by (intro all_update_rows) (simp_all add: constraints_ok_def references_ok_def)
  have u: "unique_col reel_id ?rs" "unique_col reel_shortcode ?rs" "unique_col reel_canonical_url ?rs"
    "unique_nullable reel_source_object_key ?rs" "unique_nullable reel_video_id ?rs"
    using assms unique_nullable_update [of reel_id i reel_source_object_key ?f "reels d"]
      unique_nullable_update [of reel_id i reel_video_id ?f "reels d"]
    by (simp_all add: constraints_ok_def uniques_ok_def unique_col_def maps)
  have "update_reel i ?f d = d\<lparr>reels := ?rs\<rparr>" by (simp add: update_reel_def)
  moreover have "widths_ok (d\<lparr>reels := ?rs\<rparr>)" "rows_ok (d\<lparr>reels := ?rs\<rparr>)"
    using assms ok by (simp_all add: constraints_ok_def widths_ok_def rows_ok_def)
  moreover have "references_ok (d\<lparr>reels := ?rs\<rparr>)"
    using assms vids ids by (simp add: constraints_ok_def references_ok_def)
  moreover have "uniques_ok (d\<lparr>reels := ?rs\<rparr>)"
    using assms u by (simp add: constraints_ok_def uniques_ok_def)
  ultimately show ?thesis by (simp add: constraints_ok_def)
qed

lemma calm_cleanup_source:
  assumes "w_faults s = []" "constraints_ok (w_db s)"
    "get_reel (w_db s) (cj_reel_id c) = Some r" "reel_status r = ReelPipelineStatus.READY"
  shows "cleanup_source_after_commit c s =
    (Inr (), s\<lparr>w_store := store_remove (cj_source_object_key c) (w_store s),
               w_db := update_reel (cj_reel_id c) (\<lambda>r. r\<lparr>reel_cleanup_pending := False\<rparr>) (w_db s)\<rparr>)"
proof -
  have "source_removed_tx (cj_reel_id c) (w_db s) =
      (Inr (), update_reel (cj_reel_id c) (\<lambda>r. r\<lparr>reel_cleanup_pending := False\<rparr>) (w_db s))"
    using assms(2,3,4) constraints_flag by (simp add: source_removed_tx_def transaction_def)
  then show ?thesis
    using assms(1) by (simp add: cleanup_source_after_commit_def remove_quietly_def storage_remove_def
        bind_def try_except_def calm_rules modify_def ret_def calm_db)
qed

lemma calm_remove_all:
  "w_faults s = [] \<Longrightarrow>
   for_each storage_remove ks s = (Inr (), s\<lparr>w_store := fold store_remove ks (w_store s)\<rparr>)"
  by (induction ks arbitrary: s) (simp_all add: ret_def bind_def storage_remove_def calm_rules modify_def)

lemma store_get_fold_remove:
  "store_get (fold store_remove ks st) k = (if k \<in> set ks then None else store_get st k)"
  by (induction ks arbitrary: st) auto

lemma store_get_absent: "k \<notin> fst ` set st \<Longrightarrow> store_get st k = None"
  by (simp add: store_get_def map_of_eq_None_iff)

definition without_prefix :: "string \<Rightarrow> store \<Rightarrow> store" where
  "without_prefix pre st = fold store_remove (filter (\<lambda>k. startswith k pre) (map fst st)) st"

lemma store_get_without [simp]:
  "store_get (without_prefix pre st) k = (if startswith k pre then None else store_get st k)"
  by (auto simp: without_prefix_def store_get_fold_remove intro!: store_get_absent [symmetric])
    (force intro: store_get_absent)

lemma calm_cleanup_staging:
  "w_faults s = [] \<Longrightarrow>
   cleanup_staging p s = (Inr (), s\<lparr>w_store := without_prefix (p @ ''/'') (w_store s)\<rparr>)"
  by (simp add: cleanup_staging_def attempt_def try_except_def storage_list_prefix_def bind_def
      with_state_def ret_def calm_rules calm_remove_all without_prefix_def)

section \<open>The run\<close>

lemma calm_commit:
  assumes "w_faults s = []"
    "commit_ready_tx tools worker c key sha n strategy codec probe (pop 0 (w_uuids s))
       (pop 0 (w_clock s)) (w_db s) = (Inr (), d)"
  shows "commit_ready tools worker c key sha n strategy codec probe s =
    (Inr (), s\<lparr>w_clock := tl (w_clock s), w_uuids := tl (w_uuids s), w_db := d\<rparr>)"
  using assms by (simp add: commit_ready_def bind_def datetime_now_def uuid4_def with_state_def
      modify_def ret_def calm_db)

lemma calm_claim:
  assumes "w_faults s = []" "w_cancel s = []"
    "claim_tx worker lease (pop 0 (w_clock s)) (w_db s) = (Inr x, d)"
  shows "claim worker lease s = (Inr x, s\<lparr>w_clock := tl (w_clock s), w_db := d\<rparr>)"
  using assms by (simp add: claim_def bind_def calm_raise datetime_now_def with_state_def modify_def
      ret_def calm_db)

text \<open>The media tools accept the source and what they make of it.\<close>

definition accepted :: "tools \<Rightarrow> string \<Rightarrow> NormalizationStrategy \<Rightarrow> media_probe \<Rightarrow> string \<Rightarrow> media_probe \<Rightarrow> bool" where
  "accepted tools src st p out q \<longleftrightarrow>
     t_probe tools src = Inr p \<and> t_decode tools src \<and> select_normalization_strategy p = Inr st \<and>
     (if st = PASSTHROUGH then out = src else t_normalize tools st src = Some out) \<and>
     t_probe tools out = Inr q \<and> t_decode tools out \<and> is_worker_canonical q \<and> out \<noteq> []"

lemma calm_process:
  fixes s :: world
  assumes calm: "w_faults s = []" "w_cancel s = []"
    and src: "store_get (w_store s) (cj_source_object_key c) = Some obj"
      "cj_source_byte_size c = int (length (obj_content obj))"
      "cj_source_sha256 c = t_sha256 tools (obj_content obj)"
    and media: "accepted tools (obj_content obj) st p out q"
    and key: "key = final_object_key (t_sha256 tools out)" "store_get (w_store s) key = None"
      "key \<noteq> cj_staging_prefix c @ ''/canonical.mp4''"
    and tx: "commit_ready_tx tools worker c key (t_sha256 tools out) (int (length out))
        (strategy_value st) (video_codec p) q (pop 0 (w_uuids s)) (pop 0 (w_clock s)) (w_db s)
        = (Inr (), d)"
    and row: "constraints_ok d" "get_reel d (cj_reel_id c) = Some r"
      "reel_status r = ReelPipelineStatus.READY"
  shows "process tools worker c s =
    (Inr (), s\<lparr>w_clock := tl (w_clock s), w_uuids := tl (w_uuids s),
       w_db := update_reel (cj_reel_id c) (\<lambda>r. r\<lparr>reel_cleanup_pending := False\<rparr>) d,
       w_store := store_remove (cj_source_object_key c)
         (store_put key \<lparr>obj_content = out, obj_content_type = ''video/mp4''\<rparr>
           (store_put (cj_staging_prefix c @ ''/canonical.mp4'')
             \<lparr>obj_content = out, obj_content_type = ''video/mp4''\<rparr> (w_store s))),
       w_events := w_events s @ [(''source_verified'', None), (strategy_value st, None),
         (''normalized'', None), (''final_published'', None), (''db_committed'', None),
         (''completed'', None)]\<rparr>)"
proof -
  let ?obj = "\<lparr>obj_content = out, obj_content_type = ''video/mp4''\<rparr>"
  note acc = media [unfolded accepted_def]
  have canon: "is_canonical_media q" using acc by (simp add: is_worker_canonical_def)
  have down: "download_and_verify_source tools c t = (Inr (obj_content obj), t)"
    if "w_faults t = []" "w_store t = w_store s" for t
    by (rule calm_source) (use that src acc in auto)
  have norm: "normalize_to_output tools (obj_content obj) t =
     (Inr \<lparr>nm_output = out, nm_strategy = st, nm_original_probe = p, nm_probe = q\<rparr>, t)"
    if "w_faults t = []" for t
    by (rule calm_normalize [where nrm = out]) (use that acc canon in \<open>auto split: if_splits\<close>)
  have up: "storage_upload_file k out ct t =
      (Inr (), t\<lparr>w_store := store_put k \<lparr>obj_content = out, obj_content_type = ct\<rparr> (w_store t)\<rparr>)"
    if "w_faults t = []" for t :: world and k ct
    using that by (simp add: storage_upload_file_def calm_rules modify_def)
  have publish: "publish_final tools (cj_staging_prefix c @ ''/canonical.mp4'') key out t =
      (Inr True, t\<lparr>w_store := store_put key ?obj (w_store t)\<rparr>)"
    if "w_faults t = []" "w_store t = store_put (cj_staging_prefix c @ ''/canonical.mp4'') ?obj (w_store s)"
    for t
    by (rule calm_publish [where q = q]) (use that acc key(2,3) in auto)
  have commit: "commit_ready tools worker c key (t_sha256 tools out) (int (length out))
      (strategy_value st) (video_codec p) q t =
      (Inr (), t\<lparr>w_clock := tl (w_clock t), w_uuids := tl (w_uuids t), w_db := d\<rparr>)"
    if "w_faults t = []" "w_uuids t = w_uuids s" "w_clock t = w_clock s" "w_db t = w_db s" for t
    by (rule calm_commit) (use that tx in auto)
  have clean: "cleanup_source_after_commit c t =
    (Inr (), t\<lparr>w_store := store_remove (cj_source_object_key c) (w_store t),
               w_db := update_reel (cj_reel_id c) (\<lambda>r. r\<lparr>reel_cleanup_pending := False\<rparr>) d\<rparr>)"
    if "w_faults t = []" "w_db t = d" for t
    using calm_cleanup_source [of t c r] that row by simp
  show ?thesis
    unfolding process_def
    by (simp add: bind_def calm calm_raise down emit_def modify_def norm acc hash_file_def up
        key(1) [symmetric] publish commit try_except_def clean Let_def)
qed


text \<open>A world with one waiting job, and media tools that accept everything.\<close>

definition sample_probe :: media_probe where
  "sample_probe = \<lparr>video_codec = ''h264'', pixel_format = Some ''yuv420p'',
     audio_codecs = [''aac''], duration_seconds = Some 5, width = Some 640, height = Some 480,
     video_profile = None, video_level = None, container_formats = [''mp4'']\<rparr>"

definition sample_tools :: tools where
  "sample_tools = \<lparr>t_probe = (\<lambda>_. Inr sample_probe), t_decode = (\<lambda>_. True),
     t_normalize = (\<lambda>_ c. Some c), t_sha256 = (\<lambda>c. replicate 63 (CHR ''a'') @ take 1 c),
     t_milliseconds = (\<lambda>_. 5000)\<rparr>"

definition waiting_db :: db where
  "waiting_db = empty_db\<lparr>accounts := [new_account 1],
     reels := [(new_reel 21 sample_candidate 1)
       \<lparr>reel_status := ReelPipelineStatus.SOURCE_READY,
        reel_source_object_key := Some ''instagram-sources/Cabc.mp4'',
        reel_source_sha256 := Some (t_sha256 sample_tools ''x''), reel_source_byte_size := Some 1\<rparr>],
     jobs := [new_job 31 21 0 2]\<rparr>"

definition waiting_world :: world where
  "waiting_world = \<lparr>w_db = waiting_db,
     w_store = [(''instagram-sources/Cabc.mp4'', \<lparr>obj_content = ''x'', obj_content_type = ''video/mp4''\<rparr>)],
     w_faults = [], w_cancel = [], w_clock = [10, 11], w_uuids = [41], w_events = []\<rparr>"

definition waiting_claim :: claimed_job where
  "waiting_claim = \<lparr>cj_job_id = 31, cj_reel_id = 21, cj_shortcode = ''Cabc'',
     cj_source_object_key = ''instagram-sources/Cabc.mp4'',
     cj_source_sha256 = t_sha256 sample_tools ''x'', cj_source_byte_size = 1, cj_attempt_count = 1,
     cj_staging_prefix = staging_prefix_of 31 1\<rparr>"

definition waiting_claimed :: db where
  "waiting_claimed = snd (claim_tx ''w'' 1800 10 waiting_db)"

definition waiting_committed :: db where
  "waiting_committed = snd (commit_ready_tx sample_tools ''w'' waiting_claim
     (final_object_key (t_sha256 sample_tools ''x'')) (t_sha256 sample_tools ''x'') 1
     (strategy_value PASSTHROUGH) ''h264'' sample_probe 41 11 waiting_claimed)"


text \<open>
  a cancellation that arrives between the publication of the result and its commit leaves the
  result in the store although no row refers to it: the worker compensates only what fails inside
  \<open>_commit_ready\<close>.
\<close>

theorem cancelled_run_leaves_final_object:
  "\<exists>w'. run_once sample_tools ''w'' 1800
       (waiting_world\<lparr>w_cancel := [False, False, False, False, False, True]\<rparr>) = (Inr True, w') \<and>
     videos (w_db w') = [] \<and>
     store_get (w_store w') (final_object_key (t_sha256 sample_tools ''x'')) \<noteq> None \<and>
     w_events w' = [(''claimed'', None), (''source_verified'', None), (''passthrough'', None),
       (''normalized'', None), (''final_published'', None),
       (''failed'', Some ReasonCode.WORKER_CANCELLED)]"
proof -
  let ?run = "run_once sample_tools ''w'' 1800
       (waiting_world\<lparr>w_cancel := [False, False, False, False, False, True]\<rparr>)"
  have "fst ?run = Inr True" "videos (w_db (snd ?run)) = []"
    "store_get (w_store (snd ?run)) (final_object_key (t_sha256 sample_tools ''x'')) \<noteq> None"
    "w_events (snd ?run) = [(''claimed'', None), (''source_verified'', None), (''passthrough'', None),
       (''normalized'', None), (''final_published'', None),
       (''failed'', Some ReasonCode.WORKER_CANCELLED)]"
    by code_simp+
  then show ?thesis by (metis prod.collapse)
qed

end
