(* ===== verification/NormalizerProps.thy ===== *)
theory NormalizerProps
  imports NormalizerRun
begin

text \<open>
  The properties of the normalizer that hold of every world, whatever fails and whenever
  somebody cancels.
\<close>

lemma waiting_world_inv: "world_inv sample_tools waiting_world"
proof -
  have "constraints_ok waiting_db" "pipeline_ok waiting_db" "keys_ok waiting_db"
    by code_simp+
  moreover have "media_ok sample_tools waiting_db (w_store waiting_world)"
    by (simp add: media_ok_def waiting_db_def waiting_world_def empty_db_def source_stored_def
        store_get_def)
  ultimately show ?thesis by (simp add: world_inv_def durable_inv_def) (simp add: waiting_world_def)
qed

text \<open>
  C15: the database and the object store agree. From a world where the constraints and the
  pipeline hold, where the source of every Reel that waits for normalization or is being
  normalized is stored with the recorded digest and size, and where every video row names a stored
  object that has its digest in its key, its size, and plays, \<open>run_once\<close> and \<open>reconcile\<close> end in
  such a world: on every branch, wherever a call fails and whenever the worker is cancelled. No
  source is removed before its result is published, no published video is ever removed, and no
  video is published that the media tools refuse.
\<close>

theorem worker_keeps_media:
  assumes "world_inv tools w"
  shows "world_inv tools (snd (run_once tools worker lease w)) \<and> world_inv tools (snd (reconcile w))"
proof
  show "world_inv tools (snd (run_once tools worker lease w))"
    using keepsD [OF run_once_keeps assms, of worker lease] by (metis prod.collapse)
  show "world_inv tools (snd (reconcile w))"
    using keepsD [OF reconcile_keeps assms] by (metis prod.collapse)
qed

theorem worker_keeps_media_witness:
  "world_inv sample_tools (snd (run_once sample_tools ''w'' 1800 waiting_world))"
  using worker_keeps_media [OF waiting_world_inv] by blast

section \<open>Claims\<close>

text \<open>
  what \<open>claim\<close> hands out. A claim that returns nothing found no pending job with a Reel that
  waits, and changed nothing: the branch that gives up a job for too many attempts is never taken.
  A claim that returns a job took the oldest pending one, for at most the third attempt, and
  describes the Reel of the job; the job now runs and the Reel is being normalized.
\<close>

theorem claim_serves_oldest:
  assumes "durable_inv d" "claim_tx worker lease now d = (Inr c, d')"
  shows "case c of
      None \<Rightarrow> d' = d \<and> next_job d = None
    | Some claimed \<Rightarrow>
        1 \<le> cj_attempt_count claimed \<and> cj_attempt_count claimed \<le> max_normalization_attempts \<and>
        (\<exists>j r. j \<in> set (jobs d) \<and> r \<in> set (reels d) \<and> job_id j = cj_job_id claimed \<and>
           job_status j = NormalizationJobStatus.PENDING \<and>
           reel_id r = cj_reel_id claimed \<and> job_reel_id j = reel_id r \<and>
           reel_status r = ReelPipelineStatus.SOURCE_READY \<and>
           reel_source_object_key r = Some (cj_source_object_key claimed) \<and>
           (\<forall>k \<in> set (jobs d). job_status k = NormalizationJobStatus.PENDING \<longrightarrow>
              (job_created_at j, job_id j) \<le> (job_created_at k, job_id k)) \<and>
           map_option job_status (get_job d' (job_id j)) = Some NormalizationJobStatus.RUNNING \<and>
           map_option reel_status (get_reel d' (reel_id r)) = Some ReelPipelineStatus.NORMALIZING)"
  using assms
proof (cases rule: claim_tx_InrD)
  case 1
  then show ?thesis by simp
next
  case (2 j r key sha n)
  have oldest: "(job_created_at j, job_id j) \<le> (job_created_at k, job_id k)"
    if k: "k \<in> set (jobs d)" "job_status k = NormalizationJobStatus.PENDING" for k
  proof -
    obtain q where "q \<in> set (reels d)" "reel_id q = job_reel_id k"
      "reel_status q = ReelPipelineStatus.SOURCE_READY"
      using active_job_slot [OF durable_core [OF assms(1)] k(1)] k(2)
      by (auto simp: running_job_ok_def)
    then show ?thesis
      using first_by_min [OF 2(1) [unfolded next_job_def], of "(k, q)"] k by auto
  qed
  have "get_job d' (job_id j) = Some (claimed_job_row worker lease now j)"
    using lookup_update_rows [of job_id "job_id j" "claimed_job_row worker lease now" "job_id j"]
      job_at [OF assms(1) 2(2) refl] 2(12) by simp
  then have job: "map_option job_status (get_job d' (job_id j)) = Some NormalizationJobStatus.RUNNING"
    by simp
  have "get_reel d' (reel_id r) = Some (normalizing_reel r)"
    using lookup_update_rows [of reel_id "reel_id r" normalizing_reel "reel_id r"]
      reel_at [OF assms(1) 2(4) refl] 2(5,11) by simp
  then have reel: "map_option reel_status (get_reel d' (reel_id r)) = Some ReelPipelineStatus.NORMALIZING"
    by simp
  show ?thesis
    unfolding 2(10) option.case
    by (intro conjI exI [of _ j] exI [of _ r] ballI impI)
      (use 2(1-9) oldest job reel in
        \<open>simp_all add: claimed_of_def pending_job_ok_def max_normalization_attempts_def\<close>)
qed

lemma waiting_db_inv: "durable_inv waiting_db"
  using waiting_world_inv by (simp add: world_inv_def) (simp add: waiting_world_def)

lemma waiting_claimed_eq: "claim_tx ''w'' 1800 10 waiting_db = (Inr (Some waiting_claim), waiting_claimed)"
  by code_simp

theorem claim_serves_oldest_witness:
  "claim_tx ''w'' 1800 10 waiting_db = (Inr (Some waiting_claim), waiting_claimed) \<and>
   cj_attempt_count waiting_claim \<le> max_normalization_attempts"
  using claim_serves_oldest [OF waiting_db_inv waiting_claimed_eq] waiting_claimed_eq by simp

section \<open>A Reel is tried three times at most\<close>

text \<open>
  What is left of the attempts of a Reel: two steps for each attempt that is still allowed, one of
  them for the attempt that runs.
\<close>

definition attempts_left :: "db \<Rightarrow> uuid \<Rightarrow> nat" where
  "attempts_left d i =
     (case active_jobs d i of
        [j] \<Rightarrow> nat (2 * (max_normalization_attempts - job_attempt_count j) +
                 (if job_status j = NormalizationJobStatus.RUNNING then 1 else 0))
      | _ \<Rightarrow> 0)"

lemma attempts_left_bound:
  assumes "durable_inv d" shows "attempts_left d i \<le> 6"
proof (cases "active_jobs d i")
  case (Cons j js)
  show ?thesis
  proof (cases js)
    case Nil
    with Cons have one: "active_jobs d i = [j]" by simp
    note mem = active_jobs_mem [OF one]
    from active_job_slot [OF durable_core [OF assms], of j] mem
    show ?thesis
      by (auto simp: attempts_left_def one pending_job_ok_def running_job_ok_def
          max_normalization_attempts_def)
  qed (simp add: attempts_left_def Cons)
qed (simp add: attempts_left_def)

lemma ended_attempts:
  assumes inv: "durable_inv d" and j: "j \<in> set (jobs d)" "job_status j = NormalizationJobStatus.RUNNING"
    and ended: "attempt_ended j f reason now again fresh d d'"
    and again: "again \<longrightarrow> job_attempt_count j < max_normalization_attempts"
  shows "attempts_left d' (job_reel_id j) < attempts_left d (job_reel_id j)"
proof -
  have act: "job_active j" using j(2) by simp
  have one: "active_jobs d (job_reel_id j) = [j]" "running_job_ok j"
    using active_job_slot [OF durable_core [OF inv] j(1) act] j(2) by (auto simp: pending_job_ok_def)
  have "active_jobs (update_job (job_id j) (fail_job reason now) d) (job_reel_id j) = []"
    using active_jobs_update [OF durable_invD(5) [OF inv] one(1), of "fail_job reason now"] by simp
  then have "active_jobs d' (job_reel_id j) =
      (if again then [new_job fresh (job_reel_id j) (job_attempt_count j) now] else [])"
    using ended by (simp add: attempt_ended_def active_jobs_def update_job_def)
  then show ?thesis
    using one j(2) again
    by (auto simp: attempts_left_def running_job_ok_def max_normalization_attempts_def)
qed


definition waiting_failed :: db where
  "waiting_failed = snd (finish_failure_tx ''w'' waiting_claim ReasonCode.MINIO_TRANSIENT_FAILURE
     True 99 20 waiting_claimed)"

lemma waiting_failed_eq:
  "finish_failure_tx ''w'' waiting_claim ReasonCode.MINIO_TRANSIENT_FAILURE True 99 20
     waiting_claimed = (Inr (), waiting_failed)"
  by code_simp


end
