(* ===== verification/EngineProps.thy ===== *)
theory EngineProps
  imports EngineTrace NormalizerProps
begin

text \<open>
  The properties of a Collector run, and a run of the model from an empty bucket to a committed
  source.
\<close>

section \<open>A sample run\<close>

definition cafe_url :: string where
  "cafe_url = built_url ''CAFE1''"

definition collect_limits :: limits where
  "collect_limits = \<lparr>max_target = 5, max_advances = 10, max_transition_operations = None,
     max_scroll_actions = None, max_run_bytes = None, cooldown_seconds = 0, deadline_seconds = None,
     max_observations = None\<rparr>"

definition collect_one :: engine_config where
  "collect_one = \<lparr>ec_tools = sample_tools,
     ec_storage = \<lparr>sc_workspace_root = [''srv''], sc_maximum_bytes = 1000\<rparr>,
     ec_limits = collect_limits, ec_authenticated_feed = True, ec_account_id = 7,
     ec_trigger = CollectionTrigger.MANUAL, ec_target_count = 1, ec_desired_account_total = None,
     ec_claimed_run_id = Some 11\<rparr>"

definition collect_db :: db where
  "collect_db = empty_db\<lparr>accounts := [(new_account 7)\<lparr>acc_status := AccountStatus.CONNECTED\<rparr>],
     runs := [new_run 11 7 CollectionTrigger.MANUAL CollectionRunStatus.RUNNING 1 (Some 5) 5]\<rparr>"

definition collect_world :: engine where
  "collect_world = \<lparr>w_db = collect_db, w_store = [], w_faults = [], w_cancel = [],
     w_clock = [10, 20, 30], w_uuids = [21, 31], w_events = [], c_files = [],
     c_feed = [Inr (Some \<lparr>shortcode = ''CAFE1'', canonical_url = cafe_url\<rparr>), Inr None, Inr None],
     c_downloads = [(Some ''movie'', None)], c_monotonic = [], c_recorded = [],
     l_confirmed_advances = 0, l_transition_operations = 0, l_scroll_actions = 0,
     l_committed_bytes = 0, l_seen = [], l_duplicate_skipped_count = 0, l_observations = 0,
     l_reason = None, l_position = 1, l_candidate = \<lparr>shortcode = [], canonical_url = []\<rparr>,
     l_published = None, l_stage = [], l_download_attempted = False, l_db_committed = False\<rparr>"

text \<open>A feed of two Reels and a target of two; and a feed that is interrupted when it is closed.\<close>

definition collect_two :: engine_config where
  "collect_two = collect_one\<lparr>ec_target_count := 2\<rparr>"

definition collect_two_world :: engine where
  "collect_two_world = collect_world\<lparr>w_clock := [10, 20, 30, 40, 50], w_uuids := [21, 31, 22, 32],
     c_feed := [Inr (Some \<lparr>shortcode = ''CAFE1'', canonical_url = cafe_url\<rparr>), Inr None,
       Inr (Some \<lparr>shortcode = ''CAFE2'', canonical_url = built_url ''CAFE2''\<rparr>), Inr None, Inr None],
     c_downloads := [(Some ''movie'', None), (Some ''other'', None)]\<rparr>"

definition interrupted_world :: engine where
  "interrupted_world = collect_world\<lparr>c_feed := [Inr (Some \<lparr>shortcode = ''CAFE1'', canonical_url = cafe_url\<rparr>),
     Inr None, Inl exn.KeyboardInterrupt]\<rparr>"

definition sample_object :: stored_object where
  "sample_object = \<lparr>obj_content = ''foreign'', obj_content_type = ''video/mp4''\<rparr>"

definition collected :: "(collector_summary signal + collector_summary) \<times> engine" where
  "collected = collect collect_one collect_world"

section \<open>Properties\<close>

text \<open>
  C10: A Collector run keeps the agreement of database and bucket, on every branch and wherever a
  database, storage, download or feed call fails: every Reel and video row that names an object
  still finds an object with the recorded digest and size after the run.
\<close>

theorem collector_keeps_media:
  assumes "world_inv (ec_tools cfg) s"
  shows "world_inv (ec_tools cfg) (snd (collect cfg s))"
  using keepsD [OF safe_collect [OF HOL.refl] assms] by (metis prod.collapse)

theorem collector_keeps_media_witness:
  "world_inv sample_tools (snd (collect collect_one collect_world))"
proof -
  have "constraints_ok collect_db" "pipeline_ok collect_db" "keys_ok collect_db" by code_simp+
  moreover have "media_ok sample_tools collect_db (w_store collect_world)"
    by (simp add: media_ok_def collect_db_def empty_db_def)
  ultimately have "world_inv sample_tools collect_world"
    by (simp add: world_inv_def durable_inv_def) (simp add: collect_world_def)
  then show ?thesis using collector_keeps_media [of collect_one collect_world]
    by (simp add: collect_one_def)
qed

text \<open>
  C11: The engine's loop always ends: from any state, whatever the feed, the downloads, the clock
  and the failures are, \<open>collect\<close> returns a summary or lets an exception out. A summary is true:
  one that says completed has no stop reason and its run's row is COMPLETED with at least the
  target committed; any other names a stop reason.
\<close>

theorem collect_ends:
  "case collect cfg s of
     (Inr summary, t) \<Rightarrow> summary_ok cfg summary (w_db t)
   | (Inl (Raise e), t) \<Rightarrow> True
   | (Inl _, t) \<Rightarrow> False"
  using collect_outcome [where allowed = "\<lambda>_. True" and cfg = cfg and s = s]
  by (simp add: wp_def collect_ok_def split: prod.splits sum.splits signal.splits)

text \<open>
  C12: With a claimed run and arguments inside their limits, \<open>collect\<close> answers every failure with
  a summary: no exception of the database, the storage, the downloader or the feed reaches the
  caller, who sees only an interrupt raised while the feed is closed.
\<close>

theorem collect_contains_failures:
  assumes "ec_claimed_run_id cfg = Some run" "arguments_ok cfg" "fst (collect cfg s) = Inl g"
  shows "g = Raise exn.KeyboardInterrupt"
  using assms collect_outcome [where allowed = "\<lambda>e. e = exn.KeyboardInterrupt" and cfg = cfg and s = s]
  by (auto simp: wp_def collect_ok_def split: prod.splits sum.splits signal.splits)

theorem collect_contains_failures_witness:
  "fst (collect collect_one interrupted_world) = Inl (Raise exn.KeyboardInterrupt)"
proof -
  have "isl (fst (collect collect_one interrupted_world))" by code_simp
  then obtain g where g: "fst (collect collect_one interrupted_world) = Inl g" by (auto simp: isl_def)
  have ok: "ec_claimed_run_id collect_one = Some 11" "arguments_ok collect_one" by code_simp+
  from g collect_contains_failures [OF ok g] show ?thesis by simp
qed



text \<open>
  C14: An object that was in the bucket before a run is there after it with the same content: the
  run overwrites nothing, and compensation deletes only what the run itself created.
\<close>

theorem collect_leaves_objects:
  assumes "store_get (w_store s) key = Some obj" "l_published s = None"
  shows "store_get (w_store (snd (collect cfg s))) key = Some obj"
proof -
  have "untouched key obj s" using assms by (simp add: untouched_def)
  then have "untouched key obj (snd (collect cfg s))"
    using keepsD [OF collect_untouched] by (metis prod.collapse)
  then show ?thesis by (simp add: untouched_def)
qed

theorem collect_leaves_objects_witness:
  "store_get (w_store (snd (collect collect_one
     (collect_world\<lparr>w_store := [(''instagram-sources/CAFE1.mp4'', sample_object)]\<rparr>))))
   ''instagram-sources/CAFE1.mp4'' = Some sample_object"
  by (rule collect_leaves_objects) (simp_all add: collect_world_def store_get_def)

end
