(* ===== verification/LoginSessions.thy ===== *)
theory LoginSessions
  imports Persistence Lifecycle
begin

text \<open>
  \<open>apps/api/app/instagram/login_sessions.py\<close>: the state machine of a remote login session. Each
  operation is one transaction. \<open>now k\<close> is the \<open>k\<close>-th reading of the clock in the call, \<open>sha\<close> is
  \<open>hash_launch_token\<close>, \<open>token\<close> and \<open>fresh\<close> are what \<open>secrets.token_urlsafe\<close> and \<open>uuid4\<close> choose.
\<close>

type_synonym clock = "nat \<Rightarrow> timestamp"

definition default_login_ttl :: timedelta where
  "default_login_ttl = minutes 15"

record created_login_session =
  cl_session_id :: uuid
  cl_account_id :: uuid
  cl_expires_at :: timestamp
  cl_launch_token :: string

definition login_error :: "string \<Rightarrow> 'a result" where
  "login_error m = Inl (LoginSessionError m)"

lemma login_error_neq [simp]:
  "login_error m \<noteq> Inr x" "Inr x \<noteq> login_error m"
  "login_error m = Inl e \<longleftrightarrow> e = LoginSessionError m"
  by (auto simp: login_error_def)

section \<open>Operations\<close>

definition restore_account :: "login_session \<Rightarrow> db \<Rightarrow> db result" where
  "restore_account item d =
     rbind (require AssertionError (get_account d (ls_account_id item))) (\<lambda>account.
     let target = ls_prior_account_status item in
     rbind (if acc_status account \<noteq> target
            then require_transition account_transitions (acc_status account) target
            else Inr ()) (\<lambda>_.
     Inr (update_account (ls_account_id item)
            (\<lambda>a. a\<lparr>acc_status := target, acc_reason_code := ls_reason_code item\<rparr>) d)))"

text \<open>The session after the call, and the database.\<close>

definition expire_locked :: "clock \<Rightarrow> login_session \<Rightarrow> db \<Rightarrow> (login_session \<times> db) result" where
  "expire_locked now item d =
     (if session_open item \<and> ls_expires_at item \<le> now 0 then
        let item' = item\<lparr>ls_status := LoginSessionStatus.EXPIRED,
              ls_reason_code := Some (reason_value ReasonCode.LOGIN_EXPIRED),
              ls_closed_at := Some (now 1)\<rparr>
        in rbind (restore_account item' (update_login (ls_id item) (\<lambda>_. item') d))
             (\<lambda>d. Inr (item', d))
      else Inr (item, d))"

fun expire_each :: "clock \<Rightarrow> login_session list \<Rightarrow> db \<Rightarrow> (login_session list \<times> db) result" where
  "expire_each now [] d = Inr ([], d)"
| "expire_each now (item # items) d =
     rbind (expire_locked now item d) (\<lambda>(item, d).
     rbind (expire_each (\<lambda>k. now (k + 2)) items d) (\<lambda>(items, d).
     Inr (item # items, d)))"

definition create_in_transaction :: "(string \<Rightarrow> string) \<Rightarrow> uuid \<Rightarrow> timedelta \<Rightarrow> bool \<Rightarrow> string \<Rightarrow> uuid \<Rightarrow>
    clock \<Rightarrow> db \<Rightarrow> (created_login_session \<times> db) result" where
  "create_in_transaction sha account_id ttl allow_connected_profile_check token fresh now d =
     (if ttl \<le> 0 \<or> ttl > default_login_ttl then login_error ''Invalid login-session lifetime.''
      else
        rbind (expire_each (\<lambda>k. now (k + 1))
                 (filter (\<lambda>s. ls_account_id s = account_id \<and> session_open s) (login_sessions d)) d)
          (\<lambda>(active_sessions, d).
        if list_ex session_open active_sessions
        then login_error ''An active login session already exists.''
        else
          let d1 = (case get_account d account_id of
                      None \<Rightarrow> d\<lparr>accounts := accounts d @ [new_account account_id]\<rparr>
                    | Some _ \<Rightarrow> d);
              prior = account_status account_id d;
              allowed = [AccountStatus.DISCONNECTED, AccountStatus.REAUTH_REQUIRED] @
                (if allow_connected_profile_check then [AccountStatus.CONNECTED] else [])
          in if prior \<notin> set allowed
             then login_error ''Account cannot start a login session now.''
             else
               rbind (if prior \<noteq> AccountStatus.CONNECTED
                      then rbind (require_transition account_transitions prior
                                    AccountStatus.CONNECTING)
                             (\<lambda>_. Inr (update_account account_id
                                (\<lambda>a. a\<lparr>acc_status := AccountStatus.CONNECTING\<rparr>) d1))
                      else Inr d1) (\<lambda>d2.
               Inr (\<lparr>cl_session_id = fresh, cl_account_id = account_id,
                      cl_expires_at = now 0 + ttl, cl_launch_token = token\<rparr>,
                    d2\<lparr>login_sessions := login_sessions d2 @
                      [\<lparr>ls_id = fresh, ls_account_id = account_id,
                        ls_status = LoginSessionStatus.PENDING, ls_prior_account_status = prior,
                        ls_launch_token_hash = sha token, ls_reason_code = None,
                        ls_expires_at = now 0 + ttl, ls_consumed_at = None,
                        ls_claimed_at = None, ls_closed_at = None\<rparr>]\<rparr>))))"

definition create_login :: "(string \<Rightarrow> string) \<Rightarrow> uuid \<Rightarrow> timedelta \<Rightarrow> bool \<Rightarrow> string \<Rightarrow> uuid \<Rightarrow>
    clock \<Rightarrow> db \<Rightarrow> created_login_session result \<times> db" where
  "create_login sha account_id ttl allow token fresh now d =
     (case transaction (create_in_transaction sha account_id ttl allow token fresh now) d of
        (Inl e, d') \<Rightarrow>
          (if e = IntegrityError then login_error ''An active login session already exists.''
           else Inl e, d')
      | r \<Rightarrow> r)"

definition activate :: "(string \<Rightarrow> string) \<Rightarrow> uuid \<Rightarrow> string \<Rightarrow> clock \<Rightarrow>
    db \<Rightarrow> LoginSessionStatus result \<times> db" where
  "activate sha session_id token now = transaction (\<lambda>d.
     (case get_login d session_id of
        None \<Rightarrow> login_error ''Login link is unavailable.''
      | Some item \<Rightarrow>
          if ls_launch_token_hash item \<noteq> sha token
          then login_error ''Login link is unavailable.''
          else
            rbind (expire_locked now item d) (\<lambda>(item, d).
            if ls_status item \<noteq> LoginSessionStatus.PENDING
            then login_error ''Login link is unavailable.''
            else Inr (LoginSessionStatus.ACTIVE,
              update_login session_id
                (\<lambda>s. s\<lparr>ls_status := LoginSessionStatus.ACTIVE, ls_consumed_at := Some (now 2),
                   ls_claimed_at := Some (now 3)\<rparr>) d))))"

definition login_status :: "uuid \<Rightarrow> clock \<Rightarrow> db \<Rightarrow> LoginSessionStatus option result \<times> db" where
  "login_status session_id now = transaction (\<lambda>d.
     (case get_login d session_id of
        None \<Rightarrow> Inr (None, d)
      | Some item \<Rightarrow>
          rbind (expire_locked now item d) (\<lambda>(item, d). Inr (Some (ls_status item), d))))"

definition is_profile_check :: "uuid \<Rightarrow> db \<Rightarrow> bool" where
  "is_profile_check session_id d =
     (case get_login d session_id of
        None \<Rightarrow> False
      | Some item \<Rightarrow> ls_prior_account_status item = AccountStatus.CONNECTED)"

definition cancel_in_transaction :: "uuid \<Rightarrow> clock \<Rightarrow> db \<Rightarrow> (LoginSessionStatus \<times> db) result" where
  "cancel_in_transaction session_id now d =
     (case get_login d session_id of
        None \<Rightarrow> login_error ''Login session was not found.''
      | Some item \<Rightarrow>
          rbind (expire_locked now item d) (\<lambda>(item, d).
          if \<not> session_open item then Inr (ls_status item, d)
          else
            let item' = item\<lparr>ls_status := LoginSessionStatus.CANCELLED,
                  ls_reason_code := Some (reason_value ReasonCode.LOGIN_CANCELLED),
                  ls_closed_at := Some (now 2)\<rparr>
            in rbind (restore_account item' (update_login session_id (\<lambda>_. item') d)) (\<lambda>d.
               Inr (LoginSessionStatus.CANCELLED, d))))"

definition cancel_login :: "uuid \<Rightarrow> clock \<Rightarrow> db \<Rightarrow> LoginSessionStatus result \<times> db" where
  "cancel_login session_id now = transaction (cancel_in_transaction session_id now)"

definition complete_login :: "uuid \<Rightarrow> clock \<Rightarrow> db \<Rightarrow> LoginSessionStatus result \<times> db" where
  "complete_login session_id now = transaction (\<lambda>d.
     (case get_login d session_id of
        None \<Rightarrow> login_error ''Login session was not found.''
      | Some item \<Rightarrow>
          rbind (expire_locked now item d) (\<lambda>(item, d).
          if ls_status item \<noteq> LoginSessionStatus.ACTIVE then Inr (ls_status item, d)
          else
            rbind (require AssertionError (get_account d (ls_account_id item))) (\<lambda>account.
            rbind (if acc_status account \<noteq> AccountStatus.CONNECTED
                   then require_transition account_transitions (acc_status account)
                          AccountStatus.CONNECTED
                   else Inr ()) (\<lambda>_.
            Inr (LoginSessionStatus.COMPLETED,
              update_login session_id
                (\<lambda>s. s\<lparr>ls_status := LoginSessionStatus.COMPLETED, ls_closed_at := Some (now 3)\<rparr>)
              (update_account (ls_account_id item)
                (\<lambda>a. a\<lparr>acc_status := AccountStatus.CONNECTED, acc_reason_code := None,
                   acc_last_connected_at := Some (now 2)\<rparr>) d)))))))"

end
