(* ===== verification/LoginSafety.thy ===== *)
theory LoginSafety
  imports LoginSessions
begin

text \<open>
  What the login sessions keep: one open session per account, every open session can give the
  account back in the status it had before, and statuses move one way. The open sessions and the
  account statuses are shared with the Collector, which sets account statuses of its own.
\<close>

section \<open>The invariant\<close>

fun login_transitions :: "LoginSessionStatus \<Rightarrow> LoginSessionStatus list" where
  "login_transitions LoginSessionStatus.PENDING =
     [LoginSessionStatus.ACTIVE, LoginSessionStatus.EXPIRED, LoginSessionStatus.CANCELLED]"
| "login_transitions LoginSessionStatus.ACTIVE =
     [LoginSessionStatus.COMPLETED, LoginSessionStatus.EXPIRED, LoginSessionStatus.CANCELLED]"
| "login_transitions LoginSessionStatus.COMPLETED = []"
| "login_transitions LoginSessionStatus.EXPIRED = []"
| "login_transitions LoginSessionStatus.CANCELLED = []"

definition login_ident :: "login_session \<Rightarrow> uuid \<times> uuid \<times> AccountStatus \<times> string \<times> timestamp" where
  "login_ident s = (ls_id s, ls_account_id s, ls_prior_account_status s, ls_launch_token_hash s,
     ls_expires_at s)"

abbreviation logins_follow :: "db \<Rightarrow> db \<Rightarrow> bool" where
  "logins_follow d d' \<equiv>
     rows_follow login_ident ls_status login_transitions (login_sessions d) (login_sessions d')"

text \<open>The account of a session can go back to the status it had.\<close>

definition restorable :: "db \<Rightarrow> login_session \<Rightarrow> bool" where
  "restorable d s =
     (case get_account d (ls_account_id s) of
        None \<Rightarrow> False
      | Some a \<Rightarrow> moves account_transitions (acc_status a) (ls_prior_account_status s))"

definition logins_ok :: "db \<Rightarrow> bool" where
  "logins_ok d \<longleftrightarrow> constraints_ok d \<and>
     list_all (\<lambda>s. session_open s \<longrightarrow> restorable d s) (login_sessions d)"

lemma logins_ok_empty [simp]: "logins_ok empty_db"
  by (simp add: logins_ok_def) (simp add: empty_db_def)

lemma logins_okD:
  assumes "logins_ok d"
  shows "constraints_ok d" "unique_col ls_id (login_sessions d)"
    "unique_where session_open ls_account_id (login_sessions d)"
    "s \<in> set (login_sessions d) \<Longrightarrow> session_open s \<Longrightarrow> restorable d s"
  using assms by (auto simp: logins_ok_def constraints_ok_def uniques_ok_def list_all_iff)

lemma open_simps [simp]:
  "session_open (s\<lparr>ls_status := x\<rparr>) \<longleftrightarrow> x = LoginSessionStatus.PENDING \<or> x = LoginSessionStatus.ACTIVE"
  "session_open (s\<lparr>ls_reason_code := y\<rparr>) = session_open s"
  "session_open (s\<lparr>ls_closed_at := z\<rparr>) = session_open s"
  "session_open (s\<lparr>ls_consumed_at := z\<rparr>) = session_open s"
  "session_open (s\<lparr>ls_claimed_at := z\<rparr>) = session_open s"
  by (simp_all add: session_open_def)

lemma restorable_update [simp]:
  "restorable d (s\<lparr>ls_status := x\<rparr>) = restorable d s"
  "restorable d (s\<lparr>ls_consumed_at := z\<rparr>) = restorable d s"
  "restorable d (s\<lparr>ls_claimed_at := z\<rparr>) = restorable d s"
  by (auto simp: restorable_def split: option.splits)

lemma restorable_cong: "accounts d' = accounts d \<Longrightarrow> restorable d' s = restorable d s"
  by (simp add: restorable_def)

section \<open>Closing a session\<close>

text \<open>One session is closed and its account is updated; nothing else changes.\<close>

definition session_closed :: "login_session \<Rightarrow> login_session \<Rightarrow> (account \<Rightarrow> account) \<Rightarrow> db \<Rightarrow> db \<Rightarrow> bool" where
  "session_closed s s' g d d' \<longleftrightarrow>
     d' = d\<lparr>login_sessions := update_rows ls_id (ls_id s) (\<lambda>_. s') (login_sessions d),
            accounts := update_rows acc_id (ls_account_id s) g (accounts d)\<rparr> \<and>
     \<not> session_open s' \<and> login_ident s' = login_ident s \<and>
     policy_path login_transitions (ls_status s) (ls_status s') \<and> (\<forall>a. acc_id (g a) = acc_id a)"

lemma session_closed_restorable:
  assumes ok: "logins_ok d" and s: "s \<in> set (login_sessions d)" "session_open s"
    and closed: "session_closed s s' g d d'"
    and q: "q \<in> set (login_sessions d')" "session_open q"
  shows "restorable d' q \<and> ls_account_id q \<noteq> ls_account_id s"
proof -
  note c = closed [unfolded session_closed_def]
  have mem: "q \<in> set (login_sessions d)" "ls_id q \<noteq> ls_id s"
    using q c by (auto simp: in_update_rows split: if_splits)
  then have "ls_account_id q \<noteq> ls_account_id s"
    using unique_whereD [OF logins_okD(3) [OF ok] mem(1) s(1) q(2) s(2)] mem(2) by auto
  moreover have "restorable d q" using logins_okD(4) [OF ok] mem(1) q(2) by blast
  ultimately show ?thesis using c by (auto simp: restorable_def lookup_update_rows)
qed

lemma session_closed_ok:
  assumes "logins_ok d" "s \<in> set (login_sessions d)" "session_open s" "session_closed s s' g d d'"
    "constraints_ok d'"
  shows "logins_ok d'"
  using session_closed_restorable [OF assms(1-4)] assms(5) by (auto simp: logins_ok_def list_all_iff)

lemma session_closed_follows:
  assumes "logins_ok d" "s \<in> set (login_sessions d)" "session_closed s s' g d d'"
  shows "logins_follow d d'"
proof -
  note c = assms(3) [unfolded session_closed_def]
  have "logins_follow d (d\<lparr>login_sessions := update_rows ls_id (ls_id s) (\<lambda>_. s') (login_sessions d)\<rparr>)"
    using unique_colD [OF logins_okD(2) [OF assms(1)]] assms(2) c
    by (auto intro!: rows_follow_update)
  then show ?thesis using c by simp
qed

section \<open>Steps inside a transaction\<close>

lemma restore_account_total:
  assumes "restorable d s" "ls_account_id s' = ls_account_id s"
    "ls_prior_account_status s' = ls_prior_account_status s"
  shows "restore_account s' d = Inr (update_account (ls_account_id s)
     (\<lambda>a. a\<lparr>acc_status := ls_prior_account_status s, acc_reason_code := ls_reason_code s'\<rparr>) d)"
  using assms by (auto simp: restore_account_def restorable_def moves_def require_def Let_def
      require_transition_def split: option.splits)

lemma restorable_login_update [simp]: "restorable (update_login i f d) s = restorable d s"
  by (simp add: restorable_def update_login_def)

lemma policy_paths_login:
  "session_open s \<Longrightarrow> policy_path login_transitions (ls_status s) LoginSessionStatus.EXPIRED"
  "session_open s \<Longrightarrow> policy_path login_transitions (ls_status s) LoginSessionStatus.CANCELLED"
  "policy_path login_transitions LoginSessionStatus.ACTIVE LoginSessionStatus.COMPLETED"
  "policy_path login_transitions LoginSessionStatus.PENDING LoginSessionStatus.ACTIVE"
  by (auto simp: session_open_def is_transition_allowed_def intro!: policy_path_step)

definition expired_session :: "clock \<Rightarrow> login_session \<Rightarrow> login_session" where
  "expired_session now s = s\<lparr>ls_status := LoginSessionStatus.EXPIRED,
     ls_reason_code := Some (reason_value ReasonCode.LOGIN_EXPIRED), ls_closed_at := Some (now 1)\<rparr>"

definition cancelled_session :: "clock \<Rightarrow> login_session \<Rightarrow> login_session" where
  "cancelled_session now s = s\<lparr>ls_status := LoginSessionStatus.CANCELLED,
     ls_reason_code := Some (reason_value ReasonCode.LOGIN_CANCELLED), ls_closed_at := Some (now 2)\<rparr>"

text \<open>What the account becomes when a session gives it back.\<close>

definition given_back :: "login_session \<Rightarrow> account \<Rightarrow> account" where
  "given_back s' a = a\<lparr>acc_status := ls_prior_account_status s', acc_reason_code := ls_reason_code s'\<rparr>"

lemma closed_update:
  assumes "\<not> session_open s'" "login_ident s' = login_ident s"
    "policy_path login_transitions (ls_status s) (ls_status s')"
    "\<And>a. acc_id (g a) = acc_id a"
  shows "session_closed s s' g d
    (update_account (ls_account_id s) g (update_login (ls_id s) (\<lambda>_. s') d))"
  using assms by (simp add: session_closed_def update_account_def update_login_def)

lemma expire_locked_cases:
  assumes "logins_ok d" "s \<in> set (login_sessions d)"
  obtains (kept) "\<not> (session_open s \<and> ls_expires_at s \<le> now 0)" "expire_locked now s d = Inr (s, d)"
  | (expired) d' where "session_open s" "ls_expires_at s \<le> now 0"
      "expire_locked now s d = Inr (expired_session now s, d')"
      "session_closed s (expired_session now s) (given_back (expired_session now s)) d d'"
proof (cases "session_open s \<and> ls_expires_at s \<le> now 0")
  case True
  have r: "restorable d s" using logins_okD(4) [OF assms(1,2)] True by blast
  let ?s = "expired_session now s"
  have eq: "expire_locked now s d = Inr (?s,
      update_account (ls_account_id s) (given_back ?s) (update_login (ls_id s) (\<lambda>_. ?s) d))"
    using True restore_account_total [of "update_login (ls_id s) (\<lambda>_. ?s) d" s ?s] r
    by (simp add: expire_locked_def expired_session_def given_back_def [abs_def] Let_def)
  have "session_closed s ?s (given_back ?s) d
      (update_account (ls_account_id s) (given_back ?s) (update_login (ls_id s) (\<lambda>_. ?s) d))"
    using True policy_paths_login(1)
    by (intro closed_update) (auto simp: expired_session_def login_ident_def given_back_def)
  with True eq show ?thesis by (intro expired) auto
next
  case False
  then show ?thesis by (intro kept) (auto simp: expire_locked_def)
qed

section \<open>Operations\<close>

text \<open>An operation keeps the sessions.\<close>

definition login_kept :: "db \<Rightarrow> db \<Rightarrow> bool" where
  "login_kept d d' \<longleftrightarrow> logins_ok d' \<and> logins_follow d d'"

lemma login_kept_refl: "logins_ok d \<Longrightarrow> login_kept d d"
  by (simp add: login_kept_def)

lemma login_kept_closed:
  assumes "logins_ok d" "s \<in> set (login_sessions d)" "session_open s" "session_closed s s' g d d'"
    "constraints_ok d'"
  shows "login_kept d d'"
  using session_closed_ok [OF assms] session_closed_follows [OF assms(1,2,4)]
  by (simp add: login_kept_def)

lemma get_loginD: "get_login d i = Some s \<Longrightarrow> s \<in> set (login_sessions d) \<and> ls_id s = i"
  by (rule lookup_row_SomeD)

lemma transaction_kept:
  assumes "transaction f d = (r, d')" "logins_ok d"
    "\<And>x. f d = Inr (x, d') \<Longrightarrow> constraints_ok d' \<Longrightarrow> login_kept d d'"
  shows "login_kept d d'"
proof (cases r)
  case (Inl e)
  with assms(1) have "d' = d" using transaction_error_rollback [of f d e] by simp
  with assms(2) show ?thesis by (simp add: login_kept_refl)
next
  case (Inr x)
  with transaction_InrD [of f d x d'] assms(1,3) show ?thesis by blast
qed

lemma login_status_kept:
  assumes ok: "logins_ok d" and run: "login_status i now d = (r, d')"
  shows "login_kept d d'"
proof (rule transaction_kept [OF run [unfolded login_status_def] ok])
  fix x
  assume body: "(case get_login d i of None \<Rightarrow> Inr (None, d)
      | Some item \<Rightarrow> rbind (expire_locked now item d) (\<lambda>(item, d). Inr (Some (ls_status item), d)))
      = Inr (x, d')" and c: "constraints_ok d'"
  show "login_kept d d'"
  proof (cases "get_login d i")
    case None
    with body ok show ?thesis by (simp add: login_kept_refl)
  next
    case (Some s)
    note s = get_loginD [OF Some, THEN conjunct1]
    from ok s show ?thesis
    proof (cases rule: expire_locked_cases [where now = now])
      case kept
      with body Some ok show ?thesis by (simp add: login_kept_refl)
    next
      case (expired d1)
      with body Some have "d' = d1" by simp
      with expired login_kept_closed [OF ok s] c show ?thesis by blast
    qed
  qed
qed

lemma cancelled_closed:
  assumes "logins_ok d" "s \<in> set (login_sessions d)" "session_open s"
  obtains d' where "restore_account (cancelled_session now s)
      (update_login (ls_id s) (\<lambda>_. cancelled_session now s) d) = Inr d'"
    "session_closed s (cancelled_session now s) (given_back (cancelled_session now s)) d d'"
proof -
  let ?s = "cancelled_session now s"
  have "restore_account ?s (update_login (ls_id s) (\<lambda>_. ?s) d) = Inr
      (update_account (ls_account_id s) (given_back ?s) (update_login (ls_id s) (\<lambda>_. ?s) d))"
    using restore_account_total [of "update_login (ls_id s) (\<lambda>_. ?s) d" s ?s]
      logins_okD(4) [OF assms]
    by (simp add: cancelled_session_def given_back_def [abs_def])
  moreover have "session_closed s ?s (given_back ?s) d
      (update_account (ls_account_id s) (given_back ?s) (update_login (ls_id s) (\<lambda>_. ?s) d))"
    using policy_paths_login(2) [OF assms(3)]
    by (intro closed_update) (auto simp: cancelled_session_def login_ident_def given_back_def)
  ultimately show thesis by (rule that)
qed

lemma closed_not_open: "session_closed s s' g d d' \<Longrightarrow> \<not> session_open s'"
  by (simp add: session_closed_def)

text \<open>Cancelling never raises: the account can always be given back.\<close>

lemma cancel_in_transaction_cases:
  assumes ok: "logins_ok d" and s: "get_login d i = Some s"
  obtains (closed) "\<not> session_open s" "cancel_in_transaction i now d = Inr (ls_status s, d)"
  | (expired) d' where "session_open s" "ls_expires_at s \<le> now 0"
      "cancel_in_transaction i now d = Inr (LoginSessionStatus.EXPIRED, d')"
      "session_closed s (expired_session now s) (given_back (expired_session now s)) d d'"
  | (cancelled) d' where "session_open s" "now 0 < ls_expires_at s"
      "cancel_in_transaction i now d = Inr (LoginSessionStatus.CANCELLED, d')"
      "session_closed s (cancelled_session now s) (given_back (cancelled_session now s)) d d'"
proof -
  note mem = get_loginD [OF s]
  from ok mem [THEN conjunct1] show thesis
  proof (cases rule: expire_locked_cases [where now = now])
    case kept
    show thesis
    proof (cases "session_open s")
      case False
      with kept s show thesis by (intro closed) (simp_all add: cancel_in_transaction_def)
    next
      case True
      from ok mem [THEN conjunct1] True obtain d' where
        d': "restore_account (cancelled_session now s)
          (update_login (ls_id s) (\<lambda>_. cancelled_session now s) d) = Inr d'"
        "session_closed s (cancelled_session now s) (given_back (cancelled_session now s)) d d'"
        by (rule cancelled_closed)
      from d'(1) kept(2) s True mem have "cancel_in_transaction i now d = Inr (LoginSessionStatus.CANCELLED, d')"
        by (simp add: cancel_in_transaction_def Let_def cancelled_session_def)
      with d'(2) True kept(1) show thesis by (intro cancelled) auto
    qed
  next
    case (expired d')
    then have "cancel_in_transaction i now d = Inr (LoginSessionStatus.EXPIRED, d')"
      using s by (simp add: cancel_in_transaction_def expired_session_def)
    with expired that(2) show thesis by blast
  qed
qed

lemma cancel_kept:
  assumes ok: "logins_ok d" and run: "cancel_login i now d = (r, d')"
  shows "login_kept d d'"
proof (rule transaction_kept [OF run [unfolded cancel_login_def] ok])
  fix x assume body: "cancel_in_transaction i now d = Inr (x, d')" and c: "constraints_ok d'"
  show "login_kept d d'"
  proof (cases "get_login d i")
    case None
    with body show ?thesis by (simp add: cancel_in_transaction_def)
  next
    case (Some s)
    note mem = get_loginD [OF Some, THEN conjunct1]
    from ok Some show ?thesis
    proof (cases rule: cancel_in_transaction_cases [where now = now])
      case closed
      with body ok show ?thesis by (simp add: login_kept_refl)
    next
      case (expired d1)
      with body login_kept_closed [OF ok mem expired(1,4)] c show ?thesis by simp
    next
      case (cancelled d1)
      with body login_kept_closed [OF ok mem cancelled(1,4)] c show ?thesis by simp
    qed
  qed
qed

subsection \<open>Activation and completion\<close>

definition activated_session :: "clock \<Rightarrow> login_session \<Rightarrow> login_session" where
  "activated_session now s = s\<lparr>ls_status := LoginSessionStatus.ACTIVE,
     ls_consumed_at := Some (now 2), ls_claimed_at := Some (now 3)\<rparr>"

definition completed_session :: "clock \<Rightarrow> login_session \<Rightarrow> login_session" where
  "completed_session now s = s\<lparr>ls_status := LoginSessionStatus.COMPLETED, ls_closed_at := Some (now 3)\<rparr>"

definition connected_account :: "clock \<Rightarrow> account \<Rightarrow> account" where
  "connected_account now a = a\<lparr>acc_status := AccountStatus.CONNECTED, acc_reason_code := None,
     acc_last_connected_at := Some (now 2)\<rparr>"

lemma activate_InrD:
  assumes ok: "logins_ok d" and run: "activate sha i token now d = (Inr x, d')"
  obtains s where "get_login d i = Some s" "ls_launch_token_hash s = sha token"
    "ls_status s = LoginSessionStatus.PENDING" "now 0 < ls_expires_at s"
    "x = LoginSessionStatus.ACTIVE" "d' = update_login i (activated_session now) d" "constraints_ok d'"
proof -
  from transaction_InrD [OF run [unfolded activate_def]]
  obtain s where s: "get_login d i = Some s" "ls_launch_token_hash s = sha token"
      "rbind (expire_locked now s d) (\<lambda>(item, d).
            if ls_status item \<noteq> LoginSessionStatus.PENDING
            then login_error ''Login link is unavailable.''
            else Inr (LoginSessionStatus.ACTIVE, update_login i (activated_session now) d)) = Inr (x, d')"
    and c: "constraints_ok d'"
    by (auto simp: activated_session_def [abs_def] split: option.splits if_splits)
  note mem = get_loginD [OF s(1), THEN conjunct1]
  from ok mem show thesis
  proof (cases rule: expire_locked_cases [where now = now])
    case kept
    then have "ls_status s = LoginSessionStatus.PENDING"
        "x = LoginSessionStatus.ACTIVE" "d' = update_login i (activated_session now) d"
      using s(3) by (auto split: if_splits)
    with kept s c show thesis by (intro that) (auto simp: session_open_def)
  next
    case (expired d1)
    then show thesis using s(3) by (simp add: expired_session_def)
  qed
qed

lemma activate_kept:
  assumes ok: "logins_ok d" and run: "activate sha i token now d = (r, d')"
  shows "login_kept d d'"
proof (cases r)
  case (Inl e)
  with run transactional_raise [OF transactionalI [OF activate_def]] have "d' = d" by blast
  with ok show ?thesis by (simp add: login_kept_refl)
next
  case (Inr x)
  from ok run [unfolded Inr] obtain s where s: "get_login d i = Some s"
      "ls_status s = LoginSessionStatus.PENDING" "d' = update_login i (activated_session now) d"
      "constraints_ok d'"
    by (rule activate_InrD)
  note mem = get_loginD [OF s(1)]
  have only: "q = s" if "q \<in> set (login_sessions d)" "ls_id q = i" for q
    using unique_colD [OF logins_okD(2) [OF ok] that(1) mem [THEN conjunct1]] that(2) mem by simp
  have "restorable d' q" if "q \<in> set (login_sessions d')" "session_open q" for q
    using that logins_okD(4) [OF ok] only s(2,3) restorable_cong [of d' d]
    by (auto simp: update_login_def in_update_rows activated_session_def session_open_def
        split: if_splits)
  moreover have "logins_follow d d'"
    using s(2,3) only policy_paths_login(4)
    by (auto simp: update_login_def activated_session_def login_ident_def intro!: rows_follow_update)
  ultimately show ?thesis
    using s(4) by (auto simp: login_kept_def logins_ok_def list_all_iff)
qed

lemma complete_InrD:
  assumes ok: "logins_ok d" and run: "complete_login i now d = (Inr x, d')"
  obtains (closed) s where "get_login d i = Some s" "ls_status s \<noteq> LoginSessionStatus.ACTIVE"
      "x = ls_status s" "d' = d"
  | (expired) s where "get_login d i = Some s" "session_open s" "ls_expires_at s \<le> now 0"
      "x = LoginSessionStatus.EXPIRED" "constraints_ok d'"
      "session_closed s (expired_session now s) (given_back (expired_session now s)) d d'"
  | (completed) s where "get_login d i = Some s" "ls_status s = LoginSessionStatus.ACTIVE"
      "now 0 < ls_expires_at s" "x = LoginSessionStatus.COMPLETED" "constraints_ok d'"
      "session_closed s (completed_session now s) (connected_account now) d d'"
proof -
  let ?rest = "\<lambda>(item, d). if ls_status item \<noteq> LoginSessionStatus.ACTIVE then Inr (ls_status item, d)
          else
            rbind (require AssertionError (get_account d (ls_account_id item))) (\<lambda>account.
            rbind (if acc_status account \<noteq> AccountStatus.CONNECTED
                   then require_transition account_transitions (acc_status account)
                          AccountStatus.CONNECTED
                   else Inr ()) (\<lambda>_.
            Inr (LoginSessionStatus.COMPLETED,
              update_login i (completed_session now)
              (update_account (ls_account_id item) (connected_account now) d))))"
  from transaction_InrD [OF run [unfolded complete_login_def]]
  obtain s where s: "get_login d i = Some s" "rbind (expire_locked now s d) ?rest = Inr (x, d')"
    and c: "constraints_ok d'"
    by (auto simp: completed_session_def [abs_def] connected_account_def [abs_def]
        split: option.splits if_splits)
  note mem = get_loginD [OF s(1)]
  from ok mem [THEN conjunct1] show thesis
  proof (cases rule: expire_locked_cases [where now = now])
    case kept
    show thesis
    proof (cases "ls_status s = LoginSessionStatus.ACTIVE")
      case False
      with kept s(2) show thesis by (intro closed [OF s(1)]) auto
    next
      case True
      with kept(2) s(2) have x: "x = LoginSessionStatus.COMPLETED"
        and d': "d' = update_login i (completed_session now)
            (update_account (ls_account_id s) (connected_account now) d)"
        by auto
      have "update_rows ls_id (ls_id s) (completed_session now) (login_sessions d) =
          update_rows ls_id (ls_id s) (\<lambda>_. completed_session now s) (login_sessions d)"
        using unique_colD [OF logins_okD(2) [OF ok] _ mem [THEN conjunct1]] mem
        by (auto intro!: update_rows_cong)
      then have "session_closed s (completed_session now s) (connected_account now) d d'"
        using d' mem True policy_paths_login(3)
        by (simp add: session_closed_def update_login_def update_account_def completed_session_def
            connected_account_def login_ident_def)
      with kept True s(1) x c show thesis by (intro completed) (auto simp: session_open_def)
    qed
  next
    case (expired d1)
    then show thesis
      using s c that(2) by (auto simp: expired_session_def)
  qed
qed

lemma complete_kept:
  assumes ok: "logins_ok d" and run: "complete_login i now d = (r, d')"
  shows "login_kept d d'"
proof (cases r)
  case (Inl e)
  with run transactional_raise [OF transactionalI [OF complete_login_def]] have "d' = d" by blast
  with ok show ?thesis by (simp add: login_kept_refl)
next
  case (Inr x)
  from ok run [unfolded Inr] show ?thesis
  proof (cases rule: complete_InrD)
    case (closed s)
    with ok show ?thesis by (simp add: login_kept_refl)
  next
    case (expired s)
    then show ?thesis using login_kept_closed [OF ok] get_loginD by blast
  next
    case (completed s)
    then show ?thesis
      using login_kept_closed [OF ok _ _ completed(6,5)] get_loginD by (simp add: session_open_def)
  qed
qed

subsection \<open>Creation\<close>

lemma one_open_session:
  assumes "unique_where session_open ls_account_id (login_sessions d)"
  shows "filter (\<lambda>s. ls_account_id s = i \<and> session_open s) (login_sessions d) = [] \<or>
    (\<exists>s. filter (\<lambda>s. ls_account_id s = i \<and> session_open s) (login_sessions d) = [s])"
proof -
  let ?f = "filter (\<lambda>s. ls_account_id s = i \<and> session_open s) (login_sessions d)"
  have "?f = filter (\<lambda>s. ls_account_id s = i) (filter session_open (login_sessions d))"
    by (simp add: conj_commute)
  then have "distinct (map ls_account_id ?f)"
    using assms by (metis distinct_map_filter unique_where_def)
  moreover have "ls_account_id x = i" if "x \<in> set ?f" for x
    using that by simp
  ultimately show ?thesis by (cases ?f rule: remdups_adj.cases) auto
qed

definition pending_session :: "(string \<Rightarrow> string) \<Rightarrow> uuid \<Rightarrow> timedelta \<Rightarrow> string \<Rightarrow> uuid \<Rightarrow> clock \<Rightarrow>
    AccountStatus \<Rightarrow> login_session" where
  "pending_session sha account_id ttl token fresh now prior =
     \<lparr>ls_id = fresh, ls_account_id = account_id, ls_status = LoginSessionStatus.PENDING,
      ls_prior_account_status = prior, ls_launch_token_hash = sha token, ls_reason_code = None,
      ls_expires_at = now 0 + ttl, ls_consumed_at = None, ls_claimed_at = None, ls_closed_at = None\<rparr>"

text \<open>The accounts when a session from the status \<open>prior\<close> is open.\<close>

definition connecting :: "uuid \<Rightarrow> AccountStatus \<Rightarrow> db \<Rightarrow> account list" where
  "connecting i prior d =
     (let rows = (case get_account d i of None \<Rightarrow> accounts d @ [new_account i] | Some _ \<Rightarrow> accounts d)
      in if prior = AccountStatus.CONNECTED then rows
         else update_rows acc_id i (\<lambda>a. a\<lparr>acc_status := AccountStatus.CONNECTING\<rparr>) rows)"

lemma connecting_other: "j \<noteq> i \<Longrightarrow> lookup_row acc_id j (connecting i prior d) = get_account d j"
  by (auto simp: connecting_def Let_def lookup_update_rows new_account_def split: option.splits)

lemma connecting_self:
  assumes "account_status i d = prior"
    "prior \<in> {AccountStatus.DISCONNECTED, AccountStatus.REAUTH_REQUIRED, AccountStatus.CONNECTED}"
  shows "\<exists>a. lookup_row acc_id i (connecting i prior d) = Some a \<and>
    acc_status a = (if prior = AccountStatus.CONNECTED then prior else AccountStatus.CONNECTING) \<and>
    moves account_transitions (acc_status a) prior"
  using assms
  by (auto simp: connecting_def Let_def account_status_def lookup_update_rows policy_simps
      new_account_def split: option.splits)

lemma opened_restorable:
  assumes "restorable d0 q" "ls_account_id q \<noteq> i" "accounts d' = connecting i prior d0"
  shows "restorable d' q"
  using assms by (simp add: restorable_def connecting_other)

lemma expire_each_cases:
  assumes ok: "logins_ok d"
    and run: "expire_each now (filter (\<lambda>s. ls_account_id s = i \<and> session_open s) (login_sessions d)) d =
      Inr (items, d0)"
    and none: "\<not> list_ex session_open items"
  shows "(d0 = d \<or> (\<exists>s. s \<in> set (login_sessions d) \<and> session_open s \<and>
            session_closed s (expired_session now s) (given_back (expired_session now s)) d d0)) \<and>
     (\<forall>q \<in> set (login_sessions d0). session_open q \<longrightarrow> restorable d0 q \<and> ls_account_id q \<noteq> i)"
    (is "_ \<and> ?rest")
proof -
  let ?f = "filter (\<lambda>s. ls_account_id s = i \<and> session_open s) (login_sessions d)"
  from one_open_session [OF logins_okD(3) [OF ok], of i] show ?thesis
  proof
    assume nil: "?f = []"
    then have "\<forall>q \<in> set (login_sessions d). session_open q \<longrightarrow> ls_account_id q \<noteq> i"
      by (auto simp: filter_empty_conv)
    with nil run logins_okD(4) [OF ok] show ?thesis by auto
  next
    assume "\<exists>s. ?f = [s]"
    then obtain s where f: "?f = [s]" by blast
    then have "s \<in> set ?f" by (metis list.set_intros(1))
    then have s: "s \<in> set (login_sessions d)" "ls_account_id s = i" "session_open s" by auto
    from ok s(1) show ?thesis
    proof (cases rule: expire_locked_cases [where now = now])
      case kept
      with run [unfolded f] have "items = [s]" by simp
      with none s(3) show ?thesis by simp
    next
      case (expired d1)
      with run [unfolded f] have "d0 = d1" by simp
      with expired have closed: "session_closed s (expired_session now s)
          (given_back (expired_session now s)) d d0"
        by simp
      have "?rest" using session_closed_restorable [OF ok s(1,3) closed] s(2) by simp
      with closed s show ?thesis by auto
    qed
  qed
qed

lemma create_InrD:
  assumes ok: "logins_ok d"
    and run: "create_in_transaction sha i ttl check token fresh now d = Inr (c, d')"
  obtains d0 prior now' where
    "d0 = d \<or> (\<exists>s. s \<in> set (login_sessions d) \<and> session_open s \<and>
       session_closed s (expired_session now' s) (given_back (expired_session now' s)) d d0)"
    "\<forall>q \<in> set (login_sessions d0). session_open q \<longrightarrow> restorable d0 q \<and> ls_account_id q \<noteq> i"
    "0 < ttl" "ttl \<le> default_login_ttl" "prior = account_status i d0"
    "prior \<in> {AccountStatus.DISCONNECTED, AccountStatus.REAUTH_REQUIRED, AccountStatus.CONNECTED}"
    "prior = AccountStatus.CONNECTED \<longrightarrow> check"
    "d' = d0\<lparr>accounts := connecting i prior d0, login_sessions := login_sessions d0 @
       [pending_session sha i ttl token fresh now prior]\<rparr>"
    "c = \<lparr>cl_session_id = fresh, cl_account_id = i, cl_expires_at = now 0 + ttl, cl_launch_token = token\<rparr>"
proof -
  let ?now = "\<lambda>k. now (k + 1)"
  from run obtain items d0 where e:
    "expire_each ?now (filter (\<lambda>s. ls_account_id s = i \<and> session_open s) (login_sessions d)) d =
       Inr (items, d0)"
    "\<not> list_ex session_open items" "0 < ttl" "ttl \<le> default_login_ttl"
    by (auto simp: create_in_transaction_def Let_def split: if_splits)
  note first = expire_each_cases [OF ok e(1,2)]
  let ?prior = "account_status i d0"
  have rest: "?prior \<in> {AccountStatus.DISCONNECTED, AccountStatus.REAUTH_REQUIRED,
        AccountStatus.CONNECTED}"
    "?prior = AccountStatus.CONNECTED \<longrightarrow> check"
    "d' = d0\<lparr>accounts := connecting i ?prior d0, login_sessions := login_sessions d0 @
       [pending_session sha i ttl token fresh now ?prior]\<rparr>"
    "c = \<lparr>cl_session_id = fresh, cl_account_id = i, cl_expires_at = now 0 + ttl, cl_launch_token = token\<rparr>"
    using run e
    by (auto simp: create_in_transaction_def Let_def connecting_def pending_session_def
        update_account_def split: if_splits option.splits)
  show thesis
    using first e(3,4) rest by (intro that [of d0 ?now ?prior]) auto
qed

lemma create_kept_tx:
  assumes ok: "logins_ok d" and c: "constraints_ok d'"
    and run: "create_in_transaction sha i ttl check token fresh now d = Inr (c, d')"
  shows "login_kept d d'"
proof -
  from ok run obtain d0 prior now' where h:
    "d0 = d \<or> (\<exists>s. s \<in> set (login_sessions d) \<and> session_open s \<and>
       session_closed s (expired_session now' s) (given_back (expired_session now' s)) d d0)"
    "\<forall>q \<in> set (login_sessions d0). session_open q \<longrightarrow> restorable d0 q \<and> ls_account_id q \<noteq> i"
    "prior = account_status i d0"
    "prior \<in> {AccountStatus.DISCONNECTED, AccountStatus.REAUTH_REQUIRED, AccountStatus.CONNECTED}"
    "d' = d0\<lparr>accounts := connecting i prior d0, login_sessions := login_sessions d0 @
       [pending_session sha i ttl token fresh now prior]\<rparr>"
    by (rule create_InrD) blast
  have acc: "accounts d' = connecting i prior d0" using h(5) by simp
  have "restorable d' (pending_session sha i ttl token fresh now prior)"
    using connecting_self [OF h(3) [symmetric] h(4)] by (auto simp: restorable_def acc pending_session_def)
  then have "logins_ok d'"
    using c h(2) opened_restorable [OF _ _ acc] by (auto simp: logins_ok_def list_all_iff h(5))
  moreover have "logins_follow d d0"
    using h(1) session_closed_follows [OF ok] by auto
  then have "logins_follow d d'"
    by (rule rows_follow_trans) (simp add: h(5))
  ultimately show ?thesis by (simp add: login_kept_def)
qed

lemma create_kept:
  assumes ok: "logins_ok d" and run: "create_login sha i ttl check token fresh now d = (r, d')"
  shows "login_kept d d'"
proof -
  obtain r0 where "transaction (create_in_transaction sha i ttl check token fresh now) d = (r0, d')"
    using run by (auto simp: create_login_def split: prod.splits sum.splits if_splits)
  then show ?thesis
    by (rule transaction_kept [OF _ ok]) (use create_kept_tx [OF ok] in \<open>auto simp: split_paired_all\<close>)
qed

end
