(* ===== verification/LoginProps.thy ===== *)
theory LoginProps
  imports LoginSafety
begin

text \<open>
  The properties of the login sessions: histories of operations, what each operation returns, and
  how a session is lost when the Collector changes the account under it.
\<close>

section \<open>Histories\<close>

text \<open>One operation of \<open>LoginSessionService\<close>, with any arguments and any outcome.\<close>

inductive login_step :: "(string \<Rightarrow> string) \<Rightarrow> db \<Rightarrow> db \<Rightarrow> bool" for sha where
  "create_login sha i ttl check token fresh now d = (r, d') \<Longrightarrow> login_step sha d d'"
| "activate sha i token now d = (r, d') \<Longrightarrow> login_step sha d d'"
| "login_status i now d = (r, d') \<Longrightarrow> login_step sha d d'"
| "cancel_login i now d = (r, d') \<Longrightarrow> login_step sha d d'"
| "complete_login i now d = (r, d') \<Longrightarrow> login_step sha d d'"

lemma login_step_kept: "login_step sha d d' \<Longrightarrow> logins_ok d \<Longrightarrow> login_kept d d'"
  by (induction rule: login_step.induct)
    (blast intro: create_kept activate_kept login_status_kept cancel_kept complete_kept)+

interpretation logins: lifecycle logins_ok "login_step sha" login_sessions login_ident ls_status
  login_transitions for sha
  by unfold_locales (auto dest: login_step_kept simp: login_kept_def)

text \<open>
  C19: in every history of login operations that starts from a good database, every open session
  can give its account back, an account has one open session at most, and every session keeps its
  account, prior status, token hash and expiry and moves along pending, active, closed.
\<close>

theorem login_history:
  assumes "logins_ok d" "(login_step sha)\<^sup>*\<^sup>* d d'"
  shows "logins_ok d' \<and> unique_where session_open ls_account_id (login_sessions d') \<and>
    rows_follow login_ident ls_status login_transitions (login_sessions d) (login_sessions d')"
  using logins.history_inv [OF assms(2,1)] logins.history_follows [OF assms(2,1)] logins_okD(3) by blast

definition token_hash :: "string \<Rightarrow> string" where
  "token_hash token = take 64 (token @ replicate 64 (CHR ''0''))"

definition at_time :: "timestamp \<Rightarrow> clock" where
  "at_time t = (\<lambda>_. t)"

definition opened_db :: db where
  "opened_db = snd (create_login token_hash 7 (minutes 10) False ''tok'' 31 (at_time 1000) empty_db)"

definition active_db :: db where
  "active_db = snd (activate token_hash 31 ''tok'' (at_time 2000) opened_db)"

lemma opened_db_eq:
  "create_login token_hash 7 (minutes 10) False ''tok'' 31 (at_time 1000) empty_db =
     (Inr \<lparr>cl_session_id = 31, cl_account_id = 7, cl_expires_at = 1000 + minutes 10,
           cl_launch_token = ''tok''\<rparr>, opened_db)"
  by code_simp

lemma active_db_eq: "activate token_hash 31 ''tok'' (at_time 2000) opened_db = (Inr LoginSessionStatus.ACTIVE, active_db)"
  by code_simp

lemma opened_db_ok: "logins_ok opened_db"
  by code_simp

lemma active_db_ok: "logins_ok active_db"
  by code_simp

theorem login_history_witness: "logins_ok active_db \<and> length (login_sessions active_db) = 1"
proof -
  have "login_step token_hash empty_db opened_db" by (rule login_step.intros, rule opened_db_eq)
  moreover have "login_step token_hash opened_db active_db" by (rule login_step.intros(2), rule active_db_eq)
  ultimately have "(login_step token_hash)\<^sup>*\<^sup>* empty_db active_db" by simp
  moreover have "length (login_sessions active_db) = 1" by code_simp
  ultimately show ?thesis using login_history [OF logins_ok_empty] by blast
qed

section \<open>The launch token works once\<close>

text \<open>
  C18: a launch link is single use. After a session was activated, whatever login operations run, no
  activation of it succeeds again, with this or any other token.
\<close>

theorem activation_single_use:
  assumes "logins_ok d" "activate sha i token now d = (Inr x, d1)" "(login_step sha)\<^sup>*\<^sup>* d1 d2"
  shows "\<exists>e. activate sha i token' now' d2 = (Inl e, d2)"
proof -
  from assms(1,2) obtain s where s: "get_login d i = Some s"
      "d1 = update_login i (activated_session now) d"
    by (rule activate_InrD)
  have ok1: "logins_ok d1" using activate_kept [OF assms(1,2)] by (simp add: login_kept_def)
  have "get_login d1 i = Some (activated_session now s)"
    using s by (simp add: update_login_def lookup_update_rows activated_session_def)
  note mem = get_loginD [OF this]
  have ok2: "logins_ok d2" using logins.history_inv [OF assms(3) ok1] .
  have "LoginSessionStatus.PENDING \<notin> set (login_transitions b)" for b
    by (cases b) simp_all
  then have no_way: "\<not> policy_path login_transitions LoginSessionStatus.ACTIVE LoginSessionStatus.PENDING"
    unfolding policy_path_def is_transition_allowed_def
    by (metis (mono_tags, lifting) LoginSessionStatus.distinct(1) rtranclp.cases)
  have "ls_status q \<noteq> LoginSessionStatus.PENDING" if q: "get_login d2 i = Some q" for q
  proof -
    obtain q' where q': "q' \<in> set (login_sessions d2)"
        "login_ident q' = login_ident (activated_session now s)"
        "policy_path login_transitions LoginSessionStatus.ACTIVE (ls_status q')"
      using logins.history_follows [OF assms(3) ok1] mem
      by (auto simp: rows_follow_def activated_session_def)
    moreover from q' mem have "ls_id q' = i" by (simp add: login_ident_def)
    ultimately have "q' = q"
      using unique_colD [OF logins_okD(2) [OF ok2], of q' q] get_loginD [OF q] by simp
    with q' no_way show ?thesis by auto
  qed
  note not_pending = this
  obtain r d3 where run: "activate sha i token' now' d2 = (r, d3)" by fastforce
  show ?thesis
  proof (cases r)
    case (Inl e)
    with run transactional_raise [OF transactionalI [OF activate_def]] show ?thesis by blast
  next
    case (Inr y)
    from ok2 run [unfolded Inr] show ?thesis
      by (rule activate_InrD) (use not_pending in auto)
  qed
qed

theorem activation_single_use_witness:
  "\<exists>e. activate token_hash 31 ''tok'' (at_time 2500) active_db = (Inl e, active_db)"
  using activation_single_use [OF opened_db_ok active_db_eq] by blast

section \<open>What an activation returns\<close>

lemma constraints_activated:
  assumes ok: "logins_ok d" and s: "get_login d i = Some s" "ls_status s = LoginSessionStatus.PENDING"
  shows "constraints_ok (update_login i (activated_session now) d)"
proof -
  note c = logins_okD(1) [OF ok, unfolded constraint_defs]
  have only: "q = s" if "q \<in> set (login_sessions d)" "ls_id q = i" for q
    using unique_colD [OF logins_okD(2) [OF ok] that(1)] get_loginD [OF s(1)] that(2) by simp
  have "list_all login_session_fits (login_sessions (update_login i (activated_session now) d))"
    "list_all login_session_ok (login_sessions (update_login i (activated_session now) d))"
    using c by (auto simp: list_all_iff update_login_def in_update_rows login_session_fits_def
        activated_session_def login_session_ok_def)
  moreover have "unique_where session_open ls_account_id
      (login_sessions (update_login i (activated_session now) d))"
    unfolding update_login_def using c only s(2)
    by (auto simp: activated_session_def session_open_def intro!: unique_where_update)
  ultimately show ?thesis
    using c by (auto simp: constraint_defs update_login_def in_update_rows unique_col_update
        activated_session_def)
qed

text \<open>
  An activation succeeds for a pending session that has not expired, with its token, and does
  nothing but mark it active; on every other branch it raises the same error and leaves the
  database as it was. That holds of an expired session as well: the transition to expired that the
  call has just made is rolled back by its own exception.
\<close>

theorem activate_outcome:
  assumes "logins_ok d"
  shows "activate sha i token now d =
    (case get_login d i of
       None \<Rightarrow> (login_error ''Login link is unavailable.'', d)
     | Some s \<Rightarrow>
         if ls_launch_token_hash s = sha token \<and> ls_status s = LoginSessionStatus.PENDING \<and>
            now 0 < ls_expires_at s
         then (Inr LoginSessionStatus.ACTIVE,
               d\<lparr>login_sessions := update_rows ls_id i
                    (\<lambda>s. s\<lparr>ls_status := LoginSessionStatus.ACTIVE, ls_consumed_at := Some (now 2),
                       ls_claimed_at := Some (now 3)\<rparr>) (login_sessions d)\<rparr>)
         else (login_error ''Login link is unavailable.'', d))"
proof (cases "get_login d i")
  case None
  then show ?thesis by (simp add: activate_def transaction_def login_error_def)
next
  case (Some s)
  note mem = get_loginD [OF Some, THEN conjunct1]
  from assms mem show ?thesis
  proof (cases rule: expire_locked_cases [where now = now])
    case kept
    then show ?thesis
      using Some constraints_activated [OF assms Some, of now]
      by (auto simp: activate_def transaction_def login_error_def session_open_def
          activated_session_def [abs_def] update_login_def)
  next
    case (expired d1)
    then show ?thesis
      using Some by (auto simp: activate_def transaction_def login_error_def expired_session_def)
  qed
qed

theorem activate_outcome_witness:
  "activate token_hash 31 ''tok'' (at_time (2000 + minutes 10)) opened_db =
     (login_error ''Login link is unavailable.'', opened_db)"
proof -
  have "case get_login opened_db 31 of None \<Rightarrow> False
    | Some s \<Rightarrow> ls_expires_at s \<le> at_time (2000 + minutes 10) 0"
    by code_simp
  then show ?thesis using activate_outcome [OF opened_db_ok] by (auto split: option.splits)
qed

section \<open>The account is given back\<close>

lemma constraints_closed:
  assumes ok: "logins_ok d" and s: "s \<in> set (login_sessions d)"
    and closed: "session_closed s (f s) g d d'"
    and f: "\<And>r. login_ident (f r) = login_ident r \<and> \<not> session_open (f r) \<and>
        varchar_null 64 (ls_reason_code (f r))"
    and g: "\<And>a. varchar_null 64 (acc_reason_code (g a))"
  shows "constraints_ok d'"
proof -
  note c = logins_okD(1) [OF ok, unfolded constraint_defs]
  note cl = closed [unfolded session_closed_def]
  have ident: "ls_id (f r) = ls_id r" "ls_account_id (f r) = ls_account_id r"
    "ls_launch_token_hash (f r) = ls_launch_token_hash r" for r
    using f [of r] by (simp_all add: login_ident_def)
  have "update_rows ls_id (ls_id s) (\<lambda>_. f s) (login_sessions d) =
      update_rows ls_id (ls_id s) f (login_sessions d)"
    using unique_colD [OF logins_okD(2) [OF ok] _ s] by (auto intro!: update_rows_cong)
  with cl have rows: "login_sessions d' = update_rows ls_id (ls_id s) f (login_sessions d)"
    "accounts d' = update_rows acc_id (ls_account_id s) g (accounts d)"
    "reels d' = reels d" "reel_views d' = reel_views d" "runs d' = runs d"
    "run_items d' = run_items d" "jobs d' = jobs d" "videos d' = videos d"
    by simp_all
  have ids: "acc_id ` set (accounts d') = acc_id ` set (accounts d)"
    using cl by (metis list.set_map map_update_rows rows(2))
  have "list_all login_session_fits (login_sessions d')" "list_all login_session_ok (login_sessions d')"
    "list_all account_fits (accounts d')"
    using c f g ident
    by (auto simp: list_all_iff rows(1,2) in_update_rows login_session_fits_def account_fits_def
        login_session_ok_def)
  moreover have "unique_where session_open ls_account_id (login_sessions d')"
    unfolding rows(1) using c f by (auto intro!: unique_where_update)
  moreover have "unique_col ls_id (login_sessions d')" "unique_col ls_launch_token_hash (login_sessions d')"
    "unique_col acc_id (accounts d')"
    unfolding rows(1,2) using c conjunct2 [OF cl] ident by (simp_all add: unique_col_update)
  moreover have "\<forall>q \<in> set (login_sessions d'). ls_account_id q \<in> acc_id ` set (accounts d')"
    unfolding ids using c ident by (auto simp: rows(1) in_update_rows)
  ultimately show ?thesis
    using c ids by (simp add: constraint_defs rows(3-))
qed

lemma login_reasons_fit [simp]:
  "varchar_null 64 (ls_reason_code (expired_session now s))"
  "varchar_null 64 (ls_reason_code (cancelled_session now s))"
  by (simp_all add: varchar_null_def varchar_def expired_session_def cancelled_session_def)

lemma constraints_given_back:
  assumes "logins_ok d" "s \<in> set (login_sessions d)"
    "session_closed s s' (given_back s') d d'"
    "s' = expired_session now s \<or> s' = cancelled_session now s"
  shows "constraints_ok d'"
  using assms(4)
proof
  assume s': "s' = expired_session now s"
  show ?thesis
    by (rule constraints_closed [where f = "expired_session now", OF assms(1,2) assms(3) [unfolded s']])
      (auto simp: given_back_def expired_session_def login_ident_def varchar_null_def varchar_def)
next
  assume s': "s' = cancelled_session now s"
  show ?thesis
    by (rule constraints_closed [where f = "cancelled_session now", OF assms(1,2) assms(3) [unfolded s']])
      (auto simp: given_back_def cancelled_session_def login_ident_def varchar_null_def varchar_def)
qed

lemma session_closed_get:
  assumes "logins_ok d" "get_login d i = Some s" "session_closed s s' g d d'"
  shows "get_login d' i = Some s'"
    "get_account d' (ls_account_id s) = map_option g (get_account d (ls_account_id s))"
  using assms get_loginD [OF assms(2)]
  by (auto simp: session_closed_def lookup_update_rows login_ident_def)



section \<open>How a session is lost\<close>

lemma restore_account_stuck:
  assumes "\<not> restorable d s" "ls_account_id s' = ls_account_id s"
    "ls_prior_account_status s' = ls_prior_account_status s"
  shows "\<exists>e. restore_account s' (update_login i f d) = Inl e"
  using assms
  by (auto simp: restore_account_def restorable_def moves_def require_def Let_def
      require_transition_def update_login_def split: option.splits)

lemma expire_locked_stuck:
  assumes "\<not> restorable d s" "session_open s"
  shows "(\<exists>e. expire_locked now s d = Inl e) \<or>
    (now 0 < ls_expires_at s \<and> expire_locked now s d = Inr (s, d))"
proof (cases "ls_expires_at s \<le> now 0")
  case True
  let ?s = "expired_session now s"
  obtain e where "restore_account ?s (update_login (ls_id s) (\<lambda>_. ?s) d) = Inl e"
    using restore_account_stuck [OF assms(1), of ?s "ls_id s" "\<lambda>_. ?s"]
    by (auto simp: expired_session_def)
  with True assms(2) show ?thesis by (simp add: expire_locked_def expired_session_def Let_def)
qed (simp add: expire_locked_def)

lemma cancel_stuck:
  assumes "get_login d i = Some s" "session_open s" "\<not> restorable d s"
  shows "\<exists>e. cancel_in_transaction i now d = Inl e"
proof -
  let ?s = "cancelled_session now s"
  obtain e where "restore_account ?s (update_login i (\<lambda>_. ?s) d) = Inl e"
    using restore_account_stuck [OF assms(3), of ?s i "\<lambda>_. ?s"] by (auto simp: cancelled_session_def)
  with expire_locked_stuck [OF assms(3,2), of now] assms(1,2) show ?thesis
    by (auto simp: cancel_in_transaction_def cancelled_session_def Let_def)
qed

lemma create_stuck:
  assumes "constraints_ok d" "get_login d i = Some s" "session_open s" "\<not> restorable d s"
  shows "\<exists>e. create_in_transaction sha (ls_account_id s) ttl check token fresh now d = Inl e"
proof -
  let ?f = "filter (\<lambda>q. ls_account_id q = ls_account_id s \<and> session_open q) (login_sessions d)"
  have "unique_where session_open ls_account_id (login_sessions d)"
    using assms(1) by (simp add: constraint_defs)
  moreover have "s \<in> set ?f" using lookup_row_SomeD [OF assms(2)] assms(3) by simp
  ultimately have "?f = [s]"
    using one_open_session [of d "ls_account_id s"] by (metis list.set_cases list.simps(15) empty_iff
        list.set(1) singletonD)
  with expire_locked_stuck [OF assms(4,3), of "\<lambda>k. now (k + 1)"] assms(3) show ?thesis
    by (auto simp: create_in_transaction_def login_error_def)
qed

text \<open>
  A session is lost when the status of its account is changed under it to one that the policy
  does not lead back from. As long as that is so, no call cancels or completes it, reading its
  status raises once its time is over, and no session can be created for the account; every one of
  these calls leaves the database as it is.
\<close>

theorem lost_session:
  assumes "constraints_ok d" "get_login d i = Some s" "session_open s" "\<not> restorable d s"
  shows "(\<exists>e. cancel_login i now d = (Inl e, d)) \<and>
    (\<exists>e. create_login sha (ls_account_id s) ttl check token fresh now d = (Inl e, d)) \<and>
    (now 0 < ls_expires_at s \<or> (\<exists>e. login_status i now d = (Inl e, d)))"
proof (intro conjI)
  show "\<exists>e. cancel_login i now d = (Inl e, d)"
    using cancel_stuck [OF assms(2-), of now] by (auto simp: cancel_login_def transaction_def)
  obtain e where "create_in_transaction sha (ls_account_id s) ttl check token fresh now d = Inl e"
    using create_stuck [OF assms] by blast
  then show "\<exists>e. create_login sha (ls_account_id s) ttl check token fresh now d = (Inl e, d)"
    by (simp add: create_login_def transaction_def login_error_def)
  show "now 0 < ls_expires_at s \<or> (\<exists>e. login_status i now d = (Inl e, d))"
    using expire_locked_stuck [OF assms(4,3), of now] assms(2,3)
    by (auto simp: login_status_def transaction_def)
qed

definition connected_db :: db where
  "connected_db = empty_db\<lparr>accounts := [(new_account 7)\<lparr>acc_status := AccountStatus.CONNECTED\<rparr>]\<rparr>"

text \<open>A profile check of a connected account, and a Collector run that then meets a checkpoint.\<close>

definition lost_db :: db where
  "lost_db = snd (set_account_status 7 AccountStatus.REAUTH_REQUIRED (Some ''CHECKPOINT_REQUIRED'') 1500
     (snd (create_login token_hash 7 (minutes 10) True ''tok'' 31 (at_time 1000) connected_db)))"

theorem lost_session_witness:
  "\<exists>e. cancel_login 31 (at_time 2000) lost_db = (Inl e, lost_db)"
proof -
  have "constraints_ok lost_db" by code_simp
  moreover have "case get_login lost_db 31 of None \<Rightarrow> False | Some s \<Rightarrow> session_open s \<and> \<not> restorable lost_db s"
    by code_simp
  ultimately show ?thesis using lost_session [of lost_db 31] by (auto split: option.splits)
qed

end
