(* ===== verification/FeedSource.thy ===== *)
theory FeedSource
  imports Canonical Json
begin

text \<open>
  \<open>apps/api/app/instagram/collector/runtime/feed_json.py\<close>: the bounded queue of canonical Reel
  codes that the browser feed fills from JSON responses and the scripts of the page. The bounded
  traversals of a JSON document keep an explicit stack; its top is the head of a list here. The
  dictionaries of counters, which only diagnostics read, are functions on their keys.
\<close>

section \<open>State\<close>

type_synonym counters = "string \<Rightarrow> int"

definition bump :: "string \<Rightarrow> int \<Rightarrow> counters \<Rightarrow> counters" where
  "bump key n c = c(key := c key + n)"

record feed_source =
  fs_codes :: "(int \<times> string) list"
  fs_known_codes :: "string set"
  fs_known_order :: "string list"
  fs_observation :: int
  fs_source_classes :: counters
  fs_non_json_response_classes :: counters
  fs_schema_counts :: counters

definition max_codes :: nat where "max_codes = 32"
definition max_known_codes :: nat where "max_known_codes = 64"
definition max_visited :: int where "max_visited = 20000"
definition max_schema_responses :: int where "max_schema_responses = 2"

definition canonical_code_keys :: "string list" where
  "canonical_code_keys = [''code'', ''shortcode'', ''media_code'']"

text \<open>A response of the page: its content type, its address, and what \<open>json()\<close> gives.\<close>

record json_response =
  rs_content_type :: "string option"
  rs_url :: "string option"
  rs_json :: "json result"

definition new_feed_source :: feed_source where
  "new_feed_source = \<lparr>fs_codes = [], fs_known_codes = {}, fs_known_order = [], fs_observation = 0,
     fs_source_classes = (\<lambda>_. 0), fs_non_json_response_classes = (\<lambda>_. 0), fs_schema_counts = (\<lambda>_. 0)\<rparr>"

section \<open>Remembering and queueing\<close>

definition remember :: "string \<Rightarrow> feed_source \<Rightarrow> feed_source" where
  "remember code s =
     (if code \<in> fs_known_codes s then s
      else
        let order = fs_known_order s @ [code]; known = insert code (fs_known_codes s) in
        if length order > max_known_codes
        then s\<lparr>fs_known_codes := known - {hd order}, fs_known_order := tl order\<rparr>
        else s\<lparr>fs_known_codes := known, fs_known_order := order\<rparr>)"

definition enqueue :: "int \<Rightarrow> string \<Rightarrow> feed_source \<Rightarrow> feed_source" where
  "enqueue observation code s =
     (let codes = fs_codes s @ [(observation, code)] in
      s\<lparr>fs_codes := (if length codes > max_codes then tl codes else codes)\<rparr>)"

text \<open>A value that is a new canonical code is remembered and queued.\<close>

definition offer :: "int \<Rightarrow> json option \<Rightarrow> feed_source \<Rightarrow> feed_source" where
  "offer observation v s =
     (case as_string v of
        None \<Rightarrow> s
      | Some code \<Rightarrow>
          if \<not> shortcode_match code \<or> code \<in> fs_known_codes s then s
          else enqueue observation code (remember code s))"

definition checkpoint :: "feed_source \<Rightarrow> int" where
  "checkpoint s = fs_observation s"

definition reset_for_feed_navigation :: "feed_source \<Rightarrow> feed_source" where
  "reset_for_feed_navigation s = s\<lparr>fs_codes := [], fs_observation := 0\<rparr>"

definition queue_diagnostics :: "feed_source \<Rightarrow> int \<times> int" where
  "queue_diagnostics s = (int (length (fs_codes s)), int (card (fs_known_codes s)))"

definition feed_candidate :: "string \<Rightarrow> reel_candidate" where
  "feed_candidate code = \<lparr>shortcode = code, canonical_url = built_url code\<rparr>"

text \<open>The first queued code with the property leaves the queue.\<close>

definition take_code :: "(int \<times> string \<Rightarrow> bool) \<Rightarrow> feed_source \<Rightarrow> reel_candidate option \<times> feed_source" where
  "take_code wanted s =
     (case List.extract wanted (fs_codes s) of
        None \<Rightarrow> (None, s)
      | Some (front, (_, code), rest) \<Rightarrow> (Some (feed_candidate code), s\<lparr>fs_codes := front @ rest\<rparr>))"

definition next_after :: "string \<Rightarrow> int \<Rightarrow> feed_source \<Rightarrow> reel_candidate option \<times> feed_source" where
  "next_after previous after_observation =
     take_code (\<lambda>(observation, code). \<not> (observation \<le> after_observation \<or> code = previous))"

definition next_from_current_feed :: "string \<Rightarrow> feed_source \<Rightarrow> reel_candidate option \<times> feed_source" where
  "next_from_current_feed previous = take_code (\<lambda>(_, code). code \<noteq> previous)"

definition next_embedded_from_current_feed :: "string \<Rightarrow> feed_source \<Rightarrow> reel_candidate option \<times> feed_source" where
  "next_embedded_from_current_feed previous =
     take_code (\<lambda>(observation, code). \<not> (observation \<noteq> 0 \<or> code = previous))"

definition observed_after :: "int \<Rightarrow> feed_source \<Rightarrow> bool" where
  "observed_after observation s \<longleftrightarrow> fs_observation s > observation"

definition observe_embedded_candidates :: "json \<Rightarrow> feed_source \<Rightarrow> feed_source" where
  "observe_embedded_candidates payload s =
     (case payload of
        JList codes \<Rightarrow> fold (\<lambda>code. offer 0 (Some code)) (take max_codes codes) s
      | _ \<Rightarrow> s)"

definition mark_used :: "string \<Rightarrow> feed_source \<Rightarrow> feed_source" where
  "mark_used code s =
     (if \<not> shortcode_match code then s
      else (let t = remember code s in t\<lparr>fs_codes := filter (\<lambda>(_, c). c \<noteq> code) (fs_codes t)\<rparr>))"

section \<open>Walking a document\<close>

text \<open>What a visited object or list puts on the stack.\<close>

fun children :: "json \<Rightarrow> json list" where
  "children (JList xs) = xs"
| "children (JObj es) = map snd es"
| "children _ = []"

lemma nodes_children: "nodes v = Suc (sum_list (map nodes (children v)))"
  by (cases v) (simp_all add: o_def)

function walk :: "(json \<Rightarrow> 's \<Rightarrow> 's) \<Rightarrow> int \<Rightarrow> json list \<Rightarrow> 's \<Rightarrow> 's" where
  "walk visit visited [] s = s"
| "walk visit visited (v # stack) s =
     (if visited < max_visited
      then walk visit (visited + 1) (children v @ stack) (visit v s)
      else s)"
  by pat_completeness auto
termination
  by (relation "measure (\<lambda>(_, _, stack, _). sum_list (map nodes stack))") (auto simp: nodes_children)

declare walk.simps(2) [simp del]

fun code_values :: "json \<Rightarrow> json option list" where
  "code_values (JObj es) = map (dict_get es) canonical_code_keys"
| "code_values _ = []"

definition canonical_shaped :: "json \<Rightarrow> bool" where
  "canonical_shaped v = (case as_string (Some v) of None \<Rightarrow> False | Some code \<Rightarrow> shortcode_match code)"

definition count_shaped :: "json list \<Rightarrow> int" where
  "count_shaped vs = int (length (filter canonical_shaped vs))"

text \<open>
  \<open>word in str(value).lower()\<close> for a word of small letters that occurs in the \<open>str\<close> of no number
  and no constant: quotes, brackets and escapes split no such word and make none.
\<close>

fun text_mentions :: "string \<Rightarrow> json \<Rightarrow> bool" where
  "text_mentions word (JStr s) = contains word (lower s)"
| "text_mentions word (JList xs) = list_ex (text_mentions word) xs"
| "text_mentions word (JObj es) = list_ex (\<lambda>(k, v). contains word (lower k) \<or> text_mentions word v) es"
| "text_mentions word _ = False"

definition is_media_node :: "(string \<times> json) list \<Rightarrow> bool" where
  "is_media_node es \<longleftrightarrow>
     as_string (dict_get es ''id'') \<noteq> None \<and>
     (case dict_get es ''__typename'' of
        None \<Rightarrow> False
      | Some t \<Rightarrow> text_mentions ''media'' t \<or> text_mentions ''video'' t)"

definition bump_schema :: "string \<Rightarrow> int \<Rightarrow> feed_source \<Rightarrow> feed_source" where
  "bump_schema key n s = s\<lparr>fs_schema_counts := bump key n (fs_schema_counts s)\<rparr>"

text \<open>One round of the loop of \<open>_collect\<close>.\<close>

fun collect_node :: "int \<Rightarrow> json \<Rightarrow> feed_source \<Rightarrow> feed_source" where
  "collect_node observation (JObj es) s =
     (let s = (if is_media_node es
               then bump_schema ''canonical_shaped_values'' (count_shaped (map snd es))
                      (bump_schema ''media_nodes'' 1 s)
               else s)
      in fold (offer observation) (code_values (JObj es)) s)"
| "collect_node observation _ s = s"

definition collect_codes :: "int \<Rightarrow> json \<Rightarrow> feed_source \<Rightarrow> feed_source" where
  "collect_codes observation payload = walk (collect_node observation) 0 [payload]"

section \<open>Diagnostics\<close>

definition count_code_values :: "json \<Rightarrow> int" where
  "count_code_values v = count_shaped (List.map_filter id (code_values v))"

definition inspect_tree_aliases :: "string \<Rightarrow> json \<Rightarrow> feed_source \<Rightarrow> feed_source" where
  "inspect_tree_aliases source_class payload s =
     (let response_key = source_class @ ''_schema_responses'';
          alias_key = source_class @ ''_tree_allowed_canonical_alias_values'' in
      if fs_schema_counts s response_key \<ge> max_schema_responses then s
      else walk (\<lambda>v. bump_schema alias_key (count_code_values v)) 0 [payload] (bump_schema response_key 1 s))"

fun web_api_node :: "json \<Rightarrow> feed_source \<Rightarrow> feed_source" where
  "web_api_node (JObj es) s =
     (let s = bump_schema ''web_api_tree_allowed_canonical_alias_values'' (count_code_values (JObj es)) s in
      if dict_get es ''media_type'' \<noteq> None \<or> dict_get es ''video_versions'' \<noteq> None
      then bump_schema ''web_api_allowed_canonical_alias_values'' (count_code_values (JObj es))
             (bump_schema ''web_api_canonical_shaped_values'' (count_shaped (map snd es))
               (bump_schema ''web_api_media_nodes'' 1 s))
      else s)"
| "web_api_node _ s = s"

definition inspect_web_api_schema_response :: "json_response \<Rightarrow> feed_source \<Rightarrow> feed_source" where
  "inspect_web_api_schema_response response s =
     (if fs_schema_counts s ''web_api_schema_responses'' \<ge> max_schema_responses then s
      else
        let s = bump_schema ''web_api_schema_responses'' 1 s in
        case rs_json response of
          Inl _ \<Rightarrow> s
        | Inr payload \<Rightarrow> walk web_api_node 0 [payload] s)"

section \<open>Responses\<close>

definition non_json_class :: "string \<Rightarrow> string" where
  "non_json_class content_type =
     (if contains ''html'' content_type then ''html''
      else if contains ''javascript'' content_type \<or> contains ''ecmascript'' content_type
      then ''javascript'' else ''other'')"

definition source_class :: "string \<Rightarrow> string" where
  "source_class url =
     (if contains ''graphql'' url then ''graphql''
      else if contains ''/api/'' url then ''web_api'' else ''other'')"

text \<open>The handler of a response; an exception of \<open>json()\<close> ends it where it is raised.\<close>

definition observe_response :: "json_response \<Rightarrow> feed_source \<Rightarrow> feed_source" where
  "observe_response response s =
     (let content_type = lower (case rs_content_type response of None \<Rightarrow> [] | Some t \<Rightarrow> t) in
      if \<not> contains ''json'' content_type
      then s\<lparr>fs_non_json_response_classes :=
               bump (non_json_class content_type) 1 (fs_non_json_response_classes s)\<rparr>
      else
        let cls = source_class (lower (case rs_url response of None \<Rightarrow> [] | Some u \<Rightarrow> u));
            s = s\<lparr>fs_source_classes := bump cls 1 (fs_source_classes s)\<rparr> in
        if cls = ''web_api'' then inspect_web_api_schema_response response s
        else if cls = ''other'' then
          (case rs_json response of Inl _ \<Rightarrow> s | Inr payload \<Rightarrow> inspect_tree_aliases ''other'' payload s)
        else
          (case rs_json response of
             Inl _ \<Rightarrow> s
           | Inr payload \<Rightarrow>
               let s = inspect_tree_aliases ''graphql'' payload s;
                   s = s\<lparr>fs_observation := fs_observation s + 1\<rparr>
               in collect_codes (fs_observation s) payload s))"

end
