(* ===== verification/FeedProps.thy ===== *)
theory FeedProps
  imports FeedSource
begin

text \<open>
  The feed queue: its traversals visit a document in order and stop at the bound, its sizes stay
  bounded along every history, and what it hands out is new and acceptable.
\<close>

section \<open>Documents in order\<close>

fun preorder :: "json \<Rightarrow> json list" where
  "preorder (JList xs) = JList xs # concat (map preorder xs)"
| "preorder (JObj es) = JObj es # concat (map (\<lambda>e. preorder (snd e)) es)"
| "preorder v = [v]"

lemma preorder_children: "preorder v = v # concat (map preorder (children v))"
  by (cases v) (simp_all add: o_def)

text \<open>The loop with its stack is a fold over the first nodes of the documents on the stack.\<close>

lemma walk_preorder:
  "walk visit n stack s =
     fold visit (take (nat (max_visited - n)) (concat (map preorder stack))) s"
proof (induction visit n stack s rule: walk.induct)
  case (2 visit n v stack s)
  show ?case
  proof (cases "n < max_visited")
    case True
    then have "nat (max_visited - n) = Suc (nat (max_visited - (n + 1)))" by simp
    with True 2 show ?thesis by (simp add: walk.simps(2) preorder_children [of v])
  qed (simp add: walk.simps(2))
qed simp

lemma walk_document: "walk visit 0 [v] s = fold visit (take 20000 (preorder v)) s"
  by (simp add: walk_preorder max_visited_def)

lemma offer_schema [simp]:
  "offer ob v (s\<lparr>fs_schema_counts := c\<rparr>) = (offer ob v s)\<lparr>fs_schema_counts := c\<rparr>"
  by (simp add: offer_def enqueue_def remember_def Let_def split: option.splits)

lemma fold_offer_schema [simp]:
  "fold (offer ob) vs (s\<lparr>fs_schema_counts := c\<rparr>) = (fold (offer ob) vs s)\<lparr>fs_schema_counts := c\<rparr>"
  by (induction vs arbitrary: s) simp_all

lemma collect_node_offers:
  "\<exists>c. collect_node ob v s = (fold (offer ob) (code_values v) s)\<lparr>fs_schema_counts := c\<rparr>"
proof (cases v)
  case (JObj es)
  show ?thesis
  proof (cases "is_media_node es")
    case True
    then show ?thesis using JObj by (auto simp: bump_schema_def Let_def)
  next
    case False
    then show ?thesis using JObj
      by (intro exI [of _ "fs_schema_counts (fold (offer ob) (code_values v) s)"]) simp
  qed
qed (auto intro: exI [of _ "fs_schema_counts s"])

lemma fold_collect_node:
  "\<exists>c. fold (collect_node ob) vs s = (fold (offer ob) (concat (map code_values vs)) s)\<lparr>fs_schema_counts := c\<rparr>"
proof (induction vs arbitrary: s)
  case Nil
  show ?case by (rule exI [of _ "fs_schema_counts s"]) simp
next
  case (Cons v vs)
  obtain c where c: "collect_node ob v s = (fold (offer ob) (code_values v) s)\<lparr>fs_schema_counts := c\<rparr>"
    using collect_node_offers by blast
  obtain c' where "fold (collect_node ob) vs (fold (offer ob) (code_values v) s) =
      (fold (offer ob) (concat (map code_values vs)) (fold (offer ob) (code_values v) s))\<lparr>fs_schema_counts := c'\<rparr>"
    using Cons.IH by blast
  obtain d where "fold (collect_node ob) vs ((fold (offer ob) (code_values v) s)\<lparr>fs_schema_counts := c\<rparr>) =
      (fold (offer ob) (concat (map code_values vs)) ((fold (offer ob) (code_values v) s)\<lparr>fs_schema_counts := c\<rparr>))
      \<lparr>fs_schema_counts := d\<rparr>"
    using Cons.IH by blast
  then show ?case using c by (intro exI [of _ d]) simp
qed

text \<open>
  C25: Collecting the codes of a document, a loop over an explicit stack that gives up after twenty
  thousand visited values, is the same as offering the values under the three canonical keys of the
  first twenty thousand nodes in document order; only the diagnostic counters differ.
\<close>

theorem collect_codes_in_order:
  "collect_codes observation payload s =
     (fold (offer observation) (concat (map code_values (take 20000 (preorder payload)))) s)
       \<lparr>fs_schema_counts := fs_schema_counts (collect_codes observation payload s)\<rparr>"
proof -
  obtain c where "collect_codes observation payload s =
      (fold (offer observation) (concat (map code_values (take 20000 (preorder payload)))) s)
        \<lparr>fs_schema_counts := c\<rparr>"
    using fold_collect_node unfolding collect_codes_def walk_document by blast
  then show ?thesis by simp
qed

section \<open>Histories\<close>

definition feed_ok :: "feed_source \<Rightarrow> bool" where
  "feed_ok s \<longleftrightarrow>
     length (fs_codes s) \<le> max_codes \<and> length (fs_known_order s) \<le> max_known_codes \<and>
     distinct (fs_known_order s) \<and> fs_known_codes s = set (fs_known_order s) \<and>
     list_all shortcode_match (fs_known_order s) \<and> list_all (\<lambda>(_, c). shortcode_match c) (fs_codes s)"

text \<open>
  While fewer codes than the memory holds are known, no code was forgotten: those handed out and
  those queued are known and differ.
\<close>

definition fresh_codes :: "feed_source \<Rightarrow> string list \<Rightarrow> bool" where
  "fresh_codes s given \<longleftrightarrow>
     (length (fs_known_order s) < max_known_codes \<longrightarrow>
      distinct (given @ map snd (fs_codes s)) \<and>
      set (given @ map snd (fs_codes s)) \<subseteq> fs_known_codes s)"

definition history_ok :: "string list \<Rightarrow> feed_source \<Rightarrow> bool" where
  "history_ok given s \<longleftrightarrow> feed_ok s \<and> fresh_codes s given"

lemma history_ok_cong:
  "fs_codes t = fs_codes s \<Longrightarrow> fs_known_codes t = fs_known_codes s \<Longrightarrow>
   fs_known_order t = fs_known_order s \<Longrightarrow> history_ok given t = history_ok given s"
  by (simp add: history_ok_def feed_ok_def fresh_codes_def)

lemma history_ok_diagnostics [simp]:
  "history_ok given (s\<lparr>fs_non_json_response_classes := a\<rparr>) = history_ok given s"
  "history_ok given (s\<lparr>fs_source_classes := a\<rparr>) = history_ok given s"
  "history_ok given (s\<lparr>fs_schema_counts := a\<rparr>) = history_ok given s"
  "history_ok given (s\<lparr>fs_observation := n\<rparr>) = history_ok given s"
  by (rule history_ok_cong; simp)+

lemma remember_known: "code \<in> fs_known_codes s \<Longrightarrow> remember code s = s"
  by (simp add: remember_def)

lemma remember_codes [simp]: "fs_codes (remember code s) = fs_codes s"
  by (simp add: remember_def Let_def)

lemma remember_keeps:
  assumes "history_ok given s" "shortcode_match code"
  shows "history_ok given (remember code s)"
proof (cases "code \<in> fs_known_codes s")
  case False
  have ok: "distinct (fs_known_order s)" "fs_known_codes s = set (fs_known_order s)"
      "length (fs_known_order s) \<le> max_known_codes"
    using assms(1) by (simp_all add: history_ok_def feed_ok_def)
  have fresh: "code \<notin> set (fs_known_order s)" using False ok(2) by simp
  show ?thesis
  proof (cases "length (fs_known_order s) < max_known_codes")
    case True
    then have r: "remember code s =
        s\<lparr>fs_known_codes := insert code (fs_known_codes s), fs_known_order := fs_known_order s @ [code]\<rparr>"
      using False by (simp add: remember_def Let_def)
    show ?thesis
      using assms True fresh unfolding r history_ok_def feed_ok_def fresh_codes_def by auto
  next
    case full: False
    with ok(3) have len: "length (fs_known_order s) = max_known_codes" by simp
    then obtain x xs where order: "fs_known_order s = x # xs"
      by (cases "fs_known_order s") (simp_all add: max_known_codes_def)
    have r: "remember code s =
        s\<lparr>fs_known_codes := insert code (fs_known_codes s) - {x}, fs_known_order := xs @ [code]\<rparr>"
      using False len order by (simp add: remember_def Let_def)
    have "set (xs @ [code]) = insert code (fs_known_codes s) - {x}"
      using ok(1,2) fresh order by auto
    then show ?thesis
      using assms len ok fresh unfolding r history_ok_def feed_ok_def fresh_codes_def order by simp
  qed
qed (simp add: remember_known assms)

lemma remember_new:
  assumes "feed_ok s" "code \<notin> fs_known_codes s" "length (fs_known_order (remember code s)) < max_known_codes"
  shows "fs_known_codes (remember code s) = insert code (fs_known_codes s)"
    "length (fs_known_order s) < max_known_codes"
  using assms by (auto simp: remember_def Let_def split: if_splits)

lemma enqueue_keeps:
  assumes s: "history_ok given s" and code: "shortcode_match code" "code \<notin> fs_known_codes s"
  shows "history_ok given (enqueue ob code (remember code s))"
proof -
  let ?t = "remember code s" and ?q = "fs_codes s @ [(ob, code)]"
  have ok: "feed_ok ?t" "feed_ok s"
    using remember_keeps [OF s code(1)] s by (simp_all add: history_ok_def)
  have queue: "fs_codes (enqueue ob code ?t) = (if length ?q > max_codes then tl ?q else ?q)"
    by (simp add: enqueue_def Let_def)
  have sub: "set (fs_codes (enqueue ob code ?t)) \<subseteq> set ?q" "distinct (given @ map snd ?q) \<Longrightarrow>
      distinct (given @ map snd (fs_codes (enqueue ob code ?t)))"
    unfolding queue by (cases "fs_codes s"; auto)+
  then have snds: "snd ` set (fs_codes (enqueue ob code ?t)) \<subseteq> insert code (snd ` set (fs_codes s))"
    by (metis (no_types, lifting) image_mono image_insert list.simps(15) rotate1.simps(2) set_rotate1 snd_conv)
  have "feed_ok (enqueue ob code ?t)"
    using ok sub(1) code(1) by (auto simp: feed_ok_def enqueue_def Let_def list_all_iff)
  moreover have "fresh_codes (enqueue ob code ?t) given"
    unfolding fresh_codes_def
  proof (intro impI)
    assume "length (fs_known_order (enqueue ob code ?t)) < max_known_codes"
    then have short: "length (fs_known_order ?t) < max_known_codes" by (simp add: enqueue_def Let_def)
    note new = remember_new [OF ok(2) code(2) short]
    have fresh: "distinct (given @ map snd (fs_codes s))" "set (given @ map snd (fs_codes s)) \<subseteq> fs_known_codes s"
      using s new(2) by (simp_all add: history_ok_def fresh_codes_def)
    have "distinct (given @ map snd ?q)" using fresh code(2) by auto
    moreover have "fs_known_codes (enqueue ob code ?t) = insert code (fs_known_codes s)"
      using new(1) by (simp add: enqueue_def Let_def)
    moreover have "set given \<subseteq> fs_known_codes s" "snd ` set (fs_codes s) \<subseteq> fs_known_codes s"
      using fresh(2) by auto
    then have "set given \<union> snd ` set (fs_codes (enqueue ob code ?t)) \<subseteq> insert code (fs_known_codes s)"
      using snds by (meson Un_least insert_mono order_trans subset_insertI)
    ultimately show "distinct (given @ map snd (fs_codes (enqueue ob code ?t))) \<and>
        set (given @ map snd (fs_codes (enqueue ob code ?t))) \<subseteq> fs_known_codes (enqueue ob code ?t)"
      using sub(2) by (simp only: set_append set_map)
  qed
  ultimately show ?thesis by (simp add: history_ok_def)
qed

lemma offer_keeps: "history_ok given s \<Longrightarrow> history_ok given (offer ob v s)"
  by (auto simp: offer_def enqueue_keeps split: option.splits)

lemma fold_keeps: "(\<And>x t. P t \<Longrightarrow> P (f x t)) \<Longrightarrow> P s \<Longrightarrow> P (fold f xs s)"
  by (induction xs arbitrary: s) simp_all

lemma walk_keeps:
  fixes P :: "feed_source \<Rightarrow> bool"
  shows "(\<And>v t. P t \<Longrightarrow> P (visit v t)) \<Longrightarrow> P s \<Longrightarrow> P (walk visit 0 [v] s)"
  unfolding walk_document by (rule fold_keeps)

lemma bump_schema_keeps: "history_ok given (bump_schema k n s) = history_ok given s"
  by (rule history_ok_cong) (simp_all add: bump_schema_def)

lemma collect_keeps: "history_ok given s \<Longrightarrow> history_ok given (collect_codes ob payload s)"
  unfolding collect_codes_def
proof (rule walk_keeps [where P = "history_ok given"])
  fix v t assume "history_ok given t"
  then show "history_ok given (collect_node ob v t)"
    by (cases v) (auto simp: Let_def bump_schema_keeps intro!: fold_keeps [where P = "history_ok given"] offer_keeps)
qed

lemma web_api_node_keeps: "history_ok given s \<Longrightarrow> history_ok given (web_api_node v s)"
  by (cases v) (simp_all add: Let_def bump_schema_keeps)

lemma inspect_keeps:
  "history_ok given s \<Longrightarrow> history_ok given (inspect_tree_aliases cls payload s)"
  "history_ok given s \<Longrightarrow> history_ok given (inspect_web_api_schema_response response s)"
  by (auto simp: inspect_tree_aliases_def inspect_web_api_schema_response_def Let_def bump_schema_keeps
      intro!: walk_keeps [where P = "history_ok given"] web_api_node_keeps split: sum.splits)

lemma observe_keeps: "history_ok given s \<Longrightarrow> history_ok given (observe_response response s)"
  unfolding observe_response_def Let_def
  by (auto intro!: inspect_keeps collect_keeps split: sum.split)

lemma mark_used_keeps: "history_ok given s \<Longrightarrow> history_ok given (mark_used code s)"
proof -
  assume s: "history_ok given s"
  have "history_ok given (t\<lparr>fs_codes := filter P (fs_codes t)\<rparr>)" if t: "history_ok given t" for t P
  proof -
    have "length (filter P (fs_codes t)) \<le> max_codes"
      using t order_trans [OF length_filter_le] unfolding history_ok_def feed_ok_def by blast
    then show ?thesis
      using t by (auto simp: history_ok_def feed_ok_def fresh_codes_def list_all_iff distinct_map_filter)
  qed
  from this [OF remember_keeps [OF s]] show ?thesis using s by (auto simp: mark_used_def Let_def)
qed

text \<open>What a reservation hands out was queued, and is queued no more.\<close>

lemma take_codeD:
  assumes "take_code wanted s = (Some c, t)"
  obtains front ob code rest where "fs_codes s = front @ (ob, code) # rest" "wanted (ob, code)"
    "list_all (\<lambda>x. \<not> wanted x) front" "c = feed_candidate code" "t = s\<lparr>fs_codes := front @ rest\<rparr>"
proof -
  from assms obtain front ob code rest where x: "List.extract wanted (fs_codes s) = Some (front, (ob, code), rest)"
    "c = feed_candidate code" "t = s\<lparr>fs_codes := front @ rest\<rparr>"
    by (auto simp: take_code_def split: option.splits)
  from x(1) have "fs_codes s = front @ (ob, code) # rest" "wanted (ob, code)"
    "list_all (\<lambda>x. \<not> wanted x) front"
    by (auto simp: extract_Some_iff list_all_iff)
  with x(2,3) that show ?thesis by blast
qed

lemma take_code_keeps:
  assumes "history_ok given s" "take_code wanted s = (Some c, t)"
  shows "history_ok (given @ [shortcode c]) t"
proof -
  obtain front ob code rest where t: "fs_codes s = front @ (ob, code) # rest" "c = feed_candidate code"
    "t = s\<lparr>fs_codes := front @ rest\<rparr>"
    using assms(2) by (rule take_codeD)
  with assms(1) show ?thesis
    by (auto simp: history_ok_def feed_ok_def fresh_codes_def feed_candidate_def)
qed

text \<open>The histories of a feed source, with the codes it handed out.\<close>

inductive feed_history :: "string list \<Rightarrow> feed_source \<Rightarrow> bool" where
  opened: "feed_history [] new_feed_source"
| observed: "feed_history given s \<Longrightarrow> feed_history given (observe_response response s)"
| embedded: "feed_history given s \<Longrightarrow> feed_history given (observe_embedded_candidates payload s)"
| marked: "feed_history given s \<Longrightarrow> feed_history given (mark_used code s)"
| navigated: "feed_history given s \<Longrightarrow> feed_history given (reset_for_feed_navigation s)"
| after: "feed_history given s \<Longrightarrow> next_after prev boundary s = (Some c, t) \<Longrightarrow>
    feed_history (given @ [shortcode c]) t"
| current: "feed_history given s \<Longrightarrow> next_from_current_feed prev s = (Some c, t) \<Longrightarrow>
    feed_history (given @ [shortcode c]) t"
| script: "feed_history given s \<Longrightarrow> next_embedded_from_current_feed prev s = (Some c, t) \<Longrightarrow>
    feed_history (given @ [shortcode c]) t"

lemma feed_history_ok: "feed_history given s \<Longrightarrow> history_ok given s"
proof (induction rule: feed_history.induct)
  case opened
  show ?case by (simp add: history_ok_def feed_ok_def fresh_codes_def new_feed_source_def)
next
  case (embedded given s payload)
  then show ?case
    by (cases payload) (auto simp: observe_embedded_candidates_def intro!: fold_keeps [where P = "history_ok given"] offer_keeps)
next
  case (navigated given s)
  then show ?case by (auto simp: history_ok_def feed_ok_def fresh_codes_def reset_for_feed_navigation_def)
next
  case (after given s prev boundary c t)
  then show ?case by (auto simp: next_after_def intro: take_code_keeps)
next
  case (current given s prev c t)
  then show ?case by (auto simp: next_from_current_feed_def intro: take_code_keeps)
next
  case (script given s prev c t)
  then show ?case by (auto simp: next_embedded_from_current_feed_def intro: take_code_keeps)
qed (simp_all add: observe_keeps mark_used_keeps)

section \<open>A sample session\<close>

definition sample_scripts :: json where
  "sample_scripts = JList [JStr ''CAFE1'', JStr ''not a code'', JStr ''CAFE2'', JInt 7, JStr ''CAFE1'']"

definition sample_session :: feed_source where
  "sample_session = observe_embedded_candidates sample_scripts (mark_used ''CAFE0'' new_feed_source)"

definition sample_reserved :: feed_source where
  "sample_reserved = snd (next_embedded_from_current_feed ''CAFE0'' sample_session)"

lemma sample_session_history: "feed_history [] sample_session"
  unfolding sample_session_def by (intro feed_history.intros)

lemma sample_reserve:
  "next_embedded_from_current_feed ''CAFE0'' sample_session = (Some (feed_candidate ''CAFE1''), sample_reserved)"
proof -
  have "fst (next_embedded_from_current_feed ''CAFE0'' sample_session) = Some (feed_candidate ''CAFE1'')"
    by code_simp
  then show ?thesis by (simp add: sample_reserved_def prod_eq_iff)
qed

lemma sample_reserved_history: "feed_history [''CAFE1''] sample_reserved"
  using script [OF sample_session_history sample_reserve] by (simp add: feed_candidate_def)

section \<open>Properties\<close>

text \<open>
  C26: Whatever responses, scripts, navigations and reservations reach it, the feed source stays
  inside its bounds: at most 32 codes are queued and at most 64 remembered, the set of remembered
  codes is that of its order, which has no repetition, and every code is a well-formed shortcode.
\<close>

theorem feed_source_bounded:
  assumes "feed_history given s"
  shows "length (fs_codes s) \<le> 32 \<and> length (fs_known_order s) \<le> 64 \<and>
    distinct (fs_known_order s) \<and> fs_known_codes s = set (fs_known_order s) \<and>
    list_all shortcode_match (fs_known_order s) \<and> list_all (\<lambda>(_, c). shortcode_match c) (fs_codes s)"
  using feed_history_ok [OF assms]
  by (simp add: history_ok_def feed_ok_def max_codes_def max_known_codes_def)

theorem feed_source_bounded_witness:
  "length (fs_codes sample_reserved) \<le> 32 \<and> length (fs_known_order sample_reserved) \<le> 64"
  using feed_source_bounded [OF sample_reserved_history] by blast

text \<open>
  C27: No Reel is handed out twice, and none that was handed out is queued again, in a session whose
  memory of 64 codes has not filled up.
\<close>

theorem feed_never_repeats:
  assumes "feed_history given s" "length (fs_known_order s) < 64"
  shows "distinct given \<and> distinct (map snd (fs_codes s)) \<and> set given \<inter> snd ` set (fs_codes s) = {}"
  using feed_history_ok [OF assms(1)] assms(2)
  by (simp add: history_ok_def fresh_codes_def max_known_codes_def)

theorem feed_never_repeats_witness:
  "length (fs_known_order sample_reserved) < 64 \<and> ''CAFE1'' \<notin> snd ` set (fs_codes sample_reserved)"
proof -
  have "length (fs_known_order sample_reserved) < 64" by code_simp
  with feed_never_repeats [OF sample_reserved_history] show ?thesis by simp
qed

text \<open>
  A candidate that the feed source hands out after a boundary is the first queued one observed
  after the boundary that differs from the previous Reel, it leaves the queue, and the engine's
  validation accepts it.
\<close>

theorem next_after_hands_out:
  assumes "feed_history given s" "next_after previous boundary s = (Some c, t)"
  shows "\<exists>front observation rest. fs_codes s = front @ (observation, shortcode c) # rest \<and>
     boundary < observation \<and> shortcode c \<noteq> previous \<and>
     (\<forall>(o', code) \<in> set front. o' \<le> boundary \<or> code = previous) \<and>
     t = s\<lparr>fs_codes := front @ rest\<rparr> \<and> validate_candidate c = Inr c"
proof -
  obtain front ob code rest where x: "fs_codes s = front @ (ob, code) # rest"
    "boundary < ob \<and> code \<noteq> previous" "list_all (\<lambda>(o', c). o' \<le> boundary \<or> c = previous) front"
    "c = feed_candidate code" "t = s\<lparr>fs_codes := front @ rest\<rparr>"
    using assms(2) unfolding next_after_def
    by (elim take_codeD) (auto simp: list_all_iff case_prod_beta)
  have "shortcode_match code"
    using feed_history_ok [OF assms(1)] x(1) by (simp add: history_ok_def feed_ok_def)
  then have "validate_candidate c = Inr c"
    unfolding x(4) feed_candidate_def by (intro validate_candidate_complete) (simp_all add: built_url_spelling)
  with x show ?thesis
    by (intro exI [of _ front] exI [of _ ob] exI [of _ rest]) (auto simp: feed_candidate_def list_all_iff)
qed

definition sample_payload :: json where
  "sample_payload = JObj [(''data'', JList [JObj [(''id'', JStr ''1''), (''code'', JStr ''CAFE3''),
     (''__typename'', JStr ''XDTMediaDict'')], JObj [(''shortcode'', JStr ''CAFE4'')]])]"

definition sample_response :: json_response where
  "sample_response = \<lparr>rs_content_type = Some ''Application/JSON'',
     rs_url = Some ''https://www.instagram.com/graphql/query'', rs_json = Inr sample_payload\<rparr>"

theorem next_after_hands_out_witness:
  "validate_candidate (feed_candidate ''CAFE4'') = Inr (feed_candidate ''CAFE4'')"
proof -
  have h: "feed_history [] (observe_response sample_response new_feed_source)"
    by (intro feed_history.intros)
  have "fst (next_after ''CAFE3'' 0 (observe_response sample_response new_feed_source)) =
      Some (feed_candidate ''CAFE4'')"
    by code_simp
  then have "next_after ''CAFE3'' 0 (observe_response sample_response new_feed_source) =
      (Some (feed_candidate ''CAFE4''), snd (next_after ''CAFE3'' 0 (observe_response sample_response new_feed_source)))"
    by (simp add: prod_eq_iff)
  from next_after_hands_out [OF h this] show ?thesis by blast
qed

end
