(* ===== verification/Handoff.thy ===== *)
theory Handoff
  imports Lifecycle
begin

text \<open>
  \<open>apps/api/app/instagram/collector/runtime/handoff_state.py\<close>: the file-backed state of an
  operator handoff. A record stands for the file of a session, \<open><uuid>.json\<close>; a file that is not a
  JSON object has no payload. Of a payload the code reads the state, the hash of the token and the
  expiry, which is missing when it is absent or no ISO time. The launch files hold the tokens.
\<close>

record handoff_payload =
  hp_state :: string
  hp_token_hash :: string
  hp_expires_at :: "timestamp option"

record handoff_file =
  hf_session_id :: uuid
  hf_payload :: "handoff_payload option"

record handoff_store =
  hs_files :: "handoff_file list"
  hs_launch :: "(uuid \<times> string) list"

record created_handoff =
  ch_session_id :: uuid
  ch_launch_token :: string
  ch_expires_at :: timestamp

definition handoff_ttl :: timedelta where
  "handoff_ttl = minutes 10"

definition handoff_terminal :: "string list" where
  "handoff_terminal = [''confirmed'', ''cancelled'', ''expired'', ''disconnected'']"

section \<open>Files\<close>

definition load_handoff :: "uuid \<Rightarrow> handoff_store \<Rightarrow> handoff_payload option" where
  "load_handoff sid st = Option.bind (lookup_row hf_session_id sid (hs_files st)) hf_payload"

text \<open>Writing replaces the file of the session, or makes it.\<close>

definition write_handoff :: "uuid \<Rightarrow> handoff_payload \<Rightarrow> handoff_store \<Rightarrow> handoff_store" where
  "write_handoff sid payload st =
     (if lookup_row hf_session_id sid (hs_files st) = None
      then st\<lparr>hs_files := hs_files st @ [\<lparr>hf_session_id = sid, hf_payload = Some payload\<rparr>]\<rparr>
      else st\<lparr>hs_files := update_rows hf_session_id sid (\<lambda>f. f\<lparr>hf_payload := Some payload\<rparr>) (hs_files st)\<rparr>)"

text \<open>The state that \<open>_expire\<close> leaves in the payload and returns.\<close>

definition expire_handoff :: "timestamp \<Rightarrow> handoff_payload \<Rightarrow> handoff_payload" where
  "expire_handoff now p =
     (if hp_state p \<in> set handoff_terminal then p
      else
        (case hp_expires_at p of
           None \<Rightarrow> p\<lparr>hp_state := ''expired''\<rparr>
         | Some t \<Rightarrow> if t \<le> now then p\<lparr>hp_state := ''expired''\<rparr> else p))"

section \<open>Operations\<close>

definition create_handoff :: "(string \<Rightarrow> string) \<Rightarrow> timedelta \<Rightarrow> uuid \<Rightarrow> string \<Rightarrow> timestamp \<Rightarrow>
    handoff_store \<Rightarrow> created_handoff result \<times> handoff_store" where
  "create_handoff hash ttl fresh token now st =
     (if ttl \<le> 0 \<or> ttl > handoff_ttl then (Inl ValueError, st)
      else
        let st = write_handoff fresh \<lparr>hp_state = ''pending'', hp_token_hash = hash token,
                   hp_expires_at = Some (now + ttl)\<rparr> st;
            st = st\<lparr>hs_launch := (fresh, token) # filter (\<lambda>(i, _). i \<noteq> fresh) (hs_launch st)\<rparr>
        in (Inr \<lparr>ch_session_id = fresh, ch_launch_token = token, ch_expires_at = now + ttl\<rparr>, st))"

text \<open>\<open>unlinked\<close>: whether removing the launch file succeeds; a failure is ignored.\<close>

definition activate_handoff :: "(string \<Rightarrow> string) \<Rightarrow> uuid \<Rightarrow> string \<Rightarrow> timestamp \<Rightarrow> bool \<Rightarrow>
    handoff_store \<Rightarrow> string \<times> handoff_store" where
  "activate_handoff hash sid token now unlinked st =
     (case load_handoff sid st of
        None \<Rightarrow> (''unavailable'', st)
      | Some p \<Rightarrow>
          if hp_token_hash p \<noteq> hash token then (''unavailable'', st)
          else
            let p = expire_handoff now p in
            if hp_state p \<noteq> ''pending'' then (''unavailable'', st)
            else
              let st = write_handoff sid (p\<lparr>hp_state := ''active''\<rparr>) st in
              (''active'',
               if unlinked then st\<lparr>hs_launch := filter (\<lambda>(i, _). i \<noteq> sid) (hs_launch st)\<rparr> else st))"

definition handoff_state :: "uuid \<Rightarrow> timestamp \<Rightarrow> handoff_store \<Rightarrow> string \<times> handoff_store" where
  "handoff_state sid now st =
     (case load_handoff sid st of
        None \<Rightarrow> (''unavailable'', st)
      | Some p \<Rightarrow>
          let p = expire_handoff now p in
          (hp_state p, if hp_state p = ''expired'' then write_handoff sid p st else st))"

definition resolve_handoff :: "uuid \<Rightarrow> bool \<Rightarrow> timestamp \<Rightarrow> handoff_store \<Rightarrow> string \<times> handoff_store" where
  "resolve_handoff sid confirmed now st =
     (case load_handoff sid st of
        None \<Rightarrow> (''unavailable'', st)
      | Some p \<Rightarrow>
          let p = expire_handoff now p in
          if hp_state p \<noteq> ''active''
          then (hp_state p, if hp_state p = ''expired'' then write_handoff sid p st else st)
          else
            let p = p\<lparr>hp_state := (if confirmed then ''confirmed'' else ''cancelled'')\<rparr> in
            (hp_state p, write_handoff sid p st))"

section \<open>The life of a handoff\<close>

text \<open>The promise: pending, then active, then one of the four ends.\<close>

definition handoff_transitions :: "string \<Rightarrow> string list" where
  "handoff_transitions s =
     (if s = ''pending'' then [''active'', ''expired'']
      else if s = ''active'' then [''confirmed'', ''cancelled'', ''expired'']
      else [])"

definition file_state :: "handoff_file \<Rightarrow> string" where
  "file_state f = (case hf_payload f of None \<Rightarrow> ''unavailable'' | Some p \<Rightarrow> hp_state p)"

definition file_ident :: "handoff_file \<Rightarrow> uuid \<times> string option" where
  "file_ident f = (hf_session_id f, map_option hp_token_hash (hf_payload f))"

definition handoff_states :: "string list" where
  "handoff_states = [''pending'', ''active''] @ handoff_terminal"

definition handoffs_ok :: "handoff_store \<Rightarrow> bool" where
  "handoffs_ok st \<longleftrightarrow> unique_col hf_session_id (hs_files st) \<and>
     list_all (\<lambda>f. file_state f \<in> set handoff_states) (hs_files st)"

text \<open>One operation; a new session gets an identifier that no file has.\<close>

inductive handoff_step :: "(string \<Rightarrow> string) \<Rightarrow> handoff_store \<Rightarrow> handoff_store \<Rightarrow> bool" for hash where
  created: "load_handoff fresh st = None \<Longrightarrow> lookup_row hf_session_id fresh (hs_files st) = None \<Longrightarrow>
    create_handoff hash ttl fresh token now st = (r, st') \<Longrightarrow> handoff_step hash st st'"
| activated: "activate_handoff hash sid token now unlinked st = (r, st') \<Longrightarrow> handoff_step hash st st'"
| queried: "handoff_state sid now st = (r, st') \<Longrightarrow> handoff_step hash st st'"
| resolved: "resolve_handoff sid confirmed now st = (r, st') \<Longrightarrow> handoff_step hash st st'"

lemma load_handoffD:
  "load_handoff sid st = Some p \<Longrightarrow>
     \<exists>f. lookup_row hf_session_id sid (hs_files st) = Some f \<and> hf_payload f = Some p"
  by (auto simp: load_handoff_def bind_eq_Some_conv)

lemma lookup_file_ident: "lookup_row hf_session_id sid fs = Some f \<Longrightarrow> f \<in> set fs \<and> hf_session_id f = sid"
  by (rule lookup_row_SomeD)

text \<open>Writing a payload with the same token further along the policy.\<close>

lemma write_follows:
  assumes "handoffs_ok st" "load_handoff sid st = Some p" "hp_token_hash q = hp_token_hash p"
    "hp_state q \<in> set handoff_states"
    "policy_path handoff_transitions (hp_state p) (hp_state q)"
  shows "handoffs_ok (write_handoff sid q st)"
    "rows_follow file_ident file_state handoff_transitions (hs_files st) (hs_files (write_handoff sid q st))"
    "load_handoff sid (write_handoff sid q st) = Some q"
proof -
  obtain f where f: "lookup_row hf_session_id sid (hs_files st) = Some f" "hf_payload f = Some p"
    using load_handoffD [OF assms(2)] by blast
  have w: "hs_files (write_handoff sid q st) =
      update_rows hf_session_id sid (\<lambda>f. f\<lparr>hf_payload := Some q\<rparr>) (hs_files st)"
    using f(1) by (simp add: write_handoff_def)
  show "handoffs_ok (write_handoff sid q st)"
    using assms(1,4) by (auto simp: handoffs_ok_def w row_simps list_all_iff in_update_rows file_state_def)
  show "load_handoff sid (write_handoff sid q st) = Some q"
    using f(1) by (simp add: load_handoff_def w lookup_update_rows)
  have only: "r = f" if "r \<in> set (hs_files st)" "hf_session_id r = sid" for r
    using that lookup_file_ident [OF f(1)] unique_colD assms(1) unfolding handoffs_ok_def by metis
  show "rows_follow file_ident file_state handoff_transitions (hs_files st) (hs_files (write_handoff sid q st))"
    unfolding w
  proof (rule rows_follow_update)
    fix r assume "r \<in> set (hs_files st)" "hf_session_id r = sid"
    then have "r = f" by (rule only)
    then show "file_ident (r\<lparr>hf_payload := Some q\<rparr>) = file_ident r \<and>
        policy_path handoff_transitions (file_state r) (file_state (r\<lparr>hf_payload := Some q\<rparr>))"
      using f(2) assms(3,5) by (simp add: file_ident_def file_state_def)
  qed
qed

lemma handoff_simps [simp]:
  "hp_token_hash (expire_handoff now p) = hp_token_hash p"
  "hs_files (st\<lparr>hs_launch := l\<rparr>) = hs_files st"
  "handoffs_ok (st\<lparr>hs_launch := l\<rparr>) = handoffs_ok st"
  "load_handoff i (st\<lparr>hs_launch := l\<rparr>) = load_handoff i st"
  by (simp_all add: expire_handoff_def handoffs_ok_def load_handoff_def split: option.split)

text \<open>The state of a loaded payload, and where an expiry takes it.\<close>

lemma loaded_state: "handoffs_ok st \<Longrightarrow> load_handoff sid st = Some p \<Longrightarrow> hp_state p \<in> set handoff_states"
  using load_handoffD [of sid st p] lookup_file_ident [of sid "hs_files st"]
  by (force simp: handoffs_ok_def list_all_iff file_state_def)

lemma expire_handoff_state:
  "expire_handoff now p = p \<or> hp_state (expire_handoff now p) = ''expired'' \<and> hp_state p \<notin> set handoff_terminal"
  by (auto simp: expire_handoff_def split: option.split)

lemma expire_path:
  assumes "hp_state p \<in> set handoff_states"
  shows "hp_state (expire_handoff now p) \<in> set handoff_states"
    "policy_path handoff_transitions (hp_state p) (hp_state (expire_handoff now p))"
proof -
  have "policy_path handoff_transitions (hp_state p) ''expired''" if "hp_state p \<notin> set handoff_terminal"
    using assms that
    by (intro policy_path_step)
      (auto simp: handoff_states_def is_transition_allowed_def handoff_transitions_def)
  then show "hp_state (expire_handoff now p) \<in> set handoff_states"
    "policy_path handoff_transitions (hp_state p) (hp_state (expire_handoff now p))"
    using assms
    by (auto simp: expire_handoff_def handoff_states_def handoff_terminal_def split: option.split)
qed

definition handoff_kept :: "handoff_store \<Rightarrow> handoff_store \<Rightarrow> bool" where
  "handoff_kept st st' \<longleftrightarrow> handoffs_ok st' \<and>
     rows_follow file_ident file_state handoff_transitions (hs_files st) (hs_files st')"

lemma kept_refl: "handoffs_ok st \<Longrightarrow> handoff_kept st st"
  by (simp add: handoff_kept_def)

lemma kept_expire:
  "handoffs_ok st \<Longrightarrow> load_handoff sid st = Some p \<Longrightarrow> handoff_kept st (write_handoff sid (expire_handoff now p) st)"
  unfolding handoff_kept_def
  using write_follows [of st sid p "expire_handoff now p"] expire_path loaded_state by simp

text \<open>A write from a payload that is not expired yet.\<close>

lemma kept_move:
  assumes "handoffs_ok st" "load_handoff sid st = Some p" "new \<in> set (handoff_transitions (hp_state (expire_handoff now p)))"
  shows "handoff_kept st (write_handoff sid ((expire_handoff now p)\<lparr>hp_state := new\<rparr>) st)"
proof -
  note state = loaded_state [OF assms(1,2)]
  have "policy_path handoff_transitions (hp_state p) new"
    using expire_path(2) [OF state, of now] policy_path_step [of handoff_transitions _ new] assms(3)
    by (cases "hp_state (expire_handoff now p) = new")
      (auto simp: is_transition_allowed_def intro: policy_path_trans)
  moreover have "new \<in> set handoff_states"
    using assms(3) by (auto simp: handoff_transitions_def handoff_states_def handoff_terminal_def split: if_splits)
  ultimately show ?thesis
    unfolding handoff_kept_def using write_follows [OF assms(1,2)] by simp
qed

lemma kept_launch: "handoff_kept st (st'\<lparr>hs_launch := l\<rparr>) = handoff_kept st st'"
  by (simp add: handoff_kept_def)

lemma handoff_step_kept: "handoff_step hash st st' \<Longrightarrow> handoffs_ok st \<Longrightarrow> handoff_kept st st'"
proof (induction rule: handoff_step.induct)
  case (created fresh st ttl token now r st')
  then have "fresh \<notin> hf_session_id ` set (hs_files st)" by (simp add: lookup_row_None)
  with created show ?case
    by (auto simp: create_handoff_def write_handoff_def handoff_kept_def handoffs_ok_def Let_def
        file_state_def handoff_states_def image_iff split: if_splits)
next
  case (activated sid token now unlinked st r st')
  then show ?case
    by (auto simp: activate_handoff_def Let_def kept_refl kept_launch handoff_transitions_def
        split: option.splits if_splits intro!: kept_move)
next
  case (queried sid now st r st')
  then show ?case
    by (auto simp: handoff_state_def Let_def kept_refl split: option.splits if_splits intro!: kept_expire)
next
  case (resolved sid confirmed now st r st')
  then show ?case
    by (auto simp: resolve_handoff_def Let_def kept_refl handoff_transitions_def
        split: option.splits if_splits intro!: kept_expire kept_move)
qed

interpretation handoffs: lifecycle handoffs_ok "handoff_step hash" hs_files file_ident file_state
  handoff_transitions for hash
  by unfold_locales (auto dest: handoff_step_kept simp: handoff_kept_def)

text \<open>What later operations can find in the file of a session.\<close>

lemma handoff_later:
  assumes "handoffs_ok st" "(handoff_step hash)\<^sup>*\<^sup>* st st'" "load_handoff sid st = Some p"
  shows "handoffs_ok st' \<and> (\<exists>q. load_handoff sid st' = Some q \<and> hp_token_hash q = hp_token_hash p \<and>
    policy_path handoff_transitions (hp_state p) (hp_state q))"
proof -
  obtain f where f: "f \<in> set (hs_files st)" "hf_session_id f = sid" "hf_payload f = Some p"
    using load_handoffD [OF assms(3)] lookup_file_ident by blast
  have ok: "handoffs_ok st'" using handoffs.history_inv [OF assms(2,1)] .
  obtain g where g: "g \<in> set (hs_files st')" "file_ident g = file_ident f"
    "policy_path handoff_transitions (file_state f) (file_state g)"
    using handoffs.history_follows [OF assms(2,1)] f(1) unfolding rows_follow_def by blast
  then obtain q where q: "hf_payload g = Some q" "hf_session_id g = sid" "hp_token_hash q = hp_token_hash p"
    using f by (auto simp: file_ident_def)
  have "lookup_row hf_session_id sid (hs_files st') = Some g"
    using lookup_row_distinct [of hf_session_id "hs_files st'" g] ok g(1) q(2)
    by (simp add: handoffs_ok_def unique_col_def)
  then show ?thesis
    using ok g(3) f(3) q by (intro conjI exI [of _ q]) (simp_all add: load_handoff_def file_state_def)
qed

section \<open>Properties\<close>

text \<open>
  C28: The launch token of a handoff works once. After an activation that answered \<open>active\<close>, whatever
  operations run on whatever sessions, every later activation of the session answers
  \<open>unavailable\<close> and changes nothing, with this token or any other.
\<close>

theorem handoff_single_use:
  assumes "handoffs_ok st" "activate_handoff hash sid token now unlinked st = (''active'', st1)"
    "(handoff_step hash)\<^sup>*\<^sup>* st1 st2"
  shows "activate_handoff hash sid token' now' unlinked' st2 = (''unavailable'', st2)"
proof -
  obtain p where p: "load_handoff sid st = Some p" "hp_state (expire_handoff now p) = ''pending''"
    "load_handoff sid st1 = load_handoff sid (write_handoff sid ((expire_handoff now p)\<lparr>hp_state := ''active''\<rparr>) st)"
    using assms(2)
    by (auto simp: activate_handoff_def Let_def split: option.splits if_splits)
  have ok1: "handoffs_ok st1"
    using handoff_step_kept [OF handoff_step.activated [OF assms(2)] assms(1)] by (simp add: handoff_kept_def)
  have "policy_path handoff_transitions (hp_state p) ''active''"
    using expire_path(2) [OF loaded_state [OF assms(1) p(1)], of now] p(2)
      policy_path_step [of handoff_transitions "''pending''" "''active''"]
    by (auto simp: is_transition_allowed_def handoff_transitions_def intro: policy_path_trans)
  then have "load_handoff sid st1 = Some ((expire_handoff now p)\<lparr>hp_state := ''active''\<rparr>)"
    unfolding p(3) by (intro write_follows(3) [OF assms(1) p(1)])
      (simp_all add: handoff_states_def)
  from handoff_later [OF ok1 assms(3) this] obtain q where
    q: "load_handoff sid st2 = Some q" "policy_path handoff_transitions ''active'' (hp_state q)"
    by auto
  have "hp_state q \<noteq> ''pending''"
  proof
    assume "hp_state q = ''pending''"
    moreover have "\<not> is_transition_allowed handoff_transitions b ''pending''" for b
      by (auto simp: is_transition_allowed_def handoff_transitions_def)
    ultimately show False
      using q(2) unfolding policy_path_def by (auto elim: rtranclp.cases)
  qed
  then have "hp_state (expire_handoff now' q) \<noteq> ''pending''" using expire_handoff_state [of now' q] by auto
  then show ?thesis using q(1) by (simp add: activate_handoff_def Let_def)
qed

definition handoff_opened :: handoff_store where
  "handoff_opened = snd (create_handoff (take 64) handoff_ttl 5 ''tok'' 1000 \<lparr>hs_files = [], hs_launch = []\<rparr>)"

definition handoff_active :: handoff_store where
  "handoff_active = snd (activate_handoff (take 64) 5 ''tok'' 2000 True handoff_opened)"

lemma handoff_active_eq:
  "activate_handoff (take 64) 5 ''tok'' 2000 True handoff_opened = (''active'', handoff_active)"
  by code_simp

lemma handoff_opened_ok: "handoffs_ok handoff_opened"
  by code_simp

theorem handoff_single_use_witness:
  "activate_handoff (take 64) 5 ''tok'' 3000 True handoff_active = (''unavailable'', handoff_active)"
  by (rule handoff_single_use [OF handoff_opened_ok handoff_active_eq]) simp

text \<open>
  The answer of the operator is final: once \<open>resolve\<close> or \<open>state\<close> has answered confirmed,
  cancelled or expired, every later query of the session answers the same, whatever happens to it
  in between and however late.
\<close>

theorem handoff_answer_final:
  assumes "handoffs_ok st"
    "resolve_handoff sid confirmed now st = (answer, st1) \<or> handoff_state sid now st = (answer, st1)"
    "answer \<in> {''confirmed'', ''cancelled'', ''expired''}" "(handoff_step hash)\<^sup>*\<^sup>* st1 st2"
  shows "fst (handoff_state sid now' st2) = answer"
proof -
  have step: "handoff_step hash st st1" using assms(2) by (auto intro: handoff_step.intros)
  have ok1: "handoffs_ok st1"
    using handoff_step_kept [OF step assms(1)] by (simp add: handoff_kept_def)
  obtain p where p: "load_handoff sid st = Some p"
    using assms(2,3) by (auto simp: resolve_handoff_def handoff_state_def split: option.splits)
  have written: "load_handoff sid (write_handoff sid q st) = Some q" for q
    using load_handoffD [OF p] by (auto simp: load_handoff_def write_handoff_def lookup_update_rows)
  obtain q where q: "load_handoff sid st1 = Some q" "hp_state q = answer"
    using assms(2,3) p written expire_handoff_state [of now p]
    by (auto simp: resolve_handoff_def handoff_state_def Let_def handoff_terminal_def expire_handoff_def
        split: if_splits option.splits)
  from handoff_later [OF ok1 assms(4) q(1)] obtain r where
    r: "load_handoff sid st2 = Some r" "policy_path handoff_transitions answer (hp_state r)"
    using q(2) by auto
  have "hp_state r = answer"
    using assms(3) by (intro policy_path_terminal [OF r(2)]) (auto simp: terminal_def handoff_transitions_def)
  moreover from this have "expire_handoff now' r = r"
    using assms(3) by (auto simp: expire_handoff_def handoff_terminal_def)
  ultimately show ?thesis using r(1) by (simp add: handoff_state_def)
qed

definition handoff_confirmed :: handoff_store where
  "handoff_confirmed = snd (resolve_handoff 5 True 3000 handoff_active)"

theorem handoff_answer_final_witness:
  "fst (handoff_state 5 (handoff_ttl * 2) handoff_confirmed) = ''confirmed''"
proof -
  have "handoffs_ok handoff_active" by code_simp
  moreover have "resolve_handoff 5 True 3000 handoff_active = (''confirmed'', handoff_confirmed)" by code_simp
  ultimately show ?thesis using handoff_answer_final [where hash = "take 64"] by blast
qed

end
