(* ===== verification/Ranges.thy ===== *)
theory Ranges
  imports PyText
begin

text \<open>
  \<open>apps/api/app/media/ranges.py\<close>: the single byte range of a \<open>Range\<close> header. Every failure is
  \<open>RangeNotSatisfiable\<close>, which the stream route answers with 416.
\<close>

record byte_range =
  range_start :: int
  range_end :: int

definition range_length :: "byte_range \<Rightarrow> int" where
  "range_length r = range_end r - range_start r + 1"

text \<open>The body of the \<open>try\<close>: a \<open>ValueError\<close> of \<open>int\<close> leaves it as \<open>ValueError\<close>.\<close>

definition range_of_parts :: "string \<Rightarrow> string \<Rightarrow> int \<Rightarrow> byte_range result" where
  "range_of_parts start_value end_value total_size =
     (if start_value = [] then
        rbind (py_int end_value) (\<lambda>suffix_length.
          if suffix_length \<le> 0 then Inl RangeNotSatisfiable
          else Inr \<lparr>range_start = max (total_size - suffix_length) 0, range_end = total_size - 1\<rparr>)
      else
        rbind (py_int start_value) (\<lambda>start.
          if start < 0 \<or> start \<ge> total_size then Inl RangeNotSatisfiable
          else
            rbind (if end_value = [] then Inr (total_size - 1)
                   else rbind (py_int end_value) (\<lambda>n. Inr (min n (total_size - 1)))) (\<lambda>stop.
              if stop < start then Inl RangeNotSatisfiable
              else Inr \<lparr>range_start = start, range_end = stop\<rparr>)))"

definition parse_single_range :: "string option \<Rightarrow> int \<Rightarrow> byte_range option result" where
  "parse_single_range value total_size =
     (case value of
        None \<Rightarrow> Inr None
      | Some v \<Rightarrow>
          if total_size \<le> 0 \<or> \<not> startswith v ''bytes='' then Inl RangeNotSatisfiable
          else
            (let specifier = strip (removeprefix v ''bytes='') in
             if specifier = [] \<or> CHR '','' \<in> set specifier
                \<or> count_list specifier (CHR ''-'') \<noteq> 1
             then Inl RangeNotSatisfiable
             else
               (case partition (CHR ''-'') specifier of
                  (a, _, b) \<Rightarrow>
                    (case range_of_parts (strip a) (strip b) total_size of
                       Inl _ \<Rightarrow> Inl RangeNotSatisfiable
                     | Inr r \<Rightarrow> Inr (Some r)))))"

section \<open>What a range satisfies\<close>

lemma range_of_parts_bounds:
  "range_of_parts a b n = Inr r \<Longrightarrow> 0 < n \<Longrightarrow>
   0 \<le> range_start r \<and> range_start r \<le> range_end r \<and> range_end r < n"
  by (auto simp: range_of_parts_def split: if_splits)

lemma parsed_range:
  assumes "parse_single_range v n = Inr (Some r)"
  shows "0 \<le> range_start r \<and> range_start r \<le> range_end r \<and> range_end r < n \<and>
         1 \<le> range_length r \<and> range_length r \<le> n"
proof -
  from assms obtain a b where "range_of_parts a b n = Inr r" "0 < n"
    by (auto simp: parse_single_range_def Let_def split: option.splits if_splits prod.splits
        sum.splits)
  then have "0 \<le> range_start r \<and> range_start r \<le> range_end r \<and> range_end r < n"
    by (rule range_of_parts_bounds)
  then show ?thesis by (simp add: range_length_def)
qed


text \<open>
  a range that is served lies inside the object: it starts at one of its bytes, ends at or
  after its start, and never runs past the last byte, so its length is between 1 and the size.
\<close>

theorem parse_range_bounds:
  assumes "parse_single_range v n = Inr (Some r)"
  shows "0 \<le> range_start r \<and> range_start r \<le> range_end r \<and> range_end r < n \<and>
         1 \<le> range_length r \<and> range_length r \<le> n"
  using assms by (rule parsed_range)

theorem parse_range_bounds_witness:
  "parse_single_range (Some ''bytes=-5'') 3 = Inr (Some \<lparr>range_start = 0, range_end = 2\<rparr>) \<and>
   range_length \<lparr>range_start = 0, range_end = 2\<rparr> \<le> 3"
proof -
  have p: "parse_single_range (Some ''bytes=-5'') 3 = Inr (Some \<lparr>range_start = 0, range_end = 2\<rparr>)"
    by code_simp
  show ?thesis using p parse_range_bounds [OF p] by simp
qed

section \<open>Reading back a printed range\<close>

definition range_header :: "string \<Rightarrow> string option" where
  "range_header spec = Some (''bytes='' @ spec)"

lemma count_dash_show [simp]: "count_list (show_nat n) (CHR ''-'') = 0"
  by (simp add: count_list_0_iff is_digit_def codepoint_def)

lemma dash_comma [simp]: "\<not> is_digit (CHR ''-'')" "\<not> is_digit (CHR '','')"
  by (simp_all add: is_digit_def codepoint_def)

lemma show_not_space: "\<forall>c \<in> set (show_nat n). \<not> is_space c"
  using is_digit_show digit_not_space by blast

lemma dash_not_space [simp]: "\<not> is_space (CHR ''-'')"
  by (simp add: is_space_def Let_def codepoint_def)

lemma strip_specs:
  "strip (show_nat a @ CHR ''-'' # show_nat b) = show_nat a @ CHR ''-'' # show_nat b"
  "strip (CHR ''-'' # show_nat b) = CHR ''-'' # show_nat b"
  "strip (show_nat a @ ''-'') = show_nat a @ ''-''"
  by (rule strip_no_space; simp add: ball_Un show_not_space)+

lemma strip_Nil [simp]: "strip [] = []"
  by (simp add: strip_def lstrip_def)

lemma parse_spec:
  assumes "strip (a @ CHR ''-'' # b) = a @ CHR ''-'' # b" "CHR ''-'' \<notin> set a" "CHR ''-'' \<notin> set b"
    "CHR '','' \<notin> set a" "CHR '','' \<notin> set b" "strip a = a" "strip b = b" "0 < n"
  shows "parse_single_range (range_header (a @ CHR ''-'' # b)) n =
     (case range_of_parts a b n of Inl _ \<Rightarrow> Inl RangeNotSatisfiable | Inr r \<Rightarrow> Inr (Some r))"
  using assms removeprefix_append [of "''bytes=''" "a @ CHR ''-'' # b"]
    startswith_append [of "''bytes=''" "a @ CHR ''-'' # b"]
  by (simp add: parse_single_range_def range_header_def count_list_0_iff Let_def)

text \<open>
  The three forms of a single range, printed in decimal, are read back as the interval they
  mean: a closed one is cut at the last byte, an open one runs to it, and a suffix counts from the
  end and is cut at the first byte.
\<close>

theorem parse_printed_range:
  assumes "a < n" "a \<le> b" "0 < k" "printable a" "printable b" "printable k"
  shows "parse_single_range (range_header (show_nat a @ ''-'' @ show_nat b)) (int n) =
           Inr (Some \<lparr>range_start = int a, range_end = min (int b) (int n - 1)\<rparr>) \<and>
         parse_single_range (range_header (show_nat a @ ''-'')) (int n) =
           Inr (Some \<lparr>range_start = int a, range_end = int n - 1\<rparr>) \<and>
         parse_single_range (range_header (''-'' @ show_nat k)) (int n) =
           Inr (Some \<lparr>range_start = max (int n - int k) 0, range_end = int n - 1\<rparr>)"
proof -
  have n: "0 < int n" using assms by simp
  have 1: "range_of_parts (show_nat a) (show_nat b) (int n) =
      Inr \<lparr>range_start = int a, range_end = min (int b) (int n - 1)\<rparr>"
    using assms show_nat_nonempty [of a] show_nat_nonempty [of b] by (auto simp: range_of_parts_def)
  have 2: "range_of_parts (show_nat a) [] (int n) =
      Inr \<lparr>range_start = int a, range_end = int n - 1\<rparr>"
    using assms show_nat_nonempty [of a] by (auto simp: range_of_parts_def)
  have 3: "range_of_parts [] (show_nat k) (int n) =
      Inr \<lparr>range_start = max (int n - int k) 0, range_end = int n - 1\<rparr>"
    using assms by (simp add: range_of_parts_def)
  show ?thesis
    using parse_spec [of "show_nat a" "show_nat b" "int n"] parse_spec [of "show_nat a" "[]" "int n"]
      parse_spec [of "[]" "show_nat k" "int n"] n
    by (simp add: strip_specs 1 2 3)
qed

theorem parse_printed_range_witness:
  "parse_single_range (range_header (show_nat 2 @ ''-'' @ show_nat 9)) (int 7) =
     Inr (Some \<lparr>range_start = 2, range_end = 6\<rparr>)"
proof -
  have p: "printable 2" "printable 9" "printable 1"
    by (simp_all add: printable_def max_int_digits_def show_nat.simps)
  show ?thesis using parse_printed_range [of 2 7 9 1, OF _ _ _ p(1) p(2) p(3)] by simp
qed

text \<open>Whatever the header says, the only failure is the one the route turns into a 416.\<close>

theorem parse_range_failure:
  "parse_single_range v n = Inl e \<Longrightarrow> e = RangeNotSatisfiable \<and> v \<noteq> None"
  by (auto simp: parse_single_range_def Let_def split: option.splits if_splits prod.splits sum.splits)

theorem parse_range_failure_witness:
  "parse_single_range (Some ''bytes=1-2,4-5'') 9 = Inl RangeNotSatisfiable"
proof -
  have p: "\<exists>e. parse_single_range (Some ''bytes=1-2,4-5'') 9 = Inl e"
    by (rule exI [of _ RangeNotSatisfiable]) code_simp
  then show ?thesis using parse_range_failure by auto
qed

end
