(* ===== verification/VideoService.thy ===== *)
theory VideoService
  imports Normalizer Ranges "HOL-Library.Product_Lexorder"
begin

text \<open>
  \<open>apps/api/app/services/videos.py\<close>, \<open>repositories/videos.py\<close> and the endpoints of
  \<open>apps/api/app/api/videos.py\<close>: the feed of published videos, page by page, the stream of one
  video, and the seeding of a local file. An HTTP error is the exception \<open>HTTPException\<close> with its
  status and code. The text of a cursor, its encoding and signature are left out: a cursor is the
  position it stands for.
\<close>

section \<open>Positions in the feed\<close>

text \<open>Cursors are ordered as the feed orders its rows: by creation time, then by identifier.\<close>

datatype video_cursor = VideoCursor (cursor_created_at: timestamp) (cursor_id: uuid)

instantiation video_cursor :: linorder
begin

definition less_eq_video_cursor :: "video_cursor \<Rightarrow> video_cursor \<Rightarrow> bool" where
  "c \<le> c' \<longleftrightarrow> (cursor_created_at c, cursor_id c) \<le> (cursor_created_at c', cursor_id c')"

definition less_video_cursor :: "video_cursor \<Rightarrow> video_cursor \<Rightarrow> bool" where
  "c < c' \<longleftrightarrow> (cursor_created_at c, cursor_id c) < (cursor_created_at c', cursor_id c')"

instance
  by standard (auto simp: less_eq_video_cursor_def less_video_cursor_def video_cursor.expand)

end

definition video_position :: "video \<Rightarrow> video_cursor" where
  "video_position v = VideoCursor (vid_created_at v) (vid_id v)"

section \<open>Listing\<close>

text \<open>\<open>VideoRepository.list\<close>: the latest rows before a position.\<close>

definition before_position :: "video_cursor option \<Rightarrow> video \<Rightarrow> bool" where
  "before_position c v \<longleftrightarrow>
     (case c of
        None \<Rightarrow> True
      | Some c \<Rightarrow> vid_created_at v < cursor_created_at c \<or>
                  vid_created_at v = cursor_created_at c \<and> vid_id v < cursor_id c)"

definition list_rows :: "nat \<Rightarrow> video_cursor option \<Rightarrow> db \<Rightarrow> video list" where
  "list_rows bound c d =
     take bound (rev (sort_key video_position (filter (before_position c) (videos d))))"

record video_page =
  vp_items :: "video list"
  vp_has_next_page :: bool

definition list_page :: "nat \<Rightarrow> video_cursor option \<Rightarrow> db \<Rightarrow> video_page" where
  "list_page n c d =
     (let rows = list_rows (n + 1) c d in
      \<lparr>vp_items = take n rows, vp_has_next_page = length rows > n\<rparr>)"

text \<open>The position of the next page, as the endpoint puts it into \<open>next_cursor\<close>.\<close>

definition page_cursor :: "video_page \<Rightarrow> video_cursor option" where
  "page_cursor p =
     (if vp_has_next_page p \<and> vp_items p \<noteq> [] then Some (video_position (last (vp_items p))) else None)"

text \<open>\<open>GET /videos\<close> accepts a limit between 1 and 30.\<close>

definition list_videos :: "int \<Rightarrow> video_cursor option \<Rightarrow> (video list \<times> video_cursor option) worker_act" where
  "list_videos n c =
     (if n < 1 \<or> n > 30 then raise (HTTPException 422 ''validation'')
      else bind (db_read (list_page (nat n) c)) (\<lambda>page. ret (vp_items page, page_cursor page)))"

section \<open>Streaming\<close>

definition get_video :: "uuid \<Rightarrow> video worker_act" where
  "get_video i =
     bind (db_read (\<lambda>d. lookup_row vid_id i (videos d))) (\<lambda>v. call (require VideoNotFound v))"

text \<open>\<open>except StorageObjectNotFound: raise VideoObjectNotFound\<close>.\<close>

definition object_missing :: "'a worker_act \<Rightarrow> 'a worker_act" where
  "object_missing a = try_except a
     (\<lambda>e. if e = StorageObjectNotFound then raise VideoObjectNotFound else raise e)"

definition get_stream_info :: "uuid \<Rightarrow> (video \<times> int) worker_act" where
  "get_stream_info i =
     bind (get_video i) (\<lambda>video.
     bind (object_missing (storage_stat (vid_object_key video))) (\<lambda>n. ret (video, n)))"

text \<open>\<open>get_object\<close> of the client: a length of zero reads to the end.\<close>

definition storage_open_range :: "string \<Rightarrow> int \<Rightarrow> int \<Rightarrow> string worker_act" where
  "storage_open_range key offset n = may_fail OtherError (with_state (\<lambda>s.
     case store_get (w_store s) key of
       None \<Rightarrow> raise StorageObjectNotFound
     | Some obj \<Rightarrow>
         let rest = drop (nat offset) (obj_content obj) in
         ret (if n = 0 then rest else take (nat n) rest)))"

definition open_stream :: "string \<Rightarrow> int \<Rightarrow> int \<Rightarrow> string worker_act" where
  "open_stream key offset n = object_missing (storage_open_range key offset n)"

record stream_response =
  sr_status :: int
  sr_content_length :: int
  sr_content_range :: "(int \<times> int \<times> int) option"
  sr_media_type :: string
  sr_body :: string

text \<open>Service errors as HTTP errors.\<close>

definition http_errors :: "'a worker_act \<Rightarrow> 'a worker_act" where
  "http_errors a = try_except a (\<lambda>e.
     if e = VideoNotFound then raise (HTTPException 404 ''video_not_found'')
     else if e = VideoObjectNotFound then raise (HTTPException 404 ''video_object_not_found'')
     else raise e)"

definition get_video_response :: "uuid \<Rightarrow> video worker_act" where
  "get_video_response i = try_except (get_video i)
     (\<lambda>e. if e = VideoNotFound then raise (HTTPException 404 ''video_not_found'') else raise e)"

definition stream_video :: "uuid \<Rightarrow> string option \<Rightarrow> stream_response worker_act" where
  "stream_video i range_value =
     bind (http_errors (get_stream_info i)) (\<lambda>(video, total_size).
     bind (try_except (call (parse_single_range range_value total_size))
             (\<lambda>e. if e = RangeNotSatisfiable
                  then raise (HTTPException 416 ''range_not_satisfiable'') else raise e))
       (\<lambda>byte_range.
     let start = (case byte_range of Some r \<Rightarrow> range_start r | None \<Rightarrow> 0);
         stop = (case byte_range of Some r \<Rightarrow> range_end r | None \<Rightarrow> total_size - 1)
     in bind (try_except (open_stream (vid_object_key video) start (stop - start + 1))
                (\<lambda>e. if e = VideoObjectNotFound
                     then raise (HTTPException 404 ''video_object_not_found'') else raise e))
          (\<lambda>body.
        ret \<lparr>sr_status = (if byte_range = None then 200 else 206),
             sr_content_length = stop - start + 1,
             sr_content_range = (if byte_range = None then None else Some (start, stop, total_size)),
             sr_media_type = vid_content_type video, sr_body = body\<rparr>)))"

section \<open>Seeding\<close>

record seed_file =
  sf_content :: string
  sf_byte_size :: int
  sf_sha256 :: string

record seed_result =
  sd_video :: video
  sd_outcome :: string
  sd_original_file :: seed_file
  sd_normalized_file :: seed_file
  sd_normalized_media :: normalized_media

text \<open>A local file: the stem and the suffix of its name, and its content when it is a file.\<close>

record local_file =
  lf_stem :: string
  lf_suffix :: string
  lf_content :: "string option"

definition inspect_mp4_file :: "tools \<Rightarrow> local_file \<Rightarrow> seed_file result" where
  "inspect_mp4_file tools f =
     (case lf_content f of
        None \<Rightarrow> Inl ValueError
      | Some content \<Rightarrow>
          if lower (lf_suffix f) \<noteq> ''.mp4'' then Inl ValueError
          else if content = [] then Inl ValueError
          else Inr \<lparr>sf_content = content, sf_byte_size = int (length content),
                    sf_sha256 = t_sha256 tools content\<rparr>)"

definition remove_uploaded_object :: "string \<Rightarrow> unit worker_act" where
  "remove_uploaded_object key = attempt (storage_remove key)"

text \<open>The bucket of the model is there.\<close>

definition storage_ensure_bucket :: "unit worker_act" where
  "storage_ensure_bucket = may_fail OtherError (ret ())"

text \<open>\<open>stat\<close>, and the upload when nothing is stored; the result says whether the call created it.\<close>

definition seed_object :: "string \<Rightarrow> string \<Rightarrow> bool worker_act" where
  "seed_object key content = try_except (bind (storage_stat key) (\<lambda>_. ret False))
     (\<lambda>e. if e = StorageObjectNotFound
          then bind (try_except (storage_upload_file key content ''video/mp4'')
                       (\<lambda>e. if is_exception e then bind (remove_uploaded_object key) (\<lambda>_. raise e)
                            else raise e)) (\<lambda>_. ret True)
          else raise e)"

definition seed_row :: "tools \<Rightarrow> string \<Rightarrow> string \<Rightarrow> seed_file \<Rightarrow> normalized_media \<Rightarrow> uuid \<Rightarrow> timestamp \<Rightarrow> video" where
  "seed_row tools title key f media fresh now =
     \<lparr>vid_id = fresh, vid_title = title, vid_object_key = key, vid_content_type = ''video/mp4'',
      vid_byte_size = sf_byte_size f,
      vid_normalization_strategy = Some (strategy_value (nm_strategy media)),
      vid_original_video_codec = Some (video_codec (nm_original_probe media)),
      vid_normalized_video_codec = Some (video_codec (nm_probe media)),
      vid_width = width (nm_probe media), vid_height = height (nm_probe media),
      vid_duration_ms = map_option (t_milliseconds tools) (duration_seconds (nm_probe media)),
      vid_file_size_bytes = Some (sf_byte_size f), vid_has_audio = Some (audio_codecs (nm_probe media) \<noteq> []),
      vid_normalized_at = Some now, vid_content_sha256 = None, vid_created_at = now\<rparr>"

definition seed_commit :: "video \<Rightarrow> db \<Rightarrow> (video \<times> bool) result \<times> db" where
  "seed_commit row = transaction (\<lambda>d. Inr (video_upsert row d))"

definition seed_file_with_result :: "tools \<Rightarrow> local_file \<Rightarrow> string option \<Rightarrow> seed_result worker_act" where
  "seed_file_with_result tools f title =
     bind (call (inspect_mp4_file tools f)) (\<lambda>original_file.
     bind (normalize_to_output tools (sf_content original_file)) (\<lambda>media.
     bind (call (inspect_mp4_file tools
             \<lparr>lf_stem = ''normalized'', lf_suffix = ''.mp4'', lf_content = Some (nm_output media)\<rparr>))
       (\<lambda>normalized_file.
     let key = ''videos/'' @ sf_sha256 normalized_file @ ''.mp4'' in
     bind storage_ensure_bucket (\<lambda>_.
     bind (seed_object key (sf_content normalized_file)) (\<lambda>object_created.
     bind (try_except
             (bind datetime_now (\<lambda>now. bind uuid4 (\<lambda>fresh.
                db_call (seed_commit (seed_row tools
                  (case title of Some t \<Rightarrow> if t = [] then lf_stem f else t | None \<Rightarrow> lf_stem f)
                  key normalized_file media fresh now)))))
             (\<lambda>e. if is_exception e
                  then bind (if object_created then remove_uploaded_object key else ret ()) (\<lambda>_. raise e)
                  else raise e))
       (\<lambda>(video, created).
     ret \<lparr>sd_video = video,
          sd_outcome = (if object_created \<and> created then ''created''
                        else if object_created \<or> created then ''restored'' else ''already_existed''),
          sd_original_file = original_file, sd_normalized_file = normalized_file,
          sd_normalized_media = media\<rparr>))))))"

end
