(* ===== verification/VideoProps.thy ===== *)
theory VideoProps
  imports VideoService NormalizerRun
begin

text \<open>
  The feed of videos page by page, the bytes of a stream, and what seeding leaves behind.
\<close>

section \<open>Pages\<close>

lemma before_position_iff: "before_position c v \<longleftrightarrow> (case c of None \<Rightarrow> True | Some c \<Rightarrow> video_position v < c)"
  by (auto simp: before_position_def less_video_cursor_def video_position_def less_prod_def
      split: option.splits)

text \<open>What a client that follows the cursors reads, page after page.\<close>

definition remaining :: "video_cursor option \<Rightarrow> db \<Rightarrow> video list" where
  "remaining c d = rev (sort_key video_position (filter (before_position c) (videos d)))"

lemma list_rows_remaining: "list_rows n c d = take n (remaining c d)"
  by (simp add: list_rows_def remaining_def)

lemma page_cursorD:
  assumes "page_cursor (list_page n c d) = Some c'"
  shows "length (remaining c d) > n" "0 < n" "c' = video_position (remaining c d ! (n - 1))"
proof -
  let ?L = "remaining c d"
  have len: "n < length ?L" and ne: "take n ?L \<noteq> []" and c': "c' = video_position (last (take n ?L))"
    using assms by (auto simp: page_cursor_def list_page_def list_rows_remaining Let_def split: if_splits)
  show "length ?L > n" "0 < n" using len ne by auto
  then have "last (take n ?L) = ?L ! (n - 1)" using len ne by (simp add: last_conv_nth min_def)
  with c' show "c' = video_position (?L ! (n - 1))" by simp
qed

lemma remaining_mem: "v \<in> set (remaining c d) \<longleftrightarrow> v \<in> set (videos d) \<and> before_position c v"
  by (auto simp: remaining_def)

lemma fewer_remaining:
  assumes "v \<in> set (videos d)" "before_position c v"
  shows "length (filter (before_position (Some (video_position v))) (videos d)) <
    length (filter (before_position c) (videos d))"
proof -
  have imp: "before_position c w" if "before_position (Some (video_position v)) w" for w
    using that assms(2) by (auto simp: before_position_iff split: option.splits)
  have "filter (before_position (Some (video_position v))) (videos d) =
      filter (before_position (Some (video_position v))) (filter (before_position c) (videos d))"
    using imp by (auto intro: filter_cong)
  moreover have "v \<in> set (filter (before_position c) (videos d))"
    "\<not> before_position (Some (video_position v)) v"
    using assms by (auto simp: before_position_iff)
  ultimately show ?thesis by (metis length_filter_less)
qed

function all_pages :: "nat \<Rightarrow> video_cursor option \<Rightarrow> db \<Rightarrow> video list" where
  "all_pages n c d =
     (case page_cursor (list_page n c d) of
        None \<Rightarrow> vp_items (list_page n c d)
      | Some c' \<Rightarrow> vp_items (list_page n c d) @ all_pages n (Some c') d)"
  by pat_completeness auto
termination
proof (relation "measure (\<lambda>(n, c, d). length (filter (before_position c) (videos d)))")
  fix n c d c' assume next_page: "page_cursor (list_page n c d) = Some c'"
  note p = page_cursorD [OF next_page]
  then have "remaining c d ! (n - 1) \<in> set (remaining c d)" by (intro nth_mem) simp
  then have "remaining c d ! (n - 1) \<in> set (videos d)" "before_position c (remaining c d ! (n - 1))"
    by (simp_all only: remaining_mem)
  from fewer_remaining [OF this]
  show "((n, Some c', d), (n, c, d)) \<in> measure (\<lambda>(n, c, d). length (filter (before_position c) (videos d)))"
    unfolding p(3) by simp
qed simp

declare all_pages.simps [simp del]

text \<open>Rows of the feed descend strictly: identifiers differ.\<close>

lemma remaining_descends:
  assumes "unique_col vid_id (videos d)"
  shows "sorted_wrt (\<lambda>v w. video_position w < video_position v) (remaining c d)"
proof -
  let ?xs = "filter (before_position c) (videos d)"
  have "distinct (map vid_id ?xs)" using assms by (simp add: unique_col_def distinct_map_filter)
  then have "distinct (map video_position ?xs)"
    by (auto simp: distinct_map video_position_def intro!: inj_onI dest: inj_onD)
  then have "distinct (map video_position (sort_key video_position ?xs))"
    by (simp add: distinct_map)
  then have "sorted_wrt (<) (map video_position (sort_key video_position ?xs))"
    by (simp add: strict_sorted_iff)
  then show ?thesis by (simp add: remaining_def sorted_wrt_rev sorted_wrt_map)
qed

lemma filter_below:
  fixes f :: "'a \<Rightarrow> 'b::linorder"
  assumes "sorted_wrt (\<lambda>v w. f w < f v) xs" "n < length xs" "0 < n"
  shows "filter (\<lambda>v. f v < f (xs ! (n - 1))) xs = drop n xs"
proof -
  let ?P = "\<lambda>v. f v < f (xs ! (n - 1))"
  have "xs = take n xs @ drop n xs" by simp
  have "filter ?P (take n xs) = []"
  proof -
    have "\<not> ?P v" if v: "v \<in> set (take n xs)" for v
    proof -
      obtain i where i: "i < n" "v = xs ! i" using v assms(2) by (auto simp: in_set_conv_nth min_def)
      show ?thesis
      proof (cases "i = n - 1")
        case False
        then have "f (xs ! (n - 1)) < f (xs ! i)"
          using i assms sorted_wrt_nth_less [OF assms(1), of i "n - 1"] by simp
        then show ?thesis using i by simp
      qed (use i in simp)
    qed
    then show ?thesis by (simp add: filter_empty_conv)
  qed
  moreover have "filter ?P (drop n xs) = drop n xs"
  proof -
    have "?P v" if v: "v \<in> set (drop n xs)" for v
    proof -
      obtain j where "j < length xs - n" "v = xs ! (n + j)" using v by (auto simp: in_set_conv_nth)
      then obtain i where i: "n \<le> i" "i < length xs" "v = xs ! i" by (intro that [of "n + j"]) auto
      then show ?thesis using assms(3) sorted_wrt_nth_less [OF assms(1), of "n - 1" i] by simp
    qed
    then show ?thesis by (simp add: filter_id_conv)
  qed
  ultimately show ?thesis by (metis append.left_neutral append_take_drop_id filter_append)
qed

lemma all_pages_remaining:
  assumes "unique_col vid_id (videos d)" "0 < n"
  shows "all_pages n c d = remaining c d"
  using assms
proof (induction n c d rule: all_pages.induct)
  case (1 n c d)
  let ?L = "remaining c d" and ?page = "list_page n c d"
  have items: "vp_items ?page = take n ?L"
    by (simp add: list_page_def list_rows_remaining Let_def min_def)
  show ?case
  proof (cases "page_cursor ?page")
    case None
    then have "length ?L \<le> n"
      using 1(3) by (auto simp: page_cursor_def list_page_def list_rows_remaining Let_def split: if_splits)
    then show ?thesis using None items by (simp add: all_pages.simps)
  next
    case (Some c')
    note p = page_cursorD [OF Some]
    have "?L ! (n - 1) \<in> set ?L" using p by simp
    then have before: "before_position c (?L ! (n - 1))" by (simp add: remaining_mem)
    have imp: "before_position (Some c') v \<Longrightarrow> before_position c v" for v
      using before p(3) by (auto simp: before_position_iff split: option.splits)
    have "filter (before_position (Some c')) (videos d) =
        filter (before_position (Some c')) (filter (before_position c) (videos d))"
      using imp by (auto intro: filter_cong)
    then have "remaining (Some c') d = filter (before_position (Some c')) ?L"
      unfolding remaining_def by (simp only: filter_sort [symmetric] rev_filter)
    also have "\<dots> = filter (\<lambda>v. video_position v < video_position (?L ! (n - 1))) ?L"
      by (simp add: before_position_iff [abs_def] p(3))
    also have "\<dots> = drop n ?L" using filter_below [OF remaining_descends [OF 1(2)]] p(1,2) .
    finally show ?thesis using 1(1) [OF Some 1(2,3)] Some items by (simp add: all_pages.simps)
  qed
qed

text \<open>
  C29: The pages of the feed are the feed: a client that starts without a cursor and follows the
  cursors reads, for every page size, exactly the published videos, each once, latest first.
\<close>

theorem pages_are_the_feed:
  assumes "unique_col vid_id (videos d)" "0 < n"
  shows "all_pages n None d = rev (sort_key video_position (videos d))"
  using all_pages_remaining [OF assms, of None] by (simp add: remaining_def before_position_def [abs_def])

definition sample_video :: "uuid \<Rightarrow> timestamp \<Rightarrow> video" where
  "sample_video i t = \<lparr>vid_id = i, vid_title = ''t'', vid_object_key = ''videos/'' @ show_nat i @ ''.mp4'',
     vid_content_type = ''video/mp4'', vid_byte_size = 5, vid_normalization_strategy = None,
     vid_original_video_codec = None, vid_normalized_video_codec = None, vid_width = None,
     vid_height = None, vid_duration_ms = None, vid_file_size_bytes = None, vid_has_audio = None,
     vid_normalized_at = None, vid_content_sha256 = None, vid_created_at = t\<rparr>"

definition sample_feed_db :: db where
  "sample_feed_db = empty_db\<lparr>videos := [sample_video 1 10, sample_video 2 30, sample_video 3 30, sample_video 4 20]\<rparr>"

theorem pages_are_the_feed_witness:
  "map vid_id (all_pages 3 None sample_feed_db) = [3, 2, 4, 1]"
proof -
  have "unique_col vid_id (videos sample_feed_db)" by code_simp
  then have "all_pages 3 None sample_feed_db = rev (sort_key video_position (videos sample_feed_db))"
    by (rule pages_are_the_feed) simp
  moreover have "map vid_id (rev (sort_key video_position (videos sample_feed_db))) = [3, 2, 4, 1]"
    by code_simp
  ultimately show ?thesis by simp
qed

section \<open>Streams\<close>

lemma no_range_of_nothing: "parse_single_range h 0 = Inr x \<Longrightarrow> x = None"
  by (cases x) (auto dest: parsed_range)

lemma wp_object_missing:
  "wp (object_missing a) Q s \<longleftrightarrow> wp a (\<lambda>r t. case r of
     Inl (Raise e) \<Rightarrow> Q (Inl (Raise (if e = StorageObjectNotFound then VideoObjectNotFound else e))) t
   | _ \<Rightarrow> Q r t) s"
  unfolding object_missing_def wp_try_except by (rule arg_cong [where f = "\<lambda>Q. wp a Q s"])
    (auto simp: fun_eq_iff wp_stop split: sum.splits signal.splits)

text \<open>
  C30: What a client receives of a video. A successful stream answers 200 with the whole object, or
  206 with the bytes of the range it names in \<open>Content-Range\<close>, which lies inside the object; in
  both cases \<open>Content-Length\<close> is the length of the body and the media type is that of the row.
\<close>

theorem stream_serves_object:
  assumes "stream_video i h s = (Inr r, t)"
  shows "\<exists>v obj. lookup_row vid_id i (videos (w_db s)) = Some v \<and>
     store_get (w_store s) (vid_object_key v) = Some obj \<and>
     sr_media_type r = vid_content_type v \<and> sr_content_length r = int (length (sr_body r)) \<and>
     (case sr_content_range r of
        None \<Rightarrow> sr_status r = 200 \<and> sr_body r = obj_content obj
      | Some (a, b, n) \<Rightarrow> sr_status r = 206 \<and> 0 \<le> a \<and> a \<le> b \<and> b < n \<and> n = int (length (obj_content obj)) \<and>
          sr_body r = take (nat (b - a + 1)) (drop (nat a) (obj_content obj)))"
proof -
  have "wp (stream_video i h) (\<lambda>q t. \<forall>r. q = Inr r \<longrightarrow>
     (\<exists>v obj. lookup_row vid_id i (videos (w_db s)) = Some v \<and>
       store_get (w_store s) (vid_object_key v) = Some obj \<and>
       sr_media_type r = vid_content_type v \<and> sr_content_length r = int (length (sr_body r)) \<and>
       (case sr_content_range r of
          None \<Rightarrow> sr_status r = 200 \<and> sr_body r = obj_content obj
        | Some (a, b, n) \<Rightarrow> sr_status r = 206 \<and> 0 \<le> a \<and> a \<le> b \<and> b < n \<and> n = int (length (obj_content obj)) \<and>
            sr_body r = take (nat (b - a + 1)) (drop (nat a) (obj_content obj))))) s"
    unfolding stream_video_def http_errors_def get_stream_info_def get_video_def open_stream_def
      storage_open_range_def storage_stat_def db_read_def db_call_def read_only_def may_fail_def Let_def
    by (auto simp: wp_rules wp_object_missing range_length_def split: option.splits sum.splits dest!: parsed_range dest: no_range_of_nothing)
  from wpD [OF this assms] show ?thesis by blast
qed

definition stream_world :: world where
  "stream_world = \<lparr>w_db = sample_feed_db,
     w_store = [(''videos/1.mp4'', \<lparr>obj_content = ''movie'', obj_content_type = ''video/mp4''\<rparr>)],
     w_faults = [], w_cancel = [], w_clock = [], w_uuids = [], w_events = []\<rparr>"

definition stream_answer :: stream_response where
  "stream_answer = \<lparr>sr_status = 206, sr_content_length = 3, sr_content_range = Some (1, 3, 5),
     sr_media_type = ''video/mp4'', sr_body = ''ovi''\<rparr>"

theorem stream_serves_object_witness:
  "fst (stream_video 1 (Some ''bytes=1-3'') stream_world) = Inr stream_answer \<and>
   sr_content_length stream_answer = int (length (sr_body stream_answer))"
proof -
  have a: "fst (stream_video 1 (Some ''bytes=1-3'') stream_world) = Inr stream_answer" by code_simp
  then have "stream_video 1 (Some ''bytes=1-3'') stream_world =
      (Inr stream_answer, snd (stream_video 1 (Some ''bytes=1-3'') stream_world))"
    by (simp add: prod_eq_iff)
  from stream_serves_object [OF this] a show ?thesis by blast
qed

section \<open>Seeding\<close>

text \<open>What the statements before the upload leave alone, and where each of the others ends.\<close>

definition untouched_world :: "world \<Rightarrow> world \<Rightarrow> bool" where
  "untouched_world s t \<longleftrightarrow> w_db t = w_db s \<and> w_store t = w_store s"

interpretation still: state_relation untouched_world
  by unfold_locales (simp_all add: untouched_world_def)

lemma still_modify: "(\<And>s. w_db (f s) = w_db s) \<Longrightarrow> (\<And>s. w_store (f s) = w_store s) \<Longrightarrow>
  stays untouched_world (modify f)"
  by (rule still.stays_modify) (simp add: untouched_world_def)

lemma still_may_fail: "stays untouched_world a \<Longrightarrow> stays untouched_world (may_fail e a)"
  unfolding may_fail_def by (auto intro!: still.stays_rules still_modify)

lemma still_normalize: "stays untouched_world (normalize_to_output tools source)"
  unfolding normalize_to_output_def probe_media_def validate_decode_def run_normalization_def
  by (auto intro!: still.stays_rules still_may_fail)

lemma still_parts: "stays untouched_world storage_ensure_bucket" "stays untouched_world datetime_now"
  "stays untouched_world uuid4"
  unfolding storage_ensure_bucket_def datetime_now_def uuid4_def
  by (auto intro!: still.stays_rules still_may_fail still_modify)

text \<open>
  The bucket after \<open>seed_object\<close>: nothing that was stored changed; when the call created the object
  the key was free before.
\<close>

definition seeded :: "string \<Rightarrow> world \<Rightarrow> unit signal + bool \<Rightarrow> world \<Rightarrow> bool" where
  "seeded key s r t \<longleftrightarrow> w_db t = w_db s \<and>
     (\<forall>k obj. store_get (w_store s) k = Some obj \<longrightarrow> store_get (w_store t) k = Some obj) \<and>
     (\<forall>created. r = Inr created \<longrightarrow> store_get (w_store t) key \<noteq> None \<and>
        (created \<longrightarrow> store_get (w_store s) key = None))"

lemma seed_object_outcome: "wp (seed_object key content) (seeded key s) s"
  unfolding seed_object_def remove_uploaded_object_def attempt_def storage_defs may_fail_def seeded_def
  by (auto simp: wp_rules split: option.splits)

lemma seed_commit_outcome:
  assumes "seed_commit row d = (r, d')"
  shows "r = Inr (v, created) \<Longrightarrow> v \<in> set (videos d') \<and> vid_object_key v = vid_object_key row"
    "r = Inl e \<Longrightarrow> d' = d"
proof -
  obtain w c d1 where up: "video_upsert row d = ((w, c), d1)" by (metis prod.exhaust)
  note row = video_upsert_row [OF up]
  show "r = Inr (v, created) \<Longrightarrow> v \<in> set (videos d') \<and> vid_object_key v = vid_object_key row"
    "r = Inl e \<Longrightarrow> d' = d"
    using assms row(1,2) by (auto simp: seed_commit_def transaction_def up split: if_splits)
qed

text \<open>The result of seeding from a world.\<close>

definition seed_ok :: "world \<Rightarrow> unit signal + seed_result \<Rightarrow> world \<Rightarrow> bool" where
  "seed_ok s r t \<longleftrightarrow>
     (\<forall>k obj. store_get (w_store s) k = Some obj \<longrightarrow> store_get (w_store t) k = Some obj) \<and>
     (\<forall>g. r = Inl g \<longrightarrow> w_db t = w_db s) \<and>
     (\<forall>x. r = Inr x \<longrightarrow> sd_video x \<in> set (videos (w_db t)) \<and>
        store_get (w_store t) (vid_object_key (sd_video x)) \<noteq> None)"

lemma wp_still_bind:
  assumes "untouched_world s t" "stays untouched_world m"
    "\<And>x u. untouched_world s u \<Longrightarrow> wp (f x) (seed_ok s) u"
  shows "wp (bind m f) (seed_ok s) t"
proof -
  obtain r u where m: "m t = (r, u)" by fastforce
  have u: "untouched_world s u" using still.trans [OF assms(1) staysD [OF assms(2) m]] .
  show ?thesis
  proof (cases r)
    case (Inl g)
    with m u show ?thesis by (simp add: wp_def bind_def seed_ok_def untouched_world_def)
  next
    case (Inr x)
    with m assms(3) [OF u, of x] show ?thesis by (simp add: wp_def bind_def)
  qed
qed

text \<open>The commit of the row, and the compensation when it fails.\<close>

lemma seed_commit_step:
  assumes "seeded key s (Inr created) t" "\<And>fresh now. vid_object_key (row fresh now) = key"
    "\<And>v c. sd_video (result v c) = v"
  shows "wp (bind (try_except
             (bind datetime_now (\<lambda>now. bind uuid4 (\<lambda>fresh. db_call (seed_commit (row fresh now)))))
             (\<lambda>e. if is_exception e
                  then bind (if created then remove_uploaded_object key else ret ()) (\<lambda>_. raise e)
                  else raise e))
       (\<lambda>(video, inserted). ret (result video inserted))) (seed_ok s) t"
proof -
  have kept: "created \<Longrightarrow> store_get (w_store s) key = None"
    using assms(1) unfolding seeded_def by blast
  have stored: "w_db t = w_db s" "store_get (w_store t) key \<noteq> None"
    "\<And>k obj. store_get (w_store s) k = Some obj \<Longrightarrow> store_get (w_store t) k = Some obj"
    using assms(1) by (simp_all add: seeded_def)
  show ?thesis
    unfolding datetime_now_def uuid4_def db_call_def may_fail_def remove_uploaded_object_def attempt_def
      storage_defs seed_ok_def
    using stored kept
    by (auto simp: wp_rules assms(2,3) split: prod.splits sum.splits dest: seed_commit_outcome)
qed

lemma wp_seed_object_bind:
  assumes "untouched_world s t"
    "\<And>created u. seeded key s (Inr created) u \<Longrightarrow> wp (f created) (seed_ok s) u"
  shows "wp (bind (seed_object key content) f) (seed_ok s) t"
proof -
  obtain r u where run: "seed_object key content t = (r, u)" by fastforce
  have u: "seeded key s r u"
    using wpD [OF seed_object_outcome run] assms(1) by (auto simp: seeded_def untouched_world_def)
  show ?thesis
  proof (cases r)
    case (Inl g)
    with run u show ?thesis by (auto simp: wp_def bind_def seed_ok_def seeded_def)
  next
    case (Inr x)
    with run u assms(2) show ?thesis by (simp add: wp_def bind_def)
  qed
qed

lemma seed_file_outcome: "wp (seed_file_with_result tools f title) (seed_ok s) s"
  unfolding seed_file_with_result_def Let_def
  by (intro wp_still_bind [OF _ still.stays_call] wp_still_bind [OF _ still_normalize]
      wp_still_bind [OF _ still_parts(1)] wp_seed_object_bind still.refl)
    (assumption | rule seed_commit_step | simp add: seed_row_def)+


definition seed_world :: world where
  "seed_world = \<lparr>w_db = empty_db, w_store = [], w_faults = [], w_cancel = [], w_clock = [10],
     w_uuids = [1], w_events = []\<rparr>"

definition seed_input :: local_file where
  "seed_input = \<lparr>lf_stem = ''clip'', lf_suffix = ''.MP4'', lf_content = Some ''movie''\<rparr>"


end
