(* ===== verification/Control.thy ===== *)
theory Control
  imports LoginSessions Actions Uuid "HOL-Library.List_Lexorder" "HOL-Library.Char_ord"
begin

text \<open>
  What the management API works on: the tables of the control plane beside the collection database,
  their constraints and transactions, the JSON text of requests and responses, and the ISO text of a
  timestamp (\<open>json.dumps\<close> and \<open>datetime.isoformat\<close> of the standard library).
\<close>

section \<open>Bodies and their text\<close>

datatype body_value =
    BNull
  | BBool bool
  | BInt int
  | BText string
  | BList "body_value list"
  | BDict "(string \<times> body_value) list"

text \<open>The text of a string with \<open>ensure_ascii\<close>.\<close>

definition json_char :: "char \<Rightarrow> string" where
  "json_char c =
     (let n = codepoint c in
      if n = 34 then [char_of (92::nat), c]
      else if n = 92 then [c, c]
      else if n = 10 then [char_of (92::nat), CHR ''n'']
      else if n = 13 then [char_of (92::nat), CHR ''r'']
      else if n = 9 then [char_of (92::nat), CHR ''t'']
      else if n = 8 then [char_of (92::nat), CHR ''b'']
      else if n = 12 then [char_of (92::nat), CHR ''f'']
      else if n < 32 \<or> n > 126 then char_of (92::nat) # ''u'' @ hex_fixed 4 n
      else [c])"

definition json_string :: "string \<Rightarrow> string" where
  "json_string s = char_of (34::nat) # concat (map json_char s) @ [char_of (34::nat)]"

definition joined :: "string list \<Rightarrow> string" where
  "joined xs = (case xs of [] \<Rightarrow> [] | x # rest \<Rightarrow> x @ concat (map (\<lambda>y. CHR '','' # y) rest))"

text \<open>\<open>json.dumps(value, sort_keys=True, separators=(",", ":"))\<close>.\<close>

fun dumps :: "body_value \<Rightarrow> string" where
  "dumps BNull = ''null''"
| "dumps (BBool b) = (if b then ''true'' else ''false'')"
| "dumps (BInt n) = show_int n"
| "dumps (BText s) = json_string s"
| "dumps (BList xs) = ''['' @ joined (map dumps xs) @ '']''"
| "dumps (BDict es) =
     ''{'' @ joined (map snd (sort_key fst (map (\<lambda>(k, v). (k, json_string k @ '':'' @ dumps v)) es))) @ ''}''"

definition pad :: "nat \<Rightarrow> int \<Rightarrow> string" where
  "pad w n = (let s = show_int n in replicate (w - length s) (CHR ''0'') @ s)"

text \<open>The civil date of a day counted from 1970-01-01 in the proleptic Gregorian calendar.\<close>

definition civil_date :: "int \<Rightarrow> int \<times> int \<times> int" where
  "civil_date day =
     (let z = day + 719468; era = z div 146097; doe = z mod 146097;
          yoe = (doe - doe div 1460 + doe div 36524 - doe div 146096) div 365;
          doy = doe - (365 * yoe + yoe div 4 - yoe div 100);
          mp = (5 * doy + 2) div 153;
          d = doy - (153 * mp + 2) div 5 + 1;
          m = (if mp < 10 then mp + 3 else mp - 9)
      in (yoe + era * 400 + (if m \<le> 2 then 1 else 0), m, d))"

definition isoformat :: "timestamp \<Rightarrow> string" where
  "isoformat t =
     (let us = t mod 1000000; secs = t div 1000000; day = secs div 86400; s = secs mod 86400 in
      case civil_date day of (y, m, d) \<Rightarrow>
        pad 4 y @ ''-'' @ pad 2 m @ ''-'' @ pad 2 d @ ''T'' @
        pad 2 (s div 3600) @ '':'' @ pad 2 (s div 60 mod 60) @ '':'' @ pad 2 (s mod 60) @
        (if us = 0 then [] else ''.'' @ pad 6 us) @ ''+00:00'')"

section \<open>Tables\<close>

record control =
  c_db :: db
  c_pairing :: "pairing_challenge list"
  c_sessions :: "device_session list"
  c_idempotency :: "body_value idempotency_record list"
  c_settings :: "collection_settings list"
  c_reserve :: "reserve_device list"
  c_limits :: "rate_limit list"

definition pairing_ok :: "pairing_challenge \<Rightarrow> bool" where
  "pairing_ok p \<longleftrightarrow> length (pc_secret_hash p) = 64"

definition device_session_ok :: "device_session \<Rightarrow> bool" where
  "device_session_ok s \<longleftrightarrow> length (ds_session_token_hash s) = 64 \<and> length (ds_csrf_token_hash s) = 64"

definition idempotency_ok :: "body_value idempotency_record \<Rightarrow> bool" where
  "idempotency_ok r \<longleftrightarrow> length (ir_key_hash r) = 64 \<and> length (ir_fingerprint r) = 64"

definition idempotency_fits :: "body_value idempotency_record \<Rightarrow> bool" where
  "idempotency_fits r \<longleftrightarrow> varchar 64 (ir_operation r) \<and> varchar 2048 (dumps (ir_response r))"

definition collection_settings_ok :: "collection_settings \<Rightarrow> bool" where
  "collection_settings_ok s \<longleftrightarrow> 1 \<le> cs_target_reserve s \<and> cs_target_reserve s \<le> 10"

definition reserve_device_ok :: "reserve_device \<Rightarrow> bool" where
  "reserve_device_ok r \<longleftrightarrow>
     0 \<le> rd_local_completed_count r \<and> 1 \<le> rd_desired_count r \<and> rd_desired_count r \<le> 100 \<and>
     0 \<le> rd_low_watermark r \<and> rd_low_watermark r < rd_desired_count r \<and>
     50 \<le> rd_quota_threshold r \<and> rd_quota_threshold r \<le> 95"

text \<open>Widths, then checks, foreign keys, and primary and unique keys.\<close>

definition control_widths_ok :: "control \<Rightarrow> bool" where
  "control_widths_ok c \<longleftrightarrow>
     widths_ok (c_db c) \<and> list_all (\<lambda>p. varchar 64 (pc_secret_hash p)) (c_pairing c) \<and>
     list_all (\<lambda>s. varchar 64 (ds_session_token_hash s) \<and> varchar 64 (ds_csrf_token_hash s)) (c_sessions c) \<and>
     list_all idempotency_fits (c_idempotency c) \<and> list_all (\<lambda>l. varchar 64 (rl_scope_hash l)) (c_limits c)"

definition control_rows_ok :: "control \<Rightarrow> bool" where
  "control_rows_ok c \<longleftrightarrow>
     list_all pairing_ok (c_pairing c) \<and> list_all device_session_ok (c_sessions c) \<and>
     list_all idempotency_ok (c_idempotency c) \<and> list_all collection_settings_ok (c_settings c) \<and>
     list_all reserve_device_ok (c_reserve c)"

definition control_references_ok :: "control \<Rightarrow> bool" where
  "control_references_ok c \<longleftrightarrow>
     list_all (\<lambda>p. pc_account_id p \<in> acc_id ` set (accounts (c_db c))) (c_pairing c) \<and>
     list_all (\<lambda>s. ds_account_id s \<in> acc_id ` set (accounts (c_db c))) (c_sessions c) \<and>
     list_all (\<lambda>r. ir_session_id r \<in> ds_id ` set (c_sessions c)) (c_idempotency c) \<and>
     list_all (\<lambda>s. cs_account_id s \<in> acc_id ` set (accounts (c_db c))) (c_settings c) \<and>
     list_all (\<lambda>r. rd_account_id r \<in> acc_id ` set (accounts (c_db c))) (c_reserve c)"

definition idempotency_scope :: "'b idempotency_record \<Rightarrow> uuid \<times> string \<times> string" where
  "idempotency_scope r = (ir_session_id r, ir_operation r, ir_key_hash r)"

definition control_uniques_ok :: "control \<Rightarrow> bool" where
  "control_uniques_ok c \<longleftrightarrow>
     unique_col pc_id (c_pairing c) \<and> unique_col pc_secret_hash (c_pairing c) \<and>
     unique_col ds_id (c_sessions c) \<and> unique_col ds_session_token_hash (c_sessions c) \<and>
     unique_col idempotency_scope (c_idempotency c) \<and> unique_col cs_account_id (c_settings c) \<and>
     unique_col (\<lambda>r. (rd_account_id r, rd_device_uuid r)) (c_reserve c) \<and>
     unique_col rl_scope_hash (c_limits c)"

definition control_ok :: "control \<Rightarrow> bool" where
  "control_ok c \<longleftrightarrow> constraints_ok (c_db c) \<and> control_widths_ok c \<and> control_rows_ok c \<and>
     control_references_ok c \<and> control_uniques_ok c"

lemmas control_defs = control_ok_def control_widths_ok_def control_rows_ok_def
  control_references_ok_def control_uniques_ok_def

definition empty_control :: control where
  "empty_control = \<lparr>c_db = empty_db, c_pairing = [], c_sessions = [], c_idempotency = [],
     c_settings = [], c_reserve = [], c_limits = []\<rparr>"

lemma control_ok_empty [simp]: "control_ok empty_control"
  by (simp add: control_ok_def control_widths_ok_def) (simp add: constraints_ok_empty [unfolded constraints_ok_def]
    empty_control_def control_rows_ok_def control_references_ok_def control_uniques_ok_def)

section \<open>Transactions\<close>

type_synonym 'a control_act = "(control, unit, 'a) act"

text \<open>\<open>with sessions.begin() as db\<close>: commit when the body returns and every constraint holds.\<close>

definition control_tx :: "(control \<Rightarrow> ('a \<times> control) result) \<Rightarrow> 'a control_act" where
  "control_tx f c =
     (case f c of
        Inl e \<Rightarrow> (Inl (Raise e), c)
      | Inr (x, c') \<Rightarrow>
          if control_ok c' then (Inr x, c')
          else (Inl (Raise (if control_widths_ok c' then IntegrityError else SQLAlchemyError)), c))"

text \<open>\<open>with sessions() as db\<close> that only reads, and an operation on the collection database.\<close>

definition control_read :: "(control \<Rightarrow> 'a result) \<Rightarrow> 'a control_act" where
  "control_read f = with_state (\<lambda>c. call (f c))"

definition on_db :: "(db \<Rightarrow> ('a \<times> db) result) \<Rightarrow> control \<Rightarrow> ('a \<times> control) result" where
  "on_db f c = rbind (f (c_db c)) (\<lambda>(x, d). Inr (x, c\<lparr>c_db := d\<rparr>))"

lemma control_tx_keeps:
  "(\<And>c x c'. P c \<Longrightarrow> f c = Inr (x, c') \<Longrightarrow> control_ok c' \<Longrightarrow> P c') \<Longrightarrow> keeps P (control_tx f)"
  by (rule keepsI) (auto simp: control_tx_def split: sum.splits prod.splits if_splits)

lemma control_read_keeps: "keeps P (control_read f)"
  by (rule keepsI) (auto simp: control_read_def act_defs split: sum.splits)

lemma wp_control_read:
  "wp (control_read f) Q c \<longleftrightarrow> (case f c of Inl e \<Rightarrow> Q (Inl (Raise e)) c | Inr x \<Rightarrow> Q (Inr x) c)"
  by (simp add: control_read_def wp_rules)

lemma wp_control_tx:
  "wp (control_tx f) Q c \<longleftrightarrow>
     (case f c of
        Inl e \<Rightarrow> Q (Inl (Raise e)) c
      | Inr (x, c') \<Rightarrow>
          if control_ok c' then Q (Inr x) c'
          else Q (Inl (Raise (if control_widths_ok c' then IntegrityError else SQLAlchemyError))) c)"
  by (simp add: wp_def control_tx_def split: sum.splits prod.splits)

end
