(* ===== verification/Management.thy ===== *)
theory Management
  imports Control
begin

text \<open>
  \<open>apps/api/app/api/management.py\<close>: the protected control plane. Requests authenticate with a device
  session from a single-use pairing, mutations also with origin and CSRF token, under fixed-window
  rate limits; a mutation runs under an idempotency key. An HTTP error is \<open>HTTPException\<close> with status
  and code. \<open>now k\<close>, \<open>fresh k\<close> and \<open>secret k\<close> are the \<open>k\<close>-th readings of the clock, \<open>uuid4\<close> and
  \<open>secrets.token_urlsafe\<close> in the handling of a request.
\<close>

record management_config =
  mc_sha :: "string \<Rightarrow> string"
  mc_origin :: string
  mc_scheme :: string
  mc_host :: string
  mc_port :: "int option"
  mc_session_ttl_minutes :: int
  mc_dump_datetime :: "timestamp \<Rightarrow> string"

record request =
  rq_host :: "string option"
  rq_origin :: "string option"
  rq_cookie :: "string option"
  rq_csrf :: "string option"
  rq_idempotency_key :: "string option"

record entropy =
  now :: "nat \<Rightarrow> timestamp"
  fresh :: "nat \<Rightarrow> uuid"
  secret :: "nat \<Rightarrow> string"

definition management_error :: "int \<Rightarrow> string \<Rightarrow> 'a result" where
  "management_error status reason = Inl (HTTPException status reason)"

section \<open>Where a request comes from\<close>

definition origin_of :: "management_config \<Rightarrow> string" where
  "origin_of cfg = rev (dropWhile (\<lambda>c. c = CHR ''/'') (rev (mc_origin cfg)))"

definition expected_host :: "management_config \<Rightarrow> string" where
  "expected_host cfg =
     (let default_port = (if mc_scheme cfg = ''https'' then 443 else 80) in
      case mc_port cfg of
        None \<Rightarrow> mc_host cfg
      | Some p \<Rightarrow> if p = default_port then mc_host cfg else mc_host cfg @ '':'' @ show_int p)"

definition require_host :: "management_config \<Rightarrow> request \<Rightarrow> unit result" where
  "require_host cfg rq =
     guard (HTTPException 403 ''forbidden_origin'')
       (lower (case rq_host rq of None \<Rightarrow> [] | Some h \<Rightarrow> h) = lower (expected_host cfg))"

definition require_origin :: "management_config \<Rightarrow> request \<Rightarrow> unit result" where
  "require_origin cfg rq =
     rbind (require_host cfg rq) (\<lambda>_.
     guard (HTTPException 403 ''forbidden_origin'') (rq_origin rq = Some (origin_of cfg)))"

section \<open>Sessions\<close>

definition is_expired :: "timestamp \<Rightarrow> timestamp \<Rightarrow> bool" where
  "is_expired t current \<longleftrightarrow> t \<le> current"

text \<open>Deleting a device session deletes its idempotency records.\<close>

definition cleanup_expired :: "timestamp \<Rightarrow> control \<Rightarrow> control" where
  "cleanup_expired current c =
     (let sessions = filter (\<lambda>s. \<not> ds_expires_at s \<le> current) (c_sessions c) in
      c\<lparr>c_idempotency := filter (\<lambda>r. \<not> ir_expires_at r \<le> current \<and> ir_session_id r \<in> ds_id ` set sessions)
          (c_idempotency c),
        c_pairing := filter (\<lambda>p. \<not> pc_expires_at p \<le> current) (c_pairing c),
        c_sessions := sessions,
        c_limits := filter (\<lambda>l. \<not> rl_window_started_at l \<le> current - minutes 1) (c_limits c)\<rparr>)"

definition session_by_token :: "management_config \<Rightarrow> string \<Rightarrow> control \<Rightarrow> device_session option" where
  "session_by_token cfg token c = lookup_row ds_session_token_hash (mc_sha cfg token) (c_sessions c)"

definition live_session :: "timestamp \<Rightarrow> device_session option \<Rightarrow> device_session result" where
  "live_session current item =
     (case item of
        None \<Rightarrow> management_error 401 ''session_expired''
      | Some s \<Rightarrow>
          if ds_revoked_at s \<noteq> None \<or> is_expired (ds_expires_at s) current
          then management_error 401 ''session_expired'' else Inr s)"

definition session_tx :: "management_config \<Rightarrow> entropy \<Rightarrow> string \<Rightarrow> device_session control_act" where
  "session_tx cfg en token = control_tx (\<lambda>c.
     let c = cleanup_expired (now en 0) c in
     rbind (live_session (now en 1) (session_by_token cfg token c)) (\<lambda>s. Inr (s, c)))"

definition get_current_session :: "management_config \<Rightarrow> request \<Rightarrow> entropy \<Rightarrow> device_session control_act" where
  "get_current_session cfg rq en =
     bind (call (require_host cfg rq)) (\<lambda>_.
     bind (call (case rq_cookie rq of
                   None \<Rightarrow> management_error 401 ''unauthorized''
                 | Some t \<Rightarrow> if t = [] then management_error 401 ''unauthorized'' else Inr t))
       (session_tx cfg en))"

abbreviation "require_management_session \<equiv> get_current_session"

section \<open>Rate limits\<close>

text \<open>One round of the loop of \<open>_enforce_rate_limit\<close>.\<close>

definition rate_limit_tx :: "management_config \<Rightarrow> string \<Rightarrow> int \<Rightarrow> timestamp \<Rightarrow> unit control_act" where
  "rate_limit_tx cfg scope bound current = control_tx (\<lambda>c.
     let scope_hash = mc_sha cfg scope in
     case lookup_row rl_scope_hash scope_hash (c_limits c) of
       None \<Rightarrow> Inr ((), c\<lparr>c_limits := c_limits c @
         [\<lparr>rl_scope_hash = scope_hash, rl_window_started_at = current, rl_request_count = 1\<rparr>]\<rparr>)
     | Some item \<Rightarrow>
         if rl_window_started_at item + minutes 1 \<le> current
         then Inr ((), c\<lparr>c_limits := update_rows rl_scope_hash scope_hash
                (\<lambda>l. l\<lparr>rl_window_started_at := current, rl_request_count := 1\<rparr>) (c_limits c)\<rparr>)
         else if rl_request_count item \<ge> bound then management_error 429 ''rate_limited''
         else Inr ((), c\<lparr>c_limits := update_rows rl_scope_hash scope_hash
                (\<lambda>l. l\<lparr>rl_request_count := rl_request_count l + 1\<rparr>) (c_limits c)\<rparr>))"

definition on_integrity_error :: "'a control_act \<Rightarrow> 'a control_act \<Rightarrow> 'a control_act" where
  "on_integrity_error a h = try_except a (\<lambda>e. if e = IntegrityError then h else raise e)"

definition enforce_rate_limit :: "management_config \<Rightarrow> string \<Rightarrow> int \<Rightarrow> timestamp \<Rightarrow> timestamp \<Rightarrow> unit control_act" where
  "enforce_rate_limit cfg scope bound first second =
     on_integrity_error (rate_limit_tx cfg scope bound first)
       (on_integrity_error (rate_limit_tx cfg scope bound second)
          (raise (HTTPException 429 ''rate_limited'')))"

definition require_mutation :: "management_config \<Rightarrow> request \<Rightarrow> entropy \<Rightarrow> device_session control_act" where
  "require_mutation cfg rq en =
     bind (require_management_session cfg rq en) (\<lambda>session.
     bind (call (require_origin cfg rq)) (\<lambda>_.
     bind (enforce_rate_limit cfg (''mutation:'' @ uuid_str (ds_id session)) 60 (now en 2) (now en 3)) (\<lambda>_.
     case rq_csrf rq of
       None \<Rightarrow> raise (HTTPException 403 ''csrf_invalid'')
     | Some csrf \<Rightarrow>
         if csrf = [] \<or> mc_sha cfg csrf \<noteq> ds_csrf_token_hash session
         then raise (HTTPException 403 ''csrf_invalid'') else ret session)))"

section \<open>Idempotency\<close>

type_synonym json_object = "(string \<times> body_value) list"

definition idempotency_ttl :: timedelta where
  "idempotency_ttl = hours 24"

definition idempotency_key :: "string option \<Rightarrow> string result" where
  "idempotency_key v =
     (case v of
        None \<Rightarrow> management_error 400 ''idempotency_required''
      | Some k \<Rightarrow>
          if \<not> (8 \<le> length k \<and> length k \<le> 128) \<or> \<not> list_all is_ascii k
          then management_error 400 ''idempotency_required'' else Inr k)"

definition find_idempotent :: "uuid \<Rightarrow> string \<Rightarrow> string \<Rightarrow> control \<Rightarrow> body_value idempotency_record option" where
  "find_idempotent session operation key_hash c =
     lookup_row idempotency_scope (session, operation, key_hash) (c_idempotency c)"

definition as_object :: "body_value \<Rightarrow> json_object" where
  "as_object v = (case v of BDict es \<Rightarrow> es | _ \<Rightarrow> [])"

text \<open>The transaction of \<open>_idempotent\<close>: the recorded response, or the action's, which is recorded.\<close>

definition idempotent_tx :: "device_session \<Rightarrow> string \<Rightarrow> string \<Rightarrow> string \<Rightarrow> timestamp \<Rightarrow>
    (control \<Rightarrow> ((int \<times> json_object) \<times> control) result) \<Rightarrow> control \<Rightarrow>
    ((int \<times> json_object \<times> bool) \<times> control) result" where
  "idempotent_tx session operation key_hash fingerprint current action c =
     (let c = cleanup_expired current c in
      case find_idempotent (ds_id session) operation key_hash c of
        Some existing \<Rightarrow>
          if ir_fingerprint existing \<noteq> fingerprint then management_error 409 ''idempotency_conflict''
          else Inr ((ir_response_status existing, as_object (ir_response existing), True), c)
      | None \<Rightarrow>
          rbind (action c) (\<lambda>((status, result), c).
          Inr ((status, result, False),
            c\<lparr>c_idempotency := c_idempotency c @
               [\<lparr>ir_session_id = ds_id session, ir_operation = operation, ir_key_hash = key_hash,
                 ir_fingerprint = fingerprint, ir_response_status = status,
                 ir_response = BDict (filter (\<lambda>(k, _). k \<noteq> ''_launch_token'') result),
                 ir_expires_at = current + idempotency_ttl\<rparr>]\<rparr>)))"

definition idempotent :: "management_config \<Rightarrow> device_session \<Rightarrow> string \<Rightarrow> string option \<Rightarrow> body_value \<Rightarrow>
    timestamp \<Rightarrow> (control \<Rightarrow> ((int \<times> json_object) \<times> control) result) \<Rightarrow>
    (int \<times> json_object \<times> bool) control_act" where
  "idempotent cfg session operation key body current action =
     bind (call (idempotency_key key)) (\<lambda>raw_key.
     let key_hash = mc_sha cfg raw_key; fingerprint = mc_sha cfg (dumps body) in
     on_integrity_error (control_tx (idempotent_tx session operation key_hash fingerprint current action))
       (control_read (\<lambda>c.
          case find_idempotent (ds_id session) operation key_hash c of
            None \<Rightarrow> management_error 503 ''service_unavailable''
          | Some existing \<Rightarrow>
              if ir_fingerprint existing = fingerprint
              then Inr (ir_response_status existing, as_object (ir_response existing), True)
              else management_error 503 ''service_unavailable'')))"

section \<open>Pairing and the device session\<close>

definition safe_session :: "device_session \<Rightarrow> body_value" where
  "safe_session s = BDict
     [(''session_id'', BText (uuid_str (ds_id s))), (''device_id'', BText (uuid_str (ds_device_id s))),
      (''expires_at'', BText (isoformat (ds_expires_at s)))]"

text \<open>The cookie with its age, and the body.\<close>

definition exchange_tx :: "management_config \<Rightarrow> entropy \<Rightarrow> string \<Rightarrow>
    ((string \<times> int) \<times> json_object) control_act" where
  "exchange_tx cfg en pairing_secret = control_tx (\<lambda>c.
     case lookup_row pc_secret_hash (mc_sha cfg pairing_secret) (c_pairing c) of
       None \<Rightarrow> management_error 401 ''pairing_unavailable''
     | Some challenge \<Rightarrow>
         if pc_consumed_at challenge \<noteq> None \<or> is_expired (pc_expires_at challenge) (now en 2)
         then management_error 401 ''pairing_unavailable''
         else
           let token = secret en 0; csrf = secret en 1;
               device = \<lparr>ds_id = fresh en 0, ds_account_id = pc_account_id challenge,
                 ds_device_id = fresh en 1, ds_session_token_hash = mc_sha cfg token,
                 ds_csrf_token_hash = mc_sha cfg csrf,
                 ds_expires_at = now en 2 + minutes (mc_session_ttl_minutes cfg), ds_revoked_at = None\<rparr>
           in Inr (((token, mc_session_ttl_minutes cfg * 60),
                    [(''session'', safe_session device), (''csrf_token'', BText csrf)]),
                c\<lparr>c_pairing := update_rows pc_secret_hash (mc_sha cfg pairing_secret)
                     (\<lambda>p. p\<lparr>pc_consumed_at := Some (now en 2)\<rparr>) (c_pairing c),
                  c_sessions := c_sessions c @ [device]\<rparr>))"

definition exchange_pairing :: "management_config \<Rightarrow> request \<Rightarrow> entropy \<Rightarrow> string \<Rightarrow>
    ((string \<times> int) \<times> json_object) control_act" where
  "exchange_pairing cfg rq en pairing_secret =
     (if length pairing_secret < 16 \<or> length pairing_secret > 256
      then raise (HTTPException 400 ''invalid_request'')
      else
     bind (call (require_origin cfg rq)) (\<lambda>_.
     bind (enforce_rate_limit cfg ''pairing'' 10 (now en 0) (now en 1)) (\<lambda>_.
     exchange_tx cfg en pairing_secret)))"

definition csrf_tx :: "management_config \<Rightarrow> entropy \<Rightarrow> device_session \<Rightarrow> json_object control_act" where
  "csrf_tx cfg en session =
     (let csrf = secret en 0 in
      control_tx (\<lambda>c.
        rbind (live_session (now en 2) (lookup_row ds_id (ds_id session) (c_sessions c))) (\<lambda>_.
        Inr ([(''session'', safe_session session), (''csrf_token'', BText csrf)],
             c\<lparr>c_sessions := update_rows ds_id (ds_id session)
                (\<lambda>s. s\<lparr>ds_csrf_token_hash := mc_sha cfg csrf\<rparr>) (c_sessions c)\<rparr>))))"

definition current_session :: "management_config \<Rightarrow> request \<Rightarrow> entropy \<Rightarrow> json_object control_act" where
  "current_session cfg rq en = bind (require_management_session cfg rq en) (csrf_tx cfg en)"

definition revoke_locked :: "uuid \<Rightarrow> timestamp \<Rightarrow> control \<Rightarrow> ((int \<times> json_object) \<times> control) result" where
  "revoke_locked session_id current c =
     Inr ((200, [(''revoked'', BBool True)]),
       c\<lparr>c_sessions := update_rows ds_id session_id
          (\<lambda>s. if ds_revoked_at s = None then s\<lparr>ds_revoked_at := Some current\<rparr> else s) (c_sessions c)\<rparr>)"

definition settings_body :: "bool \<Rightarrow> int \<Rightarrow> body_value" where
  "settings_body enabled target_reserve =
     BDict [(''enabled'', BBool enabled), (''target_reserve'', BInt target_reserve)]"

definition target_body :: "int \<Rightarrow> body_value" where
  "target_body target = BDict [(''target'', BInt target)]"

definition revoke_current_session :: "management_config \<Rightarrow> request \<Rightarrow> entropy \<Rightarrow> json_object control_act" where
  "revoke_current_session cfg rq en =
     bind (require_mutation cfg rq en) (\<lambda>session.
     bind (idempotent cfg session ''revoke_current_session'' (rq_idempotency_key rq)
             (settings_body False 1) (now en 4) (revoke_locked (ds_id session) (now en 5)))
       (\<lambda>(_, result, _). ret result))"

end
