(* ===== verification/ManagementApi.thy ===== *)
theory ManagementApi
  imports Management
begin

text \<open>
  The endpoints of \<open>apps/api/app/api/management.py\<close> on the account's Instagram state: login sessions,
  collection runs, views, catalog, settings and the reserve of a device. The arguments of an
  endpoint are the values of its parsed body; what pydantic refuses is the error 400.
\<close>

section \<open>Serialization\<close>

definition opt_text :: "string option \<Rightarrow> body_value" where
  "opt_text v = (case v of None \<Rightarrow> BNull | Some s \<Rightarrow> BText s)"

definition serialize_login :: "login_session \<Rightarrow> json_object" where
  "serialize_login s =
     [(''id'', BText (uuid_str (ls_id s))), (''status'', BText (login_status_value (ls_status s))),
      (''expires_at'', BText (isoformat (ls_expires_at s))), (''reason_code'', opt_text (ls_reason_code s))]"

definition serialize_run :: "collection_run \<Rightarrow> body_value" where
  "serialize_run r = BDict
     [(''id'', BText (uuid_str (run_id r))), (''status'', BText (run_status_value (run_status r))),
      (''target'', BInt (run_target_count r)),
      (''source_committed_count'', BInt (run_source_committed_count r)),
      (''already_available_count'', BInt (run_already_available_count r)),
      (''failed_count'', BInt (run_failed_count r)),
      (''cancel_requested'', BBool (run_cancel_requested_at r \<noteq> None)),
      (''reason_code'', opt_text (run_stop_reason_code r))]"

definition valid_body :: "bool \<Rightarrow> unit control_act" where
  "valid_body ok = call (guard (HTTPException 400 ''invalid_request'') ok)"

text \<open>A mutation: authenticated, then under its idempotency key.\<close>

definition mutation :: "management_config \<Rightarrow> request \<Rightarrow> entropy \<Rightarrow> bool \<Rightarrow> string \<Rightarrow> body_value \<Rightarrow>
    (device_session \<Rightarrow> control \<Rightarrow> ((int \<times> json_object) \<times> control) result) \<Rightarrow>
    (int \<times> json_object \<times> bool) control_act" where
  "mutation cfg rq en ok operation body action =
     bind (require_mutation cfg rq en) (\<lambda>session.
     bind (valid_body ok) (\<lambda>_.
     idempotent cfg session operation (rq_idempotency_key rq) body (now en 4) (action session)))"

section \<open>Status\<close>

definition count_jobs :: "NormalizationJobStatus \<Rightarrow> db \<Rightarrow> int" where
  "count_jobs st d = int (length (filter (\<lambda>j. job_status j = st) (jobs d)))"

definition count_cleanup :: "db \<Rightarrow> int" where
  "count_cleanup d = int (length (filter reel_cleanup_pending (reels d)))"

definition count_ready :: "db \<Rightarrow> int" where
  "count_ready d = int (length (filter (\<lambda>r. reel_status r = ReelPipelineStatus.READY) (reels d)))"

definition active_run :: "uuid \<Rightarrow> db \<Rightarrow> collection_run option" where
  "active_run account d = find (\<lambda>r. run_account_id r = account \<and> run_active r) (runs d)"

definition settings_of :: "uuid \<Rightarrow> control \<Rightarrow> bool \<times> int" where
  "settings_of account c =
     (case lookup_row cs_account_id account (c_settings c) of
        None \<Rightarrow> (False, 5)
      | Some s \<Rightarrow> (cs_enabled s, cs_target_reserve s))"

definition settings_response :: "bool \<times> int \<Rightarrow> json_object" where
  "settings_response s =
     [(''enabled'', BBool (fst s)), (''target_reserve'', BInt (snd s)), (''scheduler_active'', BBool False)]"

definition normalization_counts :: "db \<Rightarrow> json_object" where
  "normalization_counts d =
     [(''pending'', BInt (count_jobs NormalizationJobStatus.PENDING d)),
      (''running'', BInt (count_jobs NormalizationJobStatus.RUNNING d)),
      (''completed'', BInt (count_jobs NormalizationJobStatus.COMPLETED d)),
      (''failed'', BInt (count_jobs NormalizationJobStatus.FAILED d)),
      (''cleanup_pending'', BInt (count_cleanup d))]"

definition instagram_status :: "management_config \<Rightarrow> request \<Rightarrow> entropy \<Rightarrow> json_object control_act" where
  "instagram_status cfg rq en =
     bind (require_management_session cfg rq en) (\<lambda>session.
     control_read (\<lambda>c.
       let d = c_db c; account = get_account d (ds_account_id session);
           active_login = find (\<lambda>s. ls_account_id s = ds_account_id session \<and> session_open s) (login_sessions d)
       in Inr
        [(''connection_status'', BText (account_status_value
            (case account of None \<Rightarrow> AccountStatus.DISCONNECTED | Some a \<Rightarrow> acc_status a))),
         (''reconnect_required'', BBool (case account of None \<Rightarrow> False
            | Some a \<Rightarrow> acc_status a = AccountStatus.REAUTH_REQUIRED)),
         (''reason_code'', opt_text (Option.bind account acc_reason_code)),
         (''active_login'', (case active_login of None \<Rightarrow> BNull | Some s \<Rightarrow> BDict (serialize_login s))),
         (''active_collection'', (case active_run (ds_account_id session) d of
            None \<Rightarrow> BNull | Some r \<Rightarrow> serialize_run r)),
         (''normalization'', BDict (normalization_counts d)),
         (''ready_count'', BInt (count_ready d)),
         (''auto_collection'', BDict (settings_response (settings_of (ds_account_id session) c)))]))"

definition normalization_status :: "management_config \<Rightarrow> request \<Rightarrow> entropy \<Rightarrow> json_object control_act" where
  "normalization_status cfg rq en =
     bind (require_management_session cfg rq en) (\<lambda>_.
     control_read (\<lambda>c. Inr (normalization_counts (c_db c) @ [(''ready_count'', BInt (count_ready (c_db c)))])))"

section \<open>Login sessions\<close>

definition create_login_action :: "management_config \<Rightarrow> entropy \<Rightarrow> device_session \<Rightarrow> control \<Rightarrow>
    ((int \<times> json_object) \<times> control) result" where
  "create_login_action cfg en session c =
     (case on_db (create_in_transaction (mc_sha cfg) (ds_account_id session) default_login_ttl False
                    (secret en 0) (fresh en 0) (\<lambda>k. now en (5 + k))) c of
        Inl (LoginSessionError m) \<Rightarrow>
          if contains ''active'' (lower m) then management_error 409 ''active_login_exists''
          else management_error 409 ''reauth_required''
      | Inl e \<Rightarrow> Inl e
      | Inr (created, c) \<Rightarrow>
          Inr ((201,
            [(''login_session'', BDict
               [(''id'', BText (uuid_str (cl_session_id created))), (''status'', BText ''pending''),
                (''expires_at'', BText (isoformat (cl_expires_at created))), (''reason_code'', BNull)]),
             (''_launch_token'', BText (cl_launch_token created))]), c))"

definition text_field :: "json_object \<Rightarrow> string \<Rightarrow> string option" where
  "text_field es key = (case map_of es key of Some (BText s) \<Rightarrow> Some s | _ \<Rightarrow> None)"

definition login_field :: "json_object \<Rightarrow> string" where
  "login_field result =
     (case map_of result ''login_session'' of
        Some (BDict es) \<Rightarrow> (case text_field es ''id'' of Some i \<Rightarrow> i | None \<Rightarrow> [])
      | _ \<Rightarrow> [])"

definition create_login_session :: "management_config \<Rightarrow> request \<Rightarrow> entropy \<Rightarrow> (int \<times> json_object) control_act" where
  "create_login_session cfg rq en =
     bind (mutation cfg rq en True ''create_login'' (target_body 1) (create_login_action cfg en))
       (\<lambda>(status, result, replay).
     let token = text_field result ''_launch_token'';
         result = filter (\<lambda>(k, _). k \<noteq> ''_launch_token'') result
     in ret (status,
          case token of
            None \<Rightarrow> result
          | Some t \<Rightarrow>
              if replay then result
              else result @ [(''launch_url'',
                BText (origin_of cfg @ ''/connect/'' @ login_field result @ ''#'' @ t))]))"

definition login_session_status :: "management_config \<Rightarrow> request \<Rightarrow> entropy \<Rightarrow> uuid \<Rightarrow> json_object control_act" where
  "login_session_status cfg rq en i =
     bind (require_management_session cfg rq en) (\<lambda>session.
     control_read (\<lambda>c.
       case get_login (c_db c) i of
         None \<Rightarrow> management_error 404 ''login_not_found''
       | Some item \<Rightarrow>
           if ls_account_id item \<noteq> ds_account_id session then management_error 404 ''login_not_found''
           else Inr [(''login_session'', BDict (serialize_login item))]))"

definition cancel_login_action :: "entropy \<Rightarrow> uuid \<Rightarrow> device_session \<Rightarrow> control \<Rightarrow>
    ((int \<times> json_object) \<times> control) result" where
  "cancel_login_action en i session c =
     (case get_login (c_db c) i of
        None \<Rightarrow> management_error 404 ''login_not_found''
      | Some item \<Rightarrow>
          if ls_account_id item \<noteq> ds_account_id session then management_error 404 ''login_not_found''
          else
            (case on_db (cancel_in_transaction i (\<lambda>k. now en (5 + k))) c of
               Inl (LoginSessionError m) \<Rightarrow> management_error 404 ''login_not_found''
             | Inl e \<Rightarrow> Inl e
             | Inr (current, c) \<Rightarrow>
                 rbind (require AssertionError (get_login (c_db c) i)) (\<lambda>item.
                 Inr ((200, [(''login_session'', BDict (map (\<lambda>(k, v).
                    (k, if k = ''status'' then BText (login_status_value current) else v))
                    (serialize_login item)))]), c))))"

definition cancel_login_session :: "management_config \<Rightarrow> request \<Rightarrow> entropy \<Rightarrow> uuid \<Rightarrow> (int \<times> json_object) control_act" where
  "cancel_login_session cfg rq en i =
     bind (mutation cfg rq en True ''cancel_login'' (target_body 1) (cancel_login_action en i))
       (\<lambda>(status, result, _). ret (status, result))"

section \<open>Collection runs\<close>

definition create_run_action :: "entropy \<Rightarrow> int \<Rightarrow> device_session \<Rightarrow> control \<Rightarrow>
    ((int \<times> json_object) \<times> control) result" where
  "create_run_action en target session c =
     (let d = c_db c; account = get_account d (ds_account_id session) in
      if (case account of None \<Rightarrow> True | Some a \<Rightarrow> acc_status a \<noteq> AccountStatus.CONNECTED)
      then management_error 409
        (if (case account of None \<Rightarrow> False | Some a \<Rightarrow> acc_status a = AccountStatus.REAUTH_REQUIRED)
         then ''reauth_required'' else ''account_not_connected'')
      else if active_run (ds_account_id session) d \<noteq> None then management_error 409 ''active_run_exists''
      else
        let item = new_run (fresh en 0) (ds_account_id session) CollectionTrigger.MANUAL
                     CollectionRunStatus.QUEUED target None (now en 5)
        in Inr ((201, [(''collection_run'', serialize_run item)]), c\<lparr>c_db := d\<lparr>runs := runs d @ [item]\<rparr>\<rparr>))"

definition create_collection_run :: "management_config \<Rightarrow> request \<Rightarrow> entropy \<Rightarrow> int \<Rightarrow> (int \<times> json_object) control_act" where
  "create_collection_run cfg rq en target =
     bind (mutation cfg rq en (1 \<le> target \<and> target \<le> 10) ''create_collection_run'' (target_body target)
             (create_run_action en target))
       (\<lambda>(status, result, _). ret (status, result))"

definition collection_run_status :: "management_config \<Rightarrow> request \<Rightarrow> entropy \<Rightarrow> uuid \<Rightarrow> json_object control_act" where
  "collection_run_status cfg rq en i =
     bind (require_management_session cfg rq en) (\<lambda>session.
     control_read (\<lambda>c.
       case get_run (c_db c) i of
         None \<Rightarrow> management_error 404 ''run_not_found''
       | Some item \<Rightarrow>
           if run_account_id item \<noteq> ds_account_id session then management_error 404 ''run_not_found''
           else Inr [(''collection_run'', serialize_run item)]))"

definition cancel_requested_run :: "timestamp \<Rightarrow> timestamp \<Rightarrow> collection_run \<Rightarrow> collection_run" where
  "cancel_requested_run requested completed r =
     (let r = r\<lparr>run_cancel_requested_at := Some requested\<rparr> in
      if run_status r = CollectionRunStatus.QUEUED
      then r\<lparr>run_status := CollectionRunStatus.CANCELLED,
             run_stop_reason_code := Some ''CANCELLED_BY_USER'', run_completed_at := Some completed\<rparr>
      else r)"

definition cancel_run_action :: "entropy \<Rightarrow> uuid \<Rightarrow> device_session \<Rightarrow> control \<Rightarrow>
    ((int \<times> json_object) \<times> control) result" where
  "cancel_run_action en i session c =
     (case get_run (c_db c) i of
        None \<Rightarrow> management_error 404 ''run_not_found''
      | Some item \<Rightarrow>
          if run_account_id item \<noteq> ds_account_id session then management_error 404 ''run_not_found''
          else if run_status item \<in> {CollectionRunStatus.COMPLETED, CollectionRunStatus.FAILED,
                                     CollectionRunStatus.CANCELLED}
          then Inr ((200, [(''collection_run'', serialize_run item), (''already_completed'', BBool True)]), c)
          else
            let f = cancel_requested_run (now en 5) (now en 6) in
            Inr ((200, [(''collection_run'', serialize_run (f item)), (''already_completed'', BBool False)]),
                 c\<lparr>c_db := update_run i f (c_db c)\<rparr>))"

definition cancel_collection_run :: "management_config \<Rightarrow> request \<Rightarrow> entropy \<Rightarrow> uuid \<Rightarrow> (int \<times> json_object) control_act" where
  "cancel_collection_run cfg rq en i =
     bind (mutation cfg rq en True ''cancel_collection_run'' (target_body 1) (cancel_run_action en i))
       (\<lambda>(status, result, _). ret (status, result))"

end
