(* ===== verification/ManagementViews.thy ===== *)
theory ManagementViews
  imports ManagementApi
begin

text \<open>
  The rest of \<open>apps/api/app/api/management.py\<close>: the views a device reports, the catalog of its account, the
  collection settings, and the reserve each device reports. Timestamps in bodies carry the offset UTC,
  as the PWA sends them.
\<close>

section \<open>Views\<close>

definition view_event :: "uuid \<Rightarrow> body_value" where
  "view_event video = BDict [(''video_id'', BText (uuid_str video))]"

definition view_sync_body :: "uuid \<Rightarrow> uuid list \<Rightarrow> body_value" where
  "view_sync_body device events = BDict
     [(''device_uuid'', BText (uuid_str device)), (''events'', BList (map view_event events))]"

definition view_sync_valid :: "uuid list \<Rightarrow> bool" where
  "view_sync_valid events \<longleftrightarrow> 1 \<le> length events \<and> length events \<le> 50 \<and> distinct events"

text \<open>The run items of the account's runs, joined with their Reels.\<close>

definition collected_reels :: "uuid \<Rightarrow> db \<Rightarrow> reel list" where
  "collected_reels account d =
     [r. r \<leftarrow> reels d, i \<leftarrow> run_items d, item_reel_id i = reel_id r,
         u \<leftarrow> runs d, run_id u = item_run_id i \<and> run_account_id u = account]"

definition account_owned_reels :: "uuid \<Rightarrow> uuid list \<Rightarrow> db \<Rightarrow> uuid \<Rightarrow> reel option" where
  "account_owned_reels account video_ids d =
     map_of (rev (map (\<lambda>r. (the (reel_video_id r), r))
       (filter (\<lambda>r. reel_status r = ReelPipelineStatus.READY \<and> reel_video_id r \<in> Some ` set video_ids)
         (collected_reels account d))))"

text \<open>\<open>db.begin_nested()\<close>: an \<open>IntegrityError\<close> undoes the savepoint only.\<close>

definition savepoint_insert :: "reel_view \<Rightarrow> control \<Rightarrow> control result" where
  "savepoint_insert v c =
     (let c' = c\<lparr>c_db := (c_db c)\<lparr>reel_views := reel_views (c_db c) @ [v]\<rparr>\<rparr> in
      if control_ok c' then Inr c'
      else if control_widths_ok c' then Inr c
      else Inl SQLAlchemyError)"

definition view_exists :: "uuid \<Rightarrow> uuid \<Rightarrow> db \<Rightarrow> bool" where
  "view_exists account reel d \<longleftrightarrow> list_ex (\<lambda>v. rv_account_id v = account \<and> rv_reel_id v = reel) (reel_views d)"

text \<open>The loop over the requested ids, in the order the set yields them; round \<open>k\<close> reads the clock and
  \<open>uuid4\<close> at \<open>k\<close>.\<close>

fun confirm_views :: "entropy \<Rightarrow> uuid \<Rightarrow> uuid \<Rightarrow> (uuid \<Rightarrow> reel option) \<Rightarrow> nat \<Rightarrow> uuid list \<Rightarrow> control \<Rightarrow> control result" where
  "confirm_views en account device owned k [] c = Inr c"
| "confirm_views en account device owned k (video # rest) c =
     rbind (require LookupError (owned video)) (\<lambda>reel.
     rbind (if view_exists account (reel_id reel) (c_db c) then Inr c
            else savepoint_insert \<lparr>rv_id = fresh en k, rv_account_id = account, rv_reel_id = reel_id reel,
                   rv_device_uuid = Some device, rv_viewed_at = now en (5 + k)\<rparr> c) (\<lambda>c.
     confirm_views en account device owned (Suc k) rest c))"

definition sync_views_action :: "entropy \<Rightarrow> uuid \<Rightarrow> uuid list \<Rightarrow> device_session \<Rightarrow> control \<Rightarrow>
    ((int \<times> json_object) \<times> control) result" where
  "sync_views_action en device requested session c =
     (let owned = account_owned_reels (ds_account_id session) requested (c_db c) in
      if \<not> list_all (\<lambda>i. owned i \<noteq> None) requested then management_error 400 ''invalid_view_event''
      else
        rbind (confirm_views en (ds_account_id session) device owned 0 requested c) (\<lambda>c.
        Inr ((200, [(''confirmed_video_ids'', BList (map BText (sort (map uuid_str requested))))]), c)))"

definition sync_viewed_reels :: "management_config \<Rightarrow> request \<Rightarrow> entropy \<Rightarrow> uuid \<Rightarrow> uuid list \<Rightarrow>
    (uuid list \<Rightarrow> uuid list) \<Rightarrow> (int \<times> json_object) control_act" where
  "sync_viewed_reels cfg rq en device events set_order =
     bind (mutation cfg rq en (view_sync_valid events) ''sync_viewed_reels'' (view_sync_body device events)
             (sync_views_action en device (set_order events)))
       (\<lambda>(status, result, _). ret (status, result))"

definition viewed_reels_status :: "management_config \<Rightarrow> request \<Rightarrow> entropy \<Rightarrow> json_object control_act" where
  "viewed_reels_status cfg rq en =
     bind (require_management_session cfg rq en) (\<lambda>session.
     control_read (\<lambda>c. Inr [(''confirmed_count'',
       BInt (int (length (filter (\<lambda>v. rv_account_id v = ds_account_id session) (reel_views (c_db c))))))]))"

definition clamp :: "int \<Rightarrow> int" where
  "clamp n = min (max 1 n) 200"

definition confirmed_views :: "uuid \<Rightarrow> int \<Rightarrow> db \<Rightarrow> uuid list" where
  "confirmed_views account n d =
     List.map_filter id
       (take (nat (clamp n))
         (map snd (rev (sort_key fst
           [((rv_viewed_at v, rv_id v), reel_video_id r).
              v \<leftarrow> reel_views d, rv_account_id v = account, r \<leftarrow> reels d, reel_id r = rv_reel_id v]))))"

definition confirmed_viewed_reels :: "management_config \<Rightarrow> request \<Rightarrow> entropy \<Rightarrow> int \<Rightarrow> json_object control_act" where
  "confirmed_viewed_reels cfg rq en n =
     bind (require_management_session cfg rq en) (\<lambda>session.
     control_read (\<lambda>c. Inr [(''confirmed_video_ids'',
       BList (map (\<lambda>i. BText (uuid_str i)) (confirmed_views (ds_account_id session) n (c_db c))))]))"

section \<open>The catalog of an account\<close>

text \<open>The rows of the joins, latest video first: one row for every run that collected the Reel of the video.\<close>

definition catalog_rows :: "uuid \<Rightarrow> db \<Rightarrow> video list" where
  "catalog_rows account d =
     rev (sort_key (\<lambda>v. (vid_created_at v, vid_id v))
       [v. v \<leftarrow> videos d,
           r \<leftarrow> collected_reels account d,
           reel_video_id r = Some (vid_id v) \<and> reel_status r = ReelPipelineStatus.READY \<and>
           \<not> view_exists account (reel_id r) d])"

text \<open>\<open>LIMIT\<close> of the query, then \<open>.unique()\<close> of the result, which keeps first occurrences.\<close>

fun unique_rows :: "'a list \<Rightarrow> 'a list" where
  "unique_rows [] = []"
| "unique_rows (x # xs) = x # unique_rows (filter (\<lambda>y. y \<noteq> x) xs)"

definition catalog_page :: "uuid \<Rightarrow> int \<Rightarrow> db \<Rightarrow> video list" where
  "catalog_page account n d = unique_rows (take (nat (clamp n)) (catalog_rows account d))"

definition catalog_item :: "video \<Rightarrow> body_value" where
  "catalog_item v = BDict
     [(''id'', BText (uuid_str (vid_id v))), (''title'', BText (vid_title v)),
      (''content_type'', BText (vid_content_type v)), (''byte_size'', BInt (vid_byte_size v)),
      (''created_at'', BText (isoformat (vid_created_at v)))]"

definition account_catalog :: "management_config \<Rightarrow> request \<Rightarrow> entropy \<Rightarrow> int \<Rightarrow> json_object control_act" where
  "account_catalog cfg rq en n =
     bind (require_management_session cfg rq en) (\<lambda>session.
     control_read (\<lambda>c. Inr [(''items'',
       BList (map catalog_item (catalog_page (ds_account_id session) n (c_db c))))]))"

section \<open>Collection settings\<close>

definition collection_settings_status :: "management_config \<Rightarrow> request \<Rightarrow> entropy \<Rightarrow> json_object control_act" where
  "collection_settings_status cfg rq en =
     bind (require_management_session cfg rq en) (\<lambda>session.
     control_read (\<lambda>c. Inr (settings_response (settings_of (ds_account_id session) c))))"

definition settings_action :: "bool \<Rightarrow> int \<Rightarrow> device_session \<Rightarrow> control \<Rightarrow> ((int \<times> json_object) \<times> control) result" where
  "settings_action enabled target_reserve session c =
     Inr ((200, settings_response (enabled, target_reserve)),
       (case lookup_row cs_account_id (ds_account_id session) (c_settings c) of
          None \<Rightarrow> c\<lparr>c_settings := c_settings c @
            [\<lparr>cs_account_id = ds_account_id session, cs_enabled = enabled, cs_target_reserve = target_reserve\<rparr>]\<rparr>
        | Some _ \<Rightarrow> c\<lparr>c_settings := update_rows cs_account_id (ds_account_id session)
            (\<lambda>s. s\<lparr>cs_enabled := enabled, cs_target_reserve := target_reserve\<rparr>) (c_settings c)\<rparr>))"

definition update_collection_settings :: "management_config \<Rightarrow> request \<Rightarrow> entropy \<Rightarrow> bool \<Rightarrow> int \<Rightarrow>
    (int \<times> json_object) control_act" where
  "update_collection_settings cfg rq en enabled target_reserve =
     bind (mutation cfg rq en (1 \<le> target_reserve \<and> target_reserve \<le> 10) ''update_collection_settings''
             (settings_body enabled target_reserve) (settings_action enabled target_reserve))
       (\<lambda>(status, result, _). ret (status, result))"

section \<open>The reserve of a device\<close>

record reserve_settings_request =
  rp_device_uuid :: uuid
  rp_auto_refill_enabled :: bool
  rp_desired_count :: int
  rp_low_watermark :: int
  rp_quota_threshold :: int

record reserve_report = reserve_settings_request +
  rp_local_completed_count :: int
  rp_reported_at :: timestamp

definition reserve_settings_valid :: "'a reserve_settings_request_scheme \<Rightarrow> bool" where
  "reserve_settings_valid p \<longleftrightarrow>
     1 \<le> rp_desired_count p \<and> rp_desired_count p \<le> 100 \<and>
     0 \<le> rp_low_watermark p \<and> rp_low_watermark p \<le> 99 \<and>
     50 \<le> rp_quota_threshold p \<and> rp_quota_threshold p \<le> 95 \<and> rp_low_watermark p < rp_desired_count p"

definition reserve_report_valid :: "reserve_report \<Rightarrow> bool" where
  "reserve_report_valid p \<longleftrightarrow> reserve_settings_valid p \<and>
     0 \<le> rp_local_completed_count p \<and> rp_local_completed_count p \<le> 1000"

definition reserve_settings_fields :: "'a reserve_settings_request_scheme \<Rightarrow> json_object" where
  "reserve_settings_fields p =
     [(''device_uuid'', BText (uuid_str (rp_device_uuid p))),
      (''auto_refill_enabled'', BBool (rp_auto_refill_enabled p)),
      (''desired_count'', BInt (rp_desired_count p)), (''low_watermark'', BInt (rp_low_watermark p)),
      (''quota_threshold'', BInt (rp_quota_threshold p))]"

definition reserve_report_body :: "management_config \<Rightarrow> reserve_report \<Rightarrow> body_value" where
  "reserve_report_body cfg p = BDict (reserve_settings_fields p @
     [(''local_completed_count'', BInt (rp_local_completed_count p)),
      (''reported_at'', BText (mc_dump_datetime cfg (rp_reported_at p)))])"

definition serialize_reserve_device :: "reserve_device \<Rightarrow> body_value" where
  "serialize_reserve_device r = BDict
     [(''auto_refill_enabled'', BBool (rd_auto_refill_enabled r)),
      (''local_completed_count'', BInt (rd_local_completed_count r)),
      (''desired_count'', BInt (rd_desired_count r)), (''low_watermark'', BInt (rd_low_watermark r)),
      (''quota_threshold'', BInt (rd_quota_threshold r)),
      (''reported_at'', BText (isoformat (rd_reported_at r)))]"

definition device_key :: "reserve_device \<Rightarrow> uuid \<times> uuid" where
  "device_key r = (rd_account_id r, rd_device_uuid r)"

text \<open>A late report does not overwrite a newer one.\<close>

definition take_report :: "reserve_report \<Rightarrow> reserve_device \<Rightarrow> reserve_device" where
  "take_report p r =
     (if rp_reported_at p \<ge> rd_reported_at r
      then r\<lparr>rd_auto_refill_enabled := rp_auto_refill_enabled p,
             rd_local_completed_count := rp_local_completed_count p,
             rd_desired_count := rp_desired_count p, rd_low_watermark := rp_low_watermark p,
             rd_quota_threshold := rp_quota_threshold p, rd_reported_at := rp_reported_at p\<rparr>
      else r)"

definition reported_device :: "uuid \<Rightarrow> reserve_report \<Rightarrow> reserve_device" where
  "reported_device account p =
     \<lparr>rd_account_id = account, rd_device_uuid = rp_device_uuid p,
      rd_auto_refill_enabled = rp_auto_refill_enabled p,
      rd_local_completed_count = rp_local_completed_count p, rd_desired_count = rp_desired_count p,
      rd_low_watermark = rp_low_watermark p, rd_quota_threshold = rp_quota_threshold p,
      rd_reported_at = rp_reported_at p\<rparr>"

definition upsert_reserve_device :: "uuid \<Rightarrow> reserve_report \<Rightarrow> control \<Rightarrow> (reserve_device \<times> control) result" where
  "upsert_reserve_device account p c =
     (if get_account (c_db c) account = None then management_error 401 ''unauthorized''
      else
        case lookup_row device_key (account, rp_device_uuid p) (c_reserve c) of
          None \<Rightarrow> Inr (reported_device account p, c\<lparr>c_reserve := c_reserve c @ [reported_device account p]\<rparr>)
        | Some item \<Rightarrow> Inr (take_report p item,
            c\<lparr>c_reserve := update_rows device_key (account, rp_device_uuid p) (take_report p) (c_reserve c)\<rparr>))"

definition reserve_settings :: "management_config \<Rightarrow> request \<Rightarrow> entropy \<Rightarrow> uuid \<Rightarrow> json_object control_act" where
  "reserve_settings cfg rq en device =
     bind (require_management_session cfg rq en) (\<lambda>session.
     control_read (\<lambda>c. Inr [(''reserve'',
       (case lookup_row device_key (ds_account_id session, device) (c_reserve c) of
          None \<Rightarrow> BNull | Some item \<Rightarrow> serialize_reserve_device item))]))"

definition reserve_action :: "reserve_report \<Rightarrow> device_session \<Rightarrow> control \<Rightarrow> ((int \<times> json_object) \<times> control) result" where
  "reserve_action p session c =
     rbind (upsert_reserve_device (ds_account_id session) p c) (\<lambda>(item, c).
     Inr ((200, [(''reserve'', serialize_reserve_device item)]), c))"

text \<open>The report an update of the settings stands for carries the server's time and no count.\<close>

definition settings_report :: "reserve_settings_request \<Rightarrow> timestamp \<Rightarrow> reserve_report" where
  "settings_report p t = reserve_settings_request.extend p (reserve_report.fields 0 t)"

definition update_reserve_settings :: "management_config \<Rightarrow> request \<Rightarrow> entropy \<Rightarrow> reserve_settings_request \<Rightarrow>
    (int \<times> json_object) control_act" where
  "update_reserve_settings cfg rq en p =
     bind (require_mutation cfg rq en) (\<lambda>session.
     bind (valid_body (reserve_settings_valid p)) (\<lambda>_.
     let report = settings_report p (now en 4) in
     bind (idempotent cfg session ''update_reserve_settings'' (rq_idempotency_key rq)
             (BDict (reserve_settings_fields p)) (now en 5) (reserve_action report session))
       (\<lambda>(status, result, _). ret (status, result))))"

definition report_reserve :: "management_config \<Rightarrow> request \<Rightarrow> entropy \<Rightarrow> reserve_report \<Rightarrow>
    (int \<times> json_object) control_act" where
  "report_reserve cfg rq en p =
     bind (mutation cfg rq en (reserve_report_valid p) ''report_reserve'' (reserve_report_body cfg p)
             (reserve_action p))
       (\<lambda>(status, result, _). ret (status, result))"

definition reserve_status :: "management_config \<Rightarrow> request \<Rightarrow> entropy \<Rightarrow> json_object control_act" where
  "reserve_status cfg rq en =
     bind (require_management_session cfg rq en) (\<lambda>session.
     control_read (\<lambda>c.
       let mine = filter (\<lambda>r. rd_account_id r = ds_account_id session) (c_reserve c) in Inr
        [(''reported_devices'', BInt (int (length mine))),
         (''local_completed_count'', BInt (sum_list (map rd_local_completed_count mine))),
         (''desired_count'', BInt (fold max (map rd_desired_count mine) 0)),
         (''collection_active'', BBool (active_run (ds_account_id session) (c_db c) \<noteq> None))]))"

end
