(* ===== verification/ManagementSafety.thy ===== *)
theory ManagementSafety
  imports ManagementViews
begin

text \<open>
  Histories of the management API: its transactions as a step relation, so that a history is any
  interleaving of the transactions of concurrent requests, and what every transaction keeps.
\<close>

section \<open>The transactions\<close>

inductive management_action :: "management_config \<Rightarrow> device_session \<Rightarrow>
    (control \<Rightarrow> ((int \<times> json_object) \<times> control) result) \<Rightarrow> bool"
  for cfg :: management_config and session :: device_session where
  "management_action cfg session (revoke_locked (ds_id session) t)"
| "management_action cfg session (create_login_action cfg en session)"
| "management_action cfg session (cancel_login_action en i session)"
| "management_action cfg session (create_run_action en target session)"
| "management_action cfg session (cancel_run_action en i session)"
| "management_action cfg session (sync_views_action en device requested session)"
| "management_action cfg session (settings_action enabled target_reserve session)"
| "management_action cfg session (reserve_action p session)"

text \<open>One committed or rolled back transaction whose cleanup, if it has one, ran before \<open>until\<close>.\<close>

inductive management_tx :: "management_config \<Rightarrow> timestamp \<Rightarrow> control \<Rightarrow> control \<Rightarrow> bool"
  for cfg :: management_config and until :: timestamp where
  authenticate: "now en 0 < until \<Longrightarrow> session_tx cfg en token c = (r, c') \<Longrightarrow> management_tx cfg until c c'"
| rate: "rate_limit_tx cfg scope bound t c = (u, c') \<Longrightarrow> management_tx cfg until c c'"
| exchange: "exchange_tx cfg en pairing_secret c = (x, c') \<Longrightarrow> management_tx cfg until c c'"
| csrf: "csrf_tx cfg en session c = (j, c') \<Longrightarrow> management_tx cfg until c c'"
| mutate: "management_action cfg session action \<Longrightarrow> t < until \<Longrightarrow>
    control_tx (idempotent_tx session operation key_hash fingerprint t action) c = (m, c') \<Longrightarrow>
    management_tx cfg until c c'"

inductive_cases management_txE: "management_tx cfg until c c'"

section \<open>Frames\<close>

text \<open>The actions leave the tables of pairing, rate limits and idempotency alone, and the keys and
  expiries of the device sessions.\<close>

definition session_face :: "device_session \<Rightarrow> uuid \<times> uuid \<times> string \<times> timestamp" where
  "session_face s = (ds_id s, ds_account_id s, ds_session_token_hash s, ds_expires_at s)"

definition action_frame :: "control \<Rightarrow> control \<Rightarrow> bool" where
  "action_frame c c' \<longleftrightarrow> c_pairing c' = c_pairing c \<and> c_idempotency c' = c_idempotency c \<and>
     c_limits c' = c_limits c \<and> map session_face (c_sessions c') = map session_face (c_sessions c)"

lemma action_frame_refl [simp]: "action_frame c c"
  by (simp add: action_frame_def)

lemma on_db_frame: "on_db f c = Inr (x, c') \<Longrightarrow> action_frame c c'"
  by (auto simp: on_db_def action_frame_def)

lemma confirm_views_only_views:
  "confirm_views en account device owned k ids c = Inr c' \<Longrightarrow>
   \<exists>new. c' = c\<lparr>c_db := (c_db c)\<lparr>reel_views := reel_views (c_db c) @ new\<rparr>\<rparr>"
proof (induction ids arbitrary: k c)
  case (Cons v vs)
  show ?case
  proof -
    obtain r :: reel and d where d: "confirm_views en account device owned (Suc k) vs d = Inr c'"
      and r: "(if view_exists account (reel_id r) (c_db c) then Inr c
        else savepoint_insert \<lparr>rv_id = fresh en k, rv_account_id = account, rv_reel_id = reel_id r,
                   rv_device_uuid = Some device, rv_viewed_at = now en (5 + k)\<rparr> c) = Inr d"
      using Cons.prems by auto
    have "d = c \<or> (\<exists>v. d = c\<lparr>c_db := (c_db c)\<lparr>reel_views := reel_views (c_db c) @ [v]\<rparr>\<rparr>)"
      using r by (auto simp: savepoint_insert_def Let_def split: if_splits)
    moreover have "c = c\<lparr>c_db := (c_db c)\<lparr>reel_views := reel_views (c_db c) @ []\<rparr>\<rparr>" by simp
    ultimately have step: "\<exists>new. d = c\<lparr>c_db := (c_db c)\<lparr>reel_views := reel_views (c_db c) @ new\<rparr>\<rparr>"
      by metis
    show ?thesis using Cons.IH [OF d] step by force
  qed
qed (auto intro!: exI [of _ "[]"])

lemma action_keeps_frame:
  assumes "management_action cfg session action" "action c = Inr (x, c')"
  shows "action_frame c c'"
  using assms
proof (cases rule: management_action.cases)
  case 1
  then show ?thesis using assms(2)
    by (auto simp: revoke_locked_def action_frame_def update_rows_def session_face_def)
next
  case (2 en)
  then show ?thesis using assms(2)
    by (auto simp: create_login_action_def management_error_def split: sum.splits exn.splits if_splits dest: on_db_frame)
next
  case (3 en i)
  then show ?thesis using assms(2)
    by (auto simp: cancel_login_action_def management_error_def split: sum.splits exn.splits if_splits option.splits
        dest: on_db_frame)
next
  case (6 en device requested)
  then show ?thesis using assms(2)
    by (auto simp: sync_views_action_def management_error_def Let_def action_frame_def split: if_splits
        dest!: confirm_views_only_views)
qed (auto simp: create_run_action_def cancel_run_action_def settings_action_def reserve_action_def
    upsert_reserve_device_def management_error_def action_frame_def Let_def split: if_splits option.splits)


section \<open>What a transaction does to the tables\<close>

lemma control_txD: "control_tx f c = (r, c') \<Longrightarrow> c' = c \<or> (\<exists>x. f c = Inr (x, c') \<and> r = Inr x \<and> control_ok c')"
  by (auto simp: control_tx_def split: sum.splits prod.splits if_splits)

text \<open>A consumed secret stays consumed, a session keeps its face until it expires, and so does a
  recorded response as long as its session lives.\<close>

definition tables_kept :: "timestamp \<Rightarrow> control \<Rightarrow> control \<Rightarrow> bool" where
  "tables_kept until c c' \<longleftrightarrow>
     (\<forall>p' \<in> set (c_pairing c'). \<exists>p \<in> set (c_pairing c). pc_secret_hash p' = pc_secret_hash p \<and>
        (pc_consumed_at p \<noteq> None \<longrightarrow> pc_consumed_at p' \<noteq> None)) \<and>
     (\<forall>s \<in> set (c_sessions c). until \<le> ds_expires_at s \<longrightarrow> session_face s \<in> session_face ` set (c_sessions c')) \<and>
     (\<forall>r \<in> set (c_idempotency c). until \<le> ir_expires_at r \<longrightarrow>
        (\<exists>s \<in> set (c_sessions c). ds_id s = ir_session_id r \<and> until \<le> ds_expires_at s) \<longrightarrow>
        r \<in> set (c_idempotency c'))"

lemma tables_keptD:
  assumes "tables_kept until c c'"
  shows "\<And>p'. p' \<in> set (c_pairing c') \<Longrightarrow> \<exists>p \<in> set (c_pairing c). pc_secret_hash p' = pc_secret_hash p \<and>
        (pc_consumed_at p \<noteq> None \<longrightarrow> pc_consumed_at p' \<noteq> None)"
    and "\<And>s. s \<in> set (c_sessions c) \<Longrightarrow> until \<le> ds_expires_at s \<Longrightarrow>
        \<exists>s' \<in> set (c_sessions c'). session_face s' = session_face s"
    and "\<And>r s. r \<in> set (c_idempotency c) \<Longrightarrow> until \<le> ir_expires_at r \<Longrightarrow> s \<in> set (c_sessions c) \<Longrightarrow>
        ds_id s = ir_session_id r \<Longrightarrow> until \<le> ds_expires_at s \<Longrightarrow> r \<in> set (c_idempotency c')"
  using assms unfolding tables_kept_def by (blast, force, blast)

lemma tables_kept_refl [simp]: "tables_kept until c c"
  by (auto simp: tables_kept_def)

lemma tables_kept_trans:
  assumes a: "tables_kept until c1 c2" and b: "tables_kept until c2 c3"
  shows "tables_kept until c1 c3"
  unfolding tables_kept_def
proof (intro conjI ballI impI)
  fix p assume "p \<in> set (c_pairing c3)"
  then show "\<exists>q \<in> set (c_pairing c1). pc_secret_hash p = pc_secret_hash q \<and>
      (pc_consumed_at q \<noteq> None \<longrightarrow> pc_consumed_at p \<noteq> None)"
    using tables_keptD(1) [OF b] tables_keptD(1) [OF a] by metis
next
  fix s assume "s \<in> set (c_sessions c1)" "until \<le> ds_expires_at s"
  then show "session_face s \<in> session_face ` set (c_sessions c3)"
    using tables_keptD(2) [OF a] tables_keptD(2) [OF b] unfolding session_face_def by (smt (verit) image_iff prod.inject)
next
  fix r assume r: "r \<in> set (c_idempotency c1)" "until \<le> ir_expires_at r"
    "\<exists>s \<in> set (c_sessions c1). ds_id s = ir_session_id r \<and> until \<le> ds_expires_at s"
  then obtain s where s: "s \<in> set (c_sessions c1)" "ds_id s = ir_session_id r" "until \<le> ds_expires_at s"
    by blast
  then obtain s' where "s' \<in> set (c_sessions c2)" "session_face s' = session_face s"
    using tables_keptD(2) [OF a] by blast
  then show "r \<in> set (c_idempotency c3)"
    using tables_keptD(3) [OF a r(1,2) s] tables_keptD(3) [OF b] r(2) s by (auto simp: session_face_def)
qed

lemma cleanup_kept: "t < until \<Longrightarrow> tables_kept until c (cleanup_expired t c)"
  by (force simp: tables_kept_def cleanup_expired_def Let_def)

lemma kept_by_frame:
  assumes "action_frame c c'" shows "tables_kept until c c'"
proof -
  have "session_face ` set (c_sessions c') = session_face ` set (c_sessions c)"
    using assms unfolding action_frame_def by (metis list.set_map)
  then show ?thesis using assms by (force simp: tables_kept_def action_frame_def)
qed

lemma kept_limits [simp]: "tables_kept until c (c\<lparr>c_limits := l\<rparr>)"
  by (force simp: tables_kept_def)

lemma kept_consumed [simp]:
  "tables_kept until c (c\<lparr>c_pairing := update_rows pc_secret_hash h (\<lambda>p. p\<lparr>pc_consumed_at := Some t\<rparr>) (c_pairing c),
     c_sessions := c_sessions c @ new\<rparr>)"
proof -
  have "\<exists>p \<in> set (c_pairing c). pc_secret_hash p' = pc_secret_hash p \<and>
      (pc_consumed_at p \<noteq> None \<longrightarrow> pc_consumed_at p' \<noteq> None)"
    if m: "p' \<in> set (update_rows pc_secret_hash h (\<lambda>p. p\<lparr>pc_consumed_at := Some t\<rparr>) (c_pairing c))" for p'
  proof -
    obtain p where "p \<in> set (c_pairing c)" "p' = (if pc_secret_hash p = h then p\<lparr>pc_consumed_at := Some t\<rparr> else p)"
      using m unfolding in_update_rows by blast
    then show ?thesis by (intro bexI [of _ p]) auto
  qed
  then show ?thesis by (simp add: tables_kept_def)
qed

lemma kept_by_append:
  "tables_kept until c c' \<Longrightarrow> tables_kept until c (c'\<lparr>c_idempotency := c_idempotency c' @ new\<rparr>)"
  by (auto simp: tables_kept_def)

lemma idempotent_tx_kept:
  assumes "management_action cfg session action" "t < until"
    "idempotent_tx session operation key_hash fingerprint t action c = Inr (x, c')"
  shows "tables_kept until c c'"
proof -
  let ?d = "cleanup_expired t c"
  have d: "tables_kept until c ?d" using cleanup_kept [OF assms(2)] .
  show ?thesis
  proof (cases "find_idempotent (ds_id session) operation key_hash ?d")
    case None
    then obtain st res e where e: "action ?d = Inr ((st, res), e)"
      and c': "\<exists>new. c' = e\<lparr>c_idempotency := c_idempotency e @ new\<rparr>"
      using assms(3) by (auto simp: idempotent_tx_def Let_def)
    have "tables_kept until ?d e" using kept_by_frame action_keeps_frame [OF assms(1) e] .
    then show ?thesis using c' kept_by_append tables_kept_trans [OF d] by blast
  next
    case (Some r)
    then show ?thesis using assms(3) d by (auto simp: idempotent_tx_def Let_def management_error_def split: if_splits)
  qed
qed

lemma management_tx_kept:
  assumes "management_tx cfg until c c'"
  shows "tables_kept until c c'"
  using assms
proof (cases rule: management_tx.cases)
  case (authenticate en token r)
  then show ?thesis using cleanup_kept by (auto simp: session_tx_def Let_def dest!: control_txD)
next
  case (rate scope bound t u)
  then show ?thesis
    by (auto simp: rate_limit_tx_def Let_def management_error_def dest!: control_txD split: option.splits if_splits)
next
  case (exchange en pairing_secret x)
  then show ?thesis
    by (auto simp: exchange_tx_def Let_def management_error_def dest!: control_txD split: option.splits if_splits)
next
  case (csrf en session j)
  then show ?thesis
    by (auto simp: csrf_tx_def Let_def live_session_def management_error_def dest!: control_txD split: option.splits if_splits
        intro!: kept_by_frame simp: action_frame_def update_rows_def session_face_def)
next
  case (mutate session action t operation key_hash fingerprint m)
  then show ?thesis by (auto dest!: control_txD intro: idempotent_tx_kept)
qed

lemma management_history_kept:
  "(management_tx cfg until)\<^sup>*\<^sup>* c c' \<Longrightarrow> tables_kept until c c'"
  by (induction rule: rtranclp_induct) (auto intro: tables_kept_trans management_tx_kept)

end
