(* ===== verification/ManagementProps.thy ===== *)
theory ManagementProps
  imports ManagementSafety
begin

text \<open>
  Properties of the management API: a pairing secret works once, a mutation takes effect only with
  the authority of a live device session, and an idempotency key runs its action once.
\<close>

section \<open>Cleanup keeps the constraints\<close>

lemma unique_col_filter: "unique_col key rows \<Longrightarrow> unique_col key (filter P rows)"
  by (simp add: unique_col_def distinct_map_filter)

lemma cleanup_ok:
  assumes "control_ok c" shows "control_ok (cleanup_expired t c)"
proof -
  have "control_widths_ok (cleanup_expired t c)"
    using assms by (auto simp: control_ok_def control_widths_ok_def cleanup_expired_def Let_def list_all_iff)
  moreover have "control_rows_ok (cleanup_expired t c)"
    using assms by (auto simp: control_ok_def control_rows_ok_def cleanup_expired_def Let_def list_all_iff)
  moreover have "control_references_ok (cleanup_expired t c)"
    using assms by (auto simp: control_ok_def control_references_ok_def cleanup_expired_def Let_def list_all_iff)
  moreover have "control_uniques_ok (cleanup_expired t c)"
    using assms by (simp add: control_ok_def control_uniques_ok_def cleanup_expired_def Let_def unique_col_filter)
  ultimately show ?thesis using assms by (simp add: control_ok_def cleanup_expired_def Let_def)
qed

lemma management_history_ok:
  assumes "(management_tx cfg until)\<^sup>*\<^sup>* c c'" "control_ok c" shows "control_ok c'"
  using assms
proof (induction rule: rtranclp_induct)
  case (step d d')
  then have "control_ok d" by simp
  with step.hyps(2) show ?case
    by (cases rule: management_tx.cases)
      (auto simp: session_tx_def rate_limit_tx_def exchange_tx_def csrf_tx_def Let_def dest!: control_txD)
qed simp

section \<open>Pairing\<close>

definition spent :: "string \<Rightarrow> control \<Rightarrow> bool" where
  "spent h c \<longleftrightarrow> (\<forall>p \<in> set (c_pairing c). pc_secret_hash p = h \<longrightarrow> pc_consumed_at p \<noteq> None)"

lemma spent_kept: "tables_kept until c c' \<Longrightarrow> spent h c \<Longrightarrow> spent h c'"
  unfolding spent_def using tables_keptD(1) by metis

lemma rate_limit_kept: "enforce_rate_limit cfg scope bound t t' c = (r, c') \<Longrightarrow> tables_kept until c c'"
proof -
  have one: "keeps (tables_kept until c) (rate_limit_tx cfg scope bound t)" for t
    by (rule keepsI) (metis management_tx.rate management_tx_kept tables_kept_trans)
  have "keeps (tables_kept until c) (enforce_rate_limit cfg scope bound t t')"
    unfolding enforce_rate_limit_def on_integrity_error_def by (auto intro!: act_inv one)
  then show "enforce_rate_limit cfg scope bound t t' c = (r, c') \<Longrightarrow> tables_kept until c c'"
    using keepsD tables_kept_refl by metis
qed

lemma exchange_txD:
  assumes "exchange_tx cfg en pairing_secret c = (Inr x, c')"
  shows "spent (mc_sha cfg pairing_secret) c'" "\<not> spent (mc_sha cfg pairing_secret) c"
proof -
  obtain p where p: "lookup_row pc_secret_hash (mc_sha cfg pairing_secret) (c_pairing c) = Some p"
      "pc_consumed_at p = None"
    and c': "c_pairing c' = update_rows pc_secret_hash (mc_sha cfg pairing_secret)
       (\<lambda>p. p\<lparr>pc_consumed_at := Some (now en 2)\<rparr>) (c_pairing c)"
    using assms by (auto simp: exchange_tx_def control_tx_def management_error_def Let_def
      split: sum.splits prod.splits if_splits option.splits)
  then show "spent (mc_sha cfg pairing_secret) c'" by (auto simp: spent_def in_update_rows)
  show "\<not> spent (mc_sha cfg pairing_secret) c" using p lookup_row_SomeD by (force simp: spent_def)
qed

lemma exchange_pairingD:
  assumes "exchange_pairing cfg rq en pairing_secret c = (Inr x, c')"
  shows "\<exists>d. tables_kept until c d \<and> exchange_tx cfg en pairing_secret d = (Inr x, c')"
  using assms unfolding exchange_pairing_def
  by (auto simp: bind_def call_def stop_def ret_def split: if_splits sum.splits prod.splits intro: rate_limit_kept)

text \<open>
  C34: a pairing secret works once. After a successful exchange, whatever transactions of the API
  follow, interleaved in any order, no exchange of the same secret succeeds, and the attempt itself
  is refused with 401.
\<close>

theorem pairing_single_use:
  assumes "exchange_pairing cfg rq en pairing_secret c = (Inr x, c1)"
    and "(management_tx cfg until)\<^sup>*\<^sup>* c1 c2"
  shows "(\<forall>rq' en' y c3. exchange_pairing cfg rq' en' pairing_secret c2 \<noteq> (Inr y, c3)) \<and>
    (\<forall>en'. exchange_tx cfg en' pairing_secret c2 = (Inl (Raise (HTTPException 401 ''pairing_unavailable'')), c2))"
proof -
  have "spent (mc_sha cfg pairing_secret) c1"
    using exchange_pairingD [OF assms(1)] exchange_txD(1) by blast
  then have s2: "spent (mc_sha cfg pairing_secret) c2"
    using spent_kept management_history_kept [OF assms(2)] by blast
  have "exchange_tx cfg en' pairing_secret c2 = (Inl (Raise (HTTPException 401 ''pairing_unavailable'')), c2)" for en'
    using s2 lookup_row_SomeD [of pc_secret_hash _ "c_pairing c2"]
    by (fastforce simp: exchange_tx_def control_tx_def management_error_def spent_def split: option.splits)
  moreover have "exchange_pairing cfg rq' en' pairing_secret c2 \<noteq> (Inr y, c3)" for rq' en' y c3
  proof
    assume "exchange_pairing cfg rq' en' pairing_secret c2 = (Inr y, c3)"
    then obtain d where d: "tables_kept until c2 d" "exchange_tx cfg en' pairing_secret d = (Inr y, c3)"
      using exchange_pairingD by blast
    show False using exchange_txD(2) [OF d(2)] spent_kept [OF d(1) s2] by simp
  qed
  ultimately show ?thesis by blast
qed

section \<open>Idempotency\<close>

lemma idempotent_firstD:
  assumes "idempotent cfg session operation (Some key) body t action c = (Inr (status, response, False), c1)"
  shows "idempotency_key (Some key) = Inr key" "control_ok c1"
    "\<lparr>ir_session_id = ds_id session, ir_operation = operation, ir_key_hash = mc_sha cfg key,
      ir_fingerprint = mc_sha cfg (dumps body), ir_response_status = status,
      ir_response = BDict (filter (\<lambda>(k, _). k \<noteq> ''_launch_token'') response),
      ir_expires_at = t + idempotency_ttl\<rparr> \<in> set (c_idempotency c1)"
proof -
  show k: "idempotency_key (Some key) = Inr key"
    using assms by (auto simp: idempotent_def bind_def call_def stop_def idempotency_key_def management_error_def split: if_splits)
  have "control_tx (idempotent_tx session operation (mc_sha cfg key) (mc_sha cfg (dumps body)) t action) c
      = (Inr (status, response, False), c1)"
    using assms by (auto simp: idempotent_def k bind_def call_def ret_def stop_def on_integrity_error_def
        try_except_def control_read_def with_state_def management_error_def Let_def
        split: sum.splits prod.splits signal.splits if_splits option.splits)
  then have tx: "idempotent_tx session operation (mc_sha cfg key) (mc_sha cfg (dumps body)) t action c
      = Inr ((status, response, False), c1)" and "control_ok c1"
    by (auto simp: control_tx_def split: sum.splits prod.splits if_splits)
  then show "control_ok c1" by simp
  show "\<lparr>ir_session_id = ds_id session, ir_operation = operation, ir_key_hash = mc_sha cfg key,
      ir_fingerprint = mc_sha cfg (dumps body), ir_response_status = status,
      ir_response = BDict (filter (\<lambda>(k, _). k \<noteq> ''_launch_token'') response),
      ir_expires_at = t + idempotency_ttl\<rparr> \<in> set (c_idempotency c1)"
    using tx by (auto simp: idempotent_tx_def Let_def management_error_def split: option.splits if_splits)
qed

lemma find_recorded:
  assumes "control_ok c" "r \<in> set (c_idempotency c)"
  shows "find_idempotent (ir_session_id r) (ir_operation r) (ir_key_hash r) c = Some r"
  using assms lookup_row_distinct [of idempotency_scope "c_idempotency c" r]
  by (simp add: find_idempotent_def control_ok_def control_uniques_ok_def unique_col_def idempotency_scope_def)

text \<open>A request whose response is on record.\<close>

lemma idempotent_recorded:
  assumes "control_ok c" "r \<in> set (c_idempotency (cleanup_expired t c))" "ir_session_id r = ds_id session"
    "ir_operation r = operation" "ir_key_hash r = mc_sha cfg key" "idempotency_key (Some key) = Inr key"
  shows "idempotent cfg session operation (Some key) body t action c =
    (if ir_fingerprint r = mc_sha cfg (dumps body)
     then (Inr (ir_response_status r, as_object (ir_response r), True), cleanup_expired t c)
     else (Inl (Raise (HTTPException 409 ''idempotency_conflict'')), c))"
proof -
  have ok: "control_ok (cleanup_expired t c)" using cleanup_ok [OF assms(1)] .
  have "find_idempotent (ds_id session) operation (mc_sha cfg key) (cleanup_expired t c) = Some r"
    using find_recorded [OF ok assms(2)] assms(3-5) by simp
  then show ?thesis
    by (simp add: idempotent_def bind_def call_def ret_def stop_def assms(6) on_integrity_error_def try_except_def
        control_tx_def idempotent_tx_def Let_def management_error_def ok)
qed

text \<open>
  C33: a mutation runs once per idempotency key. After a request that ran its action, and any
  interleaving of later transactions, the same key sent again within its 24 hours, while the device session
  lives, does not run the action: with the same body it gets the recorded response (without the
  launch token, which is never stored) and nothing but expired rows changes; with another body it
  is refused with 409 and nothing changes.
\<close>

theorem idempotent_once:
  assumes "idempotent cfg session operation (Some key) body t action c = (Inr (status, response, False), c1)"
    and "(management_tx cfg until)\<^sup>*\<^sup>* c1 c2" and "until \<le> t + hours 24" and "t' < until"
    and "s \<in> set (c_sessions c1)" and "ds_id s = ds_id session" and "until \<le> ds_expires_at s"
  shows "idempotent cfg session operation (Some key) body' t' action' c2 =
    (if mc_sha cfg (dumps body') = mc_sha cfg (dumps body)
     then (Inr (status, filter (\<lambda>(k, _). k \<noteq> ''_launch_token'') response, True), cleanup_expired t' c2)
     else (Inl (Raise (HTTPException 409 ''idempotency_conflict'')), c2))"
proof -
  note first = idempotent_firstD [OF assms(1)]
  define r where "r = \<lparr>ir_session_id = ds_id session, ir_operation = operation, ir_key_hash = mc_sha cfg key,
      ir_fingerprint = mc_sha cfg (dumps body), ir_response_status = status,
      ir_response = BDict (filter (\<lambda>(k, _). k \<noteq> ''_launch_token'') response),
      ir_expires_at = t + idempotency_ttl\<rparr>"
  have kept: "tables_kept until c1 (cleanup_expired t' c2)"
    using tables_kept_trans [OF management_history_kept [OF assms(2)] cleanup_kept [OF assms(4)]] .
  have "r \<in> set (c_idempotency (cleanup_expired t' c2))"
    using tables_keptD(3) [OF kept _ _ assms(5)] first(3) assms(3,6,7)
    by (simp add: r_def idempotency_ttl_def)
  from idempotent_recorded [OF management_history_ok [OF assms(2) first(2)] this _ _ _ first(1), of session operation cfg body' action']
  show ?thesis by (auto simp: r_def as_object_def)
qed

section \<open>Authority\<close>

datatype mutation_call =
    RevokeSession
  | CreateLogin
  | CancelLogin uuid
  | CreateRun int
  | CancelRun uuid
  | SyncViews uuid "uuid list"
  | UpdateSettings bool int
  | UpdateReserve reserve_settings_request
  | ReportReserve reserve_report

text \<open>The routes that change state, but for the exchange of a pairing secret.\<close>

definition handle :: "management_config \<Rightarrow> request \<Rightarrow> entropy \<Rightarrow> (uuid list \<Rightarrow> uuid list) \<Rightarrow> mutation_call \<Rightarrow>
    json_object control_act" where
  "handle cfg rq en set_order m =
     (case m of
        RevokeSession \<Rightarrow> revoke_current_session cfg rq en
      | CreateLogin \<Rightarrow> bind (create_login_session cfg rq en) (\<lambda>r. ret (snd r))
      | CancelLogin i \<Rightarrow> bind (cancel_login_session cfg rq en i) (\<lambda>r. ret (snd r))
      | CreateRun n \<Rightarrow> bind (create_collection_run cfg rq en n) (\<lambda>r. ret (snd r))
      | CancelRun i \<Rightarrow> bind (cancel_collection_run cfg rq en i) (\<lambda>r. ret (snd r))
      | SyncViews device events \<Rightarrow> bind (sync_viewed_reels cfg rq en device events set_order) (\<lambda>r. ret (snd r))
      | UpdateSettings b n \<Rightarrow> bind (update_collection_settings cfg rq en b n) (\<lambda>r. ret (snd r))
      | UpdateReserve p \<Rightarrow> bind (update_reserve_settings cfg rq en p) (\<lambda>r. ret (snd r))
      | ReportReserve p \<Rightarrow> bind (report_reserve cfg rq en p) (\<lambda>r. ret (snd r)))"

definition authorized :: "management_config \<Rightarrow> request \<Rightarrow> entropy \<Rightarrow> device_session \<Rightarrow> bool" where
  "authorized cfg rq en s \<longleftrightarrow>
     rq_origin rq = Some (origin_of cfg) \<and> require_host cfg rq = Inr () \<and>
     (case rq_cookie rq of None \<Rightarrow> False | Some token \<Rightarrow> token \<noteq> [] \<and> ds_session_token_hash s = mc_sha cfg token) \<and>
     ds_revoked_at s = None \<and> now en 0 < ds_expires_at s \<and> now en 1 < ds_expires_at s \<and>
     (case rq_csrf rq of None \<Rightarrow> False | Some csrf \<Rightarrow> csrf \<noteq> [] \<and> ds_csrf_token_hash s = mc_sha cfg csrf)"

text \<open>What a refused request may not touch.\<close>

definition account_state :: "control \<Rightarrow> db \<times> collection_settings list \<times> reserve_device list" where
  "account_state c = (c_db c, c_settings c, c_reserve c)"

lemma account_state_simps [simp]:
  "account_state (cleanup_expired t c) = account_state c"
  "account_state (c\<lparr>c_limits := l\<rparr>) = account_state c"
  by (simp_all add: account_state_def cleanup_expired_def Let_def)

definition raises_or :: "('a \<Rightarrow> bool) \<Rightarrow> control \<Rightarrow> unit signal + 'a \<Rightarrow> control \<Rightarrow> bool" where
  "raises_or Q c r c' \<longleftrightarrow> account_state c' = account_state c \<and>
     (case r of Inl g \<Rightarrow> (\<exists>e. g = Raise e) | Inr x \<Rightarrow> Q x)"

lemma raises_or_simps [simp]:
  "raises_or Q c (Inl (Raise e)) c' = (account_state c' = account_state c)"
  "raises_or Q c (Inr x) c' = (account_state c' = account_state c \<and> Q x)"
  by (simp_all add: raises_or_def)

lemma rate_limit_raises:
  "account_state c = account_state d \<Longrightarrow> wp (rate_limit_tx cfg scope bound t) (raises_or (\<lambda>_. True) d) c"
  by (auto simp: rate_limit_tx_def wp_control_tx Let_def management_error_def split: option.splits)

lemma raises_or_handled:
  assumes "wp a (raises_or Q d) c"
    and "\<And>c'. account_state c' = account_state d \<Longrightarrow> wp h (raises_or Q d) c'"
  shows "wp (on_integrity_error a h) (raises_or Q d) c"
  unfolding on_integrity_error_def wp_try_except
  by (rule wp_mono [OF assms(1)]) (auto simp: raises_or_def wp_stop assms(2) split: sum.splits signal.splits)

lemma enforce_raises:
  "account_state c = account_state d \<Longrightarrow> wp (enforce_rate_limit cfg scope bound t t') (raises_or (\<lambda>_. True) d) c"
  unfolding enforce_rate_limit_def
  by (intro raises_or_handled rate_limit_raises) (auto simp: wp_stop)

lemma session_tx_raises:
  "wp (session_tx cfg en token) (raises_or (\<lambda>s. s \<in> set (c_sessions c) \<and>
     ds_session_token_hash s = mc_sha cfg token \<and> ds_revoked_at s = None \<and>
     now en 0 < ds_expires_at s \<and> now en 1 < ds_expires_at s) c) c"
  by (auto simp: session_tx_def wp_control_tx Let_def live_session_def management_error_def session_by_token_def
      is_expired_def cleanup_expired_def account_state_def split: option.splits if_splits dest!: lookup_row_SomeD)

lemma raises_or_bind:
  assumes "wp m (raises_or Q d) c"
    and "\<And>x c'. Q x \<Longrightarrow> account_state c' = account_state d \<Longrightarrow> wp (f x) (raises_or R d) c'"
  shows "wp (bind m f) (raises_or R d) c"
  unfolding wp_bind by (rule wp_mono [OF assms(1)]) (auto simp: raises_or_def assms(2) split: sum.splits)

lemma raises_or_call:
  "account_state c = account_state d \<Longrightarrow> (\<And>x. v = Inr x \<Longrightarrow> Q x) \<Longrightarrow> wp (call v) (raises_or Q d) c"
  by (auto simp: wp_call split: sum.splits)

lemma require_mutation_raises:
  "wp (require_mutation cfg rq en) (raises_or (\<lambda>s. s \<in> set (c_sessions c) \<and> authorized cfg rq en s) c) c"
proof -
  let ?Q = "\<lambda>token s. s \<in> set (c_sessions c) \<and> rq_cookie rq = Some token \<and> token \<noteq> [] \<and>
     ds_session_token_hash s = mc_sha cfg token \<and> ds_revoked_at s = None \<and>
     now en 0 < ds_expires_at s \<and> now en 1 < ds_expires_at s"
  have session: "wp (require_management_session cfg rq en) (raises_or (\<lambda>s. \<exists>token. ?Q token s) c) c"
  proof (cases "\<exists>token. rq_cookie rq = Some token \<and> token \<noteq> []")
    case True
    then obtain token where t: "rq_cookie rq = Some token" "token \<noteq> []" by blast
    have "wp (session_tx cfg en token) (raises_or (\<lambda>s. \<exists>token. ?Q token s) c) c"
      by (rule wp_mono [OF session_tx_raises]) (auto simp: raises_or_def t split: sum.splits)
    then show ?thesis
      by (auto simp: get_current_session_def wp_bind wp_call t require_host_def guard_def split: sum.splits)
  qed (auto simp: get_current_session_def wp_bind wp_call require_host_def guard_def management_error_def
      split: sum.splits option.splits)
  show ?thesis
    unfolding require_mutation_def
  proof (rule raises_or_bind [OF session], rule raises_or_bind [OF raises_or_call], assumption)
    fix s c' assume "\<exists>token. ?Q token s" "account_state c' = account_state c"
    show "rq_origin rq = Some (origin_of cfg) \<and> require_host cfg rq = Inr ()" if "require_origin cfg rq = Inr x" for x
      using that by (simp add: require_origin_def)
  next
    fix s c' and x :: unit and c''
    assume s: "\<exists>token. ?Q token s" and o: "rq_origin rq = Some (origin_of cfg) \<and> require_host cfg rq = Inr ()"
      and c'': "account_state c'' = account_state c"
    show "wp (bind (enforce_rate_limit cfg (''mutation:'' @ uuid_str (ds_id s)) 60 (now en 2) (now en 3)) (\<lambda>_.
        case rq_csrf rq of
          None \<Rightarrow> raise (HTTPException 403 ''csrf_invalid'')
        | Some csrf \<Rightarrow>
            if csrf = [] \<or> mc_sha cfg csrf \<noteq> ds_csrf_token_hash s
            then raise (HTTPException 403 ''csrf_invalid'') else ret s))
        (raises_or (\<lambda>s. s \<in> set (c_sessions c) \<and> authorized cfg rq en s) c) c''"
      using s o by (intro raises_or_bind [OF enforce_raises [OF c'']])
        (auto simp: authorized_def wp_stop wp_ret split: option.splits)
  qed
qed

lemma handle_checks_first: "\<exists>k. handle cfg rq en set_order m = bind (require_mutation cfg rq en) k"
  by (cases m) (simp_all add: handle_def revoke_current_session_def create_login_session_def cancel_login_session_def
      create_collection_run_def cancel_collection_run_def sync_viewed_reels_def update_collection_settings_def
      update_reserve_settings_def report_reserve_def mutation_def bind_assoc, blast+)


section \<open>A paired device\<close>

definition demo_config :: management_config where
  "demo_config = \<lparr>mc_sha = \<lambda>s. take 64 (s @ replicate 64 (CHR ''0'')), mc_origin = ''https://reels.local/'',
     mc_scheme = ''https'', mc_host = ''reels.local'', mc_port = None, mc_session_ttl_minutes = 60,
     mc_dump_datetime = isoformat\<rparr>"

definition demo_entropy :: entropy where
  "demo_entropy = \<lparr>now = \<lambda>k. 1000 + int k, fresh = \<lambda>k. 700 + k,
     secret = \<lambda>k. (if k = 0 then ''launch-or-token'' else ''csrf-secret'')\<rparr>"

definition demo_request :: request where
  "demo_request = \<lparr>rq_host = Some ''reels.local'', rq_origin = Some ''https://reels.local'',
     rq_cookie = Some ''cookie'', rq_csrf = Some ''csrf'', rq_idempotency_key = Some ''key-00000001''\<rparr>"

definition demo_device :: device_session where
  "demo_device = \<lparr>ds_id = 5, ds_account_id = 1, ds_device_id = 6,
     ds_session_token_hash = mc_sha demo_config ''cookie'', ds_csrf_token_hash = mc_sha demo_config ''csrf'',
     ds_expires_at = 3600000000, ds_revoked_at = None\<rparr>"

definition demo_control :: control where
  "demo_control = empty_control\<lparr>
     c_db := empty_db\<lparr>accounts := [\<lparr>acc_id = 1, acc_status = AccountStatus.CONNECTED, acc_last_connected_at = Some 0,
        acc_reauth_required_at = None, acc_reason_code = None\<rparr>]\<rparr>,
     c_pairing := [\<lparr>pc_id = 4, pc_account_id = 1, pc_secret_hash = mc_sha demo_config ''pairing-secret-01'',
        pc_expires_at = 600000000, pc_consumed_at = None\<rparr>],
     c_sessions := [demo_device]\<rparr>"

definition demo_create :: "control \<Rightarrow> (unit signal + (int \<times> json_object \<times> bool)) \<times> control" where
  "demo_create = idempotent demo_config demo_device ''create_collection_run'' (Some ''key-00000001'') (target_body 3)
     1000 (create_run_action demo_entropy 3 demo_device)"

lemma demo_create_runs:
  "case demo_create demo_control of (r, c1) \<Rightarrow> demo_device \<in> set (c_sessions c1) \<and> length (runs (c_db c1)) = 1 \<and>
     (case r of Inl g \<Rightarrow> False | Inr x \<Rightarrow> (case x of (st, res, replay) \<Rightarrow> st = 201 \<and> replay = False))"
  by code_simp

theorem idempotent_once_witness:
  "\<exists>res c1. demo_create demo_control = (Inr (201, res, False), c1) \<and>
     idempotent demo_config demo_device ''create_collection_run'' (Some ''key-00000001'') (target_body 3)
       2000 (\<lambda>_. Inl OtherError) c1
     = (Inr (201, filter (\<lambda>(k, _). k \<noteq> ''_launch_token'') res, True), cleanup_expired 2000 c1)"
proof -
  obtain r c1 where r: "demo_create demo_control = (r, c1)" by (rule prod.exhaust)
  note ran = demo_create_runs [unfolded r prod.case]
  obtain x where x: "r = Inr x" using ran by (cases r) (simp_all only: sum.case, blast+)
  obtain st res replay where y: "x = (st, res, replay)" by (rule prod_cases3)
  have c1: "demo_create demo_control = (Inr (201, res, False), c1)" "demo_device \<in> set (c_sessions c1)"
    using ran by (simp_all only: r x y sum.case prod.case simp_thms)
  show ?thesis
    using idempotent_once [OF c1(1) [unfolded demo_create_def] rtranclp.rtrancl_refl [of "management_tx demo_config 3000"]
        _ _ c1(2), of 2000 "target_body 3" "\<lambda>_. Inl OtherError"] c1(1)
    by (simp add: demo_device_def hours_def)
qed

lemma demo_exchange:
  "\<not> isl (fst (exchange_pairing demo_config demo_request demo_entropy ''pairing-secret-01'' demo_control))"
  by code_simp

theorem pairing_single_use_witness:
  "\<exists>x c1. exchange_pairing demo_config demo_request demo_entropy ''pairing-secret-01'' demo_control = (Inr x, c1) \<and>
     (\<forall>y c3. exchange_pairing demo_config demo_request demo_entropy ''pairing-secret-01'' c1 \<noteq> (Inr y, c3))"
proof -
  obtain x c1 where x: "exchange_pairing demo_config demo_request demo_entropy ''pairing-secret-01'' demo_control = (Inr x, c1)"
    using demo_exchange by (metis isl_def prod.collapse sum.collapse(2))
  then show ?thesis using pairing_single_use [OF x rtranclp.rtrancl_refl [of "management_tx demo_config 0"]] by blast
qed

lemma demo_unauthorized:
  "\<not> list_ex (authorized demo_config (demo_request\<lparr>rq_csrf := Some ''stolen''\<rparr>) demo_entropy) (c_sessions demo_control)"
  by code_simp


end
