(* ===== verification/ManagementLimits.thy ===== *)
theory ManagementLimits
  imports ManagementProps
begin

text \<open>
  The fixed-window rate limiter of \<open>api/management.py\<close>: how many requests of one scope pass in a minute.
\<close>

section \<open>A scope over time\<close>

text \<open>A request of the scope, or the cleanup of another transaction.\<close>

datatype limit_event = Hit timestamp | Sweep timestamp

fun event_time :: "limit_event \<Rightarrow> timestamp" where
  "event_time (Hit t) = t"
| "event_time (Sweep t) = t"

fun admitted :: "management_config \<Rightarrow> string \<Rightarrow> int \<Rightarrow> limit_event list \<Rightarrow> control \<Rightarrow> int" where
  "admitted cfg scope bound [] c = 0"
| "admitted cfg scope bound (Hit t # es) c =
     (let (r, c') = rate_limit_tx cfg scope bound t c in
      (if isl r then 0 else 1) + admitted cfg scope bound es c')"
| "admitted cfg scope bound (Sweep t # es) c = admitted cfg scope bound es (cleanup_expired t c)"

definition window_of :: "string \<Rightarrow> control \<Rightarrow> rate_limit option" where
  "window_of h c = lookup_row rl_scope_hash h (c_limits c)"

lemma window_unique:
  assumes "control_ok c" "l \<in> set (c_limits c)" "rl_scope_hash l = h" shows "window_of h c = Some l"
  using assms lookup_row_distinct [of rl_scope_hash "c_limits c" l h]
  by (simp add: window_of_def control_ok_def control_uniques_ok_def unique_col_def)

lemma window_sweep:
  assumes "control_ok c"
  shows "window_of h (cleanup_expired t c) =
    (case window_of h c of None \<Rightarrow> None | Some l \<Rightarrow> if rl_window_started_at l \<le> t - minutes 1 then None else Some l)"
proof -
  let ?d = "cleanup_expired t c"
  have m: "set (c_limits ?d) = {l \<in> set (c_limits c). \<not> rl_window_started_at l \<le> t - minutes 1}"
    by (auto simp: cleanup_expired_def Let_def)
  show ?thesis
  proof (cases "window_of h c")
    case None
    then have "h \<notin> rl_scope_hash ` set (c_limits ?d)" using m by (auto simp: window_of_def lookup_row_None)
    then have "window_of h ?d = None" by (simp add: window_of_def lookup_row_None)
    then show ?thesis using None by simp
  next
    case (Some l)
    then have l: "l \<in> set (c_limits c)" "rl_scope_hash l = h" by (auto simp: window_of_def dest: lookup_row_SomeD)
    show ?thesis
    proof (cases "rl_window_started_at l \<le> t - minutes 1")
      case True
      have "h \<notin> rl_scope_hash ` set (c_limits ?d)"
        using window_unique [OF assms] Some True m by auto
      then show ?thesis using Some True by (simp add: window_of_def lookup_row_None)
    next
      case False
      then show ?thesis using window_unique [OF cleanup_ok [OF assms]] l m Some by simp
    qed
  qed
qed

text \<open>The three outcomes of a request: refused, the first of a window, or one more of its window.\<close>

lemma rate_limit_cases:
  assumes "rate_limit_tx cfg scope bound t c = (r, c')"
  shows "(isl r \<and> c' = c) \<or>
    (\<not> isl r \<and> (\<exists>l. window_of (mc_sha cfg scope) c' = Some l \<and> rl_window_started_at l = t \<and> rl_request_count l = 1) \<and>
       (\<forall>l. window_of (mc_sha cfg scope) c = Some l \<longrightarrow> rl_window_started_at l + minutes 1 \<le> t)) \<or>
    (\<not> isl r \<and> (\<exists>l. window_of (mc_sha cfg scope) c = Some l \<and> t < rl_window_started_at l + minutes 1 \<and>
       rl_request_count l < bound \<and>
       window_of (mc_sha cfg scope) c' = Some (l\<lparr>rl_request_count := rl_request_count l + 1\<rparr>)))"
  using assms
  by (auto simp: rate_limit_tx_def control_tx_def Let_def management_error_def window_of_def lookup_update_rows
      split: option.splits if_splits)

lemma rate_limit_ok: "rate_limit_tx cfg scope bound t c = (r, c') \<Longrightarrow> control_ok c \<Longrightarrow> control_ok c'"
  by (auto simp: rate_limit_tx_def dest!: control_txD)

section \<open>The bound\<close>

lemma admitted_in_window:
  assumes "control_ok c" "window_of (mc_sha cfg scope) c = Some l"
    and "\<forall>e \<in> set es. event_time e < rl_window_started_at l + minutes 1"
  shows "admitted cfg scope bound es c \<le> max 0 (bound - rl_request_count l)"
  using assms
proof (induction es arbitrary: c l)
  case (Cons e es)
  show ?case
  proof (cases e)
    case (Sweep t)
    then have "window_of (mc_sha cfg scope) (cleanup_expired t c) = Some l"
      using Cons.prems by (simp add: window_sweep)
    then show ?thesis using Cons.IH [OF cleanup_ok [OF Cons.prems(1)]] Cons.prems Sweep by simp
  next
    case (Hit t)
    obtain r c' where r: "rate_limit_tx cfg scope bound t c = (r, c')" by fastforce
    note ok = rate_limit_ok [OF r Cons.prems(1)]
    have "t < rl_window_started_at l + minutes 1" using Cons.prems(3) Hit by simp
    then consider "isl r" "c' = c"
      | "\<not> isl r" "rl_request_count l < bound"
        "window_of (mc_sha cfg scope) c' = Some (l\<lparr>rl_request_count := rl_request_count l + 1\<rparr>)"
      using rate_limit_cases [OF r] Cons.prems(2) by fastforce
    then show ?thesis
    proof cases
      case 1
      then show ?thesis using Cons.IH [OF Cons.prems(1,2)] Cons.prems(3) Hit r by simp
    next
      case 2
      then show ?thesis using Cons.IH [OF ok 2(3)] Cons.prems(3) Hit r by simp
    qed
  qed
qed simp

lemma admitted_bound:
  assumes "control_ok c" "1 \<le> bound" "\<forall>e \<in> set es. a \<le> event_time e \<and> event_time e < a + minutes 1"
  shows "admitted cfg scope bound es c \<le>
    bound + (case window_of (mc_sha cfg scope) c of None \<Rightarrow> 0 | Some l \<Rightarrow> max 0 (bound - rl_request_count l))"
  using assms
proof (induction es arbitrary: c)
  case Nil
  then show ?case by (simp split: option.split)
next
  case (Cons e es)
  show ?case
  proof (cases e)
    case (Sweep t)
    have "admitted cfg scope bound es (cleanup_expired t c) \<le> bound +
        (case window_of (mc_sha cfg scope) (cleanup_expired t c) of
           None \<Rightarrow> 0 | Some l \<Rightarrow> max 0 (bound - rl_request_count l))"
      using Cons.IH [OF cleanup_ok [OF Cons.prems(1)]] Cons.prems(2,3) by simp
    then show ?thesis using Sweep Cons.prems(2)
      by (cases "window_of (mc_sha cfg scope) c") (auto simp: window_sweep [OF Cons.prems(1)] split: if_splits)
  next
    case (Hit t)
    obtain r c' where r: "rate_limit_tx cfg scope bound t c = (r, c')" by fastforce
    note ok = rate_limit_ok [OF r Cons.prems(1)]
    consider "isl r" "c' = c"
      | l where "\<not> isl r" "window_of (mc_sha cfg scope) c' = Some l" "rl_window_started_at l = t" "rl_request_count l = 1"
      | l where "\<not> isl r" "window_of (mc_sha cfg scope) c = Some l" "rl_request_count l < bound"
          "window_of (mc_sha cfg scope) c' = Some (l\<lparr>rl_request_count := rl_request_count l + 1\<rparr>)"
      using rate_limit_cases [OF r] by blast
    then show ?thesis
    proof cases
      case 1
      then show ?thesis using Cons.IH [OF Cons.prems(1,2)] Cons.prems(3) Hit r by simp
    next
      case 2
      have "admitted cfg scope bound es c' \<le> max 0 (bound - rl_request_count l)"
        using Cons.prems(3) Hit 2(3) by (intro admitted_in_window [OF ok 2(2)]) auto
      then show ?thesis using 2 r Hit Cons.prems(2) by (auto split: option.split)
    next
      case 3
      then show ?thesis using Cons.IH [OF ok Cons.prems(2)] Cons.prems(3) Hit r by simp
    qed
  qed
qed

text \<open>
  C35: at most twice the bound of a scope passes within any minute, whatever is sent and however
  often the table is cleaned up: the windows are fixed, so one window may end and another begin
  within the minute, but never a third.
\<close>

theorem rate_limit_bound:
  assumes "control_ok c" "1 \<le> bound" "\<forall>l \<in> set (c_limits c). 0 \<le> rl_request_count l"
    and "\<forall>e \<in> set es. a \<le> event_time e \<and> event_time e < a + minutes 1"
  shows "admitted cfg scope bound es c \<le> 2 * bound"
proof -
  have "0 \<le> rl_request_count l" if "window_of (mc_sha cfg scope) c = Some l" for l
    using that assms(3) lookup_row_SomeD by (force simp: window_of_def)
  then show ?thesis using admitted_bound [OF assms(1,2,4), of cfg scope] assms(2) by (auto split: option.splits)
qed

definition demo_events :: "limit_event list" where
  "demo_events = [Hit 59999997, Hit 59999998, Hit 59999999, Hit 60000000, Sweep 60000002, Hit 60000003, Hit 60000004]"

text \<open>Both windows are used up here: two requests pass in each.\<close>

theorem rate_limit_bound_witness:
  "admitted demo_config ''pairing'' 2 demo_events
     (empty_control\<lparr>c_limits := [\<lparr>rl_scope_hash = mc_sha demo_config ''pairing'', rl_window_started_at = 1,
        rl_request_count = 0\<rparr>]\<rparr>) = 4 \<and> (4::int) \<le> 2 * 2"
proof -
  let ?c = "empty_control\<lparr>c_limits := [\<lparr>rl_scope_hash = mc_sha demo_config ''pairing'', rl_window_started_at = 1,
        rl_request_count = 0\<rparr>]\<rparr>"
  have ok: "control_ok ?c" by code_simp
  have e: "admitted demo_config ''pairing'' 2 demo_events ?c = 4" by code_simp
  have "admitted demo_config ''pairing'' 2 demo_events ?c \<le> 2 * 2"
    by (rule rate_limit_bound [OF ok, of _ _ 59999997]) (simp_all add: demo_events_def minutes_def)
  then show ?thesis using e by simp
qed

end
