(* ===== verification/ManagementData.thy ===== *)
theory ManagementData
  imports ManagementLimits
begin

text \<open>
  Properties of what the management API stores and lists: the reserve reports of a device, the views
  it synchronizes, and the catalog of its account.
\<close>

section \<open>Reserve reports\<close>

fun upsert_all :: "uuid \<Rightarrow> reserve_report list \<Rightarrow> control \<Rightarrow> control result" where
  "upsert_all account [] c = Inr c"
| "upsert_all account (p # ps) c = rbind (upsert_reserve_device account p c) (\<lambda>(_, c). upsert_all account ps c)"

text \<open>The reference: the report with the latest time, of equal times the last one to arrive.\<close>

fun latest_report :: "reserve_report \<Rightarrow> reserve_report list \<Rightarrow> reserve_report" where
  "latest_report p [] = p"
| "latest_report p (q # qs) = latest_report (if rp_reported_at p \<le> rp_reported_at q then q else p) qs"

lemma take_report_reported:
  "rp_device_uuid q = rp_device_uuid p \<Longrightarrow> take_report q (reported_device account p) =
     reported_device account (if rp_reported_at p \<le> rp_reported_at q then q else p)"
  by (simp add: take_report_def reported_device_def)

lemma device_key_reported [simp]: "device_key (reported_device account p) = (account, rp_device_uuid p)"
  by (simp add: device_key_def reported_device_def)

lemma upsert_reported:
  assumes "get_account (c_db c) account \<noteq> None" "lookup_row device_key (account, d) (c_reserve c) = None"
    "rp_device_uuid p = d" "rp_device_uuid q = d"
  shows "upsert_reserve_device account q (c\<lparr>c_reserve := c_reserve c @ [reported_device account p]\<rparr>) =
    (let r = reported_device account (if rp_reported_at p \<le> rp_reported_at q then q else p) in
     Inr (r, c\<lparr>c_reserve := c_reserve c @ [r]\<rparr>))"
proof -
  obtain a where "get_account (c_db c) account = Some a" using assms(1) by blast
  then show ?thesis using assms(2-4) take_report_reported [of q p account]
    by (simp add: upsert_reserve_device_def Let_def)
qed

lemma upserts_reported:
  assumes "get_account (c_db c) account \<noteq> None" "lookup_row device_key (account, d) (c_reserve c) = None"
    "rp_device_uuid p = d" "\<forall>q \<in> set ps. rp_device_uuid q = d"
  shows "upsert_all account ps (c\<lparr>c_reserve := c_reserve c @ [reported_device account p]\<rparr>) =
    Inr (c\<lparr>c_reserve := c_reserve c @ [reported_device account (latest_report p ps)]\<rparr>)"
  using assms(3,4)
proof (induction ps arbitrary: p)
  case (Cons q qs)
  then show ?case using Cons.IH [of q] Cons.IH [of p]
    by (simp add: upsert_reported [OF assms(1,2)] Let_def)
qed simp

lemma latest_report_in: "latest_report p ps \<in> insert p (set ps)"
proof (induction ps arbitrary: p)
  case (Cons q qs)
  show ?case using Cons.IH [of q] Cons.IH [of p] by auto
qed simp

lemma reported_ok:
  assumes "control_ok c" "get_account (c_db c) account \<noteq> None"
    "lookup_row device_key (account, rp_device_uuid p) (c_reserve c) = None" "reserve_report_valid p"
  shows "control_ok (c\<lparr>c_reserve := c_reserve c @ [reported_device account p]\<rparr>)"
proof -
  obtain a where "a \<in> set (accounts (c_db c))" "acc_id a = account"
    using assms(2) lookup_row_SomeD [of acc_id account] by blast
  then have "account \<in> acc_id ` set (accounts (c_db c))" by blast
  moreover have "(account, rp_device_uuid p) \<notin> (\<lambda>r. (rd_account_id r, rd_device_uuid r)) ` set (c_reserve c)"
    using assms(3) by (simp add: lookup_row_None device_key_def [abs_def])
  ultimately show ?thesis using assms(1,4)
    by (auto simp: control_defs reserve_device_ok_def reported_device_def reserve_report_valid_def reserve_settings_valid_def)
qed

text \<open>
  C37: the reports of a device converge to the latest one. However its reports arrive, delayed or out of
  order, the device has one row, which holds the report with the latest time of them all, the rows of
  other devices stay as they are, and the constraints hold, so that the transaction commits.
\<close>

theorem reserve_keeps_latest:
  assumes "control_ok c" "get_account (c_db c) account \<noteq> None"
    "lookup_row device_key (account, d) (c_reserve c) = None"
    "\<forall>q \<in> set (p # ps). rp_device_uuid q = d \<and> reserve_report_valid q"
  shows "\<exists>c'. upsert_all account (p # ps) c = Inr c' \<and> control_ok c' \<and>
    c' = c\<lparr>c_reserve := c_reserve c @ [reported_device account (latest_report p ps)]\<rparr>"
proof -
  have l: "rp_device_uuid (latest_report p ps) = d" "reserve_report_valid (latest_report p ps)"
    using assms(4) latest_report_in [of p ps] by auto
  have "upsert_all account (p # ps) c =
      upsert_all account ps (c\<lparr>c_reserve := c_reserve c @ [reported_device account p]\<rparr>)"
    using assms(3,4) not_None_eq [THEN iffD1, OF assms(2)] by (auto simp: upsert_reserve_device_def)
  also have "\<dots> = Inr (c\<lparr>c_reserve := c_reserve c @ [reported_device account (latest_report p ps)]\<rparr>)"
    using upserts_reported [OF assms(2,3)] assms(4) by simp
  finally show ?thesis using reported_ok [OF assms(1,2)] assms(3) l by simp
qed

text \<open>A demo device that reports.\<close>

definition demo_report :: "int \<Rightarrow> timestamp \<Rightarrow> reserve_report" where
  "demo_report n t = \<lparr>rp_device_uuid = 6, rp_auto_refill_enabled = True, rp_desired_count = 10, rp_low_watermark = 3,
     rp_quota_threshold = 80, rp_local_completed_count = n, rp_reported_at = t\<rparr>"

lemma demo_control_ok: "control_ok demo_control"
  by code_simp

theorem reserve_keeps_latest_witness:
  "\<exists>c'. upsert_all 1 [demo_report 4 2000, demo_report 7 3000, demo_report 5 2500] demo_control = Inr c' \<and>
     c_reserve c' = [reported_device 1 (demo_report 7 3000)]"
proof -
  have l: "latest_report (demo_report 4 2000) [demo_report 7 3000, demo_report 5 2500] = demo_report 7 3000"
    by (simp add: demo_report_def)
  have "get_account (c_db demo_control) 1 \<noteq> None" "c_reserve demo_control = []"
    by (simp_all add: demo_control_def empty_control_def)
  moreover have "\<forall>q \<in> set [demo_report 4 2000, demo_report 7 3000, demo_report 5 2500].
      rp_device_uuid q = 6 \<and> reserve_report_valid q"
    by (simp add: demo_report_def reserve_report_valid_def reserve_settings_valid_def)
  ultimately show ?thesis
    using reserve_keeps_latest [OF demo_control_ok, of 1 6 "demo_report 4 2000" "[demo_report 7 3000, demo_report 5 2500]"] l
    by auto
qed

lemma settings_report_simps [simp]:
  "rp_device_uuid (settings_report p t) = rp_device_uuid p"
  "rp_desired_count (settings_report p t) = rp_desired_count p"
  "rp_local_completed_count (settings_report p t) = 0"
  "rp_reported_at (settings_report p t) = t"
  by (simp_all add: settings_report_def reserve_settings_request.defs reserve_report.defs)

definition reserve_row :: "device_session \<Rightarrow> uuid \<Rightarrow> control \<Rightarrow> reserve_device option" where
  "reserve_row session d c =
     (if get_account (c_db c) (ds_account_id session) = None \<or> \<not> unique_col device_key (c_reserve c) then None
      else lookup_row device_key (ds_account_id session, d) (c_reserve c))"

lemma reserve_rowD:
  assumes "reserve_row session d c = Some item"
  shows "get_account (c_db c) (ds_account_id session) \<noteq> None" "unique_col device_key (c_reserve c)"
    "lookup_row device_key (ds_account_id session, d) (c_reserve c) = Some item"
  using assms by (auto simp: reserve_row_def split: if_splits)

lemma device_key_take [simp]: "device_key (take_report p r) = device_key r"
  by (simp add: device_key_def take_report_def)

lemma update_rows_fixed:
  assumes "unique_col key rows" "lookup_row key k rows = Some r" "f r = r"
  shows "update_rows key k f rows = rows"
proof -
  have "f q = q" if "q \<in> set rows" "key q = k" for q
    using unique_colD [OF assms(1) that(1), of r] that(2) lookup_row_SomeD [OF assms(2)] assms(3) by simp
  then have "update_rows key k f rows = update_rows key k (\<lambda>q. q) rows" by (rule update_rows_cong)
  then show ?thesis by (simp add: update_rows_def)
qed

lemma late_report:
  assumes "reserve_row session (rp_device_uuid q) c = Some item" "rp_reported_at q < rd_reported_at item"
  shows "reserve_action q session c = Inr ((200, [(''reserve'', serialize_reserve_device item)]), c)"
proof -
  have "take_report q item = item" using assms(2) by (simp add: take_report_def)
  then show ?thesis
    using reserve_rowD [OF assms(1)] update_rows_fixed [OF reserve_rowD(2,3) [OF assms(1)], of "take_report q"]
    by (auto simp: reserve_action_def upsert_reserve_device_def)
qed

lemma timely_report:
  assumes "reserve_row session (rp_device_uuid q) c = Some item"
  shows "\<exists>c'. reserve_action q session c = Inr ((200, [(''reserve'', serialize_reserve_device (take_report q item))]), c') \<and>
    reserve_row session (rp_device_uuid q) c' = Some (take_report q item)"
  using reserve_rowD [OF assms]
  by (auto simp: reserve_action_def upsert_reserve_device_def reserve_row_def lookup_update_rows row_simps)

text \<open>
  settings and reports are ordered by two clocks. A settings update by a device whose last report
  is ahead of the server's clock is answered with 200 and changes nothing; otherwise it resets the
  reported count to zero, and reports of the device stay without effect until its clock has reached the
  server's time of that update.
\<close>

theorem settings_update_by_clock:
  assumes "reserve_row session (rp_device_uuid p) c = Some item"
  shows "if t < rd_reported_at item
    then reserve_action (settings_report p t) session c = Inr ((200, [(''reserve'', serialize_reserve_device item)]), c)
    else \<exists>item' c'. reserve_action (settings_report p t) session c =
        Inr ((200, [(''reserve'', serialize_reserve_device item')]), c') \<and>
      reserve_row session (rp_device_uuid p) c' = Some item' \<and>
      rd_local_completed_count item' = 0 \<and> rd_desired_count item' = rp_desired_count p \<and>
      (\<forall>q. rp_device_uuid q = rp_device_uuid p \<longrightarrow> rp_reported_at q < t \<longrightarrow>
         reserve_action q session c' = Inr ((200, [(''reserve'', serialize_reserve_device item')]), c'))"
proof (cases "t < rd_reported_at item")
  case True
  then show ?thesis using late_report [of session "settings_report p t" c item] assms by simp
next
  case False
  define item' where "item' = take_report (settings_report p t) item"
  have i: "rd_local_completed_count item' = 0" "rd_desired_count item' = rp_desired_count p" "rd_reported_at item' = t"
    using False by (simp_all add: item'_def take_report_def)
  obtain c' where c': "reserve_action (settings_report p t) session c =
      Inr ((200, [(''reserve'', serialize_reserve_device item')]), c')" "reserve_row session (rp_device_uuid p) c' = Some item'"
    using timely_report [of session "settings_report p t" c item] assms unfolding item'_def by auto
  have "reserve_action q session c' = Inr ((200, [(''reserve'', serialize_reserve_device item')]), c')"
    if "rp_device_uuid q = rp_device_uuid p" "rp_reported_at q < t" for q
    using late_report [of session q c' item'] c'(2) i(3) that by simp
  then show ?thesis using False c' i(1,2) by auto
qed

definition reserve_control :: control where
  "reserve_control = demo_control\<lparr>c_reserve := [reported_device 1 (demo_report 4 2000)]\<rparr>"

theorem settings_update_by_clock_witness:
  "reserve_action (settings_report (reserve_settings_request.truncate (demo_report 0 0)) 1999) demo_device reserve_control =
     Inr ((200, [(''reserve'', serialize_reserve_device (reported_device 1 (demo_report 4 2000)))]), reserve_control)"
proof -
  have r: "reserve_row demo_device 6 reserve_control = Some (reported_device 1 (demo_report 4 2000))"
    by (simp add: reserve_row_def reserve_control_def demo_control_def demo_device_def empty_control_def demo_report_def
        unique_col_def)
  have d: "rp_device_uuid (reserve_settings_request.truncate (demo_report 0 0)) = 6"
    by (simp add: demo_report_def reserve_settings_request.defs)
  show ?thesis
    using settings_update_by_clock [of demo_device "reserve_settings_request.truncate (demo_report 0 0)" reserve_control
        "reported_device 1 (demo_report 4 2000)" 1999] r d
    by (simp add: reported_device_def demo_report_def)
qed

end
