(* ===== verification/ManagementSync.thy ===== *)
theory ManagementSync
  imports ManagementData
begin

text \<open>
  The views a device synchronizes: what a confirmed batch means for the table of views, and that its
  recorded response fits the column.
\<close>

section \<open>Inserting views\<close>

lemma insert_view_ok:
  assumes "control_ok c" "rv_account_id v \<in> acc_id ` set (accounts (c_db c))" "rv_reel_id v \<in> reel_id ` set (reels (c_db c))"
    "\<not> view_exists (rv_account_id v) (rv_reel_id v) (c_db c)"
  shows "control_ok (c\<lparr>c_db := (c_db c)\<lparr>reel_views := reel_views (c_db c) @ [v]\<rparr>\<rparr>)"
proof -
  let ?d = "(c_db c)\<lparr>reel_views := reel_views (c_db c) @ [v]\<rparr>"
  have "constraints_ok (c_db c)" using assms(1) by (simp add: control_ok_def)
  then have "constraints_ok ?d"
    using assms(2-4)
    by (auto simp: constraints_ok_def widths_ok_def rows_ok_def references_ok_def uniques_ok_def view_exists_def list_ex_iff)
  moreover have "control_widths_ok (c\<lparr>c_db := ?d\<rparr>) = control_widths_ok c"
    by (simp add: control_widths_ok_def widths_ok_def)
  ultimately show ?thesis
    using assms(1) by (simp add: control_ok_def control_rows_ok_def control_references_ok_def control_uniques_ok_def)
qed

lemma view_exists_append [simp]:
  "view_exists a r (d\<lparr>reel_views := vs @ new\<rparr>) \<longleftrightarrow>
     view_exists a r (d\<lparr>reel_views := vs\<rparr>) \<or> list_ex (\<lambda>v. rv_account_id v = a \<and> rv_reel_id v = r) new"
  by (simp add: view_exists_def)

text \<open>What the loop adds: a view of the account for every Reel of the batch that had none.\<close>

definition batch_views :: "uuid \<Rightarrow> uuid \<Rightarrow> (uuid \<Rightarrow> reel option) \<Rightarrow> uuid list \<Rightarrow> reel_view list \<Rightarrow> bool" where
  "batch_views account device owned ids new \<longleftrightarrow>
     (\<forall>v \<in> set new. rv_account_id v = account \<and> rv_device_uuid v = Some device \<and>
        (\<exists>i \<in> set ids. \<exists>r. owned i = Some r \<and> rv_reel_id v = reel_id r))"

lemma confirm_views_effect:
  assumes "control_ok c" "account \<in> acc_id ` set (accounts (c_db c))"
    "\<forall>i \<in> set ids. \<exists>r \<in> set (reels (c_db c)). owned i = Some r"
  shows "\<exists>new. confirm_views en account device owned k ids c =
      Inr (c\<lparr>c_db := (c_db c)\<lparr>reel_views := reel_views (c_db c) @ new\<rparr>\<rparr>) \<and>
    control_ok (c\<lparr>c_db := (c_db c)\<lparr>reel_views := reel_views (c_db c) @ new\<rparr>\<rparr>) \<and>
    batch_views account device owned ids new \<and>
    (\<forall>i \<in> set ids. \<forall>r. owned i = Some r \<longrightarrow>
       view_exists account (reel_id r) ((c_db c)\<lparr>reel_views := reel_views (c_db c) @ new\<rparr>))"
  using assms
proof (induction ids arbitrary: k c)
  case Nil
  then show ?case by (auto intro!: exI [of _ "[]"] simp: batch_views_def)
next
  case (Cons i ids)
  obtain r where r: "r \<in> set (reels (c_db c))" "owned i = Some r" using Cons.prems(3) by auto
  define v where "v = \<lparr>rv_id = fresh en k, rv_account_id = account, rv_reel_id = reel_id r,
    rv_device_uuid = Some device, rv_viewed_at = now en (5 + k)\<rparr>"
  define first where "first = (if view_exists account (reel_id r) (c_db c) then [] else [v])"
  define d where "d = c\<lparr>c_db := (c_db c)\<lparr>reel_views := reel_views (c_db c) @ first\<rparr>\<rparr>"
  have ok: "control_ok d"
    using insert_view_ok [of c v] Cons.prems(1,2) r(1) by (auto simp: d_def first_def v_def)
  have step: "confirm_views en account device owned k (i # ids) c = confirm_views en account device owned (Suc k) ids d"
    using ok r(2) by (auto simp: require_def savepoint_insert_def Let_def v_def [symmetric] d_def first_def)
  have seen: "view_exists account (reel_id r) (c_db d)"
    by (auto simp: d_def first_def v_def)
  have "account \<in> acc_id ` set (accounts (c_db d))" "\<forall>i \<in> set ids. \<exists>r \<in> set (reels (c_db d)). owned i = Some r"
    using Cons.prems(2,3) by (auto simp: d_def)
  from Cons.IH [OF ok this] obtain new where new:
    "confirm_views en account device owned (Suc k) ids d = Inr (d\<lparr>c_db := (c_db d)\<lparr>reel_views := reel_views (c_db d) @ new\<rparr>\<rparr>)"
    "control_ok (d\<lparr>c_db := (c_db d)\<lparr>reel_views := reel_views (c_db d) @ new\<rparr>\<rparr>)"
    "batch_views account device owned ids new"
    "\<forall>i \<in> set ids. \<forall>r. owned i = Some r \<longrightarrow>
       view_exists account (reel_id r) ((c_db d)\<lparr>reel_views := reel_views (c_db d) @ new\<rparr>)" by blast
  have e: "d\<lparr>c_db := (c_db d)\<lparr>reel_views := reel_views (c_db d) @ new\<rparr>\<rparr> =
      c\<lparr>c_db := (c_db c)\<lparr>reel_views := reel_views (c_db c) @ first @ new\<rparr>\<rparr>"
    "(c_db d)\<lparr>reel_views := reel_views (c_db d) @ new\<rparr> = (c_db c)\<lparr>reel_views := reel_views (c_db c) @ first @ new\<rparr>"
    by (simp_all add: d_def)
  have "batch_views account device owned (i # ids) (first @ new)"
    using new(3) r(2) by (auto simp: batch_views_def first_def v_def)
  moreover have "view_exists account (reel_id r) ((c_db c)\<lparr>reel_views := reel_views (c_db c) @ first @ new\<rparr>)"
    using seen unfolding e(2) [symmetric] by simp
  moreover have "confirm_views en account device owned k (i # ids) c =
      Inr (c\<lparr>c_db := (c_db c)\<lparr>reel_views := reel_views (c_db c) @ first @ new\<rparr>\<rparr>)"
    using step new(1) unfolding e(1) by (rule trans)
  moreover note new(2) [unfolded e(1)] new(4) [unfolded e(2)]
  ultimately show ?case
    by (intro exI [of _ "first @ new"] conjI ballI allI impI) (auto simp: r(2) simp del: view_exists_append confirm_views.simps)
qed

section \<open>Which Reels count\<close>

lemma owned_reel:
  assumes "account_owned_reels account ids d i = Some r"
  shows "r \<in> set (reels d) \<and> reel_video_id r = Some i \<and> reel_status r = ReelPipelineStatus.READY \<and>
    r \<in> set (collected_reels account d)"
proof -
  have m: "(i, r) \<in> (\<lambda>r. (the (reel_video_id r), r)) `
      set (filter (\<lambda>r. reel_status r = ReelPipelineStatus.READY \<and> reel_video_id r \<in> Some ` set ids) (collected_reels account d))"
    using assms map_of_SomeD unfolding account_owned_reels_def by fastforce
  moreover have "set (collected_reels account d) \<subseteq> set (reels d)" by (auto simp: collected_reels_def)
  ultimately show ?thesis by auto
qed

section \<open>The size of the response\<close>

lemma plain_hex: "n < 16 \<Longrightarrow> json_char (hex_char n) = [hex_char n]"
  by (simp add: json_char_def hex_char_def codepoint_def Let_def)

lemma plain_hex_fixed: "\<forall>c \<in> set (hex_fixed w n). json_char c = [c]"
  by (induction w arbitrary: n) (auto simp: plain_hex)

lemma plain_uuid: "c \<in> set (uuid_str u) \<Longrightarrow> json_char c = [c]"
proof -
  assume "c \<in> set (uuid_str u)"
  then consider "c \<in> set (hex_fixed 32 u)" | "c = CHR ''-''"
    by (auto simp: uuid_str_def Let_def dest: in_set_takeD in_set_dropD)
  then show "json_char c = [c]"
  proof cases
    case 1
    then show ?thesis using plain_hex_fixed by blast
  next
    case 2
    then show ?thesis by (simp add: json_char_def codepoint_def)
  qed
qed

lemma plain_concat: "\<forall>c \<in> set s. json_char c = [c] \<Longrightarrow> concat (map json_char s) = s"
  by (induction s) auto

lemma length_dumps_uuid: "length (dumps (BText (uuid_str u))) = 38"
  by (simp add: json_string_def plain_concat plain_uuid)

lemma length_joined: "\<forall>x \<in> set xs. length x = n \<Longrightarrow> length (joined xs) \<le> (n + 1) * length xs"
proof (cases xs)
  case (Cons x ys)
  assume a: "\<forall>x \<in> set xs. length x = n"
  have "\<forall>x \<in> set ys. length x = n \<Longrightarrow> length (concat (map (\<lambda>y. CHR '','' # y) ys)) = (n + 1) * length ys" for ys
    by (induction ys) auto
  then show ?thesis using a Cons by (simp add: joined_def)
qed (simp add: joined_def)

definition confirmed_response :: "uuid list \<Rightarrow> json_object" where
  "confirmed_response ids = [(''confirmed_video_ids'', BList (map BText (sort (map uuid_str ids))))]"

lemma length_confirmed_response:
  assumes "length ids \<le> 50" shows "varchar 2048 (dumps (BDict (confirmed_response ids)))"
proof -
  let ?j = "joined (map (dumps \<circ> BText) (sort (map uuid_str ids)))"
  have u: "\<forall>x \<in> set (map (dumps \<circ> BText) (sort (map uuid_str ids))). length x = 38"
    using length_dumps_uuid by (auto simp del: dumps.simps)
  have j: "length ?j \<le> 39 * 50"
    using length_joined [OF u] assms by (simp del: dumps.simps)
  have k: "length (json_string ''confirmed_video_ids'') = 21" by code_simp
  have "dumps (BDict (confirmed_response ids)) =
      ''{'' @ json_string ''confirmed_video_ids'' @ '':'' @ ''['' @ ?j @ '']'' @ ''}''"
    by (simp add: confirmed_response_def joined_def comp_def)
  then have "length (dumps (BDict (confirmed_response ids))) = length ?j + 26" using k by simp
  then show ?thesis using j by (simp add: varchar_def)
qed

section \<open>A batch\<close>

text \<open>The account has collected a ready Reel of the video.\<close>

definition ready_reel :: "uuid \<Rightarrow> db \<Rightarrow> uuid \<Rightarrow> reel \<Rightarrow> bool" where
  "ready_reel account d i r \<longleftrightarrow> r \<in> set (collected_reels account d) \<and>
     reel_status r = ReelPipelineStatus.READY \<and> reel_video_id r = Some i"

lemma owned_None:
  "i \<in> set ids \<Longrightarrow> account_owned_reels account ids d i = None \<longleftrightarrow> (\<nexists>r. ready_reel account d i r)"
  by (force simp: account_owned_reels_def map_of_eq_None_iff ready_reel_def)


section \<open>The catalog\<close>

text \<open>The account may see a video: it has collected a ready Reel of it that it has not viewed.\<close>

definition listed :: "uuid \<Rightarrow> db \<Rightarrow> video \<Rightarrow> bool" where
  "listed account d v \<longleftrightarrow> v \<in> set (videos d) \<and>
     (\<exists>r. ready_reel account d (vid_id v) r \<and> \<not> view_exists account (reel_id r) d)"

lemma set_catalog_rows: "set (catalog_rows account d) = {v. listed account d v}"
  by (auto simp: catalog_rows_def listed_def ready_reel_def)

lemma set_unique_rows [simp]: "set (unique_rows xs) = set xs"
  by (induction xs rule: unique_rows.induct) auto

lemma distinct_unique_rows [simp]: "distinct (unique_rows xs)"
  by (induction xs rule: unique_rows.induct) auto

lemma length_unique_rows: "length (unique_rows xs) \<le> length xs"
  by (induction xs rule: unique_rows.induct) (auto intro: le_trans length_filter_le)

lemma sorted_unique_rows: "sorted_wrt R xs \<Longrightarrow> sorted_wrt R (unique_rows xs)"
  by (induction xs rule: unique_rows.induct) (auto intro: sorted_wrt_filter)

definition video_age :: "video \<Rightarrow> timestamp \<times> uuid" where
  "video_age v = (vid_created_at v, vid_id v)"

lemma sorted_catalog_rows: "sorted_wrt (\<lambda>v w. video_age w \<le> video_age v) (catalog_rows account d)"
proof -
  have f: "video_age = (\<lambda>v. (vid_created_at v, vid_id v))" by (rule ext) (rule video_age_def)
  have "sorted_wrt (\<lambda>v w. video_age v \<le> video_age w) (sort_key video_age xs)" for xs
    using sorted_sort_key [of video_age xs] by (simp only: sorted_map)
  then show ?thesis unfolding catalog_rows_def sorted_wrt_rev f .
qed

text \<open>
  the catalog page of an account. It lists, latest first and each once, only videos of ready Reels that
  the account has collected and not viewed, at most 200 and no more than were asked for; it lists
  all of them when the query has no more rows than that, one for each time a Reel was collected.
\<close>

theorem catalog_page_correct:
  "distinct (catalog_page a n d) \<and> sorted_wrt (\<lambda>v w. video_age w \<le> video_age v) (catalog_page a n d) \<and>
   length (catalog_page a n d) \<le> nat (max 1 (min n 200)) \<and>
   (\<forall>v \<in> set (catalog_page a n d). listed a d v) \<and>
   (length (catalog_rows a d) \<le> nat (clamp n) \<longrightarrow> set (catalog_page a n d) = {v. listed a d v})"
proof -
  have t: "sorted_wrt (\<lambda>v w. video_age w \<le> video_age v) (take (nat (clamp n)) (catalog_rows a d))"
    using sorted_wrt_take [OF sorted_catalog_rows] .
  have l: "length (catalog_page a n d) \<le> nat (clamp n)"
    using length_unique_rows [of "take (nat (clamp n)) (catalog_rows a d)"] by (simp add: catalog_page_def)
  have c: "clamp n = max 1 (min n 200)" by (auto simp: clamp_def)
  have m: "listed a d v" if "v \<in> set (catalog_page a n d)" for v
    using that set_catalog_rows by (fastforce simp: catalog_page_def dest: in_set_takeD)
  have all: "set (catalog_page a n d) = {v. listed a d v}" if "length (catalog_rows a d) \<le> nat (clamp n)"
    using that set_catalog_rows by (simp add: catalog_page_def)
  have s: "sorted_wrt (\<lambda>v w. video_age w \<le> video_age v) (catalog_page a n d)" "distinct (catalog_page a n d)"
    using sorted_unique_rows [OF t] by (simp_all add: catalog_page_def)
  show ?thesis
    using s l [unfolded c] m all by blast
qed

text \<open>Two published videos of account 1, the later one collected by two runs.\<close>

definition demo_reel :: "uuid \<Rightarrow> string \<Rightarrow> uuid \<Rightarrow> reel" where
  "demo_reel i code video = \<lparr>reel_id = i, reel_shortcode = code, reel_canonical_url = code,
     reel_status = ReelPipelineStatus.READY, reel_source_object_key = Some code,
     reel_source_sha256 = Some (replicate 64 (CHR ''a'')), reel_source_byte_size = Some 10, reel_video_id = Some video,
     reel_failure_reason_code = None, reel_discovered_at = None, reel_source_ready_at = None, reel_ready_at = None,
     reel_failed_at = None, reel_cleanup_pending = False\<rparr>"

definition demo_video :: "uuid \<Rightarrow> string \<Rightarrow> timestamp \<Rightarrow> video" where
  "demo_video i key t = \<lparr>vid_id = i, vid_title = key, vid_object_key = key, vid_content_type = ''video/mp4'',
     vid_byte_size = 10, vid_normalization_strategy = None, vid_original_video_codec = None,
     vid_normalized_video_codec = None, vid_width = None, vid_height = None, vid_duration_ms = None,
     vid_file_size_bytes = None, vid_has_audio = None, vid_normalized_at = None, vid_content_sha256 = None,
     vid_created_at = t\<rparr>"

definition demo_run :: "uuid \<Rightarrow> collection_run" where
  "demo_run i = (new_run i 1 CollectionTrigger.MANUAL CollectionRunStatus.COMPLETED 5 None 0)"

definition demo_item :: "uuid \<Rightarrow> uuid \<Rightarrow> int \<Rightarrow> run_item" where
  "demo_item run reel n = \<lparr>item_run_id = run, item_reel_id = reel, item_position = n,
     item_outcome = RunItemOutcome.ALREADY_AVAILABLE, item_auth_mode = None, item_reason_code = None,
     item_completed_at = None\<rparr>"

definition catalog_db :: db where
  "catalog_db = (c_db demo_control)\<lparr>
     videos := [demo_video 20 ''one'' 100, demo_video 21 ''two'' 200],
     reels := [demo_reel 30 ''one'' 20, demo_reel 31 ''two'' 21],
     runs := [demo_run 40, demo_run 41],
     run_items := [demo_item 40 30 1, demo_item 40 31 2, demo_item 41 31 1]\<rparr>"

text \<open>
  A page of the catalog may lack videos although it has room for them: the limit counts the rows
  before duplicates are dropped. With a limit of two, the account below is shown one of its two videos.
\<close>

theorem catalog_limit_hides:
  "constraints_ok catalog_db \<and> length (filter (\<lambda>v. v \<in> set (catalog_rows 1 catalog_db)) (videos catalog_db)) = 2 \<and>
   map vid_id (catalog_page 1 2 catalog_db) = [21]"
proof (intro conjI)
  show "constraints_ok catalog_db" by code_simp
  show "length (filter (\<lambda>v. v \<in> set (catalog_rows 1 catalog_db)) (videos catalog_db)) = 2" by code_simp
  show "map vid_id (catalog_page 1 2 catalog_db) = [21]" by code_simp
qed

theorem catalog_page_correct_witness:
  "set (catalog_page 1 3 catalog_db) = {v. listed 1 catalog_db v} \<and> map vid_id (catalog_page 1 3 catalog_db) = [21, 20]"
proof
  have "length (catalog_rows 1 catalog_db) \<le> nat (clamp 3)" by code_simp
  then show "set (catalog_page 1 3 catalog_db) = {v. listed 1 catalog_db v}"
    using catalog_page_correct [of 1 3 catalog_db] by blast
  show "map vid_id (catalog_page 1 3 catalog_db) = [21, 20]" by code_simp
qed

definition catalog_control :: control where
  "catalog_control = demo_control\<lparr>c_db := catalog_db\<rparr>"

lemma catalog_control_ok: "control_ok catalog_control"
  by code_simp


end
