(* ===== verification/LoginGateway.thy ===== *)
theory LoginGateway
  imports LoginSessions Handoff Actions Uuid
begin

text \<open>
  \<open>apps/api/app/instagram/login_gateway.py\<close>: the gateway of a one-time remote login, and the viewer of an
  operator handoff. A page is its name, a response its status, page and cookie; an HTTP error is
  \<open>HTTPException\<close> with its status. What the login browser answers to each call is a list of the state, and
  \<open>g_navigated\<close> records the profile checks it has accepted. The text of the pages, the headers, and the relay
  of a websocket after it is accepted are left out.
\<close>

section \<open>Settings, requests and state\<close>

record gateway_settings =
  gs_origin :: string
  gs_sign :: "string \<Rightarrow> string"
  gs_sha :: "string \<Rightarrow> string"

text \<open>\<open>settings.origin\<close> and \<open>settings.host\<close>.\<close>

definition rstrip_slash :: "string \<Rightarrow> string" where
  "rstrip_slash s = rev (dropWhile (\<lambda>c. c = CHR ''/'') (rev s))"

definition gateway_origin :: "gateway_settings \<Rightarrow> string" where
  "gateway_origin cfg = rstrip_slash (gs_origin cfg)"

definition gateway_host :: "gateway_settings \<Rightarrow> string" where
  "gateway_host cfg = removeprefix (removeprefix (gateway_origin cfg) ''https://'') ''http://''"

text \<open>A body is no JSON, or the launch token of the JSON, \<open>None\<close> when there is none of type text.\<close>

datatype launch_body = NoJson | LaunchToken "string option"

record gateway_request =
  gq_host :: "string option"
  gq_origin :: "string option"
  gq_login_cookie :: "string option"
  gq_handoff_cookie :: "string option"
  gq_body :: launch_body
  gq_now :: clock
  gq_unlinked :: bool

text \<open>The browser is out of reach, or answers with a status and the \<open>state\<close> of its JSON.\<close>

datatype browser_answer = BrowserError | BrowserAnswer int "string option"

record gateway =
  g_db :: db
  g_handoffs :: "handoff_store option"
  g_started :: "uuid list"
  g_browser :: "browser_answer list"
  g_navigated :: "uuid list"

record gateway_response =
  gr_status :: int
  gr_page :: string
  gr_cookie :: "(string \<times> string) option"

type_synonym 'a gateway_act = "(gateway, unit, 'a) act"

definition page :: "string \<Rightarrow> gateway_response gateway_act" where
  "page name = ret \<lparr>gr_status = 200, gr_page = name, gr_cookie = None\<rparr>"

definition unavailable_page :: "gateway_response gateway_act" where
  "unavailable_page = page ''unavailable''"

definition answer_status :: "int \<Rightarrow> gateway_response gateway_act" where
  "answer_status n = ret \<lparr>gr_status = n, gr_page = [], gr_cookie = None\<rparr>"

definition refuse :: "int \<Rightarrow> 'a gateway_act" where
  "refuse n = raise (HTTPException n [])"

section \<open>Guards\<close>

definition require_gateway_host :: "gateway_settings \<Rightarrow> gateway_request \<Rightarrow> unit result" where
  "require_gateway_host cfg rq =
     guard (HTTPException 400 []) (lower (case gq_host rq of None \<Rightarrow> [] | Some h \<Rightarrow> h) = lower (gateway_host cfg))"

definition require_gateway_origin :: "gateway_settings \<Rightarrow> gateway_request \<Rightarrow> unit result" where
  "require_gateway_origin cfg rq =
     guard (HTTPException 403 []) (rstrip_slash (case gq_origin rq of None \<Rightarrow> [] | Some o' \<Rightarrow> o') = gateway_origin cfg)"

definition sign_session :: "gateway_settings \<Rightarrow> uuid \<Rightarrow> string" where
  "sign_session cfg sid = uuid_str sid @ ''.'' @ gs_sign cfg (uuid_str sid)"

definition valid_cookie :: "gateway_settings \<Rightarrow> string option \<Rightarrow> uuid \<Rightarrow> bool" where
  "valid_cookie cfg v sid \<longleftrightarrow> v = Some (sign_session cfg sid)"

definition require_session :: "gateway_settings \<Rightarrow> string option \<Rightarrow> uuid \<Rightarrow> unit result" where
  "require_session cfg v sid = guard (HTTPException 403 []) (valid_cookie cfg v sid)"

definition safe_asset :: "string \<Rightarrow> bool" where
  "safe_asset p \<longleftrightarrow> p \<noteq> [] \<and> \<not> contains ''..'' p \<and> char_of (92::nat) \<notin> set p \<and> \<not> startswith p ''/''"

definition websocket_allowed :: "gateway_settings \<Rightarrow> gateway_request \<Rightarrow> string option \<Rightarrow> uuid \<Rightarrow> bool" where
  "websocket_allowed cfg rq cookie sid \<longleftrightarrow>
     lower (case gq_host rq of None \<Rightarrow> [] | Some h \<Rightarrow> h) = lower (gateway_host cfg) \<and>
     rstrip_slash (case gq_origin rq of None \<Rightarrow> [] | Some o' \<Rightarrow> o') = gateway_origin cfg \<and>
     valid_cookie cfg cookie sid"

section \<open>What the handlers call\<close>

definition on_logins :: "(db \<Rightarrow> 'a result \<times> db) \<Rightarrow> 'a gateway_act" where
  "on_logins f = (\<lambda>s. case f (g_db s) of
     (Inl e, d) \<Rightarrow> (Inl (Raise e), s\<lparr>g_db := d\<rparr>) | (Inr x, d) \<Rightarrow> (Inr x, s\<lparr>g_db := d\<rparr>))"

definition status_of :: "gateway_request \<Rightarrow> uuid \<Rightarrow> LoginSessionStatus option gateway_act" where
  "status_of rq sid = on_logins (login_status sid (gq_now rq))"

definition browser_call :: "browser_answer gateway_act" where
  "browser_call = with_state (\<lambda>s.
     bind (modify (\<lambda>s. s\<lparr>g_browser := tl (g_browser s)\<rparr>))
       (\<lambda>_. ret (case g_browser s of [] \<Rightarrow> BrowserError | a # _ \<Rightarrow> a)))"

definition browser_readiness :: "string gateway_act" where
  "browser_readiness = bind browser_call (\<lambda>a. ret (case a of
     BrowserAnswer n (Some st) \<Rightarrow>
       if 200 \<le> n \<and> n < 300 \<and> st \<in> {''preparing'', ''login'', ''challenge'', ''verifying'', ''connected''}
       then st else ''preparing''
   | _ \<Rightarrow> ''preparing''))"

definition browser_navigate :: "bool gateway_act" where
  "browser_navigate = bind browser_call (\<lambda>a. ret (case a of BrowserAnswer n _ \<Rightarrow> n = 202 | BrowserError \<Rightarrow> False))"

definition browser_close :: "unit gateway_act" where
  "browser_close = bind browser_call (\<lambda>_. ret ())"

definition on_handoffs :: "(handoff_store \<Rightarrow> string \<times> handoff_store) \<Rightarrow> string gateway_act" where
  "on_handoffs f = with_state (\<lambda>s.
     case g_handoffs s of
       None \<Rightarrow> refuse 404
     | Some st \<Rightarrow> (case f st of (r, st') \<Rightarrow> bind (modify (\<lambda>s. s\<lparr>g_handoffs := Some st'\<rparr>)) (\<lambda>_. ret r)))"

definition handoff_state_of :: "gateway_request \<Rightarrow> uuid \<Rightarrow> string gateway_act" where
  "handoff_state_of rq sid = on_handoffs (handoff_state sid (gq_now rq 0))"

section \<open>The remote login\<close>

definition connect_page :: "gateway_settings \<Rightarrow> gateway_request \<Rightarrow> uuid \<Rightarrow> gateway_response gateway_act" where
  "connect_page cfg rq sid =
     bind (call (require_gateway_host cfg rq)) (\<lambda>_.
     bind (status_of rq sid) (\<lambda>st.
     if st = Some LoginSessionStatus.PENDING then page ''connection_start'' else unavailable_page))"

text \<open>\<open>LoginSessionError\<close> is answered with 409, any other \<open>ValueError\<close> with 400.\<close>

definition activate_errors :: "'a gateway_act \<Rightarrow> 'a gateway_act" where
  "activate_errors a = try_except a (\<lambda>e.
     case e of
       LoginSessionError _ \<Rightarrow> refuse 409
     | ValueError \<Rightarrow> refuse 400
     | InvalidStateTransition \<Rightarrow> refuse 400
     | _ \<Rightarrow> raise e)"

definition activate_link :: "gateway_settings \<Rightarrow> gateway_request \<Rightarrow> uuid \<Rightarrow> gateway_response gateway_act" where
  "activate_link cfg rq sid =
     bind (call (require_gateway_host cfg rq)) (\<lambda>_.
     bind (call (require_gateway_origin cfg rq)) (\<lambda>_.
     bind (activate_errors
       (case gq_body rq of
          NoJson \<Rightarrow> raise ValueError
        | LaunchToken None \<Rightarrow> call (login_error ''Login link is unavailable.'')
        | LaunchToken (Some token) \<Rightarrow>
            if token = [] then call (login_error ''Login link is unavailable.'')
            else on_logins (activate (gs_sha cfg) sid token (gq_now rq)))) (\<lambda>_.
     ret \<lparr>gr_status = 204, gr_page = [], gr_cookie = Some (''login_gateway_session'', sign_session cfg sid)\<rparr>)))"

text \<open>The pages of an active session.\<close>

definition with_active :: "gateway_settings \<Rightarrow> gateway_request \<Rightarrow> uuid \<Rightarrow> gateway_response gateway_act \<Rightarrow>
    gateway_response gateway_act \<Rightarrow> gateway_response gateway_act" where
  "with_active cfg rq sid otherwise body =
     bind (call (require_gateway_host cfg rq)) (\<lambda>_.
     bind (call (require_session cfg (gq_login_cookie rq) sid)) (\<lambda>_.
     bind (status_of rq sid) (\<lambda>st.
     if st \<noteq> Some LoginSessionStatus.ACTIVE then otherwise else body)))"

definition remote_page :: "gateway_settings \<Rightarrow> gateway_request \<Rightarrow> uuid \<Rightarrow> gateway_response gateway_act" where
  "remote_page cfg rq sid = with_active cfg rq sid unavailable_page
     (with_state (\<lambda>s. if is_profile_check sid (g_db s) then page ''profile_verification''
                      else page ''full_bleed_remote_viewer''))"

definition interactive_page :: "gateway_settings \<Rightarrow> gateway_request \<Rightarrow> uuid \<Rightarrow> gateway_response gateway_act" where
  "interactive_page cfg rq sid = with_active cfg rq sid unavailable_page (page ''inspection_remote_viewer'')"

definition layout_preview :: "gateway_settings \<Rightarrow> gateway_request \<Rightarrow> uuid \<Rightarrow> gateway_response gateway_act" where
  "layout_preview cfg rq sid = with_active cfg rq sid unavailable_page (page ''layout_preview'')"

definition mutating :: "gateway_settings \<Rightarrow> gateway_request \<Rightarrow> uuid \<Rightarrow> 'a gateway_act \<Rightarrow> 'a gateway_act" where
  "mutating cfg rq sid body =
     bind (call (require_gateway_host cfg rq)) (\<lambda>_.
     bind (call (require_gateway_origin cfg rq)) (\<lambda>_.
     bind (call (require_session cfg (gq_login_cookie rq) sid)) (\<lambda>_. body)))"

definition open_login :: "gateway_settings \<Rightarrow> gateway_request \<Rightarrow> uuid \<Rightarrow> gateway_response gateway_act" where
  "open_login cfg rq sid = mutating cfg rq sid
     (bind (status_of rq sid) (\<lambda>st.
      if st \<noteq> Some LoginSessionStatus.ACTIVE then refuse 409
      else bind browser_navigate (\<lambda>accepted. if \<not> accepted then refuse 503 else answer_status 202)))"

text \<open>One navigation for all polls of a session: the attempt is remembered before the call and forgotten
  when the browser does not accept it.\<close>

definition start_verification :: "uuid \<Rightarrow> bool gateway_act" where
  "start_verification sid = with_state (\<lambda>s.
     if sid \<in> set (g_started s) then ret True
     else
       bind (modify (\<lambda>s. s\<lparr>g_started := sid # g_started s\<rparr>)) (\<lambda>_.
       bind browser_navigate (\<lambda>accepted.
       if accepted then bind (modify (\<lambda>s. s\<lparr>g_navigated := sid # g_navigated s\<rparr>)) (\<lambda>_. ret True)
       else bind (modify (\<lambda>s. s\<lparr>g_started := removeAll sid (g_started s)\<rparr>)) (\<lambda>_. ret False))))"

definition verify_profile :: "gateway_settings \<Rightarrow> gateway_request \<Rightarrow> uuid \<Rightarrow> gateway_response gateway_act" where
  "verify_profile cfg rq sid = mutating cfg rq sid
     (bind (status_of rq sid) (\<lambda>st. with_state (\<lambda>s.
      if st \<noteq> Some LoginSessionStatus.ACTIVE \<or> \<not> is_profile_check sid (g_db s) then refuse 409
      else bind (start_verification sid) (\<lambda>accepted. if \<not> accepted then refuse 503 else answer_status 202))))"

definition state_json :: "LoginSessionStatus \<Rightarrow> string option \<Rightarrow> string" where
  "state_json st browser_state =
     (if st = LoginSessionStatus.ACTIVE
      then (case browser_state of Some b \<Rightarrow> if b = [] then ''preparing'' else b | None \<Rightarrow> ''preparing'')
      else login_status_value st)"

definition login_state :: "gateway_settings \<Rightarrow> gateway_request \<Rightarrow> uuid \<Rightarrow> gateway_response gateway_act" where
  "login_state cfg rq sid =
     bind (call (require_gateway_host cfg rq)) (\<lambda>_.
     bind (call (require_session cfg (gq_login_cookie rq) sid)) (\<lambda>_.
     bind (status_of rq sid) (\<lambda>st.
     case st of
       None \<Rightarrow> refuse 404
     | Some st \<Rightarrow>
         if st \<noteq> LoginSessionStatus.ACTIVE then page (state_json st None)
         else
           bind browser_readiness (\<lambda>browser_state.
           if browser_state = ''verifying''
           then bind (start_verification sid) (\<lambda>_. page (state_json st (Some browser_state)))
           else if browser_state = ''connected''
           then
             bind (on_logins (complete_login sid (\<lambda>k. gq_now rq (k + 10)))) (\<lambda>completed.
             bind browser_close (\<lambda>_. page (state_json completed (Some browser_state))))
           else page (state_json st (Some browser_state))))))"

text \<open>An asset of the viewer: \<open>fetched\<close> is what the upstream answers.\<close>

definition vnc_asset :: "gateway_settings \<Rightarrow> gateway_request \<Rightarrow> uuid \<Rightarrow> string \<Rightarrow> int \<Rightarrow> gateway_response gateway_act" where
  "vnc_asset cfg rq sid asset fetched = with_active cfg rq sid (refuse 404)
     (if \<not> safe_asset asset then refuse 404
      else if fetched \<noteq> 200 then refuse 404
      else page asset)"

text \<open>The decision on a websocket: the code it is closed with, or its acceptance.\<close>

definition websockify :: "gateway_settings \<Rightarrow> gateway_request \<Rightarrow> uuid \<Rightarrow> int option gateway_act" where
  "websockify cfg rq sid =
     (if \<not> websocket_allowed cfg rq (gq_login_cookie rq) sid then ret (Some 4403)
      else bind (status_of rq sid) (\<lambda>st.
        if st \<noteq> Some LoginSessionStatus.ACTIVE then ret (Some 4403) else ret None))"

section \<open>The operator handoff\<close>

definition handoff_connect :: "gateway_settings \<Rightarrow> gateway_request \<Rightarrow> uuid \<Rightarrow> gateway_response gateway_act" where
  "handoff_connect cfg rq sid =
     bind (call (require_gateway_host cfg rq)) (\<lambda>_.
     bind (handoff_state_of rq sid) (\<lambda>st.
     if st = ''pending'' then page ''handoff_start'' else unavailable_page))"

definition activate_handoff_link :: "gateway_settings \<Rightarrow> gateway_request \<Rightarrow> uuid \<Rightarrow> gateway_response gateway_act" where
  "activate_handoff_link cfg rq sid =
     bind (call (require_gateway_host cfg rq)) (\<lambda>_.
     bind (call (require_gateway_origin cfg rq)) (\<lambda>_.
     case gq_body rq of
       LaunchToken (Some token) \<Rightarrow>
         bind (on_handoffs (activate_handoff (gs_sha cfg) sid token (gq_now rq 0) (gq_unlinked rq))) (\<lambda>st.
         if st \<noteq> ''active'' then refuse 409
         else ret \<lparr>gr_status = 204, gr_page = [], gr_cookie = Some (''handoff_gateway_session'', sign_session cfg sid)\<rparr>)
     | _ \<Rightarrow> refuse 409))"

definition handoff_viewer :: "gateway_settings \<Rightarrow> gateway_request \<Rightarrow> uuid \<Rightarrow> gateway_response gateway_act" where
  "handoff_viewer cfg rq sid =
     bind (call (require_gateway_host cfg rq)) (\<lambda>_.
     bind (call (require_session cfg (gq_handoff_cookie rq) sid)) (\<lambda>_.
     bind (handoff_state_of rq sid) (\<lambda>st.
     if st \<noteq> ''active'' then unavailable_page else page ''handoff_viewer'')))"

definition handoff_decision :: "gateway_settings \<Rightarrow> gateway_request \<Rightarrow> uuid \<Rightarrow> string \<Rightarrow> gateway_response gateway_act" where
  "handoff_decision cfg rq sid decision =
     bind (call (require_gateway_host cfg rq)) (\<lambda>_.
     bind (call (require_gateway_origin cfg rq)) (\<lambda>_.
     bind (call (require_session cfg (gq_handoff_cookie rq) sid)) (\<lambda>_.
     if decision \<noteq> ''confirm'' \<and> decision \<noteq> ''cancel'' then refuse 404
     else
       let expected = (if decision = ''confirm'' then ''confirmed'' else ''cancelled'') in
       bind (on_handoffs (resolve_handoff sid (decision = ''confirm'') (gq_now rq 0))) (\<lambda>st.
       if st \<noteq> expected then refuse 409 else answer_status 204))))"

definition handoff_vnc_asset :: "gateway_settings \<Rightarrow> gateway_request \<Rightarrow> uuid \<Rightarrow> string \<Rightarrow> int \<Rightarrow>
    gateway_response gateway_act" where
  "handoff_vnc_asset cfg rq sid asset fetched =
     bind (call (require_gateway_host cfg rq)) (\<lambda>_.
     bind (call (require_session cfg (gq_handoff_cookie rq) sid)) (\<lambda>_.
     bind (handoff_state_of rq sid) (\<lambda>st.
     if st \<noteq> ''active'' \<or> \<not> safe_asset asset then refuse 404
     else if fetched \<noteq> 200 then refuse 404
     else page asset)))"

definition handoff_websockify :: "gateway_settings \<Rightarrow> gateway_request \<Rightarrow> uuid \<Rightarrow> int option gateway_act" where
  "handoff_websockify cfg rq sid =
     (if \<not> websocket_allowed cfg rq (gq_handoff_cookie rq) sid then ret (Some 4403)
      else bind (handoff_state_of rq sid) (\<lambda>st. ret (if st \<noteq> ''active'' then Some 4403 else None)))"

end
