(* ===== verification/GatewayProps.thy ===== *)
theory GatewayProps
  imports LoginGateway LoginProps
begin

text \<open>
  Properties of the login gateway: what needs the cookie of the session, that a closed session stays shut, and
  that the browser is sent to check the profile once.
\<close>

section \<open>Requests\<close>

datatype gateway_call =
    Connect | Activate | Remote | Interactive | LayoutPreview | OpenLogin | VerifyProfile | LoginState
  | VncAsset string int | Websockify
  | HandoffConnect | HandoffActivate | HandoffViewer | HandoffDecision string | HandoffVncAsset string int
  | HandoffWebsockify

definition websocket_response :: "int option gateway_act \<Rightarrow> gateway_response gateway_act" where
  "websocket_response a = bind a (\<lambda>c.
     ret \<lparr>gr_status = (case c of None \<Rightarrow> 101 | Some n \<Rightarrow> n), gr_page = [], gr_cookie = None\<rparr>)"

definition gateway_handle :: "gateway_settings \<Rightarrow> gateway_request \<Rightarrow> uuid \<Rightarrow> gateway_call \<Rightarrow>
    gateway_response gateway_act" where
  "gateway_handle cfg rq sid m =
     (case m of
        Connect \<Rightarrow> connect_page cfg rq sid
      | Activate \<Rightarrow> activate_link cfg rq sid
      | Remote \<Rightarrow> remote_page cfg rq sid
      | Interactive \<Rightarrow> interactive_page cfg rq sid
      | LayoutPreview \<Rightarrow> layout_preview cfg rq sid
      | OpenLogin \<Rightarrow> open_login cfg rq sid
      | VerifyProfile \<Rightarrow> verify_profile cfg rq sid
      | LoginState \<Rightarrow> login_state cfg rq sid
      | VncAsset asset n \<Rightarrow> vnc_asset cfg rq sid asset n
      | Websockify \<Rightarrow> websocket_response (websockify cfg rq sid)
      | HandoffConnect \<Rightarrow> handoff_connect cfg rq sid
      | HandoffActivate \<Rightarrow> activate_handoff_link cfg rq sid
      | HandoffViewer \<Rightarrow> handoff_viewer cfg rq sid
      | HandoffDecision decision \<Rightarrow> handoff_decision cfg rq sid decision
      | HandoffVncAsset asset n \<Rightarrow> handoff_vnc_asset cfg rq sid asset n
      | HandoffWebsockify \<Rightarrow> websocket_response (handoff_websockify cfg rq sid))"

text \<open>The handling of one request, whatever it contains.\<close>

inductive gateway_step :: "gateway_settings \<Rightarrow> gateway \<Rightarrow> gateway \<Rightarrow> bool" for cfg where
  "gateway_handle cfg rq sid m s = (r, t) \<Longrightarrow> gateway_step cfg s t"

inductive_cases gateway_stepE: "gateway_step cfg s t"

lemma keeps_history:
  assumes "(gateway_step cfg)\<^sup>*\<^sup>* s t" "P s" "\<And>rq sid m. keeps P (gateway_handle cfg rq sid m)"
  shows "P t"
  using assms(1,2)
proof (induction rule: rtranclp_induct)
  case (step u v)
  then show ?case by (elim gateway_stepE) (rule keepsD [OF assms(3)])
qed

section \<open>What the handlers keep\<close>

lemmas handler_defs = gateway_handle_def connect_page_def activate_link_def remote_page_def interactive_page_def
  layout_preview_def with_active_def open_login_def verify_profile_def login_state_def vnc_asset_def websockify_def
  websocket_response_def handoff_connect_def activate_handoff_link_def handoff_viewer_def handoff_decision_def
  handoff_vnc_asset_def handoff_websockify_def mutating_def page_def unavailable_page_def answer_status_def refuse_def
  activate_errors_def browser_readiness_def browser_navigate_def browser_close_def status_of_def handoff_state_of_def

definition login_history_from :: "gateway_settings \<Rightarrow> db \<Rightarrow> gateway \<Rightarrow> bool" where
  "login_history_from cfg d s \<longleftrightarrow> (login_step (gs_sha cfg))\<^sup>*\<^sup>* d (g_db s)"

lemma on_logins_history:
  assumes "\<And>e e' r. f e = (r, e') \<Longrightarrow> login_step (gs_sha cfg) e e'"
  shows "keeps (login_history_from cfg d) (on_logins f)"
proof (rule keepsI)
  fix s r t assume h: "login_history_from cfg d s" "on_logins f s = (r, t)"
  then obtain q e where "f (g_db s) = (q, e)" "g_db t = e"
    by (auto simp: on_logins_def split: prod.splits sum.splits)
  then show "login_history_from cfg d t"
    using h(1) assms unfolding login_history_from_def by (metis rtranclp.rtrancl_into_rtrancl)
qed

lemma modify_history:
  assumes "\<And>s. g_db (f s) = g_db s"
  shows "keeps (login_history_from cfg d) (modify f)"
  by (rule keeps_modify) (simp add: login_history_from_def assms)

lemma browser_call_history: "keeps (login_history_from cfg d) browser_call"
  unfolding browser_call_def by (intro act_inv modify_history) simp

lemma on_handoffs_history: "keeps (login_history_from cfg d) (on_handoffs f)"
  unfolding on_handoffs_def refuse_def
  by (intro act_inv) (auto intro!: act_inv modify_history split: option.split prod.split)

lemma verification_history: "keeps (login_history_from cfg d) (start_verification sid)"
  unfolding start_verification_def browser_navigate_def
  by (auto intro!: act_inv modify_history browser_call_history)

lemma handle_history: "keeps (login_history_from cfg d) (gateway_handle cfg rq sid m)"
proof -
  have st: "keeps (login_history_from cfg d) (on_logins (login_status sid now))" for now
    by (rule on_logins_history) (rule login_step.intros)
  have co: "keeps (login_history_from cfg d) (on_logins (complete_login sid now))" for now
    by (rule on_logins_history) (rule login_step.intros)
  have ac: "keeps (login_history_from cfg d) (on_logins (activate (gs_sha cfg) sid token now))" for token now
    by (rule on_logins_history) (rule login_step.intros)
  show ?thesis
    by (cases m) (auto simp: handler_defs Let_def intro!: act_inv st co ac browser_call_history on_handoffs_history
        verification_history split: option.split launch_body.split exn.split)
qed

text \<open>A session that the browser is checking is remembered as started.\<close>

definition navigation_ok :: "gateway \<Rightarrow> bool" where
  "navigation_ok s \<longleftrightarrow> distinct (g_navigated s) \<and> set (g_navigated s) \<subseteq> set (g_started s)"

lemma on_logins_navigation: "keeps navigation_ok (on_logins f)"
  by (rule keepsI) (auto simp: on_logins_def navigation_ok_def split: prod.splits sum.splits)

lemma modify_navigation:
  assumes "\<And>s. g_started (f s) = g_started s" "\<And>s. g_navigated (f s) = g_navigated s"
  shows "keeps navigation_ok (modify f)"
  by (rule keeps_modify) (simp add: navigation_ok_def assms)

lemma browser_call_navigation: "keeps navigation_ok browser_call"
  unfolding browser_call_def by (intro act_inv modify_navigation) simp_all

lemma on_handoffs_navigation: "keeps navigation_ok (on_handoffs f)"
  unfolding on_handoffs_def refuse_def
  by (intro act_inv) (auto intro!: act_inv modify_navigation split: option.split prod.split)

lemma verification_navigation: "keeps navigation_ok (start_verification sid)"
proof (rule keepsI)
  fix s r t assume h: "navigation_ok s" "start_verification sid s = (r, t)"
  show "navigation_ok t"
  proof (cases "sid \<in> set (g_started s)")
    case True
    then show ?thesis using h by (simp add: start_verification_def with_state_def ret_def)
  next
    case False
    then have "g_navigated t = sid # g_navigated s \<and> g_started t = sid # g_started s \<or>
        g_navigated t = g_navigated s \<and> g_started t = removeAll sid (g_started s)"
      using h(2) by (auto simp: start_verification_def with_state_def bind_def modify_def ret_def browser_navigate_def
          browser_call_def split: if_splits)
    then show ?thesis using h(1) False by (auto simp: navigation_ok_def)
  qed
qed

lemma handle_navigation: "keeps navigation_ok (gateway_handle cfg rq sid m)"
  by (cases m) (auto simp: handler_defs Let_def intro!: act_inv on_logins_navigation browser_call_navigation
      on_handoffs_navigation verification_navigation split: option.split launch_body.split exn.split)

text \<open>
  C39: polling does not send the browser to the profile check again. Over every history of requests, the
  browser accepts at most one navigation to the check of each session, however often the page is polled
  and however many of the attempts fail.
\<close>

theorem navigation_once:
  assumes "(gateway_step cfg)\<^sup>*\<^sup>* s t" "g_navigated s = []"
  shows "distinct (g_navigated t)"
  using keeps_history [OF assms(1), of navigation_ok] handle_navigation assms(2) by (auto simp: navigation_ok_def)

section \<open>The cookie\<close>

fun login_call :: "gateway_call \<Rightarrow> bool" where
  "login_call Remote = True" | "login_call Interactive = True" | "login_call LayoutPreview = True"
| "login_call OpenLogin = True" | "login_call VerifyProfile = True" | "login_call LoginState = True"
| "login_call (VncAsset asset n) = True" | "login_call Websockify = True"
| "login_call m = False"

fun handoff_call :: "gateway_call \<Rightarrow> bool" where
  "handoff_call HandoffViewer = True" | "handoff_call (HandoffDecision decision) = True"
| "handoff_call (HandoffVncAsset asset n) = True" | "handoff_call HandoffWebsockify = True"
| "handoff_call m = False"

definition turned_away :: "unit signal + gateway_response \<Rightarrow> bool" where
  "turned_away r \<longleftrightarrow> r = Inl (Raise (HTTPException 400 [])) \<or> r = Inl (Raise (HTTPException 403 [])) \<or>
     r = Inr \<lparr>gr_status = 4403, gr_page = [], gr_cookie = None\<rparr>"

lemma call_guard: "call (guard e b) = (if b then ret () else raise e)"
  by (simp add: call_def guard_def)

lemma bind_ret [simp]: "bind (ret x) f = f x"
  by (rule ext) (simp add: bind_def ret_def)

lemma bind_stop [simp]: "bind (stop g) f = stop g"
  by (rule ext) (simp add: bind_def stop_def)

lemma ret_apply [simp]: "ret x s = (Inr x, s)"
  by (simp add: ret_def)

lemma stop_apply [simp]: "stop g s = (Inl g, s)"
  by (simp add: stop_def)

text \<open>
  Nothing happens without the cookie of the session. A request to the remote browser of a login session, or
  to the viewer of a handoff, that does not carry the cookie signed for this very session is refused before
  anything is read or done: the sessions, the handoffs and the browser stay as they are.
\<close>

theorem cookie_required:
  assumes "login_call m \<and> gq_login_cookie rq \<noteq> Some (sign_session cfg sid) \<or>
    handoff_call m \<and> gq_handoff_cookie rq \<noteq> Some (sign_session cfg sid)"
  shows "\<exists>r. gateway_handle cfg rq sid m s = (r, s) \<and> turned_away r"
  using assms
  by (cases m) (auto simp: handler_defs require_gateway_host_def require_gateway_origin_def require_session_def
      valid_cookie_def websocket_allowed_def call_guard turned_away_def)

section \<open>Closed sessions\<close>

lemma closed_status:
  assumes "logins_ok d" "r \<in> set (login_sessions d)" "\<not> session_open r"
  shows "login_status (ls_id r) now d = (Inr (Some (ls_status r)), d)"
proof -
  have u: "unique_col ls_id (login_sessions d)" "constraints_ok d"
    using assms(1) by (simp_all add: logins_ok_def constraints_ok_def uniques_ok_def)
  then have g: "get_login d (ls_id r) = Some r"
    using lookup_row_distinct [of ls_id "login_sessions d" r] assms(2) by (simp add: unique_col_def)
  have "expire_locked now r d = Inr (r, d)"
    using assms(3) by (auto simp: expire_locked_def session_open_def)
  then show ?thesis using u(2) by (simp add: login_status_def g transaction_def)
qed

lemma closed_later:
  assumes "logins_ok d" "(login_step sha)\<^sup>*\<^sup>* d d'" "r \<in> set (login_sessions d)" "\<not> session_open r"
  shows "logins_ok d'" "\<exists>r' \<in> set (login_sessions d'). ls_id r' = ls_id r \<and> ls_status r' = ls_status r \<and> \<not> session_open r'"
proof -
  show "logins_ok d'" using logins.history_inv [OF assms(2,1)] .
  have "terminal login_transitions (ls_status r)"
    using assms(4) by (cases "ls_status r") (auto simp: terminal_def login_transitions.simps session_open_def)
  then obtain r' where "r' \<in> set (login_sessions d')" "login_ident r' = login_ident r" "ls_status r' = ls_status r"
    using logins.history_terminal [OF assms(2,1,3)] by blast
  then show "\<exists>r' \<in> set (login_sessions d'). ls_id r' = ls_id r \<and> ls_status r' = ls_status r \<and> \<not> session_open r'"
    using assms(4) by (intro bexI [of _ r']) (auto simp: login_ident_def session_open_def)
qed

fun browser_call_of :: "gateway_call \<Rightarrow> bool" where
  "browser_call_of LoginState = False"
| "browser_call_of m = login_call m"

text \<open>A refusal: an HTTP error, the page that asks to reconnect, or a websocket that is closed.\<close>

definition shut :: "unit signal + gateway_response \<Rightarrow> bool" where
  "shut r \<longleftrightarrow> (case r of
     Inl g \<Rightarrow> g \<in> (\<lambda>n. Raise (HTTPException n [])) ` {400, 403, 404, 409}
   | Inr resp \<Rightarrow> gr_page resp = ''unavailable'' \<or> gr_status resp = 4403)"


section \<open>A login in progress\<close>

definition demo_settings :: gateway_settings where
  "demo_settings = \<lparr>gs_origin = ''https://login.local/'', gs_sign = rev, gs_sha = token_hash\<rparr>"

definition demo_poll :: gateway_request where
  "demo_poll = \<lparr>gq_host = Some ''login.local'', gq_origin = Some ''https://login.local'',
     gq_login_cookie = Some (sign_session demo_settings 31), gq_handoff_cookie = None, gq_body = NoJson,
     gq_now = at_time 3000, gq_unlinked = True\<rparr>"

definition demo_gateway :: gateway where
  "demo_gateway = \<lparr>g_db = active_db, g_handoffs = None, g_started = [],
     g_browser = [BrowserAnswer 200 (Some ''verifying''), BrowserError, BrowserAnswer 200 (Some ''verifying''),
       BrowserAnswer 202 None, BrowserAnswer 200 (Some ''verifying'')], g_navigated = []\<rparr>"

definition polled :: "nat \<Rightarrow> gateway" where
  "polled n = ((\<lambda>s. snd (gateway_handle demo_settings demo_poll 31 LoginState s)) ^^ n) demo_gateway"

text \<open>The first poll fails to reach the browser, the second is accepted, the third does not call it again.\<close>

theorem navigation_once_witness: "g_navigated (polled 3) = [31] \<and> distinct (g_navigated (polled 3))"
proof
  show "g_navigated (polled 3) = [31]" by code_simp
  have step: "gateway_step demo_settings s (snd (gateway_handle demo_settings demo_poll 31 LoginState s))" for s
    by (rule gateway_step.intros [of _ demo_poll 31 LoginState _ "fst (gateway_handle demo_settings demo_poll 31 LoginState s)"]) simp
  have "(gateway_step demo_settings)\<^sup>*\<^sup>* demo_gateway (polled n)" for n
  proof (induction n)
    case (Suc n)
    then show ?case using step [of "polled n"] unfolding polled_def by (simp add: rtranclp.rtrancl_into_rtrancl)
  qed (simp add: polled_def)
  then show "distinct (g_navigated (polled 3))"
    by (rule navigation_once) (simp add: demo_gateway_def)
qed

theorem cookie_required_witness:
  "\<exists>r. gateway_handle demo_settings (demo_poll\<lparr>gq_login_cookie := None\<rparr>) 31 Remote demo_gateway = (r, demo_gateway) \<and>
     turned_away r"
  by (rule cookie_required) (simp add: demo_poll_def)

definition done_db :: db where
  "done_db = snd (complete_login 31 (at_time 2500) active_db)"

lemma done_db_step: "login_step token_hash active_db done_db"
  unfolding done_db_def
  by (rule login_step.intros(5) [of 31 "at_time 2500" _ "fst (complete_login 31 (at_time 2500) active_db)"]) simp

lemma done_db_closed: "list_all (\<lambda>r. ls_id r = 31 \<and> \<not> session_open r) (login_sessions done_db) \<and> login_sessions done_db \<noteq> []"
  by code_simp


end
