(* ===== verification/Downloader.thy ===== *)
theory Downloader
  imports Complex_Main Canonical
begin

text \<open>
  \<open>runtime/downloader.py\<close> and \<open>runtime/session_cookies.py\<close> of \<open>apps/api/app/instagram/collector/\<close>: the
  bounded yt-dlp attempt of a Reel and the cookies it runs with. What a call of yt-dlp does, the files it
  leaves in the directory of its attempt and the exception it raises, is a list of the state, and so
  are the failures of the file operations around it.
\<close>

section \<open>Failures\<close>

text \<open>Of a foreign exception the code reads the integer attributes \<open>status\<close>, \<open>status_code\<close>, \<open>code\<close> of
  the error and of its response, in that order, whether it is a \<open>TimeoutError\<close>, the \<open>errno\<close> of an
  \<open>OSError\<close>, the name and module of its class, and its text.\<close>

record foreign_error =
  fe_status :: "int list"
  fe_timeout :: bool
  fe_errno :: "string option"
  fe_module :: string
  fe_name :: string
  fe_message :: string

datatype outside_error = Foreign foreign_error | Interrupt

datatype download_error =
    RuntimeFailure string
  | InvalidCandidate
  | Outside outside_error

type_synonym 'a attempt_result = "download_error + 'a"

definition safe_http_status :: "foreign_error \<Rightarrow> int option" where
  "safe_http_status e = find (\<lambda>n. 100 \<le> n \<and> n \<le> 599) (fe_status e)"

definition safe_message_markers :: "(string \<times> string list) list" where
  "safe_message_markers =
     [(''DIRECT_DOWNLOAD_AUTH_REQUIRED'',
        [''login required'', ''sign in'', ''authentication required'', ''cookies are required'',
         ''http error 401'', ''http error 407'']),
      (''DIRECT_DOWNLOAD_FORBIDDEN'', [''http error 403'', ''forbidden'']),
      (''DIRECT_DOWNLOAD_RATE_LIMITED'', [''http error 429'', ''too many requests'', ''rate limit'']),
      (''DIRECT_DOWNLOAD_TIMEOUT'', [''timed out'', ''timeout'']),
      (''DIRECT_DOWNLOAD_NETWORK_FAILED'',
        [''network is unreachable'', ''connection reset'', ''connection refused'',
         ''temporary failure in name resolution'']),
      (''DIRECT_DOWNLOAD_FORMAT_UNAVAILABLE'',
        [''requested format is not available'', ''no video formats'', ''no supported format'']),
      (''DIRECT_DOWNLOAD_SIZE_LIMIT'', [''max filesize'', ''max-filesize'', ''file is larger than''])]"

definition classify_download_exception :: "foreign_error \<Rightarrow> string" where
  "classify_download_exception e =
     (let status = safe_http_status e in
      if status = Some 401 \<or> status = Some 407 then ''DIRECT_DOWNLOAD_AUTH_REQUIRED''
      else if status = Some 403 then ''DIRECT_DOWNLOAD_FORBIDDEN''
      else if status = Some 429 then ''DIRECT_DOWNLOAD_RATE_LIMITED''
      else if status = Some 408 \<or> status = Some 504 then ''DIRECT_DOWNLOAD_TIMEOUT''
      else if fe_timeout e then ''DIRECT_DOWNLOAD_TIMEOUT''
      else if fe_errno e \<in> {Some ''ENETUNREACH'', Some ''ECONNRESET'', Some ''ECONNREFUSED'', Some ''EHOSTUNREACH''}
      then ''DIRECT_DOWNLOAD_NETWORK_FAILED''
      else if \<not> startswith (fe_module e) ''yt_dlp'' then ''DOWNLOAD_FAILED''
      else if fe_name e \<in> {''UnsupportedError'', ''NoFormatsError''} then ''DIRECT_DOWNLOAD_FORMAT_UNAVAILABLE''
      else if fe_name e = ''PostProcessingError'' then ''DIRECT_DOWNLOAD_EXTRACTOR_FAILED''
      else if fe_name e \<notin> {''DownloadError'', ''ExtractorError'', ''PostProcessingError''}
      then ''DIRECT_DOWNLOAD_EXTRACTOR_FAILED''
      else
        (case find (\<lambda>(_, markers). list_ex (\<lambda>m. contains m (lower (fe_message e))) markers) safe_message_markers of
           Some (code, _) \<Rightarrow> code
         | None \<Rightarrow> ''DIRECT_DOWNLOAD_EXTRACTOR_FAILED''))"

section \<open>Cookies\<close>

text \<open>A cookie of the browser context; a field is \<open>None\<close> when it is missing or of another type.\<close>

record raw_cookie =
  rc_name :: "string option"
  rc_value :: "string option"
  rc_domain :: "string option"
  rc_path :: "string option"
  rc_secure :: bool
  rc_expires :: "rat option"

record session_cookie =
  ck_name :: string
  ck_value :: string
  ck_domain :: string
  ck_path :: string
  ck_secure :: bool
  ck_expires_at :: "rat option"

definition instagram_domain :: "string \<Rightarrow> bool" where
  "instagram_domain domain =
     (let normalized = lower (dropWhile (\<lambda>c. c = CHR ''.'') domain) in
      normalized = ''instagram.com'' \<or> ends_with normalized ''.instagram.com'')"

definition accept_cookie :: "rat \<Rightarrow> raw_cookie \<Rightarrow> session_cookie option" where
  "accept_cookie current raw =
     (case (rc_name raw, rc_value raw, rc_domain raw, rc_path raw) of
        (Some name, Some v, Some domain, Some cookie_path) \<Rightarrow>
          if name \<notin> {''sessionid'', ''csrftoken''} \<or> \<not> rc_secure raw \<or> \<not> instagram_domain domain then None
          else
            let expires_at = (case rc_expires raw of None \<Rightarrow> None | Some t \<Rightarrow> if t > 0 then Some t else None) in
            if (case expires_at of None \<Rightarrow> False | Some t \<Rightarrow> t \<le> current) then None
            else Some \<lparr>ck_name = name, ck_value = v, ck_domain = domain,
                   ck_path = (if cookie_path = [] then ''/'' else cookie_path), ck_secure = rc_secure raw, ck_expires_at = expires_at\<rparr>
      | _ \<Rightarrow> None)"

definition get_cookies :: "rat \<Rightarrow> raw_cookie list \<Rightarrow> session_cookie list attempt_result" where
  "get_cookies current raws =
     (let accepted = List.map_filter (accept_cookie current) raws in
      if \<not> list_ex (\<lambda>c. ck_name c = ''sessionid'') accepted then Inl (RuntimeFailure ''SESSION_COOKIE_MISSING'')
      else Inr accepted)"

definition safe_presence :: "session_cookie list \<Rightarrow> bool \<times> bool \<times> nat" where
  "safe_presence cookies =
     (list_ex (\<lambda>c. ck_name c = ''sessionid'') cookies, list_ex (\<lambda>c. ck_name c = ''csrftoken'') cookies, length cookies)"

section \<open>State\<close>

record download_diagnostics =
  dd_session_cookie_present :: bool
  dd_csrf_cookie_present :: bool
  dd_accepted_cookie_count :: nat
  dd_stage :: string
  dd_reason_code :: "string option"
  dd_output_file_count :: nat
  dd_cleaned_partial_artifacts :: bool

definition new_diagnostics :: "string \<Rightarrow> download_diagnostics" where
  "new_diagnostics stage = \<lparr>dd_session_cookie_present = False, dd_csrf_cookie_present = False,
     dd_accepted_cookie_count = 0, dd_stage = stage, dd_reason_code = None, dd_output_file_count = 0,
     dd_cleaned_partial_artifacts = False\<rparr>"

type_synonym file_path = "string list"

text \<open>What the outside does in one attempt: the context's cookies or the exception of reading them, whether
  yt-dlp can be imported, the directory \<open>mkdtemp\<close> makes or its exception, the exception of opening yt-dlp,
  the files it leaves and how it ends, the exception of \<open>os.replace\<close>, and whether \<open>rmtree\<close> fails.\<close>

record attempt_world =
  aw_now :: rat
  aw_cookies :: "outside_error + raw_cookie list"
  aw_importable :: bool
  aw_directory :: "outside_error + string"
  aw_open :: "outside_error option"
  aw_files :: "(file_path \<times> string) list"
  aw_end :: "outside_error option"
  aw_replace :: "outside_error option"
  aw_rmtree_fails :: bool

record downloader =
  d_files :: "(file_path \<times> string) list"
  d_directories :: "file_path list"
  d_jar :: "session_cookie list"
  d_facade :: download_diagnostics
  d_last :: download_diagnostics
  d_attempts :: "download_diagnostics list"

definition file_at :: "downloader \<Rightarrow> file_path \<Rightarrow> string option" where
  "file_at s p = map_of (d_files s) p"

definition remove_file :: "file_path \<Rightarrow> downloader \<Rightarrow> downloader" where
  "remove_file p s = s\<lparr>d_files := filter (\<lambda>e. fst e \<noteq> p) (d_files s)\<rparr>"

definition inside :: "file_path \<Rightarrow> file_path \<Rightarrow> bool" where
  "inside dir p \<longleftrightarrow> length dir < length p \<and> take (length dir) p = dir"

section \<open>One call of yt-dlp\<close>

definition path_suffix :: "string \<Rightarrow> string" where
  "path_suffix name =
     (case rpartition (CHR ''.'') name of
        (stem, found, ext) \<Rightarrow> if found \<and> stem \<noteq> [] \<and> ext \<noteq> [] then CHR ''.'' # ext else [])"

text \<open>The regular files of a directory with the suffix \<open>.mp4\<close>.\<close>

definition outputs_of :: "file_path \<Rightarrow> downloader \<Rightarrow> file_path list" where
  "outputs_of dir s = remdups (filter (\<lambda>p. inside dir p \<and> length p = length dir + 1 \<and>
     lower (path_suffix (last p)) = ''.mp4'') (map fst (d_files s)))"

definition rename_file :: "file_path \<Rightarrow> file_path \<Rightarrow> downloader \<Rightarrow> downloader" where
  "rename_file p q s =
     (case file_at s p of
        None \<Rightarrow> s
      | Some content \<Rightarrow> s\<lparr>d_files := (q, content) # filter (\<lambda>e. fst e \<noteq> p \<and> fst e \<noteq> q) (d_files s)\<rparr>)"

definition facade_stage :: "string \<Rightarrow> downloader \<Rightarrow> downloader" where
  "facade_stage st s = s\<lparr>d_facade := (d_facade s)\<lparr>dd_stage := st\<rparr>\<rparr>"

definition facade_reason :: "string \<Rightarrow> downloader \<Rightarrow> downloader" where
  "facade_reason c s = s\<lparr>d_facade := (d_facade s)\<lparr>dd_reason_code := Some c\<rparr>\<rparr>"

text \<open>The body of the \<open>try\<close>.\<close>

definition run_ytdlp :: "attempt_world \<Rightarrow> file_path \<Rightarrow> file_path \<Rightarrow> downloader \<Rightarrow> unit attempt_result \<times> downloader" where
  "run_ytdlp w dir temporary s =
     (case aw_open w of
        Some e \<Rightarrow> (Inl (Outside e), s)
      | None \<Rightarrow>
          let s = facade_stage ''media_download'' s;
              s = s\<lparr>d_files := map (\<lambda>(p, content). (dir @ p, content)) (aw_files w) @ d_files s\<rparr>
          in case aw_end w of
               Some e \<Rightarrow> (Inl (Outside e), s)
             | None \<Rightarrow>
                 let s = facade_stage ''output_discovery'' s; outputs = outputs_of dir s;
                     s = s\<lparr>d_facade := (d_facade s)\<lparr>dd_output_file_count := length outputs\<rparr>\<rparr>
                 in if outputs = [] then (Inl (RuntimeFailure ''DIRECT_DOWNLOAD_OUTPUT_MISSING''), s)
                    else if length outputs \<noteq> 1 then (Inl (RuntimeFailure ''DIRECT_DOWNLOAD_OUTPUT_AMBIGUOUS''), s)
                    else (case aw_replace w of
                            Some e \<Rightarrow> (Inl (Outside e), s)
                          | None \<Rightarrow> (Inr (), rename_file (hd outputs) temporary s)))"

definition ytdlp_failed :: "download_error \<Rightarrow> downloader \<Rightarrow> download_error \<times> downloader" where
  "ytdlp_failed e s =
     (case e of
        RuntimeFailure c \<Rightarrow> (e, facade_reason c s)
      | InvalidCandidate \<Rightarrow> (RuntimeFailure ''DOWNLOAD_FAILED'', facade_reason ''DOWNLOAD_FAILED'' s)
      | Outside Interrupt \<Rightarrow> (e, s)
      | Outside (Foreign f) \<Rightarrow>
          let s = (if fe_name f = ''PostProcessingError'' \<and> startswith (fe_module f) ''yt_dlp''
                   then facade_stage ''merge'' s
                   else if fe_name f = ''ExtractorError'' \<and> startswith (fe_module f) ''yt_dlp''
                   then facade_stage ''metadata_extraction'' s
                   else s);
              code = classify_download_exception f
          in (RuntimeFailure code, facade_reason code s))"

definition cleanup_attempt_directory :: "attempt_world \<Rightarrow> file_path \<Rightarrow> downloader \<Rightarrow> downloader" where
  "cleanup_attempt_directory w dir s =
     (if aw_rmtree_fails w then s\<lparr>d_facade := (d_facade s)\<lparr>dd_cleaned_partial_artifacts := False\<rparr>\<rparr>
      else s\<lparr>d_files := filter (\<lambda>e. \<not> inside dir (fst e)) (d_files s),
             d_directories := filter (\<lambda>d. d \<noteq> dir) (d_directories s),
             d_facade := (d_facade s)\<lparr>dd_cleaned_partial_artifacts := True\<rparr>\<rparr>)"

definition facade_download :: "attempt_world \<Rightarrow> file_path \<Rightarrow> downloader \<Rightarrow> unit attempt_result \<times> downloader" where
  "facade_download w temporary s =
     (let s = s\<lparr>d_facade := new_diagnostics ''metadata_extraction''\<rparr> in
      if \<not> aw_importable w
      then (Inl (RuntimeFailure ''DIRECT_DOWNLOAD_EXTRACTOR_FAILED''), facade_reason ''DIRECT_DOWNLOAD_EXTRACTOR_FAILED'' s)
      else
        case aw_directory w of
          Inl e \<Rightarrow> (Inl (Outside e), s)
        | Inr name \<Rightarrow>
            let dir = butlast temporary @ [name];
                s = s\<lparr>d_directories := d_directories s @ [dir]\<rparr>
            in case run_ytdlp w dir temporary s of
                 (Inr u, s) \<Rightarrow> (Inr u, cleanup_attempt_directory w dir s)
               | (Inl e, s) \<Rightarrow>
                   (case ytdlp_failed e s of (e, s) \<Rightarrow> (Inl e, cleanup_attempt_directory w dir s)))"

section \<open>One attempt with a cookie jar\<close>

text \<open>\<open>_copy_facade_diagnostics\<close>.\<close>

definition copy_facade_diagnostics :: "downloader \<Rightarrow> downloader" where
  "copy_facade_diagnostics s =
     (let f = d_facade s; l = d_last s in
      s\<lparr>d_last := l\<lparr>
        dd_stage := (if dd_stage f \<in> {''metadata_extraction'', ''media_download'', ''merge'', ''output_discovery''}
                     then dd_stage f else dd_stage l),
        dd_reason_code := (if dd_reason_code f \<noteq> None then dd_reason_code f else dd_reason_code l),
        dd_output_file_count := dd_output_file_count f,
        dd_cleaned_partial_artifacts := dd_cleaned_partial_artifacts l \<or> dd_cleaned_partial_artifacts f\<rparr>\<rparr>)"

text \<open>\<open>_cleanup_attempt_files\<close>: whether there was a file.\<close>

definition attempt_cleanup :: "file_path \<Rightarrow> downloader \<Rightarrow> bool \<times> downloader" where
  "attempt_cleanup temporary s = (file_at s temporary \<noteq> None, remove_file temporary s)"

definition last_failed :: "file_path \<Rightarrow> string \<Rightarrow> downloader \<Rightarrow> downloader" where
  "last_failed temporary code s =
     (case attempt_cleanup temporary s of
        (cleaned, s) \<Rightarrow> s\<lparr>d_last := (d_last s)\<lparr>dd_reason_code := Some code,
          dd_cleaned_partial_artifacts := dd_cleaned_partial_artifacts (d_last s) \<or> cleaned\<rparr>\<rparr>)"

definition check_output :: "int \<Rightarrow> file_path \<Rightarrow> downloader \<Rightarrow> unit attempt_result" where
  "check_output maximum_bytes temporary s =
     (case file_at s temporary of
        None \<Rightarrow> Inl (RuntimeFailure ''DIRECT_DOWNLOAD_OUTPUT_MISSING'')
      | Some content \<Rightarrow>
          if int (length content) > maximum_bytes then Inl (RuntimeFailure ''DIRECT_DOWNLOAD_SIZE_LIMIT'')
          else Inr ())"

definition session_download :: "attempt_world \<Rightarrow> int \<Rightarrow> reel_candidate \<Rightarrow> file_path \<Rightarrow> downloader \<Rightarrow>
    unit attempt_result \<times> downloader" where
  "session_download w maximum_bytes candidate temporary s =
     (case validate_candidate candidate of
        Inl _ \<Rightarrow> (Inl InvalidCandidate, s)
      | Inr _ \<Rightarrow>
          case safe_presence (d_jar s) of
            (session_present, csrf_present, accepted_count) \<Rightarrow>
              let s = s\<lparr>d_last := (new_diagnostics ''metadata_extraction'')\<lparr>
                    dd_session_cookie_present := session_present, dd_csrf_cookie_present := csrf_present,
                    dd_accepted_cookie_count := accepted_count\<rparr>\<rparr>;
                  (r, s) = facade_download w temporary s;
                  (r, s) = (case r of
                      Inl e \<Rightarrow> (Inl e, s)
                    | Inr u \<Rightarrow> (check_output maximum_bytes temporary s, copy_facade_diagnostics s));
                  (r, s) = (case r of
                      Inl (RuntimeFailure c) \<Rightarrow>
                        (Inl (RuntimeFailure c), last_failed temporary c (copy_facade_diagnostics s))
                    | Inl InvalidCandidate \<Rightarrow>
                        (Inl (RuntimeFailure ''DOWNLOAD_FAILED''), last_failed temporary ''DOWNLOAD_FAILED'' s)
                    | Inl (Outside (Foreign f)) \<Rightarrow>
                        (let code = classify_download_exception f in
                         (Inl (RuntimeFailure code), last_failed temporary code s))
                    | Inl (Outside Interrupt) \<Rightarrow> (r, s)
                    | Inr _ \<Rightarrow> (r, s))
              in (r, s\<lparr>d_jar := []\<rparr>))"

section \<open>One attempt with fresh cookies\<close>

definition diagnostics_from :: "download_diagnostics \<Rightarrow> download_diagnostics \<Rightarrow> download_diagnostics" where
  "diagnostics_from source baseline =
     \<lparr>dd_session_cookie_present = dd_session_cookie_present baseline,
      dd_csrf_cookie_present = dd_csrf_cookie_present baseline,
      dd_accepted_cookie_count = dd_accepted_cookie_count baseline,
      dd_stage = (if dd_stage source \<in> {''cookie_extraction'', ''metadata_extraction'', ''media_download'',
                      ''merge'', ''output_discovery''} then dd_stage source else ''cookie_extraction''),
      dd_reason_code = dd_reason_code source, dd_output_file_count = dd_output_file_count source,
      dd_cleaned_partial_artifacts = dd_cleaned_partial_artifacts source\<rparr>"

definition record_attempt :: "download_diagnostics \<Rightarrow> downloader \<Rightarrow> downloader" where
  "record_attempt diagnostics s =
     (if length (d_attempts s) < 16 then s\<lparr>d_attempts := d_attempts s @ [diagnostics]\<rparr> else s)"

text \<open>The body of the \<open>try\<close> with the diagnostics it leaves; the flag tells whether the inner downloader exists.\<close>

definition fresh_body :: "attempt_world \<Rightarrow> int \<Rightarrow> reel_candidate \<Rightarrow> file_path \<Rightarrow> downloader \<Rightarrow>
    unit attempt_result \<times> bool \<times> download_diagnostics \<times> downloader" where
  "fresh_body w maximum_bytes candidate temporary s =
     (let diagnostics = new_diagnostics ''cookie_extraction'' in
      case aw_cookies w of
        Inl e \<Rightarrow> (Inl (Outside e), False, diagnostics, s)
      | Inr raws \<Rightarrow>
          case get_cookies (aw_now w) raws of
            Inl e \<Rightarrow> (Inl e, False, diagnostics, s)
          | Inr jar \<Rightarrow>
              case safe_presence jar of
                (session_present, csrf_present, accepted_count) \<Rightarrow>
                  let diagnostics = diagnostics\<lparr>dd_session_cookie_present := session_present,
                        dd_csrf_cookie_present := csrf_present, dd_accepted_cookie_count := accepted_count\<rparr>;
                      s = s\<lparr>d_jar := jar, d_last := new_diagnostics ''cookie_extraction''\<rparr>
                  in case session_download w maximum_bytes candidate temporary s of
                       (Inr u, s) \<Rightarrow> (Inr u, True, diagnostics_from (d_last s) diagnostics, s)
                     | (Inl e, s) \<Rightarrow> (Inl e, True, diagnostics, s))"

definition fresh_failed :: "file_path \<Rightarrow> string \<Rightarrow> download_diagnostics \<Rightarrow> downloader \<Rightarrow>
    unit attempt_result \<times> download_diagnostics \<times> downloader" where
  "fresh_failed temporary code diagnostics s =
     (case attempt_cleanup temporary s of
        (cleaned, s) \<Rightarrow>
          (Inl (RuntimeFailure code),
           diagnostics\<lparr>dd_reason_code := Some code,
             dd_cleaned_partial_artifacts := dd_cleaned_partial_artifacts diagnostics \<or> cleaned\<rparr>, s))"

definition fresh_download :: "attempt_world \<Rightarrow> int \<Rightarrow> reel_candidate \<Rightarrow> file_path \<Rightarrow> downloader \<Rightarrow>
    unit attempt_result \<times> downloader" where
  "fresh_download w maximum_bytes candidate temporary s =
     (case fresh_body w maximum_bytes candidate temporary s of
        (r, created, diagnostics, s) \<Rightarrow>
          case (case r of
                  Inl (RuntimeFailure c) \<Rightarrow> fresh_failed temporary c
                    (if created then diagnostics_from (d_last s) diagnostics else diagnostics) s
                | Inl InvalidCandidate \<Rightarrow> fresh_failed temporary ''DOWNLOAD_FAILED'' diagnostics s
                | Inl (Outside (Foreign f)) \<Rightarrow> fresh_failed temporary ''DOWNLOAD_FAILED'' diagnostics s
                | Inl (Outside Interrupt) \<Rightarrow> (r, diagnostics, s)
                | Inr _ \<Rightarrow> (r, diagnostics, s)) of
            (r, diagnostics, s) \<Rightarrow> (r, record_attempt diagnostics (s\<lparr>d_jar := []\<rparr>)))"

end
