(* ===== verification/DownloaderProps.thy ===== *)
theory DownloaderProps
  imports Downloader
begin

text \<open>
  Properties of a download attempt: what it leaves behind on every path, and what it tells of itself.
\<close>

section \<open>Failure codes\<close>

text \<open>The codes of the collector's runtime that a download can fail with.\<close>

definition download_codes :: "string list" where
  "download_codes =
     [''DOWNLOAD_FAILED'', ''SESSION_COOKIE_MISSING'', ''DIRECT_DOWNLOAD_AUTH_REQUIRED'', ''DIRECT_DOWNLOAD_FORBIDDEN'',
      ''DIRECT_DOWNLOAD_RATE_LIMITED'', ''DIRECT_DOWNLOAD_TIMEOUT'', ''DIRECT_DOWNLOAD_NETWORK_FAILED'',
      ''DIRECT_DOWNLOAD_FORMAT_UNAVAILABLE'', ''DIRECT_DOWNLOAD_SIZE_LIMIT'', ''DIRECT_DOWNLOAD_OUTPUT_MISSING'',
      ''DIRECT_DOWNLOAD_OUTPUT_AMBIGUOUS'', ''DIRECT_DOWNLOAD_EXTRACTOR_FAILED'']"

definition known :: "string \<Rightarrow> bool" where
  "known c \<longleftrightarrow> c \<in> set download_codes"

lemma marker_codes: "list_all (\<lambda>(c, _). known c) safe_message_markers"
  by code_simp

lemma literal_codes [simp]:
  "known ''DOWNLOAD_FAILED''" "known ''SESSION_COOKIE_MISSING''" "known ''DIRECT_DOWNLOAD_EXTRACTOR_FAILED''"
  "known ''DIRECT_DOWNLOAD_OUTPUT_MISSING''" "known ''DIRECT_DOWNLOAD_OUTPUT_AMBIGUOUS''" "known ''DIRECT_DOWNLOAD_SIZE_LIMIT''"
  "known ''DIRECT_DOWNLOAD_AUTH_REQUIRED''" "known ''DIRECT_DOWNLOAD_FORBIDDEN''" "known ''DIRECT_DOWNLOAD_RATE_LIMITED''"
  "known ''DIRECT_DOWNLOAD_TIMEOUT''" "known ''DIRECT_DOWNLOAD_NETWORK_FAILED''" "known ''DIRECT_DOWNLOAD_FORMAT_UNAVAILABLE''"
  by (simp_all add: known_def download_codes_def)

lemma classify_known [simp]: "known (classify_download_exception e)"
proof -
  have "known c" if found: "find (\<lambda>(_, markers). list_ex (\<lambda>m. contains m (lower (fe_message e))) markers) safe_message_markers
      = Some (c, ms)" for c ms
  proof -
    obtain i where "i < length safe_message_markers" "(c, ms) = safe_message_markers ! i"
      using found unfolding find_Some_iff by blast
    then have "(c, ms) \<in> set safe_message_markers" by simp
    then show ?thesis using marker_codes unfolding list_all_iff by blast
  qed
  then have "known (case find (\<lambda>(_, markers). list_ex (\<lambda>m. contains m (lower (fe_message e))) markers) safe_message_markers of
      Some (code, _) \<Rightarrow> code | None \<Rightarrow> ''DIRECT_DOWNLOAD_EXTRACTOR_FAILED'')"
    by (simp split: option.split)
  then show ?thesis by (simp add: classify_download_exception_def Let_def)
qed

section \<open>Files\<close>

lemma file_at_simps [simp]:
  "file_at (s\<lparr>d_jar := j\<rparr>) p = file_at s p" "file_at (s\<lparr>d_last := l\<rparr>) p = file_at s p"
  "file_at (s\<lparr>d_facade := f\<rparr>) p = file_at s p" "file_at (s\<lparr>d_directories := ds\<rparr>) p = file_at s p"
  "file_at (s\<lparr>d_attempts := a\<rparr>) p = file_at s p" "file_at (facade_stage st s) p = file_at s p"
  "file_at (facade_reason c s) p = file_at s p" "file_at (copy_facade_diagnostics s) p = file_at s p"
  "file_at (record_attempt d s) p = file_at s p"
  by (simp_all add: file_at_def facade_stage_def facade_reason_def copy_facade_diagnostics_def record_attempt_def Let_def)

lemma map_of_filter_key: "map_of (filter (\<lambda>e. P (fst e)) es) k = (if P k then map_of es k else None)"
  by (induction es) auto

lemma file_at_filter [simp]:
  "file_at (s\<lparr>d_files := filter (\<lambda>e. P (fst e)) (d_files s)\<rparr>) p = (if P p then file_at s p else None)"
  by (simp add: file_at_def map_of_filter_key)

lemma file_at_remove [simp]: "file_at (remove_file q s) p = (if p = q then None else file_at s p)"
  by (simp add: remove_file_def file_at_def map_of_filter_key [of "\<lambda>k. k \<noteq> q"])

lemma file_at_rename: "file_at (rename_file p q s) r =
    (if file_at s p = None then file_at s r else if r = q then file_at s p else if r = p then None else file_at s r)"
  by (auto simp: rename_file_def file_at_def map_of_filter_key [of "\<lambda>k. k \<noteq> p \<and> k \<noteq> q"] split: option.split)

text \<open>The frame of an attempt: other files and directories are as before.\<close>

definition undisturbed :: "file_path \<Rightarrow> downloader \<Rightarrow> downloader \<Rightarrow> bool" where
  "undisturbed temporary s t \<longleftrightarrow> d_directories t = d_directories s \<and> (\<forall>p. p \<noteq> temporary \<longrightarrow> file_at t p = file_at s p)"

text \<open>The promise of \<open>mkdtemp\<close>: the directory is new.\<close>

definition fresh_directory :: "attempt_world \<Rightarrow> file_path \<Rightarrow> downloader \<Rightarrow> bool" where
  "fresh_directory w temporary s \<longleftrightarrow> temporary \<noteq> [] \<and>
     (case aw_directory w of Inl _ \<Rightarrow> True
      | Inr name \<Rightarrow> butlast temporary @ [name] \<notin> set (d_directories s) \<and>
          (\<forall>p. inside (butlast temporary @ [name]) p \<longrightarrow> file_at s p = None))"

lemma not_inside_parent: "temporary \<noteq> [] \<Longrightarrow> \<not> inside (butlast temporary @ [name]) temporary"
  by (simp add: inside_def)

lemma inside_append: "p \<noteq> [] \<Longrightarrow> inside dir (dir @ p)"
  by (simp add: inside_def)

text \<open>yt-dlp writes below the directory of its attempt.\<close>

definition plain_files :: "attempt_world \<Rightarrow> bool" where
  "plain_files w \<longleftrightarrow> (\<forall>(p, _) \<in> set (aw_files w). p \<noteq> [])"

lemma file_at_written:
  assumes "plain_files w" "\<not> inside dir p"
  shows "file_at (s\<lparr>d_files := map (\<lambda>(q, content). (dir @ q, content)) (aw_files w) @ d_files s\<rparr>) p = file_at s p"
proof -
  have "map_of (map (\<lambda>(q, content). (dir @ q, content)) (aw_files w)) p = None"
    using assms by (auto simp: map_of_eq_None_iff plain_files_def inside_append)
  then show ?thesis by (simp add: file_at_def map_add_def)
qed

lemma outputs_exist: "p \<in> set (outputs_of dir s) \<Longrightarrow> file_at s p \<noteq> None \<and> inside dir p"
  by (auto simp: outputs_of_def file_at_def map_of_eq_None_iff)

definition facade_post :: "file_path \<Rightarrow> unit attempt_result \<Rightarrow> downloader \<Rightarrow> bool" where
  "facade_post temporary r t \<longleftrightarrow>
     (case r of
        Inr _ \<Rightarrow> file_at t temporary \<noteq> None \<and> dd_reason_code (d_facade t) = None
      | Inl (RuntimeFailure c) \<Rightarrow> known c
      | Inl InvalidCandidate \<Rightarrow> False
      | Inl (Outside _) \<Rightarrow> True)"

lemma run_ytdlp_effect:
  assumes "run_ytdlp w dir temporary s = (r, t)" "plain_files w" "\<not> inside dir temporary"
    "dd_reason_code (d_facade s) = None"
  shows "(\<forall>p. p \<noteq> temporary \<longrightarrow> \<not> inside dir p \<longrightarrow> file_at t p = file_at s p) \<and>
    d_directories t = d_directories s \<and> d_attempts t = d_attempts s \<and> d_jar t = d_jar s \<and> d_last t = d_last s \<and>
    facade_post temporary r t"
proof (cases "aw_open w")
  case None
  define s1 where "s1 = facade_stage ''media_download'' s"
  define s2 where "s2 = s1\<lparr>d_files := map (\<lambda>(q, content). (dir @ q, content)) (aw_files w) @ d_files s1\<rparr>"
  define s3 where "s3 = facade_stage ''output_discovery'' s2"
  define s4 where "s4 = s3\<lparr>d_facade := (d_facade s3)\<lparr>dd_output_file_count := length (outputs_of dir s3)\<rparr>\<rparr>"
  note run = assms(1) [unfolded run_ytdlp_def None option.case Let_def, folded s1_def, folded s2_def, folded s3_def, folded s4_def]
  have f2: "file_at s2 p = file_at s p" if "\<not> inside dir p" for p
    unfolding s2_def file_at_written [OF assms(2) that] by (simp add: s1_def)
  have f4: "file_at s4 p = file_at s2 p" for p by (simp add: s4_def s3_def)
  have frame: "d_directories s4 = d_directories s" "d_attempts s4 = d_attempts s" "d_jar s4 = d_jar s" "d_last s4 = d_last s"
    "d_directories s2 = d_directories s" "d_attempts s2 = d_attempts s" "d_jar s2 = d_jar s" "d_last s2 = d_last s"
    "dd_reason_code (d_facade s4) = None"
    by (simp_all add: s4_def s3_def s2_def s1_def facade_stage_def assms(4))
  show ?thesis
  proof (cases "aw_end w")
    case (Some e)
    then show ?thesis using run f2 frame by (auto simp: facade_post_def)
  next
    case end_ok: None
    show ?thesis
    proof (cases "length (outputs_of dir s3) = 1 \<and> aw_replace w = None")
      case False
      then show ?thesis using run end_ok f2 f4 frame by (auto simp: facade_post_def split: if_splits option.splits)
    next
      case True
      then obtain p where p: "outputs_of dir s3 = [p]" by (auto simp: length_Suc_conv)
      have "p \<in> set (outputs_of dir s3)" using p by simp
      note out = outputs_exist [OF this]
      have e: "file_at s3 q = file_at s4 q" for q by (simp add: s4_def)
      have t: "r = Inr ()" "t = rename_file p temporary s4" using run end_ok True p by auto
      have "d_facade t = d_facade s4" "d_directories t = d_directories s4" "d_attempts t = d_attempts s4"
        "d_jar t = d_jar s4" "d_last t = d_last s4"
        by (simp_all add: t rename_file_def split: option.split)
      moreover have "file_at t temporary \<noteq> None" using out by (auto simp: t file_at_rename e)
      moreover have "file_at t q = file_at s q" if "q \<noteq> temporary" "\<not> inside dir q" for q
        using that out f2 f4 by (auto simp: t file_at_rename)
      ultimately show ?thesis using frame t(1) by (simp add: facade_post_def)
    qed
  qed
qed (use assms in \<open>auto simp: run_ytdlp_def facade_post_def\<close>)

lemma ytdlp_failed_effect:
  assumes "ytdlp_failed e s = (e', t)" "facade_post temporary (Inl e) s"
  shows "(\<forall>p. file_at t p = file_at s p) \<and> d_directories t = d_directories s \<and> d_attempts t = d_attempts s \<and>
    d_jar t = d_jar s \<and> d_last t = d_last s \<and> facade_post temporary (Inl e') t"
  using assms
  by (auto simp: ytdlp_failed_def Let_def facade_post_def facade_stage_def facade_reason_def file_at_def
      split: download_error.splits outside_error.splits)

definition intact :: "attempt_world \<Rightarrow> file_path \<Rightarrow> downloader \<Rightarrow> downloader \<Rightarrow> bool" where
  "intact w temporary s t \<longleftrightarrow> d_attempts t = d_attempts s \<and> (\<not> aw_rmtree_fails w \<longrightarrow> undisturbed temporary s t)"

lemma cleanup_directory_effect:
  assumes "\<forall>p. p \<noteq> temporary \<longrightarrow> \<not> inside dir p \<longrightarrow> file_at t p = file_at s p" "\<forall>p. inside dir p \<longrightarrow> file_at s p = None"
    "d_directories t = d_directories s @ [dir]" "dir \<notin> set (d_directories s)" "\<not> inside dir temporary"
    "d_attempts t = d_attempts s" "facade_post temporary r t"
  shows "intact w temporary s (cleanup_attempt_directory w dir t) \<and>
    facade_post temporary r (cleanup_attempt_directory w dir t) \<and>
    d_jar (cleanup_attempt_directory w dir t) = d_jar t \<and> d_last (cleanup_attempt_directory w dir t) = d_last t"
proof (cases "aw_rmtree_fails w")
  case True
  then show ?thesis using assms(6,7)
    by (auto simp: cleanup_attempt_directory_def intact_def facade_post_def split: sum.splits download_error.splits)
next
  case False
  let ?u = "cleanup_attempt_directory w dir t"
  have f: "file_at ?u p = (if inside dir p then None else file_at t p)" for p
    using False by (simp add: cleanup_attempt_directory_def file_at_def map_of_filter_key [of "\<lambda>k. \<not> inside dir k"])
  have "filter (\<lambda>d. d \<noteq> dir) (d_directories s) = d_directories s" using assms(4) by (auto intro: filter_True)
  then have "d_directories ?u = d_directories s" using False assms(3) by (simp add: cleanup_attempt_directory_def)
  moreover have "dd_reason_code (d_facade ?u) = dd_reason_code (d_facade t)" "d_attempts ?u = d_attempts t"
    "d_jar ?u = d_jar t" "d_last ?u = d_last t"
    using False by (simp_all add: cleanup_attempt_directory_def)
  ultimately show ?thesis
    using assms f by (auto simp: intact_def undisturbed_def facade_post_def split: sum.splits download_error.splits)
qed

lemma facade_download_effect:
  assumes "facade_download w temporary s = (r, t)" "plain_files w" "fresh_directory w temporary s"
  shows "intact w temporary s t \<and> facade_post temporary r t \<and> d_jar t = d_jar s \<and> d_last t = d_last s"
proof (cases "\<not> aw_importable w \<or> isl (aw_directory w)")
  case True
  then show ?thesis using assms(1)
    by (auto simp: facade_download_def Let_def intact_def undisturbed_def facade_post_def facade_reason_def isl_def split: if_splits)
next
  case False
  then obtain name where n: "aw_importable w" "aw_directory w = Inr name" by (cases "aw_directory w") auto
  define dir where "dir = butlast temporary @ [name]"
  define s1 where "s1 = s\<lparr>d_facade := new_diagnostics ''metadata_extraction'', d_directories := d_directories s @ [dir]\<rparr>"
  obtain q u where q: "run_ytdlp w dir temporary s1 = (q, u)" by fastforce
  have fresh: "temporary \<noteq> []" "dir \<notin> set (d_directories s)" "\<forall>p. inside dir p \<longrightarrow> file_at s p = None"
    using assms(3) n(2) by (auto simp: fresh_directory_def dir_def)
  have nin: "\<not> inside dir temporary" using not_inside_parent [OF fresh(1)] by (simp add: dir_def)
  have s1: "file_at s1 p = file_at s p" "d_directories s1 = d_directories s @ [dir]" "d_attempts s1 = d_attempts s"
    "d_jar s1 = d_jar s" "d_last s1 = d_last s" "dd_reason_code (d_facade s1) = None" for p
    by (simp_all add: s1_def new_diagnostics_def)
  note u = run_ytdlp_effect [OF q assms(2) nin s1(6)]
  note down = assms(1) [unfolded facade_download_def Let_def n(2) sum.case, folded dir_def]
  have pre: "\<forall>p. p \<noteq> temporary \<longrightarrow> \<not> inside dir p \<longrightarrow> file_at u p = file_at s p" "d_directories u = d_directories s @ [dir]"
    "d_attempts u = d_attempts s" "d_jar u = d_jar s" "d_last u = d_last s" using u s1 by auto
  show ?thesis
  proof (cases q)
    case (Inr x)
    then have "r = q" "t = cleanup_attempt_directory w dir u" using down n(1) q by (auto simp: s1_def)
    then show ?thesis
      using cleanup_directory_effect [OF pre(1) fresh(3) pre(2) fresh(2) nin pre(3), of q w] u pre by auto
  next
    case (Inl e)
    obtain e' v where v: "ytdlp_failed e u = (e', v)" by fastforce
    note fv = ytdlp_failed_effect [OF v, of temporary]
    have "facade_post temporary (Inl e) u" using u Inl by simp
    note fv = fv [OF this]
    have rt: "r = Inl e'" "t = cleanup_attempt_directory w dir v" using down n(1) q Inl v by (auto simp: s1_def)
    have "\<forall>p. p \<noteq> temporary \<longrightarrow> \<not> inside dir p \<longrightarrow> file_at v p = file_at s p" "d_directories v = d_directories s @ [dir]"
      "d_attempts v = d_attempts s" using fv pre by auto
    from cleanup_directory_effect [OF this(1) fresh(3) this(2) fresh(2) nin this(3), of "Inl e'" w] show ?thesis
      using fv pre rt by auto
  qed
qed

section \<open>The attempt of a Reel\<close>

lemma check_output_cases:
  "(check_output n temporary s = Inr () \<and> (\<exists>content. file_at s temporary = Some content \<and> int (length content) \<le> n)) \<or>
   (\<exists>c. check_output n temporary s = Inl (RuntimeFailure c) \<and> known c)"
  by (auto simp: check_output_def split: option.split)

definition session_post :: "int \<Rightarrow> file_path \<Rightarrow> unit attempt_result \<Rightarrow> downloader \<Rightarrow> bool" where
  "session_post n temporary r t \<longleftrightarrow>
     (case r of
        Inr _ \<Rightarrow> (\<exists>content. file_at t temporary = Some content \<and> int (length content) \<le> n) \<and> dd_reason_code (d_last t) = None
      | Inl (RuntimeFailure c) \<Rightarrow> known c \<and> file_at t temporary = None
      | Inl InvalidCandidate \<Rightarrow> False
      | Inl (Outside (Foreign _)) \<Rightarrow> False
      | Inl (Outside Interrupt) \<Rightarrow> True)"

lemma file_at_last_failed [simp]: "file_at (last_failed temporary c s) p = (if p = temporary then None else file_at s p)"
  by (simp add: last_failed_def attempt_cleanup_def)

lemma last_failed_simps [simp]:
  "d_directories (last_failed temporary c s) = d_directories s" "d_attempts (last_failed temporary c s) = d_attempts s"
  by (simp_all add: last_failed_def attempt_cleanup_def remove_file_def)

lemma copy_facade_simps [simp]:
  "d_directories (copy_facade_diagnostics s) = d_directories s" "d_attempts (copy_facade_diagnostics s) = d_attempts s"
  by (simp_all add: copy_facade_diagnostics_def Let_def)

lemma copy_facade_reason: "dd_reason_code (d_facade s) = None \<Longrightarrow> dd_reason_code (d_last s) = None \<Longrightarrow>
    dd_reason_code (d_last (copy_facade_diagnostics s)) = None"
  by (simp add: copy_facade_diagnostics_def Let_def)

lemma intact_simps [simp]:
  "intact w temporary s (t\<lparr>d_jar := j\<rparr>) = intact w temporary s t"
  "intact w temporary s (last_failed temporary c t) = intact w temporary s t"
  "intact w temporary s (copy_facade_diagnostics t) = intact w temporary s t"
  "intact w temporary (s\<lparr>d_last := l\<rparr>) t = intact w temporary s t"
  "intact w temporary (s\<lparr>d_jar := j\<rparr>) t = intact w temporary s t"
  by (auto simp: intact_def undisturbed_def)

lemma session_download_effect:
  assumes "session_download w n candidate temporary s = (r, t)" "validate_candidate candidate = Inr c"
    "plain_files w" "fresh_directory w temporary s"
  shows "intact w temporary s t \<and> session_post n temporary r t \<and> d_jar t = []"
proof -
  obtain a b m where p: "safe_presence (d_jar s) = (a, b, m)" by (rule prod_cases3)
  define s1 where "s1 = s\<lparr>d_last := (new_diagnostics ''metadata_extraction'')\<lparr>
    dd_session_cookie_present := a, dd_csrf_cookie_present := b, dd_accepted_cookie_count := m\<rparr>\<rparr>"
  obtain q u where q: "facade_download w temporary s1 = (q, u)" by fastforce
  have "fresh_directory w temporary s1" using assms(4) by (simp add: fresh_directory_def s1_def split: sum.splits)
  note u = facade_download_effect [OF q assms(3) this]
  have i: "intact w temporary s u" using u by (simp add: s1_def)
  have l: "dd_reason_code (d_last u) = None" using u by (simp add: s1_def new_diagnostics_def)
  note body = assms(1) [unfolded session_download_def assms(2) sum.case p prod.case Let_def, folded s1_def, unfolded q prod.case]
  show ?thesis
  proof (cases q)
    case (Inr x)
    then have f: "dd_reason_code (d_facade u) = None" using u by (simp add: facade_post_def)
    from check_output_cases [of n temporary u] show ?thesis
    proof (elim disjE conjE exE)
      fix content assume "check_output n temporary u = Inr ()" "file_at u temporary = Some content" "int (length content) \<le> n"
      moreover from this have "r = Inr ()" "t = (copy_facade_diagnostics u)\<lparr>d_jar := []\<rparr>" using body Inr by auto
      ultimately show ?thesis using i copy_facade_reason [OF f l] by (simp add: session_post_def)
    next
      fix c assume c: "check_output n temporary u = Inl (RuntimeFailure c)" "known c"
      then have "r = Inl (RuntimeFailure c)"
        "t = (last_failed temporary c (copy_facade_diagnostics (copy_facade_diagnostics u)))\<lparr>d_jar := []\<rparr>"
        using body Inr by auto
      then show ?thesis using i c(2) by (simp add: session_post_def)
    qed
  next
    case (Inl e)
    then show ?thesis using body u i
      by (cases e; cases "case e of Outside f \<Rightarrow> f | _ \<Rightarrow> Interrupt")
        (auto simp: session_post_def facade_post_def split: outside_error.splits)
  qed
qed

lemma get_cookies_cases: "get_cookies current raws = Inl e \<Longrightarrow> e = RuntimeFailure ''SESSION_COOKIE_MISSING''"
  by (simp add: get_cookies_def Let_def split: if_splits)

definition body_post :: "int \<Rightarrow> reel_candidate \<Rightarrow> file_path \<Rightarrow> unit attempt_result \<Rightarrow> download_diagnostics \<Rightarrow> downloader \<Rightarrow> bool" where
  "body_post n candidate temporary r d t \<longleftrightarrow> dd_reason_code d = None \<and>
     (case r of
        Inr _ \<Rightarrow> (\<exists>content. file_at t temporary = Some content \<and> int (length content) \<le> n) \<and>
          validate_candidate candidate = Inr candidate
      | Inl (RuntimeFailure c) \<Rightarrow> known c
      | Inl _ \<Rightarrow> True)"

lemma validate_candidate_same: "validate_candidate c = Inr d \<Longrightarrow> d = c"
  by (auto simp: validate_candidate_def Let_def split: if_splits sum.splits option.splits)

lemma fresh_body_effect:
  assumes "fresh_body w n candidate temporary s = (r, created, d, t)" "plain_files w" "fresh_directory w temporary s"
  shows "intact w temporary s t \<and> body_post n candidate temporary r d t"
proof -
  have new: "dd_reason_code (new_diagnostics st) = None" for st by (simp add: new_diagnostics_def)
  have refl: "intact w temporary s s" by (simp add: intact_def undisturbed_def)
  show ?thesis
  proof (cases "\<exists>raws jar. aw_cookies w = Inr raws \<and> get_cookies (aw_now w) raws = Inr jar")
    case False
    then show ?thesis using assms(1) refl
      by (auto simp: fresh_body_def Let_def new body_post_def dest: get_cookies_cases split: sum.splits)
  next
    case True
    then obtain raws jar where jar: "aw_cookies w = Inr raws" "get_cookies (aw_now w) raws = Inr jar" by blast
    obtain a b m where p: "safe_presence jar = (a, b, m)" by (rule prod_cases3)
    define s1 where "s1 = s\<lparr>d_jar := jar, d_last := new_diagnostics ''cookie_extraction''\<rparr>"
    obtain q u where q: "session_download w n candidate temporary s1 = (q, u)" by fastforce
    have body: "r = q" "t = u" "(\<exists>x. q = Inr x) \<longrightarrow> dd_reason_code d = dd_reason_code (d_last u)"
      "(\<nexists>x. q = Inr x) \<longrightarrow> dd_reason_code d = None"
      using assms(1) jar p q
      by (auto simp: fresh_body_def Let_def s1_def diagnostics_from_def new split: sum.splits prod.splits)
    show ?thesis
    proof (cases "validate_candidate candidate")
      case (Inl e)
      then have "q = Inl InvalidCandidate" "u = s1" using q by (auto simp: session_download_def)
      then show ?thesis using body by (simp add: body_post_def intact_def undisturbed_def s1_def)
    next
      case (Inr c)
      have "fresh_directory w temporary s1" using assms(3) by (simp add: fresh_directory_def s1_def split: sum.splits)
      note e = session_download_effect [OF q Inr assms(2) this]
      have "intact w temporary s u" using e by (simp add: s1_def intact_def undisturbed_def)
      moreover have "body_post n candidate temporary q d u"
        using e body(3,4) Inr validate_candidate_same [OF Inr]
        by (auto simp: session_post_def body_post_def split: sum.splits download_error.splits)
      ultimately show ?thesis using body(1,2) by simp
    qed
  qed
qed


section \<open>An attempt\<close>

definition demo_attempt :: attempt_world where
  "demo_attempt = \<lparr>aw_now = 0,
     aw_cookies = Inr [\<lparr>rc_name = Some ''sessionid'', rc_value = Some ''s'', rc_domain = Some ''.Instagram.com'',
       rc_path = Some [], rc_secure = True, rc_expires = None\<rparr>],
     aw_importable = True, aw_directory = Inr ''.collector-yt-dlp-1'', aw_open = None,
     aw_files = [([''reel.mp4''], ''bytes''), ([''reel.part''], ''rest'')], aw_end = None, aw_replace = None,
     aw_rmtree_fails = False\<rparr>"

definition demo_target :: file_path where
  "demo_target = [''tmp'', ''abc.part'']"

definition demo_downloader :: downloader where
  "demo_downloader = \<lparr>d_files = [([''tmp'', ''other''], ''x'')], d_directories = [[''tmp'']], d_jar = [],
     d_facade = new_diagnostics [], d_last = new_diagnostics [], d_attempts = []\<rparr>"

definition demo_download :: "unit attempt_result \<times> downloader" where
  "demo_download = fresh_download demo_attempt 100
     \<lparr>shortcode = ''abc'', canonical_url = ''https://www.instagram.com/reel/abc/''\<rparr> demo_target demo_downloader"

lemma demo_download_succeeds: "fst demo_download = Inr ()"
  by code_simp


end
