(* ===== verification/Verification.thy ===== *)
theory Verification
  imports World Control
begin

text \<open>
  \<open>runtime/verification.py\<close> of \<open>apps/api/app/instagram/collector/\<close>: the baseline of a run, the check of
  database, bucket, workspace and event transcript after it, and the two validators of transcripts. SHA-256 is
  a parameter; the workspace is the list of the paths of its regular files.
\<close>

section \<open>Baselines\<close>

definition source_objects_prefix :: string where
  "source_objects_prefix = ''instagram-sources/''"

record baseline_object =
  bo_object_key :: string
  bo_byte_size :: int
  bo_sha256 :: string
  bo_content_type :: string

record run_baseline =
  rb_video_count :: int
  rb_video_ids_sha256 :: string
  rb_source_object_keys_sha256 :: string
  rb_source_objects :: "baseline_object list"

definition lines_of :: "string list \<Rightarrow> string" where
  "lines_of xs = (case xs of [] \<Rightarrow> [] | x # rest \<Rightarrow> x @ concat (map (\<lambda>y. char_of (10::nat) # y) rest))"

definition fingerprint :: "(string \<Rightarrow> string) \<Rightarrow> string list \<Rightarrow> string" where
  "fingerprint sha values = sha (lines_of (sort values))"

definition is_digest :: "string \<Rightarrow> bool" where
  "is_digest v \<longleftrightarrow> length v = 64 \<and> list_all (\<lambda>c. c \<in> set ''0123456789abcdef'') v"

definition object_dict :: "baseline_object \<Rightarrow> body_value" where
  "object_dict b = BDict
     [(''object_key'', BText (bo_object_key b)), (''byte_size'', BInt (bo_byte_size b)),
      (''sha256'', BText (bo_sha256 b)), (''content_type'', BText (bo_content_type b))]"

definition to_safe_dict :: "run_baseline \<Rightarrow> body_value" where
  "to_safe_dict b = BDict
     [(''video_count'', BInt (rb_video_count b)), (''video_ids_sha256'', BText (rb_video_ids_sha256 b)),
      (''source_object_keys_sha256'', BText (rb_source_object_keys_sha256 b)),
      (''source_objects'', BList (map object_dict (rb_source_objects b)))]"

text \<open>\<open>isinstance(v, int)\<close> holds of the booleans, too.\<close>

definition int_value :: "body_value \<Rightarrow> int option" where
  "int_value v = (case v of BInt n \<Rightarrow> Some n | BBool b \<Rightarrow> Some (if b then 1 else 0) | _ \<Rightarrow> None)"

definition text_value :: "body_value \<Rightarrow> string option" where
  "text_value v = (case v of BText s \<Rightarrow> Some s | _ \<Rightarrow> None)"

definition digest_value :: "body_value \<Rightarrow> string option" where
  "digest_value v = (case text_value v of Some s \<Rightarrow> if is_digest s then Some s else None | None \<Rightarrow> None)"

text \<open>An object of the payload; a missing key is a \<open>KeyError\<close>, which makes the whole payload invalid.\<close>

definition object_of_dict :: "body_value \<Rightarrow> baseline_object option" where
  "object_of_dict raw =
     (case raw of
        BDict es \<Rightarrow>
          (case (Option.bind (map_of es ''object_key'') text_value, Option.bind (map_of es ''byte_size'') int_value,
                 Option.bind (map_of es ''sha256'') digest_value, Option.bind (map_of es ''content_type'') text_value) of
             (Some key, Some n, Some digest, Some content_type) \<Rightarrow>
               if startswith key source_objects_prefix \<and> n \<ge> 0
               then Some \<lparr>bo_object_key = key, bo_byte_size = n, bo_sha256 = digest, bo_content_type = content_type\<rparr>
               else None
           | _ \<Rightarrow> None)
      | _ \<Rightarrow> None)"

definition from_safe_dict :: "(string \<Rightarrow> string) \<Rightarrow> body_value \<Rightarrow> run_baseline option" where
  "from_safe_dict sha payload =
     (case payload of
        BDict es \<Rightarrow>
          (case (Option.bind (map_of es ''video_count'') int_value, Option.bind (map_of es ''video_ids_sha256'') digest_value,
                 Option.bind (map_of es ''source_object_keys_sha256'') digest_value, map_of es ''source_objects'') of
             (Some n, Some video_digest, Some object_digest, Some (BList raws)) \<Rightarrow>
               (case those (map object_of_dict raws) of
                  None \<Rightarrow> None
                | Some objects \<Rightarrow>
                    if n \<ge> 0 \<and> distinct (map bo_object_key objects) \<and>
                       fingerprint sha (map bo_object_key objects) = object_digest
                    then Some \<lparr>rb_video_count = n, rb_video_ids_sha256 = video_digest,
                           rb_source_object_keys_sha256 = object_digest, rb_source_objects = objects\<rparr>
                    else None)
           | _ \<Rightarrow> None)
      | _ \<Rightarrow> None)"

section \<open>Snapshots\<close>

definition snapshot_object :: "(string \<Rightarrow> string) \<Rightarrow> string \<Rightarrow> ('w world_scheme, 'r, baseline_object) act" where
  "snapshot_object sha key = may_fail OtherError (with_state (\<lambda>s.
     case store_get (w_store s) key of
       None \<Rightarrow> raise StorageObjectNotFound
     | Some stat \<Rightarrow> may_fail OtherError (with_state (\<lambda>s.
         case store_get (w_store s) key of
           None \<Rightarrow> raise StorageObjectNotFound
         | Some obj \<Rightarrow> ret \<lparr>bo_object_key = key, bo_byte_size = int (length (obj_content stat)),
             bo_sha256 = sha (obj_content obj), bo_content_type = obj_content_type stat\<rparr>))))"

fun snapshot_each :: "(string \<Rightarrow> string) \<Rightarrow> string list \<Rightarrow> ('w world_scheme, 'r, baseline_object list) act" where
  "snapshot_each sha [] = ret []"
| "snapshot_each sha (key # keys) =
     bind (snapshot_object sha key) (\<lambda>b. bind (snapshot_each sha keys) (\<lambda>bs. ret (b # bs)))"

definition snapshot_objects :: "(string \<Rightarrow> string) \<Rightarrow> ('w world_scheme, 'r, baseline_object list) act" where
  "snapshot_objects sha = try_except
     (bind (storage_list_prefix source_objects_prefix) (\<lambda>keys. snapshot_each sha (sort keys)))
     (\<lambda>e. if is_exception e then raise RuntimeError else raise e)"

definition capture_run_baseline :: "(string \<Rightarrow> string) \<Rightarrow> ('w world_scheme, 'r, run_baseline) act" where
  "capture_run_baseline sha =
     bind (db_read (\<lambda>d. map (\<lambda>v. uuid_str (vid_id v)) (videos d))) (\<lambda>video_ids.
     bind (snapshot_objects sha) (\<lambda>objects.
     ret \<lparr>rb_video_count = int (length video_ids), rb_video_ids_sha256 = fingerprint sha video_ids,
          rb_source_object_keys_sha256 = fingerprint sha (map bo_object_key objects), rb_source_objects = objects\<rparr>))"

section \<open>Workspace\<close>

definition is_temporary_name :: "string \<Rightarrow> bool" where
  "is_temporary_name key =
     (let lowered = lower key in
      ends_with lowered ''.part'' \<or> ends_with lowered ''.ytdl'' \<or> ends_with lowered ''.tmp'' \<or>
      contains ''.collector.'' lowered \<or> contains ''staging'' lowered \<or> contains ''temporary'' lowered)"

definition below :: "string list \<Rightarrow> string list \<Rightarrow> bool" where
  "below base p \<longleftrightarrow> length base < length p \<and> take (length base) p = base"

definition workspace_is_clean :: "string list \<Rightarrow> string list list \<Rightarrow> bool" where
  "workspace_is_clean base files \<longleftrightarrow>
     \<not> list_ex (below (base @ [''temporary''])) files \<and>
     \<not> list_ex (\<lambda>p. below base p \<and> is_temporary_name (last p) \<and>
          ''results'' \<notin> set p \<and> ''operator-state'' \<notin> set p) files"

section \<open>Transcripts\<close>

text \<open>An event of a transcript, \<open>None\<close> where a field is missing or of another type.\<close>

type_synonym transcript = "(int option \<times> string option) list"

definition events_at :: "transcript \<Rightarrow> int \<Rightarrow> string list" where
  "events_at events p = [e. (q, ev) \<leftarrow> events, q = Some p, e \<leftarrow> (case ev of None \<Rightarrow> [] | Some e \<Rightarrow> [e])]"

definition positions_of :: "transcript \<Rightarrow> int list" where
  "positions_of events = sort (remdups (List.map_filter fst events))"

definition committed_prefix :: "string list" where
  "committed_prefix = [''detect'', ''pause'', ''download'', ''validation'', ''publish'', ''db_commit'']"

definition transition_prefix :: "string list" where
  "transition_prefix = committed_prefix @ [''cooldown'', ''advance'']"

definition sequence_valid :: "int \<Rightarrow> string list \<Rightarrow> bool" where
  "sequence_valid p sq =
     (let tail = drop 8 sq in
      if p = 3 \<and> list_ex (\<lambda>e. e \<in> {''cooldown'', ''advance'', ''advance_retry''}) sq then False
      else if take 6 sq \<noteq> take (length sq) committed_prefix then False
      else if length sq \<le> 6 then True
      else if length sq \<le> 8 \<and> sq \<noteq> take (length sq) transition_prefix then False
      else if length sq > 8 \<and> take 8 sq \<noteq> transition_prefix then False
      else if tail \<notin> {[], [''transition_confirmed''], [''advance_retry''], [''advance_retry'', ''transition_confirmed'']}
      then False
      else if count_list tail ''advance_retry'' > 1 then False
      else if ''advance'' \<in> set sq \<and> ''db_commit'' \<notin> set sq then False
      else True)"

definition ends_confirmed :: "string list \<Rightarrow> bool" where
  "ends_confirmed sq \<longleftrightarrow> sq \<noteq> [] \<and> last sq = ''transition_confirmed''"

definition validate_event_transcript :: "transcript \<Rightarrow> string \<Rightarrow> int \<Rightarrow> bool" where
  "validate_event_transcript events status target_count =
     (if \<not> list_all (\<lambda>(p, e). p \<noteq> None \<and> e \<noteq> None) events then False
      else
        let positions = positions_of events in
        if positions \<noteq> map int [1..<Suc (length positions)] then False
        else if \<not> list_all (\<lambda>p. sequence_valid p (events_at events p)) positions then False
        else if \<not> list_all (\<lambda>p. ends_confirmed (events_at events p)) (butlast positions) then False
        else if status = ''completed''
        then
          (if target_count \<noteq> 3 \<or> positions \<noteq> [1, 2, 3] then False
           else ends_confirmed (events_at events 1) \<and> ends_confirmed (events_at events 2) \<and>
             events_at events 3 = committed_prefix)
        else status \<in> {''failed'', ''cancelled''})"

definition stage3c1_variants :: "string list \<Rightarrow> string list list" where
  "stage3c1_variants acquisition =
     (let opening =
        (if take 1 acquisition = [''duplicate_skipped''] then [''duplicate_skipped'']
         else if take 1 acquisition = [''db_commit''] then [''db_commit'']
         else [''download'', ''validation'', ''publish'', ''db_commit''])
      in [opening, opening @ [''cooldown'', ''advance'', ''transition_confirmed''],
          opening @ [''cooldown'', ''advance'', ''advance_retry'', ''transition_confirmed'']])"

definition stage3c1_sequence_valid :: "string list \<Rightarrow> bool" where
  "stage3c1_sequence_valid sq =
     (let acquisition = drop 2 sq in
      take 2 sq = [''detect'', ''pause''] \<and>
      list_ex (\<lambda>variant. acquisition = take (length acquisition) variant) (stage3c1_variants acquisition) \<and>
      \<not> (''advance'' \<in> set acquisition \<and> ''cooldown'' \<notin> set acquisition))"

definition validate_stage3c1_transcript :: "transcript \<Rightarrow> string \<Rightarrow> int option \<Rightarrow> bool" where
  "validate_stage3c1_transcript events status final_position =
     (if \<not> list_all (\<lambda>(p, e). (case p of None \<Rightarrow> False | Some p \<Rightarrow> p \<ge> 1) \<and> e \<noteq> None) events then False
      else if events = [] then status \<in> {''cancelled'', ''failed''}
      else
        let positions = positions_of events in
        if positions \<noteq> map int [1..<Suc (length positions)] then False
        else if \<not> list_all (\<lambda>p. stage3c1_sequence_valid (events_at events p) \<and>
                 (p = last positions \<or> ends_confirmed (events_at events p))) positions then False
        else if status = ''completed''
        then
          (case final_position of
             None \<Rightarrow> False
           | Some final \<Rightarrow> last positions = final \<and>
               \<not> list_ex (\<lambda>e. e \<in> {''cooldown'', ''advance'', ''advance_retry''}) (events_at events final))
        else status \<in> {''failed'', ''cancelled''})"

section \<open>The check after a run\<close>

record verified_item =
  vi_position :: int
  vi_shortcode :: string
  vi_object_key :: "string option"
  vi_byte_size :: "int option"
  vi_sha256 :: "string option"
  vi_valid :: bool

record verification_result =
  vr_run_id :: uuid
  vr_verified :: bool
  vr_source_committed_count :: int
  vr_video_count_unchanged :: bool
  vr_object_set_unchanged :: bool
  vr_workspace_clean :: bool
  vr_transcript_valid :: bool
  vr_items :: "verified_item list"
  vr_reason_code :: "string option"

definition object_matches :: "(string \<Rightarrow> string) \<Rightarrow> string option \<Rightarrow> string option \<Rightarrow> int option \<Rightarrow> ('w world_scheme, 'r, bool) act" where
  "object_matches sha key expected_sha expected_size =
     (case (key, expected_sha, expected_size) of
        (Some k, Some h, Some n) \<Rightarrow>
          if k = [] \<or> h = [] \<or> n = 0 then ret False
          else try_except (bind (snapshot_object sha k) (\<lambda>b.
                 ret (bo_byte_size b = n \<and> bo_content_type b = ''video/mp4'' \<and> bo_sha256 b = h)))
               (\<lambda>e. if is_exception e then ret False else raise e)
      | _ \<Rightarrow> ret False)"

definition pending_jobs :: "uuid \<Rightarrow> db \<Rightarrow> nat" where
  "pending_jobs reel d = length (filter (\<lambda>j. job_reel_id j = reel \<and> job_status j = NormalizationJobStatus.PENDING) (jobs d))"

fun verify_items :: "(string \<Rightarrow> string) \<Rightarrow> int \<Rightarrow> (run_item \<times> reel) list \<Rightarrow> ('w world_scheme, 'r, verified_item list) act" where
  "verify_items sha position [] = ret []"
| "verify_items sha position ((item, r) # rows) =
     bind (object_matches sha (reel_source_object_key r) (reel_source_sha256 r) (reel_source_byte_size r)) (\<lambda>object_valid.
     bind (db_read (pending_jobs (reel_id r))) (\<lambda>pending.
     bind (verify_items sha (position + 1) rows) (\<lambda>rest.
     ret (\<lparr>vi_position = position, vi_shortcode = reel_shortcode r, vi_object_key = reel_source_object_key r,
           vi_byte_size = reel_source_byte_size r, vi_sha256 = reel_source_sha256 r,
           vi_valid = item_position item = position \<and> item_outcome item = RunItemOutcome.SOURCE_COMMITTED \<and>
             item_auth_mode item = Some DownloadAuthMode.SESSION_FIRST \<and>
             reel_status r = ReelPipelineStatus.SOURCE_READY \<and> reel_video_id r = None \<and> pending = 1 \<and> object_valid\<rparr> # rest))))"

definition run_rows :: "uuid \<Rightarrow> db \<Rightarrow> (run_item \<times> reel) list" where
  "run_rows run d = sort_key (\<lambda>(i, r). item_position i)
     [(i, r). i \<leftarrow> run_items d, item_run_id i = run, r \<leftarrow> reels d, reel_id r = item_reel_id i]"

definition run_facts_valid :: "collection_run \<Rightarrow> account option \<Rightarrow> nat \<Rightarrow> bool" where
  "run_facts_valid run account n \<longleftrightarrow>
     (case account of None \<Rightarrow> False | Some a \<Rightarrow> acc_status a = AccountStatus.CONNECTED) \<and>
     run_status run = CollectionRunStatus.COMPLETED \<and> run_target_count run = 3 \<and>
     run_source_committed_count run = 3 \<and> run_already_available_count run = 0 \<and> run_failed_count run = 0 \<and> n = 3"

text \<open>The source keys both lists by object key in a dictionary, where the last of two equal keys stays.\<close>

definition object_set_valid :: "baseline_object list \<Rightarrow> baseline_object list \<Rightarrow> string list \<Rightarrow> bool" where
  "object_set_valid current baseline expected_keys \<longleftrightarrow>
     set (map bo_object_key current) = set (map bo_object_key baseline) \<union> set expected_keys \<and>
     list_all (\<lambda>b. lookup_row bo_object_key (bo_object_key b) (rev current) =
       lookup_row bo_object_key (bo_object_key b) (rev baseline)) baseline \<and>
     list_all (\<lambda>b. \<not> is_temporary_name (bo_object_key b)) current"

text \<open>The result of \<open>verify\<close>, from what it has read.\<close>

definition result_of :: "(string \<Rightarrow> string) \<Rightarrow> uuid \<Rightarrow> run_baseline \<Rightarrow> transcript \<Rightarrow> string list \<Rightarrow> string list list \<Rightarrow>
    collection_run \<Rightarrow> (run_item \<times> reel) list \<Rightarrow> account option \<Rightarrow> string list \<Rightarrow>
    verified_item list \<Rightarrow> baseline_object list \<Rightarrow> verification_result" where
  "result_of sha wanted baseline transcript workspace files run rows account video_ids items current =
     (let video_unchanged = int (length video_ids) = rb_video_count baseline \<and>
            fingerprint sha video_ids = rb_video_ids_sha256 baseline;
          expected_keys = filter (\<lambda>k. k \<noteq> []) (List.map_filter (\<lambda>(_, r). reel_source_object_key r) rows);
          objects_ok = object_set_valid current (rb_source_objects baseline) expected_keys;
          clean = workspace_is_clean workspace files;
          transcript_ok = validate_event_transcript transcript (run_status_value (run_status run)) 3;
          valid = run_facts_valid run account (length rows) \<and> video_unchanged \<and> list_all vi_valid items \<and>
            objects_ok \<and> clean \<and> transcript_ok
      in \<lparr>vr_run_id = wanted, vr_verified = valid, vr_source_committed_count = (if valid then 3 else 0),
           vr_video_count_unchanged = video_unchanged, vr_object_set_unchanged = objects_ok,
           vr_workspace_clean = clean, vr_transcript_valid = transcript_ok, vr_items = items,
           vr_reason_code = (if valid then None else Some ''POST_RUN_VERIFICATION_FAILED'')\<rparr>)"

definition run_not_found :: "uuid \<Rightarrow> verification_result" where
  "run_not_found wanted = \<lparr>vr_run_id = wanted, vr_verified = False, vr_source_committed_count = 0,
     vr_video_count_unchanged = False, vr_object_set_unchanged = False, vr_workspace_clean = False,
     vr_transcript_valid = False, vr_items = [], vr_reason_code = Some ''RUN_NOT_FOUND''\<rparr>"

definition verify_run :: "(string \<Rightarrow> string) \<Rightarrow> uuid \<Rightarrow> run_baseline \<Rightarrow> transcript \<Rightarrow> string list \<Rightarrow> string list list \<Rightarrow>
    ('w world_scheme, 'r, verification_result) act" where
  "verify_run sha wanted baseline transcript workspace files =
     bind (db_read (\<lambda>d. map_option (\<lambda>run. (run, run_rows wanted d, get_account d (run_account_id run),
             map (\<lambda>v. uuid_str (vid_id v)) (videos d))) (get_run d wanted))) (\<lambda>found.
     case found of
       None \<Rightarrow> ret (run_not_found wanted)
     | Some (run, rows, account, video_ids) \<Rightarrow>
         bind (verify_items sha 1 rows) (\<lambda>items.
         bind (snapshot_objects sha) (\<lambda>current.
         ret (result_of sha wanted baseline transcript workspace files run rows account video_ids items current))))"

end
