(* ===== verification/VerificationProps.thy ===== *)
theory VerificationProps
  imports Verification
begin

text \<open>
  The check after a run is read-only, and what it calls verified is in the database and the bucket; a captured
  baseline survives its dictionary; the transcripts that are accepted for a completed run.
\<close>

section \<open>Reading\<close>

text \<open>The database and the bucket are the ones given, whatever has failed so far.\<close>

definition sees :: "db \<Rightarrow> store \<Rightarrow> 'w world_scheme \<Rightarrow> bool" where
  "sees d st s \<longleftrightarrow> w_db s = d \<and> w_store s = st"

lemma sees_closed: "env_closed (sees d st)"
  by (simp add: env_closed_def sees_def)

lemma estab_sees_call: "env_closed I \<Longrightarrow> estab I (\<lambda>_. True) a Q \<Longrightarrow> estab I (\<lambda>_. True) (may_fail e a) Q"
  unfolding may_fail_def
  by (rule estab_with_state, rule estab_bind [where Q = "\<lambda>_ _. True"], rule estab_keeps, rule keeps_modify)
    (auto simp: env_closedD intro: estab_stop estab_pre)

lemma estab_db_read: "estab (sees d st) (\<lambda>_. True) (db_read f) (\<lambda>x _. x = f d)"
  unfolding db_read_def db_call_def
  by (rule estab_sees_call [OF sees_closed], rule estabI) (auto simp: act_defs read_only_def sees_def)

text \<open>What \<open>_snapshot_object\<close> says of an object.\<close>

definition object_of :: "(string \<Rightarrow> string) \<Rightarrow> string \<Rightarrow> stored_object \<Rightarrow> baseline_object" where
  "object_of sha key obj = \<lparr>bo_object_key = key, bo_byte_size = int (length (obj_content obj)),
     bo_sha256 = sha (obj_content obj), bo_content_type = obj_content_type obj\<rparr>"

definition snap :: "(string \<Rightarrow> string) \<Rightarrow> store \<Rightarrow> string \<Rightarrow> baseline_object option" where
  "snap sha st key = map_option (object_of sha key) (store_get st key)"

lemma snap_key: "snap sha st key = Some b \<Longrightarrow> bo_object_key b = key"
  by (auto simp: snap_def object_of_def)

lemma estab_carry: "estab I (\<lambda>_. True) a Q \<Longrightarrow> estab I (\<lambda>_. C) a (\<lambda>x s. C \<and> Q x s)"
  by (fastforce simp: estab_def)

lemma estab_store_get:
  assumes "\<And>obj. store_get st key = Some obj \<Longrightarrow> estab (sees d st) (\<lambda>_. True) (f obj) Q"
  shows "estab (sees d st) (\<lambda>_. True) (may_fail OtherError (with_state (\<lambda>s.
     case store_get (w_store s) key of None \<Rightarrow> raise StorageObjectNotFound | Some obj \<Rightarrow> f obj))) Q"
proof (rule estab_sees_call [OF sees_closed], rule estabI)
  fix s r t
  assume s: "sees d st s" and run: "with_state (\<lambda>s. case store_get (w_store s) key of
      None \<Rightarrow> raise StorageObjectNotFound | Some obj \<Rightarrow> f obj) s = (r, t)"
  then have st: "w_store s = st" by (simp add: sees_def)
  show "sees d st t \<and> (\<forall>x. r = Inr x \<longrightarrow> Q x t)"
  proof (cases "store_get st key")
    case None
    with s run st show ?thesis by (auto simp: act_defs)
  next
    case (Some obj)
    with run st have "f obj s = (r, t)" by (simp add: with_state_def)
    then show ?thesis using estabD [OF assms [OF Some] s] by simp
  qed
qed

lemma estab_snapshot_object:
  "estab (sees d st) (\<lambda>_. True) (snapshot_object sha key) (\<lambda>b _. snap sha st key = Some b)"
  unfolding snapshot_object_def
  by (intro estab_store_get estab_ret) (auto simp: snap_def object_of_def)

lemma estab_snapshot_each:
  "estab (sees d st) (\<lambda>_. True) (snapshot_each sha keys) (\<lambda>bs _. map (snap sha st) keys = map Some bs)"
proof (induction keys)
  case Nil
  show ?case by (auto intro: estab_ret)
next
  case (Cons key keys)
  show ?case
    unfolding snapshot_each.simps
    by (rule estab_bind [OF estab_snapshot_object], rule estab_bind [OF estab_carry [OF Cons.IH]], rule estab_ret)
      simp
qed

definition source_keys :: "store \<Rightarrow> string list" where
  "source_keys st = sort (filter (\<lambda>k. startswith k source_objects_prefix) (map fst st))"

lemma estab_snapshot_objects:
  "estab (sees d st) (\<lambda>_. True) (snapshot_objects sha) (\<lambda>bs _. map (snap sha st) (source_keys st) = map Some bs)"
  unfolding snapshot_objects_def
proof (rule estab_try)
  show "estab (sees d st) (\<lambda>_. True)
     (bind (storage_list_prefix source_objects_prefix) (\<lambda>keys. snapshot_each sha (sort keys)))
     (\<lambda>bs _. map (snap sha st) (source_keys st) = map Some bs)"
  proof (rule estab_bind [where Q = "\<lambda>keys _. sort keys = source_keys st"])
    show "estab (sees d st) (\<lambda>_. True) (storage_list_prefix source_objects_prefix)
        (\<lambda>keys _. sort keys = source_keys st)"
      unfolding storage_list_prefix_def
      by (rule estab_sees_call [OF sees_closed], rule estabI) (auto simp: act_defs sees_def source_keys_def)
    show "estab (sees d st) (\<lambda>_. sort keys = source_keys st) (snapshot_each sha (sort keys))
        (\<lambda>bs _. map (snap sha st) (source_keys st) = map Some bs)" for keys
      using estab_carry [OF estab_snapshot_each, of d st "sort keys = source_keys st" sha "sort keys"]
      by (rule estab_post) (elim conjE, simp only:)
  qed
qed (auto intro: estab_stop)

lemma estab_object_matches:
  "estab (sees d st) (\<lambda>_. True) (object_matches sha key digest n)
     (\<lambda>ok _. ok \<longrightarrow> (\<exists>k b. key = Some k \<and> k \<noteq> [] \<and> snap sha st k = Some b \<and> digest = Some (bo_sha256 b) \<and>
        n = Some (bo_byte_size b) \<and> bo_content_type b = ''video/mp4''))"
proof -
  have "estab (sees d st) (\<lambda>_. True)
     (try_except (bind (snapshot_object sha k) (\<lambda>b.
        ret (bo_byte_size b = m \<and> bo_content_type b = ''video/mp4'' \<and> bo_sha256 b = h)))
      (\<lambda>e. if is_exception e then ret False else raise e))
     (\<lambda>ok _. ok \<longrightarrow> (\<exists>b. snap sha st k = Some b \<and> h = bo_sha256 b \<and> m = bo_byte_size b \<and>
        bo_content_type b = ''video/mp4''))" for k h m
    by (rule estab_try, rule estab_bind [OF estab_snapshot_object])
      (auto intro: estab_ret estab_stop)
  then have "estab (sees d st) (\<lambda>_. True)
     (try_except (bind (snapshot_object sha k) (\<lambda>b.
        ret (bo_byte_size b = m \<and> bo_content_type b = ''video/mp4'' \<and> bo_sha256 b = h)))
      (\<lambda>e. if is_exception e then ret False else raise e))
     (\<lambda>ok _. ok \<longrightarrow> (\<exists>k' b. Some k = Some k' \<and> k' \<noteq> [] \<and> snap sha st k' = Some b \<and> Some h = Some (bo_sha256 b) \<and>
        Some m = Some (bo_byte_size b) \<and> bo_content_type b = ''video/mp4''))" if "k \<noteq> []" for k h m
    by (rule estab_post) (use that in auto)
  then show ?thesis
    unfolding object_matches_def by (auto intro!: estab_ret split: option.splits)
qed

lemma estab_assume: "(C \<Longrightarrow> estab I (\<lambda>_. True) a Q) \<Longrightarrow> estab I (\<lambda>_. C) a Q"
  by (auto simp: estab_def)

section \<open>What verified means\<close>

text \<open>The source of a row is in the bucket, with the digest, the size and the type of the row.\<close>

definition row_stored :: "(string \<Rightarrow> string) \<Rightarrow> store \<Rightarrow> reel \<Rightarrow> bool" where
  "row_stored sha st r \<longleftrightarrow>
     (\<exists>k obj. reel_source_object_key r = Some k \<and> k \<noteq> [] \<and> store_get st k = Some obj \<and>
        reel_source_sha256 r = Some (sha (obj_content obj)) \<and>
        reel_source_byte_size r = Some (int (length (obj_content obj))) \<and> obj_content_type obj = ''video/mp4'')"

definition row_verified :: "(string \<Rightarrow> string) \<Rightarrow> db \<Rightarrow> store \<Rightarrow> int \<Rightarrow> run_item \<times> reel \<Rightarrow> bool" where
  "row_verified sha d st p row \<longleftrightarrow>
     item_position (fst row) = p \<and> item_outcome (fst row) = RunItemOutcome.SOURCE_COMMITTED \<and>
     item_auth_mode (fst row) = Some DownloadAuthMode.SESSION_FIRST \<and>
     reel_status (snd row) = ReelPipelineStatus.SOURCE_READY \<and> reel_video_id (snd row) = None \<and>
     pending_jobs (reel_id (snd row)) d = 1 \<and> row_stored sha st (snd row)"

fun rows_verified :: "(string \<Rightarrow> string) \<Rightarrow> db \<Rightarrow> store \<Rightarrow> int \<Rightarrow> (run_item \<times> reel) list \<Rightarrow> bool" where
  "rows_verified sha d st p [] = True"
| "rows_verified sha d st p (row # rows) \<longleftrightarrow> row_verified sha d st p row \<and> rows_verified sha d st (p + 1) rows"

lemma rows_verified_nth: "rows_verified sha d st p rows \<Longrightarrow> n < length rows \<Longrightarrow> row_verified sha d st (p + int n) (rows ! n)"
proof (induction rows arbitrary: p n)
  case (Cons row rows)
  then show ?case
    using Cons.IH [of "p + 1" "n - 1"] by (cases n) (auto simp: algebra_simps)
qed simp

lemma row_stored_snap:
  "row_stored sha st r \<longleftrightarrow>
     (\<exists>k b. reel_source_object_key r = Some k \<and> k \<noteq> [] \<and> snap sha st k = Some b \<and>
        reel_source_sha256 r = Some (bo_sha256 b) \<and> reel_source_byte_size r = Some (bo_byte_size b) \<and>
        bo_content_type b = ''video/mp4'')"
  by (auto simp: row_stored_def snap_def object_of_def)

lemma estab_verify_items:
  "estab (sees d st) (\<lambda>_. True) (verify_items sha p rows)
     (\<lambda>items _. list_all vi_valid items \<longrightarrow> rows_verified sha d st p rows)"
proof (induction rows arbitrary: p)
  case Nil
  show ?case by (auto intro: estab_ret)
next
  case (Cons row rows)
  obtain item r where row: "row = (item, r)" by fastforce
  show ?case
    unfolding row verify_items.simps
    apply (rule estab_bind [OF estab_object_matches])
    apply (rule estab_bind [OF estab_carry [OF estab_db_read]])
    apply (rule estab_bind [OF estab_carry [OF Cons.IH]])
    apply (rule estab_ret)
    apply (auto simp: row_verified_def row_stored_snap)
    done
qed

lemma source_keys_set: "set (source_keys st) = {k. startswith k source_objects_prefix \<and> store_get st k \<noteq> None}"
  by (auto simp: source_keys_def store_get_def map_of_eq_None_iff image_iff)

lemma snapshot_keys:
  assumes "map (snap sha st) keys = map Some bs"
  shows "map bo_object_key bs = keys" "\<And>b. b \<in> set bs \<Longrightarrow> snap sha st (bo_object_key b) = Some b"
proof -
  show k: "map bo_object_key bs = keys"
    using assms by (induction bs arbitrary: keys) (auto dest: snap_key)
  fix b assume "b \<in> set bs"
  with assms show "snap sha st (bo_object_key b) = Some b"
    by (induction bs arbitrary: keys) (auto dest: snap_key)
qed

lemma object_set_valid_stored:
  assumes snapped: "map (snap sha st) (source_keys st) = map Some current"
    and valid: "object_set_valid current baseline expected"
    and unique: "distinct (map bo_object_key baseline)"
  shows "{k. startswith k source_objects_prefix \<and> store_get st k \<noteq> None} =
      set (map bo_object_key baseline) \<union> set expected"
    and "\<And>b. b \<in> set baseline \<Longrightarrow> snap sha st (bo_object_key b) = Some b"
proof -
  show "{k. startswith k source_objects_prefix \<and> store_get st k \<noteq> None} = set (map bo_object_key baseline) \<union> set expected"
    using valid snapshot_keys(1) [OF snapped] by (simp add: object_set_valid_def source_keys_set)
  fix b assume b: "b \<in> set baseline"
  then have "lookup_row bo_object_key (bo_object_key b) (rev baseline) = Some b"
    using unique by (intro lookup_row_distinct) (simp_all add: rev_map [symmetric])
  with valid b have "lookup_row bo_object_key (bo_object_key b) (rev current) = Some b"
    by (auto simp: object_set_valid_def list_all_iff)
  then have "b \<in> set current" by (auto dest: lookup_row_SomeD)
  then show "snap sha st (bo_object_key b) = Some b" by (rule snapshot_keys(2) [OF snapped])
qed

text \<open>The verdict: what a verified result says of the database, the bucket and the transcript.\<close>

definition verdict :: "(string \<Rightarrow> string) \<Rightarrow> uuid \<Rightarrow> run_baseline \<Rightarrow> transcript \<Rightarrow> db \<Rightarrow> store \<Rightarrow> bool" where
  "verdict sha wanted baseline transcript d st \<longleftrightarrow>
     (\<exists>run. get_run d wanted = Some run \<and> run_status run = CollectionRunStatus.COMPLETED \<and>
        run_source_committed_count run = 3 \<and> run_failed_count run = 0) \<and>
     length (run_rows wanted d) = 3 \<and> rows_verified sha d st 1 (run_rows wanted d) \<and>
     {k. startswith k source_objects_prefix \<and> store_get st k \<noteq> None} =
       set (map bo_object_key (rb_source_objects baseline)) \<union>
       {k. \<exists>(item, r) \<in> set (run_rows wanted d). reel_source_object_key r = Some k} \<and>
     (\<forall>b \<in> set (rb_source_objects baseline). snap sha st (bo_object_key b) = Some b) \<and>
     int (length (videos d)) = rb_video_count baseline \<and>
     validate_event_transcript transcript ''completed'' 3"

lemma result_of_verified:
  assumes res: "vr_verified (result_of sha wanted baseline transcript workspace files run rows account video_ids items current)"
    and rows: "rows = run_rows wanted d" "get_run d wanted = Some run" "length video_ids = length (videos d)"
    and items: "list_all vi_valid items \<longrightarrow> rows_verified sha d st 1 rows"
    and current: "map (snap sha st) (source_keys st) = map Some current"
    and unique: "distinct (map bo_object_key (rb_source_objects baseline))"
  shows "verdict sha wanted baseline transcript d st"
proof -
  let ?expected = "filter (\<lambda>k. k \<noteq> []) (List.map_filter (\<lambda>(_, r). reel_source_object_key r) rows)"
  from res have facts: "run_facts_valid run account (length rows)" "int (length video_ids) = rb_video_count baseline"
    "list_all vi_valid items" "object_set_valid current (rb_source_objects baseline) ?expected"
    "validate_event_transcript transcript (run_status_value (run_status run)) 3"
    by (auto simp: result_of_def Let_def)
  from facts(3) items have verified: "rows_verified sha d st 1 rows" by simp
  have "\<forall>row \<in> set rows. \<exists>p. row_verified sha d st p row"
    using rows_verified_nth [OF verified] by (metis in_set_conv_nth)
  then have nonempty: "\<forall>(i, r) \<in> set rows. reel_source_object_key r \<noteq> Some []"
    by (force simp: row_verified_def row_stored_def)
  have expected: "set ?expected = {k. \<exists>(i, r) \<in> set rows. reel_source_object_key r = Some k}"
    using nonempty by (force simp: List.map_filter_def)
  have run: "run_status run = CollectionRunStatus.COMPLETED \<and> run_source_committed_count run = 3 \<and>
      run_failed_count run = 0 \<and> length rows = 3"
    using facts(1) by (simp add: run_facts_valid_def)
  show ?thesis
    unfolding verdict_def
    using object_set_valid_stored [OF current facts(4) unique] run facts(2,5) rows verified expected
    by simp
qed

lemma estab_verify_run:
  assumes unique: "distinct (map bo_object_key (rb_source_objects baseline))"
  shows "estab (sees d st) (\<lambda>_. True) (verify_run sha wanted baseline transcript workspace files)
     (\<lambda>res _. vr_verified res \<longrightarrow> verdict sha wanted baseline transcript d st)"
  unfolding verify_run_def
  apply (rule estab_bind [OF estab_db_read], rule estab_assume)
  apply (clarsimp split: option.splits, intro conjI impI allI)
   apply (rule estab_ret, simp add: run_not_found_def)
  apply (rule estab_bind [OF estab_verify_items], rule estab_bind [OF estab_carry [OF estab_snapshot_objects]],
      rule estab_ret)
  using result_of_verified [OF _ refl _ _ _ _ unique] by auto

section \<open>Transcripts of completed runs\<close>

text \<open>The two ways a position ends when the feed moves on, with one press or with two.\<close>

definition confirmed_sequences :: "string list set" where
  "confirmed_sequences = {transition_prefix @ [''transition_confirmed''],
     transition_prefix @ [''advance_retry'', ''transition_confirmed'']}"

lemma not_confirmed_prefix:
  assumes "sq = take n xs" "''transition_confirmed'' \<notin> set xs"
  shows "\<not> ends_confirmed sq"
proof
  assume "ends_confirmed sq"
  then have "''transition_confirmed'' \<in> set sq" unfolding ends_confirmed_def by (metis last_in_set)
  with assms show False by (auto dest: in_set_takeD)
qed

lemma sequence_confirmed:
  assumes "p \<noteq> 3"
  shows "sequence_valid p sq \<and> ends_confirmed sq \<longleftrightarrow> sq \<in> confirmed_sequences"
proof
  assume c: "sq \<in> confirmed_sequences"
  have "sequence_valid p (transition_prefix @ [''transition_confirmed''])"
    "sequence_valid p (transition_prefix @ [''advance_retry'', ''transition_confirmed''])"
    using assms by (simp_all add: sequence_valid_def transition_prefix_def committed_prefix_def)
  with c show "sequence_valid p sq \<and> ends_confirmed sq"
    by (auto simp: confirmed_sequences_def ends_confirmed_def)
next
  assume v: "sequence_valid p sq \<and> ends_confirmed sq"
  have short: "length sq > 6"
  proof (rule ccontr)
    assume "\<not> length sq > 6"
    with v have "sq = take (length sq) committed_prefix"
      by (auto simp: sequence_valid_def Let_def split: if_splits)
    then show False using not_confirmed_prefix v by (fastforce simp: committed_prefix_def)
  qed
  have "length sq > 8"
  proof (rule ccontr)
    assume "\<not> length sq > 8"
    with v short have "sq = take (length sq) transition_prefix"
      by (auto simp: sequence_valid_def Let_def split: if_splits)
    then show False using not_confirmed_prefix v by (fastforce simp: transition_prefix_def committed_prefix_def)
  qed
  with v have "take 8 sq = transition_prefix" and tail: "drop 8 sq \<in> {[], [''transition_confirmed''],
      [''advance_retry''], [''advance_retry'', ''transition_confirmed'']}"
    by (auto simp: sequence_valid_def Let_def split: if_splits)
  then have sq: "sq = transition_prefix @ drop 8 sq" by (metis append_take_drop_id)
  have "drop 8 sq \<noteq> []" using \<open>length sq > 8\<close> by simp
  moreover have "last sq = last (drop 8 sq)" using \<open>length sq > 8\<close> by (simp add: last_drop)
  then have "drop 8 sq \<noteq> [''advance_retry'']" using v by (auto simp: ends_confirmed_def)
  ultimately have "drop 8 sq \<in> {[''transition_confirmed''], [''advance_retry'', ''transition_confirmed'']}"
    using tail by blast
  with sq show "sq \<in> confirmed_sequences" unfolding confirmed_sequences_def by (metis insert_iff singleton_iff)
qed

lemma positions_of_iff:
  assumes "list_all (\<lambda>(p, e). p \<noteq> None \<and> e \<noteq> None) events"
  shows "positions_of events = [1, 2, 3] \<longleftrightarrow> fst ` set events = Some ` {1, 2, 3}"
proof -
  have s: "set (List.map_filter fst events) = {p. Some p \<in> fst ` set events}"
    by (force simp: List.map_filter_def)
  have typed: "None \<notin> fst ` set events" using assms by (auto simp: list_all_iff)
  have "positions_of events = [1, 2, 3] \<longleftrightarrow> set (List.map_filter fst events) = {1, 2, 3}"
  proof
    assume "positions_of events = [1, 2, 3]"
    then have "set (positions_of events) = {1, 2, 3}" by simp
    then show "set (List.map_filter fst events) = {1, 2, 3}" by (simp add: positions_of_def)
  next
    assume e: "set (List.map_filter fst events) = {1, 2, 3}"
    have "sorted_list_of_set {1, 2, 3 :: int} = [1, 2, 3]" by (simp add: sorted_list_of_set_insert_remove)
    then show "positions_of events = [1, 2, 3]"
      using e by (simp add: positions_of_def sorted_list_of_set_sort_remdups [symmetric])
  qed
  also have "\<dots> \<longleftrightarrow> fst ` set events = Some ` {1, 2, 3}"
  proof
    assume "set (List.map_filter fst events) = {1, 2, 3}"
    with s have e: "{p. Some p \<in> fst ` set events} = {1, 2, 3}" by simp
    show "fst ` set events = Some ` {1, 2, 3}"
    proof (rule set_eqI)
      fix q show "q \<in> fst ` set events \<longleftrightarrow> q \<in> Some ` {1, 2, 3}"
        using e typed by (cases q) auto
    qed
  next
    assume "fst ` set events = Some ` {1, 2, 3}"
    then show "set (List.map_filter fst events) = {1, 2, 3}" unfolding s by auto
  qed
  finally show ?thesis .
qed

text \<open>
  C2: The transcripts accepted for a completed run are exactly those in which every event has a position and a
  name, the positions are 1, 2 and 3, the first two Reels are acquired and left with a confirmed transition after
  one press or two, and the third is acquired and nothing else.
\<close>

theorem completed_transcript:
  "validate_event_transcript events ''completed'' 3 \<longleftrightarrow>
     list_all (\<lambda>(p, e). p \<noteq> None \<and> e \<noteq> None) events \<and> fst ` set events = Some ` {1, 2, 3} \<and>
     {events_at events 1, events_at events 2} \<subseteq>
       {transition_prefix @ [''transition_confirmed''],
        transition_prefix @ [''advance_retry'', ''transition_confirmed'']} \<and>
     events_at events 3 = committed_prefix"
proof (cases "list_all (\<lambda>(p, e). p \<noteq> None \<and> e \<noteq> None) events \<and> positions_of events = [1, 2, 3]")
  case False
  then show ?thesis
    using positions_of_iff [of events] by (auto simp: validate_event_transcript_def)
next
  case True
  have range: "map int [1..<Suc 3] = [1, 2, 3]" by (simp add: upt_rec)
  have third: "sequence_valid 3 committed_prefix" by (simp add: sequence_valid_def committed_prefix_def)
  have "validate_event_transcript events ''completed'' 3 \<longleftrightarrow>
      (sequence_valid 1 (events_at events 1) \<and> ends_confirmed (events_at events 1)) \<and>
      (sequence_valid 2 (events_at events 2) \<and> ends_confirmed (events_at events 2)) \<and>
      events_at events 3 = committed_prefix"
    unfolding validate_event_transcript_def Let_def using True range third by auto
  then show ?thesis
    using True positions_of_iff [of events] sequence_confirmed [of 1] sequence_confirmed [of 2]
    by (simp add: confirmed_sequences_def)
qed

section \<open>The properties\<close>

text \<open>
  C1: The check of a run changes neither the database nor the bucket, and a run that it calls verified is completed
  with three committed Reels; the source of each is in the bucket with the digest, the size and the type that the
  row records, has one pending job and no video yet; under the prefix of sources the bucket holds these objects and
  the unchanged ones of the baseline and nothing else; the number of videos is the one before the run.
\<close>

theorem verified_run:
  assumes "verify_run sha wanted baseline transcript workspace files s = (Inr res, t)"
    and "vr_verified res" and "distinct (map bo_object_key (rb_source_objects baseline))"
  shows "w_db t = w_db s \<and> w_store t = w_store s \<and> verdict sha wanted baseline transcript (w_db s) (w_store s)"
proof -
  have "sees (w_db s) (w_store s) s" by (simp add: sees_def)
  from estabD [OF estab_verify_run [OF assms(3)] this _ assms(1)] assms(2) show ?thesis
    by (auto simp: sees_def)
qed

lemma snap_fields:
  "snap sha st k = Some b \<Longrightarrow> bo_byte_size b \<ge> 0 \<and> (\<exists>x. bo_sha256 b = sha x)"
  by (auto simp: snap_def object_of_def)

lemma object_of_object_dict:
  assumes "startswith (bo_object_key b) source_objects_prefix" "bo_byte_size b \<ge> 0" "is_digest (bo_sha256 b)"
  shows "object_of_dict (object_dict b) = Some b"
  using assms by (simp add: object_of_dict_def object_dict_def text_value_def int_value_def digest_value_def)

lemma those_map_Some: "(\<And>x. x \<in> set xs \<Longrightarrow> f (g x) = Some x) \<Longrightarrow> those (map f (map g xs)) = Some xs"
  by (induction xs) auto

definition captured :: "(string \<Rightarrow> string) \<Rightarrow> store \<Rightarrow> run_baseline \<Rightarrow> bool" where
  "captured sha st b \<longleftrightarrow>
     map (snap sha st) (source_keys st) = map Some (rb_source_objects b) \<and> rb_video_count b \<ge> 0 \<and>
     (\<exists>x. rb_video_ids_sha256 b = sha x) \<and>
     rb_source_object_keys_sha256 b = fingerprint sha (map bo_object_key (rb_source_objects b))"

lemma estab_capture: "estab (sees d st) (\<lambda>_. True) (capture_run_baseline sha) (\<lambda>b _. captured sha st b)"
  unfolding capture_run_baseline_def
  by (rule estab_bind [OF estab_db_read], rule estab_bind [OF estab_carry [OF estab_snapshot_objects]], rule estab_ret)
    (auto simp: captured_def fingerprint_def)

text \<open>
  C3: A baseline that was captured is read back from its dictionary unchanged, when the digests are SHA-256 digests
  and the bucket holds one object for a key.
\<close>

theorem baseline_roundtrip:
  assumes "capture_run_baseline sha s = (Inr b, t)" and "\<forall>x. is_digest (sha x)" and "distinct (map fst (w_store s))"
  shows "from_safe_dict sha (to_safe_dict b) = Some b"
proof -
  have "sees (w_db s) (w_store s) s" by (simp add: sees_def)
  from estabD [OF estab_capture this _ assms(1)] have c: "captured sha (w_store s) b" by simp
  then have snapped: "map (snap sha (w_store s)) (source_keys (w_store s)) = map Some (rb_source_objects b)"
    by (simp add: captured_def)
  note keys = snapshot_keys [OF snapped]
  have "those (map object_of_dict (map object_dict (rb_source_objects b))) = Some (rb_source_objects b)"
  proof (rule those_map_Some)
    fix x assume x: "x \<in> set (rb_source_objects b)"
    then have "bo_object_key x \<in> set (source_keys (w_store s))" using keys(1) by (metis image_eqI set_map)
    then show "object_of_dict (object_dict x) = Some x"
      using snap_fields [OF keys(2) [OF x]] assms(2) by (intro object_of_object_dict) (auto simp: source_keys_set)
  qed
  moreover have "distinct (map bo_object_key (rb_source_objects b))"
    using assms(3) by (simp add: keys(1) source_keys_def distinct_filter)
  ultimately show ?thesis
    using c assms(2) by (auto simp: captured_def from_safe_dict_def to_safe_dict_def int_value_def digest_value_def
        text_value_def fingerprint_def)
qed

text \<open>Three committed Reels beside one older object.\<close>

definition checked_digest :: "string \<Rightarrow> string" where
  "checked_digest x = ''a''"

definition checked_reel :: "uuid \<Rightarrow> string \<Rightarrow> reel" where
  "checked_reel i key = \<lparr>reel_id = i, reel_shortcode = key, reel_canonical_url = key,
     reel_status = ReelPipelineStatus.SOURCE_READY, reel_source_object_key = Some key,
     reel_source_sha256 = Some (checked_digest key), reel_source_byte_size = Some 2, reel_video_id = None,
     reel_failure_reason_code = None, reel_discovered_at = None, reel_source_ready_at = None, reel_ready_at = None,
     reel_failed_at = None, reel_cleanup_pending = False\<rparr>"

definition checked_item :: "uuid \<Rightarrow> int \<Rightarrow> run_item" where
  "checked_item i n = \<lparr>item_run_id = 9, item_reel_id = i, item_position = n,
     item_outcome = RunItemOutcome.SOURCE_COMMITTED, item_auth_mode = Some DownloadAuthMode.SESSION_FIRST,
     item_reason_code = None, item_completed_at = None\<rparr>"

definition checked_db :: db where
  "checked_db = empty_db\<lparr>
     accounts := [(new_account 1)\<lparr>acc_status := AccountStatus.CONNECTED\<rparr>],
     reels := [checked_reel 31 ''instagram-sources/a'', checked_reel 32 ''instagram-sources/b'',
       checked_reel 33 ''instagram-sources/c''],
     runs := [(new_run 9 1 CollectionTrigger.MANUAL CollectionRunStatus.COMPLETED 3 None 0)\<lparr>run_source_committed_count := 3\<rparr>],
     run_items := [checked_item 32 2, checked_item 31 1, checked_item 33 3],
     jobs := [new_job 51 31 0 0, new_job 52 32 0 0, new_job 53 33 0 0]\<rparr>"

definition checked_world :: world where
  "checked_world = \<lparr>w_db = checked_db,
     w_store = map (\<lambda>k. (k, \<lparr>obj_content = ''xy'', obj_content_type = ''video/mp4''\<rparr>))
       [''instagram-sources/c'', ''instagram-sources/b'', ''instagram-sources/a'', ''instagram-sources/old''],
     w_faults = [], w_cancel = [], w_clock = [], w_uuids = [], w_events = []\<rparr>"

definition checked_baseline :: run_baseline where
  "checked_baseline = \<lparr>rb_video_count = 0, rb_video_ids_sha256 = checked_digest [], rb_source_object_keys_sha256 = checked_digest [],
     rb_source_objects = [\<lparr>bo_object_key = ''instagram-sources/old'', bo_byte_size = 2, bo_sha256 = checked_digest [],
       bo_content_type = ''video/mp4''\<rparr>]\<rparr>"

definition checked_transcript :: transcript where
  "checked_transcript =
     map (\<lambda>e. (Some 1, Some e)) (transition_prefix @ [''transition_confirmed'']) @
     map (\<lambda>e. (Some 2, Some e)) (transition_prefix @ [''advance_retry'', ''transition_confirmed'']) @
     map (\<lambda>e. (Some 3, Some e)) committed_prefix"

definition checked_run :: collection_run where
  "checked_run = (new_run 9 1 CollectionTrigger.MANUAL CollectionRunStatus.COMPLETED 3 None 0)\<lparr>run_source_committed_count := 3\<rparr>"

definition checked_items :: "verified_item list" where
  "checked_items = map (\<lambda>(n, k). \<lparr>vi_position = n, vi_shortcode = k, vi_object_key = Some k, vi_byte_size = Some 2,
     vi_sha256 = Some ''a'', vi_valid = True\<rparr>)
     [(1, ''instagram-sources/a''), (2, ''instagram-sources/b''), (3, ''instagram-sources/c'')]"

definition checked_objects :: "baseline_object list" where
  "checked_objects = map (\<lambda>k. \<lparr>bo_object_key = k, bo_byte_size = 2, bo_sha256 = ''a'', bo_content_type = ''video/mp4''\<rparr>)
     [''instagram-sources/a'', ''instagram-sources/b'', ''instagram-sources/c'', ''instagram-sources/old'']"

lemma checked_snapshot:
  "snapshot_objects checked_digest checked_world = (Inr checked_objects :: unit signal + baseline_object list, checked_world)"
  by code_simp

lemma checked_rows:
  "verify_items checked_digest 1 (run_rows 9 checked_db) checked_world =
     (Inr checked_items :: unit signal + verified_item list, checked_world)"
  by code_simp

lemma checked_result:
  "vr_verified (result_of checked_digest 9 checked_baseline checked_transcript [''w''] [] checked_run
     (run_rows 9 checked_db) (Some ((new_account 1)\<lparr>acc_status := AccountStatus.CONNECTED\<rparr>)) [] checked_items checked_objects)"
  by code_simp

lemma checked_lookups:
  "get_run checked_db 9 = Some checked_run"
  "get_account checked_db (run_account_id checked_run) = Some ((new_account 1)\<lparr>acc_status := AccountStatus.CONNECTED\<rparr>)"
  "videos checked_db = []" "w_db checked_world = checked_db" "w_faults checked_world = []"
  "checked_world\<lparr>w_faults := []\<rparr> = checked_world" "checked_world\<lparr>w_db := checked_db\<rparr> = checked_world"
  by code_simp+

lemma checked_verify_run:
  "verify_run checked_digest 9 checked_baseline checked_transcript [''w''] [] checked_world =
     (Inr (result_of checked_digest 9 checked_baseline checked_transcript [''w''] [] checked_run
       (run_rows 9 checked_db) (Some ((new_account 1)\<lparr>acc_status := AccountStatus.CONNECTED\<rparr>)) [] checked_items checked_objects)
      :: unit signal + verification_result, checked_world)"
  unfolding verify_run_def db_read_def db_call_def may_fail_def read_only_def
  by (simp add: act_defs pop_def checked_lookups checked_rows [unfolded act_defs] checked_snapshot)

theorem verified_run_witness:
  "verdict checked_digest 9 checked_baseline checked_transcript checked_db (w_store checked_world)"
proof -
  have "distinct (map bo_object_key (rb_source_objects checked_baseline))" by (simp add: checked_baseline_def)
  from verified_run [OF checked_verify_run checked_result this] show ?thesis
    by (simp add: checked_lookups)
qed

definition full_digest :: "string \<Rightarrow> string" where
  "full_digest x = replicate 64 (CHR ''0'')"

definition full_baseline :: run_baseline where
  "full_baseline = \<lparr>rb_video_count = 0, rb_video_ids_sha256 = full_digest [], rb_source_object_keys_sha256 = full_digest [],
     rb_source_objects = map (\<lambda>k. \<lparr>bo_object_key = k, bo_byte_size = 2, bo_sha256 = full_digest [],
       bo_content_type = ''video/mp4''\<rparr>)
       [''instagram-sources/a'', ''instagram-sources/b'', ''instagram-sources/c'', ''instagram-sources/old'']\<rparr>"

lemma full_snapshot:
  "snapshot_objects full_digest checked_world =
     (Inr (rb_source_objects full_baseline) :: unit signal + baseline_object list, checked_world)"
  by code_simp

lemma full_fingerprint: "fingerprint full_digest xs = full_digest []"
  by (simp add: fingerprint_def full_digest_def)

lemma full_capture:
  "capture_run_baseline full_digest checked_world = (Inr full_baseline :: unit signal + run_baseline, checked_world)"
  unfolding capture_run_baseline_def db_read_def db_call_def may_fail_def read_only_def full_fingerprint
  by (simp add: act_defs pop_def checked_lookups full_snapshot [unfolded act_defs])
    (simp add: full_baseline_def)

theorem baseline_roundtrip_witness: "from_safe_dict full_digest (to_safe_dict full_baseline) = Some full_baseline"
proof (rule baseline_roundtrip [OF full_capture])
  show "\<forall>x. is_digest (full_digest x)" by (simp add: is_digest_def full_digest_def list_all_iff)
  show "distinct (map fst (w_store checked_world))" by (simp add: checked_world_def)
qed

end
