(* ===== verification/BrowserFeed.thy ===== *)
theory BrowserFeed
  imports FeedSource Actions Complex_Main
begin

text \<open>
  \<open>runtime/browser_feed.py\<close> of \<open>apps/api/app/instagram/collector/\<close>: the feed of Reels that an automated
  browser shows. The browser is not under the program's control: what a probe evaluates to, whether a command
  fails, whether a page is closed, which pages are open, at which address a page is and which responses arrive
  meanwhile are lists of the state, consumed in order, so that a statement about every state is one about every
  browser. Every call that reaches a page is appended to \<open>bf_log\<close>. Numbers of the page and of the limits are
  exact; the scripts of the probes run in the page and are not modelled.
\<close>

section \<open>Values of the page\<close>

datatype js_value =
    JsNull
  | JsBool bool
  | JsInt int
  | JsReal rat
  | JsNotFinite
  | JsText string
  | JsList "js_value list"
  | JsDict "(string \<times> js_value) list"

fun json_of :: "js_value \<Rightarrow> json" where
  "json_of JsNull = JNull"
| "json_of (JsBool b) = JBool b"
| "json_of (JsInt n) = JInt n"
| "json_of (JsReal x) = JFloat"
| "json_of JsNotFinite = JFloat"
| "json_of (JsText s) = JStr s"
| "json_of (JsList vs) = JList (map json_of vs)"
| "json_of (JsDict es) = JObj (map (\<lambda>(k, v). (k, json_of v)) es)"

fun truthy :: "js_value option \<Rightarrow> bool" where
  "truthy None = False"
| "truthy (Some JsNull) = False"
| "truthy (Some (JsBool b)) = b"
| "truthy (Some (JsInt n)) = (n \<noteq> 0)"
| "truthy (Some (JsReal x)) = (x \<noteq> 0)"
| "truthy (Some JsNotFinite) = True"
| "truthy (Some (JsText s)) = (s \<noteq> [])"
| "truthy (Some (JsList vs)) = (vs \<noteq> [])"
| "truthy (Some (JsDict es)) = (es \<noteq> [])"

fun entries :: "js_value \<Rightarrow> (string \<times> js_value) list option" where
  "entries (JsDict es) = Some es"
| "entries _ = None"

definition is_true :: "(string \<times> js_value) list \<Rightarrow> string \<Rightarrow> bool" where
  "is_true es key \<longleftrightarrow> map_of es key = Some (JsBool True)"

text \<open>\<open>isinstance(value, int)\<close> holds of the booleans, too.\<close>

fun nonnegative_integer :: "js_value option \<Rightarrow> int" where
  "nonnegative_integer (Some (JsInt n)) = (if n \<ge> 0 then n else 0)"
| "nonnegative_integer (Some (JsBool b)) = (if b then 1 else 0)"
| "nonnegative_integer _ = 0"

text \<open>A coordinate: a number that is no boolean and is finite.\<close>

fun coordinate :: "js_value option \<Rightarrow> rat option" where
  "coordinate (Some (JsInt n)) = Some (of_int n)"
| "coordinate (Some (JsReal x)) = Some x"
| "coordinate _ = None"

section \<open>State\<close>

record transition_limits =
  tl_polling_seconds :: rat
  tl_timeout_seconds :: rat
  tl_maximum_scroll_attempts :: int
  tl_stabilization_seconds :: rat

record transition_sampling =
  td_poll_count :: int
  td_unchanged_sample_count :: int
  td_missing_candidate_count :: int
  td_different_candidate_observed :: bool
  td_stable_sample_count :: int
  td_stable_media_identity_observed :: bool
  td_post_action_json_observed :: bool
  td_canonical_confirmation_observed :: bool
  td_canonical_dom_confirmation_observed :: bool
  td_canonical_queue_fallback_observed :: bool
  td_canonical_feed_refresh_observed :: bool
  td_stop_reason_code :: "string option"

definition no_sampling :: transition_sampling where
  "no_sampling = \<lparr>td_poll_count = 0, td_unchanged_sample_count = 0, td_missing_candidate_count = 0,
     td_different_candidate_observed = False, td_stable_sample_count = 0, td_stable_media_identity_observed = False,
     td_post_action_json_observed = False, td_canonical_confirmation_observed = False,
     td_canonical_dom_confirmation_observed = False, td_canonical_queue_fallback_observed = False,
     td_canonical_feed_refresh_observed = False, td_stop_reason_code = None\<rparr>"

text \<open>The flags of the hit test are those that hold.\<close>

record scroll_target =
  sd_scroll_target_available :: bool
  sd_scroll_target_in_viewport :: bool
  sd_mouse_move_performed :: bool
  sd_active_feed_target_available :: bool
  sd_active_feed_target_in_viewport :: bool
  sd_active_feed_target_hit_testable :: bool
  sd_mobile_swipe_performed :: bool
  sd_active_feed_probe_attempted :: bool
  sd_active_feed_probe_evaluated :: bool
  sd_active_feed_probe_failed :: bool
  sd_active_feed_central_video_missing :: bool
  sd_hit_test_flags :: "string list"

definition no_scroll_target :: scroll_target where
  "no_scroll_target = \<lparr>sd_scroll_target_available = False, sd_scroll_target_in_viewport = False,
     sd_mouse_move_performed = False, sd_active_feed_target_available = False, sd_active_feed_target_in_viewport = False,
     sd_active_feed_target_hit_testable = False, sd_mobile_swipe_performed = False, sd_active_feed_probe_attempted = False,
     sd_active_feed_probe_evaluated = False, sd_active_feed_probe_failed = False,
     sd_active_feed_central_video_missing = False, sd_hit_test_flags = []\<rparr>"

definition hit_test_diagnostic_flags :: "string list" where
  "hit_test_diagnostic_flags = map (\<lambda>flag. ''hit_test_'' @ flag)
     [''start_video_observed'', ''end_video_observed'', ''miss_null'', ''miss_control'', ''miss_other_video'',
      ''miss_video_ancestor'', ''miss_video_descendant'', ''miss_other_element'', ''video_pointer_events_none'',
      ''video_native_controls'', ''control_self'', ''control_inherited'', ''hit_contains_video'', ''hit_inside_video'',
      ''hit_video_sibling'', ''hit_shared_near_ancestor'', ''hit_covers_visible_video'', ''control_contains_video'',
      ''control_covers_visible_video'', ''stack_contains_video'', ''stack_video_below_hit'', ''hit_fixed_ancestor'',
      ''hit_covers_viewport'', ''visual_viewport_present'', ''visual_viewport_differs_from_layout'',
      ''endpoint_inside_visual_viewport'', ''hit_contains_other_visible_video'', ''hit_inside_other_visible_video'',
      ''hit_shared_near_ancestor_other_video'', ''hit_has_other_video_relation'', ''hit_no_visible_video_relation'',
      ''hit_direct_body_child'', ''control_direct_body_child'', ''hit_shell_semantic_ancestor'', ''hit_is_shell_surface'',
      ''shell_surface_eligible'', ''control_native_button'', ''control_anchor'', ''control_form_element'',
      ''control_role_button'', ''control_role_slider'', ''control_contenteditable'', ''control_disabled'',
      ''control_aria_disabled'', ''control_focusable'', ''control_modal_or_dialog_ancestor'', ''control_touch_action_none'']"

record classifications =
  pc_reels :: int
  pc_login :: int
  pc_challenge :: int
  pc_other :: int

record identity_diagnostics =
  fd_open_page_count :: int
  fd_page_classifications :: classifications
  fd_video_count :: int
  fd_visible_video_count :: int
  fd_central_video_present :: bool
  fd_extraction_strategy :: string
  fd_reason_code :: "string option"

definition empty_diagnostics :: identity_diagnostics where
  "empty_diagnostics = \<lparr>fd_open_page_count = 0,
     fd_page_classifications = \<lparr>pc_reels = 0, pc_login = 0, pc_challenge = 0, pc_other = 0\<rparr>,
     fd_video_count = 0, fd_visible_video_count = 0, fd_central_video_present = False,
     fd_extraction_strategy = ''none'', fd_reason_code = None\<rparr>"

text \<open>The locals of \<open>wait_for_next\<close> that its inner function writes.\<close>

record sampler =
  sm_observed_different :: bool
  sm_poll_count :: int
  sm_unchanged_count :: int
  sm_missing_count :: int
  sm_stable_count :: int
  sm_dom_confirmation :: bool
  sm_queue_fallback :: bool
  sm_feed_refresh :: bool
  sm_refresh_attempted :: bool
  sm_stable_identity :: "string option"

definition fresh_sampler :: sampler where
  "fresh_sampler = \<lparr>sm_observed_different = False, sm_poll_count = 0, sm_unchanged_count = 0, sm_missing_count = 0,
     sm_stable_count = 0, sm_dom_confirmation = False, sm_queue_fallback = False, sm_feed_refresh = False,
     sm_refresh_attempted = False, sm_stable_identity = None\<rparr>"

datatype probe =
    IdentityProbe | IdentityStructureProbe | EmbeddedDataProbe | EmbeddedCandidatesProbe | PauseProbe
  | MediaIdentityProbe | ScrollTargetProbe | ScrollContainerProbe | InputTargetProbe | StateProbe

datatype page_call =
    Evaluate probe
  | Goto string
  | WaitForTimeout rat
  | MouseMove rat rat
  | MouseWheel int
  | PressKey string
  | NewCdpSession
  | TouchEvent string "(rat \<times> rat) list"
  | DetachCdp
  | ProfilePath | AcquireLock | UnlinkLock string | StartPlaywright | LaunchContext | NewPage | ListenToResponses
  | CloseContext | StopPlaywright | ReleaseLock

record browser_feed =
  bf_limits :: transition_limits
  bf_page :: nat
  bf_has_context :: bool
  bf_has_playwright :: bool
  bf_has_lock :: bool
  bf_has_cdp :: bool
  bf_has_keyboard :: bool
  bf_pages_listed :: bool
  bf_scroll_attempts :: int
  bf_closed :: bool
  bf_diagnostics :: identity_diagnostics
  bf_transition :: transition_sampling
  bf_target :: scroll_target
  bf_media_identity :: "string option"
  bf_media_confirmed :: bool
  bf_json_checkpoint :: int
  bf_force_wheel :: bool
  bf_feed_json :: "feed_source option"
  bf_sampler :: sampler
  bf_answers :: "js_value result list"
  bf_outcomes :: "unit result list"
  bf_shut :: "bool result list"
  bf_open_pages :: "nat list list"
  bf_urls :: "string result list"
  bf_arrivals :: "json_response list list"
  bf_stops :: "bool list"
  bf_log :: "(nat \<times> page_call) list"

type_synonym 'a feed_act = "(browser_feed, unit, 'a) act"

abbreviation fails :: "string \<Rightarrow> 'a feed_act" where
  "fails code \<equiv> raise (CollectorRuntimeError code)"

section \<open>Calls of the browser\<close>

definition take_front :: "'a \<Rightarrow> 'a list \<Rightarrow> 'a" where
  "take_front dflt xs = (case xs of [] \<Rightarrow> dflt | x # _ \<Rightarrow> x)"

text \<open>Responses that arrive while a call is under way reach the feed source.\<close>

definition dispatch :: "unit feed_act" where
  "dispatch = modify (\<lambda>s. s\<lparr>bf_arrivals := tl (bf_arrivals s),
     bf_feed_json := map_option (fold observe_response (take_front [] (bf_arrivals s))) (bf_feed_json s)\<rparr>)"

definition log_call :: "nat \<Rightarrow> page_call \<Rightarrow> unit feed_act" where
  "log_call page c = modify (\<lambda>s. s\<lparr>bf_log := bf_log s @ [(page, c)]\<rparr>)"

definition answer_of_page :: "js_value feed_act" where
  "answer_of_page = with_state (\<lambda>s. bind (modify (\<lambda>s. s\<lparr>bf_answers := tl (bf_answers s)\<rparr>))
     (\<lambda>_. call (take_front (Inr JsNull) (bf_answers s))))"

definition outcome_of_call :: "unit feed_act" where
  "outcome_of_call = with_state (\<lambda>s. bind (modify (\<lambda>s. s\<lparr>bf_outcomes := tl (bf_outcomes s)\<rparr>))
     (\<lambda>_. call (take_front (Inr ()) (bf_outcomes s))))"

definition evaluate_on :: "nat \<Rightarrow> probe \<Rightarrow> js_value feed_act" where
  "evaluate_on page p =
     bind (log_call page (Evaluate p)) (\<lambda>_. bind dispatch (\<lambda>_. answer_of_page))"

definition evaluate :: "probe \<Rightarrow> js_value feed_act" where
  "evaluate p = with_state (\<lambda>s. evaluate_on (bf_page s) p)"

definition perform :: "page_call \<Rightarrow> unit feed_act" where
  "perform c = with_state (\<lambda>s.
     bind (log_call (bf_page s) c) (\<lambda>_. bind dispatch (\<lambda>_. outcome_of_call)))"

definition page_shut :: "bool feed_act" where
  "page_shut = with_state (\<lambda>s. bind (modify (\<lambda>s. s\<lparr>bf_shut := tl (bf_shut s)\<rparr>))
     (\<lambda>_. call (take_front (Inr False) (bf_shut s))))"

definition context_pages :: "nat list feed_act" where
  "context_pages = with_state (\<lambda>s.
     if \<not> bf_has_context s then raise OtherError
     else bind (modify (\<lambda>s. s\<lparr>bf_open_pages := tl (bf_open_pages s)\<rparr>))
       (\<lambda>_. ret (take_front [] (bf_open_pages s))))"

definition page_url :: "string feed_act" where
  "page_url = with_state (\<lambda>s. bind (modify (\<lambda>s. s\<lparr>bf_urls := tl (bf_urls s)\<rparr>))
     (\<lambda>_. call (take_front (Inr []) (bf_urls s))))"

text \<open>\<open>should_stop is not None and should_stop()\<close>.\<close>

definition ask_stop :: "bool \<Rightarrow> bool feed_act" where
  "ask_stop given = (if \<not> given then ret False
     else with_state (\<lambda>s. bind (modify (\<lambda>s. s\<lparr>bf_stops := tl (bf_stops s)\<rparr>))
       (\<lambda>_. ret (take_front False (bf_stops s)))))"

definition get_feed :: "(browser_feed \<Rightarrow> 'a) \<Rightarrow> 'a feed_act" where
  "get_feed f = with_state (\<lambda>s. ret (f s))"

text \<open>A call of the feed source, where there is one.\<close>

definition on_source :: "(feed_source \<Rightarrow> 'a \<times> feed_source) \<Rightarrow> 'a feed_act" where
  "on_source f = with_state (\<lambda>s.
     case bf_feed_json s of
       None \<Rightarrow> raise OtherError
     | Some source \<Rightarrow> bind (modify (\<lambda>s. s\<lparr>bf_feed_json := Some (snd (f source))\<rparr>)) (\<lambda>_. ret (fst (f source))))"

definition update_source :: "(feed_source \<Rightarrow> feed_source) \<Rightarrow> unit feed_act" where
  "update_source f = on_source (\<lambda>source. ((), f source))"

definition except_none :: "'a feed_act \<Rightarrow> 'a option feed_act" where
  "except_none a = try_except (bind a (\<lambda>x. ret (Some x))) (\<lambda>e. if is_exception e then ret None else raise e)"

text \<open>The delay between two polls, and how many fit into a time; Python's \<open>int\<close> truncates.\<close>

definition wait_poll :: "unit feed_act" where
  "wait_poll = with_state (\<lambda>s. perform (WaitForTimeout (tl_polling_seconds (bf_limits s) * 1000)))"

definition polls_within :: "rat \<Rightarrow> nat feed_act" where
  "polls_within t = with_state (\<lambda>s.
     let p = tl_polling_seconds (bf_limits s) in
     if p = 0 then raise OtherError else ret (max 1 (nat \<lfloor>t / p\<rfloor>)))"

definition page_is_closed :: "bool feed_act" where
  "page_is_closed = try_except page_shut (\<lambda>e. if is_exception e then ret True else raise e)"

definition raise_if_closed :: "unit feed_act" where
  "raise_if_closed = with_state (\<lambda>s.
     if bf_closed s then fails ''BROWSER_CLOSED''
     else bind page_is_closed (\<lambda>c. if c then fails ''BROWSER_CLOSED'' else ret ()))"

text \<open>What every handler of a failed page call does first: \<open>BROWSER_CLOSED\<close> when the page is gone.\<close>

definition when_page_gone :: "exn \<Rightarrow> 'a feed_act \<Rightarrow> 'a feed_act" where
  "when_page_gone e otherwise =
     (if is_exception e
      then bind page_is_closed (\<lambda>c. if c then fails ''BROWSER_CLOSED'' else otherwise)
      else raise e)"

definition raise_if_controlled_stop :: "unit feed_act" where
  "raise_if_controlled_stop = bind (evaluate StateProbe) (\<lambda>state.
     case entries state of
       None \<Rightarrow> ret ()
     | Some es \<Rightarrow>
         if truthy (map_of es ''checkpoint'') then fails ''CHECKPOINT_REQUIRED''
         else if truthy (map_of es ''login'') then fails ''AUTH_REQUIRED''
         else if truthy (map_of es ''limited'') then fails ''TEMPORARILY_LIMITED''
         else ret ())"

section \<open>Payloads\<close>

definition candidate_from_payload :: "js_value \<Rightarrow> reel_candidate option" where
  "candidate_from_payload payload =
     (case entries payload of
        None \<Rightarrow> None
      | Some es \<Rightarrow>
          (case (map_of es ''shortcode'', map_of es ''canonical_url'') of
             (Some (JsText code), Some (JsText url)) \<Rightarrow> Some \<lparr>shortcode = code, canonical_url = url\<rparr>
           | _ \<Rightarrow> None))"

definition extraction_strategies :: "string list" where
  "extraction_strategies = [''video_anchor'', ''ancestor_anchor'', ''closest_anchor'', ''ancestor_descendant_anchor'',
     ''sibling_anchor'', ''sibling_container_anchor'', ''pathname_fallback'', ''none'']"

text \<open>A list or a dictionary has no hash: looking it up in the set of strategies is a \<open>TypeError\<close>.\<close>

fun strategy_of :: "js_value option \<Rightarrow> string result" where
  "strategy_of (Some (JsText s)) = Inr (if s \<in> set extraction_strategies then s else ''none'')"
| "strategy_of (Some (JsList _)) = Inl TypeError"
| "strategy_of (Some (JsDict _)) = Inl TypeError"
| "strategy_of _ = Inr ''none''"

definition diagnostics_from_payload :: "js_value \<Rightarrow> identity_diagnostics result" where
  "diagnostics_from_payload payload =
     (case entries payload of
        None \<Rightarrow> Inr empty_diagnostics
      | Some es \<Rightarrow> rbind (strategy_of (map_of es ''extraction_strategy'')) (\<lambda>strategy.
          Inr (empty_diagnostics\<lparr>fd_video_count := nonnegative_integer (map_of es ''video_count''),
            fd_visible_video_count := nonnegative_integer (map_of es ''visible_video_count''),
            fd_central_video_present := is_true es ''central_video_present'',
            fd_extraction_strategy := strategy\<rparr>)))"

definition identity_structure_counts :: "string list" where
  "identity_structure_counts = [''video_count'', ''visible_video_count'', ''page_reel_anchor_count'',
     ''nearby_reel_anchor_count'', ''ancestor_data_attribute_count'', ''bound_canonical_data_attribute_count'']"

definition identity_structure_flags :: "string list" where
  "identity_structure_flags =
     [''central_video_present'', ''bound_canonical_data_attribute_changed'', ''location_is_specific_reel'']"

definition identity_structure_from_payload :: "js_value \<Rightarrow> (string \<times> int) list \<times> (string \<times> bool) list" where
  "identity_structure_from_payload payload =
     (let es = (case entries payload of None \<Rightarrow> [] | Some es \<Rightarrow> es) in
      (map (\<lambda>k. (k, nonnegative_integer (map_of es k))) identity_structure_counts,
       map (\<lambda>k. (k, is_true es k)) identity_structure_flags))"

definition embedded_application_data_from_payload :: "js_value \<Rightarrow> (string \<times> int) list" where
  "embedded_application_data_from_payload payload =
     (let es = (case entries payload of None \<Rightarrow> [] | Some es \<Rightarrow> es) in
      map (\<lambda>k. (k, nonnegative_integer (map_of es k)))
        [''embedded_json_script_count'', ''parseable_embedded_json_script_count'', ''oversized_embedded_json_script_count'',
         ''embedded_tree_allowed_canonical_alias_values'', ''embedded_media_descendant_allowed_canonical_alias_values''])"

section \<open>Addresses\<close>

text \<open>
  \<open>urlparse\<close> differs from \<open>urlsplit\<close> in the parameters after the last segment, which neither test looks at.
\<close>

definition is_instagram_page :: "bool feed_act" where
  "is_instagram_page = bind (except_none (bind page_url (\<lambda>url. call (urlsplit url)))) (\<lambda>parsed.
     case parsed of
       None \<Rightarrow> ret False
     | Some r \<Rightarrow> ret (scheme r = ''https'' \<and> hostname r = Some ''www.instagram.com''))"

definition looks_like_reels_path :: "bool feed_act" where
  "looks_like_reels_path = bind (except_none (bind page_url (\<lambda>url. call (urlsplit url)))) (\<lambda>parsed.
     case parsed of
       None \<Rightarrow> ret False
     | Some r \<Rightarrow> ret (startswith (path r) ''/reel/'' \<or> startswith (path r) ''/reels/''))"

end
