(* ===== verification/BrowserOps.thy ===== *)
theory BrowserOps
  imports BrowserFeed
begin

text \<open>
  The operations of \<open>PlaywrightReelsFeed\<close> in \<open>runtime/browser_feed.py\<close>: finding the Reel that is shown, moving
  to another one by swipe, key or wheel, waiting for the move to be confirmed, and reserving the next candidate
  of the authenticated feed.
\<close>

section \<open>The Reel that is shown\<close>

definition active_media_identity :: "string option feed_act" where
  "active_media_identity = bind (except_none (evaluate MediaIdentityProbe)) (\<lambda>result.
     case result of
       Some (JsText s) \<Rightarrow> ret (if 1 \<le> length s \<and> length s \<le> 128 then Some s else None)
     | _ \<Rightarrow> ret None)"

definition media_changed :: "string option \<Rightarrow> bool feed_act" where
  "media_changed previous = bind active_media_identity (\<lambda>current.
     ret (previous \<noteq> None \<and> current \<noteq> None \<and> current \<noteq> previous))"

definition capture_embedded_feed_candidates :: "unit feed_act" where
  "capture_embedded_feed_candidates = with_state (\<lambda>s.
     if bf_feed_json s = None then ret ()
     else attempt (bind (evaluate EmbeddedCandidatesProbe) (\<lambda>v.
       update_source (observe_embedded_candidates (json_of v)))))"

definition set_reason_code :: "string option \<Rightarrow> unit feed_act" where
  "set_reason_code code = modify (\<lambda>s. s\<lparr>bf_diagnostics := (bf_diagnostics s)\<lparr>fd_reason_code := code\<rparr>\<rparr>)"

definition candidate_from_probe :: "reel_candidate feed_act" where
  "candidate_from_probe = bind (evaluate IdentityProbe) (\<lambda>payload.
     bind (call (diagnostics_from_payload payload)) (\<lambda>d.
     bind (modify (\<lambda>s. s\<lparr>bf_diagnostics := d\<lparr>fd_open_page_count := 1,
       fd_page_classifications := \<lparr>pc_reels = 1, pc_login = 0, pc_challenge = 0, pc_other = 0\<rparr>\<rparr>\<rparr>)) (\<lambda>_.
     case candidate_from_payload payload of
       None \<Rightarrow> bind (set_reason_code (Some ''ACTIVE_REEL_NOT_FOUND'')) (\<lambda>_. fails ''ACTIVE_REEL_NOT_FOUND'')
     | Some candidate \<Rightarrow>
         (case validate_candidate candidate of
            Inl e \<Rightarrow>
              if e = InvalidReelCandidate
              then bind (set_reason_code (Some ''INVALID_REEL_CANDIDATE'')) (\<lambda>_. fails ''INVALID_REEL_CANDIDATE'')
              else raise e
          | Inr valid \<Rightarrow> bind (set_reason_code None) (\<lambda>_. ret valid)))))"

definition candidate_or_none :: "reel_candidate option feed_act" where
  "candidate_or_none = try_except (bind candidate_from_probe (\<lambda>c. ret (Some c)))
     (\<lambda>e. if e \<in> {CollectorRuntimeError ''ACTIVE_REEL_NOT_FOUND'', CollectorRuntimeError ''INVALID_REEL_CANDIDATE''}
          then ret None else raise e)"

text \<open>The locals of \<open>_select_reels_page\<close>: one round of its loop looks at one open page.\<close>

record selection =
  sel_page_count :: int
  sel_classes :: classifications
  sel_aggregate :: identity_diagnostics
  sel_candidates :: "(nat \<times> reel_candidate \<times> identity_diagnostics) list"
  sel_limited :: bool

definition empty_selection :: selection where
  "empty_selection = \<lparr>sel_page_count = 0,
     sel_classes = \<lparr>pc_reels = 0, pc_login = 0, pc_challenge = 0, pc_other = 0\<rparr>,
     sel_aggregate = empty_diagnostics, sel_candidates = [], sel_limited = False\<rparr>"

definition count_other :: "selection \<Rightarrow> selection" where
  "count_other sel = sel\<lparr>sel_classes := (sel_classes sel)\<lparr>pc_other := pc_other (sel_classes sel) + 1\<rparr>\<rparr>"

definition count_login :: "selection \<Rightarrow> selection" where
  "count_login sel = sel\<lparr>sel_classes := (sel_classes sel)\<lparr>pc_login := pc_login (sel_classes sel) + 1\<rparr>\<rparr>"

definition count_challenge :: "selection \<Rightarrow> selection" where
  "count_challenge sel = sel\<lparr>sel_classes := (sel_classes sel)\<lparr>pc_challenge := pc_challenge (sel_classes sel) + 1\<rparr>\<rparr>"

definition count_page :: "bool \<Rightarrow> selection \<Rightarrow> selection" where
  "count_page is_reels sel =
     (if is_reels then sel\<lparr>sel_classes := (sel_classes sel)\<lparr>pc_reels := pc_reels (sel_classes sel) + 1\<rparr>\<rparr>
      else count_other sel)"

definition add_page_diagnostics :: "identity_diagnostics \<Rightarrow> selection \<Rightarrow> selection" where
  "add_page_diagnostics d sel =
     (let a = sel_aggregate sel in
      sel\<lparr>sel_aggregate := a\<lparr>fd_video_count := fd_video_count a + fd_video_count d,
        fd_visible_video_count := fd_visible_video_count a + fd_visible_video_count d,
        fd_central_video_present := fd_central_video_present a \<or> fd_central_video_present d\<rparr>\<rparr>)"

definition take_page_candidate :: "nat \<Rightarrow> js_value \<Rightarrow> identity_diagnostics \<Rightarrow> bool \<Rightarrow> selection \<Rightarrow> selection result" where
  "take_page_candidate page payload d is_reels sel =
     (case candidate_from_payload payload of
        None \<Rightarrow> Inr (count_page is_reels sel)
      | Some candidate \<Rightarrow>
          (case validate_candidate candidate of
             Inr valid \<Rightarrow> Inr ((count_page is_reels sel)\<lparr>sel_candidates := sel_candidates sel @ [(page, valid, d)]\<rparr>)
           | Inl e \<Rightarrow>
               if e = InvalidReelCandidate
               then Inr ((count_page is_reels sel)\<lparr>sel_aggregate := (sel_aggregate sel)
                 \<lparr>fd_extraction_strategy := fd_extraction_strategy d,
                  fd_reason_code := Some ''INVALID_REEL_CANDIDATE''\<rparr>\<rparr>)
               else Inl e))"

definition look_at_reels :: "nat \<Rightarrow> selection \<Rightarrow> selection feed_act" where
  "look_at_reels page sel =
     bind (except_none (evaluate_on page IdentityProbe)) (\<lambda>payload.
     case payload of
       None \<Rightarrow> ret (count_other sel)
     | Some payload \<Rightarrow>
         bind (call (diagnostics_from_payload payload)) (\<lambda>d.
         bind (if fd_central_video_present d then ret True else looks_like_reels_path) (\<lambda>is_reels.
         call (take_page_candidate page payload d is_reels (add_page_diagnostics d sel)))))"

definition look_at_page :: "nat \<Rightarrow> selection \<Rightarrow> selection feed_act" where
  "look_at_page page sel0 =
     bind page_shut (\<lambda>shut. if shut then ret sel0 else
     let sel = sel0\<lparr>sel_page_count := sel_page_count sel0 + 1\<rparr> in
     bind is_instagram_page (\<lambda>ours. if \<not> ours then ret (count_other sel) else
     bind (except_none (evaluate_on page StateProbe)) (\<lambda>state.
     case state of
       None \<Rightarrow> ret (count_other sel)
     | Some v \<Rightarrow>
         let es = (case entries v of None \<Rightarrow> [] | Some es \<Rightarrow> es) in
         if truthy (map_of es ''checkpoint'') then ret (count_challenge sel)
         else if truthy (map_of es ''login'') then ret (count_login sel)
         else if truthy (map_of es ''limited'') then ret ((count_other sel)\<lparr>sel_limited := True\<rparr>)
         else look_at_reels page sel)))"

fun look_at_pages :: "nat list \<Rightarrow> selection \<Rightarrow> selection feed_act" where
  "look_at_pages [] sel = ret sel"
| "look_at_pages (page # pages) sel = bind (look_at_page page sel) (look_at_pages pages)"

definition selected_candidate :: "nat \<Rightarrow> selection \<Rightarrow> (nat \<times> reel_candidate \<times> identity_diagnostics) option" where
  "selected_candidate page sel =
     (case find (\<lambda>item. fst item = page) (sel_candidates sel) of
        Some item \<Rightarrow> Some item
      | None \<Rightarrow> (case sel_candidates sel of [] \<Rightarrow> None | item # _ \<Rightarrow> Some item))"

definition stop_code :: "selection \<Rightarrow> string" where
  "stop_code sel =
     (if pc_challenge (sel_classes sel) \<noteq> 0 then ''CHECKPOINT_REQUIRED''
      else if pc_login (sel_classes sel) \<noteq> 0 then ''AUTH_REQUIRED''
      else if sel_limited sel then ''TEMPORARILY_LIMITED''
      else ''ACTIVE_REEL_NOT_FOUND'')"

definition select_reels_page :: "reel_candidate feed_act" where
  "select_reels_page =
     bind context_pages (\<lambda>pages. bind (look_at_pages pages empty_selection) (\<lambda>sel.
     with_state (\<lambda>s.
       let aggregate = (sel_aggregate sel)\<lparr>fd_open_page_count := sel_page_count sel,
             fd_page_classifications := sel_classes sel\<rparr> in
       case selected_candidate (bf_page s) sel of
         Some (page, candidate, d) \<Rightarrow>
           bind (modify (\<lambda>s. s\<lparr>bf_page := page,
             bf_diagnostics := d\<lparr>fd_open_page_count := sel_page_count sel,
               fd_page_classifications := sel_classes sel, fd_reason_code := None\<rparr>\<rparr>)) (\<lambda>_. ret candidate)
       | None \<Rightarrow>
           bind (modify (\<lambda>s. s\<lparr>bf_diagnostics := aggregate\<lparr>fd_reason_code := Some (stop_code sel)\<rparr>\<rparr>))
             (\<lambda>_. fails (stop_code sel)))))"

fun wait_for_initial :: "nat \<Rightarrow> reel_candidate feed_act" where
  "wait_for_initial 0 = raise AssertionError"
| "wait_for_initial (Suc n) =
     bind raise_if_closed (\<lambda>_. try_except select_reels_page (\<lambda>e.
       if e \<noteq> CollectorRuntimeError ''ACTIVE_REEL_NOT_FOUND'' then raise e
       else if n = 0 then raise e
       else bind wait_poll (\<lambda>_. wait_for_initial n)))"

definition wait_for_initial_reel :: "reel_candidate feed_act" where
  "wait_for_initial_reel =
     with_state (\<lambda>s. bind (polls_within (tl_timeout_seconds (bf_limits s))) wait_for_initial)"

definition mark_used_if_any :: "string \<Rightarrow> unit feed_act" where
  "mark_used_if_any code = with_state (\<lambda>s. if bf_feed_json s = None then ret () else update_source (mark_used code))"

definition current_reel :: "reel_candidate feed_act" where
  "current_reel = with_state (\<lambda>s.
     if bf_closed s then fails ''BROWSER_CLOSED''
     else if bf_has_context s
     then bind wait_for_initial_reel (\<lambda>candidate.
            bind capture_embedded_feed_candidates (\<lambda>_.
            bind (mark_used_if_any (shortcode candidate)) (\<lambda>_. ret candidate)))
     else bind raise_if_closed (\<lambda>_. bind raise_if_controlled_stop (\<lambda>_. candidate_from_probe)))"

definition pause_current :: "unit feed_act" where
  "pause_current = bind raise_if_closed (\<lambda>_. bind (evaluate PauseProbe) (\<lambda>v.
     if v = JsBool True then ret ()
     else bind (set_reason_code (Some ''ACTIVE_REEL_NOT_FOUND'')) (\<lambda>_. fails ''ACTIVE_REEL_NOT_FOUND'')))"

definition navigate_to_reels :: "unit feed_act" where
  "navigate_to_reels = bind raise_if_closed (\<lambda>_.
     bind (modify (\<lambda>s. s\<lparr>bf_feed_json := map_option reset_for_feed_navigation (bf_feed_json s)\<rparr>)) (\<lambda>_.
     try_except (perform (Goto ''https://www.instagram.com/reels/''))
       (\<lambda>e. if is_exception e then fails ''BROWSER_CLOSED'' else raise e)))"

section \<open>Moving on\<close>

definition set_target :: "(scroll_target \<Rightarrow> scroll_target) \<Rightarrow> unit feed_act" where
  "set_target f = modify (\<lambda>s. s\<lparr>bf_target := f (bf_target s)\<rparr>)"

definition wheel_point :: "(string \<times> js_value) list \<Rightarrow> (rat \<times> rat \<times> rat \<times> rat) option" where
  "wheel_point es =
     (case (coordinate (map_of es ''x''), coordinate (map_of es ''y''), coordinate (map_of es ''width''),
            coordinate (map_of es ''height'')) of
        (Some x, Some y, Some width, Some height) \<Rightarrow>
          if width \<le> 0 \<or> height \<le> 0 \<or> \<not> (0 \<le> x \<and> x < width \<and> 0 \<le> y \<and> y < height) then None
          else Some (x, y, width, height)
      | _ \<Rightarrow> None)"

definition targeted_wheel_point :: "(rat \<times> rat \<times> rat \<times> rat) option feed_act" where
  "targeted_wheel_point =
     bind (try_except (bind (evaluate ScrollTargetProbe) (\<lambda>v. ret (Some v))) (\<lambda>e. when_page_gone e (ret None))) (\<lambda>payload.
     case Option.bind payload entries of
       None \<Rightarrow> ret None
     | Some es \<Rightarrow>
         if \<not> is_true es ''available'' then ret None
         else bind (set_target (\<lambda>d. d\<lparr>sd_scroll_target_available := True\<rparr>)) (\<lambda>_.
           if \<not> is_true es ''in_viewport'' then ret None
           else
             (case wheel_point es of
                None \<Rightarrow> ret None
              | Some point \<Rightarrow>
                  bind (set_target (\<lambda>d. d\<lparr>sd_scroll_target_available := True, sd_scroll_target_in_viewport := True\<rparr>))
                    (\<lambda>_. ret (Some point)))))"

definition pointer_wheel_advance :: "unit feed_act" where
  "pointer_wheel_advance = bind targeted_wheel_point (\<lambda>target.
     case target of
       None \<Rightarrow> fails ''ACTIVE_REEL_NOT_FOUND''
     | Some (_, _, width, height) \<Rightarrow>
         try_except
           (block [perform (MouseMove (width / 2) (height / 2)), perform (MouseWheel \<lfloor>height * 9 / 10\<rfloor>),
              set_target (\<lambda>d. d\<lparr>sd_scroll_target_available := True, sd_scroll_target_in_viewport := True,
                sd_mouse_move_performed := True\<rparr>)])
           (\<lambda>e. when_page_gone e (raise e)))"

definition input_target :: "(string \<times> js_value) list \<Rightarrow> (rat \<times> rat \<times> rat) option" where
  "input_target es =
     (case (coordinate (map_of es ''x''), coordinate (map_of es ''start_y''), coordinate (map_of es ''end_y'')) of
        (Some x, Some start_y, Some end_y) \<Rightarrow>
          if 0 \<le> x \<and> 0 \<le> end_y \<and> end_y < start_y then Some (x, start_y, end_y) else None
      | _ \<Rightarrow> None)"

definition active_feed_input_target :: "(rat \<times> rat \<times> rat) option feed_act" where
  "active_feed_input_target =
     bind (set_target (\<lambda>d. d\<lparr>sd_active_feed_probe_attempted := True\<rparr>)) (\<lambda>_.
     bind (try_except (bind (evaluate InputTargetProbe) (\<lambda>v. ret (Some v)))
            (\<lambda>e. if is_exception e
                 then bind (set_target (\<lambda>d. d\<lparr>sd_active_feed_probe_failed := True\<rparr>)) (\<lambda>_. when_page_gone e (ret None))
                 else raise e)) (\<lambda>payload.
     case payload of
       None \<Rightarrow> ret None
     | Some v \<Rightarrow>
         (case Option.bind (entries v) (\<lambda>es. map_of es ''available'') of
            Some (JsBool available) \<Rightarrow>
              let es = the (entries v) in
              bind (set_target (\<lambda>d. d\<lparr>sd_active_feed_probe_evaluated := True,
                sd_hit_test_flags := filter (is_true es) hit_test_diagnostic_flags,
                sd_active_feed_central_video_missing := \<not> available, sd_active_feed_target_available := available\<rparr>)) (\<lambda>_.
              if \<not> available \<or> \<not> is_true es ''in_viewport'' then ret None
              else bind (set_target (\<lambda>d. d\<lparr>sd_active_feed_target_in_viewport := True\<rparr>)) (\<lambda>_.
                if \<not> is_true es ''hit_testable'' then ret None
                else
                  (case input_target es of
                     None \<Rightarrow> ret None
                   | Some target \<Rightarrow>
                       bind (set_target (\<lambda>d. d\<lparr>sd_active_feed_target_available := True,
                         sd_active_feed_target_in_viewport := True, sd_active_feed_target_hit_testable := True\<rparr>))
                         (\<lambda>_. ret (Some target)))))
          | _ \<Rightarrow> bind (set_target (\<lambda>d. d\<lparr>sd_active_feed_probe_failed := True\<rparr>)) (\<lambda>_. ret None))))"

fun await_media :: "nat \<Rightarrow> string \<Rightarrow> string option \<Rightarrow> bool feed_act" where
  "await_media 0 previous settled = ret False"
| "await_media (Suc n) previous settled =
     bind raise_if_closed (\<lambda>_. bind active_media_identity (\<lambda>current.
       if current \<noteq> None \<and> current \<noteq> Some previous
       then (if current = settled then ret True else bind wait_poll (\<lambda>_. await_media n previous current))
       else bind wait_poll (\<lambda>_. await_media n previous None)))"

definition wait_for_media_transition :: "string \<Rightarrow> rat \<Rightarrow> bool feed_act" where
  "wait_for_media_transition previous t = bind (polls_within t) (\<lambda>n. await_media n previous None)"

text \<open>A handler of an input that failed: the page is gone, or the input counts as not sent.\<close>

definition not_sent :: "exn \<Rightarrow> bool feed_act" where
  "not_sent e = when_page_gone e (ret False)"

definition send_swipe :: "rat \<Rightarrow> rat \<Rightarrow> rat \<Rightarrow> bool feed_act" where
  "send_swipe x start_y end_y =
     bind (try_except (bind (perform NewCdpSession) (\<lambda>_. ret True)) not_sent) (\<lambda>opened.
     if \<not> opened then ret False
     else finally_do
       (try_except
          (bind (block [perform (TouchEvent ''touchStart'' [(x, start_y)]), perform (TouchEvent ''touchMove'' [(x, end_y)]),
              perform (TouchEvent ''touchEnd'' []),
              set_target (\<lambda>d. d\<lparr>sd_active_feed_target_available := True, sd_active_feed_target_in_viewport := True,
                sd_active_feed_target_hit_testable := True, sd_mobile_swipe_performed := True\<rparr>)])
            (\<lambda>_. ret True))
          not_sent)
       (attempt (perform DetachCdp)))"

definition mobile_feed_swipe_advances :: "string \<Rightarrow> bool feed_act" where
  "mobile_feed_swipe_advances previous = bind active_feed_input_target (\<lambda>target.
     case target of
       None \<Rightarrow> ret False
     | Some (x, start_y, end_y) \<Rightarrow> with_state (\<lambda>s.
         if \<not> bf_has_context s \<or> \<not> bf_has_cdp s then ret False
         else bind (send_swipe x start_y end_y) (\<lambda>sent.
           if sent then wait_for_media_transition previous 5 else ret False)))"

fun press_keys :: "string list \<Rightarrow> string \<Rightarrow> bool feed_act" where
  "press_keys [] previous = ret False"
| "press_keys (key # keys) previous =
     bind (try_except (bind (perform (PressKey key)) (\<lambda>_. ret True)) not_sent) (\<lambda>pressed.
     if \<not> pressed then ret False
     else bind (wait_for_media_transition previous 4) (\<lambda>moved.
       if moved then ret True else press_keys keys previous))"

definition keyboard_advances :: "string \<Rightarrow> bool feed_act" where
  "keyboard_advances previous = with_state (\<lambda>s.
     if \<not> bf_has_keyboard s then ret False else press_keys [''ArrowDown'', ''PageDown''] previous)"

definition scroll_container_advances :: "string \<Rightarrow> bool feed_act" where
  "scroll_container_advances previous =
     bind (try_except (bind (evaluate ScrollContainerProbe) (\<lambda>v. ret (v = JsBool True))) not_sent) (\<lambda>moved.
     if \<not> moved then ret False else wait_for_media_transition previous 5)"

definition count_scroll :: "unit feed_act" where
  "count_scroll = modify (\<lambda>s. s\<lparr>bf_scroll_attempts := bf_scroll_attempts s + 1\<rparr>)"

definition confirmed_scroll :: "unit feed_act" where
  "confirmed_scroll = bind (modify (\<lambda>s. s\<lparr>bf_media_confirmed := True\<rparr>)) (\<lambda>_. count_scroll)"

definition wheel_scroll :: "unit feed_act" where
  "wheel_scroll = bind pointer_wheel_advance (\<lambda>_. count_scroll)"

definition begin_transition :: "unit feed_act" where
  "begin_transition =
     bind (modify (\<lambda>s. s\<lparr>bf_target := no_scroll_target\<rparr>)) (\<lambda>_. bind active_media_identity (\<lambda>identity.
     modify (\<lambda>s. s\<lparr>bf_media_identity := identity, bf_media_confirmed := False,
       bf_json_checkpoint := (case bf_feed_json s of None \<Rightarrow> 0 | Some source \<Rightarrow> checkpoint source)\<rparr>)))"

definition send_input :: "unit feed_act" where
  "send_input = with_state (\<lambda>s.
     case bf_media_identity s of
       None \<Rightarrow> wheel_scroll
     | Some previous \<Rightarrow>
         bind (mobile_feed_swipe_advances previous) (\<lambda>swiped.
         if swiped then confirmed_scroll
         else bind (keyboard_advances previous) (\<lambda>keyed.
           if keyed then confirmed_scroll else wheel_scroll)))"

definition advance :: "unit feed_act" where
  "advance = bind raise_if_closed (\<lambda>_. with_state (\<lambda>s.
     if bf_scroll_attempts s \<ge> tl_maximum_scroll_attempts (bf_limits s) then fails ''TRANSITION_TIMEOUT''
     else bind begin_transition (\<lambda>_. with_state (\<lambda>s.
       if bf_force_wheel s then bind (modify (\<lambda>s. s\<lparr>bf_force_wheel := False\<rparr>)) (\<lambda>_. wheel_scroll)
       else send_input))))"

section \<open>Waiting for the move to be confirmed\<close>

definition remark :: "(sampler \<Rightarrow> sampler) \<Rightarrow> unit feed_act" where
  "remark f = modify (\<lambda>s. s\<lparr>bf_sampler := f (bf_sampler s)\<rparr>)"

text \<open>What the failed and the stopped samples report.\<close>

definition report_stop :: "string \<Rightarrow> unit feed_act" where
  "report_stop code = modify (\<lambda>s. let m = bf_sampler s in s\<lparr>bf_transition := no_sampling
     \<lparr>td_poll_count := sm_poll_count m, td_unchanged_sample_count := sm_unchanged_count m,
      td_missing_candidate_count := sm_missing_count m, td_different_candidate_observed := sm_observed_different m,
      td_stable_sample_count := sm_stable_count m, td_stop_reason_code := Some code\<rparr>\<rparr>)"

definition see_media :: "string option \<Rightarrow> string option \<Rightarrow> sampler \<Rightarrow> sampler" where
  "see_media previous_media current m =
     (if current \<noteq> None \<and> previous_media \<noteq> None \<and> current \<noteq> previous_media
      then m\<lparr>sm_observed_different := True,
        sm_stable_count := (if current = sm_stable_identity m then sm_stable_count m + 1 else 1),
        sm_stable_identity := current\<rparr>
      else m\<lparr>sm_stable_identity := None, sm_stable_count := 0\<rparr>)"

definition refresh_embedded_feed_candidate :: "string \<Rightarrow> bool \<Rightarrow> reel_candidate option feed_act" where
  "refresh_embedded_feed_candidate previous should_stop = with_state (\<lambda>s.
     if bf_feed_json s = None \<or> \<not> bf_has_context s \<or> \<not> bf_pages_listed s then ret None
     else bind is_instagram_page (\<lambda>ours. if \<not> ours then ret None else
       bind (ask_stop should_stop) (\<lambda>stopped. if stopped then ret None else
       bind navigate_to_reels (\<lambda>_. bind wait_for_initial_reel (\<lambda>current.
       bind capture_embedded_feed_candidates (\<lambda>_. bind (update_source (mark_used (shortcode current))) (\<lambda>_.
       on_source (next_embedded_from_current_feed previous))))))))"

text \<open>The candidate of a sample, once the media is stable: the page, the queue, or one refresh of the feed.\<close>

definition candidate_after_responses :: "string \<Rightarrow> reel_candidate option feed_act" where
  "candidate_after_responses previous = bind candidate_or_none (\<lambda>candidate.
     case candidate of
       Some c \<Rightarrow>
         if shortcode c \<noteq> previous then bind (remark (\<lambda>m. m\<lparr>sm_dom_confirmation := True\<rparr>)) (\<lambda>_. ret (Some c))
         else with_state (\<lambda>s. on_source (next_after previous (bf_json_checkpoint s)))
     | None \<Rightarrow> with_state (\<lambda>s. on_source (next_after previous (bf_json_checkpoint s))))"

definition candidate_from_queue :: "string \<Rightarrow> bool \<Rightarrow> reel_candidate option feed_act" where
  "candidate_from_queue previous post =
     bind (on_source (if post then next_from_current_feed previous else next_embedded_from_current_feed previous))
       (\<lambda>c. bind (remark (\<lambda>m. m\<lparr>sm_queue_fallback := c \<noteq> None\<rparr>)) (\<lambda>_. ret c))"

definition candidate_from_refresh :: "string \<Rightarrow> bool \<Rightarrow> reel_candidate option feed_act" where
  "candidate_from_refresh previous should_stop = with_state (\<lambda>s.
     if sm_refresh_attempted (bf_sampler s) then ret None
     else bind (remark (\<lambda>m. m\<lparr>sm_refresh_attempted := True\<rparr>)) (\<lambda>_.
       bind (refresh_embedded_feed_candidate previous should_stop) (\<lambda>c.
       bind (remark (\<lambda>m. m\<lparr>sm_feed_refresh := c \<noteq> None\<rparr>)) (\<lambda>_. ret c))))"

definition or_else :: "'a option \<Rightarrow> 'a option feed_act \<Rightarrow> 'a option feed_act" where
  "or_else x a = (case x of None \<Rightarrow> a | Some v \<Rightarrow> ret (Some v))"

definition stable_candidate :: "string \<Rightarrow> bool \<Rightarrow> bool \<Rightarrow> reel_candidate option feed_act" where
  "stable_candidate previous should_stop post =
     bind capture_embedded_feed_candidates (\<lambda>_.
     bind (if post then candidate_after_responses previous else ret None) (\<lambda>c.
     bind (or_else c (candidate_from_queue previous post)) (\<lambda>c.
     or_else c (candidate_from_refresh previous should_stop))))"

definition sample_candidate :: "string \<Rightarrow> string option \<Rightarrow> bool \<Rightarrow> (reel_candidate option \<times> bool) feed_act" where
  "sample_candidate previous previous_media should_stop =
     bind active_media_identity (\<lambda>current.
     bind (remark (see_media previous_media current)) (\<lambda>_. with_state (\<lambda>s.
     let post = (case bf_feed_json s of None \<Rightarrow> False | Some source \<Rightarrow> observed_after (bf_json_checkpoint s) source) in
     bind (if sm_stable_count (bf_sampler s) \<ge> 2 \<and> bf_feed_json s \<noteq> None
           then stable_candidate previous should_stop post else ret None) (\<lambda>candidate.
     bind wait_poll (\<lambda>_. ret (candidate, post))))))"

definition sample_failed :: "exn \<Rightarrow> (reel_candidate option \<times> bool) feed_act" where
  "sample_failed e =
     (case e of
        CollectorRuntimeError code \<Rightarrow> bind (report_stop code) (\<lambda>_. raise e)
      | _ \<Rightarrow>
          if is_exception e
          then bind page_is_closed (\<lambda>c.
            if c then bind (report_stop ''BROWSER_CLOSED'') (\<lambda>_. fails ''BROWSER_CLOSED'') else raise e)
          else raise e)"

definition confirm_candidate :: "reel_candidate \<Rightarrow> bool \<Rightarrow> reel_candidate option feed_act" where
  "confirm_candidate c post =
     bind (mark_used_if_any (shortcode c)) (\<lambda>_.
     bind (modify (\<lambda>s. let m = bf_sampler s in s\<lparr>bf_media_confirmed := False, bf_transition := \<lparr>
       td_poll_count = sm_poll_count m, td_unchanged_sample_count = sm_unchanged_count m,
       td_missing_candidate_count = sm_missing_count m, td_different_candidate_observed = True,
       td_stable_sample_count = sm_stable_count m, td_stable_media_identity_observed = True,
       td_post_action_json_observed = post, td_canonical_confirmation_observed = True,
       td_canonical_dom_confirmation_observed = sm_dom_confirmation m,
       td_canonical_queue_fallback_observed = sm_queue_fallback m,
       td_canonical_feed_refresh_observed = sm_feed_refresh m, td_stop_reason_code = None\<rparr>\<rparr>)) (\<lambda>_.
     ret (Some c)))"

definition settle_sample :: "reel_candidate option \<Rightarrow> bool \<Rightarrow> reel_candidate option feed_act" where
  "settle_sample candidate post =
     bind (remark (\<lambda>m. m\<lparr>sm_poll_count := sm_poll_count m + 1\<rparr>)) (\<lambda>_. with_state (\<lambda>s.
       if sm_stable_count (bf_sampler s) < 2
       then bind (remark (\<lambda>m. m\<lparr>sm_unchanged_count := sm_unchanged_count m + 1\<rparr>)) (\<lambda>_. ret None)
       else
         (case candidate of
            None \<Rightarrow> bind (remark (\<lambda>m. m\<lparr>sm_missing_count := sm_missing_count m + 1\<rparr>)) (\<lambda>_. ret None)
          | Some c \<Rightarrow> confirm_candidate c post)))"

definition sample :: "string \<Rightarrow> string option \<Rightarrow> bool \<Rightarrow> reel_candidate option feed_act" where
  "sample previous previous_media should_stop =
     bind (ask_stop should_stop) (\<lambda>stopped.
     if stopped then bind (report_stop ''TOTAL_TIMEOUT_REACHED'') (\<lambda>_. ret None)
     else bind raise_if_closed (\<lambda>_. bind raise_if_controlled_stop (\<lambda>_.
       bind (try_except (sample_candidate previous previous_media should_stop) sample_failed)
         (\<lambda>(candidate, post). settle_sample candidate post))))"

text \<open>A loop of samples ends with a candidate, with a stop, or with its last poll.\<close>

datatype sampling_end = Confirmed reel_candidate | Stopped | Exhausted

fun sample_rounds :: "nat \<Rightarrow> string \<Rightarrow> string option \<Rightarrow> bool \<Rightarrow> sampling_end feed_act" where
  "sample_rounds 0 previous previous_media should_stop = ret Exhausted"
| "sample_rounds (Suc n) previous previous_media should_stop =
     bind (sample previous previous_media should_stop) (\<lambda>confirmed.
     case confirmed of
       Some c \<Rightarrow> ret (Confirmed c)
     | None \<Rightarrow> with_state (\<lambda>s.
         if td_stop_reason_code (bf_transition s) \<noteq> None then ret Stopped
         else sample_rounds n previous previous_media should_stop))"

definition timed_out :: "reel_candidate option feed_act" where
  "timed_out = bind (modify (\<lambda>s. let m = bf_sampler s in s\<lparr>bf_transition := no_sampling
     \<lparr>td_poll_count := sm_poll_count m, td_unchanged_sample_count := sm_unchanged_count m,
      td_missing_candidate_count := sm_missing_count m, td_different_candidate_observed := sm_observed_different m,
      td_stable_sample_count := sm_stable_count m, td_stable_media_identity_observed := sm_stable_count m \<ge> 2,
      td_post_action_json_observed :=
        (case bf_feed_json s of None \<Rightarrow> False | Some source \<Rightarrow> observed_after (bf_json_checkpoint s) source),
      td_stop_reason_code := Some ''TRANSITION_TIMEOUT''\<rparr>,
      bf_force_wheel := bf_force_wheel s \<or> bf_media_confirmed s\<rparr>)) (\<lambda>_. ret None)"

definition previous_media :: "string option feed_act" where
  "previous_media = with_state (\<lambda>s.
     bind (modify (\<lambda>s. s\<lparr>bf_media_identity := None\<rparr>)) (\<lambda>_.
     if bf_media_identity s = None then active_media_identity else ret (bf_media_identity s)))"

definition feed_wait_for_next :: "string \<Rightarrow> bool \<Rightarrow> reel_candidate option feed_act" where
  "feed_wait_for_next previous should_stop =
     bind (modify (\<lambda>s. s\<lparr>bf_transition := no_sampling\<rparr>)) (\<lambda>_. with_state (\<lambda>s.
     bind (polls_within (tl_timeout_seconds (bf_limits s))) (\<lambda>polls.
     bind (polls_within (tl_stabilization_seconds (bf_limits s))) (\<lambda>stabilization_polls.
     bind (remark (\<lambda>_. fresh_sampler)) (\<lambda>_. bind previous_media (\<lambda>media.
     bind (sample_rounds polls previous media should_stop) (\<lambda>ended.
     case ended of
       Confirmed c \<Rightarrow> ret (Some c)
     | Stopped \<Rightarrow> ret None
     | Exhausted \<Rightarrow> with_state (\<lambda>s.
         if sm_observed_different (bf_sampler s) \<and> sm_stable_count (bf_sampler s) < 2
         then bind (sample_rounds stabilization_polls previous media should_stop) (\<lambda>ended.
           case ended of Confirmed c \<Rightarrow> ret (Some c) | Stopped \<Rightarrow> ret None | Exhausted \<Rightarrow> timed_out)
         else timed_out))))))))"

definition next_from_authenticated_feed :: "string \<Rightarrow> bool \<Rightarrow> reel_candidate option feed_act" where
  "next_from_authenticated_feed previous should_stop =
     bind raise_if_closed (\<lambda>_. bind raise_if_controlled_stop (\<lambda>_. with_state (\<lambda>s.
     if bf_feed_json s = None then ret None
     else bind (ask_stop should_stop) (\<lambda>stopped. if stopped then ret None else
       bind (on_source (next_embedded_from_current_feed previous)) (\<lambda>candidate.
       case candidate of
         Some c \<Rightarrow> bind (update_source (mark_used (shortcode c))) (\<lambda>_. ret (Some c))
       | None \<Rightarrow>
           bind navigate_to_reels (\<lambda>_. bind wait_for_initial_reel (\<lambda>current.
           bind capture_embedded_feed_candidates (\<lambda>_. bind (update_source (mark_used (shortcode current))) (\<lambda>_.
           bind (on_source (next_embedded_from_current_feed previous)) (\<lambda>candidate.
           case candidate of
             None \<Rightarrow> ret None
           | Some c \<Rightarrow> bind (update_source (mark_used (shortcode c))) (\<lambda>_. ret (Some c))))))))))))"

section \<open>Opening and closing\<close>

text \<open>\<open>_close_runtime\<close>: what was acquired is released, each release on its own.\<close>

definition close_runtime :: "unit feed_act" where
  "close_runtime = block
     [when bf_has_context (attempt (perform CloseContext)),
      when bf_has_playwright (attempt (perform StopPlaywright)),
      when bf_has_lock (attempt (perform ReleaseLock))]"

definition close_feed :: "unit feed_act" where
  "close_feed = with_state (\<lambda>s.
     if bf_closed s then ret () else bind (modify (\<lambda>s. s\<lparr>bf_closed := True\<rparr>)) (\<lambda>_. close_runtime))"

text \<open>A missing lock file is no failure: its outcome counts as success.\<close>

definition clear_transient_chromium_locks :: "unit feed_act" where
  "clear_transient_chromium_locks = block
     (map (\<lambda>file. try_except (perform (UnlinkLock file)) (\<lambda>e. if e = LookupError then ret () else raise e))
        [''SingletonLock'', ''SingletonSocket'', ''SingletonCookie''])"

definition first_page :: "unit feed_act" where
  "first_page = bind context_pages (\<lambda>pages.
     case pages of
       page # _ \<Rightarrow> modify (\<lambda>s. s\<lparr>bf_page := page\<rparr>)
     | [] \<Rightarrow> perform NewPage)"

text \<open>The constructor: a feed without responses stays usable when the page cannot be listened to.\<close>

definition new_feed :: "bool \<Rightarrow> unit feed_act" where
  "new_feed observe_feed_json =
     bind (modify (\<lambda>s. s\<lparr>bf_scroll_attempts := 0, bf_closed := False, bf_diagnostics := empty_diagnostics,
       bf_transition := no_sampling, bf_target := no_scroll_target, bf_media_identity := None,
       bf_media_confirmed := False, bf_json_checkpoint := 0, bf_force_wheel := False, bf_feed_json := None\<rparr>)) (\<lambda>_.
     if \<not> observe_feed_json then ret ()
     else attempt (bind (perform ListenToResponses) (\<lambda>_. modify (\<lambda>s. s\<lparr>bf_feed_json := Some new_feed_source\<rparr>))))"

definition open_body :: "bool \<Rightarrow> bool \<Rightarrow> bool \<Rightarrow> unit feed_act" where
  "open_body allow_login_bootstrap navigate observe_feed_json = block
     [perform ProfilePath,
      modify (\<lambda>s. s\<lparr>bf_has_lock := True\<rparr>),
      perform AcquireLock,
      clear_transient_chromium_locks,
      perform StartPlaywright,
      modify (\<lambda>s. s\<lparr>bf_has_playwright := True\<rparr>),
      perform LaunchContext,
      modify (\<lambda>s. s\<lparr>bf_has_context := True\<rparr>),
      first_page,
      new_feed observe_feed_json,
      if navigate then navigate_to_reels else ret (),
      if allow_login_bootstrap then ret () else raise_if_controlled_stop]"

definition open_failed :: "exn \<Rightarrow> unit feed_act" where
  "open_failed e =
     (case e of
        CollectorRuntimeError code \<Rightarrow> bind close_runtime (\<lambda>_. raise e)
      | _ \<Rightarrow> if is_exception e then bind close_runtime (\<lambda>_. fails ''BROWSER_CLOSED'') else raise e)"

definition open_feed :: "unit result \<Rightarrow> bool \<Rightarrow> bool \<Rightarrow> bool \<Rightarrow> unit feed_act" where
  "open_feed require_live allow_login_bootstrap navigate observe_feed_json =
     bind (call require_live) (\<lambda>_.
     bind (modify (\<lambda>s. s\<lparr>bf_has_lock := False, bf_has_playwright := False, bf_has_context := False\<rparr>)) (\<lambda>_.
     try_except (open_body allow_login_bootstrap navigate observe_feed_json) open_failed))"

definition cookie_context :: "unit feed_act" where
  "cookie_context = with_state (\<lambda>s.
     if \<not> bf_has_context s \<or> bf_closed s then fails ''BROWSER_CLOSED'' else ret ())"

section \<open>Diagnostics\<close>

fun identity_structure_rounds :: "nat \<Rightarrow> ((string \<times> int) list \<times> (string \<times> bool) list) feed_act" where
  "identity_structure_rounds 0 = ret (identity_structure_from_payload JsNull)"
| "identity_structure_rounds (Suc n) =
     bind raise_if_closed (\<lambda>_. bind raise_if_controlled_stop (\<lambda>_.
     bind (evaluate IdentityStructureProbe) (\<lambda>payload.
     let result = identity_structure_from_payload payload in
     if map_of (snd result) ''central_video_present'' = Some True then ret result
     else if n = 0 then ret result
     else bind wait_poll (\<lambda>_. identity_structure_rounds n))))"

definition identity_structure_diagnostics :: "((string \<times> int) list \<times> (string \<times> bool) list) feed_act" where
  "identity_structure_diagnostics = with_state (\<lambda>s.
     if bf_closed s then fails ''BROWSER_CLOSED''
     else bind (polls_within (tl_timeout_seconds (bf_limits s))) identity_structure_rounds)"

definition embedded_application_data_diagnostics :: "(string \<times> int) list feed_act" where
  "embedded_application_data_diagnostics = with_state (\<lambda>s.
     if bf_closed s then fails ''BROWSER_CLOSED''
     else try_except (bind (evaluate EmbeddedDataProbe) (\<lambda>v. ret (embedded_application_data_from_payload v)))
       (\<lambda>e. if is_exception e then ret (embedded_application_data_from_payload JsNull) else raise e))"

definition feed_queue_diagnostics :: "(int \<times> int) feed_act" where
  "feed_queue_diagnostics = with_state (\<lambda>s.
     case bf_feed_json s of None \<Rightarrow> ret (0, 0) | Some source \<Rightarrow> ret (queue_diagnostics source))"

definition feed_source_diagnostics :: "(string \<times> int) list feed_act" where
  "feed_source_diagnostics = with_state (\<lambda>s.
     let counts = (\<lambda>f keys. map (\<lambda>(name, key). (name, case bf_feed_json s of None \<Rightarrow> 0 | Some source \<Rightarrow> f source key)) keys) in
     ret (counts fs_source_classes (map (\<lambda>k. (k, k)) [''graphql'', ''web_api'', ''other'']) @
          counts fs_schema_counts (map (\<lambda>k. (k, k))
            [''media_nodes'', ''canonical_shaped_values'', ''web_api_media_nodes'', ''web_api_canonical_shaped_values'',
             ''web_api_allowed_canonical_alias_values'', ''web_api_tree_allowed_canonical_alias_values'',
             ''web_api_schema_responses'', ''graphql_tree_allowed_canonical_alias_values'', ''graphql_schema_responses'',
             ''other_tree_allowed_canonical_alias_values'', ''other_schema_responses'']) @
          counts fs_non_json_response_classes (map (\<lambda>k. (''non_json_'' @ k, k)) [''html'', ''javascript'', ''other''])))"

record modal_snapshot =
  ml_central_video_found :: bool
  ml_central_video_in_viewport :: bool
  ml_direct_hit_start :: bool
  ml_direct_hit_end :: bool
  ml_video_below_top_point_stack_hit :: bool
  ml_top_hit_interactive_or_control_inherited :: bool
  ml_control_focusable :: bool
  ml_control_role_button :: bool
  ml_control_modal_or_dialog_ancestor :: bool
  ml_control_disabled :: bool
  ml_control_aria_disabled :: bool
  ml_top_hit_fixed_ancestor :: bool
  ml_top_hit_covers_viewport :: bool
  ml_top_hit_covers_video :: bool
  ml_top_hit_is_exact_shell_surface :: bool
  ml_top_hit_shell_surface_eligible :: bool
  ml_visual_viewport_differs_from_layout :: bool

definition modal_snapshot_of :: "(string \<times> js_value) list \<Rightarrow> bool \<Rightarrow> modal_snapshot" where
  "modal_snapshot_of es available =
     (let flag = (\<lambda>k. is_true es (''hit_test_'' @ k)) in
      \<lparr>ml_central_video_found = available, ml_central_video_in_viewport = is_true es ''in_viewport'',
       ml_direct_hit_start = flag ''start_video_observed'', ml_direct_hit_end = flag ''end_video_observed'',
       ml_video_below_top_point_stack_hit = flag ''stack_video_below_hit'',
       ml_top_hit_interactive_or_control_inherited = (flag ''miss_control'' \<or> flag ''control_inherited''),
       ml_control_focusable = flag ''control_focusable'', ml_control_role_button = flag ''control_role_button'',
       ml_control_modal_or_dialog_ancestor = flag ''control_modal_or_dialog_ancestor'',
       ml_control_disabled = flag ''control_disabled'', ml_control_aria_disabled = flag ''control_aria_disabled'',
       ml_top_hit_fixed_ancestor = flag ''hit_fixed_ancestor'', ml_top_hit_covers_viewport = flag ''hit_covers_viewport'',
       ml_top_hit_covers_video = (flag ''hit_covers_visible_video'' \<or> flag ''control_covers_visible_video''),
       ml_top_hit_is_exact_shell_surface = flag ''hit_is_shell_surface'',
       ml_top_hit_shell_surface_eligible = flag ''shell_surface_eligible'',
       ml_visual_viewport_differs_from_layout = flag ''visual_viewport_differs_from_layout''\<rparr>)"

definition modal_lifecycle_snapshot :: "modal_snapshot feed_act" where
  "modal_lifecycle_snapshot = bind raise_if_closed (\<lambda>_.
     bind (try_except (evaluate InputTargetProbe) (\<lambda>e. when_page_gone e (fails ''ACTIVE_REEL_NOT_FOUND''))) (\<lambda>v.
     case Option.bind (entries v) (\<lambda>es. map_of es ''available'') of
       Some (JsBool available) \<Rightarrow> ret (modal_snapshot_of (the (entries v)) available)
     | _ \<Rightarrow> fails ''ACTIVE_REEL_NOT_FOUND''))"

definition modal_lifecycle_wait :: "rat \<Rightarrow> unit feed_act" where
  "modal_lifecycle_wait delay = bind raise_if_closed (\<lambda>_. perform (WaitForTimeout (delay * 1000)))"

end
