(* ===== verification/BrowserSafety.thy ===== *)
theory BrowserSafety
  imports BrowserOps FeedProps
begin

text \<open>
  What the operations of the browser feed may change. A relation between the states before and after that admits
  changes outside the core of the state, the steps of the feed source and some of the page calls is respected by
  every operation that makes no other call; the moves of the feed need the calls that send input as well.
\<close>

named_theorems feed_stays \<open>statements that stay inside a relation of the browser feed\<close>

section \<open>Steps of the feed source\<close>

text \<open>A step of the feed source prolongs its history.\<close>

definition source_step :: "feed_source \<Rightarrow> feed_source \<Rightarrow> bool" where
  "source_step a b \<longleftrightarrow> (\<forall>given. feed_history given a \<longrightarrow> (\<exists>more. feed_history (given @ more) b))"

lemma source_stepI: "(\<And>given. feed_history given a \<Longrightarrow> feed_history given b) \<Longrightarrow> source_step a b"
  unfolding source_step_def by (metis append_Nil2)

lemma source_step_observe: "source_step a (fold observe_response rs a)"
proof (rule source_stepI)
  fix given assume "feed_history given a"
  then show "feed_history given (fold observe_response rs a)"
    by (induction rs arbitrary: a) (auto intro: feed_history.observed)
qed

lemma take_code_step:
  assumes "\<And>c t given. take_code wanted a = (Some c, t) \<Longrightarrow> feed_history given a \<Longrightarrow> feed_history (given @ [shortcode c]) t"
  shows "source_step a (snd (take_code wanted a))"
proof (cases "fst (take_code wanted a)")
  case None
  then have "snd (take_code wanted a) = a" by (auto simp: take_code_def split: option.splits)
  then show ?thesis by (simp add: source_stepI)
next
  case (Some c)
  then have "take_code wanted a = (Some c, snd (take_code wanted a))" by (simp add: prod_eq_iff)
  from assms [OF this] show ?thesis unfolding source_step_def by blast
qed

lemma source_steps:
  "source_step a (mark_used code a)"
  "source_step a (observe_embedded_candidates payload a)"
  "source_step a (reset_for_feed_navigation a)"
  "source_step a (snd (next_after previous n a))"
  "source_step a (snd (next_from_current_feed previous a))"
  "source_step a (snd (next_embedded_from_current_feed previous a))"
proof -
  show "source_step a (mark_used code a)" "source_step a (observe_embedded_candidates payload a)"
    "source_step a (reset_for_feed_navigation a)"
    by (auto intro!: source_stepI intro: feed_history.intros)
  show "source_step a (snd (next_after previous n a))"
    unfolding next_after_def
    by (rule take_code_step) (auto intro: feed_history.after [unfolded next_after_def])
  show "source_step a (snd (next_from_current_feed previous a))"
    unfolding next_from_current_feed_def
    by (rule take_code_step) (auto intro: feed_history.current [unfolded next_from_current_feed_def])
  show "source_step a (snd (next_embedded_from_current_feed previous a))"
    unfolding next_embedded_from_current_feed_def
    by (rule take_code_step) (auto intro: feed_history.script [unfolded next_embedded_from_current_feed_def])
qed

section \<open>Relations between the states of a feed\<close>

text \<open>The fields that no bookkeeping touches: what the feed counts, knows, holds and has asked of the browser.\<close>

definition held :: "browser_feed \<Rightarrow> bool \<times> bool \<times> bool" where
  "held s = (bf_has_lock s, bf_has_playwright s, bf_has_context s)"

definition core :: "browser_feed \<Rightarrow>
    transition_limits \<times> int \<times> bool \<times> feed_source option \<times> (bool \<times> bool \<times> bool) \<times> (nat \<times> page_call) list" where
  "core s = (bf_limits s, bf_scroll_attempts s, bf_closed s, bf_feed_json s, held s, bf_log s)"

definition page_only :: "page_call \<Rightarrow> bool" where
  "page_only c \<longleftrightarrow> (case c of Evaluate _ \<Rightarrow> True | Goto _ \<Rightarrow> True | WaitForTimeout _ \<Rightarrow> True | _ \<Rightarrow> False)"

lemma page_only_simps [simp]:
  "page_only (Evaluate p)" "page_only (Goto url)" "page_only (WaitForTimeout t)"
  by (simp_all add: page_only_def)

locale feed_change = state_relation R for R :: "browser_feed \<Rightarrow> browser_feed \<Rightarrow> bool" +
  fixes allowed :: "page_call \<Rightarrow> bool"
  assumes outside: "core s = core t \<Longrightarrow> R s t"
    and source: "bf_feed_json s = Some a \<Longrightarrow> source_step a b \<Longrightarrow> R s (s\<lparr>bf_feed_json := Some b\<rparr>)"
    and logged: "allowed c \<Longrightarrow> R s (s\<lparr>bf_log := bf_log s @ [(p, c)]\<rparr>)"
    and page_only_allowed: "page_only c \<Longrightarrow> allowed c"
begin

lemmas [feed_stays] = stays_rules

lemma stays_outside: "(\<And>s. core (f s) = core s) \<Longrightarrow> stays R (modify f)"
  by (rule stays_modify, rule outside) simp

lemma stays_dispatch [feed_stays]: "stays R dispatch"
  unfolding dispatch_def
proof (rule stays_modify)
  fix s :: browser_feed
  let ?t = "s\<lparr>bf_arrivals := tl (bf_arrivals s)\<rparr>"
  have first: "R s ?t" by (rule outside) (simp add: core_def held_def)
  show "R s (s\<lparr>bf_arrivals := tl (bf_arrivals s),
      bf_feed_json := map_option (fold observe_response (take_front [] (bf_arrivals s))) (bf_feed_json s)\<rparr>)"
  proof (cases "bf_feed_json s")
    case None
    then show ?thesis by (intro outside) (simp add: core_def held_def)
  next
    case (Some a)
    then have "R ?t (?t\<lparr>bf_feed_json := Some (fold observe_response (take_front [] (bf_arrivals s)) a)\<rparr>)"
      by (intro source [where a = a]) (simp_all add: source_step_observe)
    then show ?thesis using trans [OF first] Some by simp
  qed
qed

lemma stays_log [feed_stays]: "allowed c \<Longrightarrow> stays R (log_call p c)"
  unfolding log_call_def by (rule stays_modify, rule logged)

lemma stays_environment [feed_stays]:
  "stays R answer_of_page" "stays R outcome_of_call" "stays R page_shut" "stays R context_pages" "stays R page_url"
  "stays R (ask_stop given)" "stays R (get_feed g)"
  unfolding answer_of_page_def outcome_of_call_def page_shut_def context_pages_def page_url_def ask_stop_def get_feed_def
  by (auto intro!: feed_stays stays_outside simp: core_def held_def)

lemma stays_evaluate [feed_stays]: "stays R (evaluate_on p q)" "stays R (evaluate q)"
  unfolding evaluate_on_def evaluate_def
  by (intro feed_stays page_only_allowed; simp)+

lemma stays_perform [feed_stays]: "allowed c \<Longrightarrow> stays R (perform c)"
  unfolding perform_def by (auto intro!: feed_stays)

lemma stays_on_source [feed_stays]: "(\<And>a. source_step a (snd (f a))) \<Longrightarrow> stays R (on_source f)"
proof (rule staysI)
  fix s r t assume step: "\<And>a. source_step a (snd (f a))" and run: "on_source f s = (r, t)"
  show "R s t"
  proof (cases "bf_feed_json s")
    case None
    then show ?thesis using run refl by (simp add: on_source_def act_defs)
  next
    case (Some a)
    then have "t = s\<lparr>bf_feed_json := Some (snd (f a))\<rparr>" using run by (auto simp: on_source_def act_defs)
    then show ?thesis using source [OF Some step] by simp
  qed
qed

lemma stays_update_source [feed_stays]: "(\<And>a. source_step a (f a)) \<Longrightarrow> stays R (update_source f)"
  unfolding update_source_def by (rule stays_on_source) simp

lemma stays_except_none [feed_stays]: "stays R a \<Longrightarrow> stays R (except_none a)"
  unfolding except_none_def by (auto intro!: feed_stays)

lemma stays_polls [feed_stays]: "stays R wait_poll" "stays R (polls_within t)"
  unfolding wait_poll_def polls_within_def Let_def
  by (auto intro!: feed_stays page_only_allowed)

lemma stays_closed_checks [feed_stays]: "stays R page_is_closed" "stays R raise_if_closed"
  unfolding page_is_closed_def raise_if_closed_def by (auto intro!: feed_stays)

lemma stays_when_page_gone [feed_stays]: "stays R a \<Longrightarrow> stays R (when_page_gone e a)"
  unfolding when_page_gone_def by (auto intro!: feed_stays)

lemma stays_controlled_stop [feed_stays]: "stays R raise_if_controlled_stop"
  unfolding raise_if_controlled_stop_def by (auto intro!: feed_stays split: option.split)

lemma stays_records [feed_stays]:
  "stays R (set_reason_code code)" "stays R (set_target g)" "stays R (remark h)" "stays R (report_stop halt)"
  "stays R timed_out"
  unfolding set_reason_code_def set_target_def remark_def report_stop_def timed_out_def Let_def
  by (auto intro!: feed_stays stays_outside simp: core_def held_def)

lemma stays_addresses [feed_stays]: "stays R is_instagram_page" "stays R looks_like_reels_path"
  unfolding is_instagram_page_def looks_like_reels_path_def by (auto intro!: feed_stays split: option.split)

lemma stays_identity [feed_stays]: "stays R active_media_identity" "stays R (media_changed previous)"
  unfolding active_media_identity_def media_changed_def
  by (auto intro!: feed_stays split: option.split js_value.split)

lemma stays_capture [feed_stays]: "stays R capture_embedded_feed_candidates"
  unfolding capture_embedded_feed_candidates_def by (auto intro!: feed_stays source_steps)

lemma stays_candidate [feed_stays]: "stays R candidate_from_probe" "stays R candidate_or_none"
proof -
  show "stays R candidate_from_probe"
    unfolding candidate_from_probe_def
    by (auto intro!: feed_stays stays_outside simp: core_def held_def split: option.split sum.split)
  then show "stays R candidate_or_none"
    unfolding candidate_or_none_def by (auto intro!: feed_stays)
qed

lemma stays_look [feed_stays]: "stays R (look_at_reels page sel)" "stays R (look_at_page page sel)"
proof -
  show look: "stays R (look_at_reels page sel)" for sel
    unfolding look_at_reels_def by (auto intro!: feed_stays split: option.split)
  show "stays R (look_at_page page sel)"
    unfolding look_at_page_def Let_def by (auto intro!: feed_stays look split: option.split)
qed

lemma stays_look_pages [feed_stays]: "stays R (look_at_pages pages sel)"
  by (induction pages arbitrary: sel) (auto intro!: feed_stays)

lemma stays_select [feed_stays]: "stays R select_reels_page"
  unfolding select_reels_page_def Let_def
  by (auto intro!: feed_stays stays_outside simp: core_def held_def split: option.split)

lemma stays_initial [feed_stays]: "stays R (wait_for_initial n)"
  by (induction n) (auto intro!: feed_stays)

lemma stays_initial_reel [feed_stays]: "stays R wait_for_initial_reel"
  unfolding wait_for_initial_reel_def by (auto intro!: feed_stays)

lemma stays_mark_used [feed_stays]: "stays R (mark_used_if_any code)"
  unfolding mark_used_if_any_def by (auto intro!: feed_stays source_steps)

lemma stays_current [feed_stays]: "stays R current_reel" "stays R pause_current"
  unfolding current_reel_def pause_current_def by (auto intro!: feed_stays)

lemma stays_navigate [feed_stays]: "stays R navigate_to_reels"
proof -
  have "stays R (modify (\<lambda>s. s\<lparr>bf_feed_json := map_option reset_for_feed_navigation (bf_feed_json s)\<rparr>))"
  proof (rule stays_modify)
    fix s show "R s (s\<lparr>bf_feed_json := map_option reset_for_feed_navigation (bf_feed_json s)\<rparr>)"
      by (cases "bf_feed_json s") (auto intro: outside source source_steps simp: core_def held_def)
  qed
  then show ?thesis
    unfolding navigate_to_reels_def by (auto intro!: feed_stays page_only_allowed)
qed

lemma stays_await_media [feed_stays]: "stays R (await_media n previous settled)" "stays R (wait_for_media_transition previous t)"
proof -
  show await: "stays R (await_media n previous settled)" for n settled
    by (induction n arbitrary: settled) (auto intro!: feed_stays)
  show "stays R (wait_for_media_transition previous t)"
    unfolding wait_for_media_transition_def by (auto intro!: feed_stays await)
qed

lemma stays_targets [feed_stays]: "stays R targeted_wheel_point" "stays R active_feed_input_target"
  unfolding targeted_wheel_point_def active_feed_input_target_def Let_def
  by (auto intro!: feed_stays split: option.split js_value.split)

lemma stays_container [feed_stays]: "stays R (scroll_container_advances previous)"
  unfolding scroll_container_advances_def not_sent_def by (auto intro!: feed_stays)

lemma stays_begin [feed_stays]: "stays R begin_transition"
  unfolding begin_transition_def by (auto intro!: feed_stays stays_outside simp: core_def held_def)

lemma stays_sample_parts [feed_stays]:
  "stays R (refresh_embedded_feed_candidate previous asked)" "stays R (candidate_after_responses previous)"
  "stays R (candidate_from_queue previous post)"
  unfolding refresh_embedded_feed_candidate_def candidate_after_responses_def candidate_from_queue_def
  by (auto intro!: feed_stays source_steps split: option.split)

lemma stays_refresh [feed_stays]: "stays R (candidate_from_refresh previous asked)"
  unfolding candidate_from_refresh_def by (auto intro!: feed_stays)

lemma stays_or_else [feed_stays]: "stays R a \<Longrightarrow> stays R (or_else x a)"
  unfolding or_else_def by (auto intro!: feed_stays split: option.split)

lemma stays_stable_candidate [feed_stays]: "stays R (stable_candidate previous asked post)"
  unfolding stable_candidate_def by (auto intro!: feed_stays)

lemma stays_sample_candidate [feed_stays]: "stays R (sample_candidate previous media asked)"
  unfolding sample_candidate_def Let_def by (auto intro!: feed_stays)

lemma stays_sample_failed [feed_stays]: "stays R (sample_failed e)"
  unfolding sample_failed_def by (auto intro!: feed_stays split: exn.split)

lemma stays_settle [feed_stays]: "stays R (confirm_candidate c post)" "stays R (settle_sample candidate post)"
proof -
  show confirm: "stays R (confirm_candidate c post)" for c
    unfolding confirm_candidate_def Let_def by (auto intro!: feed_stays stays_outside simp: core_def held_def)
  show "stays R (settle_sample candidate post)"
    unfolding settle_sample_def by (auto intro!: feed_stays confirm split: option.split)
qed

lemma stays_sample [feed_stays]: "stays R (sample previous media asked)"
  unfolding sample_def by (auto intro!: feed_stays split: prod.split)

lemma stays_sample_rounds [feed_stays]: "stays R (sample_rounds n previous media asked)"
  by (induction n) (auto intro!: feed_stays split: option.split)

lemma stays_previous_media [feed_stays]: "stays R previous_media"
  unfolding previous_media_def by (auto intro!: feed_stays stays_outside simp: core_def held_def)

lemma stays_wait_for_next [feed_stays]: "stays R (feed_wait_for_next previous asked)"
  unfolding feed_wait_for_next_def by (auto intro!: feed_stays stays_outside simp: core_def held_def split: sampling_end.split)

lemma stays_next_from_feed [feed_stays]: "stays R (next_from_authenticated_feed previous asked)"
  unfolding next_from_authenticated_feed_def by (auto intro!: feed_stays source_steps split: option.split)

lemma stays_diagnostics [feed_stays]:
  "stays R cookie_context" "stays R embedded_application_data_diagnostics" "stays R feed_queue_diagnostics"
  "stays R feed_source_diagnostics" "stays R modal_lifecycle_snapshot" "stays R (modal_lifecycle_wait t)"
  unfolding cookie_context_def embedded_application_data_diagnostics_def feed_queue_diagnostics_def
    feed_source_diagnostics_def modal_lifecycle_snapshot_def modal_lifecycle_wait_def Let_def
  by (auto intro!: feed_stays page_only_allowed split: option.split js_value.split)

lemma stays_structure [feed_stays]: "stays R (identity_structure_rounds n)" "stays R identity_structure_diagnostics"
proof -
  show rounds: "stays R (identity_structure_rounds n)" for n
    by (induction n) (auto intro!: feed_stays simp: Let_def)
  show "stays R identity_structure_diagnostics"
    unfolding identity_structure_diagnostics_def by (auto intro!: feed_stays rounds)
qed

end

end
