(* ===== verification/BrowserProps.thy ===== *)
theory BrowserProps
  imports BrowserSafety
begin

text \<open>
  The promises of the browser feed to the engine: a bounded number of moves that each send a bounded amount of
  input, a next Reel that is new, silence after it is closed, and no resource left behind by a failed opening.
\<close>

section \<open>Moves\<close>

locale feed_input = feed_change +
  assumes all_allowed: "allowed c"
begin

lemma stays_press_keys: "stays R (press_keys keys previous)"
  by (induction keys) (auto intro!: feed_stays all_allowed simp: not_sent_def)

lemma stays_moves:
  "stays R pointer_wheel_advance" "stays R (mobile_feed_swipe_advances previous)" "stays R (keyboard_advances previous)"
proof -
  show "stays R pointer_wheel_advance"
    unfolding pointer_wheel_advance_def by (auto intro!: feed_stays all_allowed split: option.split)
  have "stays R (send_swipe x y z)" for x y z
    unfolding send_swipe_def not_sent_def by (auto intro!: feed_stays all_allowed)
  then show "stays R (mobile_feed_swipe_advances previous)"
    unfolding mobile_feed_swipe_advances_def by (auto intro!: feed_stays split: option.split)
  show "stays R (keyboard_advances previous)"
    unfolding keyboard_advances_def by (auto intro!: feed_stays stays_press_keys simp del: press_keys.simps)
qed

lemma stays_close: "(\<And>s. R s (s\<lparr>bf_closed := True\<rparr>)) \<Longrightarrow> stays R close_feed"
  unfolding close_feed_def close_runtime_def
  by (auto intro!: feed_stays all_allowed stays_modify)

lemma stays_advance:
  assumes "stays R count_scroll"
  shows "stays R advance"
proof -
  have "stays R confirmed_scroll" "stays R wheel_scroll"
    unfolding confirmed_scroll_def wheel_scroll_def
    by (auto intro!: feed_stays stays_outside assms stays_moves simp: core_def held_def)
  then show ?thesis
    unfolding advance_def send_input_def
    by (auto intro!: feed_stays stays_moves stays_outside simp: core_def held_def split: option.split)
qed

end

definition same_attempts :: "browser_feed \<Rightarrow> browser_feed \<Rightarrow> bool" where
  "same_attempts s t \<longleftrightarrow> bf_limits t = bf_limits s \<and> bf_scroll_attempts t = bf_scroll_attempts s"

interpretation attempts: feed_input same_attempts "\<lambda>_. True"
  by unfold_locales (auto simp: same_attempts_def core_def held_def)

text \<open>The feed source goes on where it was.\<close>

definition prolongs :: "browser_feed \<Rightarrow> browser_feed \<Rightarrow> bool" where
  "prolongs s t \<longleftrightarrow>
     (case bf_feed_json s of
        None \<Rightarrow> bf_feed_json t = None
      | Some a \<Rightarrow> (\<exists>b. bf_feed_json t = Some b \<and> source_step a b))"

lemma source_step_refl: "source_step a a"
  by (simp add: source_stepI)

lemma source_step_trans: "source_step a b \<Longrightarrow> source_step b c \<Longrightarrow> source_step a c"
  unfolding source_step_def by (metis append_assoc)

interpretation prolonged: feed_input prolongs "\<lambda>_. True"
  by unfold_locales
    (auto simp: prolongs_def core_def held_def source_step_refl split: option.splits intro: source_step_trans)

definition is_input :: "page_call \<Rightarrow> bool" where
  "is_input c \<longleftrightarrow> (case c of MouseMove _ _ \<Rightarrow> True | MouseWheel _ \<Rightarrow> True | PressKey _ \<Rightarrow> True | TouchEvent _ _ \<Rightarrow> True | _ \<Rightarrow> False)"

definition inputs :: "browser_feed \<Rightarrow> nat" where
  "inputs s = length (filter (\<lambda>(_, c). is_input c) (bf_log s))"

definition no_input :: "browser_feed \<Rightarrow> browser_feed \<Rightarrow> bool" where
  "no_input s t \<longleftrightarrow> inputs t = inputs s"

lemma is_input_simps [simp]:
  "is_input (MouseMove x y)" "is_input (MouseWheel n)" "is_input (PressKey k)" "is_input (TouchEvent e ps)"
  "\<not> is_input NewCdpSession" "\<not> is_input DetachCdp" "\<not> is_input CloseContext" "\<not> is_input StopPlaywright"
  "\<not> is_input ReleaseLock"
  by (simp_all add: is_input_def)

interpretation quiet: feed_change no_input "\<lambda>c. \<not> is_input c"
  by unfold_locales (auto simp: no_input_def inputs_def core_def held_def page_only_def is_input_def split: page_call.splits)

text \<open>\<open>sends n a\<close>: the statement sends at most \<open>n\<close> inputs.\<close>

definition sends :: "nat \<Rightarrow> 'a feed_act \<Rightarrow> bool" where
  "sends n a \<longleftrightarrow> (\<forall>s. wp a (\<lambda>_ t. inputs t \<le> inputs s + n) s)"

lemma sendsD: "sends n a \<Longrightarrow> a s = (r, t) \<Longrightarrow> inputs t \<le> inputs s + n"
  unfolding sends_def by (metis (no_types, lifting) wpD)

lemma sendsI: "(\<And>s r t. a s = (r, t) \<Longrightarrow> inputs t \<le> inputs s + n) \<Longrightarrow> sends n a"
  by (auto simp: sends_def wp_def split: prod.splits)

lemma sends_quiet: "stays no_input a \<Longrightarrow> sends n a"
  by (rule sendsI) (auto dest!: staysD simp: no_input_def)

lemma sends_bind: "sends m a \<Longrightarrow> (\<And>x. sends n (f x)) \<Longrightarrow> sends (m + n) (bind a f)"
  by (rule sendsI) (fastforce simp: bind_def split: prod.splits sum.splits dest: sendsD)

lemma sends_more: "sends m a \<Longrightarrow> m \<le> n \<Longrightarrow> sends n a"
  by (rule sendsI) (fastforce dest: sendsD)

lemma sends_then: "sends n a \<Longrightarrow> (\<And>x. stays no_input (f x)) \<Longrightarrow> sends n (bind a f)"
  using sends_bind [of n a 0 f] by (simp add: sends_quiet)

lemma sends_after: "stays no_input a \<Longrightarrow> (\<And>x. sends n (f x)) \<Longrightarrow> sends n (bind a f)"
  using sends_bind [of 0 a n f] by (simp add: sends_quiet)

lemma sends_with_state: "(\<And>s. sends n (f s)) \<Longrightarrow> sends n (with_state f)"
  by (rule sendsI) (auto simp: with_state_def dest: sendsD)

lemma sends_try: "sends n a \<Longrightarrow> (\<And>e. stays no_input (h e)) \<Longrightarrow> sends n (try_except a h)"
  by (rule sendsI)
    (fastforce simp: try_except_def no_input_def split: prod.splits sum.splits signal.splits dest: sendsD staysD)

lemma sends_finally: "sends n a \<Longrightarrow> stays no_input f \<Longrightarrow> sends n (finally_do a f)"
  by (rule sendsI)
    (fastforce simp: finally_do_def no_input_def split: prod.splits sum.splits dest: sendsD staysD)

lemma sends_perform: "sends 1 (perform c)"
proof -
  have "sends 1 (log_call p c)" for p
    by (rule sendsI) (auto simp: log_call_def modify_def inputs_def)
  then show ?thesis
    unfolding perform_def by (intro sends_with_state sends_then quiet.stays_bind feed_stays)
qed

lemma sends_block_Cons: "sends m a \<Longrightarrow> sends n (block as) \<Longrightarrow> sends (m + n) (block (a # as))"
  by (auto intro: sends_bind)

lemma sends_wheel: "sends 2 pointer_wheel_advance"
proof -
  have "sends (1 + (1 + 0)) (block [perform (MouseMove x y), perform (MouseWheel n), set_target f])" for x y n f
    by (intro sends_block_Cons sends_perform sends_quiet quiet.stays_block) (auto intro: feed_stays)
  then have wheel: "sends 2 (block [perform (MouseMove x y), perform (MouseWheel n), set_target f])" for x y n f
    by (simp add: numeral_2_eq_2)
  show ?thesis
    unfolding pointer_wheel_advance_def
    by (rule sends_after [OF quiet.stays_targets(1)])
      (auto intro!: sends_try wheel sends_quiet [OF quiet.stays_stop] quiet.stays_when_page_gone quiet.stays_stop
        split: option.split simp del: block.simps)
qed

lemma sends_swipe: "sends 3 (mobile_feed_swipe_advances previous)"
proof -
  have "sends (1 + (1 + (1 + 0))) (block [perform (TouchEvent e1 p1), perform (TouchEvent e2 p2), perform (TouchEvent e3 p3), set_target f])"
    for e1 p1 e2 p2 e3 p3 f
    by (intro sends_block_Cons sends_perform sends_quiet quiet.stays_block) (auto intro: feed_stays)
  then have touches: "sends 3 (block [perform (TouchEvent e1 p1), perform (TouchEvent e2 p2), perform (TouchEvent e3 p3), set_target f])"
    for e1 p1 e2 p2 e3 p3 f
    by (simp add: numeral_3_eq_3)
  have gone: "stays no_input (not_sent e)" for e unfolding not_sent_def by (auto intro!: feed_stays)
  have "sends 3 (send_swipe x y z)" for x y z
    unfolding send_swipe_def
  proof (rule sends_after)
    show "stays no_input (try_except (bind (perform NewCdpSession) (\<lambda>_. ret True)) not_sent)"
      by (auto intro!: feed_stays gone)
    fix opened :: bool
    show "sends 3 (if \<not> opened then ret False else finally_do
       (try_except
          (bind (block [perform (TouchEvent ''touchStart'' [(x, y)]), perform (TouchEvent ''touchMove'' [(x, z)]),
              perform (TouchEvent ''touchEnd'' []),
              set_target (\<lambda>d. d\<lparr>sd_active_feed_target_available := True, sd_active_feed_target_in_viewport := True,
                sd_active_feed_target_hit_testable := True, sd_mobile_swipe_performed := True\<rparr>)])
            (\<lambda>_. ret True))
          not_sent)
       (attempt (perform DetachCdp)))"
    proof (cases opened)
      case True
      have "sends 3 (bind (block [perform (TouchEvent ''touchStart'' [(x, y)]), perform (TouchEvent ''touchMove'' [(x, z)]),
              perform (TouchEvent ''touchEnd'' []),
              set_target (\<lambda>d. d\<lparr>sd_active_feed_target_available := True, sd_active_feed_target_in_viewport := True,
                sd_active_feed_target_hit_testable := True, sd_mobile_swipe_performed := True\<rparr>)])
            (\<lambda>_. ret True))"
        by (rule sends_then [OF touches]) (rule quiet.stays_ret)
      from sends_finally [OF sends_try [OF this gone]] show ?thesis
        using True by (simp add: quiet.stays_attempt quiet.stays_perform del: block.simps)
    qed (auto intro!: sends_quiet feed_stays)
  qed
  then show ?thesis
    unfolding mobile_feed_swipe_advances_def
    by (intro sends_after [OF quiet.stays_targets(2)])
      (auto intro!: sends_then sends_with_state sends_quiet [OF quiet.stays_ret] quiet.stays_ret quiet.stays_await_media
        split: option.split)
qed

lemma sends_keys: "sends (length keys) (press_keys keys previous)"
proof (induction keys)
  case Nil
  then show ?case by (auto intro!: sends_quiet feed_stays)
next
  case (Cons key keys)
  have "sends (1 + length keys) (press_keys (key # keys) previous)"
    unfolding press_keys.simps
  proof (rule sends_bind)
    show "sends 1 (try_except (bind (perform (PressKey key)) (\<lambda>_. ret True)) not_sent)"
      by (intro sends_try sends_then sends_perform) (auto intro!: feed_stays simp: not_sent_def)
    show "sends (length keys) (if \<not> pressed then ret False
      else bind (wait_for_media_transition previous 4) (\<lambda>moved. if moved then ret True else press_keys keys previous))" for pressed
      using Cons.IH by (auto intro!: sends_after sends_quiet [OF quiet.stays_ret] quiet.stays_await_media)
  qed
  then show ?case by simp
qed

lemma sends_keyboard: "sends 2 (keyboard_advances previous)"
  unfolding keyboard_advances_def
  using sends_keys [of "[''ArrowDown'', ''PageDown'']" previous]
  by (auto intro!: sends_with_state sends_quiet [OF quiet.stays_ret] simp: numeral_2_eq_2 simp del: press_keys.simps)

lemma stays_count: "stays no_input count_scroll"
  unfolding count_scroll_def by (rule quiet.stays_modify) (simp add: no_input_def inputs_def)

lemma sends_advance: "sends 7 advance"
proof -
  have confirmed: "stays no_input confirmed_scroll"
    unfolding confirmed_scroll_def by (auto intro!: feed_stays stays_count quiet.stays_outside simp: core_def held_def)
  have wheel: "sends 2 wheel_scroll"
    unfolding wheel_scroll_def by (auto intro!: sends_then sends_wheel stays_count)
  have keyed: "sends 4 (bind (keyboard_advances previous) (\<lambda>keyed. if keyed then confirmed_scroll else wheel_scroll))" for previous
    using sends_bind [OF sends_keyboard, of 2 "\<lambda>keyed. if keyed then confirmed_scroll else wheel_scroll" previous]
    by (simp add: wheel sends_quiet confirmed)
  have "sends 7 (bind (mobile_feed_swipe_advances previous) (\<lambda>swiped.
         if swiped then confirmed_scroll
         else bind (keyboard_advances previous) (\<lambda>keyed. if keyed then confirmed_scroll else wheel_scroll)))" for previous
    using sends_bind [OF sends_swipe, of 4 "\<lambda>swiped. if swiped then confirmed_scroll
         else bind (keyboard_advances previous) (\<lambda>keyed. if keyed then confirmed_scroll else wheel_scroll)" previous]
    by (simp add: keyed sends_quiet confirmed)
  then have "sends 7 send_input"
    unfolding send_input_def using sends_more [OF wheel] by (auto intro!: sends_with_state split: option.split)
  then show ?thesis
    unfolding advance_def using sends_more [OF wheel]
    by (auto intro!: sends_with_state sends_after quiet.stays_begin quiet.stays_closed_checks
        sends_quiet [OF quiet.stays_stop] quiet.stays_outside simp: core_def held_def)
qed

section \<open>Histories of a feed\<close>

datatype feed_op =
    OpCurrent | OpPause | OpNavigate | OpWait string bool | OpNext string bool | OpAdvance | OpClose
  | OpStructure | OpEmbedded | OpSnapshot | OpModalWait rat

fun run_feed_op :: "feed_op \<Rightarrow> unit feed_act" where
  "run_feed_op OpCurrent = bind current_reel (\<lambda>_. ret ())"
| "run_feed_op OpPause = pause_current"
| "run_feed_op OpNavigate = navigate_to_reels"
| "run_feed_op (OpWait previous asked) = bind (feed_wait_for_next previous asked) (\<lambda>_. ret ())"
| "run_feed_op (OpNext previous asked) = bind (next_from_authenticated_feed previous asked) (\<lambda>_. ret ())"
| "run_feed_op OpAdvance = advance"
| "run_feed_op OpClose = close_feed"
| "run_feed_op OpStructure = bind identity_structure_diagnostics (\<lambda>_. ret ())"
| "run_feed_op OpEmbedded = bind embedded_application_data_diagnostics (\<lambda>_. ret ())"
| "run_feed_op OpSnapshot = bind modal_lifecycle_snapshot (\<lambda>_. ret ())"
| "run_feed_op (OpModalWait t) = modal_lifecycle_wait t"

text \<open>A history of calls, whatever each of them raised, and how many moves returned.\<close>

fun run_feed :: "feed_op list \<Rightarrow> browser_feed \<Rightarrow> nat \<times> browser_feed" where
  "run_feed [] s = (0, s)"
| "run_feed (op # ops) s =
     (let (r, t) = run_feed_op op s; (n, u) = run_feed ops t in
      (n + (if op = OpAdvance \<and> r = Inr () then 1 else 0), u))"

lemma attempts_op: "op \<noteq> OpAdvance \<Longrightarrow> stays same_attempts (run_feed_op op)"
  by (cases op) (auto intro!: feed_stays attempts.stays_close simp: same_attempts_def)

lemma quiet_op: "op \<noteq> OpAdvance \<Longrightarrow> stays no_input (run_feed_op op)"
proof (cases op)
  case OpClose
  have "stays no_input (modify (\<lambda>s. s\<lparr>bf_closed := True\<rparr>))"
    by (rule quiet.stays_modify) (simp add: no_input_def inputs_def)
  then show ?thesis unfolding OpClose run_feed_op.simps close_feed_def close_runtime_def by (auto intro!: feed_stays)
qed (auto intro!: feed_stays)

lemma prolongs_op: "stays prolongs (run_feed_op op)"
proof -
  have modified: "stays prolongs (modify f)" if "\<And>s. bf_feed_json (f s) = bf_feed_json s" for f
    by (rule prolonged.stays_modify) (simp add: that prolongs_def source_step_refl split: option.split)
  show ?thesis
    by (cases op)
      (auto intro!: feed_stays prolonged.stays_close prolonged.stays_advance modified
        simp: count_scroll_def prolongs_def source_step_refl split: option.split)
qed

text \<open>A statement that counts one move when it returns, and none when it raises.\<close>

definition counted :: "unit feed_act \<Rightarrow> bool" where
  "counted a \<longleftrightarrow> (\<forall>s r t. a s = (r, t) \<longrightarrow> bf_limits t = bf_limits s \<and>
     bf_scroll_attempts t = bf_scroll_attempts s + (if r = Inr () then 1 else 0))"

lemma countedD: "counted a \<Longrightarrow> a s = (r, t) \<Longrightarrow> bf_limits t = bf_limits s \<and>
    bf_scroll_attempts t = bf_scroll_attempts s + (if r = Inr () then 1 else 0)"
  by (simp add: counted_def)

lemma counted_scroll: "counted count_scroll"
  by (auto simp: counted_def count_scroll_def modify_def)

lemma counted_stop: "counted (stop g)"
  by (auto simp: counted_def stop_def)

lemma counted_bind: "stays same_attempts m \<Longrightarrow> (\<And>x. counted (f x)) \<Longrightarrow> counted (bind m f)"
  unfolding counted_def
  by (fastforce simp: bind_def same_attempts_def split: prod.splits sum.splits dest: staysD)

lemma counted_with_state: "(\<And>s. counted (f s)) \<Longrightarrow> counted (with_state f)"
  by (auto simp: counted_def with_state_def)

lemma counted_send_input: "counted send_input" "counted wheel_scroll"
proof -
  show wheel: "counted wheel_scroll"
    unfolding wheel_scroll_def by (intro counted_bind counted_scroll attempts.stays_moves)
  have confirmed: "counted confirmed_scroll"
    unfolding confirmed_scroll_def
    by (intro counted_bind counted_scroll attempts.stays_outside) (simp add: core_def held_def)
  show "counted send_input"
    unfolding send_input_def
    by (auto intro!: counted_with_state counted_bind attempts.stays_moves wheel confirmed split: option.split)
qed

lemma with_state_apply: "with_state f s = f s s"
  by (simp add: with_state_def)

lemma advance_attempts:
  assumes "advance s = (r, t)"
  shows "bf_limits t = bf_limits s"
    and "bf_scroll_attempts t = bf_scroll_attempts s + (if r = Inr () then 1 else 0)"
    and "r = Inr () \<Longrightarrow> bf_scroll_attempts s < tl_maximum_scroll_attempts (bf_limits s)"
proof -
  obtain r1 t1 where first: "raise_if_closed s = (r1, t1)" by fastforce
  then have same: "bf_limits t1 = bf_limits s" "bf_scroll_attempts t1 = bf_scroll_attempts s"
    using staysD [OF attempts.stays_closed_checks(2)] by (auto simp: same_attempts_def)
  let ?go = "bind begin_transition (\<lambda>_. with_state (\<lambda>s.
       if bf_force_wheel s then bind (modify (\<lambda>s. s\<lparr>bf_force_wheel := False\<rparr>)) (\<lambda>_. wheel_scroll) else send_input))"
  have go: "counted ?go"
    by (intro counted_bind counted_with_state attempts.stays_begin)
      (auto intro!: counted_bind counted_send_input attempts.stays_outside simp: core_def held_def)
  have run: "(case r1 of Inl g \<Rightarrow> (Inl g, t1)
    | Inr _ \<Rightarrow> if bf_scroll_attempts t1 \<ge> tl_maximum_scroll_attempts (bf_limits t1)
        then (Inl (Raise (CollectorRuntimeError ''TRANSITION_TIMEOUT'')), t1) else ?go t1) = (r, t)"
    using assms unfolding advance_def
    by (cases r1) (auto simp: bind_def [of raise_if_closed] first with_state_apply stop_def split: if_splits)
  then show "bf_limits t = bf_limits s"
    and "bf_scroll_attempts t = bf_scroll_attempts s + (if r = Inr () then 1 else 0)"
    and "r = Inr () \<Longrightarrow> bf_scroll_attempts s < tl_maximum_scroll_attempts (bf_limits s)"
    using same countedD [OF go] by (auto split: sum.splits if_splits)
qed

lemma run_feed_op_attempts:
  assumes "run_feed_op op s = (r, t)"
  shows "bf_limits t = bf_limits s"
    and "bf_scroll_attempts t = bf_scroll_attempts s + (if op = OpAdvance \<and> r = Inr () then 1 else 0)"
    and "inputs t \<le> inputs s + (if op = OpAdvance then 7 else 0)"
proof -
  have "bf_limits t = bf_limits s \<and> bf_scroll_attempts t = bf_scroll_attempts s + (if op = OpAdvance \<and> r = Inr () then 1 else 0)
      \<and> inputs t \<le> inputs s + (if op = OpAdvance then 7 else 0)"
  proof (cases "op = OpAdvance")
    case True
    then show ?thesis using assms advance_attempts [of s r t] sendsD [OF sends_advance] by simp
  next
    case False
    then show ?thesis
      using staysD [OF attempts_op assms] staysD [OF quiet_op assms] by (simp add: same_attempts_def no_input_def)
  qed
  then show "bf_limits t = bf_limits s"
    and "bf_scroll_attempts t = bf_scroll_attempts s + (if op = OpAdvance \<and> r = Inr () then 1 else 0)"
    and "inputs t \<le> inputs s + (if op = OpAdvance then 7 else 0)" by simp_all
qed

text \<open>
  C23: A feed moves a bounded number of times. In any history of calls on a feed, whatever the browser does, the
  moves that return are counted and never exceed the limit of the feed, and only a move sends input to the page,
  at most seven events each.
\<close>

theorem moves_bounded:
  assumes "run_feed ops s = (n, t)" and "0 \<le> bf_scroll_attempts s"
    and "bf_scroll_attempts s \<le> tl_maximum_scroll_attempts (bf_limits s)"
  shows "bf_scroll_attempts t = bf_scroll_attempts s + int n \<and>
     bf_scroll_attempts s + int n \<le> tl_maximum_scroll_attempts (bf_limits s) \<and>
     inputs t \<le> inputs s + 7 * count_list ops OpAdvance"
  using assms
proof (induction ops arbitrary: s n t)
  case (Cons op ops)
  obtain r s1 where one: "run_feed_op op s = (r, s1)" by fastforce
  obtain m u where rest: "run_feed ops s1 = (m, u)" by fastforce
  note step = run_feed_op_attempts [OF one]
  have more: "op = OpAdvance \<and> r = Inr () \<Longrightarrow> bf_scroll_attempts s < tl_maximum_scroll_attempts (bf_limits s)"
    using advance_attempts(3) one by auto
  have "0 \<le> bf_scroll_attempts s1" "bf_scroll_attempts s1 \<le> tl_maximum_scroll_attempts (bf_limits s1)"
    using Cons.prems(2,3) step(1,2) more by auto
  from Cons.IH [OF rest this] have "bf_scroll_attempts u = bf_scroll_attempts s1 + int m \<and>
     bf_scroll_attempts s1 + int m \<le> tl_maximum_scroll_attempts (bf_limits s1) \<and>
     inputs u \<le> inputs s1 + 7 * count_list ops OpAdvance" .
  then show ?case using Cons.prems(1) one rest step by (auto split: if_splits)
qed simp

section \<open>The next Reel\<close>

definition has_history :: "browser_feed \<Rightarrow> bool" where
  "has_history s \<longleftrightarrow> (\<exists>a given. bf_feed_json s = Some a \<and> feed_history given a)"

lemma prolongs_history: "prolongs s t \<Longrightarrow> has_history s \<Longrightarrow> has_history t"
  by (auto simp: prolongs_def has_history_def source_step_def) blast

lemma estab_any: "stays prolongs a \<Longrightarrow> estab has_history P a (\<lambda>_ _. True)"
  by (rule estab_keeps) (rule prolonged.stays_keeps [OF _ prolongs_history])

text \<open>A Reel that differs from the previous one and has a canonical code.\<close>

definition new_reel :: "string \<Rightarrow> reel_candidate \<Rightarrow> bool" where
  "new_reel previous c \<longleftrightarrow> shortcode c \<noteq> previous \<and> shortcode_match (shortcode c)"

definition all_new :: "string \<Rightarrow> reel_candidate option \<Rightarrow> bool" where
  "all_new previous x \<longleftrightarrow> (\<forall>c. x = Some c \<longrightarrow> new_reel previous c)"

lemma taken_new:
  assumes "feed_history given a" "take_code wanted a = (x, b)" "\<And>ob code. wanted (ob, code) \<Longrightarrow> code \<noteq> previous"
  shows "all_new previous x"
proof (cases x)
  case (Some c)
  with assms(2) obtain front ob code rest where q: "fs_codes a = front @ (ob, code) # rest" "wanted (ob, code)" "c = feed_candidate code"
    by (auto elim: take_codeD)
  have "shortcode_match code" using feed_history_ok [OF assms(1)] q(1) by (simp add: history_ok_def feed_ok_def)
  then show ?thesis using Some q assms(3) by (simp add: all_new_def new_reel_def feed_candidate_def)
qed (simp add: all_new_def)

lemma estab_on_source:
  assumes "\<And>a. source_step a (snd (f a))" "\<And>given a. feed_history given a \<Longrightarrow> Q (fst (f a))"
  shows "estab has_history P (on_source f) (\<lambda>x _. Q x)"
proof (rule estabI)
  fix s r t assume s: "has_history s" and run: "on_source f s = (r, t)"
  then have "has_history t" using staysD [OF prolonged.stays_on_source [OF assms(1)] run] prolongs_history by blast
  then show "has_history t \<and> (\<forall>x. r = Inr x \<longrightarrow> Q x)"
    using s run assms(2) by (auto simp: has_history_def on_source_def act_defs)
qed

lemma estab_queue:
  "estab has_history P (on_source (next_after previous n)) (\<lambda>x _. all_new previous x)"
  "estab has_history P (on_source (next_from_current_feed previous)) (\<lambda>x _. all_new previous x)"
  "estab has_history P (on_source (next_embedded_from_current_feed previous)) (\<lambda>x _. all_new previous x)"
proof -
  have new: "all_new previous (fst (take_code wanted a))"
    if "feed_history given a" "\<And>ob code. wanted (ob, code) \<Longrightarrow> code \<noteq> previous" for wanted given a
    by (rule taken_new [OF that(1) prod.collapse [symmetric]]) (rule that(2))
  show "estab has_history P (on_source (next_after previous n)) (\<lambda>x _. all_new previous x)"
    by (rule estab_on_source [OF source_steps(4)]) (auto simp: next_after_def intro!: new)
  show "estab has_history P (on_source (next_from_current_feed previous)) (\<lambda>x _. all_new previous x)"
    by (rule estab_on_source [OF source_steps(5)]) (auto simp: next_from_current_feed_def intro!: new)
  show "estab has_history P (on_source (next_embedded_from_current_feed previous)) (\<lambda>x _. all_new previous x)"
    by (rule estab_on_source [OF source_steps(6)]) (auto simp: next_embedded_from_current_feed_def intro!: new)
qed

text \<open>Where a statement yields nothing, it yields nothing that is not new.\<close>

lemma all_new_None [simp]: "all_new previous None"
  by (simp add: all_new_def)

lemma all_new_Some [simp]: "all_new previous (Some c) \<longleftrightarrow> new_reel previous c"
  by (simp add: all_new_def)

lemma estab_value: "Q x \<Longrightarrow> estab I P (ret x) (\<lambda>x _. Q x)"
  by (rule estab_ret)

text \<open>A value that was established stays so while the feed goes on.\<close>

lemma estab_then:
  assumes "estab has_history P a (\<lambda>x _. Q x)" "\<And>x. Q x \<Longrightarrow> estab has_history (\<lambda>_. True) (f x) S"
  shows "estab has_history P (bind a f) S"
proof (rule estab_bind [OF assms(1)])
  show "estab has_history (\<lambda>_. Q x) (f x) S" for x
    using assms(2) [of x] by (auto simp: estab_def)
qed

lemma estab_skip: "stays prolongs a \<Longrightarrow> (\<And>x. estab has_history (\<lambda>_. True) (f x) Q) \<Longrightarrow> estab has_history P (bind a f) Q"
  by (rule estab_bind [OF estab_any]) (auto intro: estab_pre)

lemma estab_state: "(\<And>s. estab I (\<lambda>_. True) (f s) Q) \<Longrightarrow> estab I P (with_state f) Q"
  by (auto simp: estab_def with_state_def)

lemma estab_shown: "estab has_history P candidate_or_none (\<lambda>x _. \<forall>c. x = Some c \<longrightarrow> shortcode_match (shortcode c))"
proof -
  have valid: "shortcode_match (shortcode v)" if "validate_candidate c = Inr v" for c v
    using validate_candidate_sound(1,2) [OF that] by simp
  have probe: "estab has_history (\<lambda>_. True) candidate_from_probe (\<lambda>c _. shortcode_match (shortcode c))"
    unfolding candidate_from_probe_def
    apply (rule estab_skip [OF prolonged.stays_evaluate(2)])
    apply (rule estab_skip [OF prolonged.stays_call])
    apply (rule estab_skip, rule prolonged.stays_outside, simp add: core_def held_def)
    apply (simp split: option.split sum.split)
    apply (intro conjI allI impI estab_stop estab_skip [OF prolonged.stays_records(1)] estab_value)
    apply (erule valid)
    done
  have "estab has_history (\<lambda>_. True) candidate_or_none (\<lambda>x _. \<forall>c. x = Some c \<longrightarrow> shortcode_match (shortcode c))"
    unfolding candidate_or_none_def
    by (rule estab_try [OF estab_then [OF probe]]) (auto intro!: estab_value estab_stop)
  then show ?thesis by (rule estab_pre) simp
qed

lemma estab_sources:
  "estab has_history P (candidate_after_responses previous) (\<lambda>x _. all_new previous x)"
  "estab has_history P (candidate_from_queue previous post) (\<lambda>x _. all_new previous x)"
  "estab has_history P (candidate_from_refresh previous asked) (\<lambda>x _. all_new previous x)"
proof -
  show "estab has_history P (candidate_after_responses previous) (\<lambda>x _. all_new previous x)"
    unfolding candidate_after_responses_def
    by (rule estab_then [OF estab_shown])
      (auto intro!: estab_state estab_queue estab_skip estab_value feed_stays simp: new_reel_def split: option.split)
  show "estab has_history P (candidate_from_queue previous post) (\<lambda>x _. all_new previous x)"
    unfolding candidate_from_queue_def
    by (rule estab_then [where Q = "all_new previous"]) (auto intro!: estab_queue estab_skip estab_value feed_stays)
  have "estab has_history P (refresh_embedded_feed_candidate previous asked) (\<lambda>x _. all_new previous x)" for P
    unfolding refresh_embedded_feed_candidate_def
    by (auto intro!: estab_state estab_skip estab_queue estab_value feed_stays source_steps)
  then show "estab has_history P (candidate_from_refresh previous asked) (\<lambda>x _. all_new previous x)"
    unfolding candidate_from_refresh_def
    by (auto intro!: estab_state estab_skip estab_then [where Q = "all_new previous"] estab_value feed_stays)
qed

lemma estab_or_else:
  assumes "all_new previous x" "estab has_history (\<lambda>_. True) a (\<lambda>y _. all_new previous y)"
  shows "estab has_history (\<lambda>_. True) (or_else x a) (\<lambda>y _. all_new previous y)"
  using assms by (cases x) (auto simp: or_else_def intro: estab_value)

lemma estab_sample_candidate:
  "estab has_history P (sample_candidate previous media asked) (\<lambda>y _. all_new previous (fst y))"
proof -
  have stable: "estab has_history (\<lambda>_. True) (stable_candidate previous asked post) (\<lambda>x _. all_new previous x)" for post
    unfolding stable_candidate_def
    by (intro estab_skip estab_then [where Q = "all_new previous"] estab_or_else estab_sources)
      (auto intro!: feed_stays estab_sources estab_value estab_or_else estab_then [where Q = "all_new previous"])
  show ?thesis
    unfolding sample_candidate_def Let_def
    apply (rule estab_skip [OF prolonged.stays_identity(1)])
    apply (rule estab_skip [OF prolonged.stays_records(3)])
    apply (rule estab_state)
    apply (rule estab_then [where Q = "all_new previous"])
     apply (simp add: stable estab_value)
    apply (rule estab_skip [OF prolonged.stays_polls(1)])
    apply (rule estab_ret)
    apply simp
    done
qed

text \<open>What a confirmed candidate leaves behind: it is known to the feed source and queued no more.\<close>

definition consumed :: "string \<Rightarrow> browser_feed \<Rightarrow> bool" where
  "consumed code s \<longleftrightarrow> (\<exists>a given. bf_feed_json s = Some a \<and> feed_history given a \<and> code \<in> fs_known_codes a \<and>
     code \<notin> snd ` set (fs_codes a))"

lemma mark_used_consumed:
  assumes "shortcode_match code" "feed_history given a"
  shows "code \<in> fs_known_codes (mark_used code a)" "code \<notin> snd ` set (fs_codes (mark_used code a))"
proof -
  have "code \<in> fs_known_codes (remember code a)"
    using feed_history_ok [OF assms(2)]
    by (cases "fs_known_order a") (auto simp: remember_def Let_def history_ok_def feed_ok_def max_known_codes_def)
  then show "code \<in> fs_known_codes (mark_used code a)" using assms(1) by (simp add: mark_used_def Let_def)
  show "code \<notin> snd ` set (fs_codes (mark_used code a))" using assms(1) by (auto simp: mark_used_def Let_def)
qed

text \<open>A confirmed candidate is marked as used last of all.\<close>

definition fresh_reel :: "string \<Rightarrow> reel_candidate option \<Rightarrow> browser_feed \<Rightarrow> bool" where
  "fresh_reel previous x s \<longleftrightarrow> (\<forall>c. x = Some c \<longrightarrow> new_reel previous c \<and> consumed (shortcode c) s)"

lemma estab_confirm:
  assumes "new_reel previous c"
  shows "estab has_history (\<lambda>_. True) (confirm_candidate c post) (fresh_reel previous)"
proof (rule estabI)
  fix s r t assume s: "has_history s" and run: "confirm_candidate c post s = (r, t)"
  then obtain a given where a: "bf_feed_json s = Some a" "feed_history given a" by (auto simp: has_history_def)
  then have t: "bf_feed_json t = Some (mark_used (shortcode c) a)" and r: "r = Inr (Some c)"
    using run by (auto simp: confirm_candidate_def mark_used_if_any_def update_source_def on_source_def act_defs Let_def)
  have next_history: "feed_history given (mark_used (shortcode c) a)" using a(2) by (rule feed_history.marked)
  moreover have "shortcode_match (shortcode c)" using assms by (simp add: new_reel_def)
  ultimately show "has_history t \<and> (\<forall>x. r = Inr x \<longrightarrow> fresh_reel previous x t)"
    using t r a(2) assms mark_used_consumed
    by (auto simp: has_history_def fresh_reel_def consumed_def)
qed

lemma estab_nothing: "estab has_history P (ret None) (fresh_reel previous)"
  by (rule estab_ret) (simp add: fresh_reel_def)

lemma estab_sample: "estab has_history P (sample previous media asked) (fresh_reel previous)"
proof -
  have settle: "estab has_history (\<lambda>_. True) (settle_sample x post) (fresh_reel previous)" if "all_new previous x" for x post
    unfolding settle_sample_def
    using that
    by (intro estab_skip [OF prolonged.stays_records(3)] estab_state)
      (auto intro!: estab_skip [OF prolonged.stays_records(3)] estab_nothing estab_confirm split: option.split)
  have "estab has_history (\<lambda>_. True) (try_except (sample_candidate previous media asked) sample_failed)
      (\<lambda>y _. all_new previous (fst y))"
    by (rule estab_try [OF estab_sample_candidate])
      (auto simp: sample_failed_def intro!: estab_skip [OF prolonged.stays_records(4)]
        estab_skip [OF prolonged.stays_closed_checks(1)] estab_stop split: exn.split)
  then have tried: "estab has_history (\<lambda>_. True)
      (bind (try_except (sample_candidate previous media asked) sample_failed) (\<lambda>(x, post). settle_sample x post))
      (fresh_reel previous)"
    by (rule estab_then [where Q = "\<lambda>y. all_new previous (fst y)"]) (auto intro: settle split: prod.split)
  show ?thesis
    unfolding sample_def
    by (rule estab_skip [OF prolonged.stays_environment(6)])
      (auto intro!: estab_skip [OF prolonged.stays_records(4)] estab_skip [OF prolonged.stays_closed_checks(2)]
        estab_skip [OF prolonged.stays_controlled_stop] estab_nothing tried)
qed

definition fresh_end :: "string \<Rightarrow> sampling_end \<Rightarrow> browser_feed \<Rightarrow> bool" where
  "fresh_end previous e s \<longleftrightarrow> (\<forall>c. e = Confirmed c \<longrightarrow> fresh_reel previous (Some c) s)"

lemma estab_sample_rounds: "estab has_history P (sample_rounds n previous media asked) (fresh_end previous)"
proof (induction n arbitrary: P)
  case 0
  show ?case by (auto intro!: estab_ret simp: fresh_end_def)
next
  case (Suc n)
  show ?case
    unfolding sample_rounds.simps
  proof (rule estab_bind [OF estab_sample])
    fix x
    show "estab has_history (fresh_reel previous x) (case x of Some c \<Rightarrow> ret (Confirmed c)
       | None \<Rightarrow> with_state (\<lambda>s. if td_stop_reason_code (bf_transition s) \<noteq> None then ret Stopped
           else sample_rounds n previous media asked)) (fresh_end previous)"
      by (cases x) (auto intro!: estab_state estab_ret Suc.IH simp: fresh_end_def)
  qed
qed

lemma estab_wait_for_next: "estab has_history P (feed_wait_for_next previous asked) (fresh_reel previous)"
proof -
  have out: "estab has_history P timed_out (fresh_reel previous)" for P
    unfolding timed_out_def by (intro estab_skip prolonged.stays_outside estab_nothing) (simp add: core_def held_def Let_def)
  have ended: "estab has_history (fresh_end previous e) (case e of Confirmed c \<Rightarrow> ret (Some c) | Stopped \<Rightarrow> ret None | Exhausted \<Rightarrow> timed_out)
      (fresh_reel previous)" for e
    by (cases e) (auto intro!: estab_ret out estab_nothing simp: fresh_end_def)
  have final: "estab has_history (fresh_end previous e) (case e of Confirmed c \<Rightarrow> ret (Some c) | Stopped \<Rightarrow> ret None
     | Exhausted \<Rightarrow> with_state (\<lambda>s. if sm_observed_different (bf_sampler s) \<and> sm_stable_count (bf_sampler s) < 2
         then bind (sample_rounds n previous media asked) (\<lambda>e. case e of Confirmed c \<Rightarrow> ret (Some c) | Stopped \<Rightarrow> ret None
           | Exhausted \<Rightarrow> timed_out)
         else timed_out)) (fresh_reel previous)" for e n media
    by (cases e) (auto intro!: estab_ret estab_state out estab_nothing estab_bind [OF estab_sample_rounds ended] simp: fresh_end_def)
  show ?thesis
    unfolding feed_wait_for_next_def
    apply (rule estab_skip, rule prolonged.stays_outside, simp add: core_def held_def)
    apply (rule estab_state)
    apply (rule estab_skip [OF prolonged.stays_polls(2)])+
    apply (rule estab_skip [OF prolonged.stays_records(3)])
    apply (rule estab_skip [OF prolonged.stays_previous_media])
    apply (rule estab_bind [OF estab_sample_rounds final])
    done
qed

text \<open>
  C22: The Reel that a wait confirms is new. Whatever the browser does, a candidate that \<open>wait_for_next\<close> returns
  differs from the previous one and has a canonical code, and the feed source, whose history goes on, knows the
  code and queues it no more.
\<close>

theorem next_reel_is_new:
  assumes "feed_wait_for_next previous asked s = (Inr (Some c), t)"
    and "bf_feed_json s = Some a" and "feed_history given a"
  shows "shortcode c \<noteq> previous \<and> shortcode_match (shortcode c) \<and>
     (\<exists>b more. bf_feed_json t = Some b \<and> feed_history (given @ more) b \<and> shortcode c \<in> fs_known_codes b \<and>
        shortcode c \<notin> snd ` set (fs_codes b))"
proof -
  have "has_history s" using assms(2,3) by (auto simp: has_history_def)
  from estabD [OF estab_wait_for_next this _ assms(1), of "\<lambda>_. True"] have new: "fresh_reel previous (Some c) t" by simp
  have "prolongs s t" by (rule staysD [OF prolonged.stays_wait_for_next assms(1)])
  then obtain b where b: "bf_feed_json t = Some b" "source_step a b" using assms(2) by (auto simp: prolongs_def)
  then obtain more where "feed_history (given @ more) b" using assms(3) by (auto simp: source_step_def)
  then show ?thesis using new b(1) by (auto simp: fresh_reel_def new_reel_def consumed_def)
qed

section \<open>Opening and closing\<close>

lemma stop_runs: "stop g s = (Inl g, s)"
  by (simp add: stop_def)

text \<open>
  A closed feed does nothing. Closing marks the feed closed even when a resource cannot be released; after
  that closing again does nothing, and every other call but \<open>wait_for_next\<close> raises \<open>BROWSER_CLOSED\<close> before it
  reaches the page.
\<close>

theorem closed_feed_is_inert:
  assumes "close_feed s = (r, t)"
  shows "bf_closed t \<and> run_feed_op OpClose t = (Inr (), t) \<and>
     (\<forall>op. op \<noteq> OpClose \<and> (\<forall>previous asked. op \<noteq> OpWait previous asked) \<longrightarrow>
        run_feed_op op t = (Inl (Raise (CollectorRuntimeError ''BROWSER_CLOSED'')), t))"
proof -
  have keep: "keeps bf_closed close_runtime"
  proof -
    have "keeps bf_closed (perform c)" for c
      unfolding perform_def log_call_def dispatch_def outcome_of_call_def
      by (auto intro!: act_inv keeps_modify)
    then show ?thesis unfolding close_runtime_def by (auto intro!: act_inv)
  qed
  have closed: "bf_closed t"
  proof (cases "bf_closed s")
    case True
    then show ?thesis using assms by (simp add: close_feed_def with_state_apply ret_def)
  next
    case False
    then have "close_runtime (s\<lparr>bf_closed := True\<rparr>) = (r, t)" 
      using assms by (simp add: close_feed_def with_state_apply bind_def modify_def)
    from keepsD [OF keep _ this] show ?thesis by simp
  qed
  then have out: "raise_if_closed t = (Inl (Raise (CollectorRuntimeError ''BROWSER_CLOSED'')), t)"
    by (simp add: raise_if_closed_def with_state_apply stop_runs)
  have "run_feed_op op t = (Inl (Raise (CollectorRuntimeError ''BROWSER_CLOSED'')), t)"
    if "op \<noteq> OpClose" "\<forall>previous asked. op \<noteq> OpWait previous asked" for op
    using that closed
    by (cases op)
      (auto simp: out bind_def current_reel_def pause_current_def navigate_to_reels_def next_from_authenticated_feed_def
        advance_def identity_structure_diagnostics_def embedded_application_data_diagnostics_def
        modal_lifecycle_snapshot_def modal_lifecycle_wait_def with_state_apply stop_runs)
  moreover have "run_feed_op OpClose t = (Inr (), t)"
    using closed by (simp add: close_feed_def with_state_apply ret_def)
  ultimately show ?thesis using closed by simp
qed

definition calls :: "browser_feed \<Rightarrow> page_call set" where
  "calls s = snd ` set (bf_log s)"

definition same_held :: "browser_feed \<Rightarrow> browser_feed \<Rightarrow> bool" where
  "same_held s t \<longleftrightarrow> held t = held s \<and> calls s \<subseteq> calls t"

interpretation holding: feed_input same_held "\<lambda>_. True"
  by unfold_locales (auto simp: same_held_def calls_def core_def held_def)

lemma perform_outcome:
  assumes "perform c s = (r, t)"
  shows "same_held s t" "c \<in> calls t" "calls t \<subseteq> insert c (calls s)" "\<forall>g. r = Inl g \<longrightarrow> (\<exists>e. g = Raise e)"
proof -
  show "same_held s t" by (rule staysD [OF holding.stays_perform assms]) simp
  show "c \<in> calls t" "calls t \<subseteq> insert c (calls s)" "\<forall>g. r = Inl g \<longrightarrow> (\<exists>e. g = Raise e)"
    using assms
    by (auto simp: perform_def log_call_def dispatch_def outcome_of_call_def call_def act_defs calls_def split: sum.splits)
qed

lemma attempt_outcome:
  assumes "attempt (perform c) s = (r, t)"
  shows "same_held s t" "c \<in> calls t" "r = Inr () \<or> r = Inl (Raise KeyboardInterrupt)"
    "calls t \<subseteq> insert c (calls s)"
proof -
  obtain r1 where run: "perform c s = (r1, t)" "r = Inr () \<or> r = Inl (Raise KeyboardInterrupt) \<or> (\<exists>g. r1 = Inl g \<and> \<not> (\<exists>e. g = Raise e))"
    using assms by (auto simp: attempt_def act_defs split: prod.splits sum.splits signal.splits if_splits)
  then show "same_held s t" "c \<in> calls t" "r = Inr () \<or> r = Inl (Raise KeyboardInterrupt)"
    "calls t \<subseteq> insert c (calls s)"
    using perform_outcome by blast+
qed

lemma release_step:
  assumes "bind (when f (attempt (perform c))) k s = (r, u)" "r \<noteq> Inl (Raise KeyboardInterrupt)"
  obtains t where "same_held s t \<and> calls t \<subseteq> insert c (calls s)" "f s \<longrightarrow> c \<in> calls t" "k () t = (r, u)"
proof -
  obtain r1 t where run: "when f (attempt (perform c)) s = (r1, t)" by fastforce
  have "same_held s t \<and> calls t \<subseteq> insert c (calls s) \<and> (f s \<longrightarrow> c \<in> calls t) \<and> (r1 = Inr () \<or> r1 = Inl (Raise KeyboardInterrupt))"
    using run attempt_outcome [of c s r1 t] by (auto simp: branch_def ret_def same_held_def split: if_splits)
  then show thesis using that [of t] assms run by (auto simp: bind_def)
qed

lemma close_runtime_outcome:
  assumes "close_runtime s = (r, t)" "r \<noteq> Inl (Raise KeyboardInterrupt)"
  shows "r = Inr () \<and> same_held s t \<and> (bf_has_context s \<longrightarrow> CloseContext \<in> calls t) \<and>
    (bf_has_playwright s \<longrightarrow> StopPlaywright \<in> calls t) \<and> (bf_has_lock s \<longrightarrow> ReleaseLock \<in> calls t) \<and>
    calls t \<subseteq> {CloseContext, StopPlaywright, ReleaseLock} \<union> calls s"
proof -
  from assms obtain t1 where 1: "same_held s t1 \<and> calls t1 \<subseteq> insert CloseContext (calls s)" "bf_has_context s \<longrightarrow> CloseContext \<in> calls t1"
    "bind (when bf_has_playwright (attempt (perform StopPlaywright)))
       (\<lambda>_. bind (when bf_has_lock (attempt (perform ReleaseLock))) (\<lambda>_. ret ())) t1 = (r, t)"
    unfolding close_runtime_def block.simps by (rule release_step)
  from 1(3) assms(2) obtain t2 where 2: "same_held t1 t2 \<and> calls t2 \<subseteq> insert StopPlaywright (calls t1)" "bf_has_playwright t1 \<longrightarrow> StopPlaywright \<in> calls t2"
    "bind (when bf_has_lock (attempt (perform ReleaseLock))) (\<lambda>_. ret ()) t2 = (r, t)"
    by (rule release_step)
  from 2(3) assms(2) obtain t3 where 3: "same_held t2 t3 \<and> calls t3 \<subseteq> insert ReleaseLock (calls t2)" "bf_has_lock t2 \<longrightarrow> ReleaseLock \<in> calls t3" "ret () t3 = (r, t)"
    by (rule release_step)
  have end_: "r = Inr ()" "t = t3" using 3(3) by (simp_all add: ret_def)
  have sub: "calls s \<subseteq> calls t1" "calls t1 \<subseteq> calls t2" "calls t2 \<subseteq> calls t3"
    and flags: "held t1 = held s" "held t2 = held s" "held t3 = held s"
    using 1(1) 2(1) 3(1) by (simp_all add: same_held_def)
  have "calls t3 \<subseteq> {CloseContext, StopPlaywright, ReleaseLock} \<union> calls s"
    using 1(1) 2(1) 3(1) by blast
  moreover have "bf_has_context s \<longrightarrow> CloseContext \<in> calls t3" using 1(2) sub by blast
  moreover have "bf_has_playwright s \<longrightarrow> StopPlaywright \<in> calls t3" using 2(2) sub flags(1) by (auto simp: held_def)
  moreover have "bf_has_lock s \<longrightarrow> ReleaseLock \<in> calls t3" using 3(2) flags(2) by (simp add: held_def)
  ultimately show ?thesis using end_ sub flags(3) by (simp add: same_held_def subset_trans [OF sub(1)] subset_trans [OF sub(2)])
qed

text \<open>Before the lock exists nothing has been asked of it; afterwards it stays.\<close>

definition lock_held :: "browser_feed \<Rightarrow> bool" where
  "lock_held s \<longleftrightarrow> (AcquireLock \<in> calls s \<longrightarrow> bf_has_lock s)"

lemma keeps_held_lock: "stays same_held a \<Longrightarrow> keeps bf_has_lock a"
  by (rule holding.stays_keeps) (auto simp: same_held_def held_def)

lemma stays_clear_locks: "stays same_held clear_transient_chromium_locks"
  unfolding clear_transient_chromium_locks_def by (intro holding.stays_block) (auto intro!: feed_stays)

lemma stays_held_modify:
  "(\<And>s. held (f s) = held s) \<Longrightarrow> (\<And>s. bf_log (f s) = bf_log s) \<Longrightarrow> stays same_held (modify f)"
  by (rule holding.stays_modify) (simp add: same_held_def calls_def)

lemma keeps_lock_flags:
  "keeps bf_has_lock (modify (\<lambda>s. s\<lparr>bf_has_playwright := True\<rparr>))"
  "keeps bf_has_lock (modify (\<lambda>s. s\<lparr>bf_has_context := True\<rparr>))"
  "keeps bf_has_lock first_page" "keeps bf_has_lock (new_feed observe)"
proof -
  show "keeps bf_has_lock (modify (\<lambda>s. s\<lparr>bf_has_playwright := True\<rparr>))"
    "keeps bf_has_lock (modify (\<lambda>s. s\<lparr>bf_has_context := True\<rparr>))"
    by (auto intro: keeps_modify)
  have "stays same_held first_page"
    unfolding first_page_def
    by (auto intro!: feed_stays holding.stays_outside simp: core_def held_def split: list.split)
  then show "keeps bf_has_lock first_page" by (rule keeps_held_lock)
  have "stays same_held (new_feed observe)"
    unfolding new_feed_def by (auto intro!: feed_stays stays_held_modify simp: held_def)
  then show "keeps bf_has_lock (new_feed observe)" by (rule keeps_held_lock)
qed

lemma bind_modify: "bind (modify f) k s = k () (f s)"
  by (simp add: bind_def modify_def)

lemma open_body_lock:
  assumes "open_body boot navigate observe s = (r, t)" "bf_log s = []"
  shows "lock_held t"
proof -
  let ?later = "block [perform AcquireLock, clear_transient_chromium_locks, perform StartPlaywright,
      modify (\<lambda>s. s\<lparr>bf_has_playwright := True\<rparr>), perform LaunchContext, modify (\<lambda>s. s\<lparr>bf_has_context := True\<rparr>),
      first_page, new_feed observe, if navigate then navigate_to_reels else ret (),
      if boot then ret () else raise_if_controlled_stop]"
  have later: "keeps bf_has_lock ?later"
    using keeps_lock_flags keeps_held_lock [OF holding.stays_perform [OF TrueI]] keeps_held_lock [OF stays_clear_locks]
      keeps_held_lock [OF holding.stays_navigate] keeps_held_lock [OF holding.stays_controlled_stop] keeps_ret
    by (intro keeps_block) auto
  obtain r1 t1 where first: "perform ProfilePath s = (r1, t1)" by fastforce
  have "lock_held t1" using perform_outcome(3) [OF first] assms(2) by (auto simp: lock_held_def calls_def)
  moreover have "lock_held u" if "?later (t1\<lparr>bf_has_lock := True\<rparr>) = (q, u)" for q u
    using keepsD [OF later _ that] by (simp add: lock_held_def)
  moreover have "open_body boot navigate observe =
      bind (perform ProfilePath) (\<lambda>_. bind (modify (\<lambda>s. s\<lparr>bf_has_lock := True\<rparr>)) (\<lambda>_. ?later))"
    unfolding open_body_def by simp
  ultimately show ?thesis
    using assms(1) first
    by (auto simp: bind_def [of "perform ProfilePath"] bind_modify simp del: block.simps split: sum.splits)
qed

text \<open>
  C24: A failed opening leaves nothing behind. When opening a feed raises anything but \<open>KeyboardInterrupt\<close>, it raises
  a reason code, and the lock, the driver and the browser that were acquired until then have been released, even
  when releasing one of them failed.
\<close>

theorem failed_open_releases:
  assumes "open_feed (Inr ()) boot navigate observe s = (Inl (Raise e), t)" and "e \<noteq> KeyboardInterrupt" and "bf_log s = []"
  shows "(\<exists>code. e = CollectorRuntimeError code) \<and> (AcquireLock \<in> calls t \<longrightarrow> ReleaseLock \<in> calls t) \<and>
     (bf_has_playwright t \<longrightarrow> StopPlaywright \<in> calls t) \<and> (bf_has_context t \<longrightarrow> CloseContext \<in> calls t)"
proof -
  let ?s = "s\<lparr>bf_has_lock := False, bf_has_playwright := False, bf_has_context := False\<rparr>"
  obtain r1 t1 where body: "open_body boot navigate observe ?s = (r1, t1)" by fastforce
  have lock: "lock_held t1" by (rule open_body_lock [OF body]) (simp add: assms(3))
  from assms(1) body obtain e1 where e1: "r1 = Inl (Raise e1)" and failed: "open_failed e1 t1 = (Inl (Raise e), t)"
    by (auto simp: open_feed_def call_def bind_def ret_def modify_def try_except_def split: sum.splits signal.splits)
  have "e1 \<noteq> KeyboardInterrupt" using failed assms(2) by (auto simp: open_failed_def stop_def)
  then obtain code where run: "bind close_runtime (\<lambda>_. raise (CollectorRuntimeError code)) t1 =
      (Inl (Raise e) :: unit signal + unit, t)"
    using failed that by (cases e1) (auto simp: open_failed_def)
  obtain r2 t2 where close: "close_runtime t1 = (r2, t2)" by fastforce
  then have "r2 \<noteq> Inl (Raise KeyboardInterrupt)" using run assms(2) by (auto simp: bind_def)
  note closed = close_runtime_outcome [OF close this]
  then have "e = CollectorRuntimeError code" "t = t2" using run close by (auto simp: bind_def stop_def)
  then show ?thesis using closed lock by (auto simp: same_held_def held_def lock_held_def)
qed

section \<open>Examples\<close>

definition demo_feed :: "js_value result list \<Rightarrow> browser_feed" where
  "demo_feed answers = \<lparr>bf_limits = \<lparr>tl_polling_seconds = 1, tl_timeout_seconds = 3, tl_maximum_scroll_attempts = 1,
       tl_stabilization_seconds = 1\<rparr>,
     bf_page = 0, bf_has_context = True, bf_has_playwright = True, bf_has_lock = True, bf_has_cdp = True,
     bf_has_keyboard = True, bf_pages_listed = True, bf_scroll_attempts = 0, bf_closed = False,
     bf_diagnostics = empty_diagnostics, bf_transition = no_sampling, bf_target = no_scroll_target,
     bf_media_identity = Some ''first'', bf_media_confirmed = False, bf_json_checkpoint = 0, bf_force_wheel = False,
     bf_feed_json = Some new_feed_source, bf_sampler = fresh_sampler, bf_answers = answers, bf_outcomes = [], bf_shut = [],
     bf_open_pages = [], bf_urls = [], bf_arrivals = [], bf_stops = [], bf_log = []\<rparr>"

definition wheel_answers :: "js_value result list" where
  "wheel_answers = [Inr JsNull, Inr (JsDict [(''available'', JsBool True), (''in_viewport'', JsBool True),
     (''x'', JsInt 200), (''y'', JsInt 300), (''width'', JsInt 430), (''height'', JsInt 800)])]"

definition sampling_answers :: "js_value result list" where
  "sampling_answers = [Inr JsNull, Inr (JsText ''second''), Inr JsNull, Inr (JsText ''second''),
     Inr (JsList [JsText ''CAFE1''])]"

lemma demo_moves: "fst (run_feed [OpAdvance, OpAdvance] (demo_feed wheel_answers)) = 1"
  by code_simp

theorem moves_bounded_witness:
  "bf_scroll_attempts (snd (run_feed [OpAdvance, OpAdvance] (demo_feed wheel_answers))) = 1 \<and>
   inputs (snd (run_feed [OpAdvance, OpAdvance] (demo_feed wheel_answers))) \<le> 14"
proof -
  have start: "bf_scroll_attempts (demo_feed wheel_answers) = 0" "inputs (demo_feed wheel_answers) = 0"
    "tl_maximum_scroll_attempts (bf_limits (demo_feed wheel_answers)) = 1"
    by (simp_all add: demo_feed_def inputs_def)
  have run: "run_feed [OpAdvance, OpAdvance] (demo_feed wheel_answers) =
      (1, snd (run_feed [OpAdvance, OpAdvance] (demo_feed wheel_answers)))"
    using demo_moves by (simp add: prod_eq_iff del: run_feed.simps)
  have "count_list [OpAdvance, OpAdvance] OpAdvance = 2" by simp
  with moves_bounded [OF run] start show ?thesis by (simp del: run_feed.simps)
qed

lemma demo_next:
  "fst (feed_wait_for_next ''CAFE0'' False (demo_feed sampling_answers)) = Inr (Some (feed_candidate ''CAFE1''))"
  by code_simp

theorem next_reel_is_new_witness:
  "shortcode (feed_candidate ''CAFE1'') \<noteq> ''CAFE0'' \<and>
   (\<exists>b. bf_feed_json (snd (feed_wait_for_next ''CAFE0'' False (demo_feed sampling_answers))) = Some b \<and>
      ''CAFE1'' \<in> fs_known_codes b)"
proof -
  have run: "feed_wait_for_next ''CAFE0'' False (demo_feed sampling_answers) =
      (Inr (Some (feed_candidate ''CAFE1'')), snd (feed_wait_for_next ''CAFE0'' False (demo_feed sampling_answers)))"
    using demo_next by (simp add: prod_eq_iff)
  from next_reel_is_new [OF run _ feed_history.opened] show ?thesis
    by (auto simp: demo_feed_def feed_candidate_def)
qed

theorem closed_feed_is_inert_witness:
  "run_feed_op OpAdvance (snd (close_feed (demo_feed []))) =
     (Inl (Raise (CollectorRuntimeError ''BROWSER_CLOSED'')), snd (close_feed (demo_feed [])))"
  using closed_feed_is_inert [OF prod.collapse [symmetric], of "demo_feed []"] by blast

text \<open>Chromium cannot be launched.\<close>

definition failing_launch :: browser_feed where
  "failing_launch = (demo_feed [])\<lparr>bf_outcomes := [Inr (), Inr (), Inr (), Inl LookupError, Inr (), Inr (), Inl OtherError]\<rparr>"

lemma failing_launch_fails:
  "fst (open_feed (Inr ()) False True True failing_launch) = Inl (Raise (CollectorRuntimeError ''BROWSER_CLOSED''))"
  "AcquireLock \<in> calls (snd (open_feed (Inr ()) False True True failing_launch))"
  by code_simp+

theorem failed_open_releases_witness: "ReleaseLock \<in> calls (snd (open_feed (Inr ()) False True True failing_launch))"
proof -
  have run: "open_feed (Inr ()) False True True failing_launch = (Inl (Raise (CollectorRuntimeError ''BROWSER_CLOSED'')),
      snd (open_feed (Inr ()) False True True failing_launch))"
    using failing_launch_fails(1) by (simp add: prod_eq_iff)
  have "bf_log failing_launch = []" by (simp add: failing_launch_def demo_feed_def)
  from failed_open_releases [OF run _ this] failing_launch_fails(2) show ?thesis by simp
qed

end
