(* ===== verification/RuntimeConfig.thy ===== *)
theory RuntimeConfig
  imports SourceStorage
begin

text \<open>
  The Collector's runtime settings and the directories it may use: \<open>require_live\<close> of
  \<open>runtime/settings.py\<close>, \<open>runtime/workspace.py\<close> and \<open>profile_path\<close> of \<open>runtime/profile_lock.py\<close> of
  \<open>apps/api/app/instagram/collector/\<close>. A resolved path is the list of its components; what
  \<open>Path.resolve\<close> makes of a path on this host, symbolic links included, is the parameter \<open>h_resolve\<close>. A
  float is a rational number or one of the three values that are not finite.
\<close>

section \<open>Values\<close>

datatype py_float = Finite rat | Infinity | MinusInfinity | NaN

record runtime_settings =
  rs_enabled :: bool
  rs_profile_root :: "string option"
  rs_workspace_root :: "string option"
  rs_headless :: bool
  rs_transition_polling_seconds :: py_float
  rs_transition_timeout_seconds :: py_float
  rs_maximum_reel_bytes :: int
  rs_maximum_run_bytes :: int
  rs_maximum_target_count :: int
  rs_cooldown_seconds :: py_float
  rs_maximum_scroll_attempts :: int
  rs_operator_deadline_seconds :: py_float

record host =
  h_resolve :: "string \<Rightarrow> path"
  h_home :: path

definition mebibyte :: int where
  "mebibyte = 1024 * 1024"

definition collector_disabled :: exn where
  "collector_disabled = CollectorRuntimeError ''COLLECTOR_DISABLED''"

definition profile_in_use :: exn where
  "profile_in_use = CollectorRuntimeError ''PROFILE_IN_USE''"

text \<open>\<open>RuntimeReasonCode\<close> of \<open>runtime/errors.py\<close>; the constructor raises for any other text.\<close>

definition runtime_reason_codes :: "string list" where
  "runtime_reason_codes =
     [''AUTH_REQUIRED'', ''CHECKPOINT_REQUIRED'', ''TEMPORARILY_LIMITED'', ''ACTIVE_REEL_NOT_FOUND'',
      ''BROWSER_CLOSED'', ''TRANSITION_TIMEOUT'', ''INVALID_REEL_CANDIDATE'', ''PROFILE_IN_USE'',
      ''COLLECTOR_DISABLED'', ''DOWNLOAD_FAILED'', ''SESSION_COOKIE_MISSING'',
      ''DIRECT_DOWNLOAD_AUTH_REQUIRED'', ''DIRECT_DOWNLOAD_FORBIDDEN'', ''DIRECT_DOWNLOAD_RATE_LIMITED'',
      ''DIRECT_DOWNLOAD_TIMEOUT'', ''DIRECT_DOWNLOAD_NETWORK_FAILED'',
      ''DIRECT_DOWNLOAD_FORMAT_UNAVAILABLE'', ''DIRECT_DOWNLOAD_SIZE_LIMIT'',
      ''DIRECT_DOWNLOAD_OUTPUT_MISSING'', ''DIRECT_DOWNLOAD_OUTPUT_AMBIGUOUS'',
      ''DIRECT_DOWNLOAD_EXTRACTOR_FAILED'', ''VALIDATION_FAILED'', ''STORAGE_FAILED'',
      ''STORAGE_OBJECT_CONFLICT'', ''ACTIVE_RUN_EXISTS'', ''OPERATOR_TIMEOUT'', ''RUN_BYTE_LIMIT_EXCEEDED'',
      ''TOTAL_TIMEOUT_REACHED'', ''POST_RUN_VERIFICATION_FAILED'', ''BASELINE_UNAVAILABLE'',
      ''HANDOFF_EXPIRED'', ''HANDOFF_CANCELLED'', ''HANDOFF_DISCONNECTED'']"

definition runtime_reason_code :: "string \<Rightarrow> string result" where
  "runtime_reason_code value = (if value \<in> set runtime_reason_codes then Inr value else Inl ValueError)"

section \<open>Settings that allow a live run\<close>

definition path_within :: "path \<Rightarrow> path \<Rightarrow> bool" where
  "path_within parent child \<longleftrightarrow> child = parent \<or> is_parent parent child"

text \<open>The anchor of an absolute path is the root directory.\<close>

definition safe_root :: "host \<Rightarrow> path \<Rightarrow> string \<Rightarrow> path result" where
  "safe_root h repository p =
     (if \<not> startswith p ''/'' then Inl collector_disabled
      else
        let resolved = h_resolve h p in
        if resolved = [] \<or> resolved = h_home h \<or> resolved = repository then Inl collector_disabled
        else if is_parent repository resolved then Inl collector_disabled
        else Inr resolved)"

definition finite_positive :: "py_float \<Rightarrow> bool" where
  "finite_positive f = (case f of Finite q \<Rightarrow> \<not> q \<le> 0 | _ \<Rightarrow> False)"

definition finite_nonnegative :: "py_float \<Rightarrow> bool" where
  "finite_nonnegative f = (case f of Finite q \<Rightarrow> \<not> q < 0 | _ \<Rightarrow> False)"

definition require_live :: "host \<Rightarrow> path \<Rightarrow> runtime_settings \<Rightarrow> unit result" where
  "require_live h repository rs =
     (if \<not> rs_enabled rs then Inl collector_disabled
      else
        (case (rs_profile_root rs, rs_workspace_root rs) of
           (Some profile, Some workspace) \<Rightarrow>
             rbind (safe_root h repository profile) (\<lambda>profile_root.
             rbind (safe_root h repository workspace) (\<lambda>workspace_root.
               if path_within profile_root workspace_root \<or> path_within workspace_root profile_root
               then Inl collector_disabled
               else if list_ex (\<lambda>f. \<not> finite_positive f)
                 [rs_transition_polling_seconds rs, rs_transition_timeout_seconds rs,
                  rs_operator_deadline_seconds rs]
               then Inl collector_disabled
               else if \<not> finite_nonnegative (rs_cooldown_seconds rs) then Inl collector_disabled
               else if rs_maximum_reel_bytes rs \<le> 0 \<or> rs_maximum_run_bytes rs < rs_maximum_reel_bytes rs
               then Inl collector_disabled
               else if rs_maximum_target_count rs < 1 \<or> rs_maximum_scroll_attempts rs < 1
               then Inl collector_disabled
               else Inr ()))
         | _ \<Rightarrow> Inl collector_disabled))"

text \<open>The seconds of a setting that \<open>require_live\<close> has found finite.\<close>

definition seconds_of :: "py_float \<Rightarrow> rat" where
  "seconds_of f = (case f of Finite q \<Rightarrow> q | _ \<Rightarrow> 0)"

section \<open>Directories\<close>

text \<open>
  A path below a root is written with the components that are appended to it, and resolved; the two
  helpers take \<open>resolve\<close> of a list of components.
\<close>

definition profile_path :: "(path \<Rightarrow> path result) \<Rightarrow> path \<Rightarrow> uuid \<Rightarrow> path result" where
  "profile_path resolve profile_root account =
     (case rbind (resolve profile_root) (\<lambda>base.
             rbind (resolve (base @ [uuid_str account])) (\<lambda>candidate. Inr (base, candidate))) of
        Inl _ \<Rightarrow> Inl profile_in_use
      | Inr (base, candidate) \<Rightarrow>
          if \<not> is_parent base candidate then Inl profile_in_use else Inr candidate)"

text \<open>
  The directories that exist are a list; \<open>mkdir(parents=True, exist_ok=False)\<close> adds the directory and
  those above it, and fails when it is there.
\<close>

definition make_directory :: "path \<Rightarrow> path list \<Rightarrow> path list result" where
  "make_directory p dirs =
     (if p \<in> set dirs then Inl OtherError
      else Inr (dirs @ map (\<lambda>n. take n p) [1..<Suc (length p)]))"

definition attempt_workspace :: "(path \<Rightarrow> path) \<Rightarrow> path \<Rightarrow> uuid \<Rightarrow> path list \<Rightarrow> (path \<times> path list) result" where
  "attempt_workspace resolve workspace_root token dirs =
     (let base = resolve workspace_root;
          candidate = resolve (base @ [''attempts'', uuid_str token])
      in if \<not> is_parent base candidate then Inl collector_disabled
         else
           (case make_directory candidate dirs of
              Inl _ \<Rightarrow> Inl collector_disabled
            | Inr dirs' \<Rightarrow> Inr (candidate, dirs')))"

text \<open>\<open>shutil.rmtree(resolved, ignore_errors=True)\<close> of the directories and the files.\<close>

definition remove_tree :: "path \<Rightarrow> path list \<Rightarrow> path list" where
  "remove_tree p entries = filter (\<lambda>q. \<not> path_within p q) entries"

definition cleanup_attempt_workspace :: "(path \<Rightarrow> path) \<Rightarrow> path \<Rightarrow> path \<Rightarrow> path list \<Rightarrow> path list result" where
  "cleanup_attempt_workspace resolve workspace_root candidate entries =
     (let base = resolve workspace_root; resolved = resolve candidate;
          attempts = resolve (base @ [''attempts''])
      in if \<not> is_parent attempts resolved \<or> \<not> is_parent base resolved then Inl collector_disabled
         else Inr (remove_tree resolved entries))"

section \<open>What they keep apart\<close>

lemma path_within_iff: "path_within p q \<longleftrightarrow> take (length p) q = p"
proof
  assume t: "take (length p) q = p"
  then have "length p \<le> length q" by (metis length_take min.absorb_iff2 min.commute)
  then show "path_within p q"
    using t by (cases "length p = length q") (auto simp: path_within_def is_parent_def)
qed (auto simp: path_within_def is_parent_def)

lemma path_within_comparable:
  assumes "path_within p q" "path_within r q" "length p \<le> length r"
  shows "path_within p r"
proof -
  have "take (length p) r = take (length p) (take (length r) q)"
    using assms(2) by (simp add: path_within_iff)
  also have "\<dots> = p" using assms(1,3) by (simp add: path_within_iff min_absorb1)
  finally show ?thesis by (simp add: path_within_iff)
qed

lemma require_live_roots:
  assumes "require_live h repository rs = Inr ()"
  obtains profile workspace where "rs_profile_root rs = Some profile" "rs_workspace_root rs = Some workspace"
    "safe_root h repository profile = Inr (h_resolve h profile)"
    "safe_root h repository workspace = Inr (h_resolve h workspace)"
    "\<not> path_within (h_resolve h profile) (h_resolve h workspace)"
    "\<not> path_within (h_resolve h workspace) (h_resolve h profile)"
  using assms
  by (auto simp: require_live_def safe_root_def Let_def split: if_splits option.splits sum.splits)

lemma safe_root_outside:
  "safe_root h repository p = Inr base \<Longrightarrow> base = h_resolve h p \<and> base \<noteq> [] \<and> base \<noteq> h_home h \<and>
     \<not> path_within repository base"
  by (auto simp: safe_root_def path_within_def Let_def split: if_splits)


definition demo_host :: host where
  "demo_host = \<lparr>h_resolve = (\<lambda>p. filter (\<lambda>w. w \<noteq> []) (split_on (CHR ''/'') p)), h_home = [''root'']\<rparr>"

definition demo_settings :: runtime_settings where
  "demo_settings = \<lparr>rs_enabled = True, rs_profile_root = Some ''/srv/profiles'',
     rs_workspace_root = Some ''/srv/work'', rs_headless = False,
     rs_transition_polling_seconds = Finite (1 / 4), rs_transition_timeout_seconds = Finite 10,
     rs_maximum_reel_bytes = 100 * mebibyte, rs_maximum_run_bytes = 1024 * mebibyte,
     rs_maximum_target_count = 10, rs_cooldown_seconds = Finite (1 / 2), rs_maximum_scroll_attempts = 30,
     rs_operator_deadline_seconds = Finite 3600\<rparr>"


text \<open>
  An attempt's workspace is a new directory strictly inside the workspace root, and cleaning it up removes
  it and what is in it and nothing else.
\<close>

theorem attempt_workspace_contained:
  assumes "attempt_workspace resolve wroot token dirs = Inr (p, dirs')"
    "cleanup_attempt_workspace resolve wroot p entries = Inr left"
  shows "is_parent (resolve wroot) p \<and> p \<notin> set dirs \<and> p \<in> set dirs' \<and> set dirs \<subseteq> set dirs' \<and>
    (\<forall>q. q \<in> set left \<longleftrightarrow> q \<in> set entries \<and> \<not> path_within (resolve p) q) \<and>
    is_parent (resolve wroot) (resolve p)"
proof -
  from assms(1) have p: "is_parent (resolve wroot) p" and made: "make_directory p dirs = Inr dirs'"
    by (auto simp: attempt_workspace_def Let_def split: if_splits sum.splits)
  from p have "length p \<in> set [1..<Suc (length p)]" by (auto simp: is_parent_def)
  then have "take (length p) p \<in> set (map (\<lambda>n. take n p) [1..<Suc (length p)])"
    unfolding set_map by (rule imageI)
  then have "p \<in> set dirs'" "set dirs \<subseteq> set dirs'" "p \<notin> set dirs"
    using made by (auto simp: make_directory_def split: if_splits)
  with p assms(2) show ?thesis
    by (auto simp: cleanup_attempt_workspace_def remove_tree_def Let_def split: if_splits)
qed

theorem attempt_workspace_contained_witness:
  "is_parent [''srv''] [''srv'', ''attempts'', uuid_str 7] \<and>
   [''srv'', ''attempts'', uuid_str 7] \<in> set [[''srv''], [''srv''], [''srv'', ''attempts''], [''srv'', ''attempts'', uuid_str 7]]"
proof -
  have "attempt_workspace id [''srv''] 7 [[''srv'']] =
      Inr ([''srv'', ''attempts'', uuid_str 7],
        [[''srv''], [''srv''], [''srv'', ''attempts''], [''srv'', ''attempts'', uuid_str 7]])"
    by (simp add: attempt_workspace_def make_directory_def is_parent_def Let_def upt_rec)
  moreover have "cleanup_attempt_workspace id [''srv''] [''srv'', ''attempts'', uuid_str 7] [[''srv'']] = Inr [[''srv'']]"
    by (simp add: cleanup_attempt_workspace_def remove_tree_def path_within_def is_parent_def Let_def)
  ultimately show ?thesis by (auto dest: attempt_workspace_contained)
qed

end
