(* ===== verification/Operator.thy ===== *)
theory Operator
  imports Engine Verification RuntimeConfig
begin

text \<open>
  \<open>runtime/operator.py\<close> of \<open>apps/api/app/instagram/collector/\<close>: one live run of the Collector under a human
  operator. The state of the engine is extended by what the operator's process adds: the answers of the human,
  what opening the browser and building the clients raise, whether a feed is open, and the safe transcript. The
  feed's \<open>current\<close> and \<open>close\<close> take the next entry of the engine's feed list. The three diagnostic lists of the
  transcript are copies of counters that the engine's model leaves out, and are left out here.
\<close>

section \<open>The transcript\<close>

definition allowed_events :: "string list" where
  "allowed_events =
     [''detect'', ''pause'', ''download'', ''validation'', ''publish'', ''db_commit'', ''cooldown'',
      ''feed_source_advance'', ''advance'', ''advance_retry'', ''transition_confirmed'', ''duplicate_skipped'']"

text \<open>The dictionary that either kind of run leaves in \<open>verification\<close>.\<close>

datatype verification_report =
    RunReport bool bool "string option"
  | ContinuationReport bool int "string option"

record safe_transcript =
  st_events :: "(int \<times> string) list"
  st_verification :: "verification_report option"
  st_baseline :: "run_baseline option"
  st_account_id :: "uuid option"

definition new_transcript :: safe_transcript where
  "new_transcript = \<lparr>st_events = [], st_verification = None, st_baseline = None, st_account_id = None\<rparr>"

definition transcript_record :: "int \<times> string \<Rightarrow> safe_transcript \<Rightarrow> safe_transcript" where
  "transcript_record recorded t =
     (case recorded of (p, event) \<Rightarrow>
        let event = (if event = ''publication'' then ''publish'' else event) in
        if event \<in> set allowed_events \<and> length (st_events t) < 256
        then t\<lparr>st_events := st_events t @ [(p, event)]\<rparr> else t)"

section \<open>The process\<close>

record operator = engine +
  o_answers :: "bool result list"
  o_opened :: "exn option list"
  o_setup :: "exn option list"
  o_feed :: bool
  o_transcript :: safe_transcript

type_synonym operator_result = "collector_summary option \<times> safe_transcript \<times> string option"
type_synonym ('r, 'a) step = "(operator, 'r, 'a) act"
type_synonym 'a operator_act = "(operator_result, 'a) step"

record operator_config =
  oc_host :: host
  oc_repository :: path
  oc_runtime :: runtime_settings
  oc_tools :: tools
  oc_given_account :: "uuid option"
  oc_stored_account :: "uuid result"
  oc_existing_feed :: bool

definition stage_3b_target :: int where
  "stage_3b_target = 3"

definition stage_3b_max_bytes :: int where
  "stage_3b_max_bytes = 300 * mebibyte"

definition workspace_root :: "operator_config \<Rightarrow> path" where
  "workspace_root oc = (case rs_workspace_root (oc_runtime oc) of None \<Rightarrow> [] | Some p \<Rightarrow> h_resolve (oc_host oc) p)"

text \<open>\<open>wait_ready()\<close> and \<open>confirm()\<close>, and a constructor that may raise.\<close>

definition ask :: "('r, bool) step" where
  "ask = with_state (\<lambda>s.
     bind (modify (\<lambda>s. s\<lparr>o_answers := tl (o_answers s)\<rparr>)) (\<lambda>_. call (pop (Inr False) (o_answers s))))"

definition build_client :: "('r, unit) step" where
  "build_client = with_state (\<lambda>s.
     bind (modify (\<lambda>s. s\<lparr>o_setup := tl (o_setup s)\<rparr>)) (\<lambda>_.
     case pop None (o_setup s) of None \<Rightarrow> ret () | Some e \<Rightarrow> raise e))"

definition feed_call :: "('r, unit) step" where
  "feed_call = with_state (\<lambda>s.
     bind (modify (\<lambda>s. s\<lparr>c_feed := tl (c_feed s)\<rparr>)) (\<lambda>_.
     case pop (Inl OtherError) (c_feed s) of Inl e \<Rightarrow> raise e | Inr _ \<Rightarrow> ret ()))"

definition open_feed :: "('r, unit) step" where
  "open_feed = with_state (\<lambda>s.
     if o_feed s then ret ()
     else
       bind (modify (\<lambda>s. s\<lparr>o_opened := tl (o_opened s)\<rparr>)) (\<lambda>_.
       bind (case pop None (o_opened s) of None \<Rightarrow> ret () | Some e \<Rightarrow> raise e) (\<lambda>_.
       modify (\<lambda>s. s\<lparr>o_feed := True\<rparr>))))"

definition close_feed_quietly :: "('r, unit) step" where
  "close_feed_quietly = attempt (with_state (\<lambda>s. if o_feed s then feed_call else ret ()))"

definition set_transcript :: "(safe_transcript \<Rightarrow> safe_transcript) \<Rightarrow> ('r, unit) step" where
  "set_transcript f = modify (\<lambda>s. s\<lparr>o_transcript := f (o_transcript s)\<rparr>)"

text \<open>\<open>return summary, transcript, reason\<close>.\<close>

definition answer :: "collector_summary option \<Rightarrow> string option \<Rightarrow> unit operator_act" where
  "answer summary reason = with_state (\<lambda>s. stop (Return (summary, o_transcript s, reason)))"

text \<open>
  \<open>engine.collect\<close> with the transcript as its recorder: each event the engine records goes to \<open>record\<close>, and
  the engine keeps running whatever that does.
\<close>

definition recorded_by :: "engine \<Rightarrow> operator \<Rightarrow> operator" where
  "recorded_by t s = (engine.extend t (engine.more s))\<lparr>o_transcript :=
     fold transcript_record (drop (length (c_recorded s)) (c_recorded t)) (o_transcript s)\<rparr>"

definition run_engine :: "engine_config \<Rightarrow> ('r, collector_summary) step" where
  "run_engine cfg = function_body (\<lambda>s. case collect cfg (engine.truncate s) of (r, t) \<Rightarrow> (r, recorded_by t s))"

section \<open>The account and the run\<close>

definition set_status :: "uuid \<Rightarrow> AccountStatus \<Rightarrow> string option \<Rightarrow> ('r, unit) step" where
  "set_status account status reason =
     bind datetime_now (\<lambda>now. db_call (set_account_status account status reason now))"

definition fail_claimed_run :: "collection_run option \<Rightarrow> string \<Rightarrow> unit operator_act" where
  "fail_claimed_run claimed reason =
     (case claimed of None \<Rightarrow> ret () | Some run \<Rightarrow> bind datetime_now (\<lambda>now. db_call (fail_run (run_id run) reason now)))"

definition cancel_claimed_run :: "collection_run option \<Rightarrow> string \<Rightarrow> unit operator_act" where
  "cancel_claimed_run claimed reason =
     (case claimed of
        None \<Rightarrow> ret ()
      | Some run \<Rightarrow> bind datetime_now (\<lambda>now. bind (db_call (cancel_run (run_id run) reason now)) (\<lambda>_. ret ())))"

definition set_safe_account_state :: "uuid \<Rightarrow> string \<Rightarrow> unit operator_act" where
  "set_safe_account_state account code = attempt
     (if code \<in> {''AUTH_REQUIRED'', ''SESSION_COOKIE_MISSING'', ''DIRECT_DOWNLOAD_AUTH_REQUIRED''}
      then set_status account AccountStatus.REAUTH_REQUIRED (Some code)
      else if code = ''CHECKPOINT_REQUIRED'' then set_status account AccountStatus.REAUTH_REQUIRED (Some code)
      else if code = ''TEMPORARILY_LIMITED'' then set_status account AccountStatus.TEMPORARILY_LIMITED (Some code)
      else ret ())"

section \<open>The run of three\<close>

text \<open>The collaborators and limits of the engine that \<open>run_stage_3b\<close> builds.\<close>

definition stage_3b_engine :: "operator_config \<Rightarrow> uuid \<Rightarrow> collection_run option \<Rightarrow> engine_config" where
  "stage_3b_engine oc account claimed =
     (let rs = oc_runtime oc in
      \<lparr>ec_tools = oc_tools oc,
       ec_storage = \<lparr>sc_workspace_root = workspace_root oc, sc_maximum_bytes = rs_maximum_reel_bytes rs\<rparr>,
       ec_limits = \<lparr>max_target = stage_3b_target, max_advances = stage_3b_target - 1,
         max_transition_operations = Some (stage_3b_target - 1), max_scroll_actions = Some 4,
         max_run_bytes = Some (min (rs_maximum_run_bytes rs) stage_3b_max_bytes),
         cooldown_seconds = max (seconds_of (rs_cooldown_seconds rs)) (1 / 2),
         deadline_seconds = Some (seconds_of (rs_operator_deadline_seconds rs)), max_observations = None\<rparr>,
       ec_authenticated_feed = True, ec_account_id = account, ec_trigger = CollectionTrigger.MANUAL,
       ec_target_count = stage_3b_target, ec_desired_account_total = None,
       ec_claimed_run_id = map_option run_id claimed\<rparr>)"

definition prepare_stage_3b :: "operator_config \<Rightarrow> (uuid \<times> collection_run option) operator_act" where
  "prepare_stage_3b oc =
     bind (call (require_live (oc_host oc) (oc_repository oc) (oc_runtime oc))) (\<lambda>_.
     bind (if rs_headless (oc_runtime oc) \<or> rs_maximum_target_count (oc_runtime oc) < stage_3b_target
           then raise collector_disabled else ret ()) (\<lambda>_.
     bind build_client (\<lambda>_.
     bind (call (case oc_given_account oc of Some account \<Rightarrow> Inr account | None \<Rightarrow> oc_stored_account oc)) (\<lambda>account.
     bind (db_call (ensure_account account)) (\<lambda>_.
     bind (bind datetime_now (\<lambda>now. db_call (claim_queued_run account now))) (\<lambda>claimed.
     ret (account, claimed)))))))"

text \<open>What stands between the claim and the \<open>try\<close>.\<close>

definition check_claim :: "uuid \<Rightarrow> collection_run option \<Rightarrow> unit operator_act" where
  "check_claim account claimed =
     (case claimed of
        Some run \<Rightarrow>
          if run_target_count run \<noteq> stage_3b_target
          then bind (fail_claimed_run claimed ''UNSUPPORTED_TARGET'') (\<lambda>_.
               with_state (\<lambda>s. stop (Return (None, new_transcript, Some ''COLLECTOR_DISABLED''))))
          else ret ()
      | None \<Rightarrow>
          bind (db_read (active_run_exists account)) (\<lambda>active.
          if active then raise (CollectorRuntimeError ''ACTIVE_RUN_EXISTS'') else ret ()))"

definition mark_connecting :: "uuid \<Rightarrow> ('r, unit) step" where
  "mark_connecting account =
     bind (db_read (account_status account)) (\<lambda>status.
     if status \<noteq> AccountStatus.CONNECTED then set_status account AccountStatus.CONNECTING None else ret ())"

text \<open>The human's part: the open browser, the centred Reel, the confirmation.\<close>

definition await_operator :: "uuid \<Rightarrow> collection_run option \<Rightarrow> unit operator_act" where
  "await_operator account claimed =
     bind open_feed (\<lambda>_.
     bind ask (\<lambda>ready.
     bind (if ready then ret ()
           else bind (fail_claimed_run claimed ''OPERATOR_TIMEOUT'') (\<lambda>_. answer None (Some ''OPERATOR_TIMEOUT''))) (\<lambda>_.
     bind feed_call (\<lambda>_.
     bind (set_status account AccountStatus.CONNECTED None) (\<lambda>_.
     bind ask (\<lambda>confirmed.
     if confirmed then ret ()
     else bind (cancel_claimed_run claimed ''USER_CANCELLED'') (\<lambda>_. answer None (Some ''USER_CANCELLED''))))))))"

definition note_stop_reason :: "uuid \<Rightarrow> collector_summary \<Rightarrow> unit operator_act" where
  "note_stop_reason account summary =
     (case cs_stop_reason_code summary of
        None \<Rightarrow> ret ()
      | Some reason \<Rightarrow>
          try_except (bind (call (runtime_reason_code reason)) (set_safe_account_state account))
            (\<lambda>e. if e = ValueError then ret () else raise e))"

definition transcript_of :: "safe_transcript \<Rightarrow> transcript" where
  "transcript_of t = map (\<lambda>(p, e). (Some p, Some e)) (st_events t)"

definition verify_collected :: "operator_config \<Rightarrow> run_baseline \<Rightarrow> collector_summary \<Rightarrow> unit operator_act" where
  "verify_collected oc baseline summary =
     bind (with_state (\<lambda>s. verify_run (t_sha256 (oc_tools oc)) (cs_run_id summary) baseline
             (transcript_of (o_transcript s)) (workspace_root oc) (map fst (c_files s)))) (\<lambda>result.
     bind (set_transcript (\<lambda>t. t\<lparr>st_verification :=
             Some (RunReport (vr_verified result) (vr_video_count_unchanged result) (vr_reason_code result))\<rparr>)) (\<lambda>_.
     if vr_verified result then ret () else answer (Some summary) (Some ''POST_RUN_VERIFICATION_FAILED'')))"

definition collect_stage_3b :: "operator_config \<Rightarrow> uuid \<Rightarrow> collection_run option \<Rightarrow> unit operator_act" where
  "collect_stage_3b oc account claimed =
     bind build_client (\<lambda>_.
     bind (capture_run_baseline (t_sha256 (oc_tools oc))) (\<lambda>baseline.
     bind (set_transcript (\<lambda>t. t\<lparr>st_baseline := Some baseline\<rparr>)) (\<lambda>_.
     bind (call (require_live (oc_host oc) (oc_repository oc) (oc_runtime oc))) (\<lambda>_.
     bind (run_engine (stage_3b_engine oc account claimed)) (\<lambda>summary.
     bind (note_stop_reason account summary) (\<lambda>_.
     bind (if cs_status summary = ''completed'' then verify_collected oc baseline summary else ret ()) (\<lambda>_.
     answer (Some summary) None)))))))"

definition stage_3b_failed :: "uuid \<Rightarrow> collection_run option \<Rightarrow> exn \<Rightarrow> unit operator_act" where
  "stage_3b_failed account claimed error =
     (case safe_exception_code error of
        Some code \<Rightarrow>
          bind (fail_claimed_run claimed code) (\<lambda>_.
          bind (set_safe_account_state account code) (\<lambda>_.
          answer None (Some code)))
      | None \<Rightarrow>
          if is_exception error then bind (fail_claimed_run claimed ''COLLECTOR_FAILED'') (\<lambda>_. raise error)
          else raise error)"

definition supervised_stage_3b :: "operator_config \<Rightarrow> uuid \<Rightarrow> collection_run option \<Rightarrow> unit operator_act" where
  "supervised_stage_3b oc account claimed = finally_do
     (try_except
        (bind (await_operator account claimed) (\<lambda>_. collect_stage_3b oc account claimed))
        (stage_3b_failed account claimed))
     close_feed_quietly"

definition run_stage_3b :: "operator_config \<Rightarrow> ('r, operator_result) step" where
  "run_stage_3b oc = function_body
     (bind (prepare_stage_3b oc) (\<lambda>(account, claimed).
      bind (check_claim account claimed) (\<lambda>_.
      bind (mark_connecting account) (\<lambda>_.
      bind (modify (\<lambda>s. s\<lparr>o_transcript := new_transcript\<lparr>st_account_id := Some account\<rparr>, o_feed := oc_existing_feed oc\<rparr>)) (\<lambda>_.
      bind (supervised_stage_3b oc account claimed) (\<lambda>_. stop Break))))))"

end
