(* ===== verification/Stage3c1.thy ===== *)
theory Stage3c1
  imports Operator
begin

text \<open>
  \<open>runtime/stage3c1.py\<close> of \<open>apps/api/app/instagram/collector/\<close>: the continuation of a collection up to ten durable
  Reels of the account. The plan is made from the database and the bucket before the browser opens; a completed
  continuation is verified against the plan. \<open>collate\<close> is the sort key of the database's collation.
\<close>

section \<open>The plan\<close>

record stage3c1_plan =
  pn_account_id :: uuid
  pn_initial_durable_count :: int
  pn_desired_total :: int
  pn_remaining :: int
  pn_baseline :: "durable_reel_snapshot list"

record stage3c1_verification =
  cv_verified :: bool
  cv_final_durable_count :: int
  cv_reason_code :: "string option"

definition stage_3c1_desired_total :: int where "stage_3c1_desired_total = 10"
definition stage_3c1_initial_minimum :: int where "stage_3c1_initial_minimum = 3"
definition stage_3c1_max_new_bytes :: int where "stage_3c1_max_new_bytes = 700 * mebibyte"
definition stage_3c1_max_observations :: int where "stage_3c1_max_observations = 30"
definition stage_3c1_max_transitions :: int where "stage_3c1_max_transitions = 29"
definition stage_3c1_max_wheels :: int where "stage_3c1_max_wheels = 58"

lemmas stage_3c1_limits = stage_3c1_desired_total_def stage_3c1_initial_minimum_def stage_3c1_max_new_bytes_def
  stage_3c1_max_observations_def stage_3c1_max_transitions_def stage_3c1_max_wheels_def

definition remote_matches :: "durable_reel_snapshot \<Rightarrow> baseline_object \<Rightarrow> bool" where
  "remote_matches item remote \<longleftrightarrow> bo_byte_size remote = snap_byte_size item \<and> bo_sha256 remote = snap_sha256 item \<and>
     bo_content_type remote = ''video/mp4''"

fun check_sources :: "(string \<Rightarrow> string) \<Rightarrow> durable_reel_snapshot list \<Rightarrow> ('w world_scheme, 'r, unit) act" where
  "check_sources sha [] = ret ()"
| "check_sources sha (item # items) =
     bind (try_except (snapshot_object sha (snap_object_key item))
             (\<lambda>e. if is_exception e then raise collector_disabled else raise e)) (\<lambda>remote.
     bind (if \<not> remote_matches item remote then raise collector_disabled else ret ()) (\<lambda>_.
     check_sources sha items))"

definition prepare_stage3c1 :: "(string \<Rightarrow> string) \<Rightarrow> (string \<Rightarrow> nat) \<Rightarrow> uuid \<Rightarrow> int \<Rightarrow>
    ('w world_scheme, 'r, stage3c1_plan) act" where
  "prepare_stage3c1 sha collate account desired_total =
     (if desired_total \<noteq> stage_3c1_desired_total then raise collector_disabled
      else
        bind (db_read (account_durable_count account)) (\<lambda>initial.
        bind (db_read (account_durable_baseline collate account)) (\<lambda>baseline.
        bind (if initial \<noteq> int (length baseline) \<or> initial < stage_3c1_initial_minimum \<or> initial > desired_total
              then raise collector_disabled else ret ()) (\<lambda>_.
        bind (check_sources sha baseline) (\<lambda>_.
        ret \<lparr>pn_account_id = account, pn_initial_durable_count = initial, pn_desired_total = desired_total,
             pn_remaining = desired_total - initial, pn_baseline = baseline\<rparr>)))))"

section \<open>The check\<close>

text \<open>The loop reads every object, also after a mismatch.\<close>

fun sources_match :: "(string \<Rightarrow> string) \<Rightarrow> durable_reel_snapshot list \<Rightarrow> bool \<Rightarrow> ('w world_scheme, 'r, bool) act" where
  "sources_match sha [] valid = ret valid"
| "sources_match sha (item # items) valid =
     bind (snapshot_object sha (snap_object_key item)) (\<lambda>remote.
     sources_match sha items (valid \<and> remote_matches item remote))"

definition bucket_matches :: "(string \<Rightarrow> string) \<Rightarrow> durable_reel_snapshot list \<Rightarrow> ('w world_scheme, 'r, bool) act" where
  "bucket_matches sha snapshots = try_except
     (bind (snapshot_objects sha) (\<lambda>current.
      sources_match sha snapshots
        (set (map bo_object_key current) = set (map snap_object_key snapshots) \<and>
         list_all (\<lambda>b. \<not> is_temporary_name (bo_object_key b)) current)))
     (\<lambda>e. if is_exception e then ret False else raise e)"

text \<open>Both tuples are keyed by Reel in a dictionary, where the last of two equal keys stays.\<close>

definition originals_kept :: "durable_reel_snapshot list \<Rightarrow> durable_reel_snapshot list \<Rightarrow> bool" where
  "originals_kept original current \<longleftrightarrow>
     list_all (\<lambda>item. lookup_row snap_reel_id (snap_reel_id item) (rev current) =
       lookup_row snap_reel_id (snap_reel_id item) (rev original)) original"

text \<open>The Reels of the snapshots with an item of some run, and the pending jobs of each Reel that has one.\<close>

definition collected_reels :: "uuid list \<Rightarrow> db \<Rightarrow> reel list" where
  "collected_reels ids d = filter (\<lambda>r. reel_id r \<in> set ids \<and> list_ex (\<lambda>i. item_reel_id i = reel_id r) (run_items d)) (reels d)"

definition pending_counts :: "uuid list \<Rightarrow> db \<Rightarrow> nat list" where
  "pending_counts ids d =
     map (\<lambda>i. pending_jobs i d)
       (remdups (map job_reel_id (filter (\<lambda>j. job_reel_id j \<in> set ids \<and> job_status j = NormalizationJobStatus.PENDING) (jobs d))))"

definition stage3c1_rows_valid :: "uuid list \<Rightarrow> db \<Rightarrow> bool" where
  "stage3c1_rows_valid ids d \<longleftrightarrow>
     int (length (collected_reels ids d)) = stage_3c1_desired_total \<and>
     list_all (\<lambda>r. reel_video_id r = None) (collected_reels ids d) \<and>
     int (length (pending_counts ids d)) = stage_3c1_desired_total \<and>
     list_all (\<lambda>n. n = 1) (pending_counts ids d) \<and> videos d = []"

definition summary_valid :: "stage3c1_plan \<Rightarrow> collector_summary option \<Rightarrow> transcript \<Rightarrow> bool" where
  "summary_valid plan summary events \<longleftrightarrow>
     (case summary of
        None \<Rightarrow> True
      | Some s \<Rightarrow>
          cs_status s = ''completed'' \<and> cs_target_count s = pn_remaining plan \<and>
          cs_source_committed_count s = pn_remaining plan \<and> cs_already_available_count s = 0 \<and>
          cs_failed_count s = 0 \<and> validate_stage3c1_transcript events ''completed'' (Some (cs_observations s)))"

definition verify_stage3c1 :: "(string \<Rightarrow> string) \<Rightarrow> (string \<Rightarrow> nat) \<Rightarrow> stage3c1_plan \<Rightarrow> collector_summary option \<Rightarrow>
    transcript \<Rightarrow> ('w world_scheme, 'r, stage3c1_verification) act" where
  "verify_stage3c1 sha collate plan summary events =
     bind (db_read (account_durable_count (pn_account_id plan))) (\<lambda>final_count.
     bind (db_read (account_durable_baseline collate (pn_account_id plan))) (\<lambda>snapshots.
     bind (bucket_matches sha snapshots) (\<lambda>bucket_valid.
     bind (db_read (stage3c1_rows_valid (map snap_reel_id snapshots))) (\<lambda>rows_valid.
     let valid = final_count = stage_3c1_desired_total \<and> int (length snapshots) = stage_3c1_desired_total \<and>
           originals_kept (pn_baseline plan) snapshots \<and> bucket_valid \<and> rows_valid \<and> summary_valid plan summary events
     in ret \<lparr>cv_verified = valid, cv_final_durable_count = final_count,
          cv_reason_code = (if valid then None else Some ''POST_RUN_VERIFICATION_FAILED'')\<rparr>))))"

section \<open>The continuation\<close>

type_synonym stage3c1_result = "collector_summary option \<times> safe_transcript \<times> stage3c1_plan \<times> string option"
type_synonym 'a continuation = "(stage3c1_result, 'a) step"

definition leave :: "stage3c1_plan \<Rightarrow> collector_summary option \<Rightarrow> string option \<Rightarrow> 'a continuation" where
  "leave plan summary reason = with_state (\<lambda>s. stop (Return (summary, o_transcript s, plan, reason)))"

definition stage3c1_settings_ok :: "runtime_settings \<Rightarrow> bool" where
  "stage3c1_settings_ok rs \<longleftrightarrow>
     \<not> (rs_headless rs \<or> rs_maximum_target_count rs < stage_3c1_desired_total \<or>
        rs_maximum_reel_bytes rs \<noteq> 100 * mebibyte \<or> rs_transition_polling_seconds rs \<noteq> Finite (1 / 4) \<or>
        rs_transition_timeout_seconds rs \<noteq> Finite 10 \<or> rs_operator_deadline_seconds rs \<noteq> Finite 3600)"

definition stage_3c1_engine :: "operator_config \<Rightarrow> stage3c1_plan \<Rightarrow> engine_config" where
  "stage_3c1_engine oc plan =
     (let rs = oc_runtime oc in
      \<lparr>ec_tools = oc_tools oc,
       ec_storage = \<lparr>sc_workspace_root = workspace_root oc, sc_maximum_bytes = rs_maximum_reel_bytes rs\<rparr>,
       ec_limits = \<lparr>max_target = stage_3c1_desired_total, max_advances = stage_3c1_max_transitions,
         max_transition_operations = Some stage_3c1_max_transitions,
         max_scroll_actions = Some stage_3c1_max_wheels, max_run_bytes = Some stage_3c1_max_new_bytes,
         cooldown_seconds = max (seconds_of (rs_cooldown_seconds rs)) (1 / 2),
         deadline_seconds = Some 3600, max_observations = Some stage_3c1_max_observations\<rparr>,
       ec_authenticated_feed = True, ec_account_id = pn_account_id plan, ec_trigger = CollectionTrigger.MANUAL,
       ec_target_count = pn_remaining plan, ec_desired_account_total = Some stage_3c1_desired_total,
       ec_claimed_run_id = None\<rparr>)"

definition verify_continuation :: "operator_config \<Rightarrow> (string \<Rightarrow> nat) \<Rightarrow> stage3c1_plan \<Rightarrow>
    collector_summary option \<Rightarrow> transcript \<Rightarrow> unit continuation" where
  "verify_continuation oc collate plan summary events =
     bind (verify_stage3c1 (t_sha256 (oc_tools oc)) collate plan summary events) (\<lambda>result.
     bind (set_transcript (\<lambda>t. t\<lparr>st_verification :=
             Some (ContinuationReport (cv_verified result) (cv_final_durable_count result) (cv_reason_code result))\<rparr>)) (\<lambda>_.
     if cv_verified result then ret () else leave plan summary (Some ''POST_RUN_VERIFICATION_FAILED'')))"

definition plan_stage3c1 :: "operator_config \<Rightarrow> (string \<Rightarrow> nat) \<Rightarrow> int \<Rightarrow> stage3c1_plan continuation" where
  "plan_stage3c1 oc collate desired_total =
     bind (call (require_live (oc_host oc) (oc_repository oc) (oc_runtime oc))) (\<lambda>_.
     bind (if \<not> stage3c1_settings_ok (oc_runtime oc) then raise collector_disabled else ret ()) (\<lambda>_.
     bind build_client (\<lambda>_.
     bind (call (oc_stored_account oc)) (\<lambda>account.
     bind (db_call (ensure_account account)) (\<lambda>_.
     bind (db_read (active_run_exists account)) (\<lambda>active.
     bind (if active then raise (CollectorRuntimeError ''ACTIVE_RUN_EXISTS'') else ret ()) (\<lambda>_.
     bind build_client (\<lambda>_.
     prepare_stage3c1 (t_sha256 (oc_tools oc)) collate account desired_total))))))))"

definition continue_collection :: "operator_config \<Rightarrow> (string \<Rightarrow> nat) \<Rightarrow> stage3c1_plan \<Rightarrow> unit continuation" where
  "continue_collection oc collate plan =
     bind open_feed (\<lambda>_.
     bind ask (\<lambda>ready.
     bind (if ready then ret () else leave plan None (Some ''OPERATOR_TIMEOUT'')) (\<lambda>_.
     bind feed_call (\<lambda>_.
     bind ((set_status (pn_account_id plan) AccountStatus.CONNECTED None)) (\<lambda>_.
     bind ask (\<lambda>confirmed.
     bind (if confirmed then ret () else leave plan None (Some ''USER_CANCELLED'')) (\<lambda>_.
     bind (call (require_live (oc_host oc) (oc_repository oc) (oc_runtime oc))) (\<lambda>_.
     bind ((run_engine (stage_3c1_engine oc plan))) (\<lambda>summary.
     bind (if cs_status summary = ''completed''
           then with_state (\<lambda>s. verify_continuation oc collate plan (Some summary) (transcript_of (o_transcript s)))
           else ret ()) (\<lambda>_.
     leave plan (Some summary) (cs_stop_reason_code summary)))))))))))"

definition run_stage3c1 :: "operator_config \<Rightarrow> (string \<Rightarrow> nat) \<Rightarrow> int \<Rightarrow> ('r, stage3c1_result) step" where
  "run_stage3c1 oc collate desired_total = function_body
     (bind (plan_stage3c1 oc collate desired_total) (\<lambda>plan.
      bind (modify (\<lambda>s. s\<lparr>o_transcript := new_transcript\<lparr>st_account_id := Some (pn_account_id plan)\<rparr>, o_feed := False\<rparr>)) (\<lambda>_.
      bind (if pn_remaining plan = 0
            then bind (verify_continuation oc collate plan None []) (\<lambda>_. leave plan None None) else ret ()) (\<lambda>_.
      bind ((mark_connecting (pn_account_id plan))) (\<lambda>_.
      bind (finally_do (continue_collection oc collate plan) close_feed_quietly) (\<lambda>_. stop Break))))))"

end
