(* ===== verification/EngineEvents.thy ===== *)
theory EngineEvents
  imports EngineRuns
begin

text \<open>
  Which events a run of the engine records: with a feed that has \<open>next_from_authenticated_feed\<close> there is no
  wheel, so no \<open>advance\<close> and no \<open>advance_retry\<close> is ever recorded.
\<close>

lemma keeps_if: "keeps I a \<Longrightarrow> keeps I b \<Longrightarrow> keeps I (if c then a else b)"
  by simp

section \<open>Predicates of the recorded events\<close>

text \<open>A predicate of the events alone, which the events of a run without wheels keep.\<close>

locale event_predicate =
  fixes P :: "engine \<Rightarrow> bool"
  assumes same: "P s \<Longrightarrow> c_recorded t = c_recorded s \<Longrightarrow> P t"
    and event: "P s \<Longrightarrow> e \<noteq> ''advance'' \<Longrightarrow> e \<noteq> ''advance_retry'' \<Longrightarrow>
      P (s\<lparr>c_recorded := c_recorded s @ [(l_position s, e)]\<rparr>)"
begin

lemma evt_modify: "(\<And>s. c_recorded (f s) = c_recorded s) \<Longrightarrow> keeps P (modify f)"
  by (rule keeps_modify) (erule same)

lemma evt_env: "keeps P datetime_now" "keeps P uuid4"
  unfolding datetime_now_def uuid4_def by (intro act_inv evt_modify; simp)+

lemma evt_may_fail: "keeps P a \<Longrightarrow> keeps P (may_fail e a)"
  unfolding may_fail_def by (auto intro!: act_inv evt_modify)

lemma evt_db: "keeps P (db_call f)" "keeps P (db_read g)" "keeps P (db_query h)"
  unfolding db_query_def db_read_def db_call_def
  by (auto intro!: act_inv evt_may_fail evt_modify split: prod.splits sum.splits)

lemma evt_storage: "keeps P (storage_download_file k)" "keeps P (storage_stat k)" "keeps P (storage_upload_file k c ct)"
  "keeps P (storage_copy k k')" "keeps P (storage_remove k)"
  unfolding storage_defs by (auto intro!: act_inv evt_may_fail evt_modify split: option.splits)

lemma evt_translating: "keeps P a \<Longrightarrow> keeps P (translating e a)"
  unfolding translating_def by (auto intro!: act_inv)

lemma evt_sources: "keeps P (validate_source tools sc p)" "keeps P (publish_source tools sc p k)" "keeps P (delete_source k)"
  "keeps P (cleanup_temporary_file sc p)"
  unfolding validate_source_def publish_source_def delete_source_def cleanup_temporary_file_def stat_source_def
    existing_matches_def read_file_def unlink_def
  by (auto intro!: act_inv evt_translating evt_storage evt_may_fail evt_modify split: option.splits)

lemma evt_event: "e \<noteq> ''advance'' \<Longrightarrow> e \<noteq> ''advance_retry'' \<Longrightarrow> keeps P (record_event e)"
  unfolding record_event_def by (rule keeps_modify) (rule event)

lemma evt_clock: "keeps P clock_reading" "keeps P (deadline_expired dl)" "keeps P (require_deadline dl)"
  unfolding require_deadline_def deadline_expired_def clock_reading_def
  by (auto intro!: act_inv evt_modify split: option.splits)

lemma evt_locals: "keeps P (set_stage st)" "keeps P (set_reason r)" "keeps P (break_with r)" "keeps P (break_if_expired dl)"
  unfolding set_stage_def set_reason_def break_with_def break_if_expired_def
  by (auto intro!: act_inv evt_modify evt_clock)

lemma evt_cancel: "keeps P (raise_if_cancel_requested run)"
  unfolding raise_if_cancel_requested_def others_may_cancel_def
  by (auto intro!: act_inv evt_modify evt_env evt_db)

lemma evt_returns: "keeps P (return_summary cfg run reason st)" "keeps P (fail_and_return cfg run c reason)"
  "keeps P (cancel_and_return cfg run c)"
  unfolding return_summary_def fail_and_return_def cancel_and_return_def summarize_def safe_fail_run_def safe_cancel_run_def
    attempt_def
  by (auto intro!: act_inv evt_env evt_db)

lemma evt_feed: "keeps P feed_response" "keeps P feed_current" "keeps P feed_close"
  unfolding feed_close_def feed_current_def feed_response_def attempt_def by (auto intro!: act_inv evt_modify)

lemma evt_transition: "ec_authenticated_feed cfg \<Longrightarrow> keeps P (confirm_transition cfg dl rem)"
  unfolding confirm_transition_def with_type_error_fallback_def
  by (auto intro!: act_inv evt_feed evt_event split: option.splits)

lemma evt_acquire_body: "keeps P (acquire_body cfg run dl p)"
  unfolding acquire_body_def block.simps download_def write_file_def check_run_bytes_def commit_acquired_def
  by (auto intro!: act_inv evt_cancel evt_clock evt_modify evt_event evt_sources evt_locals evt_env evt_db
      split: prod.splits option.splits)

lemma evt_acquire: "keeps P (acquire cfg run dl)"
proof -
  have failed: "keeps P (acquire_failed run e)" for e
    unfolding acquire_failed_def compensate_def record_acquire_failure_def attempt_def
    by (auto intro!: act_inv evt_sources evt_modify evt_env evt_db split: option.splits)
  show ?thesis
    unfolding acquire_def by (intro act_inv evt_modify evt_acquire_body failed evt_sources; simp)
qed

lemma evt_take: "keeps P (take_candidate cfg run dl owned)"
  unfolding take_candidate_def commit_known_def
  by (auto intro!: act_inv evt_db evt_modify evt_event evt_acquire evt_env evt_locals split: option.splits)

lemma evt_observe: "keeps P (observe cfg run dl)"
  unfolding observe_def account_owned_def block.simps
  by (auto intro!: act_inv evt_cancel evt_locals evt_modify evt_db evt_event evt_feed)

lemma evt_check_target: "keeps P (check_target cfg run)"
  unfolding check_target_def ensure_completed_def complete_def completion_failed_def
  by (auto intro!: act_inv evt_db evt_env evt_modify evt_returns evt_locals split: option.splits)

lemma evt_next_reel: "ec_authenticated_feed cfg \<Longrightarrow> keeps P (next_reel cfg run dl)"
  unfolding next_reel_def before_transition_def move_to_def block.simps
  by (auto intro!: act_inv evt_transition evt_locals evt_clock evt_event evt_modify evt_cancel split: option.splits)

lemma evt_collect:
  assumes "ec_authenticated_feed cfg"
  shows "keeps P (collect cfg)"
proof -
  have round: "keeps P (loop_round cfg run dl)" for run dl
    unfolding loop_round_def block.simps
    by (intro act_inv evt_observe evt_take evt_check_target evt_next_reel assms)
  have body: "keeps P (collect_body cfg run dl)" for run dl
    unfolding collect_body_def by (intro act_inv evt_cancel evt_feed evt_modify round evt_returns) simp
  have failed: "keeps P (collect_failed cfg run e)" for run e
    unfolding collect_failed_def Let_def by (intro keeps_if evt_returns)
  show ?thesis
    unfolding collect_def start_run_def reset_locals_def
    by (auto intro!: act_inv evt_env evt_db evt_clock evt_modify body failed evt_feed split: option.splits)
qed

end

text \<open>No wheel in the events after the first \<open>n\<close>.\<close>

definition wheel_free :: "nat \<Rightarrow> engine \<Rightarrow> bool" where
  "wheel_free n s \<longleftrightarrow> n \<le> length (c_recorded s) \<and> (\<forall>(p, e) \<in> set (drop n (c_recorded s)). e \<noteq> ''advance'' \<and> e \<noteq> ''advance_retry'')"

interpretation wheels: event_predicate "wheel_free n" for n
  by unfold_locales (auto simp: wheel_free_def)

lemma authenticated_wheel_free:
  assumes "ec_authenticated_feed cfg" "collect cfg s = (r, t)"
  shows "\<forall>(p, e) \<in> set (drop (length (c_recorded s)) (c_recorded t)). e \<noteq> ''advance'' \<and> e \<noteq> ''advance_retry''"
proof -
  have "wheel_free (length (c_recorded s)) s" by (simp add: wheel_free_def)
  from keepsD [OF wheels.evt_collect [OF assms(1)] this assms(2)] show ?thesis by (simp add: wheel_free_def)
qed

end
