(* ===== verification/OperatorSafety.thy ===== *)
theory OperatorSafety
  imports Stage3c1 VerificationProps EngineEvents
begin

text \<open>
  How the operator's statements end: a small calculus for statements that keep an invariant until a signal
  leaves them, the interface of such an invariant with the lemmas of a supervised run, and the signals that the operator's
  statements leave with.
\<close>

section \<open>Statements that only raise\<close>

text \<open>The statement returns or raises an exception of the set.\<close>

definition throws :: "(exn \<Rightarrow> bool) \<Rightarrow> ('s, 'r, 'a) act \<Rightarrow> bool" where
  "throws P a \<longleftrightarrow> (\<forall>s. wp a (\<lambda>r _. case r of Inl g \<Rightarrow> (\<exists>e. g = Raise e \<and> P e) | Inr _ \<Rightarrow> True) s)"

named_theorems throw_rules \<open>statements that return or raise\<close>

lemma throwsD: "throws P a \<Longrightarrow> a s = (Inl g, t) \<Longrightarrow> \<exists>e. g = Raise e \<and> P e"
  by (force simp: throws_def wp_def split: prod.splits)

lemma throws_ret [throw_rules]: "throws P (ret x)"
  by (simp add: throws_def wp_rules)

lemma throws_raise [throw_rules]: "P e \<Longrightarrow> throws P (raise e)"
  by (simp add: throws_def wp_rules)

lemma throws_modify [throw_rules]: "throws P (modify f)"
  by (simp add: throws_def wp_rules)

lemma throws_call [throw_rules]: "(\<And>e. c = Inl e \<Longrightarrow> P e) \<Longrightarrow> throws P (call c)"
  by (simp add: throws_def wp_rules split: sum.splits)

lemma throws_with_state [throw_rules]: "(\<And>s. throws P (f s)) \<Longrightarrow> throws P (with_state f)"
  by (simp add: throws_def wp_rules)

lemma throwsI: "(\<And>s g t. a s = (Inl g, t) \<Longrightarrow> \<exists>e. g = Raise e \<and> P e) \<Longrightarrow> throws P a"
  by (auto simp: throws_def wp_def split: prod.splits sum.splits)

lemma throws_bind [throw_rules]: "throws P m \<Longrightarrow> (\<And>x. throws P (f x)) \<Longrightarrow> throws P (bind m f)"
  by (rule throwsI) (auto simp: bind_def split: prod.splits sum.splits dest: throwsD)

lemma throws_try: "throws R m \<Longrightarrow> (\<And>e. R e \<Longrightarrow> throws P (h e)) \<Longrightarrow> throws P (try_except m h)"
  by (rule throwsI) (auto simp: try_except_def split: prod.splits sum.splits signal.splits dest: throwsD)

lemma throws_guarded:
  assumes "throws (\<lambda>_. True) m" "\<And>e. \<not> is_exception e \<Longrightarrow> P e" "throws P h"
  shows "throws P (try_except m (\<lambda>e. if is_exception e then h else raise e))"
  by (rule throws_try [OF assms(1)]) (use assms(2,3) in \<open>auto intro: throws_raise\<close>)

lemma throws_if: "throws P a \<Longrightarrow> throws P b \<Longrightarrow> throws P (if c then a else b)"
  by simp


lemma throws_attempt:
  assumes "throws (\<lambda>_. True) a" "\<And>e. \<not> is_exception e \<Longrightarrow> P e"
  shows "throws P (attempt a)"
  unfolding attempt_def by (rule throws_guarded [OF assms(1)]) (auto intro: assms(2) throw_rules)

lemma throws_may_fail [throw_rules]: "P e \<Longrightarrow> throws P a \<Longrightarrow> throws P (may_fail e a)"
  unfolding may_fail_def by (auto intro!: throw_rules)

lemma throws_db_call: "throws (\<lambda>_. True) (db_call f)"
  unfolding db_call_def by (auto intro!: throw_rules split: prod.splits sum.splits)

lemma throws_db_read [throw_rules]: "P SQLAlchemyError \<Longrightarrow> throws P (db_read f)"
  unfolding db_read_def db_call_def read_only_def by (auto intro!: throw_rules)

lemma throws_datetime_now [throw_rules]: "throws P datetime_now"
  unfolding datetime_now_def by (auto intro!: throw_rules)

text \<open>Reading the bucket raises what the database and the client raise.\<close>

definition ordinary :: "(exn \<Rightarrow> bool) \<Rightarrow> bool" where
  "ordinary P \<longleftrightarrow> P SQLAlchemyError \<and> P OtherError \<and> P StorageObjectNotFound \<and> P RuntimeError \<and>
     (\<forall>e. \<not> is_exception e \<longrightarrow> P e)"

lemma ordinary_True [simp]: "ordinary (\<lambda>_. True)"
  by (simp add: ordinary_def)

lemma throws_snapshots:
  assumes "ordinary P"
  shows "throws P (snapshot_object sha key)" "throws P (snapshot_each sha keys)" "throws P (snapshot_objects sha)"
    "throws P (capture_run_baseline sha)"
proof -
  have P: "P SQLAlchemyError" "P OtherError" "P StorageObjectNotFound" "P RuntimeError"
    "\<And>e. \<not> is_exception e \<Longrightarrow> P e"
    using assms by (auto simp: ordinary_def)
  have one: "throws P (snapshot_object sha key)" if "P OtherError" "P StorageObjectNotFound" for key P
    unfolding snapshot_object_def using that by (auto intro!: throw_rules split: option.splits)
  then show "throws P (snapshot_object sha key)" using P by blast
  have each: "throws P (snapshot_each sha keys)" if "P OtherError" "P StorageObjectNotFound" for keys P
    by (induction keys) (auto intro!: throw_rules one that)
  then show "throws P (snapshot_each sha keys)" using P by blast
  show objects: "throws P (snapshot_objects sha)"
    unfolding snapshot_objects_def storage_list_prefix_def
    by (rule throws_guarded) (auto intro!: throw_rules each P)
  show "throws P (capture_run_baseline sha)"
    unfolding capture_run_baseline_def by (auto intro!: throw_rules objects P)
qed

lemma throws_verify_run:
  assumes "ordinary P"
  shows "throws P (verify_run sha wanted baseline transcript workspace files)"
proof -
  have P: "P SQLAlchemyError" "\<And>e. \<not> is_exception e \<Longrightarrow> P e"
    using assms by (auto simp: ordinary_def)
  have "throws P (try_except (bind (snapshot_object sha k) (\<lambda>b. ret (c b)))
      (\<lambda>e. if is_exception e then ret False else raise e))" for sha k c
    by (rule throws_guarded) (auto intro!: throw_rules throws_snapshots P)
  then have matches: "throws P (object_matches sha key digest n)" for sha key digest n
    unfolding object_matches_def
    by (auto intro!: throws_ret simp del: is_exception_simps split: option.splits)
  have items: "throws P (verify_items sha p rows)" for sha p rows
    by (induction sha p rows rule: verify_items.induct) (auto intro!: throw_rules matches P)
  show ?thesis
    unfolding verify_run_def
    by (auto intro!: throw_rules items throws_snapshots assms P split: option.splits)
qed

lemma throws_operator:
  "throws (\<lambda>_. True) ask" "throws (\<lambda>_. True) build_client" "throws (\<lambda>_. True) feed_call"
  "throws (\<lambda>_. True) open_feed" "throws P (set_transcript f)"
  "throws (\<lambda>_. True) (set_status i st reason)" "throws (\<lambda>_. True) (mark_connecting i)"
  unfolding ask_def build_client_def feed_call_def open_feed_def set_transcript_def
    set_status_def mark_connecting_def
  by (auto intro!: throw_rules throws_db_call split: option.splits sum.splits)

lemma throws_quietly:
  assumes "\<And>e. \<not> is_exception e \<Longrightarrow> P e"
  shows "throws P close_feed_quietly" "throws P (set_safe_account_state i code)"
proof -
  have feed: "throws (\<lambda>_. True) (with_state (\<lambda>s. if o_feed s then feed_call else ret ()) :: ('r, unit) step)"
    by (auto intro!: throws_with_state throws_operator throws_ret)
  show "throws P close_feed_quietly"
    unfolding close_feed_quietly_def by (rule throws_attempt [OF feed]) (rule assms)
  show "throws P (set_safe_account_state i code)"
    unfolding set_safe_account_state_def
    by (rule throws_attempt, intro throws_if throws_operator throws_ret) (rule assms)
qed

lemma throws_claimed:
  "throws (\<lambda>_. True) (fail_claimed_run c reason)" "throws (\<lambda>_. True) (cancel_claimed_run c reason)"
  unfolding fail_claimed_run_def cancel_claimed_run_def
  by (auto intro!: throw_rules throws_db_call split: option.splits)

text \<open>The engine answers its failures with a summary; what it raises carries no reason code.\<close>

lemma run_engine_throws:
  assumes "\<And>e. safe_exception_code e = None \<Longrightarrow> P e"
  shows "throws P (run_engine cfg)"
  unfolding throws_def
proof
  fix s :: operator
  obtain r t where run: "collect cfg (engine.truncate s) = (r, t)" by fastforce
  have "wp (collect cfg) (collect_ok cfg P) (engine.truncate s)"
    by (rule collect_outcome) (use assms in auto)
  with run have "collect_ok cfg P r t" by (simp add: wp_def)
  with run show "wp (run_engine cfg) (\<lambda>r _. case r of Inl g \<Rightarrow> (\<exists>e. g = Raise e \<and> P e) | Inr _ \<Rightarrow> True) s"
    by (auto simp: run_engine_def wp_def function_body_def collect_ok_def split: sum.splits signal.splits)
qed

text \<open>What it returns is what \<open>collect\<close> returned, in the database and the bucket it left.\<close>

lemma run_engine_returns:
  assumes "run_engine cfg s = (Inr summary, t)"
  shows "\<exists>u. collect cfg (engine.truncate s) = (Inr summary, u) \<and> t = recorded_by u s \<and> summary_ok cfg summary (w_db t)"
proof -
  obtain r u where run: "collect cfg (engine.truncate s) = (r, u)" by fastforce
  have "wp (collect cfg) (collect_ok cfg (\<lambda>_. True)) (engine.truncate s)"
    by (rule collect_outcome) simp_all
  with run have "collect_ok cfg (\<lambda>_. True) r u" by (simp add: wp_def)
  with run assms show ?thesis
    by (auto simp: run_engine_def function_body_def collect_ok_def recorded_by_def engine.defs
        split: sum.splits signal.splits)
qed

section \<open>Statements that keep an invariant until they leave\<close>

definition obeys :: "('s \<Rightarrow> bool) \<Rightarrow> ('r signal \<Rightarrow> 's \<Rightarrow> bool) \<Rightarrow> ('s, 'r, 'a) act \<Rightarrow> bool" where
  "obeys I G a \<longleftrightarrow> (\<forall>s. I s \<longrightarrow> wp a (\<lambda>r t. case r of Inl g \<Rightarrow> G g t | Inr _ \<Rightarrow> I t) s)"

lemma obeysI:
  "(\<And>s r t. I s \<Longrightarrow> a s = (r, t) \<Longrightarrow> (case r of Inl g \<Rightarrow> G g t | Inr _ \<Rightarrow> I t)) \<Longrightarrow> obeys I G a"
  by (auto simp: obeys_def wp_def split: prod.splits)

lemma obeysD: "obeys I G a \<Longrightarrow> I s \<Longrightarrow> a s = (r, t) \<Longrightarrow> (case r of Inl g \<Rightarrow> G g t | Inr _ \<Rightarrow> I t)"
  by (force simp: obeys_def wp_def)

lemma obeys_ret: "obeys I G (ret x)"
  by (simp add: obeys_def wp_rules)

lemma obeys_stop: "(\<And>s. I s \<Longrightarrow> G g s) \<Longrightarrow> obeys I G (stop g)"
  by (simp add: obeys_def wp_rules)

lemma obeys_with_state: "(\<And>s. obeys I G (f s)) \<Longrightarrow> obeys I G (with_state f)"
  by (simp add: obeys_def wp_rules)

lemma obeys_bind:
  assumes "obeys I G m" "\<And>x. obeys I G (f x)" shows "obeys I G (bind m f)"
proof (rule obeysI)
  fix s r t assume s: "I s" and run: "bind m f s = (r, t)"
  obtain r1 t1 where m: "m s = (r1, t1)" by fastforce
  from obeysD [OF assms(1) s m] obeysD [OF assms(2)] run m
  show "case r of Inl g \<Rightarrow> G g t | Inr _ \<Rightarrow> I t" by (cases r1) (auto simp: bind_def)
qed

lemma obeys_throws:
  assumes "throws P a" "\<And>e s. P e \<Longrightarrow> G (Raise e) s"
  shows "obeys (\<lambda>_. True) G a"
  by (rule obeysI) (use assms in \<open>auto dest: throwsD split: sum.splits\<close>)

lemma obeys_keeps:
  assumes "keeps I a" "throws P a" "\<And>e s. I s \<Longrightarrow> G (Raise e) s"
  shows "obeys I G a"
proof (rule obeysI)
  fix s r t assume "I s" "a s = (r, t)"
  with keepsD [OF assms(1)] have "I t" by blast
  with throwsD [OF assms(2), of s] assms(3) \<open>a s = (r, t)\<close>
  show "case r of Inl g \<Rightarrow> G g t | Inr _ \<Rightarrow> I t" by (cases r) auto
qed

lemma obeys_if: "obeys I G a \<Longrightarrow> obeys I G b \<Longrightarrow> obeys I G (if c then a else b)"
  by simp

lemma bind_cases [consumes 1, case_names signal result]:
  assumes "bind m f s = (r, t)"
  obtains (signal) g where "m s = (Inl g, t)" "r = Inl g" | (result) x u where "m s = (Inr x, u)" "f x u = (r, t)"
  using assms by (auto simp: bind_def split: prod.splits sum.splits)

text \<open>A statement that always leaves needs no invariant behind it.\<close>

definition leaves :: "('s, 'r, 'a) act \<Rightarrow> bool" where
  "leaves a \<longleftrightarrow> (\<forall>s x t. a s \<noteq> (Inr x, t))"

lemma leaves_stop: "leaves (stop g)"
  by (simp add: leaves_def stop_def)

lemma leaves_bind: "(\<And>x. leaves (f x)) \<Longrightarrow> leaves (bind m f)"
  by (auto simp: leaves_def bind_def split: prod.splits sum.splits)

lemma leaves_with_state: "(\<And>s. leaves (f s)) \<Longrightarrow> leaves (with_state f)"
  by (simp add: leaves_def with_state_def)

lemma leaves_answer: "leaves (answer summary reason)"
  unfolding answer_def by (intro leaves_with_state leaves_stop)

lemma obeys_leaves:
  assumes "obeys (\<lambda>_. True) G a" "leaves a"
  shows "obeys I G a"
proof (rule obeysI)
  fix s r t assume "a s = (r, t)"
  with obeysD [OF assms(1) TrueI, of s r t] assms(2) show "case r of Inl g \<Rightarrow> G g t | Inr _ \<Rightarrow> I t"
    by (cases r) (auto simp: leaves_def)
qed

lemma function_leavesD: "function_body a s = (Inr x, t) \<Longrightarrow> leaves a \<Longrightarrow> a s = (Inl (Return x), t)"
  by (auto simp: function_body_def leaves_def split: prod.splits sum.splits signal.splits)

text \<open>Closing the feed changes neither the rows nor the objects nor the transcript.\<close>

lemma close_outcome:
  "wp close_feed_quietly (\<lambda>q u. w_db u = w_db t \<and> w_store u = w_store t \<and> o_transcript u = o_transcript t \<and>
     (\<forall>g. q = Inl g \<longrightarrow> (\<exists>e. g = Raise e))) t"
  by (auto simp: close_feed_quietly_def feed_call_def attempt_def wp_rules split: sum.splits)

text \<open>The check after a run leaves what the operator holds as it is.\<close>

lemma keeps_reading:
  assumes "env_closed I"
  shows "keeps I (snapshot_object sha key)" "keeps I (snapshot_objects sha)"
    "keeps I (verify_run sha wanted baseline transcript workspace files)"
proof -
  show object: "keeps I (snapshot_object sha key)" for key :: string
    unfolding snapshot_object_def by (auto intro!: act_inv keeps_may_fail assms split: option.splits)
  have each: "keeps I (snapshot_each sha keys)" for keys :: "string list"
    by (induction keys) (auto intro!: act_inv object)
  show objects: "keeps I (snapshot_objects sha)"
    unfolding snapshot_objects_def by (auto intro!: act_inv keeps_storage_reads assms each)
  have matches: "keeps I (object_matches sha key digest n)" for key digest n
    unfolding object_matches_def by (auto intro!: act_inv object split: option.splits)
  have items: "keeps I (verify_items sha p rows)" for p rows
    by (induction rows arbitrary: p rule: list.induct) (auto intro!: act_inv keeps_db_read assms matches)
  show "keeps I (verify_run sha wanted baseline transcript workspace files)"
    unfolding verify_run_def
    by (auto intro!: act_inv keeps_db_read assms items objects split: option.splits)
qed

section \<open>Invariants of the operator's process\<close>

text \<open>
  What an invariant of the process promises: neither the environment, nor the human, nor the feed, nor the
  status of the account can break it. The statements around the engine then keep it.
\<close>

locale operator_invariant =
  fixes I :: "operator \<Rightarrow> bool"
  assumes closed: "env_closed I"
    and process: "I s \<Longrightarrow> I (s\<lparr>o_answers := xs\<rparr>)" "I s \<Longrightarrow> I (s\<lparr>o_setup := ys\<rparr>)" "I s \<Longrightarrow> I (s\<lparr>o_opened := ys\<rparr>)"
      "I s \<Longrightarrow> I (s\<lparr>o_feed := b\<rparr>)" "I s \<Longrightarrow> I (s\<lparr>c_feed := fs\<rparr>)"
    and noted: "I s \<Longrightarrow> st_events tr = st_events (o_transcript s) \<Longrightarrow> I (s\<lparr>o_transcript := tr\<rparr>)"
    and statuses: "I s \<Longrightarrow> I (s\<lparr>w_db := snd (set_account_status i st reason now (w_db s))\<rparr>)"
begin

lemma keeps_process:
  "keeps I ask" "keeps I build_client" "keeps I feed_call" "keeps I open_feed"
  unfolding ask_def build_client_def feed_call_def open_feed_def
  by (auto intro!: act_inv keeps_modify process split: option.splits sum.splits)

lemma keeps_noted: "(\<And>t. st_events (f t) = st_events t) \<Longrightarrow> keeps I (set_transcript f)"
  unfolding set_transcript_def by (rule keeps_modify) (simp add: noted)

lemma keeps_close: "keeps I close_feed_quietly"
  unfolding close_feed_quietly_def attempt_def by (auto intro!: act_inv keeps_process)

lemma keeps_status: "keeps I (set_status i st reason)"
  unfolding set_status_def
  by (intro keeps_bind keeps_datetime_now keeps_db_call closed statuses)

lemma keeps_connecting: "keeps I (mark_connecting i)"
  unfolding mark_connecting_def by (auto intro!: act_inv keeps_db_read closed keeps_status)

lemma keeps_safe_state: "keeps I (set_safe_account_state i code)"
  unfolding set_safe_account_state_def attempt_def by (intro act_inv keeps_if keeps_status)

lemma keeps_capture: "keeps I (capture_run_baseline sha)"
  unfolding capture_run_baseline_def by (auto intro!: act_inv keeps_db_read closed keeps_reading)

end

text \<open>With an exception always allowed to leave, each of the statements obeys the invariant.\<close>

locale supervised = operator_invariant +
  fixes G :: "'r signal \<Rightarrow> operator \<Rightarrow> bool"
  assumes raised: "I s \<Longrightarrow> G (Raise e) s"
begin

lemma obeys_steps:
  "obeys I G ask" "obeys I G build_client" "obeys I G feed_call" "obeys I G open_feed"
  "obeys I G (set_status i st reason)" "obeys I G (mark_connecting i)" "obeys I G (capture_run_baseline sha)"
  "obeys I G (call c)" "obeys I G (raise e)" "obeys I G (db_read q)"
  by (rule obeys_keeps [where P = "\<lambda>_. True"],
      (rule keeps_process keeps_status keeps_connecting keeps_capture keeps_call keeps_stop keeps_db_read closed
        throws_operator throws_snapshots ordinary_True throw_rules TrueI | erule raised)+)+

lemma obeys_noted: "(\<And>t. st_events (f t) = st_events t) \<Longrightarrow> obeys I G (set_transcript f)"
  by (rule obeys_keeps [where P = "\<lambda>_. True"]) (auto intro: keeps_noted throws_operator(5) raised)

end

section \<open>A process that nothing disturbs\<close>

definition calm :: "operator \<Rightarrow> bool" where
  "calm s \<longleftrightarrow> w_faults s = [] \<and> o_setup s = []"

lemma calm_same [simp]: "calm s \<Longrightarrow> s\<lparr>w_faults := []\<rparr> = s" "s\<lparr>w_db := w_db s\<rparr> = s" "calm s \<Longrightarrow> s\<lparr>o_setup := []\<rparr> = s"
  by (cases s; simp add: calm_def)+

lemma calm_may_fail: "calm s \<Longrightarrow> may_fail e a s = a s"
  by (simp add: may_fail_def with_state_def bind_def modify_def pop_def) (simp add: calm_def)

lemma calm_db_call: "calm s \<Longrightarrow> f (w_db s) = (Inr x, w_db s) \<Longrightarrow> db_call f s = (Inr x, s)"
  by (simp add: db_call_def calm_may_fail with_state_def bind_def modify_def ret_def)

lemma calm_db_read: "calm s \<Longrightarrow> db_read f s = (Inr (f (w_db s)), s)"
  unfolding db_read_def by (rule calm_db_call) (simp_all add: read_only_def)

lemma calm_build_client: "calm s \<Longrightarrow> build_client s = (Inr (), s)"
  by (simp add: build_client_def with_state_def bind_def modify_def pop_def) (simp add: calm_def ret_def)

lemma calm_snapshot_object:
  "calm s \<Longrightarrow> snap sha (w_store s) key = Some b \<Longrightarrow> snapshot_object sha key s = (Inr b, s)"
  by (auto simp: snapshot_object_def calm_may_fail with_state_def snap_def object_of_def ret_def)

lemma calm_snapshot_each:
  "calm s \<Longrightarrow> map (snap sha (w_store s)) keys = map Some bs \<Longrightarrow> snapshot_each sha keys s = (Inr bs, s)"
  by (induction keys arbitrary: bs) (auto simp: bind_def ret_def calm_snapshot_object)

lemma calm_snapshot_objects:
  assumes "calm s" "map (snap sha (w_store s)) (source_keys (w_store s)) = map Some bs"
  shows "snapshot_objects sha s = (Inr bs, s)"
  using assms(1)
  by (simp add: snapshot_objects_def storage_list_prefix_def try_except_def bind_def calm_may_fail with_state_def ret_def
      calm_snapshot_each [OF assms [unfolded source_keys_def]])

end
