(* ===== verification/OperatorProps.thy ===== *)
theory OperatorProps
  imports OperatorSafety EngineProps
begin

text \<open>
  The operator's run: a run that was claimed does not stay active, a completed run of three is reported as not
  verified, and complete runs of the model for both.
\<close>

section \<open>Running runs\<close>

definition running :: "db \<Rightarrow> uuid set" where
  "running d = run_id ` set (filter (\<lambda>r. run_status r = CollectionRunStatus.RUNNING) (runs d))"

lemma running_cong: "runs d' = runs d \<Longrightarrow> running d' = running d"
  by (simp add: running_def)

lemma set_account_status_runs: "runs (snd (set_account_status i st reason now d)) = runs d"
  unfolding set_account_status_def
  by (rule transaction_keeps [where P = "\<lambda>d'. runs d' = runs d"])
    (auto simp: Let_def update_account_def split: option.splits if_splits)

lemma set_account_status_ok: "constraints_ok d \<Longrightarrow> constraints_ok (snd (set_account_status i st reason now d))"
  unfolding set_account_status_def by (rule transaction_constraints)

lemma ended_not_running:
  assumes "j \<in> running (update_run i (end_run st reason now) d)" "st \<noteq> CollectionRunStatus.RUNNING"
  shows "j \<in> running d \<and> j \<noteq> i"
proof -
  from assms(1) obtain q where q: "q \<in> set (update_rows run_id i (end_run st reason now) (runs d))" "run_id q = j"
      "run_status q = CollectionRunStatus.RUNNING"
    by (auto simp: running_def update_run_def)
  from q(1) obtain p where p: "p \<in> set (runs d)" "q = (if run_id p = i then end_run st reason now p else p)"
    by (auto simp: update_rows_def)
  with q(3) assms(2) have "run_id p \<noteq> i" by (auto simp: end_run_def)
  with p q show ?thesis by (auto simp: running_def)
qed

lemma ended_already:
  assumes "constraints_ok d" "get_run d i = Some r" "run_status r \<noteq> CollectionRunStatus.RUNNING"
  shows "i \<notin> running d"
proof
  assume "i \<in> running d"
  then obtain q where q: "q \<in> set (runs d)" "run_id q = i" "run_status q = CollectionRunStatus.RUNNING"
    by (auto simp: running_def)
  from assms(2) have "r \<in> set (runs d)" "run_id r = i" by (auto dest: lookup_row_SomeD)
  with q assms(1) have "q = r" by (auto simp: constraint_defs dest: unique_colD)
  with q assms(3) show False by simp
qed

lemma no_run_not_running: "get_run d i = None \<Longrightarrow> i \<notin> running d"
  by (auto simp: running_def lookup_row_None)

lemma fail_run_ends:
  assumes "constraints_ok d" "fail_run i reason now d = (Inr (), d')"
  shows "running d' \<subseteq> running d - {i}"
  using transaction_InrD [OF assms(2) [unfolded fail_run_def]]
  by (auto split: option.splits if_splits dest: ended_not_running ended_already no_run_not_running)

lemma cancel_run_ends:
  assumes "constraints_ok d" "cancel_run i reason now d = (Inr x, d')"
  shows "running d' \<subseteq> running d - {i}"
  using transaction_InrD [OF assms(2) [unfolded cancel_run_def]]
  by (auto simp: run_active_def split: option.splits if_splits
      dest: ended_not_running ended_already no_run_not_running)

lemma claim_runs:
  assumes "claim_queued_run account now d = (Inr claimed, d')"
  shows "constraints_ok d' \<and> running d' \<subseteq> running d \<union> set_option (map_option run_id claimed)"
proof -
  note tx = transaction_InrD [OF assms [unfolded claim_queued_run_def]]
  show ?thesis
  proof (cases claimed)
    case None
    with tx show ?thesis by (auto simp: Let_def split: option.splits)
  next
    case (Some run)
    with tx obtain item where "run = item\<lparr>run_status := CollectionRunStatus.RUNNING, run_started_at := Some now\<rparr>"
        "d' = update_run (run_id item) (\<lambda>_. run) d"
      by (auto simp: Let_def split: option.splits)
    then have "run_id run = run_id item" "runs d' = map (\<lambda>r. if run_id r = run_id item then run else r) (runs d)"
      by (simp_all add: update_run_def update_rows_def)
    with tx Some show ?thesis by (fastforce simp: running_def)
  qed
qed

section \<open>The claimed run\<close>

text \<open>Only the runs of \<open>R\<close> are running, and perhaps the claimed one, which is still to be ended.\<close>

definition owes :: "uuid set \<Rightarrow> collection_run option \<Rightarrow> operator \<Rightarrow> bool" where
  "owes R claimed s \<longleftrightarrow> constraints_ok (w_db s) \<and>
     running (w_db s) \<subseteq> R \<union> set_option (map_option run_id claimed)"

text \<open>Returning without a summary pays; an exception with a reason code leaves it to the handler.\<close>

definition pays :: "uuid set \<Rightarrow> collection_run option \<Rightarrow> operator_result signal \<Rightarrow> operator \<Rightarrow> bool" where
  "pays R claimed g t \<longleftrightarrow>
     (case g of
        Return (summary, _) \<Rightarrow> summary = None \<longrightarrow> running (w_db t) \<subseteq> R
      | Raise e \<Rightarrow> safe_exception_code e \<noteq> None \<longrightarrow> owes R claimed t
      | _ \<Rightarrow> True)"

interpretation owing: supervised "owes R claimed" "pays R claimed" for R claimed
proof
  show "env_closed (owes R claimed)" by (simp add: env_closed_def owes_def)
  show "owes R claimed s \<Longrightarrow> owes R claimed (s\<lparr>w_db := snd (set_account_status i st reason now (w_db s))\<rparr>)"
    for s i st reason now
    using running_cong [OF set_account_status_runs] by (simp add: owes_def set_account_status_ok)
qed (simp_all add: owes_def pays_def)

text \<open>Ending the claimed run pays what is owed.\<close>

lemma estab_datetime_now: "env_closed I \<Longrightarrow> estab I (\<lambda>_. True) datetime_now (\<lambda>_ _. True)"
  by (intro estab_keeps keeps_datetime_now)

lemma estab_db_outcome:
  assumes "env_closed I" "\<And>s. I s \<Longrightarrow> I (s\<lparr>w_db := snd (f (w_db s))\<rparr>)"
    "\<And>s x d. I s \<Longrightarrow> f (w_db s) = (Inr x, d) \<Longrightarrow> Q x (s\<lparr>w_db := d\<rparr>)"
  shows "estab I (\<lambda>_. True) (db_call f) Q"
  unfolding db_call_def
proof (rule estab_sees_call [OF assms(1)], rule estabI)
  fix s r t
  assume s: "I s" and run: "with_state (\<lambda>s. case f (w_db s) of
       (Inl e, d) \<Rightarrow> bind (modify (\<lambda>s. s\<lparr>w_db := d\<rparr>)) (\<lambda>_. raise e)
     | (Inr x, d) \<Rightarrow> bind (modify (\<lambda>s. s\<lparr>w_db := d\<rparr>)) (\<lambda>_. ret x)) s = (r, t)"
  obtain q d where f: "f (w_db s) = (q, d)" by fastforce
  with run assms(2) [OF s] assms(3) [OF s] show "I t \<and> (\<forall>x. r = Inr x \<longrightarrow> Q x t)"
    by (cases q) (auto simp: act_defs)
qed

lemma end_call_paid:
  assumes ends: "\<And>d x d'. constraints_ok d \<Longrightarrow> f d = (Inr x, d') \<Longrightarrow> running d' \<subseteq> running d - {run_id run}"
    and tx: "transactional f"
  shows "estab (owes R (Some run)) (\<lambda>_. True) (db_call f) (\<lambda>_ t. running (w_db t) \<subseteq> R)"
proof (rule estab_db_outcome [OF owing.closed])
  fix s assume s: "owes R (Some run) s"
  then have start: "constraints_ok (w_db s) \<and> running (w_db s) \<subseteq> R \<union> {run_id run}" by (simp add: owes_def)
  have "constraints_ok (snd (f (w_db s))) \<and> running (snd (f (w_db s))) \<subseteq> R \<union> {run_id run}"
  proof (rule transactional_keeps [OF tx, where P = "\<lambda>d. constraints_ok d \<and> running d \<subseteq> R \<union> {run_id run}"])
    fix x d' assume "f (w_db s) = (Inr x, d')" "constraints_ok d'"
    with start ends [of "w_db s" x d'] show "constraints_ok d' \<and> running d' \<subseteq> R \<union> {run_id run}" by blast
  qed (rule start)
  then show "owes R (Some run) (s\<lparr>w_db := snd (f (w_db s))\<rparr>)" by (simp add: owes_def)
next
  fix s x d assume "owes R (Some run) s" "f (w_db s) = (Inr x, d)"
  then show "running (w_db (s\<lparr>w_db := d\<rparr>)) \<subseteq> R" using ends [of "w_db s" x d] by (auto simp: owes_def)
qed

lemma claimed_run_paid:
  "estab (owes R claimed) (\<lambda>_. True) (fail_claimed_run claimed reason) (\<lambda>_ t. running (w_db t) \<subseteq> R)"
  "estab (owes R claimed) (\<lambda>_. True) (cancel_claimed_run claimed reason) (\<lambda>_ t. running (w_db t) \<subseteq> R)"
proof -
  have none: "estab (owes R None) (\<lambda>_. True) (ret ()) (\<lambda>_ t. running (w_db t) \<subseteq> R)"
    by (rule estab_ret) (simp add: owes_def)
  show "estab (owes R claimed) (\<lambda>_. True) (fail_claimed_run claimed reason) (\<lambda>_ t. running (w_db t) \<subseteq> R)"
    unfolding fail_claimed_run_def
    by (cases claimed) (auto intro!: none estab_bind [OF estab_datetime_now] owing.closed end_call_paid
        transactionalI [OF fail_run_def] dest: fail_run_ends)
  have cancel: "estab (owes R (Some run)) (\<lambda>_. True)
      (bind (db_call (cancel_run (run_id run) reason now)) (\<lambda>_. ret ())) (\<lambda>_ t. running (w_db t) \<subseteq> R)" for run now
    by (rule estab_bind [OF end_call_paid]) (auto intro: estab_ret transactionalI [OF cancel_run_def] dest: cancel_run_ends)
  show "estab (owes R claimed) (\<lambda>_. True) (cancel_claimed_run claimed reason) (\<lambda>_ t. running (w_db t) \<subseteq> R)"
    unfolding cancel_claimed_run_def
    by (cases claimed) (auto intro!: none estab_bind [OF estab_datetime_now] owing.closed cancel)
qed


lemma answer_runs: "answer summary reason s = (Inl (Return (summary, o_transcript s, reason)), s)"
  by (simp add: answer_def with_state_def stop_def)

lemma obeys_paid:
  assumes "estab (owes R claimed) (\<lambda>_. True) m (\<lambda>_ t. running (w_db t) \<subseteq> R)" "throws (\<lambda>_. True) m"
    and returns: "\<And>u. \<exists>rest. f u = (Inl (Return (None, rest)), u)"
  shows "obeys (owes R claimed) (pays R claimed) (bind m (\<lambda>_. f))"
proof (rule obeysI)
  fix s r t assume s: "owes R claimed s" and run: "bind m (\<lambda>_. f) s = (r, t)"
  obtain r1 t1 where m: "m s = (r1, t1)" by fastforce
  note after = estabD [OF assms(1) s _ m]
  show "case r of Inl g \<Rightarrow> pays R claimed g t | Inr _ \<Rightarrow> owes R claimed t"
  proof (cases r1)
    case (Inl g)
    with throwsD [OF assms(2)] m obtain e where "g = Raise e" by blast
    with Inl m run after show ?thesis by (auto simp: bind_def pays_def)
  next
    case (Inr x)
    with m run after returns [of t1] show ?thesis by (auto simp: bind_def pays_def)
  qed
qed

lemma await_obeys: "obeys (owes R claimed) (pays R claimed) (await_operator account claimed)"
proof -
  have unready: "obeys (owes R claimed) (pays R claimed)
      (if ready then ret () else bind (fail_claimed_run claimed ''OPERATOR_TIMEOUT'') (\<lambda>_. answer None (Some ''OPERATOR_TIMEOUT'')))"
    for ready
    by (simp add: obeys_ret obeys_paid [OF claimed_run_paid(1) throws_claimed(1)] answer_runs)
  have refused: "obeys (owes R claimed) (pays R claimed)
      (if confirmed then ret () else bind (cancel_claimed_run claimed ''USER_CANCELLED'') (\<lambda>_. answer None (Some ''USER_CANCELLED'')))"
    for confirmed
    by (simp add: obeys_ret obeys_paid [OF claimed_run_paid(2) throws_claimed(2)] answer_runs)
  show ?thesis
    unfolding await_operator_def by (intro obeys_bind owing.obeys_steps unready refused)
qed

text \<open>What stands after the engine carries no reason code, and returns its summary.\<close>

abbreviation no_code :: "exn \<Rightarrow> bool" where
  "no_code e \<equiv> safe_exception_code e = None"

lemma ordinary_no_code: "ordinary no_code"
  by (simp add: ordinary_def)

lemma pays_answer: "obeys (\<lambda>_. True) (pays R claimed) (answer (Some summary) reason)"
  by (rule obeysI) (auto simp: answer_runs pays_def)

lemma pays_throws: "throws no_code a \<Longrightarrow> obeys (\<lambda>_. True) (pays R claimed) a"
  by (erule obeys_throws) (simp add: pays_def)

lemma throws_note_stop: "throws no_code (note_stop_reason account summary)"
proof (cases "cs_stop_reason_code summary")
  case (Some reason)
  have "throws (\<lambda>e. no_code e) (bind (call (runtime_reason_code reason)) (set_safe_account_state account))"
    by (intro throw_rules throws_quietly) (auto simp: runtime_reason_code_def split: if_splits)
  then show ?thesis
    unfolding note_stop_reason_def Some option.case
    by (rule throws_try) (auto intro!: throw_rules)
qed (simp add: note_stop_reason_def throws_ret)

lemma collect_tail_pays:
  "obeys (\<lambda>_. True) (pays R claimed) (bind (run_engine cfg) (\<lambda>summary.
     bind (note_stop_reason account summary) (\<lambda>_.
     bind (if cs_status summary = ''completed'' then verify_collected oc baseline summary else ret ()) (\<lambda>_.
     answer (Some summary) None))))"
proof -
  have verified: "obeys (\<lambda>_. True) (pays R claimed) (verify_collected oc baseline summary)" for summary
    unfolding verify_collected_def
    by (intro obeys_bind obeys_with_state pays_throws [OF throws_verify_run [OF ordinary_no_code]]
        pays_throws [OF throws_operator(5)])
      (simp add: obeys_ret pays_answer)
  show ?thesis
    by (intro obeys_bind pays_throws [OF run_engine_throws] pays_throws [OF throws_note_stop] pays_answer)
      (simp_all add: obeys_ret verified)
qed

lemma leaves_tail: "leaves (bind (run_engine cfg) (\<lambda>summary.
     bind (note_stop_reason account summary) (\<lambda>_.
     bind (if cs_status summary = ''completed'' then verify_collected oc baseline summary else ret ()) (\<lambda>_.
     answer (Some summary) None))))"
  by (intro leaves_bind leaves_answer)

lemma collect_obeys: "obeys (owes R claimed) (pays R claimed) (collect_stage_3b oc account claimed)"
  unfolding collect_stage_3b_def
  by (intro obeys_bind owing.obeys_steps owing.obeys_noted obeys_leaves [OF collect_tail_pays leaves_tail]) simp

definition paid_end :: "uuid set \<Rightarrow> operator_result signal + 'a \<Rightarrow> operator \<Rightarrow> bool" where
  "paid_end R r t \<longleftrightarrow> (\<forall>rest. r = Inl (Return (None, rest)) \<longrightarrow> running (w_db t) \<subseteq> R)"

lemma failed_obeys:
  assumes "safe_exception_code e \<noteq> None \<Longrightarrow> owes R claimed s"
  shows "wp (stage_3b_failed account claimed e) (paid_end R) s"
proof (cases "safe_exception_code e")
  case None
  have "throws (\<lambda>_. True) (stage_3b_failed account claimed e :: unit operator_act)"
    unfolding stage_3b_failed_def None by (auto intro!: throw_rules throws_claimed)
  then show ?thesis by (auto simp: wp_def paid_end_def split: prod.splits dest: throwsD)
next
  case (Some code)
  let ?paid = "\<lambda>s. running (w_db s) \<subseteq> R"
  have paid: "keeps ?paid (set_safe_account_state account code)"
    unfolding set_safe_account_state_def attempt_def set_status_def
    by (intro act_inv keeps_if keeps_datetime_now keeps_db_call)
      (simp_all add: env_closed_def running_cong [OF set_account_status_runs])
  obtain r1 t1 where m: "fail_claimed_run claimed code s = (r1, t1)" by fastforce
  obtain r2 t2 where m2: "set_safe_account_state account code t1 = (r2, t2)" by fastforce
  from Some assms have "owes R claimed s" by simp
  from estabD [OF claimed_run_paid(1) this _ m] have "r1 = Inr () \<Longrightarrow> ?paid t2"
    using keepsD [OF paid _ m2] by blast
  moreover have "\<exists>e. r1 = Inl (Raise e)" if "r1 \<noteq> Inr ()"
    using that throwsD [OF throws_claimed(1)] m by (cases r1) auto
  moreover have "\<exists>e. r2 = Inl (Raise e)" if "r2 \<noteq> Inr ()"
    using that throwsD [OF throws_quietly(2) [where P = "\<lambda>_. True"]] m2 by (cases r2) auto
  ultimately show ?thesis
    using m m2 Some by (cases "r1 = Inr ()"; cases "r2 = Inr ()")
      (auto simp: wp_def stage_3b_failed_def bind_def answer_runs paid_end_def)
qed


text \<open>The whole run, and what it says of the runs of the database.\<close>

lemma supervised_pays:
  assumes "owes R claimed s"
  shows "wp (supervised_stage_3b oc account claimed) (paid_end R) s"
proof -
  have body: "obeys (owes R claimed) (pays R claimed)
      (bind (await_operator account claimed) (\<lambda>_. collect_stage_3b oc account claimed))"
    by (intro obeys_bind await_obeys collect_obeys)
  have tried: "wp (try_except (bind (await_operator account claimed) (\<lambda>_. collect_stage_3b oc account claimed))
      (stage_3b_failed account claimed)) (paid_end R) s"
    unfolding wp_try_except
    by (rule wp_mono [OF body [unfolded obeys_def, rule_format, OF assms]])
      (auto simp: pays_def paid_end_def [of R "Inl (Return _)"] intro!: failed_obeys split: sum.splits signal.splits,
        simp_all add: paid_end_def)
  show ?thesis
    unfolding supervised_stage_3b_def wp_finally_do
  proof (rule wp_mono [OF tried])
    fix r t assume end_ok: "paid_end R r t"
    show "wp close_feed_quietly (\<lambda>r' u. case r' of Inl g \<Rightarrow> paid_end R (Inl g) u | Inr _ \<Rightarrow> paid_end R r u) t"
      by (rule wp_mono [OF close_outcome]) (use end_ok in \<open>auto simp: paid_end_def split: sum.splits\<close>)
  qed
qed

lemma leaves_run:
  "leaves (bind (prepare_stage_3b oc) (\<lambda>(account, claimed).
      bind (check_claim account claimed) (\<lambda>_.
      bind (mark_connecting account) (\<lambda>_.
      bind (modify (\<lambda>s. s\<lparr>o_transcript := new_transcript\<lparr>st_account_id := Some account\<rparr>, o_feed := oc_existing_feed oc\<rparr>)) (\<lambda>_.
      bind (supervised_stage_3b oc account claimed) (\<lambda>_. stop Break))))))"
  by (rule leaves_bind) (simp add: leaves_bind leaves_stop split: prod.split)

lemma ensure_account_runs:
  assumes "ensure_account i d = (Inr u, d')"
  shows "running d' = running d \<and> constraints_ok d'"
  using transaction_InrD [OF assms [unfolded ensure_account_def]] by (auto simp: running_def split: option.splits)

lemma prepare_owes:
  "wp (prepare_stage_3b oc) (\<lambda>r t. (\<forall>account claimed. r = Inr (account, claimed) \<longrightarrow> owes (running (w_db s)) claimed t) \<and>
     (\<forall>g. r = Inl g \<longrightarrow> (\<exists>e. g = Raise e))) s"
  unfolding prepare_stage_3b_def build_client_def datetime_now_def db_call_def may_fail_def
  by (auto simp: wp_rules owes_def split: sum.splits option.splits prod.splits
      dest!: ensure_account_runs claim_runs)

lemma check_claim_obeys: "obeys (owes R claimed) (pays R claimed) (check_claim account claimed)"
proof (cases claimed)
  case None
  show ?thesis
    unfolding check_claim_def None option.case
    by (intro obeys_bind owing.obeys_steps) (simp add: obeys_ret owing.obeys_steps)
next
  case (Some run)
  have "obeys (owes R claimed) (pays R claimed) (bind (fail_claimed_run claimed ''UNSUPPORTED_TARGET'') (\<lambda>_.
      with_state (\<lambda>s. stop (Return (None, new_transcript, Some ''COLLECTOR_DISABLED'')))) :: unit operator_act)"
    by (rule obeys_paid [OF claimed_run_paid(1) throws_claimed(1)]) (simp add: with_state_def stop_def)
  then show ?thesis
    unfolding check_claim_def Some option.case by (simp add: obeys_ret)
qed



section \<open>The check after a live run\<close>

text \<open>Events without a wheel are no transcript of a completed run of three.\<close>

definition no_wheels :: "(int \<times> string) list \<Rightarrow> bool" where
  "no_wheels es \<longleftrightarrow> (\<forall>(p, e) \<in> set es. e \<noteq> ''advance'')"

lemma no_wheels_Cons: "no_wheels (e # es) \<longleftrightarrow> snd e \<noteq> ''advance'' \<and> no_wheels es"
  by (auto simp: no_wheels_def)

lemma no_wheels_append: "no_wheels (es @ [e]) \<longleftrightarrow> no_wheels es \<and> snd e \<noteq> ''advance''"
  by (auto simp: no_wheels_def)

lemma no_wheels_record:
  "no_wheels (st_events t) \<Longrightarrow> no_wheels es \<Longrightarrow> no_wheels (st_events (fold transcript_record es t))"
proof (induction es arbitrary: t)
  case (Cons e es)
  have "no_wheels (st_events (transcript_record e t))"
    using Cons.prems by (cases e) (simp add: transcript_record_def Let_def no_wheels_append no_wheels_Cons)
  from Cons.IH [OF this] Cons.prems(2) show ?case by (simp add: no_wheels_Cons)
qed simp

lemma wheels_needed:
  assumes "no_wheels es"
  shows "\<not> validate_event_transcript (map (\<lambda>(p, e). (Some p, Some e)) es) ''completed'' 3"
proof
  let ?es = "map (\<lambda>(p, e). (Some p, Some e)) es"
  assume "validate_event_transcript ?es ''completed'' 3"
  then have first: "sequence_valid 1 (events_at ?es 1)" "ends_confirmed (events_at ?es 1)"
    by (auto simp: validate_event_transcript_def Let_def split: if_splits)
  with first have "events_at ?es 1 \<in> confirmed_sequences" using sequence_confirmed [of 1 "events_at ?es 1"] by simp
  then have "''advance'' \<in> set (events_at ?es 1)" by (auto simp: confirmed_sequences_def transition_prefix_def)
  then show False using assms by (auto simp: events_at_def no_wheels_def)
qed

text \<open>While the operator's transcript has no wheel in it, a completed run is reported as not verified.\<close>

definition quiet :: "operator \<Rightarrow> bool" where
  "quiet s \<longleftrightarrow> no_wheels (st_events (o_transcript s))"

definition unverified :: "operator_result signal \<Rightarrow> operator \<Rightarrow> bool" where
  "unverified g t \<longleftrightarrow> (\<forall>summary tr reason. g = Return (Some summary, tr, reason) \<longrightarrow>
     cs_status summary = ''completed'' \<longrightarrow> reason = Some ''POST_RUN_VERIFICATION_FAILED'')"

interpretation quiet: supervised quiet unverified
  by unfold_locales (simp_all add: env_closed_def quiet_def unverified_def)

lemma unverified_simps [simp]: "unverified (Raise e) t" "unverified (Return (None, rest)) t"
  "unverified (Return (sm, tr, Some ''POST_RUN_VERIFICATION_FAILED'')) t" "unverified Break t"
  by (simp_all add: unverified_def)

lemma keeps_quiet_engine:
  assumes "ec_authenticated_feed cfg"
  shows "keeps quiet (run_engine cfg)"
proof (rule keepsI)
  fix s r t assume s: "quiet s" and run: "run_engine cfg s = (r, t)"
  obtain q u where collected: "collect cfg (engine.truncate s) = (q, u)" by fastforce
  with run have t: "t = recorded_by u s"
    by (cases q) (auto simp: run_engine_def function_body_def split: signal.splits)
  have "no_wheels (drop (length (c_recorded s)) (c_recorded u))"
    using authenticated_wheel_free [OF assms collected] by (auto simp: no_wheels_def engine.defs)
  with s no_wheels_record show "quiet t" by (simp add: t quiet_def recorded_by_def)
qed

lemma keeps_quiet_note: "keeps quiet (note_stop_reason account summary)"
  unfolding note_stop_reason_def
  by (cases "cs_stop_reason_code summary"; simp only: option.case; intro act_inv keeps_if quiet.keeps_safe_state)

lemma estab_transcript_valid:
  "estab (\<lambda>_. True) (\<lambda>_. True) (verify_run sha wanted baseline transcript workspace files)
     (\<lambda>result _. vr_verified result \<longrightarrow> validate_event_transcript transcript ''completed'' 3)"
  unfolding verify_run_def
  by (rule estab_bind [where Q = "\<lambda>_ _. True"], rule estab_keeps, simp add: keepsI)
    (auto intro!: estab_bind [where Q = "\<lambda>_ _. True"] estab_keeps keepsI estab_ret
      simp: run_not_found_def result_of_def run_facts_valid_def Let_def split: option.splits)

lemma return_none_obeys:
  assumes "throws (\<lambda>_. True) m" "keeps I m" "\<And>e s. G (Raise e) s" "\<And>rest s. G (Return (None, rest)) s"
  shows "obeys I G (bind m (\<lambda>_. answer None reason))"
proof (rule obeysI)
  fix s r t assume "I s" and run: "bind m (\<lambda>_. answer None reason) s = (r, t)"
  obtain q u where m: "m s = (q, u)" by fastforce
  show "case r of Inl g \<Rightarrow> G g t | Inr _ \<Rightarrow> I t"
  proof (cases q)
    case (Inl g)
    with throwsD [OF assms(1) m [unfolded Inl]] m run assms(3) show ?thesis by (auto simp: bind_def)
  next
    case (Inr x)
    with m run assms(4) show ?thesis by (auto simp: bind_def answer_runs)
  qed
qed


lemma verify_unverified:
  fixes s t :: operator
  assumes s: "quiet s" and run: "verify_collected oc b summary s = (r, t)"
  shows "\<exists>g. r = Inl g \<and> unverified g t"
proof -
  let ?verify = "verify_run (t_sha256 (oc_tools oc)) (cs_run_id summary) b (transcript_of (o_transcript s))
      (workspace_root oc) (map fst (c_files s)) :: (operator, operator_result, verification_result) act"
  from run have "bind ?verify (\<lambda>result.
     bind (set_transcript (\<lambda>t. t\<lparr>st_verification :=
             Some (RunReport (vr_verified result) (vr_video_count_unchanged result) (vr_reason_code result))\<rparr>)) (\<lambda>_.
     if vr_verified result then ret () else answer (Some summary) (Some ''POST_RUN_VERIFICATION_FAILED''))) s = (r, t)"
    by (simp add: verify_collected_def bind_def with_state_def)
  then show ?thesis
  proof (cases rule: bind_cases)
    case (signal g)
    with throwsD [OF throws_verify_run [OF ordinary_True] signal(1)] show ?thesis by auto
  next
    case (result res u)
    from estabD [OF estab_transcript_valid TrueI TrueI result(1)] wheels_needed s
    have "\<not> vr_verified res" by (auto simp: quiet_def transcript_of_def)
    with result(2) show ?thesis by (auto simp: bind_def set_transcript_def modify_def answer_runs)
  qed
qed

lemma tail_unverified:
  "obeys quiet unverified (bind (if cs_status summary = ''completed'' then verify_collected oc b summary else ret ())
     (\<lambda>_. answer (Some summary) None))"
proof (cases "cs_status summary = ''completed''")
  case True
  show ?thesis
  proof (rule obeysI)
    fix s t :: operator and r
    assume "quiet s" and "bind (if cs_status summary = ''completed'' then verify_collected oc b summary else ret ())
     (\<lambda>_. answer (Some summary) None) s = (r, t)"
    then show "case r of Inl g \<Rightarrow> unverified g t | Inr _ \<Rightarrow> quiet t"
      using True verify_unverified [of s oc b summary] by (auto simp: bind_def split: prod.splits sum.splits)
  qed
next
  case False
  then show ?thesis by (intro obeysI) (auto simp: bind_def ret_def answer_runs unverified_def)
qed

lemma collect_unverified: "obeys quiet unverified (collect_stage_3b oc account claimed)"
proof -
  have engine: "obeys quiet unverified (run_engine (stage_3b_engine oc account claimed))"
    by (rule obeys_keeps [OF keeps_quiet_engine run_engine_throws [where P = "\<lambda>_. True"]])
      (simp_all add: stage_3b_engine_def Let_def)
  have noted: "obeys quiet unverified (note_stop_reason account summary)" for summary
    by (rule obeys_keeps [OF keeps_quiet_note throws_note_stop]) simp
  show ?thesis
    unfolding collect_stage_3b_def
    by (rule obeys_bind quiet.obeys_steps quiet.obeys_noted engine noted tail_unverified | simp)+
qed

lemma await_unverified: "obeys quiet unverified (await_operator account claimed)"
proof -
  have kept: "keeps quiet (fail_claimed_run claimed c)" "keeps quiet (cancel_claimed_run claimed c)" for c
    unfolding fail_claimed_run_def cancel_claimed_run_def
    by (cases claimed; simp only: option.case; intro act_inv keeps_datetime_now keeps_db_call;
        simp add: env_closed_def quiet_def)+
  have "obeys quiet unverified (bind (fail_claimed_run claimed c) (\<lambda>_. answer None (Some c')))"
    "obeys quiet unverified (bind (cancel_claimed_run claimed c) (\<lambda>_. answer None (Some c')))" for c c'
    by (rule return_none_obeys [OF throws_claimed(1) kept(1)] return_none_obeys [OF throws_claimed(2) kept(2)]; simp)+
  then show ?thesis
    unfolding await_operator_def by (intro obeys_bind quiet.obeys_steps) (simp_all add: obeys_ret)
qed

lemma failed_unverified: "obeys (\<lambda>_. True) unverified (stage_3b_failed account claimed e)"
proof (cases "safe_exception_code e")
  case None
  have "throws (\<lambda>_. True) (stage_3b_failed account claimed e :: unit operator_act)"
    unfolding stage_3b_failed_def None by (auto intro!: throw_rules throws_claimed)
  then show ?thesis by (rule obeys_throws) simp
next
  case (Some code)
  have "throws (\<lambda>_. True) (bind (fail_claimed_run claimed code) (\<lambda>_. set_safe_account_state account code) :: unit operator_act)"
    by (intro throw_rules throws_claimed throws_quietly) simp
  then have "obeys (\<lambda>_. True) unverified (bind (bind (fail_claimed_run claimed code) (\<lambda>_. set_safe_account_state account code))
      (\<lambda>_. answer None (Some code)))"
    by (rule return_none_obeys) (auto intro: keepsI)
  then show ?thesis unfolding stage_3b_failed_def Some by (simp add: bind_assoc)
qed

definition not_verified :: "operator_result signal + 'a \<Rightarrow> operator \<Rightarrow> bool" where
  "not_verified r t \<longleftrightarrow> (\<forall>g. r = Inl g \<longrightarrow> unverified g t)"

lemma obeys_not_verified: "obeys I unverified a \<Longrightarrow> I s \<Longrightarrow> wp a not_verified s"
  unfolding obeys_def by (auto elim!: wp_mono simp: not_verified_def split: sum.splits)

lemma supervised_unverified:
  assumes "quiet s"
  shows "wp (supervised_stage_3b oc account claimed) not_verified s"
proof -
  have body: "obeys quiet unverified (bind (await_operator account claimed) (\<lambda>_. collect_stage_3b oc account claimed))"
    by (intro obeys_bind await_unverified collect_unverified)
  have tried: "wp (try_except (bind (await_operator account claimed) (\<lambda>_. collect_stage_3b oc account claimed))
      (stage_3b_failed account claimed)) not_verified s"
    unfolding wp_try_except
    by (rule wp_mono [OF obeys_not_verified [OF body assms]])
      (auto intro: obeys_not_verified [OF failed_unverified] simp: not_verified_def split: sum.splits signal.splits)
  show ?thesis
    unfolding supervised_stage_3b_def wp_finally_do
  proof (rule wp_mono [OF tried])
    fix r u assume ok: "not_verified r u"
    show "wp close_feed_quietly (\<lambda>r' v. case r' of Inl g \<Rightarrow> not_verified (Inl g) v | Inr _ \<Rightarrow> not_verified r v) u"
      by (rule wp_mono [OF close_outcome]) (use ok in \<open>auto simp: not_verified_def unverified_def split: sum.splits\<close>)
  qed
qed

text \<open>
  C4: A completed live run is never reported as verified. The operator's feed has \<open>next_from_authenticated_feed\<close>,
  so the engine records \<open>feed_source_advance\<close> where the check after a run wants \<open>advance\<close>: whenever
  \<open>run_stage_3b\<close> returns the summary of a completed run, the reason is \<open>POST_RUN_VERIFICATION_FAILED\<close>.
\<close>

theorem stage_3b_never_verified:
  assumes "run_stage_3b oc s = (Inr (Some summary, transcript, reason), t)" "cs_status summary = ''completed''"
  shows "reason = Some ''POST_RUN_VERIFICATION_FAILED''"
proof -
  have any: "obeys (\<lambda>_. True) unverified (prepare_stage_3b oc)" "obeys (\<lambda>_. True) unverified (mark_connecting account)" for account
    unfolding prepare_stage_3b_def
    by (auto intro!: obeys_throws [where P = "\<lambda>_. True"] throw_rules throws_operator throws_db_call)
  have checked: "obeys (\<lambda>_. True) unverified (check_claim account claimed)" for account claimed
    unfolding check_claim_def
    by (cases claimed; simp only: option.case;
        intro obeys_bind obeys_if obeys_ret obeys_with_state obeys_stop
          obeys_throws [where P = "\<lambda>_. True"] throw_rules throws_claimed; simp)
  have last: "wp (bind (supervised_stage_3b oc account claimed) (\<lambda>_. stop Break)) not_verified
      (u\<lparr>o_transcript := new_transcript\<lparr>st_account_id := i\<rparr>, o_feed := b\<rparr>)" for account claimed u i b
    unfolding wp_bind
    by (rule wp_mono [OF supervised_unverified])
      (auto simp: quiet_def no_wheels_def new_transcript_def wp_stop not_verified_def split: sum.splits)
  have rest: "wp (bind (check_claim account claimed) (\<lambda>_.
      bind (mark_connecting account) (\<lambda>_.
      bind (modify (\<lambda>s. s\<lparr>o_transcript := new_transcript\<lparr>st_account_id := Some account\<rparr>, o_feed := oc_existing_feed oc\<rparr>)) (\<lambda>_.
      bind (supervised_stage_3b oc account claimed) (\<lambda>_. stop Break))))) not_verified u" for account claimed u
    unfolding wp_bind [of "check_claim _ _"] wp_bind [of "mark_connecting _"] wp_bind [of "modify _"] wp_modify
    by (rule wp_mono [OF obeys_not_verified [OF checked TrueI]], rename_tac r v, case_tac r, simp add: not_verified_def,
        simp, rule wp_mono [OF obeys_not_verified [OF any(2) TrueI]], rename_tac r' v', case_tac r',
        simp add: not_verified_def, simp add: last)
  have "wp (bind (prepare_stage_3b oc) (\<lambda>(account, claimed).
      bind (check_claim account claimed) (\<lambda>_.
      bind (mark_connecting account) (\<lambda>_.
      bind (modify (\<lambda>s. s\<lparr>o_transcript := new_transcript\<lparr>st_account_id := Some account\<rparr>, o_feed := oc_existing_feed oc\<rparr>)) (\<lambda>_.
      bind (supervised_stage_3b oc account claimed) (\<lambda>_. stop Break)))))) not_verified s"
    unfolding wp_bind [of "prepare_stage_3b oc"]
    by (rule wp_mono [OF obeys_not_verified [OF any(1) TrueI]])
      (auto intro: rest simp: not_verified_def split: sum.splits)
  from wpD [OF this function_leavesD [OF assms(1) [unfolded run_stage_3b_def] leaves_run]] assms(2) show ?thesis
    by (simp add: not_verified_def unverified_def)
qed

section \<open>A live run of three\<close>

definition demo_operator :: operator_config where
  "demo_operator = \<lparr>oc_host = demo_host, oc_repository = [''app''], oc_runtime = demo_settings, oc_tools = sample_tools,
     oc_given_account = Some 7, oc_stored_account = Inl OtherError, oc_existing_feed = False\<rparr>"

definition demo_candidate :: "string \<Rightarrow> reel_candidate" where
  "demo_candidate code = \<lparr>shortcode = code, canonical_url = built_url code\<rparr>"

text \<open>An account whose three Reels are durable already, and a queued run of three.\<close>

definition known_reel :: "uuid \<Rightarrow> string \<Rightarrow> reel" where
  "known_reel i code = \<lparr>reel_id = i, reel_shortcode = code, reel_canonical_url = built_url code,
     reel_status = ReelPipelineStatus.SOURCE_READY, reel_source_object_key = Some (''instagram-sources/'' @ code @ ''.mp4''),
     reel_source_sha256 = Some (replicate 64 (CHR ''a'')), reel_source_byte_size = Some 2, reel_video_id = None,
     reel_failure_reason_code = None, reel_discovered_at = None, reel_source_ready_at = None, reel_ready_at = None,
     reel_failed_at = None, reel_cleanup_pending = False\<rparr>"

definition demo_process :: "bool result list \<Rightarrow> operator" where
  "demo_process answers = \<lparr>w_db = empty_db\<lparr>accounts := [(new_account 7)\<lparr>acc_status := AccountStatus.CONNECTED\<rparr>],
       reels := [known_reel 31 ''CAFE1'', known_reel 32 ''CAFE2'', known_reel 33 ''CAFE3''],
       runs := [new_run 11 7 CollectionTrigger.MANUAL CollectionRunStatus.QUEUED 3 None 5]\<rparr>,
     w_store = [], w_faults = [], w_cancel = [], w_clock = [], w_uuids = [], w_events = [],
     c_files = [],
     c_feed = [Inr None, Inr (Some (demo_candidate ''CAFE1'')), Inr None,
       Inr (Some (demo_candidate ''CAFE2'')), Inr None, Inr (Some (demo_candidate ''CAFE3'')), Inr None, Inr None, Inr None],
     c_downloads = [], c_monotonic = [], c_recorded = [],
     l_confirmed_advances = 0, l_transition_operations = 0, l_scroll_actions = 0,
     l_committed_bytes = 0, l_seen = [], l_duplicate_skipped_count = 0, l_observations = 0,
     l_reason = None, l_position = 1, l_candidate = demo_candidate [],
     l_published = None, l_stage = [], l_download_attempted = False, l_db_committed = False,
     o_answers = answers, o_opened = [], o_setup = [], o_feed = False, o_transcript = new_transcript\<rparr>"

text \<open>The statements one after the other.\<close>

definition demo_claimed :: collection_run where
  "demo_claimed = new_run 11 7 CollectionTrigger.MANUAL CollectionRunStatus.RUNNING 3 (Some 0) 5"

abbreviation prepared :: "bool result list \<Rightarrow> (operator_result signal + uuid \<times> collection_run option) \<times> operator" where
  "prepared answers \<equiv> prepare_stage_3b demo_operator (demo_process answers)"

definition ready :: "bool result list \<Rightarrow> operator" where
  "ready answers = (snd (prepared answers))
     \<lparr>o_transcript := new_transcript\<lparr>st_account_id := Some 7\<rparr>, o_feed := False\<rparr>"

lemma run_steps:
  assumes "prepare_stage_3b oc s = (Inr (account, claimed), s1)" "check_claim account claimed s1 = (Inr (), s2)"
    "(mark_connecting account :: unit operator_act) s2 = (Inr (), s3)"
    "supervised_stage_3b oc account claimed
       (s3\<lparr>o_transcript := new_transcript\<lparr>st_account_id := Some account\<rparr>, o_feed := oc_existing_feed oc\<rparr>) = (Inl g, t)"
  shows "run_stage_3b oc s = (case g of Return x \<Rightarrow> Inr x | Raise e \<Rightarrow> Inl (Raise e) | Break \<Rightarrow> Inl Break | OutOfFuel \<Rightarrow> Inl OutOfFuel, t)"
  using assms by (cases g) (simp_all add: run_stage_3b_def function_body_def bind_def modify_def)

lemma demo_prepared:
  assumes "supervised_stage_3b demo_operator 7 (Some demo_claimed) (ready answers) = (Inl g, t)"
    and "answers \<in> {[Inr True, Inr True], [Inr True, Inr False], [Inl exn.KeyboardInterrupt]}"
  shows "run_stage_3b demo_operator (demo_process answers) =
     (case g of Return x \<Rightarrow> Inr x | Raise e \<Rightarrow> Inl (Raise e) | Break \<Rightarrow> Inl Break | OutOfFuel \<Rightarrow> Inl OutOfFuel, t)"
proof (rule run_steps)
  have "fst (prepared [Inr True, Inr True]) = Inr (7, Some demo_claimed)" by code_simp
  moreover have "fst (prepared [Inr True, Inr False]) = Inr (7, Some demo_claimed)" by code_simp
  moreover have "fst (prepared [Inl exn.KeyboardInterrupt]) = Inr (7, Some demo_claimed)" by code_simp
  ultimately show "prepared answers = (Inr (7, Some demo_claimed), snd (prepared answers))"
    using assms(2) by (auto intro: prod_eqI)
  show "check_claim 7 (Some demo_claimed) (snd (prepared answers)) = (Inr (), snd (prepared answers))"
    by (simp add: check_claim_def demo_claimed_def new_run_def stage_3b_target_def ret_def)
  have "(mark_connecting 7 :: unit operator_act) (snd (prepared [Inr True, Inr True])) = (Inr (), snd (prepared [Inr True, Inr True]))"
    by code_simp
  moreover have "(mark_connecting 7 :: unit operator_act) (snd (prepared [Inr True, Inr False])) = (Inr (), snd (prepared [Inr True, Inr False]))"
    by code_simp
  moreover have "(mark_connecting 7 :: unit operator_act) (snd (prepared [Inl exn.KeyboardInterrupt])) = (Inr (), snd (prepared [Inl exn.KeyboardInterrupt]))"
    by code_simp
  ultimately show "(mark_connecting 7 :: unit operator_act) (snd (prepared answers)) = (Inr (), snd (prepared answers))"
    using assms(2) by auto
  show "supervised_stage_3b demo_operator 7 (Some demo_claimed) ((snd (prepared answers))
      \<lparr>o_transcript := new_transcript\<lparr>st_account_id := Some 7\<rparr>, o_feed := oc_existing_feed demo_operator\<rparr>) = (Inl g, t)"
    using assms(1) by (simp add: ready_def demo_operator_def)
qed

text \<open>The human does not confirm, or interrupts.\<close>

abbreviation shut :: "operator \<Rightarrow> (operator_result signal + unit) \<times> operator" where
  "shut s \<equiv> close_feed_quietly s"

lemma await_returned:
  assumes "await_operator account claimed s = (Inl (Return x), t)" "shut t = (Inr (), u)"
  shows "supervised_stage_3b oc account claimed s = (Inl (Return x), u)"
  using assms by (simp add: supervised_stage_3b_def finally_do_def try_except_def bind_def)

lemma await_interrupted:
  assumes "await_operator account claimed s = (Inl (Raise exn.KeyboardInterrupt), t)" "shut t = (Inr (), u)"
  shows "supervised_stage_3b oc account claimed s = (Inl (Raise exn.KeyboardInterrupt), u)"
  using assms by (simp add: supervised_stage_3b_def finally_do_def try_except_def bind_def stage_3b_failed_def stop_def)

lemma collect_returned:
  assumes "await_operator account claimed s = (Inr (), s0)" "(build_client :: unit operator_act) s0 = (Inr (), s1)"
    "(capture_run_baseline (t_sha256 (oc_tools oc)) :: run_baseline operator_act) s1 = (Inr b, s2)"
    "require_live (oc_host oc) (oc_repository oc) (oc_runtime oc) = Inr ()"
    "(run_engine (stage_3b_engine oc account claimed) :: collector_summary operator_act) (s2\<lparr>o_transcript := (o_transcript s2)\<lparr>st_baseline := Some b\<rparr>\<rparr>) = (Inr summary, s3)"
    "(note_stop_reason account summary :: unit operator_act) s3 = (Inr (), s4)" "cs_status summary = ''completed''"
    "verify_collected oc b summary s4 = (Inl (Return x), s5)" "shut s5 = (Inr (), t)"
  shows "supervised_stage_3b oc account claimed s = (Inl (Return x), t)"
proof -
  have "collect_stage_3b oc account claimed s0 = (Inl (Return x), s5)"
    using assms by (simp add: collect_stage_3b_def bind_def set_transcript_def modify_def call_def ret_def)
  with assms(1,9) show ?thesis by (simp add: supervised_stage_3b_def finally_do_def try_except_def bind_def)
qed

abbreviation awaited :: "bool result list \<Rightarrow> (operator_result signal + unit) \<times> operator" where
  "awaited answers \<equiv> await_operator 7 (Some demo_claimed) (ready answers)"

lemma refused_run:
  "\<exists>x. run_stage_3b demo_operator (demo_process [Inr True, Inr False]) =
     (Inr (None, x), snd (shut (snd (awaited [Inr True, Inr False]))))"
proof -
  have "case fst (awaited [Inr True, Inr False]) of Inl (Return (None, _)) \<Rightarrow> True | _ \<Rightarrow> False" by code_simp
  then obtain x where await: "awaited [Inr True, Inr False] = (Inl (Return (None, x)), snd (awaited [Inr True, Inr False]))"
    by (cases "awaited [Inr True, Inr False]") (auto split: sum.splits signal.splits option.splits)
  have "fst (shut (snd (awaited [Inr True, Inr False]))) = Inr ()" by code_simp
  then have "shut (snd (awaited [Inr True, Inr False])) = (Inr (), snd (shut (snd (awaited [Inr True, Inr False]))))"
    by (auto intro: prod_eqI)
  from demo_prepared [OF await_returned [OF await this]] show ?thesis by (intro exI [of _ x]) simp
qed

lemma interrupted_run:
  "run_stage_3b demo_operator (demo_process [Inl exn.KeyboardInterrupt]) =
     (Inl (Raise exn.KeyboardInterrupt), snd (shut (snd (awaited [Inl exn.KeyboardInterrupt]))))"
proof -
  have "fst (awaited [Inl exn.KeyboardInterrupt]) = Inl (Raise exn.KeyboardInterrupt)" by code_simp
  then have await: "awaited [Inl exn.KeyboardInterrupt] = (Inl (Raise exn.KeyboardInterrupt), snd (awaited [Inl exn.KeyboardInterrupt]))"
    by (auto intro: prod_eqI)
  have "fst (shut (snd (awaited [Inl exn.KeyboardInterrupt]))) = Inr ()" by code_simp
  then have "shut (snd (awaited [Inl exn.KeyboardInterrupt])) = (Inr (), snd (shut (snd (awaited [Inl exn.KeyboardInterrupt]))))"
    by (auto intro: prod_eqI)
  from demo_prepared [OF await_interrupted [OF await this]] show ?thesis by simp
qed


text \<open>
  A Ctrl-C while the operator is asked is no \<open>Exception\<close>: neither handler ends the claimed run, which stays
  RUNNING.
\<close>

lemma interrupted_claim_stays_running:
  "run_stage_3b demo_operator (demo_process [Inl exn.KeyboardInterrupt]) = (Inl (Raise exn.KeyboardInterrupt) :: unit signal + _, t) \<Longrightarrow>
     running (w_db t) = {11}"
proof -
  assume "run_stage_3b demo_operator (demo_process [Inl exn.KeyboardInterrupt]) = (Inl (Raise exn.KeyboardInterrupt) :: unit signal + operator_result, t)"
  from trans [OF sym [OF interrupted_run] this] have "t = snd (shut (snd (awaited [Inl exn.KeyboardInterrupt])))" by simp
  moreover have "running (w_db (snd (shut (snd (awaited [Inl exn.KeyboardInterrupt]))))) = {11}" by code_simp
  ultimately show ?thesis by simp
qed

text \<open>The human confirms.\<close>

abbreviation yes :: "bool result list" where
  "yes \<equiv> [Inr True, Inr True]"

definition built :: operator where
  "built = (demo_process [])
     \<lparr>w_db := (w_db (demo_process []))
        \<lparr>accounts := [(new_account 7)\<lparr>acc_status := AccountStatus.CONNECTED, acc_last_connected_at := Some 0\<rparr>],
         runs := [demo_claimed]\<rparr>,
      c_feed := tl (c_feed (demo_process [])), o_feed := True, o_transcript := new_transcript\<lparr>st_account_id := Some 7\<rparr>\<rparr>"

lemma demo_built: "snd (build_client (snd (awaited yes)) :: (operator_result signal + unit) \<times> operator) = built"
  by code_simp

definition barren :: "operator \<Rightarrow> bool" where
  "barren s \<longleftrightarrow> calm s \<and> w_store s = []"

lemma barren_may_fail: "barren s \<Longrightarrow> may_fail e a s = a s"
  by (simp add: barren_def calm_may_fail)

lemma barren_read: "barren s \<Longrightarrow> db_read f s = (Inr (f (w_db s)), s)"
  by (simp add: barren_def calm_db_read)

lemma barren_snapshot: "barren s \<Longrightarrow> snapshot_objects sha s = (Inr [], s)"
  by (rule calm_snapshot_objects) (simp_all add: barren_def source_keys_def)

lemma barren_matches: "barren s \<Longrightarrow> \<exists>b. (object_matches sha key h n :: bool operator_act) s = (Inr b, s)"
  by (auto simp: object_matches_def snapshot_object_def barren_may_fail try_except_def bind_def with_state_def ret_def stop_def
      barren_def store_get_def split: option.splits)

lemma barren_items: "barren s \<Longrightarrow> \<exists>items. (verify_items sha position rows :: verified_item list operator_act) s = (Inr items, s)"
proof (induction rows arbitrary: position)
  case (Cons row rows)
  obtain b where b: "(object_matches sha (reel_source_object_key (snd row)) (reel_source_sha256 (snd row))
      (reel_source_byte_size (snd row)) :: bool operator_act) s = (Inr b, s)"
    using barren_matches [OF Cons.prems] by blast
  from Cons.IH [OF Cons.prems] obtain items where
    "(verify_items sha (position + 1) rows :: verified_item list operator_act) s = (Inr items, s)" by blast
  with b Cons.prems show ?case by (cases row) (simp add: bind_def barren_read ret_def)
qed (simp add: ret_def)

lemma barren_verify:
  assumes "barren s"
  shows "\<exists>result. (verify_run sha wanted baseline transcript workspace files :: verification_result operator_act) s = (Inr result, s)"
proof (cases "get_run (w_db s) wanted")
  case None
  with assms show ?thesis by (simp add: verify_run_def bind_def barren_read ret_def)
next
  case (Some run)
  obtain items where "(verify_items sha 1 (run_rows wanted (w_db s)) :: verified_item list operator_act) s = (Inr items, s)"
    using barren_items [OF assms] by blast
  with assms Some show ?thesis by (simp add: verify_run_def bind_def barren_read barren_snapshot ret_def)
qed

lemma nothing_captured:
  "barren s \<Longrightarrow> capture_run_baseline sha s = (Inr \<lparr>rb_video_count = int (length (videos (w_db s))),
     rb_video_ids_sha256 = fingerprint sha (map (\<lambda>v. uuid_str (vid_id v)) (videos (w_db s))),
     rb_source_object_keys_sha256 = fingerprint sha [], rb_source_objects = []\<rparr>, s)"
  by (simp add: capture_run_baseline_def bind_def barren_read barren_snapshot ret_def)

lemma barren_not_verified:
  assumes "quiet s" "barren s"
  shows "\<exists>x f. verify_collected oc b summary s = (Inl (Return (Some summary, x)), s\<lparr>o_transcript := f\<rparr>)"
proof -
  obtain result where result: "(verify_run (t_sha256 (oc_tools oc)) (cs_run_id summary) b (transcript_of (o_transcript s))
      (workspace_root oc) (map fst (c_files s)) :: verification_result operator_act) s = (Inr result, s)"
    using barren_verify [OF assms(2)] by blast
  obtain r t where run: "verify_collected oc b summary s = (r, t)" by fastforce
  from verify_unverified [OF assms(1) run] obtain g where "r = Inl g" by blast
  with run result show ?thesis
    by (auto simp: verify_collected_def bind_def with_state_def set_transcript_def modify_def answer_runs ret_def split: if_splits)
qed

definition demo_baseline :: run_baseline where
  "demo_baseline = \<lparr>rb_video_count = 0, rb_video_ids_sha256 = t_sha256 sample_tools [],
     rb_source_object_keys_sha256 = t_sha256 sample_tools [], rb_source_objects = []\<rparr>"

definition demo_summary :: collector_summary where
  "demo_summary = \<lparr>cs_run_id = 11, cs_status = ''completed'', cs_target_count = 3, cs_source_committed_count = 0,
     cs_already_available_count = 3, cs_failed_count = 0, cs_confirmed_advances = 2, cs_stop_reason_code = None,
     cs_observations = 3, cs_duplicate_skipped_count = 0\<rparr>"

definition demo_engine :: "(collector_summary signal + collector_summary) \<times> engine" where
  "demo_engine = collect (stage_3b_engine demo_operator 7 (Some demo_claimed)) (engine.truncate built)"

lemma demo_collected: "fst demo_engine = Inr demo_summary" by code_simp

definition collected :: operator where
  "collected = recorded_by (snd demo_engine) (built\<lparr>o_transcript := (o_transcript built)\<lparr>st_baseline := Some demo_baseline\<rparr>\<rparr>)"

lemma collected_facts: "barren collected" "quiet collected"
  unfolding quiet_def no_wheels_def by code_simp+

lemma built_facts: "barren built" 
   by code_simp+

lemma demo_required: "require_live (oc_host demo_operator) (oc_repository demo_operator) (oc_runtime demo_operator) = Inr ()"
  by code_simp

lemma demo_run_engine:
  "(run_engine (stage_3b_engine demo_operator 7 (Some demo_claimed)) :: collector_summary operator_act)
     (built\<lparr>o_transcript := (o_transcript built)\<lparr>st_baseline := Some demo_baseline\<rparr>\<rparr>) = (Inr demo_summary, collected)"
proof -
  have "collect (stage_3b_engine demo_operator 7 (Some demo_claimed))
      (engine.truncate (built\<lparr>o_transcript := (o_transcript built)\<lparr>st_baseline := Some demo_baseline\<rparr>\<rparr>)) = demo_engine"
    by (simp add: demo_engine_def engine.defs)
  also have "demo_engine = (Inr demo_summary, snd demo_engine)"
    by (rule prod_eqI) (simp_all add: demo_collected)
  finally show ?thesis by (simp add: run_engine_def function_body_def collected_def)
qed

lemma confirmed_run:
  "\<exists>x t. run_stage_3b demo_operator (demo_process yes) = (Inr (Some demo_summary, x) :: unit signal + operator_result, t)"
proof -
  have await: "awaited yes = (Inr (), snd (awaited yes))"
    by (rule prod_eqI) (code_simp, simp)
  have client: "(build_client :: unit operator_act) (snd (awaited yes)) = (Inr (), built)"
    by (rule prod_eqI) (code_simp, simp add: demo_built)
  have base: "(capture_run_baseline (t_sha256 (oc_tools demo_operator)) :: run_baseline operator_act) built = (Inr demo_baseline, built)"
    by (simp add: nothing_captured [OF built_facts] demo_operator_def demo_baseline_def fingerprint_def lines_of_def)
      (simp add: built_def demo_process_def empty_db_def)
  have noted: "(note_stop_reason 7 demo_summary :: unit operator_act) collected = (Inr (), collected)"
    by (simp add: note_stop_reason_def demo_summary_def ret_def)
  obtain x f where checked: "verify_collected demo_operator demo_baseline demo_summary collected =
      (Inl (Return (Some demo_summary, x)), collected\<lparr>o_transcript := f\<rparr>)"
    using barren_not_verified [OF collected_facts(2,1)] by blast
  have "c_feed collected \<noteq> []" "hd (c_feed collected) = Inr None" by code_simp+
  then have "fst (shut (collected\<lparr>o_transcript := f\<rparr>)) = Inr ()"
    by (cases "c_feed collected")
      (auto simp: close_feed_quietly_def attempt_def feed_call_def with_state_def try_except_def bind_def modify_def ret_def pop_def)
  then obtain t where closed: "shut (collected\<lparr>o_transcript := f\<rparr>) = (Inr (), t)" by (metis prod.collapse)
  have completed: "cs_status demo_summary = ''completed''" by (simp add: demo_summary_def)
  from demo_prepared [OF collect_returned [OF await client base demo_required demo_run_engine noted completed checked closed]]
  have "run_stage_3b demo_operator (demo_process yes) = (Inr (Some demo_summary, x), t)" by simp
  then show ?thesis by blast
qed

theorem stage_3b_never_verified_witness:
  "\<exists>transcript t. run_stage_3b demo_operator (demo_process yes) =
     (Inr (Some demo_summary, transcript, Some ''POST_RUN_VERIFICATION_FAILED'') :: unit signal + operator_result, t)"
proof -
  obtain transcript reason t where run: "run_stage_3b demo_operator (demo_process yes) =
      (Inr (Some demo_summary, transcript, reason) :: unit signal + operator_result, t)"
    using confirmed_run by (metis prod.collapse)
  from stage_3b_never_verified [OF this] have "reason = Some ''POST_RUN_VERIFICATION_FAILED''"
    by (simp add: demo_summary_def)
  with run show ?thesis by blast
qed

end
