(* ===== verification/Stage3c1Props.thy ===== *)
theory Stage3c1Props
  imports OperatorSafety NormalizerRun
begin

text \<open>
  The continuation to ten Reels: a plan is made only of sources that are in the bucket as the database describes
  them, and a continuation that is reported without a reason has left ten such Reels and nothing else.
\<close>

section \<open>What a plan has seen\<close>

definition snapshot_stored :: "(string \<Rightarrow> string) \<Rightarrow> store \<Rightarrow> durable_reel_snapshot \<Rightarrow> bool" where
  "snapshot_stored sha st item \<longleftrightarrow>
     (\<exists>obj. store_get st (snap_object_key item) = Some obj \<and> snap_byte_size item = int (length (obj_content obj)) \<and>
        snap_sha256 item = sha (obj_content obj) \<and> obj_content_type obj = ''video/mp4'')"

lemma snapshot_stored_iff:
  "snapshot_stored sha st item \<longleftrightarrow> (\<exists>b. snap sha st (snap_object_key item) = Some b \<and> remote_matches item b)"
  by (auto simp: snapshot_stored_def snap_def object_of_def remote_matches_def)

lemma estab_check_sources:
  "estab (sees d st) (\<lambda>_. True) (check_sources sha items) (\<lambda>_ _. \<forall>item \<in> set items. snapshot_stored sha st item)"
proof (induction items)
  case Nil
  show ?case by (auto intro: estab_ret)
next
  case (Cons item items)
  have read: "estab (sees d st) (\<lambda>_. True) (try_except (snapshot_object sha (snap_object_key item))
      (\<lambda>e. if is_exception e then raise collector_disabled else raise e))
      (\<lambda>b _. snap sha st (snap_object_key item) = Some b)"
    by (rule estab_try [OF estab_snapshot_object]) (auto intro: estab_stop)
  have matched: "estab (sees d st) (\<lambda>_. snap sha st (snap_object_key item) = Some b)
      (if \<not> remote_matches item b then raise collector_disabled else ret ()) (\<lambda>_ _. snapshot_stored sha st item)" for b
    by (auto intro: estab_stop estab_ret simp: snapshot_stored_iff)
  show ?case
    unfolding check_sources.simps
    by (rule estab_bind [OF read], rule estab_bind [OF matched], rule estab_post [OF estab_carry [OF Cons.IH]]) auto
qed

definition plan_ok :: "(string \<Rightarrow> string) \<Rightarrow> (string \<Rightarrow> nat) \<Rightarrow> stage3c1_plan \<Rightarrow> db \<Rightarrow> store \<Rightarrow> bool" where
  "plan_ok sha collate plan d st \<longleftrightarrow>
     pn_baseline plan = account_durable_baseline collate (pn_account_id plan) d \<and>
     pn_desired_total plan = 10 \<and> pn_remaining plan = 10 - int (length (pn_baseline plan)) \<and>
     3 \<le> length (pn_baseline plan) \<and> length (pn_baseline plan) \<le> 10 \<and>
     (\<forall>item \<in> set (pn_baseline plan). snapshot_stored sha st item)"

lemma estab_prepare:
  "estab (sees d st) (\<lambda>_. True) (prepare_stage3c1 sha collate account desired)
     (\<lambda>plan _. plan_ok sha collate plan d st \<and> pn_account_id plan = account)"
proof (cases "desired = stage_3c1_desired_total")
  case False
  then show ?thesis by (auto simp: prepare_stage3c1_def intro: estab_stop)
next
  case True
  let ?found = "\<lambda>initial baseline. initial = account_durable_count account d \<and>
    baseline = account_durable_baseline collate account d"
  have sized: "estab (sees d st) (\<lambda>_. ?found initial baseline)
      (if initial \<noteq> int (length baseline) \<or> initial < stage_3c1_initial_minimum \<or> initial > stage_3c1_desired_total
       then raise collector_disabled else ret ())
      (\<lambda>_ _. ?found initial baseline \<and> initial = int (length baseline) \<and> 3 \<le> initial \<and> initial \<le> 10)" for initial baseline
    by (auto intro: estab_stop estab_ret simp: stage_3c1_limits)
  have read: "estab (sees d st) (\<lambda>_. initial = account_durable_count account d)
      (db_read (account_durable_baseline collate account)) (\<lambda>baseline _. ?found initial baseline)" for initial
    by (rule estab_post [OF estab_carry [OF estab_db_read]]) auto
  show ?thesis
    unfolding prepare_stage3c1_def True
    apply (simp only: simp_thms if_False)
    apply (rule estab_bind [OF estab_db_read], rule estab_bind [OF read], rule estab_bind [OF sized])
    apply (rule estab_bind [OF estab_carry [OF estab_check_sources]], rule estab_ret)
    apply (auto simp: plan_ok_def stage_3c1_limits)
    done
qed

text \<open>
  C7: A continuation is planned only from what is there. When \<open>prepare_stage3c1\<close> returns a plan, its baseline is
  the durable Reels of the account, three to ten of them, what remains makes ten, and the source of each is in
  the bucket with the size, the digest and the type of a video; database and bucket are as they were.
\<close>

theorem plan_of_stored_reels:
  fixes s t :: operator
  assumes "prepare_stage3c1 sha collate account desired s = (Inr plan :: unit signal + stage3c1_plan, t)"
  shows "plan_ok sha collate plan (w_db s) (w_store s) \<and> pn_account_id plan = account \<and>
    w_db t = w_db s \<and> w_store t = w_store s"
  using estabD [OF estab_prepare, of "w_db s" "w_store s" s sha collate account desired "Inr plan" t] assms
  by (auto simp: sees_def)

section \<open>What a verified continuation has left\<close>

lemma estab_sources_match:
  "estab (sees d st) (\<lambda>_. True) (sources_match sha items valid)
     (\<lambda>ok _. ok \<longrightarrow> valid \<and> (\<forall>item \<in> set items. snapshot_stored sha st item))"
proof (induction items arbitrary: valid)
  case Nil
  show ?case by (auto intro: estab_ret)
next
  case (Cons item items)
  show ?case
    unfolding sources_match.simps
    by (rule estab_bind [OF estab_snapshot_object], rule estab_post [OF estab_carry [OF Cons.IH]])
      (auto simp: snapshot_stored_iff)
qed

definition bucket_is :: "(string \<Rightarrow> string) \<Rightarrow> store \<Rightarrow> durable_reel_snapshot list \<Rightarrow> bool" where
  "bucket_is sha st snapshots \<longleftrightarrow>
     {k. startswith k source_objects_prefix \<and> store_get st k \<noteq> None} = snap_object_key ` set snapshots \<and>
     (\<forall>item \<in> set snapshots. snapshot_stored sha st item)"

lemma estab_bucket_matches:
  "estab (sees d st) (\<lambda>_. True) (bucket_matches sha snapshots) (\<lambda>ok _. ok \<longrightarrow> bucket_is sha st snapshots)"
proof -
  have matched: "estab (sees d st) (\<lambda>_. map (snap sha st) (source_keys st) = map Some current)
      (sources_match sha snapshots
        (set (map bo_object_key current) = set (map snap_object_key snapshots) \<and>
         list_all (\<lambda>b. \<not> is_temporary_name (bo_object_key b)) current))
      (\<lambda>ok _. ok \<longrightarrow> bucket_is sha st snapshots)" for current
  proof (rule estab_assume)
    assume "map (snap sha st) (source_keys st) = map Some current"
    then have "set (map bo_object_key current) = {k. startswith k source_objects_prefix \<and> store_get st k \<noteq> None}"
      using snapshot_keys(1) source_keys_set by metis
    then show "estab (sees d st) (\<lambda>_. True)
      (sources_match sha snapshots
        (set (map bo_object_key current) = set (map snap_object_key snapshots) \<and>
         list_all (\<lambda>b. \<not> is_temporary_name (bo_object_key b)) current))
      (\<lambda>ok _. ok \<longrightarrow> bucket_is sha st snapshots)"
      by (intro estab_post [OF estab_sources_match]) (auto simp: bucket_is_def)
  qed
  show ?thesis
    unfolding bucket_matches_def
    by (rule estab_try [OF estab_bind [OF estab_snapshot_objects matched]]) (auto intro: estab_ret estab_stop)
qed

text \<open>Ten Reels with a pending job are all of ten.\<close>

lemma pending_counts_all:
  assumes "int (length (pending_counts ids d)) = int (length ids)" "list_all (\<lambda>n. n = 1) (pending_counts ids d)" "i \<in> set ids"
  shows "pending_jobs i d = 1"
proof -
  let ?js = "map job_reel_id (filter (\<lambda>j. job_reel_id j \<in> set ids \<and> job_status j = NormalizationJobStatus.PENDING) (jobs d))"
  have "card (set ids) \<le> card (set ?js)"
    using assms(1) card_length [of ids] by (simp add: pending_counts_def length_remdups_card_conv)
  then have "set ?js = set ids" by (intro card_seteq) auto
  with assms(3) have "i \<in> set (remdups ?js)" by simp
  with assms(2) show ?thesis by (auto simp: pending_counts_def list_all_iff)
qed

lemma originals_kept_subset:
  assumes "originals_kept original current" "distinct (map snap_reel_id original)"
  shows "set original \<subseteq> set current"
proof
  fix item assume item: "item \<in> set original"
  then have "lookup_row snap_reel_id (snap_reel_id item) (rev original) = Some item"
    using assms(2) by (intro lookup_row_distinct) (simp_all add: rev_map [symmetric])
  with assms(1) item have "lookup_row snap_reel_id (snap_reel_id item) (rev current) = Some item"
    by (auto simp: originals_kept_def list_all_iff)
  then show "item \<in> set current" by (auto dest: lookup_row_SomeD)
qed

text \<open>The verdict of a continuation.\<close>

definition ten_reels :: "(string \<Rightarrow> string) \<Rightarrow> (string \<Rightarrow> nat) \<Rightarrow> stage3c1_plan \<Rightarrow> db \<Rightarrow> store \<Rightarrow> bool" where
  "ten_reels sha collate plan d st \<longleftrightarrow>
     (let snapshots = account_durable_baseline collate (pn_account_id plan) d in
      length snapshots = 10 \<and> set (pn_baseline plan) \<subseteq> set snapshots \<and> bucket_is sha st snapshots \<and>
      (\<forall>item \<in> set snapshots. pending_jobs (snap_reel_id item) d = 1) \<and> videos d = [])"

lemma estab_verify_stage3c1:
  assumes unique: "distinct (map snap_reel_id (pn_baseline plan))"
  shows "estab (sees d st) (\<lambda>_. True) (verify_stage3c1 sha collate plan summary events)
     (\<lambda>result _. cv_verified result \<longrightarrow> ten_reels sha collate plan d st \<and> summary_valid plan summary events)"
proof -
  have verdict: "ten_reels sha collate plan d st"
    if "snapshots = account_durable_baseline collate (pn_account_id plan) d" "int (length snapshots) = 10"
      "originals_kept (pn_baseline plan) snapshots" "bucket_is sha st snapshots"
      "stage3c1_rows_valid (map snap_reel_id snapshots) d" for snapshots
    using that originals_kept_subset [OF that(3) unique] pending_counts_all [of "map snap_reel_id snapshots" d]
    by (auto simp: ten_reels_def Let_def stage3c1_rows_valid_def stage_3c1_limits)
  show ?thesis
    unfolding verify_stage3c1_def Let_def
    apply (rule estab_bind [OF estab_db_read], rule estab_bind [OF estab_carry [OF estab_db_read]])
    apply (rule estab_bind [OF estab_carry [OF estab_bucket_matches]])
    apply (rule estab_bind [OF estab_carry [OF estab_db_read]], rule estab_ret)
    using verdict by (auto simp: stage_3c1_limits)
qed

section \<open>The Reels of a plan\<close>

lemma snapshots_distinct:
  assumes "distinct (map reel_id rs)"
  shows "distinct (map snap_reel_id (List.map_filter snapshot_of rs)) \<and>
    snap_reel_id ` set (List.map_filter snapshot_of rs) \<subseteq> reel_id ` set rs"
  using assms
proof (induction rs)
  case (Cons r rs)
  have "snap_reel_id item = reel_id r" if "snapshot_of r = Some item" for item
    using that by (auto simp: snapshot_of_def split: option.splits)
  with Cons show ?case by (fastforce simp: List.map_filter_simps split: option.splits)
qed (simp add: List.map_filter_simps)

lemma baseline_distinct:
  assumes "constraints_ok d"
  shows "distinct (map snap_reel_id (account_durable_baseline collate account d))"
proof -
  let ?items = "List.map_filter snapshot_of (account_durable_reels d account)"
  have "distinct (map reel_id (reels d))" using assms by (simp add: constraint_defs unique_col_def)
  then have "distinct (map reel_id (account_durable_reels d account))"
    by (simp add: account_durable_reels_def distinct_map_filter)
  then have "distinct (map snap_reel_id ?items)" using snapshots_distinct by blast
  then show ?thesis by (auto simp: account_durable_baseline_def distinct_map)
qed

section \<open>The run\<close>

text \<open>A continuation that leaves without a reason has left its ten Reels.\<close>

definition certified :: "(string \<Rightarrow> string) \<Rightarrow> (string \<Rightarrow> nat) \<Rightarrow> stage3c1_result signal \<Rightarrow> operator \<Rightarrow> bool" where
  "certified sha collate g t \<longleftrightarrow> (\<forall>summary tr plan. g = Return (summary, tr, plan, None) \<longrightarrow>
     ten_reels sha collate plan (w_db t) (w_store t))"

interpretation certifying: supervised "\<lambda>_. True" "certified sha collate" for sha collate
  by unfold_locales (simp_all add: env_closed_def certified_def)

lemma certified_simps [simp]: "certified sha collate (Raise e) t" "certified sha collate Break t"
  "certified sha collate (Return (sm, tr, plan, Some reason)) t"
  by (simp_all add: certified_def)

lemma leave_runs: "leave plan summary reason s = (Inl (Return (summary, o_transcript s, plan, reason)), s)"
  by (simp add: leave_def with_state_def stop_def)

lemma leave_certified: "obeys (\<lambda>_. True) (certified sha collate) (leave plan summary (Some reason))"
  by (rule obeysI) (auto simp: leave_runs)

lemma throws_verify_stage3c1: "throws (\<lambda>_. True) (verify_stage3c1 sha collate plan summary events)"
proof -
  have match: "throws (\<lambda>_. True) (sources_match sha items valid)" for items valid
    by (induction items arbitrary: valid) (auto intro!: throw_rules throws_snapshots)
  have "throws (\<lambda>_. True) (bucket_matches sha items)" for items
    unfolding bucket_matches_def by (rule throws_guarded) (auto intro!: throw_rules throws_snapshots match)
  then show ?thesis unfolding verify_stage3c1_def Let_def by (auto intro!: throw_rules)
qed

text \<open>After the check, nothing but the transcript changes.\<close>

lemma verify_continuation_certifies:
  assumes unique: "distinct (map snap_reel_id (pn_baseline plan))"
    and run: "verify_continuation oc collate plan summary events s = (r, t)"
  shows "case r of Inl g \<Rightarrow> certified (t_sha256 (oc_tools oc)) collate g t
    | Inr _ \<Rightarrow> ten_reels (t_sha256 (oc_tools oc)) collate plan (w_db t) (w_store t)"
proof -
  let ?sha = "t_sha256 (oc_tools oc)"
  obtain q u where verify: "(verify_stage3c1 ?sha collate plan summary events :: stage3c1_verification continuation) s = (q, u)"
    by fastforce
  have start: "sees (w_db s) (w_store s) s" by (simp add: sees_def)
  have u: "sees (w_db s) (w_store s) u"
    "\<And>result. q = Inr result \<Longrightarrow> cv_verified result \<Longrightarrow> ten_reels ?sha collate plan (w_db s) (w_store s)"
    using estabD [OF estab_verify_stage3c1 [OF unique] start TrueI verify] by blast+
  show ?thesis
  proof (cases q)
    case (Inl g)
    with throwsD [OF throws_verify_stage3c1, of _ _ _ _ _ s] verify run show ?thesis
      by (fastforce simp: verify_continuation_def bind_def)
  next
    case (Inr result)
    with run verify u show ?thesis
      by (auto simp: verify_continuation_def bind_def set_transcript_def modify_def leave_runs ret_def sees_def
          split: if_splits)
  qed
qed

lemma summary_certified:
  assumes unique: "distinct (map snap_reel_id (pn_baseline plan))" and ok: "summary_ok cfg summary d"
  shows "obeys (\<lambda>_. True) (certified (t_sha256 (oc_tools oc)) collate)
    (bind (if cs_status summary = ''completed''
           then with_state (\<lambda>s. verify_continuation oc collate plan (Some summary) (transcript_of (o_transcript s)))
           else ret ()) (\<lambda>_. leave plan (Some summary) (cs_stop_reason_code summary)))"
proof (rule obeysI)
  fix s t :: operator and r :: "stage3c1_result signal + 'a"
  assume run: "bind (if cs_status summary = ''completed''
      then with_state (\<lambda>s. verify_continuation oc collate plan (Some summary) (transcript_of (o_transcript s)))
      else ret ()) (\<lambda>_. leave plan (Some summary) (cs_stop_reason_code summary)) s = (r, t)"
  show "case r of Inl g \<Rightarrow> certified (t_sha256 (oc_tools oc)) collate g t | Inr _ \<Rightarrow> True"
  proof (cases "cs_status summary = ''completed''")
    case False
    with ok run show ?thesis by (auto simp: summary_ok_def bind_def ret_def leave_runs)
  next
    case True
    obtain q u where verify: "verify_continuation oc collate plan (Some summary) (transcript_of (o_transcript s)) s = (q, u)"
      by fastforce
    from verify_continuation_certifies [OF unique verify] True run verify show ?thesis
      by (cases q) (auto simp: bind_def with_state_def leave_runs certified_def)
  qed
qed

lemma engine_certified:
  assumes "\<And>summary d. summary_ok cfg summary d \<Longrightarrow> obeys (\<lambda>_. True) (certified sha collate) (f summary)"
  shows "obeys (\<lambda>_. True) (certified sha collate) (bind (run_engine cfg) f)"
proof (rule obeysI)
  fix s r t assume run: "bind (run_engine cfg) f s = (r, t)"
  obtain q u where engine: "(run_engine cfg :: collector_summary continuation) s = (q, u)" by fastforce
  show "case r of Inl g \<Rightarrow> certified sha collate g t | Inr _ \<Rightarrow> True"
  proof (cases q)
    case (Inl g)
    with throwsD [OF run_engine_throws [where P = "\<lambda>_. True"], of cfg s g u] engine run show ?thesis
      by (auto simp: bind_def)
  next
    case (Inr summary)
    with run_engine_returns [of cfg s summary u] engine assms have "obeys (\<lambda>_. True) (certified sha collate) (f summary)"
      by blast
    from obeysD [OF this TrueI] run engine Inr show ?thesis by (auto simp: bind_def)
  qed
qed

lemma continue_certified:
  assumes "distinct (map snap_reel_id (pn_baseline plan))"
  shows "obeys (\<lambda>_. True) (certified (t_sha256 (oc_tools oc)) collate) (continue_collection oc collate plan)"
  unfolding continue_collection_def
  by (intro obeys_bind certifying.obeys_steps engine_certified summary_certified [OF assms])
    (auto intro: obeys_ret leave_certified)

lemma verified_leave:
  assumes "distinct (map snap_reel_id (pn_baseline plan))"
  shows "obeys (\<lambda>_. True) (certified (t_sha256 (oc_tools oc)) collate)
    (bind (verify_continuation oc collate plan summary events) (\<lambda>_. leave plan summary reason))"
proof (rule obeysI)
  fix s t :: operator and r :: "stage3c1_result signal + 'a"
  assume "bind (verify_continuation oc collate plan summary events) (\<lambda>_. leave plan summary reason) s = (r, t)"
  then show "case r of Inl g \<Rightarrow> certified (t_sha256 (oc_tools oc)) collate g t | Inr _ \<Rightarrow> True"
  proof (cases rule: bind_cases)
    case (signal g)
    with verify_continuation_certifies [OF assms signal(1)] show ?thesis by simp
  next
    case (result x u)
    with verify_continuation_certifies [OF assms result(1)] show ?thesis by (auto simp: leave_runs certified_def)
  qed
qed

lemma plan_outcome:
  assumes "constraints_ok (w_db s)"
  shows "wp (plan_stage3c1 oc collate desired) (\<lambda>r _. case r of
     Inl g \<Rightarrow> \<exists>e. g = Raise e | Inr plan \<Rightarrow> distinct (map snap_reel_id (pn_baseline plan))) s"
proof -
  let ?I = "\<lambda>s :: operator. constraints_ok (w_db s)"
  have I: "env_closed ?I" by (simp add: env_closed_def)
  have ensured: "keeps ?I (db_call (ensure_account i))" for i
    by (rule keeps_db_call [OF I]) (simp add: ensure_account_def transaction_constraints)
  have built: "keeps ?I build_client"
    unfolding build_client_def by (auto intro!: act_inv keeps_modify split: option.splits)
  have prepared: "estab ?I (\<lambda>_. True) (prepare_stage3c1 sha collate i desired) (\<lambda>plan _. distinct (map snap_reel_id (pn_baseline plan)))"
    for sha i
  proof (rule estabI)
    fix s t :: operator and r
    assume ok: "?I s" and run: "prepare_stage3c1 sha collate i desired s = (r, t)"
    have start: "sees (w_db s) (w_store s) s" by (simp add: sees_def)
    from estabD [OF estab_prepare start TrueI run] ok
    show "?I t \<and> (\<forall>plan. r = Inr plan \<longrightarrow> distinct (map snap_reel_id (pn_baseline plan)))"
      by (auto simp: sees_def plan_ok_def baseline_distinct)
  qed
  have any: "estab ?I (\<lambda>_. True) (plan_stage3c1 oc collate desired) (\<lambda>plan _. distinct (map snap_reel_id (pn_baseline plan)))"
    unfolding plan_stage3c1_def
    by (intro estab_bind [where Q = "\<lambda>_ _. True"] prepared)
      (rule estab_keeps, intro keeps_if act_inv ensured built keeps_db_read I)+
  have sources: "throws (\<lambda>_. True) (check_sources sha items)" for sha items
    by (induction items) (auto intro!: throw_rules throws_guarded throws_snapshots simp del: is_exception_simps)
  then have "throws (\<lambda>_. True) (prepare_stage3c1 sha collate i desired)" for sha i
    unfolding prepare_stage3c1_def by (intro throws_if throw_rules) auto
  then have "throws (\<lambda>_. True) (plan_stage3c1 oc collate desired)"
    unfolding plan_stage3c1_def by (intro throws_if throw_rules throws_operator throws_db_call) auto
  then show ?thesis
    using assms any by (auto simp: wp_def estab_def dest: throwsD split: prod.splits sum.splits)
qed

lemma leaves_stage3c1:
  "leaves (bind (plan_stage3c1 oc collate desired) (\<lambda>plan.
      bind (modify (\<lambda>s. s\<lparr>o_transcript := new_transcript\<lparr>st_account_id := Some (pn_account_id plan)\<rparr>, o_feed := False\<rparr>)) (\<lambda>_.
      bind (if pn_remaining plan = 0
            then bind (verify_continuation oc collate plan None []) (\<lambda>_. leave plan None None) else ret ()) (\<lambda>_.
      bind (mark_connecting (pn_account_id plan)) (\<lambda>_.
      bind (finally_do (continue_collection oc collate plan) close_feed_quietly) (\<lambda>_. stop Break))))))"
  by (intro leaves_bind leaves_stop)

text \<open>
  C6: A continuation that ends well has done its work. When \<open>run_stage3c1\<close> returns without a reason, whether it
  collected anything or found nothing to collect, the account has ten durable Reels in the database it leaves,
  those of the plan among them, each with one pending job; the sources in the bucket are exactly theirs, each
  with the size, the digest and the type the database says; and there is no video.
\<close>

theorem continuation_left_ten:
  assumes "constraints_ok (w_db s)" "run_stage3c1 oc collate desired s = (Inr (summary, transcript, plan, None), t)"
  shows "ten_reels (t_sha256 (oc_tools oc)) collate plan (w_db t) (w_store t)"
proof -
  let ?sha = "t_sha256 (oc_tools oc)"
  let ?G = "\<lambda>r t. \<forall>g. r = Inl g \<longrightarrow> certified ?sha collate g t"
  have obeyed: "wp a ?G u" if "obeys (\<lambda>_. True) (certified ?sha collate) a" for a :: "unit continuation" and u
    by (rule wp_mono [OF that [unfolded obeys_def, rule_format, OF TrueI]]) auto
  have none_left: "obeys (\<lambda>_. True) (certified ?sha collate)
      (if pn_remaining plan = 0 then bind (verify_continuation oc collate plan None []) (\<lambda>_. leave plan None None) else ret ())"
    if "distinct (map snap_reel_id (pn_baseline plan))" for plan
    by (intro obeys_if verified_leave that obeys_ret)
  have closing: "wp (finally_do (continue_collection oc collate plan) close_feed_quietly) ?G u"
    if "distinct (map snap_reel_id (pn_baseline plan))" for plan u
    unfolding wp_finally_do
  proof (rule wp_mono [OF obeyed [OF continue_certified [OF that]]])
    fix r v assume ok: "?G r v"
    show "wp close_feed_quietly (\<lambda>r' w. case r' of Inl g \<Rightarrow> ?G (Inl g) w | Inr _ \<Rightarrow> ?G r w) v"
      by (rule wp_mono [OF close_outcome]) (use ok in \<open>auto simp: certified_def split: sum.splits\<close>)
  qed
  have seq: "wp (bind m f) ?G u" if "obeys (\<lambda>_. True) (certified ?sha collate) m" "\<And>x v. wp (f x) ?G v"
    for m :: "unit continuation" and f :: "unit \<Rightarrow> stage3c1_result continuation" and u
    unfolding wp_bind by (rule wp_mono [OF obeyed [OF that(1)]]) (use that(2) in \<open>auto split: sum.splits\<close>)
  have last: "wp (bind (finally_do (continue_collection oc collate plan) close_feed_quietly) (\<lambda>_. stop Break :: stage3c1_result continuation)) ?G u"
    if "distinct (map snap_reel_id (pn_baseline plan))" for plan u
    unfolding wp_bind by (rule wp_mono [OF closing [OF that]]) (auto simp: wp_stop split: sum.splits)
  have rest: "wp (bind (modify (\<lambda>s. s\<lparr>o_transcript := new_transcript\<lparr>st_account_id := Some (pn_account_id plan)\<rparr>, o_feed := False\<rparr>)) (\<lambda>_.
      bind (if pn_remaining plan = 0
            then bind (verify_continuation oc collate plan None []) (\<lambda>_. leave plan None None) else ret ()) (\<lambda>_.
      bind (mark_connecting (pn_account_id plan)) (\<lambda>_.
      bind (finally_do (continue_collection oc collate plan) close_feed_quietly) (\<lambda>_. stop Break :: stage3c1_result continuation))))) ?G u"
    if "distinct (map snap_reel_id (pn_baseline plan))" for plan u
    unfolding wp_bind [of "modify _"] wp_modify
    by (simp only: sum.case) (rule seq [OF none_left [OF that] seq [OF certifying.obeys_steps(6) last [OF that]]])
  have "wp (bind (plan_stage3c1 oc collate desired) (\<lambda>plan.
      bind (modify (\<lambda>s. s\<lparr>o_transcript := new_transcript\<lparr>st_account_id := Some (pn_account_id plan)\<rparr>, o_feed := False\<rparr>)) (\<lambda>_.
      bind (if pn_remaining plan = 0
            then bind (verify_continuation oc collate plan None []) (\<lambda>_. leave plan None None) else ret ()) (\<lambda>_.
      bind (mark_connecting (pn_account_id plan)) (\<lambda>_.
      bind (finally_do (continue_collection oc collate plan) close_feed_quietly) (\<lambda>_. stop Break :: stage3c1_result continuation)))))) ?G s"
    unfolding wp_bind [of "plan_stage3c1 _ _ _"]
    by (rule wp_mono [OF plan_outcome [OF assms(1)]], rename_tac r u, case_tac r)
      (fastforce, simp only: sum.case rest)
  from wpD [OF this function_leavesD [OF assms(2) [unfolded run_stage3c1_def] leaves_stage3c1]] show ?thesis
    by (simp add: certified_def)
qed

section \<open>Ten Reels\<close>

text \<open>What the operations do when nothing disturbs them.\<close>

lemma calm_check_sources:
  "calm s \<Longrightarrow> \<forall>item \<in> set items. snapshot_stored sha (w_store s) item \<Longrightarrow> check_sources sha items s = (Inr (), s)"
  by (induction items) (auto simp: snapshot_stored_iff bind_def try_except_def calm_snapshot_object ret_def)

lemma calm_prepare:
  assumes "calm s" "plan_ok sha collate plan (w_db s) (w_store s)"
    "account_durable_count (pn_account_id plan) (w_db s) = int (length (pn_baseline plan))"
    "pn_initial_durable_count plan = int (length (pn_baseline plan))"
  shows "prepare_stage3c1 sha collate (pn_account_id plan) 10 s = (Inr plan, s)"
  using assms
  by (cases plan) (auto simp: calm_check_sources plan_ok_def prepare_stage3c1_def bind_def calm_db_read ret_def stage_3c1_limits)

lemma calm_sources_match:
  "calm s \<Longrightarrow> \<forall>item \<in> set items. snapshot_stored sha (w_store s) item \<Longrightarrow> sources_match sha items valid s = (Inr valid, s)"
  by (induction items arbitrary: valid) (auto simp: snapshot_stored_iff bind_def calm_snapshot_object ret_def)

lemma source_keys_snapped:
  "map (snap sha st) (source_keys st) = map Some (map (\<lambda>k. the (snap sha st k)) (source_keys st))"
  using source_keys_set [of st] by (auto simp: snap_def)

lemma calm_bucket_matches:
  assumes "calm s" "bucket_is sha (w_store s) items" "\<forall>item \<in> set items. \<not> is_temporary_name (snap_object_key item)"
  shows "bucket_matches sha items s = (Inr True, s)"
proof -
  let ?bs = "map (\<lambda>k. the (snap sha (w_store s) k)) (source_keys (w_store s))"
  note snapped = source_keys_snapped [of sha "w_store s"]
  have "set (map bo_object_key ?bs) = snap_object_key ` set items"
    using snapshot_keys(1) [OF snapped] assms(2) source_keys_set [of "w_store s"] by (simp only: bucket_is_def)
  moreover from this assms(3) have "list_all (\<lambda>b. \<not> is_temporary_name (bo_object_key b)) ?bs"
    by (force simp: list_all_iff)
  ultimately show ?thesis
    using assms(1,2)
    by (simp add: calm_sources_match calm_snapshot_objects [OF assms(1) snapped] image_image bucket_matches_def
        try_except_def bind_def bucket_is_def)
qed

definition ten_reel :: "nat \<Rightarrow> reel" where
  "ten_reel i = \<lparr>reel_id = of_nat i, reel_shortcode = ''C'' @ show_nat i, reel_canonical_url = built_url (''C'' @ show_nat i),
     reel_status = ReelPipelineStatus.SOURCE_READY, reel_source_object_key = Some (''instagram-sources/'' @ show_nat i),
     reel_source_sha256 = Some (t_sha256 sample_tools ''xy''), reel_source_byte_size = Some 2, reel_video_id = None,
     reel_failure_reason_code = None, reel_discovered_at = None, reel_source_ready_at = None, reel_ready_at = None,
     reel_failed_at = None, reel_cleanup_pending = False\<rparr>"

definition ten_db :: db where
  "ten_db = empty_db\<lparr>
     accounts := [(new_account 7)\<lparr>acc_status := AccountStatus.CONNECTED\<rparr>],
     reels := map ten_reel [1..<11],
     runs := [(new_run 9 7 CollectionTrigger.MANUAL CollectionRunStatus.COMPLETED 10 None 0)\<lparr>run_source_committed_count := 10\<rparr>],
     run_items := map (\<lambda>i. \<lparr>item_run_id = 9, item_reel_id = of_nat i, item_position = int i,
       item_outcome = RunItemOutcome.SOURCE_COMMITTED, item_auth_mode = Some DownloadAuthMode.SESSION_FIRST,
       item_reason_code = None, item_completed_at = None\<rparr>) [1..<11],
     jobs := map (\<lambda>i. new_job (of_nat (100 + i)) (of_nat i) 0 0) [1..<11]\<rparr>"

definition ten_store :: store where
  "ten_store = map (\<lambda>i. (''instagram-sources/'' @ show_nat i, \<lparr>obj_content = ''xy'', obj_content_type = ''video/mp4''\<rparr>)) [1..<11]"

definition ten_snapshots :: "durable_reel_snapshot list" where
  "ten_snapshots = map (\<lambda>i. \<lparr>snap_reel_id = of_nat i, snap_object_key = ''instagram-sources/'' @ show_nat i,
     snap_sha256 = t_sha256 sample_tools ''xy'', snap_byte_size = 2\<rparr>) [1..<11]"

definition ten_process :: operator where
  "ten_process = \<lparr>w_db = ten_db, w_store = ten_store, w_faults = [], w_cancel = [], w_clock = [], w_uuids = [], w_events = [],
     c_files = [], c_feed = [], c_downloads = [], c_monotonic = [], c_recorded = [],
     l_confirmed_advances = 0, l_transition_operations = 0, l_scroll_actions = 0,
     l_committed_bytes = 0, l_seen = [], l_duplicate_skipped_count = 0, l_observations = 0,
     l_reason = None, l_position = 1, l_candidate = \<lparr>shortcode = [], canonical_url = []\<rparr>,
     l_published = None, l_stage = [], l_download_attempted = False, l_db_committed = False,
     o_answers = [], o_opened = [], o_setup = [], o_feed = False, o_transcript = new_transcript\<rparr>"

definition ten_operator :: operator_config where
  "ten_operator = \<lparr>oc_host = demo_host, oc_repository = [''app''], oc_runtime = demo_settings, oc_tools = sample_tools,
     oc_given_account = None, oc_stored_account = Inr 7, oc_existing_feed = False\<rparr>"

definition ten_plan :: stage3c1_plan where
  "ten_plan = \<lparr>pn_account_id = 7, pn_initial_durable_count = 10, pn_desired_total = 10, pn_remaining = 0,
     pn_baseline = ten_snapshots\<rparr>"

lemma ten_rows: "constraints_ok ten_db" "account_durable_count 7 ten_db = 10"
  "account_durable_baseline length 7 ten_db = ten_snapshots" "\<not> active_run_exists 7 ten_db"
  "stage3c1_rows_valid (map snap_reel_id ten_snapshots) ten_db" "get_account ten_db 7 \<noteq> None"
  by code_simp+

lemma ten_items:
  "\<forall>item \<in> set ten_snapshots. \<not> is_temporary_name (snap_object_key item)" "originals_kept ten_snapshots ten_snapshots"
  "\<forall>item \<in> set ten_snapshots. store_get ten_store (snap_object_key item) =
     Some \<lparr>obj_content = ''xy'', obj_content_type = ''video/mp4''\<rparr>"
  "\<forall>k \<in> set (map fst ten_store). startswith k source_objects_prefix" "length ten_snapshots = 10"
  "require_live demo_host [''app''] demo_settings = Inr ()" "stage3c1_settings_ok demo_settings"
  by code_simp+

lemma ten_stored: "\<forall>item \<in> set ten_snapshots. snapshot_stored (t_sha256 sample_tools) ten_store item"
  using ten_items(3) by (auto simp: snapshot_stored_def ten_snapshots_def)

lemma ten_bucket: "bucket_is (t_sha256 sample_tools) ten_store ten_snapshots"
proof -
  have "map fst ten_store = map snap_object_key ten_snapshots"
    by (simp add: ten_store_def ten_snapshots_def del: upt_Suc)
  then have "set (map fst ten_store) = snap_object_key ` set ten_snapshots" by (metis set_map)
  then show ?thesis
    using ten_items(4) ten_stored by (auto simp: bucket_is_def store_get_def map_of_eq_None_iff image_iff)
qed

lemma ten_plan_ok: "plan_ok (t_sha256 sample_tools) length ten_plan ten_db ten_store"
  using ten_rows(3) ten_items(5) ten_stored by (simp add: plan_ok_def ten_plan_def)

lemma ten_process_facts: "w_db ten_process = ten_db" "w_store ten_process = ten_store" "calm ten_process"
  by (simp_all add: ten_process_def calm_def)

lemma ten_prepared: "prepare_stage3c1 (t_sha256 sample_tools) length 7 10 ten_process = (Inr ten_plan, ten_process)"
  using calm_prepare [OF ten_process_facts(3), of "t_sha256 sample_tools" length ten_plan] ten_plan_ok ten_rows(2) ten_items(5)
  by (simp add: ten_process_facts) (simp add: ten_plan_def)

theorem plan_of_stored_reels_witness:
  "plan_ok (t_sha256 sample_tools) length ten_plan (w_db ten_process) (w_store ten_process)"
  using plan_of_stored_reels [OF ten_prepared] by simp

lemma ten_ensured: "ensure_account 7 ten_db = (Inr (), ten_db)"
  using ten_rows(1,6) by (auto simp: ensure_account_def transaction_def)

lemma ten_planned: "plan_stage3c1 ten_operator length 10 ten_process = (Inr ten_plan, ten_process)"
  using ten_process_facts ten_rows(4) ten_items(6,7)
  by (simp add: plan_stage3c1_def bind_def ten_operator_def call_def ret_def calm_build_client calm_db_call calm_db_read
      ten_ensured ten_prepared)

lemma calm_verified:
  assumes "calm s" "w_db s = ten_db" "w_store s = ten_store"
  shows "verify_stage3c1 (t_sha256 sample_tools) length ten_plan None [] s =
    (Inr \<lparr>cv_verified = True, cv_final_durable_count = 10, cv_reason_code = None\<rparr>, s)"
  using assms ten_rows ten_items ten_bucket
  by (simp add: verify_stage3c1_def bind_def calm_db_read calm_bucket_matches ten_plan_def Let_def ret_def
      stage_3c1_limits summary_valid_def)

lemma ten_run:
  "\<exists>transcript t. run_stage3c1 ten_operator length 10 ten_process =
     (Inr (None, transcript, ten_plan, None) :: unit signal + stage3c1_result, t) \<and> w_db t = ten_db \<and> w_store t = ten_store"
proof -
  let ?s = "ten_process\<lparr>o_transcript := new_transcript\<lparr>st_account_id := Some 7\<rparr>, o_feed := False\<rparr>"
  have "calm ?s" "w_db ?s = ten_db" "w_store ?s = ten_store"
    using ten_process_facts by (simp_all add: calm_def)
  note calm_verified [OF this, simp] and this [simp]
  have [simp]: "t_sha256 (oc_tools ten_operator) = t_sha256 sample_tools" "pn_remaining ten_plan = 0" "pn_account_id ten_plan = 7"
    by (simp_all add: ten_operator_def ten_plan_def)
  show ?thesis
    by (simp add: run_stage3c1_def function_body_def bind_def ten_planned modify_def verify_continuation_def set_transcript_def
        ret_def leave_runs ten_process_facts)
qed

theorem continuation_left_ten_witness: "ten_reels (t_sha256 sample_tools) length ten_plan ten_db ten_store"
proof -
  obtain transcript t where run: "run_stage3c1 ten_operator length 10 ten_process =
      (Inr (None, transcript, ten_plan, None) :: unit signal + stage3c1_result, t)" "w_db t = ten_db" "w_store t = ten_store"
    using ten_run by blast
  have "constraints_ok (w_db ten_process)" using ten_rows(1) ten_process_facts by simp
  from continuation_left_ten [OF this run(1)] run(2,3) show ?thesis by (simp add: ten_operator_def)
qed

end
