(* ===== verification/ProfileLock.thy ===== *)
theory ProfileLock
  imports RuntimeConfig
begin

text \<open>
  \<open>ProfileLock\<close> of \<open>runtime/profile_lock.py\<close> on a POSIX host: the advisory lock that keeps a browser profile to one
  process. The kernel's part is a table of the exclusive locks, each held by an open descriptor, as \<open>flock\<close> keeps
  them: \<open>LOCK_NB\<close> fails while another descriptor has the file, and closing a descriptor gives its lock back. The
  lock objects of all processes are one list; an operation names the object it is called on, and a process may
  die at any time, which closes its descriptors. \<open>lk_faults\<close> says of each system call in turn whether it fails.
  The fallback for hosts without \<open>fcntl\<close> is not modelled.
\<close>

section \<open>Lock objects and the kernel\<close>

record profile_lock =
  pl_path :: path
  pl_held :: bool
  pl_descriptor :: "nat option"

record lock_world =
  lk_table :: "(path \<times> nat) list"
  lk_open :: "(nat \<times> path) list"
  lk_fresh :: nat
  lk_faults :: "bool list"
  lk_locks :: "profile_lock list"

type_synonym 'a lock_act = "(lock_world, unit, 'a) act"

definition new_profile_lock :: "path \<Rightarrow> profile_lock" where
  "new_profile_lock directory = \<lparr>pl_path = directory @ [''.collector.lock''], pl_held = False, pl_descriptor = None\<rparr>"

section \<open>System calls\<close>

definition failing :: "bool list \<Rightarrow> bool" where
  "failing faults = (case faults of [] \<Rightarrow> False | b # _ \<Rightarrow> b)"

definition system_call :: "'a lock_act \<Rightarrow> 'a lock_act" where
  "system_call a = with_state (\<lambda>s.
     bind (modify (\<lambda>s. s\<lparr>lk_faults := tl (lk_faults s)\<rparr>)) (\<lambda>_.
     if failing (lk_faults s) then raise OtherError else a))"

definition os_open :: "path \<Rightarrow> nat lock_act" where
  "os_open p = system_call (with_state (\<lambda>s.
     bind (modify (\<lambda>s. s\<lparr>lk_open := (lk_fresh s, p) # lk_open s, lk_fresh := lk_fresh s + 1\<rparr>)) (\<lambda>_.
     ret (lk_fresh s))))"

text \<open>\<open>flock(descriptor, LOCK_EX | LOCK_NB)\<close> and \<open>flock(descriptor, LOCK_UN)\<close>.\<close>

definition flock_exclusive :: "nat \<Rightarrow> unit lock_act" where
  "flock_exclusive d = system_call (with_state (\<lambda>s.
     case map_of (lk_open s) d of
       None \<Rightarrow> raise OtherError
     | Some p \<Rightarrow>
         (case map_of (lk_table s) p of
            Some e \<Rightarrow> if e = d then ret () else raise OtherError
          | None \<Rightarrow> modify (\<lambda>s. s\<lparr>lk_table := (p, d) # lk_table s\<rparr>))))"

definition without_descriptor :: "nat \<Rightarrow> lock_world \<Rightarrow> lock_world" where
  "without_descriptor d s = s\<lparr>lk_table := filter (\<lambda>e. snd e \<noteq> d) (lk_table s)\<rparr>"

definition flock_unlock :: "nat \<Rightarrow> unit lock_act" where
  "flock_unlock d = system_call (modify (without_descriptor d))"

definition closed :: "nat \<Rightarrow> lock_world \<Rightarrow> lock_world" where
  "closed d s = (without_descriptor d s)\<lparr>lk_open := filter (\<lambda>e. fst e \<noteq> d) (lk_open s)\<rparr>"

definition os_close :: "nat \<Rightarrow> unit lock_act" where
  "os_close d = modify (closed d)"

section \<open>Acquiring and releasing\<close>

definition set_lock :: "nat \<Rightarrow> (profile_lock \<Rightarrow> profile_lock) \<Rightarrow> unit lock_act" where
  "set_lock i f = modify (\<lambda>s. s\<lparr>lk_locks := (lk_locks s)[i := f (lk_locks s ! i)]\<rparr>)"

text \<open>After \<open>os.open\<close> a failure closes the descriptor, which gives back what \<open>flock\<close> took.\<close>

definition acquire_posix :: "nat \<Rightarrow> unit lock_act" where
  "acquire_posix i = with_state (\<lambda>s. let p = pl_path (lk_locks s ! i) in
     bind (try_except (bind (system_call (ret ())) (\<lambda>_. os_open p)) (\<lambda>_. raise profile_in_use)) (\<lambda>d.
     bind (try_except
        (block [flock_exclusive d, system_call (ret ()), system_call (ret ())])
        (\<lambda>_. bind (os_close d) (\<lambda>_. raise profile_in_use))) (\<lambda>_.
     set_lock i (\<lambda>l. l\<lparr>pl_descriptor := Some d, pl_held := True\<rparr>))))"

definition release :: "nat \<Rightarrow> unit lock_act" where
  "release i = with_state (\<lambda>s.
     if \<not> pl_held (lk_locks s ! i) then ret ()
     else
       (case pl_descriptor (lk_locks s ! i) of
          None \<Rightarrow> set_lock i (\<lambda>l. l\<lparr>pl_held := False\<rparr>)
        | Some d \<Rightarrow>
            finally_do (try_except (flock_unlock d) (\<lambda>_. ret ()))
              (bind (os_close d) (\<lambda>_. set_lock i (\<lambda>l. l\<lparr>pl_descriptor := None, pl_held := False\<rparr>)))))"

section \<open>Processes side by side\<close>

text \<open>What may happen next: a call on one of the lock objects, a new object, or the death of a process.\<close>

datatype lock_op = OpNew path | OpAcquire nat | OpRelease nat | OpDie nat

fun run_lock_op :: "lock_op \<Rightarrow> unit lock_act" where
  "run_lock_op (OpNew directory) = modify (\<lambda>s. s\<lparr>lk_locks := lk_locks s @ [new_profile_lock directory]\<rparr>)"
| "run_lock_op (OpAcquire i) = branch (\<lambda>s. i < length (lk_locks s)) (acquire_posix i) (ret ())"
| "run_lock_op (OpRelease i) = branch (\<lambda>s. i < length (lk_locks s)) (release i) (ret ())"
| "run_lock_op (OpDie i) = with_state (\<lambda>s.
     if i < length (lk_locks s)
     then bind (case pl_descriptor (lk_locks s ! i) of None \<Rightarrow> ret () | Some d \<Rightarrow> os_close d)
       (\<lambda>_. set_lock i (\<lambda>l. l\<lparr>pl_descriptor := None, pl_held := False\<rparr>))
     else ret ())"

definition lock_history :: "lock_op list \<Rightarrow> lock_world \<Rightarrow> lock_world" where
  "lock_history ops s = fold (\<lambda>op s. snd (run_lock_op op s)) ops s"

definition no_locks :: "bool list \<Rightarrow> lock_world" where
  "no_locks faults = \<lparr>lk_table = [], lk_open = [], lk_fresh = 0, lk_faults = faults, lk_locks = []\<rparr>"

section \<open>The invariant\<close>

text \<open>
  The kernel's table has a file once and only open descriptors, which are all old; a lock object is held
  exactly when it has a descriptor, and the kernel has its file under it; no two objects share one.
\<close>

definition kernel_ok :: "lock_world \<Rightarrow> bool" where
  "kernel_ok s \<longleftrightarrow> distinct (map fst (lk_table s)) \<and> distinct (map fst (lk_open s)) \<and>
     (\<forall>(d, p) \<in> set (lk_open s). d < lk_fresh s) \<and> (\<forall>(p, d) \<in> set (lk_table s). (d, p) \<in> set (lk_open s))"

definition lock_backed :: "lock_world \<Rightarrow> profile_lock \<Rightarrow> bool" where
  "lock_backed s l \<longleftrightarrow> pl_held l = (pl_descriptor l \<noteq> None) \<and>
     (\<forall>d. pl_descriptor l = Some d \<longrightarrow> (pl_path l, d) \<in> set (lk_table s) \<and> (d, pl_path l) \<in> set (lk_open s))"

definition own_descriptors :: "profile_lock list \<Rightarrow> bool" where
  "own_descriptors ls \<longleftrightarrow> (\<forall>i j d. i < length ls \<longrightarrow> j < length ls \<longrightarrow> pl_descriptor (ls ! i) = Some d \<longrightarrow>
     pl_descriptor (ls ! j) = Some d \<longrightarrow> i = j)"

definition locks_ok :: "lock_world \<Rightarrow> bool" where
  "locks_ok s \<longleftrightarrow> kernel_ok s \<and> (\<forall>l \<in> set (lk_locks s). lock_backed s l) \<and> own_descriptors (lk_locks s) \<and>
     (\<forall>(d, p) \<in> set (lk_open s). \<exists>l \<in> set (lk_locks s). pl_descriptor l = Some d)"

lemma kernel_fresh:
  assumes "kernel_ok s"
  shows "filter (\<lambda>e. snd e \<noteq> lk_fresh s) (lk_table s) = lk_table s"
    "filter (\<lambda>e. fst e \<noteq> lk_fresh s) (lk_open s) = lk_open s"
    "map_of (lk_table s) p \<noteq> Some (lk_fresh s)"
  using assms by (force simp: kernel_ok_def filter_id_conv dest: map_of_SomeD)+

section \<open>What the operations do\<close>

text \<open>The kernel's calls, and an attempt that either leaves everything or takes a free file.\<close>

definition untouched_locks :: "lock_world \<Rightarrow> lock_world \<Rightarrow> bool" where
  "untouched_locks s t \<longleftrightarrow> lk_table t = lk_table s \<and> lk_open t = lk_open s \<and> lk_locks t = lk_locks s \<and>
     lk_fresh s \<le> lk_fresh t"

definition taken_lock :: "nat \<Rightarrow> lock_world \<Rightarrow> lock_world \<Rightarrow> bool" where
  "taken_lock i s t \<longleftrightarrow>
     (let p = pl_path (lk_locks s ! i); d = lk_fresh s in
      map_of (lk_table s) p = None \<and> lk_table t = (p, d) # lk_table s \<and> lk_open t = (d, p) # lk_open s \<and>
      lk_fresh t = d + 1 \<and>
      lk_locks t = (lk_locks s)[i := (lk_locks s ! i)\<lparr>pl_descriptor := Some d, pl_held := True\<rparr>])"

lemma system_call_outcome:
  "wp (system_call a) Q s \<longleftrightarrow>
     (if failing (lk_faults s) then Q (Inl (Raise OtherError)) (s\<lparr>lk_faults := tl (lk_faults s)\<rparr>)
      else wp a Q (s\<lparr>lk_faults := tl (lk_faults s)\<rparr>))"
  by (simp add: system_call_def wp_rules)

lemma acquire_outcome:
  assumes "kernel_ok s"
  shows "wp (acquire_posix i) (\<lambda>r t. r = Inl (Raise profile_in_use) \<and> untouched_locks s t \<or>
     r = Inr () \<and> taken_lock i s t) s"
  using kernel_fresh [OF assms]
  by (simp add: acquire_posix_def Let_def wp_rules system_call_outcome os_open_def flock_exclusive_def os_close_def
      closed_def without_descriptor_def set_lock_def untouched_locks_def taken_lock_def split: option.splits)


definition given_back :: "nat \<Rightarrow> nat \<Rightarrow> lock_world \<Rightarrow> lock_world \<Rightarrow> bool" where
  "given_back i d s t \<longleftrightarrow>
     lk_table t = filter (\<lambda>e. snd e \<noteq> d) (lk_table s) \<and> lk_open t = filter (\<lambda>e. fst e \<noteq> d) (lk_open s) \<and>
     lk_fresh t = lk_fresh s \<and>
     lk_locks t = (lk_locks s)[i := (lk_locks s ! i)\<lparr>pl_descriptor := None, pl_held := False\<rparr>]"

lemma list_update_known: "i < length xs \<Longrightarrow> y = xs ! i \<Longrightarrow> xs[i := y] = xs"
  by simp

lemma release_outcome:
  assumes "locks_ok s" "i < length (lk_locks s)"
  shows "wp (release i) (\<lambda>r t. r = Inr () \<and>
     (case pl_descriptor (lk_locks s ! i) of None \<Rightarrow> untouched_locks s t | Some d \<Rightarrow> given_back i d s t)) s"
proof -
  have "pl_held (lk_locks s ! i) = (pl_descriptor (lk_locks s ! i) \<noteq> None)"
    using assms by (auto simp: locks_ok_def lock_backed_def)
  then show ?thesis
    by (auto simp: release_def wp_rules flock_unlock_def system_call_outcome os_close_def closed_def
        without_descriptor_def set_lock_def untouched_locks_def given_back_def split: option.splits)
qed

lemma die_outcome:
  assumes "locks_ok s" "i < length (lk_locks s)"
  shows "wp (run_lock_op (OpDie i)) (\<lambda>r t.
     (case pl_descriptor (lk_locks s ! i) of None \<Rightarrow> untouched_locks s t | Some d \<Rightarrow> given_back i d s t)) s"
proof -
  have "pl_held (lk_locks s ! i) = (pl_descriptor (lk_locks s ! i) \<noteq> None)"
    using assms by (auto simp: locks_ok_def lock_backed_def)
  then have "pl_descriptor (lk_locks s ! i) = None \<Longrightarrow>
      (lk_locks s ! i)\<lparr>pl_descriptor := None, pl_held := False\<rparr> = lk_locks s ! i"
    by (cases "lk_locks s ! i") simp
  then show ?thesis
    using assms(2)
    by (auto simp: wp_rules os_close_def closed_def without_descriptor_def set_lock_def untouched_locks_def
        given_back_def split: option.splits)
qed

section \<open>Every operation keeps the invariant\<close>

lemma locks_ok_untouched: "locks_ok s \<Longrightarrow> untouched_locks s t \<Longrightarrow> locks_ok t"
  by (fastforce simp: locks_ok_def kernel_ok_def untouched_locks_def lock_backed_def)

lemma own_descriptors_update:
  assumes "own_descriptors ls" "\<And>l d. l \<in> set ls \<Longrightarrow> pl_descriptor l = Some d \<Longrightarrow> pl_descriptor l' \<noteq> Some d"
  shows "own_descriptors (ls[i := l'])"
  unfolding own_descriptors_def
proof (intro allI impI)
  fix j k d
  assume "j < length (ls[i := l'])" "k < length (ls[i := l'])"
    and d: "pl_descriptor (ls[i := l'] ! j) = Some d" "pl_descriptor (ls[i := l'] ! k) = Some d"
  then have len: "j < length ls" "k < length ls" by simp_all
  with assms(2) [of "ls ! j" d] assms(2) [of "ls ! k" d] d have "(j = i) = (k = i)"
    by (auto simp: nth_list_update split: if_splits)
  with assms(1) len d show "j = k" by (cases "j = i") (auto simp: own_descriptors_def)
qed

lemma locks_ok_taken:
  assumes ok: "locks_ok s" and taken: "taken_lock i s t" and i: "i < length (lk_locks s)"
    and free: "pl_descriptor (lk_locks s ! i) = None"
  shows "locks_ok t"
proof -
  let ?d = "lk_fresh s" and ?p = "pl_path (lk_locks s ! i)"
  let ?l = "(lk_locks s ! i)\<lparr>pl_descriptor := Some ?d, pl_held := True\<rparr>"
  have t: "lk_table t = (?p, ?d) # lk_table s" "lk_open t = (?d, ?p) # lk_open s" "lk_fresh t = ?d + 1"
    "lk_locks t = (lk_locks s)[i := ?l]" "map_of (lk_table s) ?p = None"
    using taken by (simp_all add: taken_lock_def Let_def)
  have k: "kernel_ok s" and backed: "\<And>l. l \<in> set (lk_locks s) \<Longrightarrow> lock_backed s l"
    and own: "own_descriptors (lk_locks s)"
    and owner: "\<And>d p. (d, p) \<in> set (lk_open s) \<Longrightarrow> \<exists>l \<in> set (lk_locks s). pl_descriptor l = Some d"
    using ok by (auto simp: locks_ok_def)
  have new: "pl_descriptor l \<noteq> Some ?d" if "l \<in> set (lk_locks s)" for l
    using backed [OF that] k by (auto simp: lock_backed_def kernel_ok_def)
  have "?p \<notin> fst ` set (lk_table s)" using t(5) by (simp add: map_of_eq_None_iff)
  moreover have "?d \<notin> fst ` set (lk_open s)" using k by (force simp: kernel_ok_def)
  ultimately have "kernel_ok t"
    using k by (fastforce simp: kernel_ok_def t(1-3))
  moreover have "lock_backed t l" if "l \<in> set (lk_locks t)" for l
    using that backed unfolding t(4)
    by (auto simp: lock_backed_def t(1,2) dest!: set_update_subset_insert [THEN subsetD])
  moreover have "own_descriptors (lk_locks t)"
    unfolding t(4) by (rule own_descriptors_update [OF own]) (use new in auto)
  moreover have "\<exists>l \<in> set (lk_locks t). pl_descriptor l = Some d" if "(d, p) \<in> set (lk_open t)" for d p
  proof (cases "d = ?d")
    case True
    with i show ?thesis by (intro bexI [of _ ?l]) (auto simp: t(4) set_update_memI)
  next
    case False
    with that obtain l where l: "l \<in> set (lk_locks s)" "pl_descriptor l = Some d"
      using owner by (fastforce simp: t(2))
    then obtain j where "j < length (lk_locks s)" "lk_locks s ! j = l" by (auto simp: in_set_conv_nth)
    with l free have "j \<noteq> i" by auto
    with \<open>j < length (lk_locks s)\<close> \<open>lk_locks s ! j = l\<close> have "lk_locks t ! j = l" "j < length (lk_locks t)"
      by (simp_all add: t(4))
    with l(2) show ?thesis by (metis nth_mem)
  qed
  ultimately show ?thesis unfolding locks_ok_def by blast
qed

lemma locks_ok_given_back:
  assumes ok: "locks_ok s" and gave: "given_back i d s t" and i: "i < length (lk_locks s)"
    and mine: "pl_descriptor (lk_locks s ! i) = Some d"
  shows "locks_ok t"
proof -
  let ?l = "(lk_locks s ! i)\<lparr>pl_descriptor := None, pl_held := False\<rparr>"
  have t: "lk_table t = filter (\<lambda>e. snd e \<noteq> d) (lk_table s)" "lk_open t = filter (\<lambda>e. fst e \<noteq> d) (lk_open s)"
    "lk_fresh t = lk_fresh s" "lk_locks t = (lk_locks s)[i := ?l]"
    using gave by (simp_all add: given_back_def)
  have k: "kernel_ok s" and backed: "\<And>l. l \<in> set (lk_locks s) \<Longrightarrow> lock_backed s l"
    and own: "own_descriptors (lk_locks s)"
    and owner: "\<And>d p. (d, p) \<in> set (lk_open s) \<Longrightarrow> \<exists>l \<in> set (lk_locks s). pl_descriptor l = Some d"
    using ok by (auto simp: locks_ok_def)
  have "kernel_ok t"
    using k by (fastforce simp: kernel_ok_def t(1-3) distinct_map_filter)
  moreover have "lock_backed t l" if "l \<in> set (lk_locks t)" for l
  proof -
    from that obtain j where j: "j < length (lk_locks s)" "l = lk_locks t ! j"
      by (auto simp: in_set_conv_nth t(4))
    show ?thesis
    proof (cases "j = i")
      case True
      with j i show ?thesis by (simp add: lock_backed_def t(4))
    next
      case False
      with j have l: "l = lk_locks s ! j" by (simp add: t(4))
      with False j i own mine have "pl_descriptor l \<noteq> Some d" by (auto simp: own_descriptors_def)
      moreover have "lock_backed s l" using backed j(1) l by simp
      ultimately show ?thesis by (auto simp: lock_backed_def t(1,2))
    qed
  qed
  moreover have "own_descriptors (lk_locks t)"
    unfolding t(4) by (rule own_descriptors_update [OF own]) auto
  moreover have "\<exists>l \<in> set (lk_locks t). pl_descriptor l = Some e" if "(e, p) \<in> set (lk_open t)" for e p
  proof -
    from that obtain l where l: "l \<in> set (lk_locks s)" "pl_descriptor l = Some e" and "e \<noteq> d"
      using owner by (fastforce simp: t(2))
    then obtain j where j: "j < length (lk_locks s)" "lk_locks s ! j = l" by (auto simp: in_set_conv_nth)
    with l \<open>e \<noteq> d\<close> mine have "j \<noteq> i" by auto
    with j have "lk_locks t ! j = l" "j < length (lk_locks t)" by (auto simp: t(4))
    with l(2) show ?thesis by (metis nth_mem)
  qed
  ultimately show ?thesis unfolding locks_ok_def by blast
qed


lemma run_lock_op_ok:
  assumes ok: "locks_ok s"
  shows "locks_ok (snd (run_lock_op op s))"
proof -
  have acquire: "wp (acquire_posix i) (\<lambda>_. locks_ok) s" if i: "i < length (lk_locks s)" for i
  proof (rule wp_mono [OF acquire_outcome])
    show "kernel_ok s" using ok by (simp add: locks_ok_def)
    fix r t
    assume "r = Inl (Raise profile_in_use) \<and> untouched_locks s t \<or> r = Inr () \<and> taken_lock i s t"
    then show "locks_ok t"
    proof
      assume taken: "r = Inr () \<and> taken_lock i s t"
      have "lock_backed s (lk_locks s ! i)" using ok i by (simp add: locks_ok_def)
      with taken have "pl_descriptor (lk_locks s ! i) = None"
        using weak_map_of_SomeI [of "pl_path (lk_locks s ! i)" _ "lk_table s"]
        by (auto simp: lock_backed_def taken_lock_def Let_def)
      with taken show ?thesis using locks_ok_taken [OF ok _ i] by blast
    qed (use locks_ok_untouched [OF ok] in blast)
  qed
  have given: "locks_ok t" if "i < length (lk_locks s)"
    "case pl_descriptor (lk_locks s ! i) of None \<Rightarrow> untouched_locks s t | Some d \<Rightarrow> given_back i d s t" for i t
    using that locks_ok_untouched [OF ok] locks_ok_given_back [OF ok] by (auto split: option.splits)
  have "wp (run_lock_op op) (\<lambda>_. locks_ok) s"
  proof (cases op)
    case (OpNew directory)
    have "own_descriptors (lk_locks s @ [new_profile_lock directory])"
      using ok by (auto simp: locks_ok_def own_descriptors_def nth_append new_profile_lock_def)
    then show ?thesis
      using ok unfolding OpNew
      by (auto simp: wp_rules locks_ok_def kernel_ok_def lock_backed_def new_profile_lock_def)
  next
    case (OpAcquire i)
    with acquire ok show ?thesis by (simp add: wp_rules)
  next
    case (OpRelease i)
    show ?thesis
      unfolding OpRelease using given ok
      by (auto simp: wp_rules intro!: wp_mono [OF release_outcome [OF ok]])
  next
    case (OpDie i)
    show ?thesis
    proof (cases "i < length (lk_locks s)")
      case True
      show ?thesis
        unfolding OpDie by (rule wp_mono [OF die_outcome [OF ok True]], rule given [OF True])
    next
      case False
      with ok show ?thesis unfolding OpDie by (simp add: wp_rules)
    qed
  qed
  then show ?thesis by (simp add: wp_def split: prod.splits)
qed

lemma lock_history_ok: "locks_ok (lock_history ops (no_locks faults))"
proof -
  have "locks_ok (fold (\<lambda>op s. snd (run_lock_op op s)) ops s)" if "locks_ok s" for s
    using that by (induction ops arbitrary: s) (simp_all only: fold_Nil fold_Cons o_apply id_apply run_lock_op_ok)
  moreover have "locks_ok (no_locks faults)"
    by (simp add: no_locks_def locks_ok_def kernel_ok_def own_descriptors_def)
  ultimately show ?thesis by (simp add: lock_history_def)
qed

section \<open>One holder\<close>

text \<open>
  C8: A browser profile has at most one holder. Whatever the processes do, in whatever order and whichever
  system calls fail, no two lock objects of the same profile directory are held at once.
\<close>

theorem profile_lock_exclusive:
  assumes "s = lock_history ops (no_locks faults)" "i < length (lk_locks s)" "j < length (lk_locks s)"
    "pl_held (lk_locks s ! i)" "pl_held (lk_locks s ! j)" "pl_path (lk_locks s ! i) = pl_path (lk_locks s ! j)"
  shows "i = j"
proof -
  have ok: "locks_ok s" using assms(1) lock_history_ok by simp
  then have "lock_backed s (lk_locks s ! i)" "lock_backed s (lk_locks s ! j)"
    using assms(2,3) by (simp_all add: locks_ok_def)
  then obtain d e where d: "pl_descriptor (lk_locks s ! i) = Some d" "pl_descriptor (lk_locks s ! j) = Some e"
    "(pl_path (lk_locks s ! i), d) \<in> set (lk_table s)" "(pl_path (lk_locks s ! j), e) \<in> set (lk_table s)"
    using assms(4,5) by (auto simp: lock_backed_def)
  have "d = e"
    using ok d(3,4) assms(6) eq_key_imp_eq_value [of "lk_table s"] by (auto simp: locks_ok_def kernel_ok_def)
  with d(1,2) ok assms(2,3) show ?thesis unfolding locks_ok_def own_descriptors_def by blast
qed

text \<open>
  A lock is never left behind. When no live lock object of a profile is held, because its holder released it or
  died, an attempt whose system calls succeed acquires it, whatever happened before.
\<close>

theorem profile_lock_free:
  assumes "s = lock_history ops (no_locks faults)" "i < length (lk_locks s)" "lk_faults s = []"
    "\<forall>l \<in> set (lk_locks s). pl_path l = pl_path (lk_locks s ! i) \<longrightarrow> \<not> pl_held l"
  shows "\<exists>t. acquire_posix i s = (Inr (), t) \<and> pl_held (lk_locks t ! i)"
proof -
  let ?p = "pl_path (lk_locks s ! i)"
  have ok: "locks_ok s" using assms(1) lock_history_ok by simp
  have free: "map_of (lk_table s) ?p = None"
  proof (rule ccontr)
    assume "map_of (lk_table s) ?p \<noteq> None"
    then obtain d where d: "(?p, d) \<in> set (lk_table s)" by (auto dest: map_of_SomeD)
    then have opened: "(d, ?p) \<in> set (lk_open s)" using ok by (auto simp: locks_ok_def kernel_ok_def)
    then obtain l where l: "l \<in> set (lk_locks s)" "pl_descriptor l = Some d"
      using ok by (auto simp: locks_ok_def)
    then have "(d, pl_path l) \<in> set (lk_open s)" "pl_held l" using ok by (auto simp: locks_ok_def lock_backed_def)
    with opened ok have "pl_path l = ?p"
      using eq_key_imp_eq_value [of "lk_open s" d] by (auto simp: locks_ok_def kernel_ok_def)
    with assms(4) l(1) \<open>pl_held l\<close> show False by blast
  qed
  have "wp (acquire_posix i) (\<lambda>r t. r = Inr () \<and> pl_held (lk_locks t ! i)) s"
    using free assms(2,3)
    by (simp add: acquire_posix_def Let_def wp_rules system_call_outcome os_open_def flock_exclusive_def set_lock_def
        failing_def)
  then show ?thesis by (auto simp: wp_def split: prod.splits)
qed

definition lock_story :: "lock_op list" where
  "lock_story = [OpNew [''srv''], OpNew [''srv''], OpAcquire 0, OpAcquire 1, OpDie 0]"

theorem profile_lock_free_witness:
  "\<exists>t. acquire_posix 1 (lock_history lock_story (no_locks [])) = (Inr (), t) \<and> pl_held (lk_locks t ! 1)"
proof (rule profile_lock_free [OF HOL.refl])
  show "1 < length (lk_locks (lock_history lock_story (no_locks [])))" by code_simp
  show "lk_faults (lock_history lock_story (no_locks [])) = []" by code_simp
  show "\<forall>l \<in> set (lk_locks (lock_history lock_story (no_locks []))).
      pl_path l = pl_path (lk_locks (lock_history lock_story (no_locks [])) ! 1) \<longrightarrow> \<not> pl_held l" by code_simp
qed

theorem profile_lock_exclusive_witness:
  "(0::nat) = 0 \<and> pl_held (lk_locks (lock_history [OpNew [''srv''], OpNew [''srv''], OpAcquire 0, OpAcquire 1] (no_locks [])) ! 0)"
proof -
  let ?s = "lock_history [OpNew [''srv''], OpNew [''srv''], OpAcquire 0, OpAcquire 1] (no_locks [])"
  have held: "pl_held (lk_locks ?s ! 0)" "0 < length (lk_locks ?s)" by code_simp+
  from profile_lock_exclusive [OF HOL.refl held(2,2) held(1,1) HOL.refl] held(1) show ?thesis by simp
qed

end
