(* ===== verification/Spec2Isabelle.thy ===== *)
theory Spec2Isabelle
  imports EngineProps LoginProps FeedProps Handoff VideoProps ManagementSync GatewayProps DownloaderProps VerificationProps BrowserProps
    OperatorProps Stage3c1Props ProfileLock
begin

text \<open>
  Offline Reels: a verification development of the server.

  \<^bold>\<open>The program.\<close> A person reads Instagram Reels offline. A \<^emph>\<open>Collector\<close> drives a browser through the person's
  feed, downloads each Reel and commits it to PostgreSQL and to a MinIO bucket; a \<^emph>\<open>normalizer\<close> turns committed
  sources into playable videos; a \<^emph>\<open>video service\<close> lists and streams them; a \<^emph>\<open>management API\<close> pairs devices and
  commands runs; a \<^emph>\<open>login gateway\<close> lets the person log in to Instagram in a remote browser. They share the
  tables of \<open>db/models/\<close> and the bucket, and nothing else. All paths are below \<open>src/apps/api/app/\<close>, \<open>runtime/\<close> is
  \<open>instagram/collector/runtime/\<close>.

  \<^bold>\<open>How code is translated.\<close> \<open>Prelude\<close> has the exceptions the code raises and Python calls that may raise, as values
  of a sum. \<open>Actions\<close> has statements: a state goes in, and a state with a value or a signal (an exception, a
  \<open>break\<close>, a \<open>return\<close>, or fuel run out) comes out; \<open>bind\<close>, \<open>try_except\<close>, \<open>finally_do\<close>, \<open>attempt\<close>, \<open>rounds\<close> and
  \<open>function_body\<close> are the statements of the source, and \<open>wp\<close>, \<open>keeps\<close> and \<open>estab\<close> the calculus the proofs use.
  \<open>PyText\<close>, \<open>Json\<close> and \<open>Uuid\<close> have the string, JSON and UUID functions of the standard library. \<open>Tables\<close> has one
  record per table with the constraints PostgreSQL checks when a transaction commits; a transaction that raises,
  or that would break a constraint, changes nothing. \<open>World\<close> has the processes' surroundings: database, bucket,
  clock, \<open>uuid4\<close>, a list that says of each outside call in turn whether it fails, and one that says when another
  process cancels. A theorem that holds of every world therefore holds of every schedule of failures.

  \<^bold>\<open>Parts.\<close>
  \<^item> Contracts and policy (\<open>instagram/contracts.py\<close>, \<open>transitions.py\<close>): \<open>Contracts\<close>, \<open>Transitions\<close>. \<open>Lifecycle\<close> is the
    interface through which a component promises that a table of rows moves along such a policy; \<open>LoginProps\<close> and
    \<open>Handoff\<close> interpret it on the login sessions and the handoffs.
  \<^item> Persistence (\<open>instagram/collector/persistence.py\<close>): \<open>Persistence\<close>. \<open>Pipeline\<close> and \<open>CollectorStore\<close> show on every
    branch that a Reel has the job its status wants and the key its code names; \<open>RunLedger\<close> that the counters of a
    run are the counts of its items. Candidates: \<open>Canonical\<close> (\<open>canonical.py\<close>).
  \<^item> Collector engine (\<open>instagram/collector/service.py\<close>): \<open>Engine\<close>. \<open>EngineStore\<close> and \<open>EngineSafety\<close> show that database
    and bucket agree whatever fails, \<open>EngineTrace\<close> that the feed moves on only after the outcome is durable and
    that no foreign object is touched, \<open>EngineRuns\<close> that a run ends and how, \<open>EngineEvents\<close> which events it
    records. \<open>EngineProps\<close> has the properties and complete runs of the model.
  \<^item> Sources and downloads (\<open>runtime/minio_storage.py\<close>, \<open>validator.py\<close>, \<open>downloader.py\<close>, \<open>session_cookies.py\<close>):
    \<open>SourceStorage\<close>, \<open>Downloader\<close>, \<open>DownloaderProps\<close>.
  \<^item> Feed (\<open>runtime/feed_json.py\<close>, \<open>browser_feed.py\<close>): \<open>FeedSource\<close> with \<open>FeedProps\<close>; \<open>BrowserFeed\<close>, \<open>BrowserOps\<close>,
    \<open>BrowserSafety\<close> and \<open>BrowserProps\<close>. The page is a list of answers; what the theorems say holds of every list.
  \<^item> Operator (\<open>runtime/operator.py\<close>, \<open>stage3c1.py\<close>, \<open>settings.py\<close>, \<open>workspace.py\<close>, \<open>profile_lock.py\<close>): \<open>RuntimeConfig\<close>
    has the settings that allow a live run and the directories, \<open>ProfileLock\<close> the lock on a browser profile with
    any number of processes, \<open>Operator\<close> the live run of three and \<open>Stage3c1\<close> the continuation to ten. \<open>OperatorSafety\<close>
    states what a supervised run may rely on as the locale \<open>supervised\<close>, interpreted in \<open>OperatorProps\<close> for the
    claimed run and for the recorded transcript, and in \<open>Stage3c1Props\<close> for what a continuation leaves.
  \<^item> Check after a run (\<open>runtime/verification.py\<close>): \<open>Verification\<close>, \<open>VerificationProps\<close>.
  \<^item> Normalizer (\<open>instagram/normalizer/worker.py\<close>, \<open>media/\<close>): \<open>Media\<close>, \<open>Normalizer\<close>, with \<open>NormalizerStore\<close> for its
    transactions, \<open>NormalizerSafety\<close> for the agreement of database and bucket, \<open>NormalizerRun\<close> for the run that nothing
    disturbs, and \<open>NormalizerProps\<close>.
  \<^item> Login (\<open>instagram/login_sessions.py\<close>, \<open>login_gateway.py\<close>, \<open>runtime/handoff_state.py\<close>): \<open>LoginSessions\<close>,
    \<open>LoginSafety\<close>, \<open>LoginProps\<close>; \<open>LoginGateway\<close>, \<open>GatewayProps\<close>; \<open>Handoff\<close>. A \<^emph>\<open>history\<close> is any list of operations, so
    concurrent requests are covered up to the transactions they run.
  \<^item> Management API (\<open>api/management.py\<close>): \<open>Control\<close>, \<open>Management\<close>, \<open>ManagementApi\<close>, \<open>ManagementViews\<close>;
    \<open>ManagementSafety\<close> has its transactions as a step relation, \<open>ManagementProps\<close>, \<open>ManagementLimits\<close>,
    \<open>ManagementData\<close> and \<open>ManagementSync\<close> the properties.
  \<^item> Videos (\<open>services/videos.py\<close>, \<open>repositories/videos.py\<close>, \<open>api/videos.py\<close>, \<open>media/ranges.py\<close>): \<open>VideoStore\<close>,
    \<open>VideoService\<close>, \<open>Ranges\<close>, \<open>VideoProps\<close>.

  \<^bold>\<open>Bounds and fuel.\<close> Loops that the source bounds by a count are recursion over that count. The loop of the engine
  runs with the fuel \<open>round_bound\<close> of its limits, and \<open>collect_ends\<close> shows that it never runs out. Polling loops
  of the browser stop at a deadline; they run for the polls that fit before it. The traversal of a feed document
  stops after 20000 nodes, as in the source, and is shown equal to the list of its first nodes. The transcript of
  the operator keeps 256 events. Integers are Python's and unbounded; where a column has a width, the constraints
  of \<open>Tables\<close> and \<open>Control\<close> state it.

  \<^bold>\<open>Parameters.\<close> SHA-256, ffprobe, ffmpeg and decoding (record \<open>tools\<close>), what yt-dlp does with its directory, the
  answers of the browser and of the login browser, \<open>Path.resolve\<close> of the host, and the collation of the database.
  Nothing is assumed of them except where a theorem names it.

  \<^bold>\<open>Not modelled.\<close>
  \<^item> \<open>operator_state.py\<close>, \<open>factory.py\<close>, \<open>minio_client.py\<close>, \<open>core/settings.py\<close>, \<open>main.py\<close>, \<open>api/health.py\<close>, \<open>db/session.py\<close>:
    reading the environment and one file, and the wiring of the parts.
  \<^item> \<open>safe_summary_json\<close>, \<open>safe_stage3c1_json\<close> and the two writers of their text, the diagnostics they copy, and the
    console prompt \<open>wait_for_operator_enter\<close>: the report of a run, which nothing reads back.
  \<^item> The fallback of \<open>ProfileLock\<close> without \<open>fcntl\<close>: the server runs on Linux.
  \<^item> The HTML of the gateway, the relay of an accepted websocket, and the scripts that run inside the page: text, and
    a copy loop between two peers.
  \<^item> The alarm signal that ends a download and the options given to yt-dlp; the text encoding of a cursor
    (\<open>services/video_cursor.py\<close>), where a cursor is the position it stands for.
  \<^item> \<open>scripts/\<close>, \<open>instagram/collector/fixtures.py\<close> and the prototype under \<open>src/spikes/\<close>: fixtures and drivers of the
    tests; the migrations of \<open>alembic/\<close>, of which \<open>Tables\<close> and \<open>Control\<close> have the resulting schema.
  \<^item> The web application and \<open>apps/login-browser/\<close>: other processes, the first in another language, the second a
    browser with its X server, which the gateway only sees as answers.
\<close>

end
